(* ===== verification/Py_Prelude.thy ===== *)
theory Py_Prelude
  imports Complex_Main "HOL-Library.Code_Target_Numeral"
begin

section \<open>Python values the components share\<close>

text \<open>
  The string, list and error vocabulary of the development.

  A Python \<^verbatim>\<open>str\<close> is a HOL \<^typ>\<open>string\<close> that holds its UTF-8 bytes. Searching, splitting
  and comparing work byte by byte, and \<^verbatim>\<open>len(s.encode("utf-8"))\<close> is \<^const>\<open>length\<close>. Case
  mapping and white space are those of ASCII, so the definitions that use them agree with
  Python on ASCII text.

  An exception is a value of \<open>py_error\<close>; a computation that may raise has type
  \<open>py_error + 'a\<close>, and \<open>bind_res\<close> runs the rest only when nothing was raised.
\<close>

named_theorems py_simps \<open>characteristic equations of the Python string operations\<close>

subsection \<open>Exceptions as values\<close>

datatype py_error =
    ValueError string
  | KeyError string
  | PyIndexError string
  | PyRuntimeError string
  | PyTypeError string

type_synonym 'a res = "py_error + 'a"

definition bind_res :: "'e + 'a \<Rightarrow> ('a \<Rightarrow> 'e + 'b) \<Rightarrow> 'e + 'b" where
  "bind_res m f = (case m of Inl e \<Rightarrow> Inl e | Inr x \<Rightarrow> f x)"

lemma bind_res_simps [simp]:
  "bind_res (Inl e) f = Inl e"
  "bind_res (Inr x) f = f x"
  by (simp_all add: bind_res_def)

lemma bind_res_eq_Inr [simp]:
  "bind_res m f = Inr y \<longleftrightarrow> (\<exists>x. m = Inr x \<and> f x = Inr y)"
  by (cases m) auto

lemma bind_res_assoc: "bind_res (bind_res m f) g = bind_res m (\<lambda>x. bind_res (f x) g)"
  by (cases m) auto

lemma bind_res_cong [fundef_cong]:
  "m = m' \<Longrightarrow> (\<And>x. m' = Inr x \<Longrightarrow> f x = g x) \<Longrightarrow> bind_res m f = bind_res m' g"
  by (cases m') auto

text \<open>\<open>raise_if c e\<close> is the early exit \<^verbatim>\<open>if c: raise e\<close>.\<close>

definition raise_if :: "bool \<Rightarrow> 'e \<Rightarrow> 'e + unit" where
  "raise_if c e = (if c then Inl e else Inr ())"

lemma raise_if_simps [simp]:
  "raise_if True e = Inl e"
  "raise_if False e = Inr ()"
  "raise_if c e = Inr u \<longleftrightarrow> \<not> c"
  by (simp_all add: raise_if_def)

text \<open>Running a computation over a list stops at the first exception.\<close>

fun map_res :: "('a \<Rightarrow> 'e + 'b) \<Rightarrow> 'a list \<Rightarrow> 'e + 'b list" where
  "map_res f [] = Inr []"
| "map_res f (x # xs) = bind_res (f x) (\<lambda>y. bind_res (map_res f xs) (\<lambda>ys. Inr (y # ys)))"

lemma map_res_Inr_length: "map_res f xs = Inr ys \<Longrightarrow> length ys = length xs"
  by (induction xs arbitrary: ys) auto

lemma map_res_Inr_nth:
  "map_res f xs = Inr ys \<Longrightarrow> i < length xs \<Longrightarrow> f (xs ! i) = Inr (ys ! i)"
proof (induction xs arbitrary: ys i)
  case Nil
  then show ?case by simp
next
  case (Cons x xs)
  then show ?case by (cases i) auto
qed

fun filter_res :: "('a \<Rightarrow> 'e + bool) \<Rightarrow> 'a list \<Rightarrow> 'e + 'a list" where
  "filter_res p [] = Inr []"
| "filter_res p (x # xs) =
     bind_res (p x) (\<lambda>keep. bind_res (filter_res p xs) (\<lambda>ys. Inr (if keep then x # ys else ys)))"

lemma filter_res_eq: "filter_res p xs = Inr ys \<Longrightarrow> ys = filter (\<lambda>x. p x = Inr True) xs"
  by (induction xs arbitrary: ys) (auto split: if_splits)

fun fold_res :: "('s \<Rightarrow> 'a \<Rightarrow> 'e + 's) \<Rightarrow> 's \<Rightarrow> 'a list \<Rightarrow> 'e + 's" where
  "fold_res f s [] = Inr s"
| "fold_res f s (x # xs) = bind_res (f s x) (\<lambda>s'. fold_res f s' xs)"

lemma fold_res_append: "fold_res f s (xs @ ys) = bind_res (fold_res f s xs) (\<lambda>s'. fold_res f s' ys)"
  by (induction xs arbitrary: s) (simp_all add: bind_res_assoc)

subsection \<open>Characters\<close>

definition ord_char :: "char \<Rightarrow> nat" where
  "ord_char c = of_char c"

definition is_upper :: "char \<Rightarrow> bool" where
  "is_upper c \<longleftrightarrow> 65 \<le> ord_char c \<and> ord_char c \<le> 90"

definition is_lower :: "char \<Rightarrow> bool" where
  "is_lower c \<longleftrightarrow> 97 \<le> ord_char c \<and> ord_char c \<le> 122"

definition is_alpha :: "char \<Rightarrow> bool" where
  "is_alpha c \<longleftrightarrow> is_upper c \<or> is_lower c"

definition is_digit :: "char \<Rightarrow> bool" where
  "is_digit c \<longleftrightarrow> 48 \<le> ord_char c \<and> ord_char c \<le> 57"

text \<open>What \<^verbatim>\<open>str.strip\<close> and \<^verbatim>\<open>str.split\<close> treat as white space in ASCII.\<close>

definition is_space :: "char \<Rightarrow> bool" where
  "is_space c \<longleftrightarrow> (9 \<le> ord_char c \<and> ord_char c \<le> 13) \<or> (28 \<le> ord_char c \<and> ord_char c \<le> 32)"

definition lower_char :: "char \<Rightarrow> char" where
  "lower_char c = (if is_upper c then char_of (ord_char c + 32) else c)"

lemma ord_char_less [simp]: "ord_char c < 256"
  by (simp add: ord_char_def)

lemma ord_char_char_of [simp]: "ord_char (char_of n) = n mod 256"
  by (simp add: ord_char_def)

lemma ord_char_inject [simp]: "ord_char c = ord_char d \<longleftrightarrow> c = d"
  by (simp add: ord_char_def)

lemma ord_char_lower_char: "ord_char (lower_char c) = (if is_upper c then ord_char c + 32 else ord_char c)"
  by (simp add: lower_char_def is_upper_def)

lemma not_upper_lower_char [simp]: "\<not> is_upper (lower_char c)"
  by (simp add: is_upper_def [of "lower_char c"] ord_char_lower_char) (simp add: is_upper_def)

lemma lower_char_id: "\<not> is_upper c \<Longrightarrow> lower_char c = c"
  by (simp add: lower_char_def)

lemma lower_char_idem [simp]: "lower_char (lower_char c) = lower_char c"
  by (simp add: lower_char_id)

text \<open>Lower-casing neither makes nor removes a character that is not a letter.\<close>

lemma lower_char_eq_nonalpha:
  assumes "\<not> is_alpha d"
  shows "lower_char c = d \<longleftrightarrow> c = d"
proof
  assume l: "lower_char c = d"
  have "\<not> is_upper c"
  proof
    assume u: "is_upper c"
    with l have "ord_char d = ord_char c + 32" by (metis ord_char_lower_char)
    with u have "is_lower d" by (auto simp: is_upper_def is_lower_def)
    with assms show False by (simp add: is_alpha_def)
  qed
  with l show "c = d" by (simp add: lower_char_id)
next
  assume "c = d"
  with assms show "lower_char c = d" by (simp add: is_alpha_def lower_char_id)
qed

subsection \<open>Strings\<close>

definition py_lower :: "string \<Rightarrow> string" where
  "py_lower s = map lower_char s"

text \<open>\<^verbatim>\<open>casefold\<close> is \<^verbatim>\<open>lower\<close> on ASCII.\<close>

definition py_casefold :: "string \<Rightarrow> string" where
  "py_casefold s = py_lower s"

definition py_startswith :: "string \<Rightarrow> string \<Rightarrow> bool" where
  "py_startswith s p \<longleftrightarrow> take (length p) s = p"

definition py_endswith :: "string \<Rightarrow> string \<Rightarrow> bool" where
  "py_endswith s p \<longleftrightarrow> length p \<le> length s \<and> drop (length s - length p) s = p"

fun py_contains :: "string \<Rightarrow> string \<Rightarrow> bool" where
  "py_contains sub [] \<longleftrightarrow> sub = []"
| "py_contains sub (c # cs) \<longleftrightarrow> py_startswith (c # cs) sub \<or> py_contains sub cs"

definition py_removeprefix :: "string \<Rightarrow> string \<Rightarrow> string" where
  "py_removeprefix s p = (if py_startswith s p then drop (length p) s else s)"

definition py_replace_char :: "char \<Rightarrow> char \<Rightarrow> string \<Rightarrow> string" where
  "py_replace_char a b s = map (\<lambda>c. if c = a then b else c) s"

definition py_remove_char :: "char \<Rightarrow> string \<Rightarrow> string" where
  "py_remove_char a s = filter (\<lambda>c. c \<noteq> a) s"

definition py_lstrip_by :: "(char \<Rightarrow> bool) \<Rightarrow> string \<Rightarrow> string" where
  "py_lstrip_by p s = dropWhile p s"

definition py_rstrip_by :: "(char \<Rightarrow> bool) \<Rightarrow> string \<Rightarrow> string" where
  "py_rstrip_by p s = rev (dropWhile p (rev s))"

definition py_strip :: "string \<Rightarrow> string" where
  "py_strip s = py_rstrip_by is_space (py_lstrip_by is_space s)"

text \<open>
  \<^verbatim>\<open>s.partition(c)\<close> as the part before, whether the separator was found, and the part after;
  \<^verbatim>\<open>s.rpartition(c)\<close> the same from the right.
\<close>

definition py_partition :: "char \<Rightarrow> string \<Rightarrow> string \<times> bool \<times> string" where
  "py_partition c s =
     (if c \<in> set s then (takeWhile (\<lambda>x. x \<noteq> c) s, True, tl (dropWhile (\<lambda>x. x \<noteq> c) s))
      else (s, False, []))"

definition py_rpartition :: "char \<Rightarrow> string \<Rightarrow> string \<times> bool \<times> string" where
  "py_rpartition c s =
     (if c \<in> set s
      then (rev (tl (dropWhile (\<lambda>x. x \<noteq> c) (rev s))), True, rev (takeWhile (\<lambda>x. x \<noteq> c) (rev s)))
      else ([], False, s))"

text \<open>\<^verbatim>\<open>s.split(c)\<close> for a one-character separator: never empty, and empty pieces are kept.\<close>

fun py_split :: "char \<Rightarrow> string \<Rightarrow> string list" where
  "py_split c [] = [[]]"
| "py_split c (x # xs) =
     (if x = c then [] # py_split c xs
      else case py_split c xs of [] \<Rightarrow> [[x]] | p # ps \<Rightarrow> (x # p) # ps)"

fun py_join :: "string \<Rightarrow> string list \<Rightarrow> string" where
  "py_join sep [] = []"
| "py_join sep [x] = x"
| "py_join sep (x # y # ys) = x @ sep @ py_join sep (y # ys)"

text \<open>\<^verbatim>\<open>" ".join(s.split())\<close> splits at runs of white space and drops empty pieces.\<close>

fun py_words :: "('c \<Rightarrow> bool) \<Rightarrow> 'c list \<Rightarrow> 'c list \<Rightarrow> 'c list list" where
  "py_words sp acc [] = (if acc = [] then [] else [rev acc])"
| "py_words sp acc (x # xs) =
     (if sp x then (if acc = [] then py_words sp [] xs else rev acc # py_words sp [] xs)
      else py_words sp (x # acc) xs)"

text \<open>Decimal numbers: \<^verbatim>\<open>str(n)\<close>, and \<^verbatim>\<open>int(s)\<close> of a string of digits.\<close>

definition digit_char :: "nat \<Rightarrow> char" where
  "digit_char d = char_of (48 + d)"

fun nat_to_str :: "nat \<Rightarrow> string" where
  "nat_to_str n = (if n < 10 then [digit_char n] else nat_to_str (n div 10) @ [digit_char (n mod 10)])"

declare nat_to_str.simps [simp del]

definition digits_value :: "string \<Rightarrow> nat" where
  "digits_value s = foldl (\<lambda>n c. 10 * n + (ord_char c - 48)) 0 s"

definition int_to_str :: "int \<Rightarrow> string" where
  "int_to_str i = (if i < 0 then CHR ''-'' # nat_to_str (nat (- i)) else nat_to_str (nat i))"

text \<open>\<^verbatim>\<open>tuple(dict.fromkeys(xs))\<close> keeps the first occurrence of every element, in order.\<close>

fun dict_fromkeys :: "'a list \<Rightarrow> 'a list" where
  "dict_fromkeys [] = []"
| "dict_fromkeys (x # xs) = x # filter (\<lambda>y. y \<noteq> x) (dict_fromkeys xs)"

text \<open>Python's \<^verbatim>\<open>enumerate\<close>, and an insertion-ordered dictionary as an association list.\<close>

definition enumerate0 :: "'a list \<Rightarrow> (nat \<times> 'a) list" where
  "enumerate0 xs = zip [0..<length xs] xs"

fun assoc_set :: "'k \<Rightarrow> 'v \<Rightarrow> ('k \<times> 'v) list \<Rightarrow> ('k \<times> 'v) list" where
  "assoc_set k v [] = [(k, v)]"
| "assoc_set k v ((k', v') # xs) =
     (if k' = k then (k, v) # xs else (k', v') # assoc_set k v xs)"

text \<open>
  Strings are UTF-8 bytes; the characters of a string (what iterating it yields and \<^verbatim>\<open>len\<close>
  counts) are its bytes up to continuation bytes.
\<close>

definition cont_byte :: "nat \<Rightarrow> bool" where
  "cont_byte b \<longleftrightarrow> 128 \<le> b \<and> b \<le> 191"

definition py_len :: "string \<Rightarrow> nat" where
  "py_len s = length (filter (\<lambda>c. \<not> cont_byte (ord_char c)) s)"

function utf8_chars :: "string \<Rightarrow> string list" where
  "utf8_chars [] = []"
| "utf8_chars (c # cs) = (c # takeWhile (\<lambda>d. cont_byte (ord_char d)) cs)
     # utf8_chars (dropWhile (\<lambda>d. cont_byte (ord_char d)) cs)"
  by pat_completeness auto
termination
  by (relation "measure length") (auto simp: le_imp_less_Suc length_dropWhile_le)

subsection \<open>Facts about the string operations\<close>

text \<open>The code point of one character, from its bytes.\<close>

definition utf8_code :: "string \<Rightarrow> nat" where
  "utf8_code c =
     (case map ord_char c of
        [a] \<Rightarrow> a
      | [a, b] \<Rightarrow> (a - 192) * 64 + (b - 128)
      | [a, b, d] \<Rightarrow> ((a - 224) * 64 + (b - 128)) * 64 + (d - 128)
      | [a, b, d, e] \<Rightarrow> (((a - 240) * 64 + (b - 128)) * 64 + (d - 128)) * 64 + (e - 128)
      | _ \<Rightarrow> 0)"

lemma concat_utf8_chars: "concat (utf8_chars s) = s"
  by (induction s rule: utf8_chars.induct) auto

lemma py_len_le: "py_len s \<le> length s"
  by (simp add: py_len_def)

lemma py_lower_simps [simp, py_simps]:
  "py_lower [] = []"
  "py_lower (c # s) = lower_char c # py_lower s"
  "py_lower (s @ t) = py_lower s @ py_lower t"
  "length (py_lower s) = length s"
  by (simp_all add: py_lower_def)

lemma py_lower_idem [simp]: "py_lower (py_lower s) = py_lower s"
  by (simp add: py_lower_def)

lemma set_py_lower: "\<not> is_alpha d \<Longrightarrow> d \<in> set (py_lower s) \<longleftrightarrow> d \<in> set s"
  unfolding py_lower_def by (induction s) (auto, (metis lower_char_eq_nonalpha)+)

lemma py_startswith_iff: "py_startswith s p \<longleftrightarrow> (\<exists>t. s = p @ t)"
proof
  assume "py_startswith s p"
  then have "s = p @ drop (length p) s"
    by (metis append_take_drop_id py_startswith_def)
  then show "\<exists>t. s = p @ t" by blast
qed (auto simp: py_startswith_def)

lemma py_endswith_iff: "py_endswith s p \<longleftrightarrow> (\<exists>t. s = t @ p)"
proof
  assume "py_endswith s p"
  then have "s = take (length s - length p) s @ p"
    by (metis append_take_drop_id py_endswith_def)
  then show "\<exists>t. s = t @ p" by blast
qed (auto simp: py_endswith_def)

lemma py_contains_iff: "py_contains sub s \<longleftrightarrow> (\<exists>a b. s = a @ sub @ b)"
proof (induction s)
  case Nil
  then show ?case by auto
next
  case IH: (Cons c cs)
  show ?case
  proof
    assume "py_contains sub (c # cs)"
    then consider t where "c # cs = sub @ t" | a b where "cs = a @ sub @ b"
      using IH.IH by (auto simp: py_startswith_iff)
    then show "\<exists>a b. c # cs = a @ sub @ b"
    proof cases
      case (1 t)
      then have "c # cs = [] @ sub @ t" by simp
      then show ?thesis by blast
    next
      case (2 a b)
      then have "c # cs = (c # a) @ sub @ b" by simp
      then show ?thesis by blast
    qed
  next
    assume "\<exists>a b. c # cs = a @ sub @ b"
    then obtain a b where ab: "c # cs = a @ sub @ b" by blast
    show "py_contains sub (c # cs)"
    proof (cases a)
      case Nil
      with ab have "py_startswith (c # cs) sub" by (auto simp: py_startswith_iff)
      then show ?thesis by simp
    next
      case (Cons x a')
      with ab have "\<exists>a b. cs = a @ sub @ b" by auto
      with IH.IH show ?thesis by simp
    qed
  qed
qed

lemma dict_fromkeys_set [simp]: "set (dict_fromkeys xs) = set xs"
  by (induction xs) auto

lemma dict_fromkeys_distinct [simp]: "distinct (dict_fromkeys xs)"
  by (induction xs) auto

lemma dict_fromkeys_id: "distinct xs \<Longrightarrow> dict_fromkeys xs = xs"
  by (induction xs) (auto simp: filter_id_conv)

lemma dict_fromkeys_idem [simp]: "dict_fromkeys (dict_fromkeys xs) = dict_fromkeys xs"
  by (simp add: dict_fromkeys_id)

lemma length_dict_fromkeys: "length (dict_fromkeys xs) = card (set xs)"
  by (metis dict_fromkeys_distinct dict_fromkeys_set distinct_card)

lemma length_dict_fromkeys_distinct: "length xs = length (dict_fromkeys xs) \<longleftrightarrow> distinct xs"
  by (metis length_dict_fromkeys card_distinct distinct_card)

lemma map_of_assoc_set: "map_of (assoc_set k v xs) = (map_of xs)(k \<mapsto> v)"
  by (induction k v xs rule: assoc_set.induct) auto

lemma assoc_set_keys:
  "map fst (assoc_set k v xs) = (if k \<in> fst ` set xs then map fst xs else map fst xs @ [k])"
  by (induction k v xs rule: assoc_set.induct) auto

lemma distinct_assoc_set: "distinct (map fst xs) \<Longrightarrow> distinct (map fst (assoc_set k v xs))"
  by (simp add: assoc_set_keys)

lemma length_enumerate0 [simp]: "length (enumerate0 xs) = length xs"
  by (simp add: enumerate0_def)

lemma nth_enumerate0 [simp]: "i < length xs \<Longrightarrow> enumerate0 xs ! i = (i, xs ! i)"
  by (simp add: enumerate0_def)

lemma in_set_enumerate0: "(i, x) \<in> set (enumerate0 xs) \<longleftrightarrow> i < length xs \<and> xs ! i = x"
  by (force simp: enumerate0_def set_zip)

subsection \<open>Decimal numbers are read back\<close>

lemma ord_char_digit_char: "d < 10 \<Longrightarrow> ord_char (digit_char d) = 48 + d"
  by (simp add: digit_char_def)

lemma is_digit_digit_char: "d < 10 \<Longrightarrow> is_digit (digit_char d)"
  by (simp add: is_digit_def ord_char_digit_char)

lemma nat_to_str_digits: "list_all is_digit (nat_to_str n)"
proof (induction n rule: nat_to_str.induct)
  case (1 n)
  then show ?case
    by (simp add: nat_to_str.simps [of n] is_digit_digit_char)
qed

lemma nat_to_str_nonempty [simp]: "nat_to_str n \<noteq> []"
  by (simp add: nat_to_str.simps [of n])

lemma digits_value_snoc: "digits_value (s @ [c]) = 10 * digits_value s + (ord_char c - 48)"
  by (simp add: digits_value_def)

lemma digits_value_nat_to_str [simp]: "digits_value (nat_to_str n) = n"
proof (induction n rule: nat_to_str.induct)
  case (1 n)
  show ?case
  proof (cases "n < 10")
    case True
    then show ?thesis
      by (simp add: nat_to_str.simps [of n] digits_value_def ord_char_digit_char)
  next
    case False
    with 1 show ?thesis
      by (simp add: nat_to_str.simps [of n] digits_value_snoc ord_char_digit_char)
  qed
qed

lemma nat_to_str_inject [simp]: "nat_to_str m = nat_to_str n \<longleftrightarrow> m = n"
  by (metis digits_value_nat_to_str)

text \<open>
  Two numbered names with the same text around the number are different as soon as the numbers
  are: the digits end at the first character that is not one.
\<close>

lemma takeWhile_digits: "list_all is_digit d \<Longrightarrow> \<not> is_digit c \<Longrightarrow> takeWhile is_digit (d @ c # s) = d"
  by (induction d) auto

lemma numbered_inject:
  assumes "\<not> is_digit c" "\<not> is_digit c'"
    and "nat_to_str m @ c # s = nat_to_str n @ c' # t"
  shows "m = n"
proof -
  have "nat_to_str m = nat_to_str n"
    using assms by (metis takeWhile_digits nat_to_str_digits)
  then show ?thesis by simp
qed

subsection \<open>Partition and strip\<close>

lemma py_partition_append:
  "c \<notin> set a \<Longrightarrow> py_partition c (a @ c # b) = (a, True, b)"
  by (simp add: py_partition_def takeWhile_append dropWhile_append)

lemma py_partition_absent: "c \<notin> set a \<Longrightarrow> py_partition c a = (a, False, [])"
  by (simp add: py_partition_def)

lemma py_rpartition_absent: "c \<notin> set a \<Longrightarrow> py_rpartition c a = ([], False, a)"
  by (simp add: py_rpartition_def)

lemma py_partition_fst: "py_partition c s = (a, f, b) \<Longrightarrow> c \<notin> set a"
  by (auto simp: py_partition_def split: if_splits dest: set_takeWhileD)

lemma py_partition_eq:
  "py_partition c s = (a, f, b) \<Longrightarrow> s = (if f then a @ c # b else a) \<and> (\<not> f \<longrightarrow> b = [])"
proof -
  assume p: "py_partition c s = (a, f, b)"
  show ?thesis
  proof (cases "c \<in> set s")
    case True
    then obtain x y where s: "s = x @ c # y" "c \<notin> set x"
      by (meson split_list_first)
    with p show ?thesis by (auto simp: py_partition_append)
  next
    case False
    with p show ?thesis by (auto simp: py_partition_absent)
  qed
qed

lemma py_rpartition_eq:
  "py_rpartition c s = (a, f, b) \<Longrightarrow>
     c \<notin> set b \<and> s = (if f then a @ c # b else b) \<and> (\<not> f \<longrightarrow> a = [])"
proof -
  assume p: "py_rpartition c s = (a, f, b)"
  show ?thesis
  proof (cases "c \<in> set s")
    case True
    then obtain x y where s: "s = x @ c # y" "c \<notin> set y"
      by (meson split_list_last)
    then have "py_rpartition c s = (x, True, y)"
      by (simp add: py_rpartition_def takeWhile_append dropWhile_append)
    with p s show ?thesis by auto
  next
    case False
    with p show ?thesis by (auto simp: py_rpartition_absent)
  qed
qed

lemma py_lstrip_by_id: "s = [] \<or> \<not> p (hd s) \<Longrightarrow> py_lstrip_by p s = s"
  by (cases s) (auto simp: py_lstrip_by_def)

lemma py_rstrip_by_id: "s = [] \<or> \<not> p (last s) \<Longrightarrow> py_rstrip_by p s = s"
  by (cases s rule: rev_cases) (auto simp: py_rstrip_by_def)

lemma py_rstrip_by_last:
  "py_rstrip_by p s = [] \<or> \<not> p (last (py_rstrip_by p s))"
  by (induction s rule: rev_induct) (auto simp: py_rstrip_by_def)

lemma py_strip_id: "s = [] \<or> \<not> is_space (hd s) \<and> \<not> is_space (last s) \<Longrightarrow> py_strip s = s"
  by (auto simp: py_strip_def py_lstrip_by_id py_rstrip_by_id)

lemma set_py_rstrip_by: "set (py_rstrip_by p s) \<subseteq> set s"
  by (auto simp: py_rstrip_by_def dest: set_dropWhileD)

lemma set_py_lstrip_by: "set (py_lstrip_by p s) \<subseteq> set s"
  by (auto simp: py_lstrip_by_def dest: set_dropWhileD)

lemma py_split_not_Nil [simp]: "py_split c s \<noteq> []"
  by (induction s) (auto split: list.splits)

lemma py_split_snoc_sep: "py_split c (s @ [c]) = py_split c s @ [[]]"
  by (induction s) (auto split: list.splits)

lemma py_join_split: "py_join [c] (py_split c s) = s"
proof (induction s)
  case (Cons x xs)
  then show ?case
    by (cases "py_split c xs" rule: remdups_adj.cases) auto
qed simp

lemma last_py_split_empty: "last (py_split c s) = [] \<longleftrightarrow> s = [] \<or> last s = c"
proof (induction s)
  case (Cons x xs)
  have "py_split c xs = [[]] \<Longrightarrow> xs = []"
    using py_join_split [of c xs] by simp
  with Cons show ?case by (cases "py_split c xs") (auto split: list.splits if_splits)
qed simp

lemma set_py_strip: "set (py_strip s) \<subseteq> set s"
  using set_py_rstrip_by set_py_lstrip_by by (fastforce simp: py_strip_def)

lemma set_py_join: "set (py_join sep xs) \<subseteq> set sep \<union> (\<Union>x\<in>set xs. set x)"
  by (induction sep xs rule: py_join.induct) auto

lemma py_split_no_sep: "p \<in> set (py_split c s) \<Longrightarrow> c \<notin> set p"
  by (induction s arbitrary: p) (auto split: if_splits list.splits)

lemma py_split_subset: "p \<in> set (py_split c s) \<Longrightarrow> set p \<subseteq> set s"
  by (induction s arbitrary: p) (fastforce split: if_splits list.splits)+

lemma py_split_free: "c \<notin> set s \<Longrightarrow> py_split c s = [s]"
  by (induction s) auto

lemma py_split_append_sep: "c \<notin> set p \<Longrightarrow> py_split c (p @ c # s) = p # py_split c s"
  by (induction p) auto

lemma py_split_join: "ps \<noteq> [] \<Longrightarrow> list_all (\<lambda>p. c \<notin> set p) ps \<Longrightarrow> py_split c (py_join [c] ps) = ps"
  by (induction "[c]" ps rule: py_join.induct) (auto simp: py_split_free py_split_append_sep)

lemma length_py_join: "ps \<noteq> [] \<Longrightarrow> Suc (length (py_join [c] ps)) = sum_list (map (\<lambda>p. Suc (length p)) ps)"
  by (induction "[c]" ps rule: py_join.induct) auto

lemma sum_list_filter_le: "sum_list (map (f :: 'a \<Rightarrow> nat) (filter P xs)) \<le> sum_list (map f xs)"
  by (induction xs) auto

text \<open>When a step of the error monad returns.\<close>

lemma case_option_Inr: "(case m of None \<Rightarrow> Inl e | Some x \<Rightarrow> f x) = Inr y \<longleftrightarrow> (\<exists>x. m = Some x \<and> f x = Inr y)"
  by (cases m) auto

lemma if_Inl_Inr: "(if b then Inl e else m) = Inr y \<longleftrightarrow> \<not> b \<and> m = Inr y"
  by simp

lemmas returns = case_option_Inr if_Inl_Inr Let_def

lemma map_res_in: "map_res f xs = Inr ys \<Longrightarrow> y \<in> set ys \<Longrightarrow> \<exists>x. x \<in> set xs \<and> f x = Inr y"
  by (induction xs arbitrary: ys) (auto, blast+)

end
