(* ===== verification/Models.thy ===== *)
theory Models
  imports Py_Prelude
begin

section \<open>The public contracts: models.py\<close>

text \<open>
  The data model of \<^verbatim>\<open>src/fetech/models.py\<close>: every enumeration as a datatype with the
  source's members, every contract model as a record with the source's fields (each with a short
  prefix, since record fields share one name space), and the two validators.

  Floating-point fields are rationals (\<^typ>\<open>rat\<close>): sums, differences and comparisons are exact,
  rounding is not modelled. An UUID is a natural number; a time stamp is a rational number of
  seconds. A \<^verbatim>\<open>frozenset\<close> is a set, an insertion-ordered dictionary an association list. The
  dynamic part of an exception's message is left out.
\<close>

type_synonym uuid = nat
type_synonym time = rat

subsection \<open>Enumerations\<close>

datatype capability_kind =
    OPERATION | TRANSPORT_FEATURE | VARIANT_GENERATOR | EXTRACTOR | FORMAT_HANDLER | DETECTOR
  | POLICY | CONNECTOR | STORAGE_STRATEGY

datatype implementation_status = NATIVE | OPTIONAL | PLANNED

datatype result_status =
    RS_SUCCEEDED | RS_PARTIAL | RS_BLOCKED_BY_POLICY | RS_AUTH_REQUIRED | RS_DEPENDENCY_MISSING
  | RS_BUDGET_EXHAUSTED | RS_LOW_QUALITY | RS_NOT_FOUND | RS_FAILED

datatype attempt_status =
    AT_PLANNED | AT_RUNNING | AT_SUCCEEDED | AT_SKIPPED | AT_FAILED | AT_CANCELLED

datatype capability_outcome_status =
    CO_APPLIED | CO_OBSERVED | CO_NOT_APPLICABLE | CO_BLOCKED | CO_DEPENDENCY_MISSING | CO_FAILED

datatype run_state = QUEUED | PLANNING | RUNNING | FINISHED

datatype page_state =
    PS_OK | PS_EMPTY | PS_LOGIN | PS_CAPTCHA | PS_BOT_BLOCK | PS_PAYWALL | PS_ERROR
  | PS_WRONG_LANGUAGE | PS_NEEDS_OCR | PS_UNKNOWN

fun result_status_value :: "result_status \<Rightarrow> string" where
  "result_status_value RS_SUCCEEDED = ''SUCCEEDED''"
| "result_status_value RS_PARTIAL = ''PARTIAL''"
| "result_status_value RS_BLOCKED_BY_POLICY = ''BLOCKED_BY_POLICY''"
| "result_status_value RS_AUTH_REQUIRED = ''AUTH_REQUIRED''"
| "result_status_value RS_DEPENDENCY_MISSING = ''DEPENDENCY_MISSING''"
| "result_status_value RS_BUDGET_EXHAUSTED = ''BUDGET_EXHAUSTED''"
| "result_status_value RS_LOW_QUALITY = ''LOW_QUALITY''"
| "result_status_value RS_NOT_FOUND = ''NOT_FOUND''"
| "result_status_value RS_FAILED = ''FAILED''"

fun run_state_value :: "run_state \<Rightarrow> string" where
  "run_state_value QUEUED = ''QUEUED''"
| "run_state_value PLANNING = ''PLANNING''"
| "run_state_value RUNNING = ''RUNNING''"
| "run_state_value FINISHED = ''FINISHED''"

fun page_state_value :: "page_state \<Rightarrow> string" where
  "page_state_value PS_OK = ''OK''"
| "page_state_value PS_EMPTY = ''EMPTY''"
| "page_state_value PS_LOGIN = ''LOGIN''"
| "page_state_value PS_CAPTCHA = ''CAPTCHA''"
| "page_state_value PS_BOT_BLOCK = ''BOT_BLOCK''"
| "page_state_value PS_PAYWALL = ''PAYWALL''"
| "page_state_value PS_ERROR = ''ERROR''"
| "page_state_value PS_WRONG_LANGUAGE = ''WRONG_LANGUAGE''"
| "page_state_value PS_NEEDS_OCR = ''NEEDS_OCR''"
| "page_state_value PS_UNKNOWN = ''UNKNOWN''"

subsection \<open>Untyped documents\<close>

text \<open>The values of a \<^verbatim>\<open>dict[str, Any]\<close> document: what JSON and \<^verbatim>\<open>model_dump\<close> produce.\<close>

datatype pyval =
    VNone
  | VBool bool
  | VInt int
  | VFloat rat
  | VStr string
  | VList "pyval list"
  | VTuple "pyval list"
  | VDict "(string \<times> pyval) list"

type_synonym document = "(string \<times> pyval) list"

subsection \<open>Capabilities and budgets\<close>

record capability_manifest_entry =
  me_id :: string
  me_aliases :: "string list"
  me_category :: string
  me_category_name :: string
  me_closure_release :: string
  me_kind :: capability_kind
  me_adapter :: string
  me_risk_class :: string
  me_inputs :: "string list"
  me_outputs :: "string list"
  me_dependencies :: "string list"
  me_reference :: string
  me_tests :: "string list"
  me_lifecycle_status :: string
  me_implementation_status :: implementation_status
  me_implementation :: string
  me_implementation_available :: bool
  me_runtime_available :: bool
  me_availability_reason :: string

record resource_budget =
  b_deadline_seconds :: rat
  b_attempts :: int
  b_redirects :: int
  b_bytes :: int
  b_decompressed_bytes :: int
  b_crawl_pages :: int
  b_crawl_depth :: int
  b_browser_seconds :: rat
  b_archive_members :: int
  b_archive_ratio :: rat
  b_model_tokens :: int
  b_monetary_ceiling :: rat

definition default_budget :: resource_budget where
  "default_budget = \<lparr>b_deadline_seconds = 30, b_attempts = 6, b_redirects = 8, b_bytes = 10000000,
     b_decompressed_bytes = 50000000, b_crawl_pages = 20, b_crawl_depth = 2,
     b_browser_seconds = 20, b_archive_members = 1000, b_archive_ratio = 100, b_model_tokens = 0,
     b_monetary_ceiling = 0\<rparr>"

text \<open>The bounds the field declarations impose.\<close>

definition valid_budget :: "resource_budget \<Rightarrow> bool" where
  "valid_budget b \<longleftrightarrow>
     0 < b_deadline_seconds b \<and> b_deadline_seconds b \<le> 3600 \<and>
     0 \<le> b_attempts b \<and> b_attempts b \<le> 100 \<and>
     0 \<le> b_redirects b \<and> b_redirects b \<le> 30 \<and>
     0 \<le> b_bytes b \<and> b_bytes b \<le> 2000000000 \<and>
     0 \<le> b_decompressed_bytes b \<and> b_decompressed_bytes b \<le> 4000000000 \<and>
     1 \<le> b_crawl_pages b \<and> b_crawl_pages b \<le> 100000 \<and>
     0 \<le> b_crawl_depth b \<and> b_crawl_depth b \<le> 20 \<and>
     0 \<le> b_browser_seconds b \<and> b_browser_seconds b \<le> 1800 \<and>
     1 \<le> b_archive_members b \<and> b_archive_members b \<le> 1000000 \<and>
     1 \<le> b_archive_ratio b \<and> b_archive_ratio b \<le> 100000 \<and>
     0 \<le> b_model_tokens b \<and> b_model_tokens b \<le> 1000000 \<and>
     0 \<le> b_monetary_ceiling b"

text \<open>\<^verbatim>\<open>getattr(budget, name)\<close> for the numeric fields.\<close>

definition budget_field :: "resource_budget \<Rightarrow> string \<Rightarrow> rat option" where
  "budget_field b name =
     (if name = ''deadline_seconds'' then Some (b_deadline_seconds b)
      else if name = ''attempts'' then Some (of_int (b_attempts b))
      else if name = ''redirects'' then Some (of_int (b_redirects b))
      else if name = ''bytes'' then Some (of_int (b_bytes b))
      else if name = ''decompressed_bytes'' then Some (of_int (b_decompressed_bytes b))
      else if name = ''crawl_pages'' then Some (of_int (b_crawl_pages b))
      else if name = ''crawl_depth'' then Some (of_int (b_crawl_depth b))
      else if name = ''browser_seconds'' then Some (b_browser_seconds b)
      else if name = ''archive_members'' then Some (of_int (b_archive_members b))
      else if name = ''archive_ratio'' then Some (b_archive_ratio b)
      else if name = ''model_tokens'' then Some (of_int (b_model_tokens b))
      else if name = ''monetary_ceiling'' then Some (b_monetary_ceiling b)
      else None)"

subsection \<open>Requests\<close>

record fetch_request =
  rq_schema_version :: string
  rq_target :: string
  rq_intent :: string
  rq_output_requirements :: "string list"
  rq_authentication_ref :: "string option"
  rq_privacy_profile :: string
  rq_policy_profile :: string
  rq_freshness_seconds :: "int option"
  rq_language :: "string option"
  rq_region :: "string option"
  rq_allow_capabilities :: "string set"
  rq_deny_capabilities :: "string set"
  rq_approved_capabilities :: "string set"
  rq_budget :: resource_budget
  rq_metadata :: "(string \<times> string) list"

definition default_request :: "string \<Rightarrow> fetch_request" where
  "default_request target = \<lparr>rq_schema_version = ''1.0'', rq_target = target,
     rq_intent = ''retrieve'', rq_output_requirements = [''clean_text''],
     rq_authentication_ref = None, rq_privacy_profile = ''public'',
     rq_policy_profile = ''default'', rq_freshness_seconds = None, rq_language = None,
     rq_region = None, rq_allow_capabilities = {}, rq_deny_capabilities = {},
     rq_approved_capabilities = {}, rq_budget = default_budget, rq_metadata = []\<rparr>"

definition require_bounded_text :: "string \<Rightarrow> string \<Rightarrow> nat \<Rightarrow> unit res" where
  "require_bounded_text value label maximum_bytes =
     bind_res (raise_if (maximum_bytes < length value)
                 (ValueError (label @ '' exceeds the bounded byte limit''))) (\<lambda>_.
     raise_if (py_strip value = []) (ValueError (label @ '' cannot be blank'')))"

text \<open>The field constraints of the request, checked before the model validator runs.\<close>

definition valid_request_fields :: "fetch_request \<Rightarrow> bool" where
  "valid_request_fields r \<longleftrightarrow>
     1 \<le> py_len (rq_target r) \<and> py_len (rq_target r) \<le> 16384 \<and>
     1 \<le> py_len (rq_intent r) \<and> py_len (rq_intent r) \<le> 256 \<and>
     length (rq_output_requirements r) \<le> 256 \<and>
     (case rq_authentication_ref r of None \<Rightarrow> True | Some a \<Rightarrow> 1 \<le> py_len a \<and> py_len a \<le> 2048) \<and>
     rq_privacy_profile r \<in> {''public'', ''private''} \<and>
     1 \<le> py_len (rq_policy_profile r) \<and> py_len (rq_policy_profile r) \<le> 256 \<and>
     (case rq_freshness_seconds r of None \<Rightarrow> True | Some f \<Rightarrow> 0 \<le> f) \<and>
     (case rq_language r of None \<Rightarrow> True | Some l \<Rightarrow> py_len l \<le> 128) \<and>
     (case rq_region r of None \<Rightarrow> True | Some l \<Rightarrow> py_len l \<le> 128) \<and>
     card (rq_allow_capabilities r) \<le> 256 \<and> card (rq_deny_capabilities r) \<le> 256 \<and>
     card (rq_approved_capabilities r) \<le> 256 \<and>
     valid_budget (rq_budget r) \<and> length (rq_metadata r) \<le> 128"

fun check_metadata :: "nat \<Rightarrow> (string \<times> string) list \<Rightarrow> nat res" where
  "check_metadata used [] = Inr used"
| "check_metadata used ((k, v) # kvs) =
     bind_res (require_bounded_text k ''metadata key'' 256) (\<lambda>_.
     bind_res (require_bounded_text v ''metadata value'' 65536) (\<lambda>_.
     check_metadata (used + length k + length v) kvs))"

definition opt_text :: "string option \<Rightarrow> string \<Rightarrow> unit res" where
  "opt_text v label =
     (case v of None \<Rightarrow> Inr () | Some s \<Rightarrow> require_bounded_text s label 4096)"

text \<open>
  The model validator. The names of the three capability sets are checked as sets: the first
  name that fails raises, and only whether one fails is visible.
\<close>

definition check_names :: "string \<Rightarrow> string set \<Rightarrow> unit res" where
  "check_names label names =
     (if \<exists>n\<in>names. require_bounded_text n label 256 \<noteq> Inr ()
      then Inl (ValueError (label @ '' is not bounded text'')) else Inr ())"

definition validate_request :: "fetch_request \<Rightarrow> unit res" where
  "validate_request r =
     bind_res (raise_if (rq_allow_capabilities r \<inter> rq_deny_capabilities r \<noteq> {})
       (ValueError ''capabilities cannot be both allowed and denied'')) (\<lambda>_.
     bind_res (raise_if (rq_approved_capabilities r \<inter> rq_deny_capabilities r \<noteq> {})
       (ValueError ''capabilities cannot be both approved and denied'')) (\<lambda>_.
     bind_res (raise_if (b_attempts (rq_budget r) = 0)
       (ValueError ''request budget must allow at least one attempt'')) (\<lambda>_.
     bind_res (raise_if (b_bytes (rq_budget r) = 0 \<or> b_decompressed_bytes (rq_budget r) = 0)
       (ValueError ''request byte budgets must be greater than zero'')) (\<lambda>_.
     bind_res (case rq_authentication_ref r of None \<Rightarrow> Inr ()
         | Some a \<Rightarrow> bind_res (raise_if (py_strip a = []) (ValueError ''authentication_ref cannot be blank''))
             (\<lambda>_. raise_if (2048 < length a)
                (ValueError ''authentication_ref exceeds the bounded byte limit''))) (\<lambda>_.
     bind_res (require_bounded_text (rq_target r) ''target'' 16384) (\<lambda>_.
     bind_res (require_bounded_text (rq_intent r) ''intent'' 4096) (\<lambda>_.
     bind_res (require_bounded_text (rq_policy_profile r) ''policy_profile'' 4096) (\<lambda>_.
     bind_res (opt_text (rq_language r) ''language'') (\<lambda>_.
     bind_res (opt_text (rq_region r) ''region'') (\<lambda>_.
     bind_res (check_names ''output_requirements'' (set (rq_output_requirements r))) (\<lambda>_.
     bind_res (check_names ''allow_capabilities'' (rq_allow_capabilities r)) (\<lambda>_.
     bind_res (check_names ''deny_capabilities'' (rq_deny_capabilities r)) (\<lambda>_.
     bind_res (check_names ''approved_capabilities'' (rq_approved_capabilities r)) (\<lambda>_.
     bind_res (check_metadata 0 (rq_metadata r)) (\<lambda>n.
     raise_if (1000000 < n)
       (ValueError ''metadata exceeds the bounded aggregate byte limit''))))))))))))))))"

subsection \<open>Plans\<close>

record retry_rule =
  rr_maximum :: nat
  rr_backoff_seconds :: rat
  rr_retryable_codes :: "string list"

definition default_retry :: retry_rule where
  "default_retry = \<lparr>rr_maximum = 1, rr_backoff_seconds = 1/4,
     rr_retryable_codes = [''timeout'', ''connection'', ''429'', ''5xx'']\<rparr>"

record plan_node =
  pn_id :: string
  pn_capability_id :: string
  pn_adapter :: string
  pn_dependencies :: "string list"
  pn_parallel_group :: "string option"
  pn_retry :: retry_rule
  pn_fallback_for :: "string option"
  pn_stop_on_acceptance :: bool
  pn_requires_approval :: bool
  pn_reserved_budget :: "(string \<times> rat) list"
  pn_parameters :: document

text \<open>A node with the defaults of the source's keyword arguments.\<close>

definition PlanNode :: "string \<Rightarrow> string \<Rightarrow> string \<Rightarrow> string list \<Rightarrow> plan_node" where
  "PlanNode node_id capability adapter deps = \<lparr>pn_id = node_id, pn_capability_id = capability,
     pn_adapter = adapter, pn_dependencies = deps, pn_parallel_group = None,
     pn_retry = default_retry, pn_fallback_for = None, pn_stop_on_acceptance = False,
     pn_requires_approval = False, pn_reserved_budget = [], pn_parameters = []\<rparr>"

record fetch_plan =
  fp_plan_id :: uuid
  fp_request :: fetch_request
  fp_nodes :: "plan_node list"
  fp_created_at :: time
  fp_deterministic :: bool
  fp_classifier :: string
  fp_warnings :: "string list"
  fp_execution_request :: "fetch_request option"

definition execution_request :: "fetch_plan \<Rightarrow> fetch_request res" where
  "execution_request p =
     (case fp_execution_request p of
        Some r \<Rightarrow> Inr r
      | None \<Rightarrow>
          if rq_authentication_ref (fp_request p) \<noteq> None
          then Inl (ValueError ''authenticated plan has no in-memory execution request; resubmit the original FetchRequest'')
          else Inr (fp_request p))"

subsection \<open>Attempts, resources, artifacts and outcomes\<close>

record fetch_attempt =
  at_attempt_id :: uuid
  at_capability_id :: string
  at_adapter_version :: string
  at_started_at :: time
  at_finished_at :: "time option"
  at_sanitized_destination :: string
  at_status :: attempt_status
  at_http_status :: "int option"
  at_bytes_received :: int
  at_parser :: "string option"
  at_artifact_ids :: "uuid list"
  at_failure_code :: "string option"
  at_warnings :: "string list"
  at_consumed_budget :: "(string \<times> rat) list"

record resource =
  rs_resource_id :: uuid
  rs_canonical_url :: string
  rs_requested_url :: string
  rs_media_type :: "string option"
  rs_status_code :: "int option"
  rs_retrieved_at :: time
  rs_authority_url :: "string option"
  rs_checked_only :: bool

record quality_assessment =
  qa_page_state :: page_state
  qa_score :: rat
  qa_accepted :: bool
  qa_language :: "string option"
  qa_completeness :: rat
  qa_duplicate_of :: "uuid option"
  qa_reasons :: "string list"

definition default_quality :: quality_assessment where
  "default_quality = \<lparr>qa_page_state = PS_UNKNOWN, qa_score = 0, qa_accepted = False,
     qa_language = None, qa_completeness = 0, qa_duplicate_of = None, qa_reasons = []\<rparr>"

definition valid_quality :: "quality_assessment \<Rightarrow> bool" where
  "valid_quality q \<longleftrightarrow> 0 \<le> qa_score q \<and> qa_score q \<le> 1 \<and> 0 \<le> qa_completeness q \<and> qa_completeness q \<le> 1"

record artifact =
  ar_artifact_id :: uuid
  ar_role :: string
  ar_representation :: string
  ar_media_type :: string
  ar_schema_version :: string
  ar_cas_uri :: string
  ar_sha256 :: string
  ar_size :: nat
  ar_source_resource_id :: uuid
  ar_parent_artifact_ids :: "uuid list"
  ar_extractor_version :: string
  ar_locators :: "string list"
  ar_quality :: quality_assessment

record policy_decision =
  pd_policy_id :: string
  pd_allowed :: bool
  pd_reason :: string
  pd_destination :: "string option"

record capability_outcome =
  co_capability_id :: string
  co_status :: capability_outcome_status
  co_stage :: string
  co_details :: "(string \<times> pyval) list"

record diagnostic =
  dg_code :: string
  dg_message :: string
  dg_retryable :: bool
  dg_details :: "(string \<times> pyval) list"

definition Diagnostic :: "string \<Rightarrow> string \<Rightarrow> diagnostic" where
  "Diagnostic code message =
     \<lparr>dg_code = code, dg_message = message, dg_retryable = False, dg_details = []\<rparr>"

record discovered_target =
  dt_url :: string
  dt_depth :: int
  dt_parent_url :: "string option"
  dt_relation :: string
  dt_fetched :: bool
  dt_accepted :: bool
  dt_failure_code :: "string option"

record crawl_report =
  cr_root_url :: string
  cr_targets :: "discovered_target list"
  cr_pages_fetched :: int
  cr_pages_failed :: int
  cr_maximum_depth_reached :: int
  cr_frontier_omitted :: int

subsection \<open>Results, events and runs\<close>

record fetch_result =
  fr_run_id :: uuid
  fr_status :: result_status
  fr_resources :: "resource list"
  fr_artifacts :: "artifact list"
  fr_attempts :: "fetch_attempt list"
  fr_capability_outcomes :: "capability_outcome list"
  fr_policy_decisions :: "policy_decision list"
  fr_diagnostics :: "diagnostic list"
  fr_provenance_event_ids :: "uuid list"
  fr_remaining_budget :: resource_budget
  fr_crawl_report :: "crawl_report option"

definition empty_result :: "uuid \<Rightarrow> result_status \<Rightarrow> fetch_result" where
  "empty_result run_id status = \<lparr>fr_run_id = run_id, fr_status = status, fr_resources = [],
     fr_artifacts = [], fr_attempts = [], fr_capability_outcomes = [], fr_policy_decisions = [],
     fr_diagnostics = [], fr_provenance_event_ids = [], fr_remaining_budget = default_budget,
     fr_crawl_report = None\<rparr>"

record provenance_event =
  ev_event_id :: uuid
  ev_run_id :: uuid
  ev_event_type :: string
  ev_timestamp :: time
  ev_actor :: string
  ev_payload :: document
  ev_parent_event_ids :: "uuid list"

record fetch_run =
  run_id :: uuid
  run_state :: run_state
  run_submitted_at :: time
  run_result :: "fetch_result option"

record inspection_result =
  in_normalized_target :: string
  in_family :: string
  in_media_type_hint :: "string option"
  in_policy_decisions :: "policy_decision list"
  in_suggested_capabilities :: "string list"

subsection \<open>What validation guarantees\<close>

lemma require_bounded_text_ok:
  "require_bounded_text v label m = Inr () \<longleftrightarrow> length v \<le> m \<and> py_strip v \<noteq> []"
  by (auto simp: require_bounded_text_def)

lemma check_metadata_total:
  "check_metadata used kvs = Inr n \<Longrightarrow> n = used + (\<Sum>(k, v)\<leftarrow>kvs. length k + length v)"
  by (induction used kvs rule: check_metadata.induct) auto

lemma valid_default_budget: "valid_budget default_budget"
  by (simp add: valid_budget_def default_budget_def)

end
