(* ===== verification/Py_Ipaddress.thy ===== *)
theory Py_Ipaddress
  imports Py_Prelude
begin

section \<open>The addresses of the standard library's ipaddress module\<close>

text \<open>
  What the program uses of \<^verbatim>\<open>ipaddress\<close> (Python 3.12): reading an IPv4 or IPv6 literal,
  printing it in compressed form, and the classes \<^verbatim>\<open>is_private\<close>, \<^verbatim>\<open>is_global\<close>,
  \<^verbatim>\<open>is_multicast\<close> and \<^verbatim>\<open>is_unspecified\<close> with the IANA network tables of that release. An
  address is its integer value; a network is a base value and a prefix length.
\<close>

datatype ip_address = IPv4 nat | IPv6 nat "string option"

subsection \<open>Reading\<close>

definition parse_octet :: "string \<Rightarrow> nat option" where
  "parse_octet s =
     (if s = [] \<or> \<not> list_all is_digit s \<or> 3 < length s \<or> (s \<noteq> ''0'' \<and> hd s = CHR ''0'') then None
      else if 255 < digits_value s then None else Some (digits_value s))"

fun octets_value :: "nat \<Rightarrow> string list \<Rightarrow> nat option" where
  "octets_value acc [] = Some acc"
| "octets_value acc (s # ss) =
     (case parse_octet s of None \<Rightarrow> None | Some d \<Rightarrow> octets_value (256 * acc + d) ss)"

definition parse_ipv4 :: "string \<Rightarrow> nat option" where
  "parse_ipv4 s = (let octets = py_split (CHR ''.'') s in
     if length octets \<noteq> 4 then None else octets_value 0 octets)"

definition is_hex :: "char \<Rightarrow> bool" where
  "is_hex c \<longleftrightarrow> is_digit c \<or> (65 \<le> ord_char c \<and> ord_char c \<le> 70) \<or> (97 \<le> ord_char c \<and> ord_char c \<le> 102)"

definition hex_value :: "char \<Rightarrow> nat" where
  "hex_value c = (if is_digit c then ord_char c - 48 else ord_char (lower_char c) - 87)"

definition parse_hextet :: "string \<Rightarrow> nat option" where
  "parse_hextet s = (if s = [] \<or> \<not> list_all is_hex s \<or> 4 < length s then None
     else Some (foldl (\<lambda>n c. 16 * n + hex_value c) 0 s))"

fun hextets_value :: "nat \<Rightarrow> string list \<Rightarrow> nat option" where
  "hextets_value acc [] = Some acc"
| "hextets_value acc (s # ss) =
     (case parse_hextet s of None \<Rightarrow> None | Some d \<Rightarrow> hextets_value (65536 * acc + d) ss)"

definition hex_digit :: "nat \<Rightarrow> char" where
  "hex_digit d = (if d < 10 then char_of (48 + d) else char_of (87 + d))"

fun nat_to_hex :: "nat \<Rightarrow> string" where
  "nat_to_hex n = (if n < 16 then [hex_digit n] else nat_to_hex (n div 16) @ [hex_digit (n mod 16)])"

declare nat_to_hex.simps [simp del]

text \<open>A dotted quad in the last field stands for two hextets.\<close>

definition expand_ipv4_tail :: "string list \<Rightarrow> string list option" where
  "expand_ipv4_tail parts =
     (if parts \<noteq> [] \<and> CHR ''.'' \<in> set (last parts) then
        (case parse_ipv4 (last parts) of
           None \<Rightarrow> None
         | Some v \<Rightarrow> Some (butlast parts @ [nat_to_hex (v div 65536), nat_to_hex (v mod 65536)]))
      else Some parts)"

text \<open>The positions of the empty fields that are neither first nor last: where \<^verbatim>\<open>::\<close> stands.\<close>

definition inner_gaps :: "string list \<Rightarrow> nat list" where
  "inner_gaps parts = filter (\<lambda>i. parts ! i = []) [1..<length parts - 1]"

definition parse_ipv6_parts :: "string list \<Rightarrow> nat option" where
  "parse_ipv6_parts parts =
     (if 9 < length parts then None
      else case inner_gaps parts of
        [] \<Rightarrow>
          if length parts \<noteq> 8 \<or> hd parts = [] \<or> last parts = [] then None
          else hextets_value 0 parts
      | [skip] \<Rightarrow>
          (let hi = (if hd parts = [] then skip - 1 else skip);
               lo0 = length parts - skip - 1;
               lo = (if last parts = [] then lo0 - 1 else lo0)
           in if (hd parts = [] \<and> hi \<noteq> 0) \<or> (last parts = [] \<and> lo \<noteq> 0) \<or> 8 \<le> hi + lo then None
              else case hextets_value 0 (take hi parts) of
                None \<Rightarrow> None
              | Some h \<Rightarrow> hextets_value (h * 65536 ^ (8 - (hi + lo))) (drop (length parts - lo) parts))
      | _ \<Rightarrow> None)"

definition parse_ipv6_int :: "string \<Rightarrow> nat option" where
  "parse_ipv6_int s =
     (let parts = py_split (CHR '':'') s in
      if s = [] \<or> length parts < 3 then None
      else case expand_ipv4_tail parts of None \<Rightarrow> None | Some ps \<Rightarrow> parse_ipv6_parts ps)"

definition parse_ipv6 :: "string \<Rightarrow> (nat \<times> string option) option" where
  "parse_ipv6 s =
     (if CHR ''/'' \<in> set s then None
      else case py_partition (CHR ''%'') s of (addr, has_scope, scope) \<Rightarrow>
        if has_scope \<and> (scope = [] \<or> CHR ''%'' \<in> set scope) then None
        else map_option (\<lambda>v. (v, if has_scope then Some scope else None)) (parse_ipv6_int addr))"

definition ip_address_of :: "string \<Rightarrow> ip_address option" where
  "ip_address_of s =
     (case parse_ipv4 s of
        Some v \<Rightarrow> Some (IPv4 v)
      | None \<Rightarrow> (case parse_ipv6 s of Some (v, sc) \<Rightarrow> Some (IPv6 v sc) | None \<Rightarrow> None))"

subsection \<open>Printing\<close>

definition ipv4_text :: "nat \<Rightarrow> string" where
  "ipv4_text v = py_join ''.'' (map nat_to_str
     [v div 16777216 mod 256, v div 65536 mod 256, v div 256 mod 256, v mod 256])"

definition hextet_list :: "nat \<Rightarrow> nat list" where
  "hextet_list v = map (\<lambda>i. v div 65536 ^ (7 - i) mod 65536) [0..<8]"

text \<open>The start and the length of the first longest run of zero hextets.\<close>

fun zero_run :: "nat list \<Rightarrow> nat" where
  "zero_run [] = 0"
| "zero_run (h # hs) = (if h = 0 then Suc (zero_run hs) else 0)"

fun best_run :: "nat \<Rightarrow> nat list \<Rightarrow> nat \<times> nat \<Rightarrow> nat \<times> nat" where
  "best_run i [] best = best"
| "best_run i (h # hs) best =
     best_run (Suc i) hs (if snd best < zero_run (h # hs) then (i, zero_run (h # hs)) else best)"

definition compress_hextets :: "nat list \<Rightarrow> string list" where
  "compress_hextets hs =
     (case best_run 0 hs (0, 0) of (start, len) \<Rightarrow>
        if 1 < len then
          (if start = 0 then [[]] else map nat_to_hex (take start hs)) @ [[]] @
          (if start + len = length hs then [[]] else map nat_to_hex (drop (start + len) hs))
        else map nat_to_hex hs)"

fun ip_compressed :: "ip_address \<Rightarrow> string" where
  "ip_compressed (IPv4 v) = ipv4_text v"
| "ip_compressed (IPv6 v sc) =
     py_join '':'' (compress_hextets (hextet_list v)) @
     (case sc of None \<Rightarrow> [] | Some z \<Rightarrow> CHR ''%'' # z)"

fun ip_version :: "ip_address \<Rightarrow> nat" where
  "ip_version (IPv4 v) = 4"
| "ip_version (IPv6 v sc) = 6"

subsection \<open>Address classes\<close>

definition in_net :: "nat \<Rightarrow> nat \<Rightarrow> nat \<times> nat \<Rightarrow> bool" where
  "in_net width v net = (case net of (base, len) \<Rightarrow> v div 2 ^ (width - len) = base div 2 ^ (width - len))"

definition quad :: "nat \<Rightarrow> nat \<Rightarrow> nat \<Rightarrow> nat \<Rightarrow> nat" where
  "quad a b c d = ((a * 256 + b) * 256 + c) * 256 + d"

definition ipv4_private_nets :: "(nat \<times> nat) list" where
  "ipv4_private_nets =
     [(quad 0 0 0 0, 8), (quad 10 0 0 0, 8), (quad 127 0 0 0, 8), (quad 169 254 0 0, 16),
      (quad 172 16 0 0, 12), (quad 192 0 0 0, 24), (quad 192 0 0 170, 31), (quad 192 0 2 0, 24),
      (quad 192 168 0 0, 16), (quad 198 18 0 0, 15), (quad 198 51 100 0, 24),
      (quad 203 0 113 0, 24), (quad 240 0 0 0, 4), (quad 255 255 255 255, 32)]"

definition ipv4_private_exceptions :: "(nat \<times> nat) list" where
  "ipv4_private_exceptions = [(quad 192 0 0 9, 32), (quad 192 0 0 10, 32)]"

definition ipv4_is_private :: "nat \<Rightarrow> bool" where
  "ipv4_is_private v \<longleftrightarrow>
     list_ex (in_net 32 v) ipv4_private_nets \<and> \<not> list_ex (in_net 32 v) ipv4_private_exceptions"

definition ipv4_is_global :: "nat \<Rightarrow> bool" where
  "ipv4_is_global v \<longleftrightarrow> \<not> in_net 32 v (quad 100 64 0 0, 10) \<and> \<not> ipv4_is_private v"

definition hextets :: "nat list \<Rightarrow> nat" where
  "hextets hs = foldl (\<lambda>n h. 65536 * n + h) 0 hs * 65536 ^ (8 - length hs)"

definition ipv6_private_nets :: "(nat \<times> nat) list" where
  "ipv6_private_nets =
     [(1, 128), (0, 128), (hextets [0, 0, 0, 0, 0, 65535], 96), (hextets [100, 65435, 1], 48),
      (hextets [256], 64), (hextets [8193], 23), (hextets [8193, 3512], 32), (hextets [8194], 16),
      (hextets [16383], 20), (hextets [64512], 7), (hextets [65152], 10)]"

definition ipv6_private_exceptions :: "(nat \<times> nat) list" where
  "ipv6_private_exceptions =
     [(hextets [8193, 1, 0, 0, 0, 0, 0, 1], 128), (hextets [8193, 1, 0, 0, 0, 0, 0, 2], 128),
      (hextets [8193, 3], 32), (hextets [8193, 4, 274], 48), (hextets [8193, 32], 28),
      (hextets [8193, 48], 28)]"

definition ipv4_mapped :: "nat \<Rightarrow> nat option" where
  "ipv4_mapped v = (if v div 2 ^ 32 = 65535 then Some (v mod 2 ^ 32) else None)"

definition ipv6_is_private :: "nat \<Rightarrow> bool" where
  "ipv6_is_private v \<longleftrightarrow>
     (case ipv4_mapped v of
        Some v4 \<Rightarrow> ipv4_is_private v4
      | None \<Rightarrow> list_ex (in_net 128 v) ipv6_private_nets \<and>
                \<not> list_ex (in_net 128 v) ipv6_private_exceptions)"

definition ipv6_is_global :: "nat \<Rightarrow> bool" where
  "ipv6_is_global v \<longleftrightarrow>
     (case ipv4_mapped v of Some v4 \<Rightarrow> ipv4_is_global v4 | None \<Rightarrow> \<not> ipv6_is_private v)"

fun ip_is_global :: "ip_address \<Rightarrow> bool" where
  "ip_is_global (IPv4 v) \<longleftrightarrow> ipv4_is_global v"
| "ip_is_global (IPv6 v sc) \<longleftrightarrow> ipv6_is_global v"

fun ip_is_multicast :: "ip_address \<Rightarrow> bool" where
  "ip_is_multicast (IPv4 v) \<longleftrightarrow> in_net 32 v (quad 224 0 0 0, 4)"
| "ip_is_multicast (IPv6 v sc) \<longleftrightarrow>
     (case ipv4_mapped v of
        Some v4 \<Rightarrow> in_net 32 v4 (quad 224 0 0 0, 4)
      | None \<Rightarrow> in_net 128 v (hextets [65280], 8))"

fun ip_is_unspecified :: "ip_address \<Rightarrow> bool" where
  "ip_is_unspecified (IPv4 v) \<longleftrightarrow> v = 0"
| "ip_is_unspecified (IPv6 v sc) \<longleftrightarrow>
     (case ipv4_mapped v of Some v4 \<Rightarrow> v4 = 0 | None \<Rightarrow> v = 0)"

end
