(* ===== verification/Py_Urls.thy ===== *)
theory Py_Urls
  imports Py_Ipaddress
begin

section \<open>The URLs of the standard library's urllib.parse module\<close>

text \<open>
  What the program uses of \<^verbatim>\<open>urllib.parse\<close> (Python 3.12.9 and later): \<^verbatim>\<open>urlsplit\<close> with the
  attributes of its result, \<^verbatim>\<open>urlunsplit\<close>, \<^verbatim>\<open>urljoin\<close>, \<^verbatim>\<open>parse_qsl\<close> and \<^verbatim>\<open>urlencode\<close>; and the ASCII
  path of the \<^verbatim>\<open>idna\<close> codec. A network location with a byte outside ASCII is refused here
  (Python would normalise it first), so everything said about hosts is about ASCII hosts.
\<close>

record split_result =
  sr_scheme :: string
  sr_netloc :: string
  sr_path :: string
  sr_query :: string
  sr_fragment :: string

definition is_ascii :: "char \<Rightarrow> bool" where
  "is_ascii c \<longleftrightarrow> ord_char c < 128"

definition c0_or_space :: "char \<Rightarrow> bool" where
  "c0_or_space c \<longleftrightarrow> ord_char c \<le> 32"

definition url_unsafe :: "char \<Rightarrow> bool" where
  "url_unsafe c \<longleftrightarrow> ord_char c \<in> {9, 10, 13}"

definition scheme_char :: "char \<Rightarrow> bool" where
  "scheme_char c \<longleftrightarrow> is_alpha c \<or> is_digit c \<or> c \<in> {CHR ''+'', CHR ''-'', CHR ''.''}"

definition netloc_end :: "char \<Rightarrow> bool" where
  "netloc_end c \<longleftrightarrow> c \<in> {CHR ''/'', CHR ''?'', CHR ''#''}"

subsection \<open>Splitting\<close>

definition split_scheme :: "string \<Rightarrow> string \<times> string" where
  "split_scheme url =
     (case py_partition (CHR '':'') url of (a, found, b) \<Rightarrow>
        if found \<and> a \<noteq> [] \<and> is_alpha (hd a) \<and> list_all scheme_char a then (py_lower a, b)
        else ([], url))"

definition ipvfuture_ok :: "string \<Rightarrow> bool" where
  "ipvfuture_ok h =
     (case py_partition (CHR ''.'') (tl h) of (v, dot, rest) \<Rightarrow>
        v \<noteq> [] \<and> list_all is_hex v \<and> dot \<and> rest \<noteq> [] \<and> CHR ''\<newline>'' \<notin> set rest)"

definition check_bracketed_host :: "string \<Rightarrow> unit res" where
  "check_bracketed_host h =
     (if py_startswith h ''v'' then raise_if (\<not> ipvfuture_ok h) (ValueError ''IPvFuture address is invalid'')
      else case ip_address_of h of
        None \<Rightarrow> Inl (ValueError (h @ '' does not appear to be an IPv4 or IPv6 address''))
      | Some (IPv4 _) \<Rightarrow> Inl (ValueError ''An IPv4 address cannot be in brackets'')
      | Some (IPv6 _ _) \<Rightarrow> Inr ())"

definition check_bracketed_netloc :: "string \<Rightarrow> unit res" where
  "check_bracketed_netloc netloc =
     (let hp = snd (snd (py_rpartition (CHR ''@'') netloc)) in
      case py_partition (CHR ''['') hp of (before, open_br, bracketed) \<Rightarrow>
        if open_br then
          (if before \<noteq> [] then Inl (ValueError ''Invalid IPv6 URL'')
           else case py_partition (CHR '']'') bracketed of (h, _, port) \<Rightarrow>
             if port \<noteq> [] \<and> \<not> py_startswith port '':'' then Inl (ValueError ''Invalid IPv6 URL'')
             else check_bracketed_host h)
        else check_bracketed_host (fst (py_partition (CHR '':'') hp)))"

definition check_netloc :: "string \<Rightarrow> unit res" where
  "check_netloc netloc =
     (let l = CHR ''['' \<in> set netloc; r = CHR '']'' \<in> set netloc in
      if l \<noteq> r then Inl (ValueError ''Invalid IPv6 URL'')
      else bind_res (if l then check_bracketed_netloc netloc else Inr ())
        (\<lambda>_. raise_if (\<not> list_all is_ascii netloc) (ValueError ''netloc is not ASCII'')))"

definition clean_url :: "string \<Rightarrow> string" where
  "clean_url url = filter (\<lambda>c. \<not> url_unsafe c) (py_lstrip_by c0_or_space url)"

definition urlsplit :: "string \<Rightarrow> split_result res" where
  "urlsplit url0 =
     (case split_scheme (clean_url url0) of (scheme, url) \<Rightarrow>
        let has_netloc = py_startswith url ''//'';
            netloc = (if has_netloc then takeWhile (\<lambda>c. \<not> netloc_end c) (drop 2 url) else []);
            rest = (if has_netloc then dropWhile (\<lambda>c. \<not> netloc_end c) (drop 2 url) else url)
        in bind_res (check_netloc netloc) (\<lambda>_.
          case py_partition (CHR ''#'') rest of (before_frag, _, frag) \<Rightarrow>
          case py_partition (CHR ''?'') before_frag of (path, _, query) \<Rightarrow>
            Inr \<lparr>sr_scheme = scheme, sr_netloc = netloc, sr_path = path, sr_query = query,
                 sr_fragment = frag\<rparr>))"

subsection \<open>The attributes of the result\<close>

definition hostinfo :: "string \<Rightarrow> string \<times> string" where
  "hostinfo netloc =
     (let hi = snd (snd (py_rpartition (CHR ''@'') netloc)) in
      case py_partition (CHR ''['') hi of (_, open_br, bracketed) \<Rightarrow>
        if open_br then
          (case py_partition (CHR '']'') bracketed of (h, _, after) \<Rightarrow>
             (h, snd (snd (py_partition (CHR '':'') after))))
        else (case py_partition (CHR '':'') hi of (h, _, port) \<Rightarrow> (h, port)))"

text \<open>\<^verbatim>\<open>hostname\<close> is lower case up to a zone; the empty string stands for \<^verbatim>\<open>None\<close>.\<close>

definition sr_hostname :: "split_result \<Rightarrow> string" where
  "sr_hostname p =
     (case py_partition (CHR ''%'') (fst (hostinfo (sr_netloc p))) of (h, pct, zone) \<Rightarrow>
        py_lower h @ (if pct then CHR ''%'' # zone else []))"

definition sr_port :: "split_result \<Rightarrow> nat option res" where
  "sr_port p =
     (let port = snd (hostinfo (sr_netloc p)) in
      if port = [] then Inr None
      else if \<not> list_all is_digit port then Inl (ValueError ''Port could not be cast to integer value'')
      else if 65535 < digits_value port then Inl (ValueError ''Port out of range 0-65535'')
      else Inr (Some (digits_value port)))"

definition sr_userinfo :: "split_result \<Rightarrow> string \<times> string" where
  "sr_userinfo p =
     (case py_rpartition (CHR ''@'') (sr_netloc p) of (userinfo, have, _) \<Rightarrow>
        if have then (case py_partition (CHR '':'') userinfo of (u, _, pw) \<Rightarrow> (u, pw)) else ([], []))"

subsection \<open>Joining\<close>

definition uses_netloc :: "string list" where
  "uses_netloc =
     ['''', ''ftp'', ''http'', ''gopher'', ''nntp'', ''telnet'', ''imap'', ''wais'', ''file'',
      ''mms'', ''https'', ''shttp'', ''snews'', ''prospero'', ''rtsp'', ''rtsps'', ''rtspu'',
      ''rsync'', ''svn'', ''svn+ssh'', ''sftp'', ''nfs'', ''git'', ''git+ssh'', ''ws'', ''wss'']"

definition urlunsplit :: "split_result \<Rightarrow> string" where
  "urlunsplit p =
     (let url = sr_path p;
          url1 = (if sr_netloc p \<noteq> [] then
                    ''//'' @ sr_netloc p @ (if url \<noteq> [] \<and> hd url \<noteq> CHR ''/'' then CHR ''/'' # url else url)
                  else if py_startswith url ''//'' then ''//'' @ url
                  else if sr_scheme p \<noteq> [] \<and> sr_scheme p \<in> set uses_netloc \<and>
                          (url = [] \<or> hd url = CHR ''/'') then ''//'' @ url
                  else url);
          url2 = (if sr_scheme p \<noteq> [] then sr_scheme p @ '':'' @ url1 else url1);
          url3 = (if sr_query p \<noteq> [] then url2 @ ''?'' @ sr_query p else url2)
      in if sr_fragment p \<noteq> [] then url3 @ ''#'' @ sr_fragment p else url3)"

subsection \<open>Query strings\<close>

text \<open>
  \<^verbatim>\<open>unquote_plus\<close>: a plus is a space, a percent sign with two hex digits is that byte, and
  bytes that are not UTF-8 become the replacement character \<^verbatim>\<open>U+FFFD\<close>, one for every maximal
  ill-formed part.
\<close>

fun unquote_bytes :: "string \<Rightarrow> string" where
  "unquote_bytes (c # a # b # s) =
     (if c = CHR ''%'' \<and> is_hex a \<and> is_hex b
      then char_of (16 * hex_value a + hex_value b) # unquote_bytes s
      else c # unquote_bytes (a # b # s))"
| "unquote_bytes s = s"

text \<open>How many bytes follow a first byte, and the range of the second byte.\<close>

definition utf8_shape :: "nat \<Rightarrow> (nat \<times> nat \<times> nat) option" where
  "utf8_shape b =
     (if 194 \<le> b \<and> b \<le> 223 then Some (1, 128, 191)
      else if b = 224 then Some (2, 160, 191)
      else if (225 \<le> b \<and> b \<le> 236) \<or> b = 238 \<or> b = 239 then Some (2, 128, 191)
      else if b = 237 then Some (2, 128, 159)
      else if b = 240 then Some (3, 144, 191)
      else if 241 \<le> b \<and> b \<le> 243 then Some (3, 128, 191)
      else if b = 244 then Some (3, 128, 143)
      else None)"

definition replacement :: string where
  "replacement = map char_of [239 :: nat, 191, 189]"

text \<open>The number of bytes after a first byte that belong to its sequence.\<close>

definition utf8_taken :: "nat \<Rightarrow> nat \<Rightarrow> nat \<Rightarrow> string \<Rightarrow> nat" where
  "utf8_taken n lo hi s =
     (case s of
        [] \<Rightarrow> 0
      | c # cs \<Rightarrow> if lo \<le> ord_char c \<and> ord_char c \<le> hi
                   then 1 + length (takeWhile (\<lambda>d. cont_byte (ord_char d)) (take (n - 1) cs)) else 0)"

function utf8_replace :: "string \<Rightarrow> string" where
  "utf8_replace s =
     (case s of
        [] \<Rightarrow> []
      | c # cs \<Rightarrow>
          if ord_char c < 128 then c # utf8_replace cs
          else (case utf8_shape (ord_char c) of
            None \<Rightarrow> replacement @ utf8_replace cs
          | Some (n, lo, hi) \<Rightarrow>
              (let k = utf8_taken n lo hi cs in
               (if k = n then c # take n cs else replacement) @ utf8_replace (drop k cs))))"
  by pat_completeness auto
termination
  by (relation "measure length") auto

declare utf8_replace.simps [simp del]

definition unquote_plus :: "string \<Rightarrow> string" where
  "unquote_plus s = utf8_replace (unquote_bytes (py_replace_char (CHR ''+'') (CHR '' '') s))"

definition parse_qsl :: "bool \<Rightarrow> string \<Rightarrow> (string \<times> string) list" where
  "parse_qsl keep_blank qs =
     (if qs = [] then []
      else concat (map (\<lambda>nv. if nv = [] then []
             else case py_partition (CHR ''='') nv of (name, _, value) \<Rightarrow>
               if value \<noteq> [] \<or> keep_blank then [(unquote_plus name, unquote_plus value)] else [])
           (py_split (CHR ''&'') qs)))"

definition always_safe :: "char \<Rightarrow> bool" where
  "always_safe c \<longleftrightarrow> is_alpha c \<or> is_digit c \<or> c \<in> {CHR ''_'', CHR ''.'', CHR ''-'', CHR ''~''}"

definition upper_hex_digit :: "nat \<Rightarrow> char" where
  "upper_hex_digit d = (if d < 10 then char_of (48 + d) else char_of (55 + d))"

definition quote_plus :: "string \<Rightarrow> string" where
  "quote_plus s = concat (map (\<lambda>c.
     if always_safe c then [c] else if c = CHR '' '' then [CHR ''+'']
     else [CHR ''%'', upper_hex_digit (ord_char c div 16), upper_hex_digit (ord_char c mod 16)]) s)"

definition urlencode :: "(string \<times> string) list \<Rightarrow> string" where
  "urlencode kvs = py_join ''&'' (map (\<lambda>(k, v). quote_plus k @ ''='' @ quote_plus v) kvs)"

subsection \<open>The idna codec on ASCII names\<close>

definition idna_encode :: "string \<Rightarrow> string res" where
  "idna_encode h =
     (if h = [] then Inr []
      else if \<not> list_all is_ascii h then Inl (ValueError ''host is not ASCII'')
      else let labels = py_split (CHR ''.'') h in
        if list_ex (\<lambda>l. l = [] \<or> 64 \<le> length l) (butlast labels)
        then Inl (ValueError ''label empty or too long'')
        else if 64 \<le> length (last labels) then Inl (ValueError ''label too long'')
        else Inr h)"

subsection \<open>Relative references\<close>

text \<open>\<^verbatim>\<open>urlparse\<close> splits parameters from the last segment; \<^verbatim>\<open>urljoin\<close> resolves a reference.\<close>

definition uses_relative :: "string list" where
  "uses_relative =
     ['''', ''ftp'', ''http'', ''gopher'', ''nntp'', ''imap'', ''wais'', ''file'', ''https'', ''shttp'', ''mms'', ''prospero'',
      ''rtsp'', ''rtsps'', ''rtspu'', ''sftp'', ''svn'', ''svn+ssh'', ''ws'', ''wss'']"

definition uses_params :: "string list" where
  "uses_params =
     ['''', ''ftp'', ''hdl'', ''prospero'', ''http'', ''imap'', ''https'', ''shttp'', ''rtsp'', ''rtsps'', ''rtspu'', ''sip'',
      ''sips'', ''mms'', ''sftp'', ''tel'']"

definition splitparams :: "string \<Rightarrow> string \<Rightarrow> string \<times> string" where
  "splitparams scheme path =
     (if scheme \<notin> set uses_params then (path, [])
      else case py_rpartition (CHR ''/'') path of (before, slash, segment) \<Rightarrow>
        case py_partition (CHR '';'') segment of (a, semicolon, params) \<Rightarrow>
          if semicolon then (if slash then before @ ''/'' @ a else a, params) else (path, []))"

definition unparse :: "split_result \<Rightarrow> string \<Rightarrow> string" where
  "unparse p params = urlunsplit (if params = [] then p else p\<lparr>sr_path := sr_path p @ '';'' @ params\<rparr>)"

fun resolve_dots :: "string list \<Rightarrow> string list \<Rightarrow> string list" where
  "resolve_dots acc [] = rev acc"
| "resolve_dots acc (seg # segs) =
     (if seg = ''..'' then resolve_dots (tl acc) segs
      else if seg = ''.'' then resolve_dots acc segs
      else resolve_dots (seg # acc) segs)"

definition join_path :: "string \<Rightarrow> string \<Rightarrow> string" where
  "join_path bpath path =
     (let split = py_split (CHR ''/'');
          base_parts = (if last (split bpath) \<noteq> [] then butlast (split bpath) else split bpath);
          joined = base_parts @ split path;
          segments = (if py_startswith path ''/'' then split path
            else if length joined < 2 then joined
            else hd joined # filter (\<lambda>s. s \<noteq> []) (butlast (tl joined)) @ [last joined]);
          resolved = resolve_dots [] segments @ (if last segments \<in> {''.'', ''..''} then [[]] else []);
          result = py_join ''/'' resolved
      in if result = [] then ''/'' else result)"

definition urljoin :: "string \<Rightarrow> string \<Rightarrow> string res" where
  "urljoin base url =
     (if base = [] then Inr url
      else if url = [] then Inr base
      else bind_res (urlsplit base) (\<lambda>b.
        bind_res (urlsplit url) (\<lambda>u0.
        let scheme = (if sr_scheme u0 = [] then sr_scheme b else sr_scheme u0);
            u = u0\<lparr>sr_scheme := scheme\<rparr>;
            (bpath, bparams) = splitparams (sr_scheme b) (sr_path b);
            (path, params) = splitparams scheme (sr_path u)
        in if scheme \<noteq> sr_scheme b \<or> scheme \<notin> set uses_relative then Inr url
           else if scheme \<in> set uses_netloc \<and> sr_netloc u \<noteq> [] then Inr (unparse (u\<lparr>sr_path := path\<rparr>) params)
           else let v = (if scheme \<in> set uses_netloc then u\<lparr>sr_netloc := sr_netloc b\<rparr> else u) in
             if path = [] \<and> params = [] then
               Inr (unparse (v\<lparr>sr_path := bpath, sr_query := (if sr_query u = [] then sr_query b else sr_query u)\<rparr>) bparams)
             else Inr (unparse (v\<lparr>sr_path := join_path bpath path\<rparr>) params))))"

subsection \<open>Splitting and joining are inverse\<close>

lemma set_clean_url: "c \<in> set (clean_url s) \<Longrightarrow> \<not> url_unsafe c"
  by (auto simp: clean_url_def)

lemma clean_url_id:
  assumes "s \<noteq> []" "\<not> c0_or_space (hd s)" "\<forall>c\<in>set s. \<not> url_unsafe c"
  shows "clean_url s = s"
  using assms by (simp add: clean_url_def py_lstrip_by_id filter_id_conv)

lemma split_scheme_snd: "split_scheme url = (sc, rest) \<Longrightarrow> set rest \<subseteq> set url"
  by (auto simp: split_scheme_def split: if_splits prod.splits dest!: py_partition_eq)

lemma split_scheme_lower: "split_scheme url = (sc, rest) \<Longrightarrow> py_lower sc = sc"
  by (auto simp: split_scheme_def split: if_splits prod.splits)

text \<open>What the parts of a split URL never contain.\<close>

lemma urlsplit_parts:
  assumes "urlsplit url = Inr p"
  shows urlsplit_netloc: "\<forall>c\<in>set (sr_netloc p). \<not> netloc_end c \<and> \<not> url_unsafe c"
    and urlsplit_path: "\<forall>c\<in>set (sr_path p). c \<noteq> CHR ''?'' \<and> c \<noteq> CHR ''#'' \<and> \<not> url_unsafe c"
    and urlsplit_query: "\<forall>c\<in>set (sr_query p). c \<noteq> CHR ''#'' \<and> \<not> url_unsafe c"
    and urlsplit_check: "check_netloc (sr_netloc p) = Inr ()"
    and urlsplit_path_abs: "sr_netloc p \<noteq> [] \<Longrightarrow> sr_path p = [] \<or> hd (sr_path p) = CHR ''/''"
    and urlsplit_scheme_lower: "py_lower (sr_scheme p) = sr_scheme p"
proof -
  obtain sc rest where sp: "split_scheme (clean_url url) = (sc, rest)" by fastforce
  define has where "has = py_startswith rest ''//''"
  define netloc where "netloc = (if has then takeWhile (\<lambda>c. \<not> netloc_end c) (drop 2 rest) else [])"
  define tail where "tail = (if has then dropWhile (\<lambda>c. \<not> netloc_end c) (drop 2 rest) else rest)"
  obtain bf f fr where bf: "py_partition (CHR ''#'') tail = (bf, f, fr)" by (metis prod_cases3)
  obtain pa q qu where pa: "py_partition (CHR ''?'') bf = (pa, q, qu)" by (metis prod_cases3)
  have p: "check_netloc netloc = Inr ()"
      "p = \<lparr>sr_scheme = sc, sr_netloc = netloc, sr_path = pa, sr_query = qu, sr_fragment = fr\<rparr>"
    using assms sp bf pa unfolding urlsplit_def has_def netloc_def tail_def
    by (auto simp: Let_def)
  have rest: "\<forall>c\<in>set rest. \<not> url_unsafe c"
    using split_scheme_snd [OF sp] set_clean_url by blast
  then have tail: "\<forall>c\<in>set tail. \<not> url_unsafe c"
    by (auto simp: tail_def dest!: set_dropWhileD in_set_dropD)
  have bf': "set bf \<subseteq> set tail" "CHR ''#'' \<notin> set bf"
    using py_partition_eq [OF bf] py_partition_fst [OF bf] by (auto split: if_splits)
  have pa': "set pa \<subseteq> set bf" "set qu \<subseteq> set bf" "CHR ''?'' \<notin> set pa"
    using py_partition_eq [OF pa] py_partition_fst [OF pa] by (auto split: if_splits)
  show "\<forall>c\<in>set (sr_netloc p). \<not> netloc_end c \<and> \<not> url_unsafe c"
    using rest by (auto simp: p(2) netloc_def dest!: set_takeWhileD in_set_dropD)
  show "\<forall>c\<in>set (sr_path p). c \<noteq> CHR ''?'' \<and> c \<noteq> CHR ''#'' \<and> \<not> url_unsafe c"
    using tail bf' pa' by (auto simp: p(2))
  show "\<forall>c\<in>set (sr_query p). c \<noteq> CHR ''#'' \<and> \<not> url_unsafe c"
    using tail bf' pa' by (auto simp: p(2))
  show "check_netloc (sr_netloc p) = Inr ()" using p by simp
  show "py_lower (sr_scheme p) = sr_scheme p" using split_scheme_lower [OF sp] by (simp add: p(2))
  show "sr_path p = [] \<or> hd (sr_path p) = CHR ''/''" if "sr_netloc p \<noteq> []"
  proof (cases pa)
    case (Cons c cs)
    from that have has by (simp add: p(2) netloc_def split: if_splits)
    obtain ts where t: "tail = c # ts"
      using Cons py_partition_eq [OF bf] py_partition_eq [OF pa] by (auto split: if_splits)
    have "dropWhile (\<lambda>c. \<not> netloc_end c) (drop 2 rest) = c # ts"
      using \<open>has\<close> t by (simp add: tail_def)
    then have "netloc_end c"
      using hd_dropWhile [of "\<lambda>c. \<not> netloc_end c" "drop 2 rest"] by simp
    with Cons bf' pa' have "c = CHR ''/''" by (auto simp: netloc_end_def)
    with Cons show ?thesis by (simp add: p(2))
  qed (simp add: p(2))
qed

text \<open>Splitting what was joined from an absolute path gives the parts back.\<close>

lemma urlsplit_join:
  assumes sc: "sc = ''http'' \<or> sc = ''https''"
    and nl: "netloc \<noteq> []" "\<forall>c\<in>set netloc. \<not> netloc_end c \<and> \<not> url_unsafe c"
      "check_netloc netloc = Inr ()"
    and pa: "path \<noteq> []" "hd path = CHR ''/''"
      "\<forall>c\<in>set path. c \<noteq> CHR ''?'' \<and> c \<noteq> CHR ''#'' \<and> \<not> url_unsafe c"
    and qu: "\<forall>c\<in>set query. c \<noteq> CHR ''#'' \<and> \<not> url_unsafe c"
    and p: "p = \<lparr>sr_scheme = sc, sr_netloc = netloc, sr_path = path, sr_query = query, sr_fragment = []\<rparr>"
  shows "urlsplit (urlunsplit p) = Inr p"
proof -
  let ?tail = "path @ (if query = [] then [] else CHR ''?'' # query)"
  have u: "urlunsplit p = sc @ '':'' @ ''//'' @ netloc @ ?tail"
    using sc nl(1) pa(1,2) by (auto simp: urlunsplit_def p Let_def)
  have pre: "\<forall>c\<in>set (sc @ '':'' @ ''//''). \<not> url_unsafe c" "sc \<noteq> []" "\<not> c0_or_space (hd sc)"
    using sc by (elim disjE; simp add: url_unsafe_def c0_or_space_def ord_char_def)+
  have "\<forall>c\<in>set ?tail. \<not> url_unsafe c"
    using pa(3) qu by (auto simp: url_unsafe_def ord_char_def)
  with pre nl(2) have "\<forall>c\<in>set (urlunsplit p). \<not> url_unsafe c"
    unfolding u by (simp only: set_append Un_iff) blast
  then have clean: "clean_url (urlunsplit p) = urlunsplit p"
    using pre(2,3) by (intro clean_url_id) (simp_all add: u)
  have scheme: "split_scheme (urlunsplit p) = (sc, ''//'' @ netloc @ ?tail)"
    unfolding u using sc py_partition_append [of "CHR '':''" sc "''//'' @ netloc @ ?tail"]
    by (auto simp: split_scheme_def is_alpha_def is_upper_def is_lower_def scheme_char_def
        ord_char_def lower_char_def)
  have tw: "takeWhile (\<lambda>c. \<not> netloc_end c) (netloc @ ?tail) = netloc"
    and dw: "dropWhile (\<lambda>c. \<not> netloc_end c) (netloc @ ?tail) = ?tail"
    using nl(2) pa(1,2) by (cases path; simp add: takeWhile_append2 dropWhile_append2 netloc_end_def)+
  have frag: "py_partition (CHR ''#'') ?tail = (?tail, False, [])"
    using pa(3) qu by (intro py_partition_absent) auto
  have query: "py_partition (CHR ''?'') ?tail = (path, query \<noteq> [], query)"
    using pa(3) py_partition_append [of "CHR ''?''" path query] py_partition_absent [of "CHR ''?''" path]
    by auto
  show ?thesis
    unfolding urlsplit_def clean scheme
    using tw dw nl(3) frag query by (simp add: py_startswith_def p)
qed

lemma urlsplit_netloc_subset: "urlsplit url = Inr p \<Longrightarrow> set (sr_netloc p) \<subseteq> set url"
proof -
  assume u: "urlsplit url = Inr p"
  obtain sc rest where sp: "split_scheme (clean_url url) = (sc, rest)" by fastforce
  have "set rest \<subseteq> set url"
    using split_scheme_snd [OF sp] set_py_lstrip_by by (fastforce simp: clean_url_def)
  moreover have "set (sr_netloc p) \<subseteq> set rest"
    using u sp by (auto simp: urlsplit_def Let_def split: prod.splits if_splits
        dest!: set_takeWhileD in_set_dropD)
  ultimately show ?thesis by blast
qed

subsection \<open>Hosts\<close>

text \<open>
  A host the idna codec accepts has at most one trailing dot, so removing the dots leaves a
  non-empty host that ends in no dot and that the codec still accepts.
\<close>

lemma idna_encode_id: "idna_encode h = Inr e \<Longrightarrow> e = h"
  by (auto simp: idna_encode_def Let_def split: if_splits)

lemma idna_rstrip:
  assumes "idna_encode h = Inr h" "h \<noteq> []"
  defines "x \<equiv> py_rstrip_by (\<lambda>c. c = CHR ''.'') h"
  shows "x \<noteq> [] \<and> last x \<noteq> CHR ''.'' \<and> idna_encode x = Inr x"
proof (cases "last h = CHR ''.''")
  case False
  then have "x = h" using py_rstrip_by_id [of h "\<lambda>c. c = CHR ''.''"] by (simp add: x_def)
  with assms(1,2) False show ?thesis by simp
next
  case True
  then obtain y where h: "h = y @ ''.''" using assms(2) by (metis append_butlast_last_id)
  have asc: "list_all is_ascii h"
    and ok: "\<not> list_ex (\<lambda>l. l = [] \<or> 64 \<le> length l) (butlast (py_split (CHR ''.'') h))"
    using assms(1,2) by (auto simp: idna_encode_def Let_def split: if_splits)
  have labels: "butlast (py_split (CHR ''.'') h) = py_split (CHR ''.'') y"
    by (simp add: h py_split_snoc_sep)
  have "last (py_split (CHR ''.'') y) \<in> set (py_split (CHR ''.'') y)" by simp
  with ok have last_ok: "last (py_split (CHR ''.'') y) \<noteq> []" "length (last (py_split (CHR ''.'') y)) < 64"
    unfolding labels by (auto simp: list_ex_iff not_le)
  then have y: "y \<noteq> []" "last y \<noteq> CHR ''.''" by (auto simp: last_py_split_empty)
  have "x = py_rstrip_by (\<lambda>c. c = CHR ''.'') y" by (simp add: x_def h py_rstrip_by_def)
  also have "\<dots> = y" using y by (intro py_rstrip_by_id) simp
  finally have xy: "x = y" .
  have "\<not> list_ex (\<lambda>l. l = [] \<or> 64 \<le> length l) (butlast (py_split (CHR ''.'') y))"
    using ok unfolding labels by (auto simp: list_ex_iff dest: in_set_butlastD)
  with asc last_ok y show ?thesis by (auto simp: xy h idna_encode_def Let_def)
qed

text \<open>A host as it stands in a normalised URL that is not a bracketed literal.\<close>

definition plain_host :: "string \<Rightarrow> bool" where
  "plain_host h \<longleftrightarrow> h \<noteq> [] \<and> py_lower h = h \<and> last h \<noteq> CHR ''.'' \<and> idna_encode h = Inr h \<and>
     (\<forall>c\<in>set h. \<not> netloc_end c \<and> \<not> url_unsafe c \<and> c \<notin> set ''[]@:'')"

lemma digit_or_colon:
  assumes "c = CHR '':'' \<or> is_digit c"
  shows "\<not> netloc_end c \<and> \<not> url_unsafe c \<and> c \<notin> set ''[]@'' \<and> is_ascii c"
  using assms
proof
  assume d: "is_digit c"
  then have "\<not> url_unsafe c" "is_ascii c" by (auto simp: is_digit_def url_unsafe_def is_ascii_def)
  moreover have "\<not> netloc_end c" "c \<notin> set ''[]@''"
    using d by (auto simp: netloc_end_def is_digit_def ord_char_def)
  ultimately show ?thesis by simp
qed (simp add: netloc_end_def url_unsafe_def is_ascii_def ord_char_def)

lemma plain_host_netloc:
  assumes h: "plain_host h" and n: "netloc = h @ ps" and ps: "ps = [] \<or> ps = '':'' @ nat_to_str k"
  shows "hostinfo netloc = (h, drop 1 ps)" "py_rpartition (CHR ''@'') netloc = ([], False, netloc)"
    "check_netloc netloc = Inr ()" "\<forall>c\<in>set netloc. \<not> netloc_end c \<and> \<not> url_unsafe c"
proof -
  have dig: "\<forall>c\<in>set ps. c = CHR '':'' \<or> is_digit c"
    using ps nat_to_str_digits [of k] by (auto simp: list_all_iff)
  then have ps': "\<forall>c\<in>set ps. \<not> netloc_end c \<and> \<not> url_unsafe c \<and> c \<notin> set ''[]@'' \<and> is_ascii c"
    using digit_or_colon by blast
  have at: "CHR ''@'' \<notin> set netloc" "CHR ''['' \<notin> set netloc" "CHR '']'' \<notin> set netloc"
    using h ps' by (auto simp: n plain_host_def)
  show r: "py_rpartition (CHR ''@'') netloc = ([], False, netloc)"
    using at by (simp add: py_rpartition_absent)
  have colon: "CHR '':'' \<notin> set h" using h by (auto simp: plain_host_def)
  have "py_partition (CHR '':'') netloc = (h, ps \<noteq> [], drop 1 ps)"
    using ps py_partition_append [OF colon, of "nat_to_str k"] py_partition_absent [OF colon]
    by (auto simp: n)
  then show "hostinfo netloc = (h, drop 1 ps)"
    using r py_partition_absent [OF at(2)] by (simp add: hostinfo_def)
  have "list_all is_ascii netloc"
    using h ps' by (auto simp: n plain_host_def idna_encode_def list_all_iff split: if_splits)
  with at show "check_netloc netloc = Inr ()"
    by (simp add: check_netloc_def)
  show "\<forall>c\<in>set netloc. \<not> netloc_end c \<and> \<not> url_unsafe c"
    using h ps' by (auto simp: n plain_host_def)
qed

lemma plain_host_hostname:
  assumes "plain_host h" "fst (hostinfo (sr_netloc p)) = h"
  shows "sr_hostname p = h"
proof -
  obtain a f z where a: "py_partition (CHR ''%'') h = (a, f, z)" by (metis prod_cases3)
  have h: "h = (if f then a @ CHR ''%'' # z else a)" using py_partition_eq [OF a] by simp
  have "py_lower h = h" using assms(1) by (simp add: plain_host_def)
  then have "py_lower a = a"
    unfolding h by (auto split: if_splits simp: append_eq_append_conv)
  then show ?thesis using a h assms(2) by (simp add: sr_hostname_def)
qed

lemma not_alpha_literals [simp]:
  "\<not> is_alpha (CHR ''/'')" "\<not> is_alpha (CHR ''?'')" "\<not> is_alpha (CHR ''#'')"
  "\<not> is_alpha (CHR ''['')" "\<not> is_alpha (CHR '']'')" "\<not> is_alpha (CHR ''@'')"
  "\<not> is_alpha (CHR '':'')" "\<not> is_alpha (CHR ''.'')" "\<not> is_alpha (CHR ''%'')"
  by (simp_all add: is_alpha_def is_upper_def is_lower_def ord_char_def)

lemma lower_char_class [simp]:
  "netloc_end (lower_char c) \<longleftrightarrow> netloc_end c"
  "url_unsafe (lower_char c) \<longleftrightarrow> url_unsafe c"
  "is_ascii (lower_char c) \<longleftrightarrow> is_ascii c"
  by (auto simp: netloc_end_def lower_char_eq_nonalpha)
     (auto simp: url_unsafe_def is_ascii_def ord_char_lower_char is_upper_def split: if_splits)

lemma py_split_lower: "\<not> is_alpha c \<Longrightarrow> py_split c (py_lower s) = map py_lower (py_split c s)"
  by (induction s) (auto simp: lower_char_eq_nonalpha split: list.splits)

lemma idna_encode_ok:
  "h \<noteq> [] \<Longrightarrow> idna_encode h = Inr h \<longleftrightarrow>
     list_all is_ascii h \<and> (\<forall>l\<in>set (butlast (py_split (CHR ''.'') h)). l \<noteq> [] \<and> length l < 64) \<and>
     length (last (py_split (CHR ''.'') h)) < 64"
  unfolding idna_encode_def Let_def list_ex_iff
  by (simp add: not_le [symmetric])

lemma idna_encode_lower: "idna_encode h = Inr h \<Longrightarrow> idna_encode (py_lower h) = Inr (py_lower h)"
proof (cases "h = []")
  case False
  assume a: "idna_encode h = Inr h"
  have "list_all is_ascii (py_lower h) = list_all is_ascii h"
    by (induction h) auto
  moreover have "butlast (map py_lower (py_split (CHR ''.'') h)) = map py_lower (butlast (py_split (CHR ''.'') h))"
    by (simp add: map_butlast)
  moreover have "last (map py_lower (py_split (CHR ''.'') h)) = py_lower (last (py_split (CHR ''.'') h))"
    by (simp add: last_map)
  moreover have "py_lower h \<noteq> []" "\<And>l. py_lower l = [] \<longleftrightarrow> l = []" using False by (simp_all add: py_lower_def)
  ultimately show ?thesis
    using a False by (simp add: idna_encode_ok py_split_lower)
qed (simp add: idna_encode_def)

text \<open>The host of a URL without brackets, character by character.\<close>

lemma hostinfo_plain:
  assumes "urlsplit url = Inr p" "CHR ''['' \<notin> set url"
  shows "\<forall>c\<in>set (fst (hostinfo (sr_netloc p))).
    \<not> netloc_end c \<and> \<not> url_unsafe c \<and> c \<notin> set ''[]@:''"
proof -
  let ?n = "sr_netloc p"
  obtain a f hi where hi: "py_rpartition (CHR ''@'') ?n = (a, f, hi)" by (metis prod_cases3)
  obtain h g po where h: "py_partition (CHR '':'') hi = (h, g, po)" by (metis prod_cases3)
  have l: "CHR ''['' \<notin> set ?n" using urlsplit_netloc_subset [OF assms(1)] assms(2) by blast
  have r: "CHR '']'' \<notin> set ?n"
    using urlsplit_check [OF assms(1)] l by (auto simp: check_netloc_def Let_def split: if_splits)
  have hi': "CHR ''@'' \<notin> set hi" "set hi \<subseteq> set ?n"
    using py_rpartition_eq [OF hi] by (auto split: if_splits)
  have h': "CHR '':'' \<notin> set h" "set h \<subseteq> set hi"
    using py_partition_fst [OF h] py_partition_eq [OF h] by (auto split: if_splits)
  have "CHR ''['' \<notin> set hi" using l hi' by blast
  then have "fst (hostinfo ?n) = h"
    by (simp add: hostinfo_def hi h py_partition_absent)
  then show ?thesis
    using l r hi' h' urlsplit_netloc [OF assms(1)] by auto
qed

lemma sr_hostname_chars:
  "c \<in> set (sr_hostname p) \<Longrightarrow>
     \<exists>d\<in>set (fst (hostinfo (sr_netloc p))). c = d \<or> c = lower_char d"
proof -
  assume c: "c \<in> set (sr_hostname p)"
  let ?h = "fst (hostinfo (sr_netloc p))"
  obtain a f z where a: "py_partition (CHR ''%'') ?h = (a, f, z)" by (metis prod_cases3)
  have "set ?h = set (if f then a @ CHR ''%'' # z else a)" using py_partition_eq [OF a] by metis
  moreover have "sr_hostname p = map lower_char a @ (if f then CHR ''%'' # z else [])"
    using a by (simp add: sr_hostname_def py_lower_def)
  ultimately show ?thesis using c by (auto split: if_splits)
qed

end
