(* ===== verification/Security.thy ===== *)
theory Security
  imports Models Py_Urls "HOL-Library.Char_ord" "HOL-Library.List_Lexorder"
begin

section \<open>Destination validation and redaction: security.py\<close>

text \<open>
  The definitions of \<^verbatim>\<open>src/fetech/security.py\<close>: URL normalisation, redaction of URLs, of texts
  and of whole documents, the classification of addresses, and the fail-closed destination policy
  \<^verbatim>\<open>SafeURLPolicy\<close>. The system resolver behind \<^verbatim>\<open>getaddrinfo\<close> is an argument.
\<close>

definition BLOCKED_HOSTNAMES :: "string list" where
  "BLOCKED_HOSTNAMES = [''localhost'', ''localhost.localdomain'', ''metadata.google.internal'']"

definition SENSITIVE_QUERY_KEYS :: "string list" where
  "SENSITIVE_QUERY_KEYS = [''access_token'', ''api_key'', ''apikey'', ''auth'', ''code'', ''key'',
     ''password'', ''signature'', ''sig'', ''token'']"

definition DEFAULT_ALLOWED_PORTS :: "nat list" where
  "DEFAULT_ALLOWED_PORTS = [80, 443]"

definition URL_FIELD_NAMES :: "string list" where
  "URL_FIELD_NAMES = [''action'', ''authority_url'', ''candidate'', ''canonical_url'',
     ''destination'', ''normalized_target'', ''parent_url'', ''requested_url'', ''root_url'',
     ''source_url'', ''target'', ''url'']"

subsection \<open>Redaction\<close>

definition bracket_host :: "string \<Rightarrow> string" where
  "bracket_host h = (if CHR '':'' \<in> set h then ''['' @ h @ '']'' else h)"

definition redact_pair :: "bool \<Rightarrow> string \<times> string \<Rightarrow> string \<times> string" where
  "redact_pair redact_query kv =
     (fst kv, if redact_query \<or> py_lower (fst kv) \<in> set SENSITIVE_QUERY_KEYS then ''[REDACTED]'' else snd kv)"

definition sanitize_url :: "bool \<Rightarrow> string \<Rightarrow> string res" where
  "sanitize_url redact_query url =
     bind_res (urlsplit url) (\<lambda>parts.
     bind_res (sr_port parts) (\<lambda>port.
       Inr (urlunsplit \<lparr>sr_scheme = sr_scheme parts,
         sr_netloc = bracket_host (sr_hostname parts) @
           (case port of Some p \<Rightarrow> if p \<noteq> 0 then '':'' @ nat_to_str p else [] | None \<Rightarrow> []),
         sr_path = sr_path parts,
         sr_query = urlencode (map (redact_pair redact_query) (parse_qsl False (sr_query parts))),
         sr_fragment = []\<rparr>)))"

definition sanitize_url_for_request :: "string \<Rightarrow> fetch_request \<Rightarrow> string res" where
  "sanitize_url_for_request url request = sanitize_url (rq_authentication_ref request \<noteq> None) url"

text \<open>
  The substitution at \<^verbatim>\<open>https?://[^\s<>"']+\<close> in a text: the length of a match at the head of
  the text (0 when there is none), and the replacement of one match.
\<close>

definition url_text_char :: "char \<Rightarrow> bool" where
  "url_text_char c \<longleftrightarrow> \<not> is_space c \<and> c \<noteq> CHR ''<'' \<and> c \<noteq> CHR ''>'' \<and> ord_char c \<noteq> 34 \<and> ord_char c \<noteq> 39"

definition url_match_length :: "string \<Rightarrow> nat" where
  "url_match_length s =
     (let low = py_lower s;
          scheme = (if py_startswith low ''https://'' then 8
                    else if py_startswith low ''http://'' then 7 else 0);
          run = length (takeWhile url_text_char (drop scheme s))
      in if scheme = 0 \<or> run = 0 then 0 else scheme + run)"

definition trailing_punctuation :: "char \<Rightarrow> bool" where
  "trailing_punctuation c \<longleftrightarrow> c \<in> set ''.,;)]}''"

definition replace_url :: "string \<Rightarrow> string" where
  "replace_url m =
     (let candidate = py_rstrip_by trailing_punctuation m;
          trailing = drop (length candidate) m
      in (case sanitize_url True candidate of
            Inr s \<Rightarrow> s | Inl _ \<Rightarrow> ''[REDACTED_INVALID_URL]'') @ trailing)"

function sanitize_authenticated_text :: "string \<Rightarrow> string" where
  "sanitize_authenticated_text s =
     (if s = [] then []
      else let k = url_match_length s in
        if k = 0 then hd s # sanitize_authenticated_text (tl s)
        else replace_url (take k s) @ sanitize_authenticated_text (drop k s))"
  by pat_completeness auto
termination
  by (relation "measure length") (auto simp: length_greater_0_conv)

declare sanitize_authenticated_text.simps [simp del]

definition normalized_key :: "string \<Rightarrow> string" where
  "normalized_key key =
     py_replace_char (CHR '' '') (CHR ''_'') (py_replace_char (CHR ''-'') (CHR ''_'') (py_casefold key))"

definition is_url_field :: "string \<Rightarrow> bool" where
  "is_url_field key \<longleftrightarrow> normalized_key key \<in> set URL_FIELD_NAMES \<or> py_endswith (normalized_key key) ''_url''"

definition sanitize_str :: "fetch_request \<Rightarrow> string \<Rightarrow> string \<Rightarrow> string" where
  "sanitize_str request key value =
     (if is_url_field key then
        (case sanitize_url_for_request value request of
           Inr s \<Rightarrow> s | Inl _ \<Rightarrow> ''[REDACTED_INVALID_URL]'')
      else if rq_authentication_ref request = None then value
      else sanitize_authenticated_text value)"

fun sanitize_output_for_request :: "fetch_request \<Rightarrow> string \<Rightarrow> pyval \<Rightarrow> pyval" where
  "sanitize_output_for_request request key (VDict kvs) =
     VDict (map (\<lambda>(k, child). (k, sanitize_output_for_request request k child)) kvs)"
| "sanitize_output_for_request request key (VTuple vs) =
     VTuple (map (sanitize_output_for_request request key) vs)"
| "sanitize_output_for_request request key (VList vs) =
     VList (map (sanitize_output_for_request request key) vs)"
| "sanitize_output_for_request request key (VStr s) = VStr (sanitize_str request key s)"
| "sanitize_output_for_request request key v = v"

subsection \<open>Normalisation\<close>

definition is_default_port :: "string \<Rightarrow> nat option \<Rightarrow> bool" where
  "is_default_port scheme port \<longleftrightarrow>
     (scheme = ''http'' \<and> port = Some 80) \<or> (scheme = ''https'' \<and> port = Some 443)"

definition normal_host :: "string \<Rightarrow> string" where
  "normal_host h = py_rstrip_by (\<lambda>c. c = CHR ''.'') (py_lower h)"

definition normal_netloc :: "string \<Rightarrow> string \<Rightarrow> nat option \<Rightarrow> string" where
  "normal_netloc scheme host port =
     (case port of
        None \<Rightarrow> bracket_host host
      | Some p \<Rightarrow> if is_default_port scheme port then bracket_host host
                   else bracket_host host @ '':'' @ nat_to_str p)"

definition normalize_url :: "string \<Rightarrow> string res" where
  "normalize_url target =
     (let candidate = py_strip target in
      bind_res (raise_if (candidate = []) (ValueError ''target cannot be empty'')) (\<lambda>_.
      bind_res (urlsplit candidate) (\<lambda>parts.
      let scheme = py_lower (sr_scheme parts) in
      bind_res (raise_if (scheme \<notin> {''http'', ''https''})
        (ValueError ''only http and https URL targets are accepted'')) (\<lambda>_.
      bind_res (raise_if (fst (sr_userinfo parts) \<noteq> [] \<or> snd (sr_userinfo parts) \<noteq> [])
        (ValueError ''credentials in URLs are forbidden; use authentication_ref'')) (\<lambda>_.
      bind_res (raise_if (sr_hostname parts = []) (ValueError ''target must include a hostname'')) (\<lambda>_.
      bind_res (idna_encode (sr_hostname parts)) (\<lambda>encoded.
      bind_res (sr_port parts) (\<lambda>port.
        Inr (urlunsplit \<lparr>sr_scheme = scheme,
          sr_netloc = normal_netloc scheme (normal_host encoded) port,
          sr_path = (if sr_path parts = [] then ''/'' else sr_path parts),
          sr_query = sr_query parts, sr_fragment = []\<rparr>)))))))))"

subsection \<open>The destination policy\<close>

definition is_public_address :: "string \<Rightarrow> bool res" where
  "is_public_address address =
     (case ip_address_of address of
        None \<Rightarrow> Inl (ValueError (address @ '' does not appear to be an IPv4 or IPv6 address''))
      | Some ip \<Rightarrow> Inr (ip_is_global ip \<and> \<not> ip_is_multicast ip \<and> \<not> ip_is_unspecified ip))"

record destination_policy =
  dp_allowed_ports :: "nat set"
  dp_allow_public_http :: bool
  dp_blocked_threat_hostnames :: "string set"

definition default_destination_policy :: destination_policy where
  "default_destination_policy = \<lparr>dp_allowed_ports = set DEFAULT_ALLOWED_PORTS,
     dp_allow_public_http = True, dp_blocked_threat_hostnames = {}\<rparr>"

record safe_url_policy =
  sp_policy :: destination_policy
  sp_validated_addresses :: "string \<Rightarrow> string list option"

datatype policy_exc = PolicyBlocked string "policy_decision list" | PolicyRaised py_error

definition PolicyDecision :: "string \<Rightarrow> bool \<Rightarrow> string \<Rightarrow> string option \<Rightarrow> policy_decision" where
  "PolicyDecision policy_id allowed reason destination =
     \<lparr>pd_policy_id = policy_id, pd_allowed = allowed, pd_reason = reason, pd_destination = destination\<rparr>"

definition block :: "string \<Rightarrow> string \<Rightarrow> policy_exc" where
  "block policy_id reason = PolicyBlocked reason [PolicyDecision policy_id False reason None]"

definition raised :: "py_error + 'a \<Rightarrow> policy_exc + 'a" where
  "raised m = (case m of Inl e \<Rightarrow> Inl (PolicyRaised e) | Inr x \<Rightarrow> Inr x)"

lemma raised_eq_Inr [simp]: "raised m = Inr x \<longleftrightarrow> m = Inr x"
  by (cases m) (auto simp: raised_def)

text \<open>
  \<^verbatim>\<open>_resolve\<close> sorts and deduplicates what \<^verbatim>\<open>getaddrinfo\<close> returns; \<^term>\<open>None\<close> is the
  \<^verbatim>\<open>gaierror\<close> it turns into the empty tuple.
\<close>

type_synonym resolver = "string \<Rightarrow> nat \<Rightarrow> string list option"

definition resolve :: "resolver \<Rightarrow> string \<Rightarrow> nat \<Rightarrow> string list" where
  "resolve getaddrinfo host port =
     (case getaddrinfo host port of
        None \<Rightarrow> []
      | Some records \<Rightarrow> sorted_list_of_set (set records))"

definition allow_decisions :: "string \<Rightarrow> policy_decision list" where
  "allow_decisions destination =
     [PolicyDecision ''url_validation'' True ''valid HTTP(S) target'' (Some destination),
      PolicyDecision ''dns_resolution_check'' True ''hostname resolved'' (Some destination),
      PolicyDecision ''ssrf_private_ip_check'' True ''all resolved addresses are public'' (Some destination),
      PolicyDecision ''malware_phishing_check'' True
        ''destination is not in the configured threat deny-list'' (Some destination)]"

definition effective_port :: "string \<Rightarrow> nat option \<Rightarrow> nat" where
  "effective_port scheme port =
     (case port of
        Some p \<Rightarrow> if p \<noteq> 0 then p else if scheme = ''https'' then 443 else 80
      | None \<Rightarrow> if scheme = ''https'' then 443 else 80)"

definition check_downgrade :: "string option \<Rightarrow> string \<Rightarrow> policy_exc + unit" where
  "check_downgrade previous_url scheme =
     (case previous_url of
        None \<Rightarrow> Inr ()
      | Some prev \<Rightarrow>
          if prev = [] then Inr ()
          else bind_res (raised (urlsplit prev)) (\<lambda>p.
            raise_if (sr_scheme p = ''https'' \<and> scheme = ''http'')
              (block ''redirect_security'' ''HTTPS downgrade redirects are forbidden'')))"

definition evaluate ::
  "resolver \<Rightarrow> safe_url_policy \<Rightarrow> string \<Rightarrow> string option \<Rightarrow>
     policy_exc + (string \<times> policy_decision list \<times> safe_url_policy)" where
  "evaluate getaddrinfo sp target previous_url =
     (case normalize_url target of
        Inl (ValueError msg) \<Rightarrow> Inl (block ''url_validation'' msg)
      | Inl e \<Rightarrow> Inl (PolicyRaised e)
      | Inr normalized \<Rightarrow>
          bind_res (raised (urlsplit normalized)) (\<lambda>parts.
          bind_res (check_downgrade previous_url (sr_scheme parts)) (\<lambda>_.
          bind_res (raise_if (sr_scheme parts = ''http'' \<and> \<not> dp_allow_public_http (sp_policy sp))
            (block ''url_validation'' ''public HTTP is disabled by the selected policy'')) (\<lambda>_.
          let host = sr_hostname parts in
          bind_res (raise_if (host \<in> set BLOCKED_HOSTNAMES \<or> py_endswith host ''.localhost'')
            (block ''ssrf_private_ip_check'' ''local and metadata hostnames are blocked'')) (\<lambda>_.
          bind_res (raise_if (host \<in> dp_blocked_threat_hostnames (sp_policy sp))
            (block ''malware_phishing_check''
               ''destination is present in the configured malware/phishing deny-list'')) (\<lambda>_.
          bind_res (raised (sr_port parts)) (\<lambda>explicit.
          let port = effective_port (sr_scheme parts) explicit in
          bind_res (raise_if (port \<notin> dp_allowed_ports (sp_policy sp))
            (block ''ssrf_private_ip_check'' (''destination port '' @ nat_to_str port @ '' is not allowed''))) (\<lambda>_.
          let addresses = resolve getaddrinfo host port in
          bind_res (raise_if (addresses = []) (block ''dns_resolution_check'' ''hostname did not resolve'')) (\<lambda>_.
          bind_res (raised (map_res is_public_address addresses)) (\<lambda>public.
          bind_res (raise_if (False \<in> set public)
            (block ''ssrf_private_ip_check'' ''destination resolved to a non-public address'')) (\<lambda>_.
          bind_res (raised (sanitize_url False normalized)) (\<lambda>destination.
            Inr (normalized, allow_decisions destination,
                 sp\<lparr>sp_validated_addresses := (sp_validated_addresses sp)(host \<mapsto> addresses)\<rparr>)))))))))))))"

definition validated_addresses :: "safe_url_policy \<Rightarrow> string \<Rightarrow> string list" where
  "validated_addresses sp host =
     (case sp_validated_addresses sp (normal_host host) of Some a \<Rightarrow> a | None \<Rightarrow> [])"

definition ensure_safe_redirect :: "string \<Rightarrow> string \<Rightarrow> policy_exc + unit" where
  "ensure_safe_redirect previous_url next_url =
     bind_res (raised (urlsplit previous_url)) (\<lambda>p.
     bind_res (raised (urlsplit next_url)) (\<lambda>f.
       raise_if (sr_scheme p = ''https'' \<and> sr_scheme f = ''http'')
         (PolicyBlocked ''HTTPS downgrade redirects are forbidden'' [])))"

subsection \<open>Normalised URLs\<close>

lemma normal_host_plain:
  assumes u: "urlsplit url = Inr p" "CHR ''['' \<notin> set url"
    and h: "sr_hostname p \<noteq> []" "idna_encode (sr_hostname p) = Inr e"
  shows "plain_host (normal_host e)"
proof -
  have e: "e = sr_hostname p" using idna_encode_id [OF h(2)] .
  have ok: "idna_encode (py_lower e) = Inr (py_lower e)" "py_lower e \<noteq> []"
    using idna_encode_lower h by (auto simp: e py_lower_def)
  note x = idna_rstrip [OF ok, folded normal_host_def]
  have sub: "set (normal_host e) \<subseteq> set (py_lower e)"
    by (simp add: normal_host_def set_py_rstrip_by)
  have chars: "\<not> netloc_end c \<and> \<not> url_unsafe c \<and> c \<notin> set ''[]@:''" if c: "c \<in> set (py_lower e)" for c
  proof -
    obtain d where d: "d \<in> set (fst (hostinfo (sr_netloc p)))" "c = lower_char d"
      using c sr_hostname_chars [of _ p] by (fastforce simp: e py_lower_def)
    then show ?thesis
      using hostinfo_plain [OF u] by (auto simp: lower_char_eq_nonalpha)
  qed
  have low: "py_lower (normal_host e) = normal_host e"
    using sub by (intro map_idI [of _ lower_char, folded py_lower_def]) (auto simp: py_lower_def)
  from x sub chars low show ?thesis by (auto simp: plain_host_def)
qed

text \<open>What a successful normalisation did.\<close>

lemma normalize_urlE:
  assumes "normalize_url target = Inr u"
  obtains p e port where "urlsplit (py_strip target) = Inr p"
    "sr_scheme p = ''http'' \<or> sr_scheme p = ''https''" "sr_userinfo p = ([], [])"
    "sr_hostname p \<noteq> []" "idna_encode (sr_hostname p) = Inr e" "sr_port p = Inr port"
    "u = urlunsplit \<lparr>sr_scheme = sr_scheme p,
          sr_netloc = normal_netloc (sr_scheme p) (normal_host e) port,
          sr_path = (if sr_path p = [] then ''/'' else sr_path p), sr_query = sr_query p,
          sr_fragment = []\<rparr>"
  using assms
  by (auto simp: normalize_url_def Let_def urlsplit_scheme_lower prod_eq_iff dest: sym)

text \<open>The parts of a normalised URL.\<close>

lemma normalize_url_split:
  assumes n: "normalize_url target = Inr u" and br: "CHR ''['' \<notin> set target"
  obtains q h port where "urlsplit u = Inr q" "u = urlunsplit q"
    "sr_scheme q = ''http'' \<or> sr_scheme q = ''https''" "plain_host h" "sr_hostname q = h"
    "sr_userinfo q = ([], [])" "sr_fragment q = []" "sr_path q \<noteq> []" "hd (sr_path q) = CHR ''/''"
    "sr_netloc q = normal_netloc (sr_scheme q) h port"
    "sr_port q = Inr (if is_default_port (sr_scheme q) port then None else port)"
proof -
  from n obtain p e port where p: "urlsplit (py_strip target) = Inr p"
    and sc: "sr_scheme p = ''http'' \<or> sr_scheme p = ''https''"
    and host: "sr_hostname p \<noteq> []" "idna_encode (sr_hostname p) = Inr e" and port: "sr_port p = Inr port"
    and u: "u = urlunsplit \<lparr>sr_scheme = sr_scheme p,
          sr_netloc = normal_netloc (sr_scheme p) (normal_host e) port,
          sr_path = (if sr_path p = [] then ''/'' else sr_path p), sr_query = sr_query p,
          sr_fragment = []\<rparr>"
    by (rule normalize_urlE)
  define q where "q = \<lparr>sr_scheme = sr_scheme p,
          sr_netloc = normal_netloc (sr_scheme p) (normal_host e) port,
          sr_path = (if sr_path p = [] then ''/'' else sr_path p), sr_query = sr_query p,
          sr_fragment = []\<rparr>"
  let ?h = "normal_host e"
  have "CHR ''['' \<notin> set (py_strip target)" using br set_py_strip by blast
  with p host have h: "plain_host ?h" by (intro normal_host_plain)
  define ps where "ps = (case port of None \<Rightarrow> [] | Some k \<Rightarrow>
      if is_default_port (sr_scheme p) port then [] else '':'' @ nat_to_str k)"
  have bh: "bracket_host ?h = ?h" using h by (auto simp: bracket_host_def plain_host_def)
  have nl: "sr_netloc q = ?h @ ps"
    by (simp add: q_def normal_netloc_def ps_def bh split: option.splits)
  have "\<exists>k. ps = [] \<or> ps = '':'' @ nat_to_str k"
    by (cases port) (simp_all add: ps_def)
  then obtain k where k: "ps = [] \<or> ps = '':'' @ nat_to_str k" by blast
  note net = plain_host_netloc [OF h nl k]
  have ne: "sr_netloc q \<noteq> []" using h by (simp add: nl plain_host_def)
  have abs: "sr_path p \<noteq> [] \<longrightarrow> hd (sr_path p) = CHR ''/''"
    using urlsplit_path_abs [OF p] host(1) by (cases "sr_netloc p = []")
      (auto simp: sr_hostname_def hostinfo_def py_rpartition_def py_partition_def)
  have split: "urlsplit (urlunsplit q) = Inr q"
  proof (rule urlsplit_join [where sc = "sr_scheme p" and netloc = "sr_netloc q"
          and path = "sr_path q" and query = "sr_query q"])
    show "\<forall>c\<in>set (sr_path q). c \<noteq> CHR ''?'' \<and> c \<noteq> CHR ''#'' \<and> \<not> url_unsafe c"
      using urlsplit_path [OF p] by (simp add: q_def url_unsafe_def ord_char_def)
    show "\<forall>c\<in>set (sr_query q). c \<noteq> CHR ''#'' \<and> \<not> url_unsafe c"
      using urlsplit_query [OF p] by (simp add: q_def)
  qed (use sc net ne abs in \<open>simp_all add: q_def\<close>)
  have hn: "sr_hostname q = ?h" using plain_host_hostname [OF h] net(1) by simp
  have ui: "sr_userinfo q = ([], [])" using net(2) by (simp add: sr_userinfo_def)
  have "\<And>k. port = Some k \<Longrightarrow> k \<le> 65535"
    using port by (auto simp: sr_port_def Let_def split: if_splits)
  then have po: "sr_port q = Inr (if is_default_port (sr_scheme p) port then None else port)"
    using net(1) nat_to_str_digits
    by (auto simp: sr_port_def ps_def is_default_port_def split: option.splits if_splits)
  show thesis
    by (rule that [OF _ _ _ h hn ui]) (use sc abs split po in \<open>simp_all add: u q_def\<close>)
qed

text \<open>
  Normalising a normalised URL changes nothing, so every component that normalises again
  (the plan's binding, the policy, the crawl frontier) works on the same URL. The target has no
  bracketed host, and the result does not end in white space: the second condition is needed,
  since white space in front of a fragment survives the first normalisation only.
\<close>

theorem normalize_url_idempotent:
  assumes n: "normalize_url target = Inr u" and br: "CHR ''['' \<notin> set target"
    and sp: "\<not> is_space (last u)"
  shows "normalize_url u = Inr u"
proof -
  from n br obtain q h port where q: "urlsplit u = Inr q" "u = urlunsplit q"
    and sc: "sr_scheme q = ''http'' \<or> sr_scheme q = ''https''"
    and h: "plain_host h" "sr_hostname q = h" and ui: "sr_userinfo q = ([], [])"
    and fr: "sr_fragment q = []" and pa: "sr_path q \<noteq> []" "hd (sr_path q) = CHR ''/''"
    and nl: "sr_netloc q = normal_netloc (sr_scheme q) h port"
    and po: "sr_port q = Inr (if is_default_port (sr_scheme q) port then None else port)"
    by (rule normalize_url_split)
  have hd: "u \<noteq> [] \<and> \<not> is_space (hd u)"
    using sc by (auto simp: q(2) urlunsplit_def Let_def is_space_def ord_char_def)
  then have st: "py_strip u = u" using sp by (simp add: py_strip_id)
  have id: "idna_encode h = Inr h" "normal_host h = h" "h \<noteq> []"
    using h(1) by (auto simp: plain_host_def normal_host_def py_rstrip_by_id)
  have low: "py_lower (sr_scheme q) = sr_scheme q" using urlsplit_scheme_lower [OF q(1)] .
  have nl': "normal_netloc (sr_scheme q) h (if is_default_port (sr_scheme q) port then None else port)
      = sr_netloc q"
    by (auto simp: nl normal_netloc_def split: option.splits)
  have "sr_scheme q \<in> {''http'', ''https''}" using sc by simp
  then have "normalize_url u = Inr (urlunsplit \<lparr>sr_scheme = sr_scheme q, sr_netloc = sr_netloc q,
      sr_path = sr_path q, sr_query = sr_query q, sr_fragment = []\<rparr>)"
    using q(1) ui h po id pa hd nl' by (simp add: normalize_url_def st low Let_def)
  also have "\<dots> = Inr u" using fr by (cases q) (simp add: q(2))
  finally show ?thesis .
qed

theorem normalize_url_idempotent_witness:
  "normalize_url ''http://example.com/a?q=1'' = Inr ''http://example.com/a?q=1''"
proof -
  have "normalize_url '' HTTP://Example.COM.:80/a?q=1#top'' = Inr ''http://example.com/a?q=1''"
    by code_simp
  then show ?thesis
    by (rule normalize_url_idempotent) (simp_all add: is_space_def ord_char_def)
qed

text \<open>
  The white space in front of a fragment ends up at the end of the normalised URL, and the
  next normalisation removes it: the function is not idempotent.
\<close>

theorem normalize_url_not_idempotent:
  "normalize_url ''http://h/a #f'' = Inr ''http://h/a '' \<and>
   normalize_url ''http://h/a '' = Inr ''http://h/a''"
proof
  show "normalize_url ''http://h/a #f'' = Inr ''http://h/a ''" by code_simp
  show "normalize_url ''http://h/a '' = Inr ''http://h/a''" by code_simp
qed

subsection \<open>The destination policy\<close>

lemma map_res_public:
  "map_res is_public_address as = Inr bs \<Longrightarrow> False \<notin> set bs \<Longrightarrow>
     a \<in> set as \<Longrightarrow> is_public_address a = Inr True"
  by (metis (full_types) in_set_conv_nth map_res_Inr_length map_res_Inr_nth)

lemma urlsplit_Nil:
  "urlsplit [] = Inr \<lparr>sr_scheme = [], sr_netloc = [], sr_path = [], sr_query = [], sr_fragment = []\<rparr>"
  by code_simp

lemma evaluateE:
  assumes "evaluate ga sp target prev = Inr (n, ds, sp')"
  obtains p explicit bs d where "normalize_url target = Inr n" "urlsplit n = Inr p"
    "check_downgrade prev (sr_scheme p) = Inr ()"
    "sr_scheme p = ''http'' \<longrightarrow> dp_allow_public_http (sp_policy sp)"
    "sr_hostname p \<notin> set BLOCKED_HOSTNAMES" "\<not> py_endswith (sr_hostname p) ''.localhost''"
    "sr_hostname p \<notin> dp_blocked_threat_hostnames (sp_policy sp)" "sr_port p = Inr explicit"
    "effective_port (sr_scheme p) explicit \<in> dp_allowed_ports (sp_policy sp)"
    "resolve ga (sr_hostname p) (effective_port (sr_scheme p) explicit) \<noteq> []"
    "map_res is_public_address (resolve ga (sr_hostname p) (effective_port (sr_scheme p) explicit)) = Inr bs"
    "False \<notin> set bs" "sanitize_url False n = Inr d" "ds = allow_decisions d"
    "sp' = sp\<lparr>sp_validated_addresses := (sp_validated_addresses sp)
       (sr_hostname p \<mapsto> resolve ga (sr_hostname p) (effective_port (sr_scheme p) explicit))\<rparr>"
  using assms
  by (auto simp: evaluate_def Let_def split: sum.splits py_error.splits)

text \<open>
  C3: the destination policy is fail-closed. When it lets a target through, the host is no
  local, metadata or threat-listed name, the host resolved, every address it resolved to is public,
  exactly those addresses are recorded for the host, and the step from an HTTPS page does not lead to
  plain HTTP, which is let through only where the policy allows it. An explicit port other than 0 is
  an allowed port. A URL without a port, and a URL with the explicit port 0, is checked for the
  default port of its scheme: port 0 itself is not rejected (\<open>evaluate_port_zero\<close>).
\<close>

theorem evaluate_fail_closed:
  assumes "evaluate ga sp target prev = Inr (n, ds, sp')"
  shows "\<exists>p explicit addresses. urlsplit n = Inr p \<and> sr_port p = Inr explicit \<and>
     sr_hostname p \<notin> set BLOCKED_HOSTNAMES \<and> \<not> py_endswith (sr_hostname p) ''.localhost'' \<and>
     sr_hostname p \<notin> dp_blocked_threat_hostnames (sp_policy sp) \<and>
     (sr_scheme p = ''http'' \<longrightarrow> dp_allow_public_http (sp_policy sp)) \<and>
     (\<forall>q. explicit = Some q \<and> q \<noteq> 0 \<longrightarrow> q \<in> dp_allowed_ports (sp_policy sp)) \<and>
     (explicit = None \<or> explicit = Some 0 \<longrightarrow> (if sr_scheme p = ''https'' then 443 else 80) \<in> dp_allowed_ports (sp_policy sp)) \<and>
     addresses = resolve ga (sr_hostname p) (effective_port (sr_scheme p) explicit) \<and>
     addresses \<noteq> [] \<and> (\<forall>a\<in>set addresses. is_public_address a = Inr True) \<and>
     sp_validated_addresses sp' (sr_hostname p) = Some addresses \<and>
     (\<forall>u q. prev = Some u \<and> urlsplit u = Inr q \<and> sr_scheme q = ''https'' \<longrightarrow> sr_scheme p \<noteq> ''http'')"
proof -
  from assms obtain p explicit bs where p: "urlsplit n = Inr p" "sr_port p = Inr explicit"
    and down: "check_downgrade prev (sr_scheme p) = Inr ()" and http: "sr_scheme p = ''http'' \<longrightarrow> dp_allow_public_http (sp_policy sp)"
    and host: "sr_hostname p \<notin> set BLOCKED_HOSTNAMES" "\<not> py_endswith (sr_hostname p) ''.localhost''"
      "sr_hostname p \<notin> dp_blocked_threat_hostnames (sp_policy sp)"
    and port: "effective_port (sr_scheme p) explicit \<in> dp_allowed_ports (sp_policy sp)"
    and res: "resolve ga (sr_hostname p) (effective_port (sr_scheme p) explicit) \<noteq> []"
      "map_res is_public_address (resolve ga (sr_hostname p) (effective_port (sr_scheme p) explicit)) = Inr bs"
      "False \<notin> set bs"
    and sp': "sp' = sp\<lparr>sp_validated_addresses := (sp_validated_addresses sp)
       (sr_hostname p \<mapsto> resolve ga (sr_hostname p) (effective_port (sr_scheme p) explicit))\<rparr>"
    by (rule evaluateE) blast
  have "\<forall>u q. prev = Some u \<and> urlsplit u = Inr q \<and> sr_scheme q = ''https'' \<longrightarrow> sr_scheme p \<noteq> ''http''"
    using down urlsplit_Nil by (auto simp: check_downgrade_def split: if_splits)
  moreover have "\<forall>q. explicit = Some q \<and> q \<noteq> 0 \<longrightarrow> q \<in> dp_allowed_ports (sp_policy sp)"
    "explicit = None \<or> explicit = Some 0 \<longrightarrow> (if sr_scheme p = ''https'' then 443 else 80) \<in> dp_allowed_ports (sp_policy sp)"
    using port by (auto simp: effective_port_def)
  ultimately show ?thesis using p host http res map_res_public [OF res(2,3)] by (auto simp: sp')
qed

definition public_resolver :: resolver where
  "public_resolver host port = Some [''93.184.216.34'']"

definition fresh_policy :: safe_url_policy where
  "fresh_policy = \<lparr>sp_policy = default_destination_policy, sp_validated_addresses = (\<lambda>_. None)\<rparr>"

definition is_allowed :: "policy_exc + 'a \<Rightarrow> bool" where
  "is_allowed m = (case m of Inl _ \<Rightarrow> False | Inr _ \<Rightarrow> True)"

theorem evaluate_fail_closed_witness:
  "\<exists>n ds sp'. evaluate public_resolver fresh_policy ''https://example.com/x'' (Some ''https://example.com/'')
       = Inr (n, ds, sp') \<and>
     (\<exists>p addresses. urlsplit n = Inr p \<and> addresses \<noteq> [] \<and>
        (\<forall>a\<in>set addresses. is_public_address a = Inr True) \<and>
        sp_validated_addresses sp' (sr_hostname p) = Some addresses)"
proof -
  have "is_allowed (evaluate public_resolver fresh_policy ''https://example.com/x'' (Some ''https://example.com/''))"
    by code_simp
  then obtain n ds sp' where e:
    "evaluate public_resolver fresh_policy ''https://example.com/x'' (Some ''https://example.com/'') = Inr (n, ds, sp')"
    by (auto simp: is_allowed_def split: sum.splits)
  from evaluate_fail_closed [OF e] obtain p as where "urlsplit n = Inr p" "as \<noteq> []"
    "\<forall>a\<in>set as. is_public_address a = Inr True" "sp_validated_addresses sp' (sr_hostname p) = Some as"
    by (elim exE conjE) simp
  with e show ?thesis by blast
qed

text \<open>
  An explicit port 0 is read as no port (\<^verbatim>\<open>parts.port or default\<close>), so a URL with port 0
  passes the port check although 0 is not an allowed port, and the URL that is let through still
  names port 0.
\<close>

theorem evaluate_port_zero:
  "\<exists>n ds sp' p. evaluate public_resolver fresh_policy ''http://example.com:0/'' None = Inr (n, ds, sp') \<and>
     urlsplit n = Inr p \<and> sr_port p = Inr (Some 0) \<and> 0 \<notin> dp_allowed_ports (sp_policy fresh_policy)"
proof -
  have "is_allowed (evaluate public_resolver fresh_policy ''http://example.com:0/'' None)"
    by code_simp
  then obtain n ds sp' where
    e: "evaluate public_resolver fresh_policy ''http://example.com:0/'' None = Inr (n, ds, sp')"
    by (auto simp: is_allowed_def split: sum.splits)
  have "normalize_url ''http://example.com:0/'' = Inr ''http://example.com:0/''" by code_simp
  with e have n: "n = ''http://example.com:0/''" by (auto elim: evaluateE)
  have "bind_res (urlsplit ''http://example.com:0/'') sr_port = Inr (Some 0)" by code_simp
  then obtain p where "urlsplit n = Inr p" "sr_port p = Inr (Some 0)" by (auto simp: n)
  moreover have "0 \<notin> dp_allowed_ports (sp_policy fresh_policy)"
    by (simp add: fresh_policy_def default_destination_policy_def DEFAULT_ALLOWED_PORTS_def)
  ultimately show ?thesis using e by blast
qed

subsection \<open>Redaction hides what it should\<close>

text \<open>Two query strings with the same names whose values differ only where they are redacted.\<close>

definition same_public_query :: "bool \<Rightarrow> string \<Rightarrow> string \<Rightarrow> bool" where
  "same_public_query redact_query q1 q2 \<longleftrightarrow>
     list_all2 (\<lambda>(k1, v1) (k2, v2). k1 = k2 \<and>
         (v1 = v2 \<or> redact_query \<or> py_lower k1 \<in> set SENSITIVE_QUERY_KEYS))
       (parse_qsl False q1) (parse_qsl False q2)"

lemma same_public_query_redact:
  "same_public_query r q1 q2 \<Longrightarrow>
     map (redact_pair r) (parse_qsl False q1) = map (redact_pair r) (parse_qsl False q2)"
  unfolding same_public_query_def
  by (induction rule: list_all2_induct) (auto simp: redact_pair_def)

text \<open>
  A sanitised URL does not depend on the values of sensitive query parameters (of any
  parameter, for an authenticated request), nor on the credentials or the fragment of the URL.
\<close>

theorem sanitize_url_noninterference:
  assumes "urlsplit u1 = Inr p1" "urlsplit u2 = Inr p2"
    and "sr_scheme p1 = sr_scheme p2" "sr_hostname p1 = sr_hostname p2" "sr_port p1 = sr_port p2"
      "sr_path p1 = sr_path p2"
    and "same_public_query redact_query (sr_query p1) (sr_query p2)"
  shows "sanitize_url redact_query u1 = sanitize_url redact_query u2"
  using assms same_public_query_redact by (simp add: sanitize_url_def)

definition split_ok :: "string \<Rightarrow> split_result" where
  "split_ok u = (case urlsplit u of Inr p \<Rightarrow> p
     | Inl _ \<Rightarrow> \<lparr>sr_scheme = [], sr_netloc = [], sr_path = [], sr_query = [], sr_fragment = []\<rparr>)"

theorem sanitize_url_noninterference_witness:
  "sanitize_url False ''https://me:pw@h/a?token=abc&x=1#f'' = sanitize_url False ''https://h/a?token=zzz&x=1''"
proof (rule sanitize_url_noninterference)
  show "urlsplit ''https://me:pw@h/a?token=abc&x=1#f'' = Inr (split_ok ''https://me:pw@h/a?token=abc&x=1#f'')"
    by code_simp
  show "urlsplit ''https://h/a?token=zzz&x=1'' = Inr (split_ok ''https://h/a?token=zzz&x=1'')"
    by code_simp
  show "sr_scheme (split_ok ''https://me:pw@h/a?token=abc&x=1#f'') = sr_scheme (split_ok ''https://h/a?token=zzz&x=1'')"
    by code_simp
  show "sr_hostname (split_ok ''https://me:pw@h/a?token=abc&x=1#f'') = sr_hostname (split_ok ''https://h/a?token=zzz&x=1'')"
    by code_simp
  show "sr_port (split_ok ''https://me:pw@h/a?token=abc&x=1#f'') = sr_port (split_ok ''https://h/a?token=zzz&x=1'')"
    by code_simp
  show "sr_path (split_ok ''https://me:pw@h/a?token=abc&x=1#f'') = sr_path (split_ok ''https://h/a?token=zzz&x=1'')"
    by code_simp
  show "same_public_query False (sr_query (split_ok ''https://me:pw@h/a?token=abc&x=1#f''))
      (sr_query (split_ok ''https://h/a?token=zzz&x=1''))"
    by code_simp
qed

end
