(* ===== verification/Registry.thy ===== *)
theory Registry
  imports Models
begin

section \<open>The capability registry: registry.py and conformance.py\<close>

text \<open>
  The canonical capability registry. \<^verbatim>\<open>conformance.py\<close> holds the tables that say how each
  capability is implemented; \<^verbatim>\<open>registry.py\<close> loads the manifest (here the document its YAML
  parser returns), validates it and answers lookups. A \<^verbatim>\<open>ManifestError\<close> is a
  \<^verbatim>\<open>ValueError\<close>. The text Python prints for a scalar that is no string is the parameter
  \<open>fmt\<close> of the loader.
\<close>

subsection \<open>The implementation tables\<close>

definition V01_OPTIONAL :: "(string \<times> string) list" where
  "V01_OPTIONAL =
    [(''browser_reader_mode'', ''fetech.browser_reader.BrowserReaderWorker[playwright chromium]''),
     (''http_3'', ''fetech.http3.CurlHTTP3Client[curl built with HTTP3]''),
     (''jina_reader'', ''fetech.adapters.reader.ReaderAdapter[configured remote reader]''),
     (''mozilla_readability'', ''fetech.adapters.reader.ReaderAdapter[readability-lxml]''),
     (''trafilatura'', ''fetech.adapters.reader.ReaderAdapter[trafilatura]'')]"

definition V01_PLANNED :: "(string \<times> string) list" where
  "V01_PLANNED =
    []"

definition V02_OPTIONAL :: "(string \<times> string) list" where
  "V02_OPTIONAL =
    [(''playwright'', ''fetech.adapters.browser.BrowserAdapter[fetech[browser]]''),
     (''puppeteer'', ''fetech.adapters.browser.BrowserAdapter[configured Puppeteer connector]''),
     (''search_provider_discovery'', ''fetech.adapters.discovery.DiscoveryAdapter[configured search provider connector]''),
     (''selenium'', ''fetech.adapters.browser.BrowserAdapter[configured Selenium connector]'')]"

definition V03_NATIVE :: "(string \<times> string) list" where
  "V03_NATIVE =
    [(''api_key'', ''fetech.auth.CredentialProvider+fetech.adapters.http.HTTPAdapter''),
     (''arxiv_api'', ''fetech.adapters.api.StructuredAPIAdapter[arXiv Atom schema]''),
     (''atom'', ''fetech.adapters.api.StructuredAPIAdapter[bounded Atom parser]''),
     (''bearer_token'', ''fetech.auth.CredentialProvider+fetech.adapters.http.HTTPAdapter''),
     (''connector_auth'', ''fetech.auth.CredentialProvider''),
     (''cookie_session'', ''fetech.auth.CredentialProvider+fetech.adapters.http.HTTPAdapter''),
     (''crossref_openalex_api'', ''fetech.adapters.api.StructuredAPIAdapter[Crossref/OpenAlex schemas]''),
     (''csrf_token'', ''fetech.auth_flows.extract_csrf_token+fetech.adapters.auth.AuthAdapter''),
     (''form_submit'', ''fetech.adapters.auth.AuthAdapter[explicit approval]''),
     (''github_api'', ''fetech.adapters.api.StructuredAPIAdapter[GitHub schema]''),
     (''graphql'', ''fetech.adapters.api.StructuredAPIAdapter[GraphQL envelope]''),
     (''json_endpoint'', ''fetech.adapters.api.StructuredAPIAdapter[bounded JSON parser]''),
     (''login_session'', ''fetech.adapters.auth.AuthAdapter[origin-scoped session provider and approved form login]''),
     (''oauth'', ''fetech.adapters.auth.AuthAdapter[origin-scoped OAuth session provider]''),
     (''openapi_discovery'', ''fetech.adapters.api.StructuredAPIAdapter[bounded OpenAPI parser]''),
     (''openreview_api'', ''fetech.adapters.api.StructuredAPIAdapter[OpenReview schema]''),
     (''rest'', ''fetech.adapters.api.StructuredAPIAdapter[JSON/XML response]''),
     (''rss'', ''fetech.adapters.api.StructuredAPIAdapter[bounded RSS parser]''),
     (''semantic_scholar_api'', ''fetech.adapters.api.StructuredAPIAdapter[Semantic Scholar schema]''),
     (''sitemap_xml'', ''fetech.adapters.api.StructuredAPIAdapter[bounded sitemap parser]''),
     (''xml_endpoint'', ''fetech.adapters.api.StructuredAPIAdapter[DTD-free XML parser]'')]"

definition V03_OPTIONAL :: "(string \<times> string) list" where
  "V03_OPTIONAL =
    [(''private_workspace'', ''fetech.adapters.auth.AuthAdapter[configured private workspace connector]''),
     (''sso'', ''fetech.adapters.auth.AuthAdapter[configured SSO session connector]'')]"

definition V04_NATIVE :: "(string \<times> string) list" where
  "V04_NATIVE =
    [(''browser_cache'', ''fetech.adapters.cache.CacheAdapter[validated SnapshotStore]''),
     (''csv'', ''fetech.adapters.documents.DocumentAdapter[bounded DocumentParseWorker]''),
     (''dataset_file'', ''fetech.adapters.documents.DocumentAdapter[signature-first routing]''),
     (''exif_metadata'', ''fetech.adapters.media.MediaAdapter[bounded EXIF parser]''),
     (''github_raw'', ''fetech.adapters.documents.DocumentAdapter[exact raw.githubusercontent.com origin]''),
     (''internet_archive_snapshot'', ''fetech.wayback.WaybackSnapshotConnector[pinned exact-host Wayback client]''),
     (''json_file'', ''fetech.adapters.documents.DocumentAdapter[bounded JSON parser]''),
     (''local_snapshot'', ''fetech.adapters.cache.CacheAdapter[validated SnapshotStore]''),
     (''markdown'', ''fetech.adapters.documents.DocumentAdapter[bounded DocumentParseWorker]''),
     (''podcast_feed'', ''fetech.adapters.media.MediaAdapter[bounded RSS parser]''),
     (''previous_successful_snapshot'', ''fetech.adapters.cache.CacheAdapter[integrity-verified SnapshotStore lookup]''),
     (''rag_document_cache'', ''fetech.adapters.cache.CacheAdapter[validated SnapshotStore]''),
     (''search_cache'', ''fetech.adapters.cache.CacheAdapter[validated SnapshotStore]''),
     (''search_snippet_cache'', ''fetech.adapters.cache.CacheAdapter[validated SnapshotStore]''),
     (''txt'', ''fetech.adapters.documents.DocumentAdapter[bounded DocumentParseWorker]''),
     (''xml_file'', ''fetech.adapters.documents.DocumentAdapter[DTD-free XML parser]''),
     (''zip_archive'', ''fetech.adapters.archive.ArchiveAdapter[bounded ArchiveParseWorker]'')]"

definition V04_OPTIONAL :: "(string \<times> string) list" where
  "V04_OPTIONAL =
    [(''alternate_search_cache_adapter'', ''fetech.adapters.cache.CacheAdapter[configured SnapshotConnector]''),
     (''audio_metadata'', ''fetech.adapters.media.MediaAdapter[WAV or bounded FFprobeWorker]''),
     (''cdn_copy'', ''fetech.adapters.cache.CacheAdapter[configured SnapshotConnector]''),
     (''docx'', ''fetech.adapters.documents.DocumentAdapter[python-docx worker]''),
     (''git_lfs'', ''fetech.adapters.documents.DocumentAdapter[configured exact-origin LFS resolver]''),
     (''image_ocr'', ''fetech.adapters.media.MediaAdapter[bounded TesseractOCRWorker]''),
     (''image'', ''fetech.adapters.media.MediaAdapter[bounded header parser + PillowImageValidationWorker]''),
     (''image_metadata'', ''fetech.adapters.media.MediaAdapter[bounded header parser + PillowImageValidationWorker]''),
     (''pdf'', ''fetech.adapters.documents.DocumentAdapter[pypdf worker]''),
     (''pptx'', ''fetech.adapters.documents.DocumentAdapter[python-pptx worker]''),
     (''scanned_pdf'', ''fetech.adapters.documents.DocumentAdapter[pypdf worker + configured PDFOCRProvider]''),
     (''screenshot_to_text'', ''fetech.adapters.media.MediaAdapter[bounded TesseractOCRWorker]''),
     (''search_engine_cache_adapter'', ''fetech.adapters.cache.CacheAdapter[configured SnapshotConnector]''),
     (''thumbnail'', ''fetech.adapters.media.MediaAdapter[bounded FFmpegThumbnailWorker]''),
     (''transcript'', ''fetech.adapters.media.MediaAdapter[bounded parser or TranscriptProvider]''),
     (''video_metadata'', ''fetech.adapters.media.MediaAdapter[bounded FFprobeWorker]''),
     (''web_archive'', ''fetech.adapters.cache.CacheAdapter[configured SnapshotConnector]''),
     (''xlsx'', ''fetech.adapters.documents.DocumentAdapter[openpyxl worker]''),
     (''youtube_metadata'', ''fetech.yt_dlp.YTDLPMetadataWorker[bounded built-in yt-dlp metadata worker]'')]"

definition IMPLEMENTATIONS :: "(string \<times> string) list" where
  "IMPLEMENTATIONS =
    [(''browser'', ''fetech.adapters.browser.BrowserAdapter[fetech[browser]]''),
     (''core'', ''fetech.gateway._CoreAdapter''),
     (''discovery'', ''fetech.adapters.discovery.DiscoveryAdapter''),
     (''http'', ''fetech.adapters.http.HTTPAdapter''),
     (''reader'', ''fetech.adapters.reader.ReaderAdapter''),
     (''variants'', ''fetech.adapters.variants.VariantAdapter''),
     (''quality'', ''fetech.quality+fetech.executor.ExecutionEngine+fetech.storage.CacheRecord'')]"

record implementation_record =
  im_status :: implementation_status
  im_implementation :: string

definition implementation_for :: "string \<Rightarrow> string \<Rightarrow> string \<Rightarrow> implementation_record res" where
  "implementation_for capability_id closure_release adapter =
     (case (if closure_release = ''v0.3'' then map_of V03_NATIVE capability_id else None) of
        Some i \<Rightarrow> Inr \<lparr>im_status = NATIVE, im_implementation = i\<rparr> | None \<Rightarrow>
     (case (if closure_release = ''v0.3'' then map_of V03_OPTIONAL capability_id else None) of
        Some i \<Rightarrow> Inr \<lparr>im_status = OPTIONAL, im_implementation = i\<rparr> | None \<Rightarrow>
     (case (if closure_release = ''v0.4'' then map_of V04_NATIVE capability_id else None) of
        Some i \<Rightarrow> Inr \<lparr>im_status = NATIVE, im_implementation = i\<rparr> | None \<Rightarrow>
     (case (if closure_release = ''v0.4'' then map_of V04_OPTIONAL capability_id else None) of
        Some i \<Rightarrow> Inr \<lparr>im_status = OPTIONAL, im_implementation = i\<rparr> | None \<Rightarrow>
     (if closure_release \<notin> {''v0.1'', ''v0.2''}
      then Inr \<lparr>im_status = PLANNED, im_implementation = closure_release @ '' roadmap''\<rparr>
      else
     (case (if closure_release = ''v0.2'' then map_of V02_OPTIONAL capability_id else None) of
        Some i \<Rightarrow> Inr \<lparr>im_status = OPTIONAL, im_implementation = i\<rparr> | None \<Rightarrow>
     (case map_of V01_PLANNED capability_id of
        Some i \<Rightarrow> Inr \<lparr>im_status = PLANNED, im_implementation = i\<rparr> | None \<Rightarrow>
     (case map_of V01_OPTIONAL capability_id of
        Some i \<Rightarrow> Inr \<lparr>im_status = OPTIONAL, im_implementation = i\<rparr> | None \<Rightarrow>
     (case map_of IMPLEMENTATIONS adapter of
        Some i \<Rightarrow> Inr \<lparr>im_status = NATIVE, im_implementation = i\<rparr>
      | None \<Rightarrow> Inl (KeyError adapter))))))))))"

record release_summary =
  rel_release :: string
  rel_capability_count :: nat
  rel_implementation_path_count :: nat
  rel_runtime_available_count :: nat
  rel_closure_ready :: bool
  rel_status_counts :: "(string \<times> nat) list"
  rel_gaps :: "string list"

fun implementation_status_value :: "implementation_status \<Rightarrow> string" where
  "implementation_status_value NATIVE = ''native''"
| "implementation_status_value OPTIONAL = ''optional''"
| "implementation_status_value PLANNED = ''planned''"

text \<open>
  \<^verbatim>\<open>dict(sorted(Counter(...).items()))\<close>: one entry for every status that occurs, in the order
  of the values.
\<close>

definition status_counts :: "capability_manifest_entry list \<Rightarrow> (string \<times> nat) list" where
  "status_counts selected =
     filter (\<lambda>(_, n). n \<noteq> 0)
       (map (\<lambda>s. (implementation_status_value s,
                  length (filter (\<lambda>e. me_implementation_status e = s) selected)))
          [NATIVE, OPTIONAL, PLANNED])"

definition release_report :: "capability_manifest_entry list \<Rightarrow> string \<Rightarrow> release_summary" where
  "release_report entries release =
     (let selected = filter (\<lambda>e. me_closure_release e = release) entries;
          gaps = map me_id (filter (\<lambda>e. me_implementation_status e = PLANNED) selected)
      in \<lparr>rel_release = release, rel_capability_count = length selected,
          rel_implementation_path_count = length (filter me_implementation_available selected),
          rel_runtime_available_count = length (filter me_runtime_available selected),
          rel_closure_ready = (gaps = []), rel_status_counts = status_counts selected,
          rel_gaps = gaps\<rparr>)"

subsection \<open>Loading the manifest document\<close>

text \<open>Iterating a value, indexing a dictionary, and \<^verbatim>\<open>str\<close> of a value.\<close>

definition py_iter :: "pyval \<Rightarrow> pyval list res" where
  "py_iter v =
     (case v of
        VList vs \<Rightarrow> Inr vs
      | VTuple vs \<Rightarrow> Inr vs
      | VStr s \<Rightarrow> Inr (map VStr (utf8_chars s))
      | VDict kvs \<Rightarrow> Inr (map (VStr \<circ> fst) kvs)
      | _ \<Rightarrow> Inl (PyTypeError ''object is not iterable''))"

definition py_item :: "document \<Rightarrow> string \<Rightarrow> pyval res" where
  "py_item d k = (case map_of d k of Some v \<Rightarrow> Inr v | None \<Rightarrow> Inl (KeyError k))"

definition py_get :: "document \<Rightarrow> string \<Rightarrow> pyval \<Rightarrow> pyval" where
  "py_get d k v = (case map_of d k of Some x \<Rightarrow> x | None \<Rightarrow> v)"

definition py_str :: "(pyval \<Rightarrow> string) \<Rightarrow> pyval \<Rightarrow> string" where
  "py_str fmt v = (case v of VStr s \<Rightarrow> s | _ \<Rightarrow> fmt v)"

definition CapabilityKind :: "string \<Rightarrow> capability_kind res" where
  "CapabilityKind s =
     (case map_of [(''operation'', OPERATION), (''transport_feature'', TRANSPORT_FEATURE),
         (''variant_generator'', VARIANT_GENERATOR), (''extractor'', EXTRACTOR),
         (''format_handler'', FORMAT_HANDLER), (''detector'', DETECTOR), (''policy'', POLICY),
         (''connector'', CONNECTOR), (''storage_strategy'', STORAGE_STRATEGY)] s of
        Some k \<Rightarrow> Inr k
      | None \<Rightarrow> Inl (ValueError (s @ '' is not a valid CapabilityKind'')))"

text \<open>The contract model accepts a tuple of strings only.\<close>

definition as_text :: "pyval \<Rightarrow> string res" where
  "as_text v = (case v of VStr s \<Rightarrow> Inr s | _ \<Rightarrow> Inl (ValueError ''Input should be a valid string''))"

definition availability_reason :: "implementation_status \<Rightarrow> string" where
  "availability_reason st =
     (if st = NATIVE then ''included in the required runtime''
      else if st = OPTIONAL then ''requires an optional dependency or configured provider''
      else ''implementation is planned'')"

definition load_capability ::
  "(pyval \<Rightarrow> string) \<Rightarrow> document \<Rightarrow> document \<Rightarrow> capability_manifest_entry res" where
  "load_capability fmt category capability =
     bind_res (py_item capability ''id'') (\<lambda>id0.
     bind_res (py_item category ''adapter'') (\<lambda>ad0.
     bind_res (py_item category ''closure_release'') (\<lambda>rel0.
     let capability_id = py_str fmt id0;
         adapter = py_str fmt (py_get capability ''adapter'' ad0);
         closure_release = py_str fmt rel0
     in
     bind_res (implementation_for capability_id closure_release adapter) (\<lambda>impl.
     bind_res (py_iter (py_get capability ''aliases'' (VList []))) (\<lambda>aliases0.
     bind_res (py_item category ''id'') (\<lambda>cat0.
     bind_res (py_item category ''name'') (\<lambda>name0.
     bind_res (py_item capability ''kind'') (\<lambda>kind0.
     bind_res (CapabilityKind (py_str fmt kind0)) (\<lambda>kind.
     bind_res (py_item category ''risk_class'') (\<lambda>risk0.
     bind_res (py_iter (py_get capability ''inputs'' (VList [VStr ''target'']))) (\<lambda>inputs0.
     bind_res (py_iter (py_get capability ''outputs'' (VList [VStr ''attempt'']))) (\<lambda>outputs0.
     bind_res (py_iter (py_get capability ''dependencies'' (VList []))) (\<lambda>dependencies0.
     bind_res (py_iter (py_get capability ''tests'' (VList [VStr (''manifest::'' @ capability_id)]))) (\<lambda>tests0.
     bind_res (map_res as_text aliases0) (\<lambda>aliases.
     bind_res (map_res as_text inputs0) (\<lambda>inputs.
     bind_res (map_res as_text outputs0) (\<lambda>outputs.
     bind_res (map_res as_text dependencies0) (\<lambda>dependencies.
     bind_res (map_res as_text tests0) (\<lambda>tests.
       Inr \<lparr>me_id = capability_id, me_aliases = aliases, me_category = py_str fmt cat0,
            me_category_name = py_str fmt name0, me_closure_release = closure_release,
            me_kind = kind, me_adapter = adapter,
            me_risk_class = py_str fmt (py_get capability ''risk_class'' risk0),
            me_inputs = inputs, me_outputs = outputs, me_dependencies = dependencies,
            me_reference = py_str fmt (py_get capability ''reference''
              (VStr (''docs/capability-catalog.md#'' @ py_replace_char (CHR ''_'') (CHR ''-'') capability_id))),
            me_tests = tests,
            me_lifecycle_status = py_str fmt (py_get capability ''status'' (VStr ''registered'')),
            me_implementation_status = im_status impl, me_implementation = im_implementation impl,
            me_implementation_available = (im_status impl \<noteq> PLANNED),
            me_runtime_available = (im_status impl = NATIVE),
            me_availability_reason = availability_reason (im_status impl)\<rparr>)))))))))))))))))))"

definition load_category :: "(pyval \<Rightarrow> string) \<Rightarrow> pyval \<Rightarrow> capability_manifest_entry list res" where
  "load_category fmt category =
     (case category of
        VDict cat \<Rightarrow>
          bind_res (py_iter (py_get cat ''capabilities'' (VList []))) (\<lambda>capabilities.
          map_res (\<lambda>capability. case capability of
              VDict c \<Rightarrow> load_capability fmt cat c
            | _ \<Rightarrow> Inl (ValueError ''each capability must be a mapping'')) capabilities)
      | _ \<Rightarrow> Inl (ValueError ''each category must be a mapping''))"

definition load_manifest ::
  "(pyval \<Rightarrow> string) \<Rightarrow> pyval \<Rightarrow> (string \<times> capability_manifest_entry list) res" where
  "load_manifest fmt raw =
     (case raw of
        VDict doc \<Rightarrow>
          (case map_of doc ''categories'' of
             Some (VList categories) \<Rightarrow>
               bind_res (map_res (load_category fmt) categories) (\<lambda>groups.
                 Inr (py_str fmt (py_get doc ''manifest_version'' (VStr ''unknown'')), concat groups))
           | _ \<Rightarrow> Inl (ValueError ''manifest must contain a categories list''))
      | _ \<Rightarrow> Inl (ValueError ''manifest must contain a categories list''))"

subsection \<open>The registry object\<close>

definition EXPECTED_CATEGORIES :: nat where
  "EXPECTED_CATEGORIES = 13"

definition EXPECTED_CAPABILITIES :: nat where
  "EXPECTED_CAPABILITIES = 155"

record capability_registry =
  reg_manifest_version :: string
  reg_entries :: "capability_manifest_entry list"
  reg_by_id :: "string \<Rightarrow> capability_manifest_entry option"
  reg_aliases :: "string \<Rightarrow> string option"

definition entry_aliases :: "capability_manifest_entry list \<Rightarrow> (string \<times> string) list" where
  "entry_aliases entries = concat (map (\<lambda>e. map (\<lambda>a. (a, me_id e)) (me_aliases e)) entries)"

definition registry_errors :: "capability_manifest_entry list \<Rightarrow> string list" where
  "registry_errors entries =
     (let categories = dict_fromkeys (map me_category entries);
          ids = map me_id entries;
          aliases = map fst (entry_aliases entries)
      in (if length categories \<noteq> EXPECTED_CATEGORIES then [''expected 13 categories''] else []) @
         (if length ids \<noteq> EXPECTED_CAPABILITIES then [''expected 155 capabilities''] else []) @
         (if length ids \<noteq> length (dict_fromkeys ids)
          then [''canonical capability IDs are not unique''] else []) @
         (if length aliases \<noteq> length (dict_fromkeys aliases) then [''aliases are not unique''] else []) @
         (if filter (\<lambda>a. a \<in> set ids) aliases \<noteq> [] then [''aliases collide with canonical IDs''] else []))"

text \<open>
  The constructor: both lookup tables are dictionary comprehensions, where a later entry replaces
  an earlier one with the same key.
\<close>

definition CapabilityRegistry :: "string \<times> capability_manifest_entry list \<Rightarrow> capability_registry res" where
  "CapabilityRegistry loaded =
     (let (version, entries) = loaded;
          errors = registry_errors entries
      in if errors \<noteq> [] then Inl (ValueError (py_join ''; '' errors))
         else Inr \<lparr>reg_manifest_version = version, reg_entries = entries,
                   reg_by_id = map_of (rev (map (\<lambda>e. (me_id e, e)) entries)),
                   reg_aliases = map_of (rev (entry_aliases entries))\<rparr>)"

definition open_registry :: "(pyval \<Rightarrow> string) \<Rightarrow> pyval \<Rightarrow> capability_registry res" where
  "open_registry fmt raw = bind_res (load_manifest fmt raw) CapabilityRegistry"

definition categories :: "capability_registry \<Rightarrow> string list" where
  "categories r = dict_fromkeys (map me_category (reg_entries r))"

definition resolve_id :: "capability_registry \<Rightarrow> string \<Rightarrow> string res" where
  "resolve_id r capability_id =
     (if reg_by_id r capability_id \<noteq> None then Inr capability_id
      else (case reg_aliases r capability_id of
              Some i \<Rightarrow> Inr i
            | None \<Rightarrow> Inl (KeyError (''unknown capability: '' @ capability_id))))"

definition get_entry :: "capability_registry \<Rightarrow> string \<Rightarrow> capability_manifest_entry res" where
  "get_entry r capability_id =
     bind_res (resolve_id r capability_id) (\<lambda>i.
       case reg_by_id r i of Some e \<Rightarrow> Inr e | None \<Rightarrow> Inl (KeyError i))"

definition for_category :: "capability_registry \<Rightarrow> string \<Rightarrow> capability_manifest_entry list" where
  "for_category r category = filter (\<lambda>e. me_category e = category) (reg_entries r)"

record registry_document =
  rd_manifest_version :: string
  rd_category_count :: nat
  rd_capability_count :: nat
  rd_releases :: "(string \<times> release_summary) list"
  rd_categories :: "(string \<times> capability_manifest_entry list) list"

text \<open>
  \<^verbatim>\<open>grouped.setdefault(category, []).append(entry)\<close>: the groups in the order of their first
  entry. The entries themselves stand for their JSON dump.
\<close>

fun group_append :: "string \<Rightarrow> 'a \<Rightarrow> (string \<times> 'a list) list \<Rightarrow> (string \<times> 'a list) list" where
  "group_append k x [] = [(k, [x])]"
| "group_append k x ((k', xs) # gs) =
     (if k' = k then (k', xs @ [x]) # gs else (k', xs) # group_append k x gs)"

definition as_document :: "capability_registry \<Rightarrow> registry_document" where
  "as_document r = \<lparr>rd_manifest_version = reg_manifest_version r,
     rd_category_count = length (categories r), rd_capability_count = length (reg_entries r),
     rd_releases = map (\<lambda>release. (release, release_report (reg_entries r) release))
       [''v0.1'', ''v0.2'', ''v0.3'', ''v0.4''],
     rd_categories = fold (\<lambda>e. group_append (me_category e) e) (reg_entries r) []\<rparr>"

subsection \<open>Lookups of a validated registry\<close>

text \<open>The invariant the constructor establishes and no operation changes.\<close>

definition registry_ok :: "capability_registry \<Rightarrow> bool" where
  "registry_ok r \<longleftrightarrow> registry_errors (reg_entries r) = [] \<and>
     reg_by_id r = map_of (rev (map (\<lambda>e. (me_id e, e)) (reg_entries r))) \<and>
     reg_aliases r = map_of (rev (entry_aliases (reg_entries r)))"

lemma registry_errors_Nil:
  "registry_errors es = [] \<longleftrightarrow>
     card (set (map me_category es)) = 13 \<and> length es = 155 \<and> distinct (map me_id es) \<and>
     distinct (map fst (entry_aliases es)) \<and> (\<forall>a\<in>set (map fst (entry_aliases es)). a \<notin> set (map me_id es))"
  unfolding registry_errors_def Let_def length_dict_fromkeys_distinct EXPECTED_CATEGORIES_def
    EXPECTED_CAPABILITIES_def append_is_Nil_conv filter_empty_conv
  by (simp add: length_dict_fromkeys)

lemma CapabilityRegistry_ok: "CapabilityRegistry loaded = Inr r \<Longrightarrow> registry_ok r"
  by (auto simp: CapabilityRegistry_def registry_ok_def Let_def split: prod.splits if_splits)

lemma map_of_rev_distinct: "distinct (map fst xs) \<Longrightarrow> map_of (rev xs) k = Some v \<longleftrightarrow> (k, v) \<in> set xs"
  by (metis distinct_rev map_of_eq_Some_iff rev_map set_rev)

lemma in_entry_aliases: "(a, i) \<in> set (entry_aliases es) \<longleftrightarrow> (\<exists>e\<in>set es. a \<in> set (me_aliases e) \<and> i = me_id e)"
  by (auto simp: entry_aliases_def)

lemma registry_tables:
  assumes "registry_ok r"
  shows reg_by_id_iff: "reg_by_id r k = Some e \<longleftrightarrow> e \<in> set (reg_entries r) \<and> me_id e = k"
    and reg_aliases_iff: "reg_aliases r a = Some i \<longleftrightarrow>
      (\<exists>e\<in>set (reg_entries r). a \<in> set (me_aliases e) \<and> i = me_id e)"
    and alias_not_id: "reg_aliases r a = Some i \<Longrightarrow> reg_by_id r a = None"
proof -
  note nil = assms [unfolded registry_ok_def registry_errors_Nil]
  have d: "distinct (map fst (map (\<lambda>e. (me_id e, e)) (reg_entries r)))"
    using nil by (simp add: comp_def)
  show b: "reg_by_id r k = Some e \<longleftrightarrow> e \<in> set (reg_entries r) \<and> me_id e = k" for k e
    using nil map_of_rev_distinct [OF d, of k e] by auto
  show a: "reg_aliases r a = Some i \<longleftrightarrow> (\<exists>e\<in>set (reg_entries r). a \<in> set (me_aliases e) \<and> i = me_id e)"
    for a i using nil by (simp add: map_of_rev_distinct in_entry_aliases)
  show "reg_by_id r a = None" if "reg_aliases r a = Some i"
  proof (rule ccontr)
    assume "reg_by_id r a \<noteq> None"
    then have "a \<in> set (map me_id (reg_entries r))" using b by force
    moreover have "(a, i) \<in> set (entry_aliases (reg_entries r))"
      using that a in_entry_aliases by blast
    ultimately show False using nil by force
  qed
qed

text \<open>
  What the planner and the executor rely on: identifiers resolve to canonical identifiers, and a
  lookup finds the entry of the canonical identifier.
\<close>

locale id_directory =
  fixes ok :: "'r \<Rightarrow> bool"
    and resolve :: "'r \<Rightarrow> string \<Rightarrow> string res"
    and lookup :: "'r \<Rightarrow> string \<Rightarrow> 'e res"
    and key :: "'e \<Rightarrow> string"
  assumes lookup_key: "ok r \<Longrightarrow> lookup r x = Inr e \<Longrightarrow> resolve r x = Inr (key e)"
    and lookup_own: "ok r \<Longrightarrow> lookup r x = Inr e \<Longrightarrow> lookup r (key e) = Inr e"
    and lookup_unknown: "resolve r x = Inl err \<Longrightarrow> lookup r x = Inl err"
    and lookup_known: "ok r \<Longrightarrow> resolve r x = Inr i \<Longrightarrow> \<exists>e. lookup r x = Inr e"
begin

lemma resolve_key: "ok r \<Longrightarrow> resolve r x = Inr i \<Longrightarrow> \<exists>e. lookup r x = Inr e \<and> lookup r i = Inr e \<and> key e = i"
  using lookup_known lookup_key lookup_own by (metis sum.inject(2))

lemma resolve_idem: "ok r \<Longrightarrow> resolve r x = Inr i \<Longrightarrow> resolve r i = Inr i"
  using resolve_key lookup_key by blast

lemma lookup_resolved: "ok r \<Longrightarrow> resolve r x = Inr i \<Longrightarrow> lookup r i = lookup r x"
  using resolve_key by fastforce

lemma same_entry: "ok r \<Longrightarrow> resolve r x = Inr i \<Longrightarrow> resolve r y = Inr i \<Longrightarrow> lookup r x = lookup r y"
  using lookup_resolved by metis

end

interpretation reg: id_directory registry_ok resolve_id get_entry me_id
proof
  show "get_entry r x = Inl err" if "resolve_id r x = Inl err" for r x err
    using that by (simp add: get_entry_def)
  fix r x e assume ok: "registry_ok r"
  note tables = reg_by_id_iff [OF ok] reg_aliases_iff [OF ok]
  show "\<exists>e. get_entry r x = Inr e" if "resolve_id r x = Inr i" for i
    using that by (auto simp: get_entry_def resolve_id_def tables split: if_splits option.splits)
  assume g: "get_entry r x = Inr e"
  then have e: "e \<in> set (reg_entries r)" and rx: "resolve_id r x = Inr (me_id e)"
    by (auto simp: get_entry_def tables split: option.splits)
  then have "reg_by_id r (me_id e) = Some e" by (simp add: tables)
  then show "get_entry r (me_id e) = Inr e" by (simp add: get_entry_def resolve_id_def)
  show "resolve_id r x = Inr (me_id e)" by (fact rx)
qed

text \<open>
  C40: a registry that passed validation resolves exactly the canonical identifiers and the
  aliases of its entries, each to one entry: \<^verbatim>\<open>get\<close> finds an entry under its identifier and
  under every alias of it, and under nothing else; \<^verbatim>\<open>resolve_id\<close> gives the identifier of the
  entry \<^verbatim>\<open>get\<close> finds, and resolving again changes nothing.
\<close>

theorem registry_lookup:
  assumes "CapabilityRegistry (version, entries) = Inr r"
  shows "(get_entry r x = Inr e \<longleftrightarrow> e \<in> set entries \<and> (x = me_id e \<or> x \<in> set (me_aliases e))) \<and>
    (get_entry r x = Inr e \<longrightarrow> resolve_id r x = Inr (me_id e)) \<and>
    (resolve_id r x = Inr i \<longrightarrow> resolve_id r i = Inr i \<and> get_entry r i = get_entry r x)"
proof -
  have ok: "registry_ok r" using assms by (rule CapabilityRegistry_ok)
  have es: "reg_entries r = entries"
    using assms by (auto simp: CapabilityRegistry_def Let_def split: if_splits)
  note tables = reg_by_id_iff [OF ok] reg_aliases_iff [OF ok]
  have own: "get_entry r (me_id e) = Inr e" if "e \<in> set entries" for e
  proof -
    have "reg_by_id r (me_id e) = Some e" using that by (simp add: tables es)
    then show ?thesis by (simp add: get_entry_def resolve_id_def)
  qed
  have aka: "get_entry r a = Inr e" if "e \<in> set entries" "a \<in> set (me_aliases e)" for a e
  proof -
    have a: "reg_aliases r a = Some (me_id e)" using that by (auto simp: tables es)
    then have "resolve_id r a = Inr (me_id e)" using alias_not_id [OF ok] by (simp add: resolve_id_def)
    then show ?thesis using own that reg.lookup_resolved [OF ok] by metis
  qed
  have "e \<in> set entries \<and> (x = me_id e \<or> x \<in> set (me_aliases e))" if g: "get_entry r x = Inr e"
    using reg.lookup_key [OF ok g] reg.lookup_own [OF ok g]
    by (auto simp: get_entry_def resolve_id_def tables es split: if_splits option.splits)
      (metis own sum.inject(2))
  then show ?thesis
    using own aka reg.lookup_key [OF ok] reg.resolve_idem [OF ok] reg.lookup_resolved [OF ok] by blast
qed

text \<open>A manifest of the expected size: the capability \<open>c0\<close> has the alias \<open>first\<close>.\<close>

definition sample_entry :: "nat \<Rightarrow> capability_manifest_entry" where
  "sample_entry n = \<lparr>me_id = ''c'' @ nat_to_str n, me_aliases = (if n = 0 then [''first''] else []),
     me_category = nat_to_str (n mod 13), me_category_name = ''sample'', me_closure_release = ''v0.1'',
     me_kind = OPERATION, me_adapter = ''core'', me_risk_class = ''low'', me_inputs = [''target''],
     me_outputs = [''attempt''], me_dependencies = [], me_reference = [], me_tests = [],
     me_lifecycle_status = ''registered'', me_implementation_status = NATIVE, me_implementation = [],
     me_implementation_available = True, me_runtime_available = True, me_availability_reason = []\<rparr>"

definition sample_entries :: "capability_manifest_entry list" where
  "sample_entries = map sample_entry [0..<155]"

lemma entry_aliases_sample: "entry_aliases sample_entries = [(''first'', ''c0'')]"
  by code_simp

lemma sample_entries_valid: "registry_errors sample_entries = []"
proof -
  have "(\<lambda>n. n mod 13) ` {0..<155} = {0..<13::nat}"
  proof
    show "{0..<13} \<subseteq> (\<lambda>n. n mod 13) ` {0..<155::nat}"
    proof
      fix x :: nat assume "x \<in> {0..<13}"
      then have "x = x mod 13" "x \<in> {0..<155}" by auto
      then show "x \<in> (\<lambda>n. n mod 13) ` {0..<155}" by (rule image_eqI)
    qed
  qed auto
  moreover have "me_category ` set sample_entries = nat_to_str ` ((\<lambda>n. n mod 13) ` {0..<155})"
    unfolding sample_entries_def by (simp add: sample_entry_def image_image)
  ultimately have "me_category ` set sample_entries = nat_to_str ` {0..<13}" by (simp only:)
  then have "card (me_category ` set sample_entries) = 13"
    by (simp add: card_image inj_on_def)
  moreover have "distinct (map me_id sample_entries)"
    by (simp add: sample_entries_def sample_entry_def distinct_map inj_on_def)
  moreover have "''first'' \<notin> set (map me_id sample_entries)"
    by (auto simp: sample_entries_def sample_entry_def)
  ultimately show ?thesis
    by (simp add: registry_errors_Nil entry_aliases_sample) (simp add: sample_entries_def)
qed

theorem registry_lookup_witness:
  "\<exists>r. CapabilityRegistry (''1'', sample_entries) = Inr r \<and> get_entry r ''first'' = Inr (sample_entry 0)"
proof -
  obtain r where r: "CapabilityRegistry (''1'', sample_entries) = Inr r"
    by (simp add: CapabilityRegistry_def sample_entries_valid)
  have "sample_entry 0 \<in> set sample_entries" unfolding sample_entries_def by simp
  moreover have "''first'' \<in> set (me_aliases (sample_entry 0))" by (simp add: sample_entry_def)
  ultimately have "get_entry r ''first'' = Inr (sample_entry 0)"
    using registry_lookup [OF r, of "''first''" "sample_entry 0"] by blast
  with r show ?thesis by blast
qed

end
