(* ===== verification/Planning.thy ===== *)
theory Planning
  imports Security Registry
begin

section \<open>The deterministic planner: planning.py\<close>

text \<open>
  Target classification and plan construction of \<^verbatim>\<open>planning.py\<close>, with the named-API routes of
  \<^verbatim>\<open>adapters/api.py\<close> it consults and \<^verbatim>\<open>FetchPlan.bind_execution_request\<close> of
  \<^verbatim>\<open>models.py\<close>. The method \<^verbatim>\<open>plan\<close> is composed of one definition per section of its body, in
  the order of the source; each takes what the earlier ones computed. The identifier and the
  creation time of the plan are arguments.
\<close>

subsection \<open>Tables\<close>

definition DOCUMENT_EXTENSIONS :: "string list" where
  "DOCUMENT_EXTENSIONS = [''.csv'', ''.docx'', ''.epub'', ''.md'', ''.markdown'', ''.pdf'', ''.pptx'',
     ''.txt'', ''.xls'', ''.xlsx'']"

definition MEDIA_EXTENSIONS :: "string list" where
  "MEDIA_EXTENSIONS = [''.aac'', ''.flac'', ''.gif'', ''.jpeg'', ''.jpg'', ''.m4a'', ''.mp3'', ''.mp4'',
     ''.png'', ''.tif'', ''.tiff'', ''.wav'', ''.webm'', ''.webp'']"

definition ARCHIVE_EXTENSIONS :: "string list" where
  "ARCHIVE_EXTENSIONS = [''.7z'', ''.bz2'', ''.gz'', ''.rar'', ''.tar'', ''.tgz'', ''.zip'']"

definition API_EXTENSIONS :: "string list" where
  "API_EXTENSIONS = [''.json'', ''.xml'']"

definition DOCUMENT_CAPABILITIES :: "string list" where
  "DOCUMENT_CAPABILITIES = [''pdf'', ''scanned_pdf'', ''docx'', ''pptx'', ''xlsx'', ''csv'', ''txt'',
     ''markdown'', ''json_file'', ''xml_file'', ''zip_archive'', ''github_raw'',
     ''git_lfs'', ''dataset_file'']"

definition MEDIA_CAPABILITIES :: "string list" where
  "MEDIA_CAPABILITIES = [''image'', ''image_metadata'', ''image_ocr'', ''screenshot_to_text'',
     ''video_metadata'', ''audio_metadata'', ''transcript'', ''youtube_metadata'',
     ''podcast_feed'', ''thumbnail'', ''exif_metadata'']"

definition CACHE_CAPABILITIES :: "string list" where
  "CACHE_CAPABILITIES = [''search_snippet_cache'', ''search_cache'', ''search_engine_cache_adapter'',
     ''alternate_search_cache_adapter'', ''web_archive'', ''internet_archive_snapshot'',
     ''local_snapshot'', ''previous_successful_snapshot'', ''cdn_copy'',
     ''browser_cache'', ''rag_document_cache'']"

definition PRE_ACQUISITION_CACHE_CAPABILITIES :: "string list" where
  "PRE_ACQUISITION_CACHE_CAPABILITIES = [''previous_successful_snapshot'', ''search_engine_cache_adapter'',
     ''alternate_search_cache_adapter'', ''web_archive'', ''internet_archive_snapshot'',
     ''cdn_copy'']"

definition POST_ACQUISITION_CACHE_CAPABILITIES :: "string list" where
  "POST_ACQUISITION_CACHE_CAPABILITIES = [''search_snippet_cache'', ''search_cache'', ''local_snapshot'', ''browser_cache'',
     ''rag_document_cache'']"

definition READER_CAPABILITIES :: "string list" where
  "READER_CAPABILITIES = [''raw_html'', ''clean_text'', ''main_article'', ''boilerplate_removal'',
     ''mozilla_readability'', ''trafilatura'', ''newspaper_style'', ''mercury_style'',
     ''jina_reader'', ''browser_reader_mode'']"

definition BROWSER_CAPABILITIES :: "string list" where
  "BROWSER_CAPABILITIES = [''playwright'', ''puppeteer'', ''selenium'', ''cdp'', ''headless_dom'',
     ''visible_text'', ''screenshot'', ''wait_for_selector'', ''wait_for_network_idle'',
     ''scroll_to_load'', ''click_expand'', ''cookie_banner_handling'', ''lazy_loading'',
     ''javascript_rendering'', ''spa_route_handling'']"

definition BROWSER_ENGINES :: "string list" where
  "BROWSER_ENGINES = [''playwright'', ''puppeteer'', ''selenium'', ''cdp'']"

definition API_CAPABILITY_ORDER :: "string list" where
  "API_CAPABILITY_ORDER = [''rest'', ''graphql'', ''json_endpoint'', ''xml_endpoint'', ''rss'', ''atom'',
     ''sitemap_xml'', ''openapi_discovery'', ''github_api'', ''semantic_scholar_api'',
     ''arxiv_api'', ''openreview_api'', ''crossref_openalex_api'']"

definition AUTH_SESSION_CAPABILITIES :: "string list" where
  "AUTH_SESSION_CAPABILITIES = [''login_session'', ''oauth'', ''sso'', ''private_workspace'']"

definition SCHEDULABLE_KINDS :: "capability_kind list" where
  "SCHEDULABLE_KINDS = [OPERATION, VARIANT_GENERATOR, EXTRACTOR, FORMAT_HANDLER, CONNECTOR, STORAGE_STRATEGY]"

definition HTTP_EMBEDDED_AUTH_CAPABILITIES :: "string list" where
  "HTTP_EMBEDDED_AUTH_CAPABILITIES = [''api_key'', ''bearer_token'', ''connector_auth'', ''cookie_session'']"

definition BROWSER_EMBEDDED_CAPABILITIES :: "string list" where
  "BROWSER_EMBEDDED_CAPABILITIES = filter (\<lambda>c. c \<notin> set BROWSER_ENGINES) BROWSER_CAPABILITIES"

definition API_CAPABILITIES :: "string list" where
  "API_CAPABILITIES = [''rest'', ''graphql'', ''json_endpoint'', ''xml_endpoint'', ''rss'', ''atom'',
     ''sitemap_xml'', ''openapi_discovery'', ''github_api'', ''semantic_scholar_api'', ''arxiv_api'',
     ''openreview_api'', ''crossref_openalex_api'']"

definition PUBLIC_HTTP_NAMED_CAPABILITIES :: "string list" where
  "PUBLIC_HTTP_NAMED_CAPABILITIES = [''arxiv_api'']"

definition NAMED_API_ROUTES :: "(string \<times> (string \<times> string list) list) list" where
  "NAMED_API_ROUTES =
     [(''github_api'', [(''api.github.com'', [''/''])]),
      (''semantic_scholar_api'',
        [(''api.semanticscholar.org'', [''/graph/v1'', ''/recommendations/v1'', ''/datasets/v1''])]),
      (''arxiv_api'', [(''export.arxiv.org'', [''/api/query''])]),
      (''openreview_api'', [(''api.openreview.net'', [''/'']), (''api2.openreview.net'', [''/''])]),
      (''crossref_openalex_api'',
        [(''api.crossref.org'', [''/works'', ''/journals'', ''/members'', ''/funders'', ''/prefixes'',
            ''/types'', ''/licenses'']),
         (''api.openalex.org'', [''/works'', ''/authors'', ''/sources'', ''/institutions'', ''/topics'',
            ''/publishers'', ''/funders'', ''/concepts'', ''/autocomplete'', ''/text''])])]"

subsection \<open>Named APIs\<close>

definition route_matches :: "string \<Rightarrow> string \<Rightarrow> string \<times> string list \<Rightarrow> bool" where
  "route_matches host path route =
     (host = fst route \<and>
      list_ex (\<lambda>prefix. prefix = ''/'' \<or> path = prefix \<or>
        py_startswith path (py_rstrip_by (\<lambda>c. c = CHR ''/'') prefix @ ''/'')) (snd route))"

definition named_origin_parts :: "string \<Rightarrow> (split_result \<times> nat option \<times> string) res" where
  "named_origin_parts source_url =
     bind_res (urlsplit source_url) (\<lambda>parts.
     bind_res (sr_port parts) (\<lambda>port.
     bind_res (idna_encode (sr_hostname parts)) (\<lambda>encoded.
       Inr (parts, port, py_rstrip_by (\<lambda>c. c = CHR ''.'') (py_casefold encoded)))))"

text \<open>
  \<^verbatim>\<open>parts.username is not None\<close> holds when the network location has an \<open>@\<close>, and a
  password is present only together with a user name.
\<close>

definition matches_named_origin :: "string \<Rightarrow> string \<Rightarrow> bool" where
  "matches_named_origin capability_id source_url =
     (let routes = (case map_of NAMED_API_ROUTES capability_id of Some rs \<Rightarrow> rs | None \<Rightarrow> []) in
      case named_origin_parts source_url of
        Inl _ \<Rightarrow> False
      | Inr (parts, port, host) \<Rightarrow>
          let scheme = py_casefold (sr_scheme parts);
              valid_origin = ((scheme = ''https'' \<and> port \<in> {None, Some 443}) \<or>
                (capability_id \<in> set PUBLIC_HTTP_NAMED_CAPABILITIES \<and> scheme = ''http'' \<and>
                 port \<in> {None, Some 80}));
              path = (if sr_path parts = [] then ''/'' else sr_path parts)
          in if \<not> valid_origin \<or> CHR ''@'' \<in> set (sr_netloc parts) then False
             else list_ex (route_matches host path) routes)"

definition detect_named_api :: "string \<Rightarrow> string option" where
  "detect_named_api source_url =
     List.find (\<lambda>capability_id. matches_named_origin capability_id source_url) (map fst NAMED_API_ROUTES)"

subsection \<open>Classification\<close>

text \<open>\<^verbatim>\<open>PurePosixPath(path).suffix\<close>.\<close>

definition posix_name :: "string \<Rightarrow> string" where
  "posix_name path =
     (case filter (\<lambda>c. c \<noteq> [] \<and> c \<noteq> ''.'') (py_split (CHR ''/'') path) of
        [] \<Rightarrow> [] | cs \<Rightarrow> last cs)"

definition posix_suffix :: "string \<Rightarrow> string" where
  "posix_suffix path =
     (case py_rpartition (CHR ''.'') (posix_name path) of
        (stem, found, ext) \<Rightarrow> if found \<and> stem \<noteq> [] \<and> ext \<noteq> [] then CHR ''.'' # ext else [])"

definition target_suffix :: "string \<Rightarrow> string res" where
  "target_suffix target = bind_res (urlsplit target) (\<lambda>parts. Inr (posix_suffix (py_lower (sr_path parts))))"

definition meets :: "string list \<Rightarrow> string list \<Rightarrow> bool" where
  "meets xs ys \<longleftrightarrow> list_ex (\<lambda>x. x \<in> set ys) xs"

definition classify_target :: "string \<Rightarrow> string list \<Rightarrow> string res" where
  "classify_target target requested =
     bind_res (target_suffix target) (\<lambda>suffix. Inr
      (if meets requested CACHE_CAPABILITIES \<and> list_all (\<lambda>c. c \<in> set CACHE_CAPABILITIES) requested
       then ''cache''
       else if meets requested DOCUMENT_CAPABILITIES
       then (if ''zip_archive'' \<in> set requested then ''archive'' else ''document'')
       else if meets requested MEDIA_CAPABILITIES then ''media''
       else if meets requested API_CAPABILITIES \<or> detect_named_api target \<noteq> None then ''api''
       else if suffix \<in> set DOCUMENT_EXTENSIONS \<or>
         meets requested [''document'', ''tables'', ''ocr'', ''slides''] then ''document''
       else if suffix \<in> set MEDIA_EXTENSIONS \<or>
         meets requested [''audio'', ''frames'', ''image'', ''subtitles'', ''transcript'', ''video'']
       then ''media''
       else if suffix \<in> set ARCHIVE_EXTENSIONS \<or> ''archive'' \<in> set requested then ''archive''
       else if suffix \<in> set API_EXTENSIONS \<or> meets requested [''json'', ''xml'', ''feed''] then ''api''
       else ''web''))"

subsection \<open>Capability selection\<close>

definition selected_from :: "string list \<Rightarrow> fetch_request \<Rightarrow> string list" where
  "selected_from table request = filter (\<lambda>c. c \<in> set (rq_output_requirements request)) table"

definition canonical_output_requirement :: "capability_registry \<Rightarrow> string \<Rightarrow> string" where
  "canonical_output_requirement reg capability_id =
     (case resolve_id reg capability_id of Inr i \<Rightarrow> i | Inl _ \<Rightarrow> capability_id)"

definition api_capability :: "string \<Rightarrow> fetch_request \<Rightarrow> string res" where
  "api_capability target request =
     (let requested = selected_from API_CAPABILITY_ORDER request in
      if 1 < length requested
      then Inl (ValueError ''only one primary structured API capability may be requested'')
      else if requested \<noteq> [] then Inr (hd requested)
      else (case detect_named_api target of
              Some named \<Rightarrow> Inr named
            | None \<Rightarrow> bind_res (target_suffix target) (\<lambda>suffix.
                Inr (if suffix = ''.xml'' then ''xml_endpoint'' else ''json_endpoint''))))"

definition DOCUMENT_SUFFIXES :: "(string \<times> string) list" where
  "DOCUMENT_SUFFIXES =
     [(''.md'', ''markdown''), (''.markdown'', ''markdown''), (''.json'', ''json_file''),
      (''.xml'', ''xml_file''), (''.csv'', ''csv''), (''.docx'', ''docx''), (''.epub'', ''dataset_file''),
      (''.pdf'', ''pdf''), (''.pptx'', ''pptx''), (''.txt'', ''txt''), (''.xls'', ''dataset_file''),
      (''.xlsx'', ''xlsx'')]"

definition document_capability :: "string \<Rightarrow> string res" where
  "document_capability target =
     bind_res (target_suffix target) (\<lambda>suffix.
       Inr (case map_of DOCUMENT_SUFFIXES suffix of Some c \<Rightarrow> c | None \<Rightarrow> ''dataset_file''))"

definition document_capabilities :: "string \<Rightarrow> fetch_request \<Rightarrow> string list res" where
  "document_capabilities target request =
     (let requested = filter (\<lambda>c. c \<noteq> ''zip_archive'') (selected_from DOCUMENT_CAPABILITIES request) in
      if requested \<noteq> [] then Inr requested
      else bind_res (document_capability target) (\<lambda>c. Inr [c]))"

definition media_capabilities :: "string \<Rightarrow> fetch_request \<Rightarrow> string list res" where
  "media_capabilities target request =
     (let requested = selected_from MEDIA_CAPABILITIES request in
      if requested \<noteq> [] then Inr requested
      else bind_res (target_suffix target) (\<lambda>suffix. Inr
        [if suffix \<in> {''.gif'', ''.jpeg'', ''.jpg'', ''.png'', ''.tif'', ''.tiff'', ''.webp''}
         then ''image_metadata''
         else if suffix \<in> {''.aac'', ''.flac'', ''.m4a'', ''.mp3'', ''.wav''} then ''audio_metadata''
         else ''video_metadata'']))"

definition requested_cache_capabilities :: "fetch_request \<Rightarrow> string list" where
  "requested_cache_capabilities request = selected_from CACHE_CAPABILITIES request"

definition http_capability :: "fetch_request \<Rightarrow> string" where
  "http_capability request =
     (case List.find (\<lambda>c. c \<in> set (rq_output_requirements request))
        [''http_head'', ''http_post'', ''browser_header_http'', ''range_request''] of
        Some c \<Rightarrow> c | None \<Rightarrow> ''http_get'')"

definition ALWAYS_PERMITTED :: "string list" where
  "ALWAYS_PERMITTED = [''url_normalisation'', ''url_validation'', ''http_get'', ''http_head'',
     ''http_post'', ''browser_header_http'', ''range_request'']"

definition permitted :: "capability_registry \<Rightarrow> fetch_request \<Rightarrow> string \<Rightarrow> bool res" where
  "permitted reg request capability_id =
     bind_res (resolve_id reg capability_id) (\<lambda>canonical. Inr
      (if canonical \<in> rq_deny_capabilities request then False
       else if rq_allow_capabilities request \<noteq> {} \<and> canonical \<notin> rq_allow_capabilities request
       then canonical \<in> set ALWAYS_PERMITTED
       else True))"

subsection \<open>The sections of \<open>plan\<close>\<close>

definition no_retry :: retry_rule where
  "no_retry = default_retry\<lparr>rr_maximum := 0\<rparr>"

definition dashed :: "string \<Rightarrow> string" where
  "dashed = py_replace_char (CHR ''_'') (CHR ''-'')"

definition numbered :: "string \<Rightarrow> nat \<Rightarrow> string \<Rightarrow> string" where
  "numbered prefix i capability_id = prefix @ nat_to_str i @ ''-'' @ dashed capability_id"

definition base_nodes :: "plan_node list" where
  "base_nodes =
     [PlanNode ''normalize'' ''url_normalisation'' ''core'' [],
      (PlanNode ''policy'' ''url_validation'' ''core'' [''normalize''])
        \<lparr>pn_reserved_budget := [(''deadline_seconds'', 2)]\<rparr>]"

definition session_nodes :: "fetch_request \<Rightarrow> (plan_node list \<times> string) res" where
  "session_nodes request =
     (let requested_sessions = selected_from AUTH_SESSION_CAPABILITIES request in
      if 1 < length requested_sessions
      then Inl (ValueError ''only one high-level authentication session may be requested'')
      else (case requested_sessions of
          [] \<Rightarrow> Inr ([], ''policy'')
        | session_capability # _ \<Rightarrow>
            let node_id = ''auth-'' @ dashed session_capability in
            Inr ([(PlanNode node_id session_capability ''auth'' [''policy''])\<lparr>pn_retry := no_retry\<rparr>],
                 node_id)))"

definition requested_pre_cache :: "string list \<Rightarrow> string list" where
  "requested_pre_cache requested =
     (if meets requested [''search_snippet_cache'', ''search_cache''] \<and>
         \<not> meets requested [''search_engine_cache_adapter'', ''alternate_search_cache_adapter'']
      then requested @ [''search_engine_cache_adapter''] else requested)"

definition pre_acquisition_cache :: "capability_registry \<Rightarrow> fetch_request \<Rightarrow> string list res" where
  "pre_acquisition_cache reg request =
     filter_res (permitted reg request)
       (filter (\<lambda>c. c \<in> set (requested_pre_cache (requested_cache_capabilities request)))
          PRE_ACQUISITION_CACHE_CAPABILITIES)"

definition snapshot_parameters :: document where
  "snapshot_parameters = [(''cache_operation'', VStr ''lookup''), (''representation'', VStr ''raw''),
     (''parser_version'', VStr ''httpx/0.28'')]"

fun pre_cache_nodes :: "fetch_request \<Rightarrow> string \<Rightarrow> nat \<Rightarrow> string option \<Rightarrow> string list \<Rightarrow> plan_node list" where
  "pre_cache_nodes request dep i previous [] = []"
| "pre_cache_nodes request dep i previous (c # cs) =
     (PlanNode (numbered ''cache-pre-'' i c) c ''cache'' [dep])
       \<lparr>pn_fallback_for := previous, pn_stop_on_acceptance := True,
        pn_reserved_budget := [(''bytes'', of_int (b_bytes (rq_budget request)))],
        pn_parameters := (if c = ''previous_successful_snapshot'' then snapshot_parameters else [])\<rparr>
     # pre_cache_nodes request dep (i + 1) (Some (numbered ''cache-pre-'' i c)) cs"

definition http_node :: "fetch_request \<Rightarrow> string \<Rightarrow> string \<Rightarrow> plan_node list \<Rightarrow> plan_node" where
  "http_node request family dep pre_nodes =
     (let capability = http_capability request;
          cache_requires_http_source =
            meets (requested_cache_capabilities request) [''browser_cache'', ''rag_document_cache'']
      in (PlanNode ''http'' capability ''http'' [dep])
          \<lparr>pn_fallback_for := (if family = ''cache'' \<and> pre_nodes \<noteq> [] \<and> \<not> cache_requires_http_source
                                then Some (pn_id (last pre_nodes)) else None),
           pn_retry := default_retry\<lparr>rr_maximum := (if capability = ''http_post'' then 0 else 2)\<rparr>,
           pn_stop_on_acceptance := (family \<in> {''api'', ''document'', ''media'', ''archive''}),
           pn_requires_approval := (capability = ''http_post''),
           pn_reserved_budget := [(''bytes'', of_int (b_bytes (rq_budget request)))]\<rparr>)"

definition form_nodes :: "fetch_request \<Rightarrow> plan_node list \<times> string" where
  "form_nodes request =
     (let csrf = (if ''csrf_token'' \<in> set (rq_output_requirements request)
            then [(PlanNode ''auth-csrf-token'' ''csrf_token'' ''auth'' [''http''])\<lparr>pn_retry := no_retry\<rparr>]
            else []);
          dep = (if csrf = [] then ''http'' else ''auth-csrf-token'')
      in if ''form_submit'' \<in> set (rq_output_requirements request)
         then (csrf @ [(PlanNode ''auth-form-submit'' ''form_submit'' ''auth'' [dep])
                 \<lparr>pn_retry := no_retry, pn_requires_approval := True\<rparr>], ''auth-form-submit'')
         else (csrf, dep))"

definition reader_nodes :: "fetch_request \<Rightarrow> string \<Rightarrow> plan_node list" where
  "reader_nodes request dep =
     (let requested = selected_from READER_CAPABILITIES request;
          selected = (if requested \<noteq> [] then requested else [''clean_text'', ''main_article''])
      in map (\<lambda>(i, c). (PlanNode (numbered ''reader-'' i c) c ''reader'' [dep])
           \<lparr>pn_parallel_group := Some ''static-readers'',
            pn_fallback_for := (if i = 0 then None else Some (numbered ''reader-'' (i - 1) (selected ! (i - 1)))),
            pn_stop_on_acceptance := True\<rparr>) (enumerate0 selected))"

definition browser_node :: "fetch_request \<Rightarrow> string \<Rightarrow> plan_node" where
  "browser_node request terminal_reader =
     (let requested_browser = meets (rq_output_requirements request) BROWSER_CAPABILITIES;
          engine = (case List.find (\<lambda>c. c \<in> set (rq_output_requirements request)) BROWSER_ENGINES of
                      Some c \<Rightarrow> c | None \<Rightarrow> ''playwright'')
      in (PlanNode ''browser'' engine ''browser'' [terminal_reader])
          \<lparr>pn_fallback_for := (if requested_browser then None else Some terminal_reader),
           pn_stop_on_acceptance := True,
           pn_reserved_budget := [(''browser_seconds'', b_browser_seconds (rq_budget request))]\<rparr>)"

definition web_nodes :: "capability_registry \<Rightarrow> fetch_request \<Rightarrow> string \<Rightarrow> (plan_node list \<times> string) res" where
  "web_nodes reg request acquired =
     (let alternatives = (if rq_authentication_ref request = None
            then [PlanNode ''alternatives'' ''candidate_url_expansion'' ''variants'' [acquired]] else []);
          readers = reader_nodes request (if alternatives = [] then acquired else ''alternatives'');
          terminal = pn_id (last readers)
      in bind_res (get_entry reg ''playwright'') (\<lambda>entry.
           if me_implementation_available entry
           then Inr (alternatives @ readers @ [browser_node request terminal], ''browser'')
           else Inr (alternatives @ readers, terminal)))"

definition bytes_budget :: "fetch_request \<Rightarrow> (string \<times> rat) list" where
  "bytes_budget request =
     [(''bytes'', of_int (b_bytes (rq_budget request))),
      (''decompressed_bytes'', of_int (b_decompressed_bytes (rq_budget request)))]"

definition archive_budget :: "fetch_request \<Rightarrow> (string \<times> rat) list" where
  "archive_budget request = bytes_budget request @
     [(''archive_members'', of_int (b_archive_members (rq_budget request))),
      (''archive_ratio'', b_archive_ratio (rq_budget request))]"

definition extractor_nodes ::
  "string \<Rightarrow> string \<Rightarrow> string \<Rightarrow> (string \<times> rat) list \<Rightarrow> string \<Rightarrow> string list \<Rightarrow> plan_node list" where
  "extractor_nodes prefix adapter parallel budget acquired caps =
     map (\<lambda>(i, c). (PlanNode (numbered prefix i c) c adapter [acquired])
       \<lparr>pn_parallel_group := Some parallel, pn_stop_on_acceptance := True, pn_reserved_budget := budget\<rparr>)
       (enumerate0 caps)"

definition last_id :: "string \<Rightarrow> plan_node list \<Rightarrow> string" where
  "last_id dep nodes = (if nodes = [] then dep else pn_id (last nodes))"

definition crawl_node :: "fetch_request \<Rightarrow> string \<Rightarrow> plan_node" where
  "crawl_node request acquired =
     (PlanNode ''crawl'' ''depth_limited_crawl'' ''discovery'' [acquired])
       \<lparr>pn_stop_on_acceptance := True,
        pn_reserved_budget := [(''attempts'', of_int (b_attempts (rq_budget request))),
          (''crawl_pages'', of_int (b_crawl_pages (rq_budget request))),
          (''crawl_depth'', of_int (b_crawl_depth (rq_budget request)))]\<rparr>"

definition family_nodes ::
  "capability_registry \<Rightarrow> string \<Rightarrow> fetch_request \<Rightarrow> string \<Rightarrow> string \<Rightarrow> (plan_node list \<times> string) res" where
  "family_nodes reg target request family acquired =
     (if rq_intent request = ''crawl'' then Inr ([crawl_node request acquired], ''crawl'')
      else if family = ''web'' \<and> http_capability request \<noteq> ''http_head''
      then web_nodes reg request acquired
      else if family = ''document''
      then bind_res (document_capabilities target request) (\<lambda>caps.
        let nodes = extractor_nodes ''document-'' ''documents'' ''document-extractors''
              (archive_budget request) acquired caps
        in Inr (nodes, last_id acquired nodes))
      else if family = ''media''
      then bind_res (media_capabilities target request) (\<lambda>caps.
        let nodes = extractor_nodes ''media-'' ''media'' ''media-extractors''
              (bytes_budget request) acquired caps
        in Inr (nodes, last_id acquired nodes))
      else if family = ''archive''
      then Inr ([(PlanNode ''archive'' ''zip_archive'' ''archive'' [acquired])
             \<lparr>pn_stop_on_acceptance := True, pn_reserved_budget := archive_budget request\<rparr>], ''archive'')
      else if family = ''api''
      then bind_res (api_capability target request) (\<lambda>c.
        Inr ([(PlanNode ''structured'' c ''api'' [acquired])\<lparr>pn_stop_on_acceptance := True\<rparr>], ''structured''))
      else Inr ([], acquired))"

definition rag_producer ::
  "capability_registry \<Rightarrow> fetch_request \<Rightarrow> string \<Rightarrow> string \<Rightarrow> string \<Rightarrow> plan_node list
     \<Rightarrow> (plan_node list \<times> string option) res" where
  "rag_producer reg request family acquired terminal nodes =
     (if ''rag_document_cache'' \<notin> set (requested_cache_capabilities request) then Inr ([], None)
      else bind_res (permitted reg request ''clean_text'') (\<lambda>ok.
        if \<not> ok then Inl (ValueError ''rag_document_cache requires the clean_text producer capability'')
        else (case List.find (\<lambda>n. pn_capability_id n = ''clean_text'' \<and> pn_adapter n = ''reader'') (rev nodes) of
            Some producer \<Rightarrow> Inr ([], Some (pn_id producer))
          | None \<Rightarrow>
              Inr ([(PlanNode ''cache-producer-rag-document'' ''clean_text'' ''reader''
                      [if family = ''document'' then terminal else acquired])
                     \<lparr>pn_reserved_budget :=
                        [(''decompressed_bytes'', of_int (b_decompressed_bytes (rq_budget request)))]\<rparr>],
                   Some ''cache-producer-rag-document''))))"

definition browser_producer ::
  "capability_registry \<Rightarrow> string \<Rightarrow> fetch_request \<Rightarrow> string \<Rightarrow> string \<Rightarrow> plan_node list
     \<Rightarrow> (plan_node list \<times> string option) res" where
  "browser_producer reg target request family acquired nodes =
     (if ''browser_cache'' \<notin> set (requested_cache_capabilities request) then Inr ([], None)
      else bind_res (classify_target target []) (\<lambda>plain.
        if family \<in> {''document'', ''media'', ''archive''} \<or> plain \<in> {''document'', ''media'', ''archive''}
        then Inl (ValueError ''browser_cache accepts HTML-like targets, not document, media, or archive bytes'')
        else (case List.find (\<lambda>n. pn_adapter n = ''browser'' \<and> pn_capability_id n \<in> set BROWSER_ENGINES) (rev nodes) of
            Some producer \<Rightarrow> Inr ([], Some (pn_id producer))
          | None \<Rightarrow>
              bind_res (permitted reg request ''playwright'') (\<lambda>ok.
                if \<not> ok then Inl (ValueError ''browser_cache requires the playwright producer capability'')
                else Inr ([(PlanNode ''cache-producer-browser-render'' ''playwright'' ''browser'' [acquired])
                       \<lparr>pn_reserved_budget := [(''browser_seconds'', b_browser_seconds (rq_budget request)),
                          (''decompressed_bytes'', of_int (b_decompressed_bytes (rq_budget request)))]\<rparr>],
                     Some ''cache-producer-browser-render'')))))"

text \<open>
  The dependency of a post-acquisition cache node: the producer of the two caches that have one,
  the pre-acquisition search node for the search caches, the terminal node otherwise.
\<close>

definition post_dependency ::
  "plan_node list \<Rightarrow> string option \<Rightarrow> string option \<Rightarrow> string \<Rightarrow> string \<Rightarrow> string" where
  "post_dependency pre_nodes rag browser terminal capability =
     (let dependency =
        (case (if capability = ''rag_document_cache'' then rag
               else if capability = ''browser_cache'' then browser else None) of
           Some d \<Rightarrow> d | None \<Rightarrow> terminal)
      in if capability \<in> {''search_snippet_cache'', ''search_cache''}
         then (case List.find (\<lambda>n. pn_capability_id n = ''search_engine_cache_adapter'') pre_nodes of
                 Some n \<Rightarrow> pn_id n
               | None \<Rightarrow>
                   (case List.find (\<lambda>n. pn_capability_id n = ''alternate_search_cache_adapter'') pre_nodes of
                      Some n \<Rightarrow> pn_id n | None \<Rightarrow> dependency))
         else dependency)"

definition post_cache_nodes ::
  "fetch_request \<Rightarrow> plan_node list \<Rightarrow> string option \<Rightarrow> string option \<Rightarrow> string \<Rightarrow> plan_node list" where
  "post_cache_nodes request pre_nodes rag browser terminal =
     map (\<lambda>(i, c). (PlanNode (numbered ''cache-post-'' i c) c ''cache''
           [post_dependency pre_nodes rag browser terminal c])
         \<lparr>pn_parallel_group := Some ''cache-strategies'',
          pn_reserved_budget := [(''bytes'', of_int (b_bytes (rq_budget request)))]\<rparr>)
       (enumerate0 (filter (\<lambda>c. c \<in> set (requested_cache_capabilities request))
          POST_ACQUISITION_CACHE_CAPABILITIES))"

definition plan_nodes :: "capability_registry \<Rightarrow> string \<Rightarrow> fetch_request \<Rightarrow> string \<Rightarrow> plan_node list res" where
  "plan_nodes reg target request family =
     bind_res (session_nodes request) (\<lambda>(sessions, http_dependency).
     bind_res (pre_acquisition_cache reg request) (\<lambda>pre.
     let pre_nodes = pre_cache_nodes request http_dependency 0 None pre;
         (forms, acquired) = form_nodes request;
         acquisition = base_nodes @ sessions @ pre_nodes @
           [http_node request family http_dependency pre_nodes] @ forms
     in
     bind_res (family_nodes reg target request family acquired) (\<lambda>(family_part, terminal).
     bind_res (rag_producer reg request family acquired terminal (acquisition @ family_part))
       (\<lambda>(rag_nodes, rag).
     bind_res (browser_producer reg target request family acquired (acquisition @ family_part @ rag_nodes))
       (\<lambda>(render_nodes, browser).
       Inr (acquisition @ family_part @ rag_nodes @ render_nodes @
            post_cache_nodes request pre_nodes rag browser terminal))))))"

subsection \<open>Validation of the plan\<close>

definition HTTP_OPERATIONS :: "string list" where
  "HTTP_OPERATIONS = [''http_get'', ''http_head'', ''http_post'', ''browser_header_http'', ''range_request'']"

definition validate_node :: "capability_registry \<Rightarrow> string list \<Rightarrow> plan_node \<Rightarrow> unit res" where
  "validate_node reg node_ids node =
     bind_res (get_entry reg (pn_capability_id node)) (\<lambda>_.
       raise_if (\<not> list_all (\<lambda>d. d \<in> set node_ids) (pn_dependencies node))
         (ValueError (''node '' @ pn_id node @ '' has missing dependencies'')))"

definition validate_nodes :: "capability_registry \<Rightarrow> plan_node list \<Rightarrow> unit res" where
  "validate_nodes reg nodes =
     bind_res (map_res (validate_node reg (map pn_id nodes)) nodes) (\<lambda>_. Inr ())"

datatype output_verdict = OutputOk | OutputDenied string | OutputMissing string

definition verdict_for_output ::
  "capability_registry \<Rightarrow> plan_node list \<Rightarrow> string list \<Rightarrow> fetch_request \<Rightarrow> string \<Rightarrow> string \<Rightarrow> output_verdict res" where
  "verdict_for_output reg nodes scheduled request family capability_id =
     (if capability_id = ''clean_text'' \<and> rq_output_requirements request = [''clean_text''] \<and>
         (family \<noteq> ''web'' \<or> rq_intent request = ''crawl'')
      then Inr OutputOk
      else (case get_entry reg capability_id of
          Inl (KeyError _) \<Rightarrow> Inr OutputOk
        | Inl e \<Rightarrow> Inl e
        | Inr entry \<Rightarrow>
            if me_kind entry \<notin> set SCHEDULABLE_KINDS then Inr OutputOk
            else if me_id entry \<in> set BROWSER_EMBEDDED_CAPABILITIES \<and>
              list_ex (\<lambda>n. pn_adapter n = ''browser'') nodes then Inr OutputOk
            else if me_id entry \<in> set HTTP_EMBEDDED_AUTH_CAPABILITIES \<and>
              list_ex (\<lambda>n. pn_adapter n = ''http'') nodes then Inr OutputOk
            else bind_res (permitted reg request (me_id entry)) (\<lambda>ok.
              Inr (if \<not> ok then OutputDenied (me_id entry)
                   else if me_id entry \<notin> set scheduled then OutputMissing (me_id entry)
                   else OutputOk))))"

definition validate_requested_schedulable_outputs ::
  "capability_registry \<Rightarrow> plan_node list \<Rightarrow> fetch_request \<Rightarrow> string \<Rightarrow> unit res" where
  "validate_requested_schedulable_outputs reg nodes request family =
     bind_res (map_res (\<lambda>n. resolve_id reg (pn_capability_id n)) nodes) (\<lambda>scheduled.
     bind_res (map_res (verdict_for_output reg nodes scheduled request family) (rq_output_requirements request)) (\<lambda>verdicts.
     bind_res (raise_if (list_ex (\<lambda>v. case v of OutputDenied _ \<Rightarrow> True | _ \<Rightarrow> False) verdicts)
       (ValueError ''requested schedulable capabilities are denied'')) (\<lambda>_.
     raise_if (list_ex (\<lambda>v. case v of OutputMissing _ \<Rightarrow> True | _ \<Rightarrow> False) verdicts)
       (ValueError ''requested schedulable capabilities cannot be combined in one plan''))))"

subsection \<open>Binding and planning\<close>

definition bind_execution_request :: "fetch_plan \<Rightarrow> fetch_request \<Rightarrow> fetch_plan res" where
  "bind_execution_request p request =
     bind_res (normalize_url (rq_target request)) (\<lambda>target.
     let normalized = request\<lparr>rq_target := target\<rparr> in
     bind_res (sanitize_url_for_request target normalized) (\<lambda>public_target.
     bind_res (raise_if (normalized\<lparr>rq_target := public_target\<rparr> \<noteq> fp_request p)
       (ValueError ''execution request does not match the serialized fetch plan'')) (\<lambda>_.
       Inr (p\<lparr>fp_execution_request := Some normalized\<rparr>))))"

definition canonical_request :: "capability_registry \<Rightarrow> string \<Rightarrow> fetch_request \<Rightarrow> fetch_request" where
  "canonical_request reg target request =
     request\<lparr>rq_target := target,
       rq_output_requirements := dict_fromkeys (map (canonical_output_requirement reg) (rq_output_requirements request))\<rparr>"

definition new_plan :: "uuid \<Rightarrow> time \<Rightarrow> fetch_request \<Rightarrow> plan_node list \<Rightarrow> fetch_plan" where
  "new_plan plan_id now request nodes = \<lparr>fp_plan_id = plan_id, fp_request = request,
     fp_nodes = nodes, fp_created_at = now, fp_deterministic = True,
     fp_classifier = ''rules-v1'', fp_warnings = [], fp_execution_request = None\<rparr>"

definition plan :: "capability_registry \<Rightarrow> uuid \<Rightarrow> time \<Rightarrow> fetch_request \<Rightarrow> fetch_plan res" where
  "plan reg plan_id now request0 =
     bind_res (normalize_url (rq_target request0)) (\<lambda>target.
     let request = canonical_request reg target request0 in
     bind_res (sanitize_url_for_request target request) (\<lambda>public_target.
     bind_res (classify_target target (rq_output_requirements request)) (\<lambda>family.
     bind_res (plan_nodes reg target request family) (\<lambda>nodes.
     bind_res (filter_res (\<lambda>n. permitted reg request (pn_capability_id n)) nodes) (\<lambda>filtered.
     bind_res (raise_if (\<not> list_ex (\<lambda>n. pn_capability_id n \<in> set HTTP_OPERATIONS) filtered)
       (ValueError ''the request capability policy denies the required HTTP operation'')) (\<lambda>_.
     bind_res (validate_nodes reg filtered) (\<lambda>_.
     bind_res (validate_requested_schedulable_outputs reg filtered request family) (\<lambda>_.
       bind_execution_request
         (new_plan plan_id now (request\<lparr>rq_target := public_target\<rparr>) filtered) request))))))))"

end
