(* ===== verification/Planning_Correct.thy ===== *)
theory Planning_Correct
  imports Planning
begin

section \<open>Correctness of the planner\<close>

text \<open>
  What every plan of \<^verbatim>\<open>DeterministicPlanner.plan\<close> satisfies: its nodes form a topologically sorted
  acyclic graph with unique identifiers, it respects the capability policy of the request, it
  schedules every output that was asked for, operations that change state need approval, and
  the executed request is the one whose sanitised form the plan shows.
\<close>

subsection \<open>Topologically sorted node lists\<close>

text \<open>
  \<open>topological seen ns\<close>: every node of \<open>ns\<close> depends on identifiers seen before it, and its own
  identifier is new.
\<close>

fun topological :: "string set \<Rightarrow> plan_node list \<Rightarrow> bool" where
  "topological seen [] = True"
| "topological seen (n # ns) =
     (set (pn_dependencies n) \<subseteq> seen \<and> pn_id n \<notin> seen \<and> topological (insert (pn_id n) seen) ns)"

abbreviation node_ids :: "plan_node list \<Rightarrow> string set" where
  "node_ids ns \<equiv> pn_id ` set ns"

lemma topological_append:
  "topological seen (xs @ ys) \<longleftrightarrow> topological seen xs \<and> topological (seen \<union> node_ids xs) ys"
  by (induction xs arbitrary: seen) auto

lemma topological_block:
  "distinct (map pn_id ns) \<Longrightarrow> node_ids ns \<inter> seen = {} \<Longrightarrow>
   (\<forall>n\<in>set ns. set (pn_dependencies n) \<subseteq> seen) \<Longrightarrow> topological seen ns"
proof (induction ns arbitrary: seen)
  case (Cons n ns)
  then have "topological (insert (pn_id n) seen) ns" by (intro Cons.IH) auto
  with Cons.prems show ?case by simp
qed simp

lemma topological_fresh: "topological seen ns \<Longrightarrow> node_ids ns \<inter> seen = {}"
  by (induction ns arbitrary: seen) auto

lemma topological_filter:
  "topological seen ns \<Longrightarrow> seen' \<subseteq> seen \<Longrightarrow>
   (\<forall>n\<in>set ns. P n \<longrightarrow> set (pn_dependencies n) \<subseteq> seen' \<union> node_ids (filter P ns)) \<Longrightarrow>
   topological seen' (filter P ns)"
proof (induction ns arbitrary: seen seen')
  case (Cons n ns)
  have fresh: "node_ids (n # ns) \<inter> seen = {}" using topological_fresh [OF Cons.prems(1)] .
  show ?case
  proof (cases "P n")
    case True
    have "set (pn_dependencies n) \<subseteq> seen" "set (pn_dependencies n) \<subseteq> seen' \<union> node_ids (n # ns)"
      using Cons.prems(1,3) True by auto
    then have "set (pn_dependencies n) \<subseteq> seen'" using fresh by blast
    moreover have "topological (insert (pn_id n) seen') (filter P ns)"
      using Cons.prems True by (intro Cons.IH [of "insert (pn_id n) seen"]) auto
    ultimately show ?thesis using True Cons.prems fresh by auto
  next
    case False
    then have "topological seen' (filter P ns)"
      using Cons.prems by (intro Cons.IH [of "insert (pn_id n) seen"]) (auto simp del: set_filter)
    with False show ?thesis by simp
  qed
qed simp

lemma topological_distinct: "topological seen ns \<Longrightarrow> distinct (map pn_id ns)"
  by (induction ns arbitrary: seen) (auto dest: topological_fresh)

lemma topological_earlier:
  "topological seen ns \<Longrightarrow> i < length ns \<Longrightarrow>
   set (pn_dependencies (ns ! i)) \<subseteq> seen \<union> node_ids (take i ns)"
proof (induction ns arbitrary: seen i)
  case (Cons n ns)
  then show ?case by (cases i) fastforce+
qed simp

text \<open>Identifiers grouped by their first characters.\<close>

definition tagged :: "string list \<Rightarrow> string \<Rightarrow> bool" where
  "tagged tags s \<longleftrightarrow> (\<exists>p\<in>set tags. py_startswith s p)"

definition new_tag :: "string list \<Rightarrow> string \<Rightarrow> bool" where
  "new_tag tags p \<longleftrightarrow> list_all (\<lambda>q. \<not> py_startswith p q \<and> \<not> py_startswith q p) tags"

lemma new_tag_fresh: "new_tag tags p \<Longrightarrow> py_startswith s p \<Longrightarrow> \<not> tagged tags s"
  by (fastforce simp: new_tag_def tagged_def py_startswith_iff list_all_iff append_eq_append_conv2)

definition ordered :: "string list \<Rightarrow> plan_node list \<Rightarrow> bool" where
  "ordered tags ns \<longleftrightarrow> topological {} ns \<and> (\<forall>s\<in>node_ids ns. tagged tags s)"

lemma ordered_append:
  assumes "ordered tags ns" and "new_tag tags p" and "distinct (map pn_id new)"
    and "\<And>n. n \<in> set new \<Longrightarrow> py_startswith (pn_id n) p \<and> set (pn_dependencies n) \<subseteq> node_ids ns"
  shows "ordered (p # tags) (ns @ new)"
proof -
  have "topological (node_ids ns) new"
    using assms new_tag_fresh by (intro topological_block) (fastforce simp: ordered_def)+
  then show ?thesis using assms(1,4) by (auto simp: ordered_def topological_append tagged_def)
qed

lemma ordered_mono: "ordered tags ns \<Longrightarrow> set tags \<subseteq> set tags' \<Longrightarrow> ordered tags' ns"
  unfolding ordered_def tagged_def by blast

lemma py_startswith_append [simp]: "py_startswith (p @ s) p"
  by (simp add: py_startswith_iff)

lemma numbered_startswith [simp]: "py_startswith (numbered p i c) p"
  by (simp add: numbered_def)

lemma numbered_eq: "numbered p i c = numbered p j d \<Longrightarrow> i = j"
  using numbered_inject [of "CHR ''-''" "CHR ''-''" i "dashed c" j "dashed d"]
  by (simp add: numbered_def is_digit_def ord_char_def)

lemma distinct_numbered:
  "(\<And>i c. pn_id (f (i, c)) = numbered p i c) \<Longrightarrow> distinct (map pn_id (map f (enumerate0 cs)))"
  by (auto simp: enumerate0_def distinct_map distinct_zipI1 intro!: inj_onI dest!: numbered_eq)
   (auto simp: set_zip)


definition session_tags :: "string list" where
  "session_tags = [''auth-login-session'', ''auth-oauth'', ''auth-sso'', ''auth-private-workspace'',
     ''policy'', ''normalize'']"

definition acquisition_tags :: "string list" where
  "acquisition_tags = [''auth-form-submit'', ''auth-csrf-token'', ''http'', ''cache-pre-''] @ session_tags"

definition family_tags :: "string list" where
  "family_tags = [''crawl'', ''browser'', ''reader-'', ''alternatives'', ''document-'', ''media-'',
     ''archive'', ''structured''] @ acquisition_tags"

lemma new_acquisition_tags:
  "new_tag session_tags ''cache-pre-''" "new_tag (''cache-pre-'' # session_tags) ''http''"
  "new_tag (''http'' # ''cache-pre-'' # session_tags) ''auth-csrf-token''"
  "new_tag (''auth-csrf-token'' # ''http'' # ''cache-pre-'' # session_tags) ''auth-form-submit''"
  by code_simp+

lemma PlanNode_sel [simp]:
  "pn_id (PlanNode i c a ds) = i" "pn_capability_id (PlanNode i c a ds) = c"
  "pn_adapter (PlanNode i c a ds) = a" "pn_dependencies (PlanNode i c a ds) = ds"
  "pn_requires_approval (PlanNode i c a ds) = False" "pn_retry (PlanNode i c a ds) = default_retry"
  by (simp_all add: PlanNode_def)

lemma in_pre_cache_nodes:
  "n \<in> set (pre_cache_nodes request dep i prev cs) \<Longrightarrow>
   \<exists>j\<ge>i. \<exists>c\<in>set cs. pn_id n = numbered ''cache-pre-'' j c \<and> pn_capability_id n = c \<and>
     pn_dependencies n = [dep]"
proof (induction request dep i prev cs rule: pre_cache_nodes.induct)
  case (2 request dep i previous c cs)
  then show ?case by (fastforce dest: Suc_leD)
qed simp

lemma distinct_pre_cache_nodes: "distinct (map pn_id (pre_cache_nodes request dep i prev cs))"
proof (induction request dep i prev cs rule: pre_cache_nodes.induct)
  case (2 request dep i previous c cs)
  have "numbered ''cache-pre-'' i c \<notin> node_ids (pre_cache_nodes request dep (i + 1) p cs)" for p
    using in_pre_cache_nodes [of _ request dep "i + 1" p cs] by (force dest: numbered_eq)
  with 2 show ?case by simp
qed simp

lemma base_nodes_ordered: "ordered [''policy'', ''normalize''] base_nodes" "node_ids base_nodes = {''normalize'', ''policy''}"
  by (auto simp: ordered_def base_nodes_def tagged_def py_startswith_def)

lemma session_nodes_cases:
  assumes "session_nodes request = Inr (ss, dep)"
  obtains "ss = []" "dep = ''policy''"
  | c n where "c \<in> set AUTH_SESSION_CAPABILITIES" "ss = [n]" "pn_id n = ''auth-'' @ dashed c" "dep = pn_id n"
      "pn_dependencies n = [''policy'']" "pn_capability_id n = c"
proof (cases "selected_from AUTH_SESSION_CAPABILITIES request")
  case (Cons c cs)
  then have "c \<in> set AUTH_SESSION_CAPABILITIES" using filter_set unfolding selected_from_def
    by (metis filter_is_subset list.set_intros(1) subsetD)
  then show thesis using assms Cons that(2) by (auto simp: session_nodes_def Let_def split: if_splits)
qed (use assms that in \<open>auto simp: session_nodes_def\<close>)

lemma session_nodes_ordered:
  assumes "session_nodes request = Inr (ss, dep)"
  shows "ordered session_tags (base_nodes @ ss) \<and> dep \<in> node_ids (base_nodes @ ss)"
  using assms
proof (cases rule: session_nodes_cases)
  case 1
  have "set [''policy'', ''normalize''] \<subseteq> set session_tags" by (simp add: session_tags_def)
  with ordered_mono [OF base_nodes_ordered(1) this] show ?thesis
    using 1 base_nodes_ordered(2) by simp
next
  case (2 c n)
  have "new_tag [''policy'', ''normalize''] (''auth-'' @ dashed c)"
    by (simp add: new_tag_def py_startswith_def)
  moreover have "py_startswith (pn_id m) (''auth-'' @ dashed c) \<and> set (pn_dependencies m) \<subseteq> node_ids base_nodes"
    if "m \<in> set ss" for m
    using that 2 base_nodes_ordered(2) by (simp add: py_startswith_def)
  ultimately have "ordered ((''auth-'' @ dashed c) # [''policy'', ''normalize'']) (base_nodes @ ss)"
    using base_nodes_ordered(1) 2(2) by (intro ordered_append) auto
  moreover have "set ((''auth-'' @ dashed c) # [''policy'', ''normalize'']) \<subseteq> set session_tags"
    using 2(1) by (auto simp: AUTH_SESSION_CAPABILITIES_def session_tags_def dashed_def py_replace_char_def)
  ultimately have "ordered session_tags (base_nodes @ ss)" by (rule ordered_mono)
  then show ?thesis using 2 by simp
qed

lemma form_nodes_ordered:
  assumes "ordered (''http'' # ''cache-pre-'' # session_tags) ns" and "''http'' \<in> node_ids ns"
    and "form_nodes request = (forms, acquired)"
  shows "ordered acquisition_tags (ns @ forms) \<and> acquired \<in> node_ids (ns @ forms)"
proof -
  define csrf where "csrf = (if ''csrf_token'' \<in> set (rq_output_requirements request)
    then [(PlanNode ''auth-csrf-token'' ''csrf_token'' ''auth'' [''http''])\<lparr>pn_retry := no_retry\<rparr>] else [])"
  define dep where "dep = (if csrf = [] then ''http'' else ''auth-csrf-token'')"
  define submit where "submit = (if ''form_submit'' \<in> set (rq_output_requirements request)
    then [(PlanNode ''auth-form-submit'' ''form_submit'' ''auth'' [dep])
                 \<lparr>pn_retry := no_retry, pn_requires_approval := True\<rparr>] else [])"
  have f: "forms = csrf @ submit" "acquired = (if submit = [] then dep else ''auth-form-submit'')"
    using assms(3) by (auto simp: form_nodes_def Let_def csrf_def dep_def submit_def split: if_splits)
  have c: "ordered (''auth-csrf-token'' # ''http'' # ''cache-pre-'' # session_tags) (ns @ csrf)"
    by (rule ordered_append [OF assms(1) new_acquisition_tags(3)])
      (use assms(2) in \<open>auto simp: csrf_def py_startswith_def\<close>)
  have d: "dep \<in> node_ids (ns @ csrf)" using assms(2) by (auto simp: dep_def csrf_def)
  have "ordered (''auth-form-submit'' # ''auth-csrf-token'' # ''http'' # ''cache-pre-'' # session_tags) ((ns @ csrf) @ submit)"
    by (rule ordered_append [OF c new_acquisition_tags(4)])
      (use d in \<open>auto simp: submit_def py_startswith_def\<close>)
  then show ?thesis using d by (simp add: f acquisition_tags_def) (auto simp: submit_def)
qed

lemma acquisition_ordered:
  assumes "session_nodes request = Inr (ss, dep)" and "form_nodes request = (forms, acquired)"
    and "pre = pre_cache_nodes request dep 0 None cs"
    and "acq = base_nodes @ ss @ pre @ [http_node request family dep pre] @ forms"
  shows "ordered acquisition_tags acq \<and> acquired \<in> node_ids acq"
proof -
  note s = session_nodes_ordered [OF assms(1)]
  have h: "pn_id (http_node request family dep pre) = ''http''"
    "pn_dependencies (http_node request family dep pre) = [dep]"
    by (simp_all add: http_node_def Let_def)
  have p: "py_startswith (pn_id n) ''cache-pre-'' \<and> set (pn_dependencies n) \<subseteq> node_ids (base_nodes @ ss)"
    if "n \<in> set pre" for n
    using in_pre_cache_nodes [OF that [unfolded assms(3)]] s by auto
  have "distinct (map pn_id pre)" unfolding assms(3) by (rule distinct_pre_cache_nodes)
  with p have "ordered (''cache-pre-'' # session_tags) ((base_nodes @ ss) @ pre)"
    by (intro ordered_append [OF conjunct1 [OF s] new_acquisition_tags(1)])
  then have "ordered (''http'' # ''cache-pre-'' # session_tags)
      (((base_nodes @ ss) @ pre) @ [http_node request family dep pre])"
    using s by (intro ordered_append [OF _ new_acquisition_tags(2)]) (auto simp: h py_startswith_def)
  from form_nodes_ordered [OF this _ assms(2)] show ?thesis by (simp add: h assms(4))
qed

subsection \<open>The sections of the plan, continued\<close>

lemma new_family_tags:
  "new_tag acquisition_tags ''crawl''" "new_tag acquisition_tags ''document-''"
  "new_tag acquisition_tags ''media-''" "new_tag acquisition_tags ''archive''"
  "new_tag acquisition_tags ''structured''" "new_tag acquisition_tags ''alternatives''"
  "new_tag (''alternatives'' # acquisition_tags) ''reader-''"
  "new_tag (''reader-'' # ''alternatives'' # acquisition_tags) ''browser''"
  by code_simp+

lemma ordered_one:
  assumes "ordered tags ns" and "new_tag tags p" and "pn_id n = p" and "set (pn_dependencies n) \<subseteq> node_ids ns"
  shows "ordered (p # tags) (ns @ [n])"
  using assms by (intro ordered_append) (auto simp: py_startswith_def)

lemma in_reader_nodes:
  "n \<in> set (reader_nodes request dep) \<Longrightarrow>
   \<exists>i c. pn_id n = numbered ''reader-'' i c \<and> pn_dependencies n = [dep] \<and> pn_capability_id n = c \<and>
     (c \<in> set READER_CAPABILITIES \<or> c \<in> {''clean_text'', ''main_article''})"
proof -
  assume "n \<in> set (reader_nodes request dep)"
  then obtain i c where "pn_id n = numbered ''reader-'' i c" "pn_dependencies n = [dep]" "pn_capability_id n = c"
    "c \<in> set (if selected_from READER_CAPABILITIES request \<noteq> [] then selected_from READER_CAPABILITIES request
      else [''clean_text'', ''main_article''])"
    unfolding reader_nodes_def Let_def by (clarsimp simp: in_set_enumerate0)
  then show ?thesis
    by (auto simp: selected_from_def split: if_split_asm)
qed

lemma reader_nodes_nonempty: "reader_nodes request dep \<noteq> []"
  by (auto simp: reader_nodes_def Let_def enumerate0_def)

lemma distinct_reader_nodes: "distinct (map pn_id (reader_nodes request dep))"
  unfolding reader_nodes_def Let_def by (rule distinct_numbered) simp

lemma browser_node_sel [simp]:
  "pn_id (browser_node request d) = ''browser''" "pn_dependencies (browser_node request d) = [d]"
  by (simp_all add: browser_node_def Let_def)

lemma web_nodes_ordered:
  assumes "ordered acquisition_tags acq" and "acquired \<in> node_ids acq"
    and "web_nodes reg request acquired = Inr (ns, terminal)"
  shows "ordered family_tags (acq @ ns) \<and> terminal \<in> node_ids (acq @ ns)"
proof -
  define alt where "alt = (if rq_authentication_ref request = None
    then [PlanNode ''alternatives'' ''candidate_url_expansion'' ''variants'' [acquired]] else [])"
  define rd where "rd = reader_nodes request (if alt = [] then acquired else ''alternatives'')"
  have ns: "(ns, terminal) = (alt @ rd @ [browser_node request (pn_id (last rd))], ''browser'') \<or>
      (ns, terminal) = (alt @ rd, pn_id (last rd))"
    using assms(3) by (auto simp: web_nodes_def Let_def alt_def rd_def split: if_splits)
  have rd: "rd \<noteq> []" "distinct (map pn_id rd)"
    by (simp_all add: rd_def reader_nodes_nonempty distinct_reader_nodes)
  have a: "ordered (''alternatives'' # acquisition_tags) (acq @ alt)"
    using assms(2) by (intro ordered_append [OF assms(1) new_family_tags(6)])
      (auto simp: alt_def py_startswith_def)
  have dep: "(if alt = [] then acquired else ''alternatives'') \<in> node_ids (acq @ alt)"
    using assms(2) by (auto simp: alt_def)
  have b: "ordered (''reader-'' # ''alternatives'' # acquisition_tags) ((acq @ alt) @ rd)"
    using dep in_reader_nodes
    by (intro ordered_append [OF a new_family_tags(7) rd(2)]) (force simp: rd_def)
  have t: "pn_id (last rd) \<in> node_ids rd" using rd(1) by simp
  have c: "ordered (''browser'' # ''reader-'' # ''alternatives'' # acquisition_tags)
      (((acq @ alt) @ rd) @ [browser_node request (pn_id (last rd))])"
    using t by (intro ordered_one [OF b new_family_tags(8)]) auto
  have sub: "set (''browser'' # ''reader-'' # ''alternatives'' # acquisition_tags) \<subseteq> set family_tags"
    by (auto simp: family_tags_def)
  have "set (''reader-'' # ''alternatives'' # acquisition_tags) \<subseteq> set family_tags"
    by (auto simp: family_tags_def)
  then show ?thesis using ns ordered_mono [OF b] ordered_mono [OF c sub] t by auto
qed

lemma distinct_extractor_nodes: "distinct (map pn_id (extractor_nodes p a g b d cs))"
  unfolding extractor_nodes_def by (rule distinct_numbered) simp

lemma in_extractor_nodes:
  "n \<in> set (extractor_nodes p a g b d cs) \<Longrightarrow>
   \<exists>i c. pn_id n = numbered p i c \<and> pn_dependencies n = [d] \<and> pn_adapter n = a \<and> pn_capability_id n = c \<and>
     c \<in> set cs \<and> \<not> pn_requires_approval n"
  by (auto simp: extractor_nodes_def in_set_enumerate0)

lemma extractor_nodes_ordered:
  assumes "ordered tags acq" and "d \<in> node_ids acq" and "new_tag tags p"
  shows "ordered (p # tags) (acq @ extractor_nodes p a g b d cs) \<and>
    last_id d (extractor_nodes p a g b d cs) \<in> node_ids (acq @ extractor_nodes p a g b d cs)"
proof
  show "ordered (p # tags) (acq @ extractor_nodes p a g b d cs)"
    using in_extractor_nodes assms(2)
    by (intro ordered_append [OF assms(1,3) distinct_extractor_nodes]) fastforce
  show "last_id d (extractor_nodes p a g b d cs) \<in> node_ids (acq @ extractor_nodes p a g b d cs)"
    using assms(2) by (auto simp: last_id_def)
qed

lemma family_nodes_cases:
  assumes "family_nodes reg target request family acquired = Inr (ns, terminal)"
  obtains (one) n where "ns = [n]" "terminal = pn_id n" "pn_dependencies n = [acquired]"
      "pn_id n \<in> {''crawl'', ''archive'', ''structured''}" "\<not> pn_requires_approval n"
      "pn_capability_id n \<in> {''depth_limited_crawl'', ''zip_archive''} \<or>
       api_capability target request = Inr (pn_capability_id n)"
  | (web) "web_nodes reg request acquired = Inr (ns, terminal)"
  | (ext) p a g b cs where "p \<in> {''document-'', ''media-''}"
      "document_capabilities target request = Inr cs \<or> media_capabilities target request = Inr cs"
      "ns = extractor_nodes p a g b acquired cs" "terminal = last_id acquired ns"
  | (none) "ns = []" "terminal = acquired"
proof -
  note f = assms [unfolded family_nodes_def Let_def]
  consider "rq_intent request = ''crawl''"
    | "rq_intent request \<noteq> ''crawl''" "family = ''web'' \<and> http_capability request \<noteq> ''http_head''"
    | "rq_intent request \<noteq> ''crawl''" "family = ''document''"
    | "rq_intent request \<noteq> ''crawl''" "family = ''media''"
    | "rq_intent request \<noteq> ''crawl''" "family = ''archive''"
    | "rq_intent request \<noteq> ''crawl''" "family = ''api''"
    | "rq_intent request \<noteq> ''crawl''" "\<not> (family = ''web'' \<and> http_capability request \<noteq> ''http_head'')"
        "family \<notin> {''document'', ''media'', ''archive'', ''api''}"
    by auto
  then show thesis
  proof cases
    case 1
    have c: "pn_id (crawl_node request acquired) = ''crawl''" "\<not> pn_requires_approval (crawl_node request acquired)"
      "pn_dependencies (crawl_node request acquired) = [acquired]"
      "pn_capability_id (crawl_node request acquired) = ''depth_limited_crawl''"
      by (simp_all add: crawl_node_def)
    have "ns = [crawl_node request acquired]" "terminal = ''crawl''" using f 1 by auto
    then show thesis by (intro one [of "crawl_node request acquired"]) (simp_all add: c)
  next
    case 2
    then show thesis using f by (intro web) simp
  next
    case 3
    then show thesis using f by (auto intro: ext [of "''document-''"])
  next
    case 4
    then show thesis using f by (auto intro: ext [of "''media-''"])
  next
    case 5
    then show thesis using f by (auto intro!: one)
  next
    case 6
    then show thesis using f by (auto intro!: one)
  next
    case 7
    then show thesis using f by (auto intro: none)
  qed
qed

lemma family_nodes_ordered:
  assumes "ordered acquisition_tags acq" and "acquired \<in> node_ids acq"
    and "family_nodes reg target request family acquired = Inr (ns, terminal)"
  shows "ordered family_tags (acq @ ns) \<and> terminal \<in> node_ids (acq @ ns)"
  using assms(3)
proof (cases rule: family_nodes_cases)
  case (one n)
  then have "new_tag acquisition_tags (pn_id n)" using new_family_tags(1,4,5) by auto
  then have "ordered (pn_id n # acquisition_tags) (acq @ [n])"
    using one assms(2) by (intro ordered_one [OF assms(1)]) auto
  moreover have "set (pn_id n # acquisition_tags) \<subseteq> set family_tags"
    using one by (auto simp: family_tags_def)
  ultimately show ?thesis using one ordered_mono by auto
next
  case web
  then show ?thesis by (rule web_nodes_ordered [OF assms(1,2)])
next
  case (ext p a g b cs)
  then have t: "new_tag acquisition_tags p" using new_family_tags(2,3) by auto
  have "set (p # acquisition_tags) \<subseteq> set family_tags"
    using ext(1) by (auto simp: family_tags_def)
  then show ?thesis
    using ordered_mono extractor_nodes_ordered [OF assms(1,2) t] unfolding ext(3,4) by blast
next
  case none
  have "set acquisition_tags \<subseteq> set family_tags" by (auto simp: family_tags_def)
  then show ?thesis using none assms(1,2) by (auto intro: ordered_mono)
qed


definition producer_tags :: "string list" where
  "producer_tags = [''cache-producer-browser-render'', ''cache-producer-rag-document''] @ family_tags"

lemma new_producer_tags:
  "new_tag family_tags ''cache-producer-rag-document''"
  "new_tag (''cache-producer-rag-document'' # family_tags) ''cache-producer-browser-render''"
  "new_tag producer_tags ''cache-post-''"
  by code_simp+

lemma ordered_optional:
  assumes "ordered tags ns" and "new_tag tags p" and "new = [] \<or> (\<exists>n. new = [n] \<and> pn_id n = p \<and> set (pn_dependencies n) \<subseteq> node_ids ns)"
  shows "ordered (p # tags) (ns @ new)"
proof -
  have "set tags \<subseteq> set (p # tags)" by auto
  then have "ordered (p # tags) ns" by (rule ordered_mono [OF assms(1)])
  then show ?thesis using assms(3) ordered_one [OF assms(1,2)] by auto
qed

lemma rag_producer_cases:
  assumes "rag_producer reg request family acquired terminal nodes = Inr (new, rag)"
  shows "(new = [] \<and> (\<forall>d. rag = Some d \<longrightarrow> d \<in> node_ids nodes)) \<or>
    (\<exists>n. new = [n] \<and> pn_id n = ''cache-producer-rag-document'' \<and> rag = Some (pn_id n) \<and>
      set (pn_dependencies n) \<subseteq> {terminal, acquired} \<and> pn_capability_id n = ''clean_text'')"
  using assms unfolding rag_producer_def
  by (auto split: if_split_asm option.split_asm simp: find_Some_iff)
    (metis image_eqI length_rev nth_mem set_rev)+

lemma browser_producer_cases:
  assumes "browser_producer reg target request family acquired nodes = Inr (new, b)"
  shows "(new = [] \<and> (\<forall>d. b = Some d \<longrightarrow> d \<in> node_ids nodes)) \<or>
    (\<exists>n. new = [n] \<and> pn_id n = ''cache-producer-browser-render'' \<and> b = Some (pn_id n) \<and>
      pn_dependencies n = [acquired] \<and> pn_capability_id n = ''playwright'')"
  using assms unfolding browser_producer_def
  by (auto split: if_split_asm option.split_asm simp: find_Some_iff)
    (metis image_eqI length_rev nth_mem set_rev)+

lemma find_in_set: "List.find P xs = Some x \<Longrightarrow> x \<in> set xs"
  by (auto simp: find_Some_iff)

lemma post_dependency_in:
  "post_dependency pre_nodes rag browser terminal c \<in>
     node_ids pre_nodes \<union> set_option rag \<union> set_option browser \<union> {terminal}"
proof -
  define find where "find cap = List.find (\<lambda>n. pn_capability_id n = cap) pre_nodes" for cap
  have f: "find cap = Some n \<Longrightarrow> pn_id n \<in> node_ids pre_nodes" for cap n
    by (auto simp: find_def dest: find_in_set)
  show ?thesis
    unfolding post_dependency_def Let_def find_def [symmetric]
    by (cases "find ''search_engine_cache_adapter''"; cases "find ''alternate_search_cache_adapter''";
        cases rag; cases browser) (simp_all add: f)
qed

lemma in_post_cache_nodes:
  "n \<in> set (post_cache_nodes request pre_nodes rag browser terminal) \<Longrightarrow>
   \<exists>i c. pn_id n = numbered ''cache-post-'' i c \<and> pn_capability_id n = c \<and>
     c \<in> set POST_ACQUISITION_CACHE_CAPABILITIES \<and>
     pn_dependencies n = [post_dependency pre_nodes rag browser terminal c]"
  unfolding post_cache_nodes_def
  by (clarsimp simp: in_set_enumerate0) (metis filter_is_subset nth_mem subsetD)

lemma plan_nodes_ordered:
  assumes "plan_nodes reg target request family = Inr ns"
  shows "topological {} ns"
proof -
  obtain forms acquired where f: "form_nodes request = (forms, acquired)" by (cases "form_nodes request")
  with assms obtain ss dep pre fam terminal rn rag bn browser where
    s: "session_nodes request = Inr (ss, dep)"
    and fam: "family_nodes reg target request family acquired = Inr (fam, terminal)"
    and rag: "rag_producer reg request family acquired terminal
      ((base_nodes @ ss @ pre_cache_nodes request dep 0 None pre @
        [http_node request family dep (pre_cache_nodes request dep 0 None pre)] @ forms) @ fam) = Inr (rn, rag)"
    and br: "browser_producer reg target request family acquired
      ((base_nodes @ ss @ pre_cache_nodes request dep 0 None pre @
        [http_node request family dep (pre_cache_nodes request dep 0 None pre)] @ forms) @ fam @ rn) = Inr (bn, browser)"
    and ns: "ns = (base_nodes @ ss @ pre_cache_nodes request dep 0 None pre @
        [http_node request family dep (pre_cache_nodes request dep 0 None pre)] @ forms) @ fam @ rn @ bn @
        post_cache_nodes request (pre_cache_nodes request dep 0 None pre) rag browser terminal"
    unfolding plan_nodes_def Let_def by (clarsimp simp: f)
  define pre_nodes where "pre_nodes = pre_cache_nodes request dep 0 None pre"
  define acq where "acq = base_nodes @ ss @ pre_nodes @ [http_node request family dep pre_nodes] @ forms"
  note defs = acq_def [symmetric] pre_nodes_def [symmetric]
  have acq: "ordered acquisition_tags acq \<and> acquired \<in> node_ids acq"
    by (rule acquisition_ordered [OF s f pre_nodes_def acq_def])
  have fo: "ordered family_tags (acq @ fam) \<and> terminal \<in> node_ids (acq @ fam)"
    using acq fam by (intro family_nodes_ordered) auto
  note rag' = rag_producer_cases [OF rag [unfolded defs]]
  note br' = browser_producer_cases [OF br [unfolded defs]]
  have r: "ordered (''cache-producer-rag-document'' # family_tags) ((acq @ fam) @ rn)"
    using fo acq rag' by (intro ordered_optional [OF _ new_producer_tags(1)]) auto
  have b: "ordered producer_tags (((acq @ fam) @ rn) @ bn)"
    unfolding producer_tags_def append_Cons append_Nil
    using acq br' by (intro ordered_optional [OF r new_producer_tags(2)]) auto
  have "set (pn_dependencies n) \<subseteq> node_ids (((acq @ fam) @ rn) @ bn)"
    if m: "n \<in> set (post_cache_nodes request pre_nodes rag browser terminal)" for n
  proof -
    have "set_option rag \<subseteq> node_ids (acq @ fam @ rn)" "set_option browser \<subseteq> node_ids (acq @ fam @ rn @ bn)"
      "node_ids pre_nodes \<subseteq> node_ids acq"
      using rag' br' by (auto simp: acq_def)
    moreover obtain c where "pn_dependencies n = [post_dependency pre_nodes rag browser terminal c]"
      using in_post_cache_nodes [OF m] by blast
    ultimately show ?thesis using post_dependency_in [of pre_nodes rag browser terminal c] fo by auto
  qed
  moreover have "distinct (map pn_id (post_cache_nodes request pre_nodes rag browser terminal))"
    unfolding post_cache_nodes_def by (rule distinct_numbered) simp
  ultimately have "ordered (''cache-post-'' # producer_tags)
      ((((acq @ fam) @ rn) @ bn) @ post_cache_nodes request pre_nodes rag browser terminal)"
    using in_post_cache_nodes by (intro ordered_append [OF b new_producer_tags(3)]) fastforce+
  then show ?thesis unfolding ns defs ordered_def by simp
qed

subsection \<open>The plan as a whole\<close>

lemma planE:
  assumes "plan reg plan_id now request0 = Inr p"
  obtains target family nodes request public_target where
    "normalize_url (rq_target request0) = Inr target" "request = canonical_request reg target request0"
    "sanitize_url_for_request target request = Inr public_target"
    "plan_nodes reg target request family = Inr nodes"
    "fp_nodes p = filter (\<lambda>n. permitted reg request (pn_capability_id n) = Inr True) nodes"
    "\<exists>n\<in>set (fp_nodes p). pn_capability_id n \<in> set HTTP_OPERATIONS"
    "validate_nodes reg (fp_nodes p) = Inr ()"
    "validate_requested_schedulable_outputs reg (fp_nodes p) request family = Inr ()"
    "fp_request p = request\<lparr>rq_target := public_target\<rparr>"
    "classify_target target (rq_output_requirements request) = Inr family"
    "bind_execution_request (new_plan plan_id now (request\<lparr>rq_target := public_target\<rparr>) (fp_nodes p)) request = Inr p"
proof -
  from assms obtain target family nodes filtered public_target where *:
    "normalize_url (rq_target request0) = Inr target"
    "sanitize_url_for_request target (canonical_request reg target request0) = Inr public_target"
    "classify_target target (rq_output_requirements (canonical_request reg target request0)) = Inr family"
    "plan_nodes reg target (canonical_request reg target request0) family = Inr nodes"
    "filter_res (\<lambda>n. permitted reg (canonical_request reg target request0) (pn_capability_id n)) nodes = Inr filtered"
    "list_ex (\<lambda>n. pn_capability_id n \<in> set HTTP_OPERATIONS) filtered"
    "validate_nodes reg filtered = Inr ()"
    "validate_requested_schedulable_outputs reg filtered (canonical_request reg target request0) family = Inr ()"
    and b: "bind_execution_request (new_plan plan_id now ((canonical_request reg target request0)\<lparr>rq_target := public_target\<rparr>) filtered)
       (canonical_request reg target request0) = Inr p"
    unfolding plan_def Let_def by auto
  from b have p: "fp_nodes p = filtered" "fp_request p = (canonical_request reg target request0)\<lparr>rq_target := public_target\<rparr>"
    by (auto simp: bind_execution_request_def Let_def new_plan_def)
  show thesis
    by (rule that [OF *(1) refl *(2,4)]) (use * p b filter_res_eq [OF *(5)] in \<open>auto simp: list_ex_iff\<close>)
qed

lemma validate_nodes_ok:
  "validate_nodes reg ns = Inr u \<Longrightarrow> n \<in> set ns \<Longrightarrow>
   set (pn_dependencies n) \<subseteq> node_ids ns \<and> (\<exists>e. get_entry reg (pn_capability_id n) = Inr e)"
proof -
  assume "validate_nodes reg ns = Inr u" and n: "n \<in> set ns"
  then obtain us where "map_res (validate_node reg (map pn_id ns)) ns = Inr us"
    by (auto simp: validate_nodes_def)
  with n have "\<exists>u. validate_node reg (map pn_id ns) n = Inr u"
    using map_res_Inr_nth by (metis in_set_conv_nth)
  then show ?thesis by (auto simp: validate_node_def list_all_iff)
qed

lemma permitted_True:
  "permitted reg request c = Inr True \<Longrightarrow>
   \<exists>i. resolve_id reg c = Inr i \<and> i \<notin> rq_deny_capabilities request \<and>
     (rq_allow_capabilities request = {} \<or> i \<in> rq_allow_capabilities request \<or> i \<in> set ALWAYS_PERMITTED)"
  by (cases "resolve_id reg c") (auto simp: permitted_def split: if_split_asm)

text \<open>
  C1: in every plan the planner returns, node identifiers are unique and a node depends on
  earlier nodes only: the plan is a topologically sorted acyclic graph, also after the capability
  policy removed nodes from it.
\<close>

theorem plan_topological:
  assumes "plan reg plan_id now request = Inr p"
  shows "distinct (map pn_id (fp_nodes p)) \<and>
    (\<forall>i<length (fp_nodes p). set (pn_dependencies (fp_nodes p ! i)) \<subseteq> pn_id ` set (take i (fp_nodes p)))"
  using assms
proof (cases rule: planE)
  case (1 target family nodes req public_target)
  have "topological {} (fp_nodes p)"
    unfolding 1(5)
  proof (rule topological_filter [OF plan_nodes_ordered [OF 1(4)]], simp)
    show "\<forall>n\<in>set nodes. permitted reg req (pn_capability_id n) = Inr True \<longrightarrow> set (pn_dependencies n)
        \<subseteq> {} \<union> node_ids (filter (\<lambda>n. permitted reg req (pn_capability_id n) = Inr True) nodes)"
      using validate_nodes_ok [OF 1(7)] unfolding 1(5) by auto
  qed
  then show ?thesis using topological_distinct topological_earlier by fastforce
qed

text \<open>
  C2: the plan follows the capability policy by canonical identifiers. The canonical identifier of
  a scheduled node is not in the deny list and, when the request lists the capabilities it allows, is
  in that list or one of the normalisation, validation and HTTP operations every plan needs; one HTTP
  operation is always scheduled. So a request that denies and allows by canonical identifiers gets
  no node that any name it denies resolves to. Names of the request that are aliases are compared as
  written and do not have this effect (\<open>plan_alias_not_denied\<close>).
\<close>

theorem plan_respects_policy:
  assumes "plan reg plan_id now request = Inr p"
  shows "(\<forall>n\<in>set (fp_nodes p). \<exists>c. resolve_id reg (pn_capability_id n) = Inr c \<and>
       c \<notin> rq_deny_capabilities request \<and>
       (rq_allow_capabilities request = {} \<or> c \<in> rq_allow_capabilities request \<or>
        c \<in> set ALWAYS_PERMITTED)) \<and>
    (\<exists>n\<in>set (fp_nodes p). pn_capability_id n \<in> set HTTP_OPERATIONS) \<and>
    ((\<forall>d\<in>rq_deny_capabilities request. resolve_id reg d = Inr d) \<longrightarrow>
     (\<forall>n\<in>set (fp_nodes p). \<forall>d\<in>rq_deny_capabilities request. resolve_id reg (pn_capability_id n) \<noteq> resolve_id reg d))"
  using assms
proof (cases rule: planE)
  case (1 target family nodes req public_target)
  have "rq_deny_capabilities req = rq_deny_capabilities request"
    "rq_allow_capabilities req = rq_allow_capabilities request"
    by (simp_all add: 1(2) canonical_request_def)
  then have nodes: "\<exists>c. resolve_id reg (pn_capability_id n) = Inr c \<and> c \<notin> rq_deny_capabilities request \<and>
       (rq_allow_capabilities request = {} \<or> c \<in> rq_allow_capabilities request \<or>
        c \<in> set ALWAYS_PERMITTED)"
    if "n \<in> set (fp_nodes p)" for n
    using that permitted_True [of reg req] unfolding 1(5) by auto
  moreover have "resolve_id reg (pn_capability_id n) \<noteq> resolve_id reg d"
    if "\<forall>d\<in>rq_deny_capabilities request. resolve_id reg d = Inr d" "n \<in> set (fp_nodes p)" "d \<in> rq_deny_capabilities request" for n d
    using nodes [OF that(2)] that(1,3) by auto
  ultimately show ?thesis using 1(6) by blast
qed

subsection \<open>Operations that need approval\<close>

text \<open>Which nodes may change state at the target.\<close>

definition approval_ok :: "plan_node \<Rightarrow> bool" where
  "approval_ok n \<longleftrightarrow> (pn_capability_id n \<in> {''http_post'', ''form_submit''} \<longrightarrow>
     pn_requires_approval n \<and> rr_maximum (pn_retry n) = 0)"

lemma approval_ok_table:
  "pn_capability_id n \<in> set table \<Longrightarrow> list_all (\<lambda>c. c \<noteq> ''http_post'' \<and> c \<noteq> ''form_submit'') table \<Longrightarrow> approval_ok n"
  by (auto simp: approval_ok_def list_all_iff)

lemma selected_from_subset: "set (selected_from table request) \<subseteq> set table"
  by (auto simp: selected_from_def)

lemma approval_tables:
  "list_all (\<lambda>c. c \<noteq> ''http_post'' \<and> c \<noteq> ''form_submit'')
     (AUTH_SESSION_CAPABILITIES @ PRE_ACQUISITION_CACHE_CAPABILITIES @ POST_ACQUISITION_CACHE_CAPABILITIES @
      READER_CAPABILITIES @ BROWSER_ENGINES @ DOCUMENT_CAPABILITIES @ map snd DOCUMENT_SUFFIXES @
      MEDIA_CAPABILITIES @ API_CAPABILITY_ORDER @ map fst NAMED_API_ROUTES @
      [''url_normalisation'', ''url_validation'', ''csrf_token'', ''depth_limited_crawl'',
       ''candidate_url_expansion'', ''clean_text'', ''main_article'', ''playwright'', ''dataset_file'',
       ''image_metadata'', ''audio_metadata'', ''video_metadata'', ''zip_archive'', ''xml_endpoint'', ''json_endpoint''])"
  by code_simp

definition harmless :: "string list" where
  "harmless = AUTH_SESSION_CAPABILITIES @ PRE_ACQUISITION_CACHE_CAPABILITIES @ POST_ACQUISITION_CACHE_CAPABILITIES @
      READER_CAPABILITIES @ BROWSER_ENGINES @ DOCUMENT_CAPABILITIES @ map snd DOCUMENT_SUFFIXES @
      MEDIA_CAPABILITIES @ API_CAPABILITY_ORDER @ map fst NAMED_API_ROUTES @
      [''url_normalisation'', ''url_validation'', ''csrf_token'', ''depth_limited_crawl'',
       ''candidate_url_expansion'', ''clean_text'', ''main_article'', ''playwright'', ''dataset_file'',
       ''image_metadata'', ''audio_metadata'', ''video_metadata'', ''zip_archive'', ''xml_endpoint'', ''json_endpoint'']"

lemma harmless_ok: "pn_capability_id n \<in> set harmless \<Longrightarrow> approval_ok n"
  using approval_tables by (intro approval_ok_table [of n harmless]) (simp_all only: harmless_def)

lemma harmless_tables:
  "set AUTH_SESSION_CAPABILITIES \<subseteq> set harmless" "set PRE_ACQUISITION_CACHE_CAPABILITIES \<subseteq> set harmless"
  "set POST_ACQUISITION_CACHE_CAPABILITIES \<subseteq> set harmless" "set READER_CAPABILITIES \<subseteq> set harmless"
  "set BROWSER_ENGINES \<subseteq> set harmless" "set DOCUMENT_CAPABILITIES \<subseteq> set harmless"
  "snd ` set DOCUMENT_SUFFIXES \<subseteq> set harmless" "set MEDIA_CAPABILITIES \<subseteq> set harmless"
  "set API_CAPABILITY_ORDER \<subseteq> set harmless" "fst ` set NAMED_API_ROUTES \<subseteq> set harmless"
  unfolding harmless_def by auto

lemma harmless_literals:
  "{''url_normalisation'', ''url_validation'', ''csrf_token'', ''depth_limited_crawl'',
    ''candidate_url_expansion'', ''clean_text'', ''main_article'', ''playwright'', ''dataset_file'',
    ''image_metadata'', ''audio_metadata'', ''video_metadata'', ''zip_archive'', ''xml_endpoint'', ''json_endpoint''}
   \<subseteq> set harmless"
  unfolding harmless_def set_append by (simp only: list.simps) blast


lemma find_cases: "(case List.find P xs of Some c \<Rightarrow> c | None \<Rightarrow> d) \<in> insert d (set xs)"
  by (cases "List.find P xs") (auto dest: find_in_set)

lemma document_capabilities_harmless: "document_capabilities target request = Inr cs \<Longrightarrow> set cs \<subseteq> set harmless"
proof -
  assume d: "document_capabilities target request = Inr cs"
  have "c \<in> set harmless" if "document_capability target = Inr c" for c
  proof -
    from that obtain suffix where c: "c = (case map_of DOCUMENT_SUFFIXES suffix of Some c \<Rightarrow> c | None \<Rightarrow> ''dataset_file'')"
      by (auto simp: document_capability_def)
    show ?thesis
    proof (cases "map_of DOCUMENT_SUFFIXES suffix")
      case None then show ?thesis using c harmless_literals by simp
    next
      case (Some x)
      then have "x \<in> snd ` set DOCUMENT_SUFFIXES" by (force dest: map_of_SomeD)
      with c Some harmless_tables(7) show ?thesis by auto
    qed
  qed
  then show ?thesis using d harmless_tables(6) selected_from_subset [of DOCUMENT_CAPABILITIES request]
    by (auto simp: document_capabilities_def Let_def split: if_split_asm)
qed

lemma media_capabilities_harmless:
  assumes "media_capabilities target request = Inr cs"
  shows "set cs \<subseteq> set harmless"
proof (cases "selected_from MEDIA_CAPABILITIES request = []")
  case True
  with assms obtain c where "cs = [c]" "c = ''image_metadata'' \<or> c = ''audio_metadata'' \<or> c = ''video_metadata''"
    unfolding media_capabilities_def Let_def by auto
  then show ?thesis using harmless_literals by auto
next
  case False
  with assms have "cs = selected_from MEDIA_CAPABILITIES request" by (simp add: media_capabilities_def Let_def)
  then show ?thesis using harmless_tables(8) selected_from_subset by blast
qed

lemma api_capability_harmless:
  assumes "api_capability target request = Inr c"
  shows "c \<in> set harmless"
proof (cases "selected_from API_CAPABILITY_ORDER request")
  case Nil
  then show ?thesis
    using assms harmless_tables(10) harmless_literals
    by (auto simp: api_capability_def detect_named_api_def split: option.split_asm if_split_asm dest!: find_in_set)
next
  case (Cons x xs)
  then have "c = x" using assms by (auto simp: api_capability_def Let_def split: if_split_asm)
  then show ?thesis
    using Cons selected_from_subset [of API_CAPABILITY_ORDER request] harmless_tables(9) by auto
qed

lemma web_nodes_harmless:
  assumes "web_nodes reg request acquired = Inr (ns, t)" and "n \<in> set ns"
  shows "pn_capability_id n \<in> set harmless"
proof -
  have "pn_capability_id (browser_node request d) \<in> set harmless" for d
    using find_cases [where P = "\<lambda>c. c \<in> set (rq_output_requirements request)" and xs = BROWSER_ENGINES and d = "''playwright''"]
      harmless_tables(5) harmless_literals unfolding browser_node_def Let_def by auto
  moreover have "pn_capability_id n \<in> set harmless" if "n \<in> set (reader_nodes request d)" for d
    using in_reader_nodes [OF that] harmless_tables(4) harmless_literals by auto
  ultimately show ?thesis
    using assms harmless_literals unfolding web_nodes_def Let_def by (auto split: if_split_asm)
qed

lemma family_nodes_harmless:
  assumes "family_nodes reg target request family acquired = Inr (ns, t)" and "n \<in> set ns"
  shows "pn_capability_id n \<in> set harmless"
  using assms(1)
proof (cases rule: family_nodes_cases)
  case (one m)
  then show ?thesis using assms(2) harmless_literals api_capability_harmless by auto
next
  case web
  then show ?thesis using assms(2) by (rule web_nodes_harmless)
next
  case (ext p a g b cs)
  then show ?thesis using assms(2) in_extractor_nodes document_capabilities_harmless media_capabilities_harmless
    by (metis subsetD)
next
  case none
  then show ?thesis using assms(2) by simp
qed

lemma pre_acquisition_harmless: "pre_acquisition_cache reg request = Inr cs \<Longrightarrow> set cs \<subseteq> set harmless"
  using harmless_tables(2) unfolding pre_acquisition_cache_def by (auto dest!: filter_res_eq)

lemma http_node_approval: "approval_ok (http_node request family dep pre)"
proof -
  have "http_capability request \<noteq> ''form_submit''"
    using find_cases [where P = "\<lambda>c. c \<in> set (rq_output_requirements request)" and d = "''http_get''"
        and xs = "[''http_head'', ''http_post'', ''browser_header_http'', ''range_request'']"]
    unfolding http_capability_def by auto
  then show ?thesis by (simp add: http_node_def Let_def approval_ok_def)
qed


lemma form_nodes_approval: "n \<in> set (fst (form_nodes request)) \<Longrightarrow> approval_ok n"
  by (auto simp: form_nodes_def Let_def approval_ok_def no_retry_def split: if_split_asm)

lemma plan_nodes_approval:
  assumes "plan_nodes reg target request family = Inr ns" and "n \<in> set ns"
  shows "approval_ok n"
proof -
  obtain forms acquired where f: "form_nodes request = (forms, acquired)" by (cases "form_nodes request")
  with assms(1) obtain ss dep cs fam terminal rn rag bn browser a b where
    s: "session_nodes request = Inr (ss, dep)" and c: "pre_acquisition_cache reg request = Inr cs"
    and fam: "family_nodes reg target request family acquired = Inr (fam, terminal)"
    and rag: "rag_producer reg request family acquired terminal a = Inr (rn, rag)"
    and br: "browser_producer reg target request family acquired b = Inr (bn, browser)"
    and ns: "ns = (base_nodes @ ss @ pre_cache_nodes request dep 0 None cs @
        [http_node request family dep (pre_cache_nodes request dep 0 None cs)] @ forms) @ fam @ rn @ bn @
        post_cache_nodes request (pre_cache_nodes request dep 0 None cs) rag browser terminal"
    unfolding plan_nodes_def Let_def by (clarsimp simp: f)
  have base: "approval_ok m" if "m \<in> set base_nodes" for m
    using that harmless_literals by (auto simp: base_nodes_def intro!: harmless_ok)
  have session: "approval_ok m" if "m \<in> set ss" for m
    using s that harmless_tables(1) by (cases rule: session_nodes_cases) (auto intro!: harmless_ok)
  have pre: "approval_ok m" if "m \<in> set (pre_cache_nodes request dep 0 None cs)" for m
    using in_pre_cache_nodes [OF that] pre_acquisition_harmless [OF c] by (auto intro!: harmless_ok)
  have prod: "approval_ok m" if "m \<in> set rn \<or> m \<in> set bn" for m
    using rag_producer_cases [OF rag] browser_producer_cases [OF br] that harmless_literals
    by (auto intro!: harmless_ok)
  have post: "approval_ok m" if "m \<in> set (post_cache_nodes request p rag browser terminal)" for m p
    using in_post_cache_nodes [OF that] harmless_tables(3) by (auto intro!: harmless_ok)
  have "approval_ok m" if "m \<in> set forms" for m using form_nodes_approval [of m request] that by (simp add: f)
  with assms(2) base session pre prod post http_node_approval family_nodes_harmless [OF fam] harmless_ok
  show ?thesis unfolding ns by auto
qed

subsection \<open>Approval, completeness and execution of the plan\<close>

text \<open>
  C10: every node that may change state at the target (an HTTP POST, a form submission) requires
  approval and is never retried, whatever the request asks for.
\<close>

theorem plan_mutations_need_approval:
  assumes "plan reg plan_id now request = Inr p" and "n \<in> set (fp_nodes p)"
    and "pn_capability_id n = ''http_post'' \<or> pn_capability_id n = ''form_submit''"
  shows "pn_requires_approval n \<and> rr_maximum (pn_retry n) = 0"
  using assms(1)
proof (cases rule: planE)
  case (1 target family nodes req public_target)
  then have "n \<in> set nodes" using assms(2) by simp
  then have "approval_ok n" by (rule plan_nodes_approval [OF 1(4)])
  then show ?thesis using assms(3) by (auto simp: approval_ok_def)
qed

text \<open>
  The planner never drops a requested output silently. Every requested capability the registry
  knows and that can be scheduled on its own is the capability of some node of the plan.
\<close>

theorem plan_outputs_scheduled:
  assumes "plan reg plan_id now request = Inr p" and "out \<in> set (rq_output_requirements (fp_request p))"
    and "rq_output_requirements (fp_request p) \<noteq> [''clean_text'']"
    and "get_entry reg out = Inr e" and "me_kind e \<in> set SCHEDULABLE_KINDS"
    and "me_id e \<notin> set BROWSER_EMBEDDED_CAPABILITIES" and "me_id e \<notin> set HTTP_EMBEDDED_AUTH_CAPABILITIES"
  shows "\<exists>n\<in>set (fp_nodes p). resolve_id reg (pn_capability_id n) = Inr (me_id e)"
  using assms(1)
proof (cases rule: planE)
  case (1 target family nodes req public_target)
  have outs: "rq_output_requirements req = rq_output_requirements (fp_request p)" using 1(9) by simp
  from 1(8) obtain scheduled verdicts where
    s: "map_res (\<lambda>n. resolve_id reg (pn_capability_id n)) (fp_nodes p) = Inr scheduled"
    and v: "map_res (verdict_for_output reg (fp_nodes p) scheduled req family) (rq_output_requirements req) = Inr verdicts"
    and ok: "\<not> list_ex (\<lambda>v. case v of OutputDenied _ \<Rightarrow> True | _ \<Rightarrow> False) verdicts"
      "\<not> list_ex (\<lambda>v. case v of OutputMissing _ \<Rightarrow> True | _ \<Rightarrow> False) verdicts"
    unfolding validate_requested_schedulable_outputs_def by auto
  obtain w where w: "verdict_for_output reg (fp_nodes p) scheduled req family out = Inr w" "w \<in> set verdicts"
    using assms(2) v map_res_Inr_nth [OF v] map_res_Inr_length [OF v]
    unfolding outs by (metis in_set_conv_nth)
  have "\<forall>x. w \<noteq> OutputDenied x \<and> w \<noteq> OutputMissing x" using w(2) ok unfolding list_ex_iff by fastforce
  then have "w = OutputOk" by (cases w) auto
  then have "me_id e \<in> set scheduled"
    using w(1) assms(3-) unfolding verdict_for_output_def outs by (auto split: if_split_asm)
  then show ?thesis
    using map_res_Inr_nth [OF s] map_res_Inr_length [OF s] by (metis in_set_conv_nth)
qed

lemma bind_execution_requestE:
  assumes "bind_execution_request q r = Inr p"
  obtains t u where "normalize_url (rq_target r) = Inr t" "sanitize_url_for_request t (r\<lparr>rq_target := t\<rparr>) = Inr u"
    "fp_request q = r\<lparr>rq_target := u\<rparr>" "p = q\<lparr>fp_execution_request := Some (r\<lparr>rq_target := t\<rparr>)\<rparr>"
  using assms by (auto simp: bind_execution_request_def Let_def)

text \<open>
  A plan separates what is shown from what is executed. The executor works on the request
  with the normalised target; the plan's own request is that request with the sanitised target.
\<close>

theorem plan_execution_request:
  assumes "plan reg plan_id now request = Inr p"
  shows "\<exists>u r. normalize_url (rq_target request) = Inr u \<and> normalize_url u = Inr (rq_target r) \<and>
    execution_request p = Inr r \<and>
    sanitize_url_for_request (rq_target r) r = Inr (rq_target (fp_request p)) \<and>
    fp_request p = r\<lparr>rq_target := rq_target (fp_request p)\<rparr>"
  using assms
proof (cases rule: planE)
  case (1 target family nodes req public_target)
  have rt: "rq_target req = target" by (simp add: 1(2) canonical_request_def)
  from 1(11) show ?thesis
  proof (cases rule: bind_execution_requestE)
    case (1 t u)
    have p: "fp_execution_request p = Some (req\<lparr>rq_target := t\<rparr>)" "fp_request p = req\<lparr>rq_target := u\<rparr>"
      using 1(3,4) by (metis fetch_plan.select_convs(8) fetch_plan.surjective fetch_plan.update_convs(8), metis \<open>fp_request p = _\<close> 1(3) fetch_plan.select_convs(2) new_plan_def)
    then have "execution_request p = Inr (req\<lparr>rq_target := t\<rparr>)" by (simp add: execution_request_def)
    then show ?thesis
      using 1(1,2) p(2) \<open>normalize_url (rq_target request) = Inr target\<close> rt by (intro exI [of _ target] exI [of _ "req\<lparr>rq_target := t\<rparr>"]) simp
  qed
qed


text \<open>A registry with the capabilities of a web fetch, and two requests the planner accepts.\<close>

definition planner_entry :: "string \<times> string list \<times> capability_kind \<times> string \<Rightarrow> capability_manifest_entry" where
  "planner_entry = (\<lambda>(i, as, k, a). \<lparr>me_id = i, me_aliases = as,
     me_category = ''sample'', me_category_name = ''sample'', me_closure_release = ''v0.1'',
     me_kind = k, me_adapter = a, me_risk_class = ''low'', me_inputs = [''target''],
     me_outputs = [''attempt''], me_dependencies = [], me_reference = [], me_tests = [],
     me_lifecycle_status = ''registered'', me_implementation_status = NATIVE, me_implementation = [],
     me_implementation_available = True, me_runtime_available = True, me_availability_reason = []\<rparr>)"

definition planner_entries :: "capability_manifest_entry list" where
  "planner_entries = map planner_entry
     [(''url_normalisation'', [], OPERATION, ''core''), (''url_validation'', [], POLICY, ''core''),
      (''http_get'', [], OPERATION, ''http''), (''http_post'', [], OPERATION, ''http''),
      (''candidate_url_expansion'', [], OPERATION, ''discovery''), (''clean_text'', [], EXTRACTOR, ''reader''),
      (''main_article'', [], EXTRACTOR, ''reader''), (''playwright'', [''playwright_render''], OPERATION, ''browser'')]"

definition planner_registry :: capability_registry where
  "planner_registry = \<lparr>reg_manifest_version = ''1.0'', reg_entries = planner_entries,
     reg_by_id = map_of (rev (map (\<lambda>e. (me_id e, e)) planner_entries)),
     reg_aliases = map_of (rev (entry_aliases planner_entries))\<rparr>"

definition sample_request :: fetch_request where
  "sample_request = (default_request ''http://example.com/a'')
     \<lparr>rq_output_requirements := [''http_post'', ''clean_text''], rq_deny_capabilities := {''playwright''}\<rparr>"

definition sample_plan :: fetch_plan where
  "sample_plan = (case plan planner_registry 0 0 sample_request of Inr p \<Rightarrow> p | Inl _ \<Rightarrow> undefined)"

definition is_ok :: "'e + 'a \<Rightarrow> bool" where
  "is_ok r = (case r of Inr _ \<Rightarrow> True | Inl _ \<Rightarrow> False)"

lemma sample_plan_ok: "plan planner_registry 0 0 sample_request = Inr sample_plan"
proof -
  have "is_ok (plan planner_registry 0 0 sample_request)" by code_simp
  then show ?thesis by (simp add: sample_plan_def is_ok_def split: sum.split_asm)
qed

theorem plan_topological_witness:
  "map pn_id (fp_nodes sample_plan) = [''normalize'', ''policy'', ''http'', ''alternatives'', ''reader-0-clean-text''] \<and>
   pn_dependencies (fp_nodes sample_plan ! 4) = [''alternatives''] \<and>
   set (pn_dependencies (fp_nodes sample_plan ! 4)) \<subseteq> pn_id ` set (take 4 (fp_nodes sample_plan))"
proof (intro conjI)
  show ids: "map pn_id (fp_nodes sample_plan) = [''normalize'', ''policy'', ''http'', ''alternatives'', ''reader-0-clean-text'']"
    by code_simp
  show "pn_dependencies (fp_nodes sample_plan ! 4) = [''alternatives'']" by code_simp
  have "4 < length (fp_nodes sample_plan)" using arg_cong [OF ids, of length] by simp
  then show "set (pn_dependencies (fp_nodes sample_plan ! 4)) \<subseteq> pn_id ` set (take 4 (fp_nodes sample_plan))"
    using plan_topological [OF sample_plan_ok] by blast
qed

theorem plan_respects_policy_witness:
  "fp_nodes sample_plan \<noteq> [] \<and>
   list_all (\<lambda>n. resolve_id planner_registry (pn_capability_id n) \<noteq> Inr ''playwright'') (fp_nodes sample_plan)"
proof
  show "fp_nodes sample_plan \<noteq> []" using plan_respects_policy [OF sample_plan_ok] by auto
  have "rq_deny_capabilities sample_request = {''playwright''}" by (simp add: sample_request_def)
  then show "list_all (\<lambda>n. resolve_id planner_registry (pn_capability_id n) \<noteq> Inr ''playwright'') (fp_nodes sample_plan)"
    unfolding list_all_iff using plan_respects_policy [OF sample_plan_ok] by fastforce
qed

theorem plan_mutations_need_approval_witness:
  "pn_capability_id (fp_nodes sample_plan ! 2) = ''http_post'' \<and> pn_requires_approval (fp_nodes sample_plan ! 2)"
proof
  show c: "pn_capability_id (fp_nodes sample_plan ! 2) = ''http_post''" by code_simp
  have "length (fp_nodes sample_plan) = 5" by code_simp
  then have "fp_nodes sample_plan ! 2 \<in> set (fp_nodes sample_plan)" by simp
  then show "pn_requires_approval (fp_nodes sample_plan ! 2)"
    using plan_mutations_need_approval [OF sample_plan_ok] c by blast
qed

theorem plan_outputs_scheduled_witness:
  "\<exists>n\<in>set (fp_nodes sample_plan). resolve_id planner_registry (pn_capability_id n) = Inr ''clean_text''"
proof -
  define e where "e = planner_entry (''clean_text'', [], EXTRACTOR, ''reader'')"
  have e: "me_id e = ''clean_text''" "me_kind e = EXTRACTOR" by (simp_all add: e_def planner_entry_def)
  have "rq_output_requirements (fp_request sample_plan) = [''http_post'', ''clean_text'']" by code_simp
  moreover have "get_entry planner_registry ''clean_text'' = Inr e" unfolding e_def by code_simp
  moreover have "''clean_text'' \<notin> set BROWSER_EMBEDDED_CAPABILITIES" "''clean_text'' \<notin> set HTTP_EMBEDDED_AUTH_CAPABILITIES"
    "EXTRACTOR \<in> set SCHEDULABLE_KINDS"
    by code_simp+
  ultimately show ?thesis
    using plan_outputs_scheduled [OF sample_plan_ok, of "''clean_text''" e] by (simp add: e)
qed

theorem plan_execution_request_witness:
  "\<exists>r. execution_request sample_plan = Inr r \<and> rq_target r = ''http://example.com/a''"
proof -
  have "normalize_url (rq_target sample_request) = Inr ''http://example.com/a''"
    "normalize_url ''http://example.com/a'' = Inr ''http://example.com/a''" by code_simp+
  then show ?thesis using plan_execution_request [OF sample_plan_ok] by auto
qed

text \<open>
  Denying a capability by one of its aliases has no effect. The planner compares the
  canonical identifier with the names of the request, and those are not resolved: the plan for a
  request that denies \<open>playwright_render\<close> still schedules \<open>playwright\<close>.
\<close>

theorem plan_alias_not_denied:
  "resolve_id planner_registry ''playwright_render'' = Inr ''playwright'' \<and>
   (case plan planner_registry 0 0
       ((default_request ''http://h/'')\<lparr>rq_deny_capabilities := {''playwright_render''}\<rparr>) of
      Inr p \<Rightarrow> ''playwright'' \<in> set (map pn_capability_id (fp_nodes p)) | Inl _ \<Rightarrow> False)"
proof
  show "resolve_id planner_registry ''playwright_render'' = Inr ''playwright''" by code_simp
  show "case plan planner_registry 0 0
       ((default_request ''http://h/'')\<lparr>rq_deny_capabilities := {''playwright_render''}\<rparr>) of
      Inr p \<Rightarrow> ''playwright'' \<in> set (map pn_capability_id (fp_nodes p)) | Inl _ \<Rightarrow> False"
    by code_simp
qed

text \<open>
  No request for a target with white space in front of its fragment can be planned, whatever
  the registry: the planner normalises the target twice, and the second normalisation removes the
  white space the first one left, so the plan does not match its own request.
\<close>

theorem plan_rejects_space_before_fragment:
  "plan reg plan_id now (default_request ''http://h/a #f'') \<noteq> Inr p"
proof
  assume "plan reg plan_id now (default_request ''http://h/a #f'') = Inr p"
  then show False
  proof (cases rule: planE)
    case (1 target family nodes req public_target)
    have "normalize_url ''http://h/a #f'' = Inr ''http://h/a ''" by code_simp
    then have t: "target = ''http://h/a ''" using 1(1) by (simp add: default_request_def)
    have r: "rq_target req = target" "rq_authentication_ref req = None"
      by (simp_all add: 1(2) canonical_request_def default_request_def)
    have s: "sanitize_url False ''http://h/a '' = Inr ''http://h/a ''" "sanitize_url False ''http://h/a'' = Inr ''http://h/a''"
      "normalize_url ''http://h/a '' = Inr ''http://h/a''"
      by code_simp+
    have "public_target = ''http://h/a ''" using 1(3) s(1) by (simp add: sanitize_url_for_request_def r t)
    with 1(11) show False
    proof (cases rule: bind_execution_requestE)
      case (1 t' u)
      then have "t' = ''http://h/a''" "u = ''http://h/a''" using s by (simp_all add: r t sanitize_url_for_request_def)
      moreover have "rq_target (fp_request (new_plan plan_id now (req\<lparr>rq_target := public_target\<rparr>) (fp_nodes p))) = u"
        using 1(3) by simp
      ultimately show False using \<open>public_target = _\<close> by (simp add: new_plan_def)
    qed
  qed
qed

end
