(* ===== verification/Ledger.thy ===== *)
theory Ledger
  imports Security
begin

section \<open>The event ledger: ledger.py\<close>

text \<open>
  The append-only provenance log and the run snapshots. A stored row is the record of its
  columns; a JSON column holds the document that \<^verbatim>\<open>json.loads\<close> reads back: lists for tuples and
  dictionaries with sorted keys. The database commits every statement; a failing database, the
  asynchronous sessions and malformed JSON written by another program are not modelled. How a
  \<^verbatim>\<open>FetchResult\<close> is dumped to JSON and validated back is pydantic's work: the functions
  \<open>dump\<close> and \<open>load\<close> of the operations that need it.
\<close>

subsection \<open>Redaction of stored documents\<close>

definition SAFE_TOKEN_METRICS :: "string list" where
  "SAFE_TOKEN_METRICS = [''estimated_tokens'', ''graphify_tokens'', ''input_tokens'', ''model_tokens'',
     ''output_tokens'', ''qmd_tokens'', ''source_tokens'', ''token_budget'', ''token_limit'',
     ''token_usage'', ''tokens_used'', ''total_tokens'']"

definition SECRET_FRAGMENTS :: "string list" where
  "SECRET_FRAGMENTS = [''authentication'', ''authorization'', ''credential'', ''apikey'', ''token'',
     ''cookie'', ''password'', ''secret'']"

definition LEDGER_URL_FIELDS :: "string list" where
  "LEDGER_URL_FIELDS = [''authority_url'', ''candidate'', ''canonical_url'', ''destination'',
     ''normalized_target'', ''parent_url'', ''requested_url'', ''root_url'', ''source_url'', ''target'', ''url'']"

definition payload_key :: "string \<Rightarrow> string" where
  "payload_key key =
     py_replace_char (CHR '' '') (CHR ''_'') (py_replace_char (CHR ''-'') (CHR ''_'') (py_lower key))"

definition redacted_key :: "string \<Rightarrow> bool" where
  "redacted_key key =
     (let k = payload_key key;
          compact = py_remove_char (CHR ''_'') k;
          auth_component = (k = ''auth'' \<or> py_startswith k ''auth_'' \<or> py_endswith k ''_auth'' \<or>
            py_contains ''_auth_'' k)
      in k = ''body'' \<or> auth_component \<or>
         (k \<notin> set SAFE_TOKEN_METRICS \<and> list_ex (\<lambda>f. py_contains f compact) SECRET_FRAGMENTS))"

definition sanitize_payload_text :: "string \<Rightarrow> bool \<Rightarrow> string \<Rightarrow> string" where
  "sanitize_payload_text key authenticated s =
     (if py_lower key \<in> set LEDGER_URL_FIELDS
      then (case sanitize_url authenticated s of Inr u \<Rightarrow> u | Inl _ \<Rightarrow> ''[REDACTED_INVALID_URL]'')
      else if authenticated then sanitize_authenticated_text s else s)"

fun sanitize_payload :: "string \<Rightarrow> bool \<Rightarrow> pyval \<Rightarrow> pyval" where
  "sanitize_payload key auth (VDict kvs) =
     (if redacted_key key then VStr ''[REDACTED]''
      else VDict (map (\<lambda>(k, child). (k, sanitize_payload k auth child)) kvs))"
| "sanitize_payload key auth (VList vs) =
     (if redacted_key key then VStr ''[REDACTED]'' else VList (map (sanitize_payload key auth) vs))"
| "sanitize_payload key auth (VTuple vs) =
     (if redacted_key key then VStr ''[REDACTED]'' else VList (map (sanitize_payload key auth) vs))"
| "sanitize_payload key auth (VStr s) =
     (if redacted_key key then VStr ''[REDACTED]'' else VStr (sanitize_payload_text key auth s))"
| "sanitize_payload key auth v = (if redacted_key key then VStr ''[REDACTED]'' else v)"

text \<open>\<^verbatim>\<open>json.loads(json.dumps(value, sort_keys=True))\<close>.\<close>

fun json_stored :: "pyval \<Rightarrow> pyval" where
  "json_stored (VDict kvs) = VDict (sort_key fst (map (\<lambda>(k, v). (k, json_stored v)) kvs))"
| "json_stored (VList vs) = VList (map json_stored vs)"
| "json_stored (VTuple vs) = VList (map json_stored vs)"
| "json_stored v = v"

definition doc_fields :: "pyval \<Rightarrow> document" where
  "doc_fields v = (case v of VDict kvs \<Rightarrow> kvs | _ \<Rightarrow> [])"

subsection \<open>Rows and state\<close>

record run_row =
  rw_run_id :: uuid
  rw_state :: run_state
  rw_submitted_at :: time
  rw_request :: pyval
  rw_result :: "pyval option"

text \<open>
  Event rows in the order of the autoincremented \<^verbatim>\<open>sequence\<close>. A subscriber queue belongs to a
  run; \<^term>\<open>None\<close> is the end marker.
\<close>

record event_ledger =
  lg_events :: "provenance_event list"
  lg_runs :: "run_row list"
  lg_subscribers :: "(nat \<times> uuid \<times> provenance_event option list) list"
  lg_authenticated :: "uuid set"

definition EventLedger :: event_ledger where
  "EventLedger = \<lparr>lg_events = [], lg_runs = [], lg_subscribers = [], lg_authenticated = {}\<rparr>"

definition find_run :: "event_ledger \<Rightarrow> uuid \<Rightarrow> run_row option" where
  "find_run l r = List.find (\<lambda>row. rw_run_id row = r) (lg_runs l)"

definition authenticated_document :: "document \<Rightarrow> bool" where
  "authenticated_document d = (case map_of d ''authentication_ref'' of None \<Rightarrow> False | Some v \<Rightarrow> v \<noteq> VNone)"

subsection \<open>Operations\<close>

definition initialize :: "event_ledger \<Rightarrow> event_ledger" where
  "initialize l = l\<lparr>lg_authenticated := lg_authenticated l \<union>
     set (map rw_run_id (filter (\<lambda>row. authenticated_document (doc_fields (rw_request row))) (lg_runs l)))\<rparr>"

definition close_ledger :: "event_ledger \<Rightarrow> event_ledger" where
  "close_ledger l = l\<lparr>lg_authenticated := {}\<rparr>"

text \<open>The primary key refuses a second run with the same identifier.\<close>

definition create_run :: "event_ledger \<Rightarrow> uuid \<Rightarrow> document \<Rightarrow> time \<Rightarrow> event_ledger res" where
  "create_run l r request_document submitted_at =
     (let authenticated = authenticated_document request_document;
          row = \<lparr>rw_run_id = r, rw_state = QUEUED, rw_submitted_at = submitted_at,
                 rw_request = json_stored (sanitize_payload [] authenticated (VDict request_document)),
                 rw_result = None\<rparr>
      in if find_run l r \<noteq> None then Inl (PyRuntimeError ''IntegrityError'')
         else Inr (l\<lparr>lg_runs := lg_runs l @ [row],
                     lg_authenticated := (if authenticated then insert r (lg_authenticated l)
                                          else lg_authenticated l)\<rparr>))"

definition publish :: "uuid \<Rightarrow> provenance_event option \<Rightarrow> event_ledger \<Rightarrow> event_ledger" where
  "publish r item l = l\<lparr>lg_subscribers :=
     map (\<lambda>(q, r', items). (q, r', if r' = r then items @ [item] else items)) (lg_subscribers l)\<rparr>"

definition set_run :: "(run_row \<Rightarrow> run_row) \<Rightarrow> uuid \<Rightarrow> event_ledger \<Rightarrow> event_ledger" where
  "set_run f r l = l\<lparr>lg_runs := map (\<lambda>row. if rw_run_id row = r then f row else row) (lg_runs l)\<rparr>"

definition update_run ::
  "('r \<Rightarrow> pyval) \<Rightarrow> event_ledger \<Rightarrow> uuid \<Rightarrow> run_state \<Rightarrow> 'r option \<Rightarrow> event_ledger res" where
  "update_run dump l r state result =
     (case find_run l r of
        None \<Rightarrow> Inl (KeyError (''unknown run: '' @ nat_to_str r))
      | Some _ \<Rightarrow>
          (let stored = (case result of
                 None \<Rightarrow> (\<lambda>row. row\<lparr>rw_state := state\<rparr>)
               | Some res \<Rightarrow> (\<lambda>row. row\<lparr>rw_state := state, rw_result :=
                   Some (json_stored (sanitize_payload [] (r \<in> lg_authenticated l) (dump res)))\<rparr>));
               l' = set_run stored r l
           in Inr (if state = FINISHED then publish r None l' else l')))"

definition run_snapshot ::
  "(pyval \<Rightarrow> 'r res) \<Rightarrow> event_ledger \<Rightarrow> uuid \<Rightarrow> (run_state \<times> time \<times> 'r option) res" where
  "run_snapshot load l r =
     (case find_run l r of
        None \<Rightarrow> Inl (KeyError (''unknown run: '' @ nat_to_str r))
      | Some row \<Rightarrow>
          (case rw_result row of
             None \<Rightarrow> Inr (rw_state row, rw_submitted_at row, None)
           | Some doc \<Rightarrow> bind_res (load doc) (\<lambda>res. Inr (rw_state row, rw_submitted_at row, Some res))))"

definition stored_event :: "event_ledger \<Rightarrow> provenance_event \<Rightarrow> provenance_event" where
  "stored_event l e = e\<lparr>ev_payload := doc_fields (json_stored
     (sanitize_payload [] (ev_run_id e \<in> lg_authenticated l) (VDict (ev_payload e))))\<rparr>"

text \<open>
  \<^verbatim>\<open>append\<close>: the row is committed, then the event with the sanitised payload is put on the
  queues. An event identifier is unique in the table.
\<close>

definition published_event :: "event_ledger \<Rightarrow> provenance_event \<Rightarrow> provenance_event" where
  "published_event l e = e\<lparr>ev_payload := doc_fields
     (sanitize_payload [] (ev_run_id e \<in> lg_authenticated l) (VDict (ev_payload e)))\<rparr>"

definition append_event :: "event_ledger \<Rightarrow> provenance_event \<Rightarrow> event_ledger res" where
  "append_event l e =
     (if list_ex (\<lambda>e'. ev_event_id e' = ev_event_id e) (lg_events l)
      then Inl (PyRuntimeError ''IntegrityError'')
      else Inr (publish (ev_run_id e) (Some (published_event l e))
                  (l\<lparr>lg_events := lg_events l @ [stored_event l e]\<rparr>)))"

definition events :: "event_ledger \<Rightarrow> uuid \<Rightarrow> provenance_event list" where
  "events l r = filter (\<lambda>e. ev_run_id e = r) (lg_events l)"

definition all_events :: "event_ledger \<Rightarrow> provenance_event list" where
  "all_events l = lg_events l"

definition unfinished_runs :: "event_ledger \<Rightarrow> (uuid \<times> run_state \<times> time \<times> document) list res" where
  "unfinished_runs l =
     map_res (\<lambda>row. case rw_request row of
         VDict d \<Rightarrow> Inr (rw_run_id row, rw_state row, rw_submitted_at row, d)
       | _ \<Rightarrow> Inl (ValueError (''run '' @ nat_to_str (rw_run_id row) @ '' has malformed request metadata'')))
       (filter (\<lambda>row. rw_state row \<noteq> FINISHED) (lg_runs l))"

fun collect_artifacts :: "(uuid \<times> artifact) list \<Rightarrow> artifact list \<Rightarrow> (uuid \<times> artifact) list res" where
  "collect_artifacts found [] = Inr found"
| "collect_artifacts found (a # as) =
     (case map_of found (ar_artifact_id a) of
        Some previous \<Rightarrow>
          if previous \<noteq> a
          then Inl (ValueError (''artifact '' @ nat_to_str (ar_artifact_id a) @ '' has conflicting ledger metadata''))
          else collect_artifacts (assoc_set (ar_artifact_id a) a found) as
      | None \<Rightarrow> collect_artifacts (assoc_set (ar_artifact_id a) a found) as)"

fun collect_results ::
  "(pyval \<Rightarrow> fetch_result res) \<Rightarrow> (uuid \<times> artifact) list \<Rightarrow> pyval list \<Rightarrow> (uuid \<times> artifact) list res" where
  "collect_results load found [] = Inr found"
| "collect_results load found (doc # docs) =
     bind_res (load doc) (\<lambda>result.
     bind_res (collect_artifacts found (fr_artifacts result)) (\<lambda>found'.
       collect_results load found' docs))"

definition artifacts :: "(pyval \<Rightarrow> fetch_result res) \<Rightarrow> event_ledger \<Rightarrow> artifact list res" where
  "artifacts load l =
     bind_res (collect_results load [] (List.map_filter rw_result (lg_runs l))) (\<lambda>found.
       Inr (map snd found))"

subsection \<open>Streaming\<close>

text \<open>
  \<^verbatim>\<open>stream\<close> registers a queue, replays the stored events and then yields what arrives on the
  queue, up to the end marker, without the events it has already yielded.
\<close>

definition subscribe :: "event_ledger \<Rightarrow> nat \<Rightarrow> uuid \<Rightarrow> event_ledger" where
  "subscribe l q r = l\<lparr>lg_subscribers := lg_subscribers l @ [(q, r, [])]\<rparr>"

definition unsubscribe :: "event_ledger \<Rightarrow> nat \<Rightarrow> event_ledger" where
  "unsubscribe l q = l\<lparr>lg_subscribers := filter (\<lambda>(q', _). q' \<noteq> q) (lg_subscribers l)\<rparr>"

definition queue_items :: "event_ledger \<Rightarrow> nat \<Rightarrow> provenance_event option list" where
  "queue_items l q = (case map_of (lg_subscribers l) q of Some (_, items) \<Rightarrow> items | None \<Rightarrow> [])"

fun drain :: "uuid set \<Rightarrow> provenance_event option list \<Rightarrow> provenance_event list" where
  "drain seen [] = []"
| "drain seen (None # items) = []"
| "drain seen (Some e # items) =
     (if ev_event_id e \<in> seen then drain seen items
      else e # drain (insert (ev_event_id e) seen) items)"

definition stream_yields :: "provenance_event list \<Rightarrow> provenance_event option list \<Rightarrow> provenance_event list" where
  "stream_yields replayed items = replayed @ drain (ev_event_id ` set replayed) items"

subsection \<open>An append-only log\<close>

locale event_log =
  fixes append :: "'l \<Rightarrow> 'e \<Rightarrow> 'l res"
    and log :: "'l \<Rightarrow> 'e list"
    and store :: "'l \<Rightarrow> 'e \<Rightarrow> 'e"
  assumes append_log: "append l e = Inr l' \<Longrightarrow> log l' = log l @ [store l e]"
    and append_store: "append l e = Inr l' \<Longrightarrow> store l' = store l"
begin

lemma append_all_log:
  "fold_res append l es = Inr l' \<Longrightarrow> log l' = log l @ map (store l) es \<and> store l' = store l"
proof (induction es arbitrary: l)
  case (Cons e es)
  then obtain m where m: "append l e = Inr m" "fold_res append m es = Inr l'" by auto
  then show ?case using Cons.IH [OF m(2)] append_log [OF m(1)] append_store [OF m(1)] by simp
qed simp

lemma append_only: "fold_res append l es = Inr l' \<Longrightarrow> \<exists>new. log l' = log l @ new \<and> length new = length es"
  using append_all_log by fastforce

end

definition append_events :: "event_ledger \<Rightarrow> provenance_event list \<Rightarrow> event_ledger res" where
  "append_events = fold_res append_event"

interpretation ledger_log: event_log append_event all_events stored_event
proof
  fix l e l' assume "append_event l e = Inr l'"
  then show "all_events l' = all_events l @ [stored_event l e]" "stored_event l' = stored_event l"
    by (auto simp: append_event_def all_events_def publish_def stored_event_def split: if_splits)
qed

subsection \<open>What the ledger guarantees\<close>

text \<open>Any sequence of operations, as one step function.\<close>

datatype ledger_op =
    OpCreate uuid document time
  | OpUpdate uuid run_state "pyval option"
  | OpAppend provenance_event
  | OpInitialize
  | OpSubscribe nat uuid
  | OpUnsubscribe nat

fun ledger_step :: "event_ledger \<Rightarrow> ledger_op \<Rightarrow> event_ledger res" where
  "ledger_step l (OpCreate r d t) = create_run l r d t"
| "ledger_step l (OpUpdate r st res) = update_run id l r st res"
| "ledger_step l (OpAppend e) = append_event l e"
| "ledger_step l OpInitialize = Inr (initialize l)"
| "ledger_step l (OpSubscribe q r) = Inr (subscribe l q r)"
| "ledger_step l (OpUnsubscribe q) = Inr (unsubscribe l q)"

definition ledger_ok :: "event_ledger \<Rightarrow> bool" where
  "ledger_ok l \<longleftrightarrow> distinct (map ev_event_id (lg_events l)) \<and> distinct (map rw_run_id (lg_runs l))"

text \<open>\<open>extends l l'\<close>: the events of \<open>l\<close> are a prefix, its runs keep their place and request.\<close>

definition run_key :: "run_row \<Rightarrow> uuid \<times> time \<times> pyval" where
  "run_key row = (rw_run_id row, rw_submitted_at row, rw_request row)"

definition extends :: "event_ledger \<Rightarrow> event_ledger \<Rightarrow> bool" where
  "extends l l' \<longleftrightarrow> (\<exists>es. lg_events l' = lg_events l @ es) \<and>
     (\<exists>rs. map run_key (lg_runs l') = map run_key (lg_runs l) @ rs)"

lemma extends_refl [simp]: "extends l l" by (simp add: extends_def)

lemma extends_trans: "extends a b \<Longrightarrow> extends b c \<Longrightarrow> extends a c"
  by (auto simp: extends_def)

lemma publish_sel [simp]:
  "lg_events (publish r i l) = lg_events l" "lg_runs (publish r i l) = lg_runs l"
  "lg_authenticated (publish r i l) = lg_authenticated l"
  by (simp_all add: publish_def)

lemma stored_event_sel [simp]:
  "ev_event_id (stored_event l e) = ev_event_id e" "ev_run_id (stored_event l e) = ev_run_id e"
  "ev_event_id (published_event l e) = ev_event_id e"
  by (simp_all add: stored_event_def published_event_def)

lemma set_run_keys:
  "(\<And>row. run_key (f row) = run_key row) \<Longrightarrow> map run_key (lg_runs (set_run f r l)) = map run_key (lg_runs l)"
  by (auto simp: set_run_def)

lemma run_key_id: "map run_key xs = map run_key ys \<Longrightarrow> map rw_run_id xs = map rw_run_id ys"
  by (drule arg_cong [where f = "map fst"]) (simp add: comp_def run_key_def)

lemma update_run_keys:
  assumes "update_run dump l r st res = Inr l'"
  shows "lg_events l' = lg_events l" and "map run_key (lg_runs l') = map run_key (lg_runs l)"
    and "lg_authenticated l' = lg_authenticated l"
proof -
  have "\<And>row. run_key (row\<lparr>rw_state := st\<rparr>) = run_key row"
    "\<And>row d. run_key (row\<lparr>rw_state := st, rw_result := d\<rparr>) = run_key row"
    by (simp_all add: run_key_def)
  note k = set_run_keys [OF this(1), where r = r and l = l] set_run_keys [OF this(2), where r = r and l = l]
  show "map run_key (lg_runs l') = map run_key (lg_runs l)"
    using assms k by (auto simp: update_run_def Let_def split: option.split_asm)
  show "lg_events l' = lg_events l" "lg_authenticated l' = lg_authenticated l"
    using assms by (auto simp: update_run_def Let_def set_run_def split: option.split_asm if_split_asm)
qed

lemma find_run_None: "find_run l r = None \<longleftrightarrow> r \<notin> set (map rw_run_id (lg_runs l))"
  by (auto simp: find_run_def find_None_iff)

lemma ledger_step_ok:
  "ledger_ok l \<Longrightarrow> ledger_step l op = Inr l' \<Longrightarrow> ledger_ok l' \<and> extends l l'"
proof (induction l op rule: ledger_step.induct)
  case (1 l r d t)
  then show ?case
    by (auto simp: create_run_def Let_def ledger_ok_def extends_def find_run_None split: if_split_asm)
next
  case (2 l r st res)
  then have u: "update_run id l r st res = Inr l'" by simp
  show ?case
    using 2(1) update_run_keys [OF u] run_key_id [OF update_run_keys(2) [OF u]]
    by (simp add: ledger_ok_def extends_def)
next
  case (3 l e)
  then have "ev_event_id e \<notin> set (map ev_event_id (lg_events l))"
    by (force simp: append_event_def list_ex_iff split: if_split_asm)
  with 3 show ?case
    by (auto simp: append_event_def ledger_ok_def extends_def split: if_split_asm)
qed (auto simp: ledger_ok_def extends_def initialize_def subscribe_def unsubscribe_def)

lemma ledger_steps_ok:
  "ledger_ok l \<Longrightarrow> fold_res ledger_step l ops = Inr l' \<Longrightarrow> ledger_ok l' \<and> extends l l'"
proof (induction ops arbitrary: l)
  case (Cons op ops)
  then obtain m where m: "ledger_step l op = Inr m" "fold_res ledger_step m ops = Inr l'" by auto
  have "ledger_ok m \<and> extends l m" using ledger_step_ok [OF Cons.prems(1) m(1)] .
  then show ?case using Cons.IH [OF _ m(2)] extends_trans by blast
qed simp

text \<open>
  The ledger is append-only. Whatever sequence of operations runs, the events already stored
  stay, in their order, in front of the new ones; a run keeps its identifier, submission time and
  request document; event and run identifiers stay unique.
\<close>

theorem ledger_history:
  assumes "ledger_ok l" and "fold_res ledger_step l ops = Inr l'"
  shows "ledger_ok l' \<and> (\<exists>es. all_events l' = all_events l @ es) \<and>
    (\<exists>rs. map run_key (lg_runs l') = map run_key (lg_runs l) @ rs)"
  using ledger_steps_ok [OF assms] by (auto simp: extends_def all_events_def)

theorem ledger_history_witness:
  "\<exists>l'. fold_res ledger_step EventLedger [OpCreate 1 [(''target'', VStr ''http://h/'')] 0, OpUpdate 1 RUNNING None] = Inr l' \<and>
     ledger_ok l' \<and> lg_runs l' \<noteq> []"
proof -
  have ok: "ledger_ok EventLedger" by (simp add: ledger_ok_def EventLedger_def)
  obtain l' where l': "fold_res ledger_step EventLedger
      [OpCreate 1 [(''target'', VStr ''http://h/'')] 0, OpUpdate 1 RUNNING None] = Inr l'" "lg_runs l' \<noteq> []"
    by (simp add: create_run_def update_run_def find_run_def EventLedger_def Let_def set_run_def)
  moreover have "ledger_ok l'" using ledger_history [OF ok l'(1)] by blast
  ultimately show ?thesis by blast
qed

subsection \<open>Redaction\<close>

text \<open>Two documents that agree but for the values under redacted keys.\<close>

fun same_public :: "string \<Rightarrow> pyval \<Rightarrow> pyval \<Rightarrow> bool" where
  "same_public key (VDict kvs) (VDict kvs') =
     (redacted_key key \<or> list_all2 (\<lambda>(k, v) (k', v'). k = k' \<and> same_public k v v') kvs kvs')"
| "same_public key (VList vs) (VList vs') = (redacted_key key \<or> list_all2 (same_public key) vs vs')"
| "same_public key (VTuple vs) (VTuple vs') = (redacted_key key \<or> list_all2 (same_public key) vs vs')"
| "same_public key v v' = (redacted_key key \<or> v = v')"

lemma sanitize_payload_redacted: "redacted_key key \<Longrightarrow> sanitize_payload key auth v = VStr ''[REDACTED]''"
  by (cases v) auto

lemma list_all2_map_eq:
  "list_all2 P xs ys \<Longrightarrow> (\<And>x y. x \<in> set xs \<Longrightarrow> y \<in> set ys \<Longrightarrow> P x y \<Longrightarrow> f x = f y) \<Longrightarrow> map f xs = map f ys"
  by (auto simp: list_all2_conv_all_nth intro!: nth_equalityI)

lemma sanitize_payload_same_public:
  "same_public key v v' \<Longrightarrow> sanitize_payload key auth v = sanitize_payload key auth v'"
proof (induction key v v' rule: same_public.induct)
  case (1 key kvs kvs')
  show ?case
  proof (cases "redacted_key key")
    case False
    then have "list_all2 (\<lambda>(k, v) (k', v'). k = k' \<and> same_public k v v') kvs kvs'" using 1 by simp
    then have "map (\<lambda>(k, v). (k, sanitize_payload k auth v)) kvs = map (\<lambda>(k, v). (k, sanitize_payload k auth v)) kvs'"
      by (rule list_all2_map_eq) (use 1(1) False in auto)
    then show ?thesis by simp
  qed (simp add: sanitize_payload_redacted)
next
  case (2 key vs vs')
  then show ?case
    by (cases "redacted_key key") (auto simp: sanitize_payload_redacted intro: list_all2_map_eq)
next
  case (3 key vs vs')
  then show ?case
    by (cases "redacted_key key") (auto simp: sanitize_payload_redacted intro: list_all2_map_eq)
qed (auto simp: sanitize_payload_redacted)

text \<open>
  Two operations that differ only in values under redacted keys: of the request of a new run, of the
  result stored for a run, of the payload of an event. Whether a request has an authentication
  reference at all is not secret: the ledger uses it to decide how the URLs of the run are stored.
\<close>

fun same_op :: "ledger_op \<Rightarrow> ledger_op \<Rightarrow> bool" where
  "same_op (OpCreate r d t) (OpCreate r' d' t') \<longleftrightarrow> r = r' \<and> t = t' \<and> same_public [] (VDict d) (VDict d') \<and>
     (authenticated_document d \<longleftrightarrow> authenticated_document d')"
| "same_op (OpUpdate r s (Some res)) (OpUpdate r' s' (Some res')) \<longleftrightarrow> r = r' \<and> s = s' \<and> same_public [] res res'"
| "same_op (OpAppend e) (OpAppend e') \<longleftrightarrow> same_public [] (VDict (ev_payload e)) (VDict (ev_payload e')) \<and>
     e\<lparr>ev_payload := []\<rparr> = e'\<lparr>ev_payload := []\<rparr>"
| "same_op x y \<longleftrightarrow> x = y"

lemma create_run_same:
  assumes "same_public [] (VDict d) (VDict d')" "authenticated_document d \<longleftrightarrow> authenticated_document d'"
  shows "create_run l r d t = create_run l r d' t"
  unfolding create_run_def Let_def assms(2) sanitize_payload_same_public [OF assms(1)] by (rule refl)

lemma update_run_same: "same_public [] (dump res) (dump' res') \<Longrightarrow> update_run dump l r s (Some res) = update_run dump' l r s (Some res')"
  unfolding update_run_def option.case by (simp only: sanitize_payload_same_public)

lemma append_event_same:
  assumes "same_public [] (VDict (ev_payload e)) (VDict (ev_payload e'))" "e\<lparr>ev_payload := []\<rparr> = e'\<lparr>ev_payload := []\<rparr>"
  shows "append_event l e = append_event l e'"
proof -
  obtain d where e': "e' = e\<lparr>ev_payload := d\<rparr>" using assms(2) by (cases e; cases e') auto
  have "same_public [] (VDict (ev_payload e)) (VDict d)" using assms(1) by (simp add: e')
  note s = sanitize_payload_same_public [OF this]
  show ?thesis
    unfolding append_event_def stored_event_def published_event_def e' by (simp add: s del: sanitize_payload.simps)
qed

lemma ledger_step_same: "same_op x y \<Longrightarrow> ledger_step l x = ledger_step l y"
  by (induction x y rule: same_op.induct) (auto intro: create_run_same update_run_same append_event_same simp del: same_public.simps)

text \<open>
  C11: secrets do not reach the ledger. Two histories of operations that differ only in values
  under redacted keys (credentials, tokens, cookies, passwords, bodies, at any depth), in requests,
  results and event payloads, leave the same ledger, subscribers included. The one thing a redacted
  value decides is whether it is there: the presence of an authentication reference in the request
  of a run, which has to be the same in both histories.
\<close>

theorem ledger_noninterference:
  assumes "list_all2 same_op ops ops'"
  shows "fold_res ledger_step l ops = fold_res ledger_step l ops'"
  using assms
proof (induction ops ops' arbitrary: l rule: list_all2_induct)
  case (Cons x xs y ys)
  then show ?case using ledger_step_same [OF Cons(1), of l] by (cases "ledger_step l y") simp_all
qed simp

definition secret_history :: "string \<Rightarrow> ledger_op list" where
  "secret_history secret =
     [OpCreate 2 [(''target'', VStr ''http://h/''), (''authentication_ref'', VStr secret)] 0,
      OpAppend \<lparr>ev_event_id = 1, ev_run_id = 2, ev_event_type = ''t'', ev_timestamp = 0, ev_actor = ''a'',
        ev_payload = [(''headers'', VDict [(''X-Api-Key'', VStr secret), (''n'', VInt 1)])], ev_parent_event_ids = []\<rparr>,
      OpUpdate 2 FINISHED (Some (VDict [(''token'', VStr secret), (''status'', VStr ''SUCCEEDED'')]))]"

theorem ledger_noninterference_witness:
  "\<exists>l. fold_res ledger_step EventLedger (secret_history ''s1'') = Inr l \<and> fold_res ledger_step EventLedger (secret_history ''s2'') = Inr l \<and>
     length (lg_events l) = 1"
proof -
  have "list_all2 same_op (secret_history ''s1'') (secret_history ''s2'')" by code_simp
  then have "fold_res ledger_step EventLedger (secret_history ''s1'') = fold_res ledger_step EventLedger (secret_history ''s2'')"
    by (rule ledger_noninterference)
  moreover have "case fold_res ledger_step EventLedger (secret_history ''s1'') of Inl _ \<Rightarrow> False | Inr l \<Rightarrow> length (lg_events l) = 1" by code_simp
  ultimately show ?thesis by (auto split: sum.splits)
qed

subsection \<open>Streams\<close>

lemma map_of_publish:
  "map_of (lg_subscribers (publish r i l)) q =
     map_option (\<lambda>(r', items). (r', if r' = r then items @ [i] else items)) (map_of (lg_subscribers l) q)"
proof -
  have "map_of (map (\<lambda>(q, r', items). (q, r', if r' = r then items @ [i] else items)) xs) q =
     map_option (\<lambda>(r', items). (r', if r' = r then items @ [i] else items)) (map_of xs q)" for xs
    by (induction xs) auto
  then show ?thesis by (simp add: publish_def)
qed

lemma publish_events_upd: "publish r i (l\<lparr>lg_events := es\<rparr>) = (publish r i l)\<lparr>lg_events := es\<rparr>"
  by (simp add: publish_def)

text \<open>After a sequence of appends, a queue of the run holds what was appended to the run.\<close>

lemma append_events_queue:
  assumes "append_events l es = Inr l'" and "map_of (lg_subscribers l) q = Some (r, items)"
  shows "map_of (lg_subscribers l') q =
    Some (r, items @ map (\<lambda>e. Some (published_event l e)) (filter (\<lambda>e. ev_run_id e = r) es))"
  using assms
proof (induction es arbitrary: l items)
  case (Cons e es)
  then obtain m where m: "append_event l e = Inr m" "append_events m es = Inr l'"
    by (auto simp: append_events_def)
  have pe: "published_event m = published_event l"
    using m(1) by (auto simp: append_event_def published_event_def split: if_split_asm)
  have "lg_subscribers m = lg_subscribers (publish (ev_run_id e) (Some (published_event l e)) l)"
    using m(1) by (auto simp: append_event_def publish_events_upd split: if_split_asm)
  then have "map_of (lg_subscribers m) q = Some (r, if ev_run_id e = r then items @ [Some (published_event l e)] else items)"
    using Cons.prems(2) by (auto simp: map_of_publish)
  from Cons.IH [OF m(2) this] show ?case by (auto simp: pe)
qed (simp add: append_events_def)

lemma append_events_log:
  assumes "append_events l es = Inr l'"
  shows "events l' r = events l r @ map (stored_event l) (filter (\<lambda>e. ev_run_id e = r) es)"
proof -
  have "all_events l' = all_events l @ map (stored_event l) es"
    using ledger_log.append_all_log assms by (simp add: append_events_def)
  then show ?thesis by (simp add: events_def all_events_def filter_map comp_def)
qed

lemma append_events_ok:
  assumes "append_events l es = Inr l'" and "ledger_ok l"
  shows "ledger_ok l'"
proof -
  have "fold_res ledger_step l (map OpAppend es) = Inr l'"
    using assms(1) by (induction es arbitrary: l) (auto simp: append_events_def)
  then show ?thesis using ledger_steps_ok [OF assms(2)] by blast
qed

lemma drain_append:
  "None \<notin> set a \<Longrightarrow> drain seen (a @ None # b) = drain seen a"
  by (induction seen a rule: drain.induct) auto

lemma drain_fresh:
  "distinct (map ev_event_id es) \<Longrightarrow>
   map ev_event_id (drain seen (map Some es)) = filter (\<lambda>i. i \<notin> seen) (map ev_event_id es)"
proof (induction es arbitrary: seen)
  case (Cons e es)
  have "filter (\<lambda>i. i \<notin> insert (ev_event_id e) seen) (map ev_event_id es) = filter (\<lambda>i. i \<notin> seen) (map ev_event_id es)"
    using Cons.prems by (intro filter_cong) (auto simp: image_iff)
  then show ?case using Cons by simp
qed simp

text \<open>
  C12: a stream yields every event of its run exactly once and in order. The stream registers its
  queue first, events may be appended before it reads the stored ones (\<open>es1\<close>, which it then sees
  twice) and after (\<open>es2\<close>), to this and to other runs, until the run is finished: what it yields
  has the identifiers of the run's events in the ledger.
\<close>

theorem stream_exactly_once:
  assumes "ledger_ok l" and "map_of (lg_subscribers l) q = None"
    and "append_events (subscribe l q r) es1 = Inr l2" and "append_events l2 es2 = Inr l3"
    and "update_run dump l3 r FINISHED result = Inr l4"
  shows "map ev_event_id (stream_yields (events l2 r) (queue_items l4 q)) = map ev_event_id (events l4 r)"
proof -
  have sub: "ledger_ok (subscribe l q r)" "map_of (lg_subscribers (subscribe l q r)) q = Some (r, [])"
    using assms(1,2) by (simp_all add: ledger_ok_def subscribe_def map_add_Some_iff)
  define mine :: "provenance_event list \<Rightarrow> provenance_event list"
    where "mine es = filter (\<lambda>e. ev_run_id e = r) es" for es
  have fold: "append_events (subscribe l q r) (es1 @ es2) = Inr l3"
    using assms(3,4) by (simp add: append_events_def fold_res_append)
  have ok3: "ledger_ok l3" by (rule append_events_ok [OF fold sub(1)])
  have q3: "map_of (lg_subscribers l3) q =
      Some (r, map (\<lambda>e. Some (published_event (subscribe l q r) e)) (mine es1 @ mine es2))"
    using append_events_queue [OF fold sub(2)] by (simp add: mine_def)
  have "lg_subscribers l4 = lg_subscribers (publish r None l3)"
    using assms(5) by (auto simp: update_run_def Let_def set_run_def publish_def split: option.split_asm)
  then have q4: "queue_items l4 q =
      map Some (map (published_event (subscribe l q r)) (mine es1 @ mine es2)) @ [None]"
    using q3 by (simp add: queue_items_def map_of_publish)
  have e2: "map ev_event_id (events l2 r) = map ev_event_id (events l r @ mine es1)"
    using append_events_log [OF assms(3), of r] by (simp add: mine_def events_def subscribe_def)
  have e3: "map ev_event_id (events l3 r) = map ev_event_id (events l r @ mine es1 @ mine es2)"
    using append_events_log [OF fold, of r] by (simp add: mine_def events_def subscribe_def)
  have e4: "events l4 r = events l3 r" using update_run_keys(1) [OF assms(5)] by (simp add: events_def)
  have "distinct (map ev_event_id (events l3 r))"
    using ok3 by (simp add: ledger_ok_def events_def distinct_map_filter)
  then have d: "distinct (map ev_event_id (events l r @ mine es1 @ mine es2))" by (simp add: e3)
  have "map ev_event_id (drain (ev_event_id ` set (events l2 r)) (queue_items l4 q)) =
      filter (\<lambda>i. i \<notin> set (map ev_event_id (events l2 r))) (map ev_event_id (mine es1 @ mine es2))"
    using d drain_fresh [of "map (published_event (subscribe l q r)) (mine es1 @ mine es2)"]
    unfolding q4 by (subst drain_append) (auto simp: comp_def)
  also have "\<dots> = map ev_event_id (mine es2)"
    using d unfolding e2 by (auto simp: filter_empty_conv filter_id_conv)
  finally show ?thesis by (simp add: stream_yields_def e2 e3 e4)
qed


definition sample_event :: "uuid \<Rightarrow> uuid \<Rightarrow> provenance_event" where
  "sample_event i r = \<lparr>ev_event_id = i, ev_run_id = r, ev_event_type = ''attempt.started'', ev_timestamp = 0,
     ev_actor = ''http'', ev_payload = [(''capability_id'', VStr ''http_get'')], ev_parent_event_ids = []\<rparr>"

definition sample_ledger :: event_ledger where
  "sample_ledger = EventLedger\<lparr>lg_events := [sample_event 1 7],
     lg_runs := [\<lparr>rw_run_id = 7, rw_state = RUNNING, rw_submitted_at = 0, rw_request = VDict [], rw_result = None\<rparr>]\<rparr>"

theorem stream_exactly_once_witness:
  "\<exists>l2 l3 l4. append_events (subscribe sample_ledger 5 7) [sample_event 2 7, sample_event 3 8] = Inr l2 \<and>
     append_events l2 [sample_event 4 7] = Inr l3 \<and>
     update_run (\<lambda>u. VNone) l3 7 FINISHED (None :: unit option) = Inr l4 \<and>
     map ev_event_id (stream_yields (events l2 7) (queue_items l4 5)) = map ev_event_id (events l4 7)"
proof -
  have ok: "ledger_ok sample_ledger" "map_of (lg_subscribers sample_ledger) 5 = None"
    by (simp_all add: ledger_ok_def sample_ledger_def EventLedger_def)
  obtain l2 where l2: "append_events (subscribe sample_ledger 5 7) [sample_event 2 7, sample_event 3 8] = Inr l2"
    by (simp add: append_events_def append_event_def subscribe_def sample_ledger_def EventLedger_def sample_event_def)
  obtain l3 where l3: "append_events (subscribe sample_ledger 5 7) [sample_event 2 7, sample_event 3 8, sample_event 4 7] = Inr l3"
    "find_run l3 7 \<noteq> None"
    by (simp add: append_events_def append_event_def subscribe_def sample_ledger_def EventLedger_def sample_event_def find_run_def)
  have l23: "append_events l2 [sample_event 4 7] = Inr l3"
    using l2 l3(1) by (auto simp: append_events_def)
  obtain l4 where l4: "update_run (\<lambda>u. VNone) l3 7 FINISHED (None :: unit option) = Inr l4"
    using l3(2) by (auto simp: update_run_def)
  show ?thesis using stream_exactly_once [OF ok l2 l23 l4] l2 l23 l4 by blast
qed

subsection \<open>Recovered runs\<close>

text \<open>
  After a restart every stored run counts as authenticated. The redaction replaces the value
  of \<open>authentication_ref\<close> also when it is \<open>None\<close>, and \<^verbatim>\<open>initialize\<close> takes any value
  but \<open>None\<close> for a credential reference: an anonymous run is not marked as authenticated when it
  is created, and is when the ledger is opened again.
\<close>

theorem initialize_marks_anonymous_runs:
  "(case create_run EventLedger 7 [(''authentication_ref'', VNone), (''target'', VStr ''http://h/'')] 0 of
     Inr l \<Rightarrow> 7 \<notin> lg_authenticated l \<and> 7 \<in> lg_authenticated (initialize (close_ledger l))
   | Inl _ \<Rightarrow> False)"
  by code_simp

subsection \<open>The artifact projection\<close>

lemma collect_artifacts_spec:
  "collect_artifacts found as = Inr found' \<Longrightarrow> (\<forall>a\<in>set as. map_of found' (ar_artifact_id a) = Some a) \<and>
     (\<forall>i a. map_of found i = Some a \<longrightarrow> map_of found' i = Some a) \<and>
     (\<forall>i a. map_of found' i = Some a \<longrightarrow> map_of found i = Some a \<or> (a \<in> set as \<and> ar_artifact_id a = i))"
proof (induction found as arbitrary: found' rule: collect_artifacts.induct)
  case (2 found a as)
  define found2 where "found2 = assoc_set (ar_artifact_id a) a found"
  have same: "map_of found (ar_artifact_id a) = None \<or> map_of found (ar_artifact_id a) = Some a"
    and rest: "collect_artifacts found2 as = Inr found'"
    using 2(3) by (auto simp: found2_def split: option.split_asm if_split_asm)
  have m: "map_of found2 = (map_of found)(ar_artifact_id a \<mapsto> a)" by (simp add: found2_def map_of_assoc_set)
  have ih: "(\<forall>a\<in>set as. map_of found' (ar_artifact_id a) = Some a) \<and>
     (\<forall>i a. map_of found2 i = Some a \<longrightarrow> map_of found' i = Some a) \<and>
     (\<forall>i a. map_of found' i = Some a \<longrightarrow> map_of found2 i = Some a \<or> (a \<in> set as \<and> ar_artifact_id a = i))"
    using 2(1,2) rest same found2_def by (cases "map_of found (ar_artifact_id a)") auto
  show ?case
  proof (intro conjI allI impI ballI)
    fix b assume "b \<in> set (a # as)"
    then show "map_of found' (ar_artifact_id b) = Some b" using ih m by auto
  next
    fix i b assume "map_of found i = Some b"
    then have "map_of found2 i = Some b" using same m by auto
    then show "map_of found' i = Some b" using ih by blast
  next
    fix i b assume "map_of found' i = Some b"
    then have "map_of found2 i = Some b \<or> (b \<in> set as \<and> ar_artifact_id b = i)" using ih by blast
    then show "map_of found i = Some b \<or> (b \<in> set (a # as) \<and> ar_artifact_id b = i)"
      using m by (auto split: if_split_asm)
  qed
qed simp

lemma collect_results_spec:
  "collect_results load found docs = Inr found' \<Longrightarrow>
   (\<forall>doc\<in>set docs. \<exists>res. load doc = Inr res \<and> (\<forall>a\<in>set (fr_artifacts res). map_of found' (ar_artifact_id a) = Some a)) \<and>
   (\<forall>i a. map_of found i = Some a \<longrightarrow> map_of found' i = Some a) \<and>
   (\<forall>i a. map_of found' i = Some a \<longrightarrow> map_of found i = Some a \<or>
      (ar_artifact_id a = i \<and> (\<exists>doc\<in>set docs. \<exists>res. load doc = Inr res \<and> a \<in> set (fr_artifacts res))))"
proof (induction load found docs arbitrary: found' rule: collect_results.induct)
  case (2 load found doc docs)
  then obtain res found1 where r: "load doc = Inr res" "collect_artifacts found (fr_artifacts res) = Inr found1"
    "collect_results load found1 docs = Inr found'" by auto
  note one = collect_artifacts_spec [OF r(2)] and rest = 2(1) [OF r]
  show ?case
  proof (intro conjI allI impI ballI)
    fix d assume "d \<in> set (doc # docs)"
    then show "\<exists>res. load d = Inr res \<and> (\<forall>a\<in>set (fr_artifacts res). map_of found' (ar_artifact_id a) = Some a)"
      using one rest r(1) by auto
  next
    fix i a assume "map_of found i = Some a"
    then show "map_of found' i = Some a" using one rest by blast
  next
    fix i a assume "map_of found' i = Some a"
    then show "map_of found i = Some a \<or> ar_artifact_id a = i \<and>
        (\<exists>d\<in>set (doc # docs). \<exists>res. load d = Inr res \<and> a \<in> set (fr_artifacts res))"
    proof -
      consider "map_of found1 i = Some a"
        | "ar_artifact_id a = i" "\<exists>d\<in>set docs. \<exists>res. load d = Inr res \<and> a \<in> set (fr_artifacts res)"
        using rest \<open>map_of found' i = Some a\<close> by blast
      then show ?thesis using one r(1) by cases auto
    qed
  qed
qed simp


lemma collect_artifacts_distinct:
  "collect_artifacts found as = Inr found' \<Longrightarrow> distinct (map fst found) \<Longrightarrow> distinct (map fst found')"
proof (induction found as arbitrary: found' rule: collect_artifacts.induct)
  case (2 found a as)
  then show ?case by (cases "map_of found (ar_artifact_id a)") (auto simp: distinct_assoc_set split: if_split_asm)
qed simp

lemma collect_results_distinct:
  "collect_results load found docs = Inr found' \<Longrightarrow> distinct (map fst found) \<Longrightarrow> distinct (map fst found')"
  by (induction load found docs arbitrary: found' rule: collect_results.induct)
    (auto dest: collect_artifacts_distinct)

text \<open>
  The artifact projection rebuilt from the ledger lists exactly the artifacts of the stored
  results, each once and under a unique identifier. (When two results disagree about an
  artifact, it raises instead.)
\<close>

theorem artifact_projection:
  assumes "artifacts load l = Inr as"
  shows "distinct (map ar_artifact_id as) \<and>
    set as = {a. \<exists>row doc res. row \<in> set (lg_runs l) \<and> rw_result row = Some doc \<and> load doc = Inr res \<and>
      a \<in> set (fr_artifacts res)}"
proof -
  define docs where "docs = List.map_filter rw_result (lg_runs l)"
  obtain found where f: "collect_results load [] docs = Inr found" and as: "as = map snd found"
    using assms by (auto simp: artifacts_def docs_def)
  have d: "distinct (map fst found)" using collect_results_distinct [OF f] by simp
  then have in_found: "(i, a) \<in> set found \<longleftrightarrow> map_of found i = Some a" for i a by simp
  note spec = collect_results_spec [OF f]
  have key: "ar_artifact_id a = i" if "(i, a) \<in> set found" for i a
    using that spec unfolding in_found by auto
  then have "map ar_artifact_id as = map fst found" by (auto simp: as)
  moreover have docs: "doc \<in> set docs \<longleftrightarrow> (\<exists>row\<in>set (lg_runs l). rw_result row = Some doc)" for doc
    by (auto simp: docs_def map_filter_def) force
  have "a \<in> set as \<longleftrightarrow> (\<exists>doc\<in>set docs. \<exists>res. load doc = Inr res \<and> a \<in> set (fr_artifacts res))" for a
  proof
    assume "a \<in> set as"
    then obtain i where "(i, a) \<in> set found" by (auto simp: as)
    then show "\<exists>doc\<in>set docs. \<exists>res. load doc = Inr res \<and> a \<in> set (fr_artifacts res)"
      using spec unfolding in_found by auto
  next
    assume "\<exists>doc\<in>set docs. \<exists>res. load doc = Inr res \<and> a \<in> set (fr_artifacts res)"
    then have "map_of found (ar_artifact_id a) = Some a" using spec by auto
    then show "a \<in> set as" unfolding as by (metis in_found image_eqI set_map snd_conv)
  qed
  then have "set as = {a. \<exists>row doc res. row \<in> set (lg_runs l) \<and> rw_result row = Some doc \<and> load doc = Inr res \<and>
      a \<in> set (fr_artifacts res)}"
    using docs by blast
  ultimately show ?thesis using d by simp
qed

definition sample_artifact :: artifact where
  "sample_artifact = \<lparr>ar_artifact_id = 3, ar_role = ''source'', ar_representation = ''raw'', ar_media_type = ''text/html'',
     ar_schema_version = ''1.0'', ar_cas_uri = ''cas://sha256/00'', ar_sha256 = ''00'', ar_size = 1, ar_source_resource_id = 2,
     ar_parent_artifact_ids = [], ar_extractor_version = ''x'', ar_locators = [], ar_quality = default_quality\<rparr>"

definition finished_ledger :: event_ledger where
  "finished_ledger = EventLedger\<lparr>lg_runs := [\<lparr>rw_run_id = 7, rw_state = FINISHED, rw_submitted_at = 0,
     rw_request = VDict [], rw_result = Some (VDict [])\<rparr>]\<rparr>"

theorem artifact_projection_witness:
  "\<exists>as. artifacts (\<lambda>doc. Inr ((empty_result 7 RS_SUCCEEDED)\<lparr>fr_artifacts := [sample_artifact, sample_artifact]\<rparr>))
     finished_ledger = Inr as \<and> set as = {sample_artifact} \<and> distinct (map ar_artifact_id as)"
proof -
  define load :: "pyval \<Rightarrow> fetch_result res"
    where "load = (\<lambda>doc. Inr ((empty_result 7 RS_SUCCEEDED)\<lparr>fr_artifacts := [sample_artifact, sample_artifact]\<rparr>))"
  have "\<exists>as. artifacts load finished_ledger = Inr as"
    by (simp add: artifacts_def finished_ledger_def EventLedger_def map_filter_simps load_def empty_result_def)
  then obtain as where a: "artifacts load finished_ledger = Inr as" by blast
  have "set as = {sample_artifact} \<and> distinct (map ar_artifact_id as)"
    using artifact_projection [OF a] by (auto simp: finished_ledger_def load_def empty_result_def)
  with a show ?thesis unfolding load_def by blast
qed

end
