(* ===== verification/Context.thy ===== *)
theory Context
  imports Models
begin

section \<open>Adapters and the execution context: adapters/base.py\<close>

text \<open>
  The mutable context an adapter works on, as a record whose operations return the updated
  record, and the exceptions of the adapter protocol. The content-addressed store the context
  carries is shared by every adapter and left out of the record.
\<close>

subsection \<open>Exceptions\<close>

text \<open>
  The class of an exception is the most specific class the executor distinguishes:
  \<^verbatim>\<open>AdapterBudgetExceededError\<close>, \<^verbatim>\<open>AdapterNotFoundError\<close>, \<^verbatim>\<open>AdapterAuthRequiredError\<close> and
  its subclass \<^verbatim>\<open>AdapterAuthExpiredError\<close> are subclasses of \<^verbatim>\<open>AdapterExecutionError\<close>;
  \<open>ExcValue\<close> is \<^verbatim>\<open>ValueError\<close> with its subclasses, \<open>ExcOther\<close> any exception the executor
  does not handle. A link describes one exception of the \<^verbatim>\<open>__cause__\<close> chain (the exception
  itself first): what \<^verbatim>\<open>isinstance\<close>, the response status and the type name say of it.
\<close>

datatype exc_class =
    ExcBudgetExceeded | ExcBudgetExhausted | ExcPolicyBlocked | ExcDependency | ExcAuthExpired
  | ExcAuthRequired | ExcNotFound | ExcExecution | ExcTimeout | ExcCancelled | ExcValue | ExcOther

record exc_link =
  lk_is_timeout :: bool
  lk_is_connection :: bool
  lk_status_code :: "nat option"
  lk_type_name :: string

record py_exc =
  ex_class :: exc_class
  ex_type_name :: string
  ex_message :: string
  ex_code :: "string option"
  ex_decisions :: "policy_decision list"
  ex_links :: "exc_link list"

definition is_adapter_execution_error :: "exc_class \<Rightarrow> bool" where
  "is_adapter_execution_error c \<longleftrightarrow>
     c \<in> {ExcExecution, ExcBudgetExceeded, ExcNotFound, ExcAuthRequired, ExcAuthExpired}"

definition simple_exc :: "exc_class \<Rightarrow> string \<Rightarrow> string \<Rightarrow> py_exc" where
  "simple_exc c name message = \<lparr>ex_class = c, ex_type_name = name, ex_message = message,
     ex_code = None, ex_decisions = [],
     ex_links = [\<lparr>lk_is_timeout = False, lk_is_connection = False, lk_status_code = None, lk_type_name = name\<rparr>]\<rparr>"

definition adapter_error :: "string \<Rightarrow> py_exc" where
  "adapter_error message = simple_exc ExcExecution ''AdapterExecutionError'' message"

text \<open>\<^verbatim>\<open>raise e from cause\<close>.\<close>

definition caused_by :: "py_exc \<Rightarrow> py_exc \<Rightarrow> py_exc" where
  "caused_by e cause = e\<lparr>ex_links := ex_links e @ ex_links cause\<rparr>"

text \<open>Sequencing of operations on a state that may raise: the state stays as it was left.\<close>

definition bind_run :: "(py_exc + 'a) \<times> 's \<Rightarrow> ('a \<Rightarrow> 's \<Rightarrow> (py_exc + 'b) \<times> 's) \<Rightarrow> (py_exc + 'b) \<times> 's" where
  "bind_run m f = (case m of (Inl e, s) \<Rightarrow> (Inl e, s) | (Inr x, s) \<Rightarrow> f x s)"

lemma bind_run_simps [simp]: "bind_run (Inl e, s) f = (Inl e, s)" "bind_run (Inr x, s) f = f x s"
  by (simp_all add: bind_run_def)

lemma bind_run_Inr: "bind_run m f = (Inr y, s') \<longleftrightarrow> (\<exists>x s. m = (Inr x, s) \<and> f x s = (Inr y, s'))"
  by (cases m; cases "fst m") (auto simp: bind_run_def)

subsection \<open>The context\<close>

record execution_context =
  xc_run_id :: uuid
  xc_request :: fetch_request
  xc_resources :: "resource list"
  xc_artifacts :: "artifact list"
  xc_attempts :: "fetch_attempt list"
  xc_capability_outcomes :: "capability_outcome list"
  xc_policy_decisions :: "policy_decision list"
  xc_diagnostics :: "diagnostic list"
  xc_accepted :: bool
  xc_crawl_report :: "crawl_report option"
  xc_sensitive_state :: "(string \<times> string) list"
  xc_pending_events :: "(string \<times> string \<times> document) list"

definition ExecutionContext :: "uuid \<Rightarrow> fetch_request \<Rightarrow> execution_context" where
  "ExecutionContext r request = \<lparr>xc_run_id = r, xc_request = request, xc_resources = [],
     xc_artifacts = [], xc_attempts = [], xc_capability_outcomes = [], xc_policy_decisions = [],
     xc_diagnostics = [], xc_accepted = False, xc_crawl_report = None, xc_sensitive_state = [],
     xc_pending_events = []\<rparr>"

definition latest_artifact :: "execution_context \<Rightarrow> string list \<Rightarrow> artifact option" where
  "latest_artifact ctx allowed =
     List.find (\<lambda>a. allowed = [] \<or> ar_representation a \<in> set allowed) (rev (xc_artifacts ctx))"

definition consumption :: "string \<Rightarrow> fetch_attempt \<Rightarrow> rat" where
  "consumption name a = (case map_of (at_consumed_budget a) name of Some x \<Rightarrow> x | None \<Rightarrow> 0)"

definition consumed_budget :: "execution_context \<Rightarrow> string \<Rightarrow> rat" where
  "consumed_budget ctx name = sum_list (map (consumption name) (xc_attempts ctx))"

definition remaining_budget :: "execution_context \<Rightarrow> string \<Rightarrow> rat res" where
  "remaining_budget ctx name =
     (case budget_field (rq_budget (xc_request ctx)) name of
        None \<Rightarrow> Inl (ValueError (''unknown numeric budget field: '' @ name))
      | Some limit \<Rightarrow> Inr (max 0 (limit - consumed_budget ctx name)))"

definition value_exc :: "py_error \<Rightarrow> py_exc" where
  "value_exc e = (case e of
     ValueError m \<Rightarrow> simple_exc ExcValue ''ValueError'' m
   | KeyError m \<Rightarrow> simple_exc ExcOther ''KeyError'' m
   | PyIndexError m \<Rightarrow> simple_exc ExcOther ''IndexError'' m
   | PyRuntimeError m \<Rightarrow> simple_exc ExcOther ''RuntimeError'' m
   | PyTypeError m \<Rightarrow> simple_exc ExcOther ''TypeError'' m)"

definition lift_exc :: "'a res \<Rightarrow> py_exc + 'a" where
  "lift_exc m = (case m of Inl e \<Rightarrow> Inl (value_exc e) | Inr x \<Rightarrow> Inr x)"

lemma lift_exc_Inr [simp]: "lift_exc m = Inr x \<longleftrightarrow> m = Inr x"
  by (cases m) (auto simp: lift_exc_def)

definition require_budget :: "execution_context \<Rightarrow> string \<Rightarrow> rat \<Rightarrow> py_exc + unit" where
  "require_budget ctx name amount =
     (if amount < 0 then Inl (value_exc (ValueError ''budget consumption cannot be negative''))
      else (case remaining_budget ctx name of
          Inl e \<Rightarrow> Inl (value_exc e)
        | Inr left \<Rightarrow>
            if left < amount
            then Inl (simple_exc ExcBudgetExceeded ''AdapterBudgetExceededError'' (name @ '' budget exhausted''))
            else Inr ()))"

fun add_consumption ::
  "resource_budget \<Rightarrow> (string \<times> rat) list \<Rightarrow> (string \<times> rat) list \<Rightarrow> (string \<times> rat) list res" where
  "add_consumption budget updated [] = Inr updated"
| "add_consumption budget updated ((name, amount) # rest) =
     (if budget_field budget name = None then Inl (ValueError (''unknown numeric budget field: '' @ name))
      else if amount < 0 then Inl (ValueError ''budget consumption cannot be negative'')
      else add_consumption budget
        (assoc_set name ((case map_of updated name of Some x \<Rightarrow> x | None \<Rightarrow> 0) + amount) updated) rest)"

definition record_attempt_consumption ::
  "execution_context \<Rightarrow> int \<Rightarrow> (string \<times> rat) list \<Rightarrow> execution_context res" where
  "record_attempt_consumption ctx i consumed =
     (if \<not> (0 \<le> i \<and> i < int (length (xc_attempts ctx)))
      then Inl (PyIndexError ''attempt index is outside the execution context'')
      else let attempt = xc_attempts ctx ! nat i in
        bind_res (add_consumption (rq_budget (xc_request ctx)) (at_consumed_budget attempt) consumed) (\<lambda>updated.
          Inr (ctx\<lparr>xc_attempts := (xc_attempts ctx)[nat i := attempt\<lparr>at_consumed_budget := updated\<rparr>]\<rparr>)))"

definition record_outcome ::
  "execution_context \<Rightarrow> string \<Rightarrow> capability_outcome_status \<Rightarrow> string \<Rightarrow> document \<Rightarrow> execution_context" where
  "record_outcome ctx capability_id status stage details =
     ctx\<lparr>xc_capability_outcomes := xc_capability_outcomes ctx @
       [\<lparr>co_capability_id = capability_id, co_status = status, co_stage = stage, co_details = details\<rparr>]\<rparr>"

definition DETECTORS :: "(string \<times> page_state) list" where
  "DETECTORS = [(''paywall_detection'', PS_PAYWALL), (''captcha_detection'', PS_CAPTCHA),
     (''bot_block_detection'', PS_BOT_BLOCK), (''login_wall_detection'', PS_LOGIN),
     (''empty_page_detection'', PS_EMPTY), (''error_page_detection'', PS_ERROR),
     (''wrong_language_detection'', PS_WRONG_LANGUAGE)]"

definition record_quality_outcomes :: "execution_context \<Rightarrow> quality_assessment \<Rightarrow> string \<Rightarrow> execution_context" where
  "record_quality_outcomes ctx quality stage =
     (let ctx1 = fold (\<lambda>(capability_id, page_state) c. record_outcome c capability_id
            (if qa_page_state quality = page_state then CO_OBSERVED else CO_NOT_APPLICABLE) stage
            [(''page_state'', VStr (page_state_value (qa_page_state quality)))]) DETECTORS ctx;
          ctx2 = record_outcome ctx1 ''duplicate_detection''
            (if qa_duplicate_of quality \<noteq> None then CO_OBSERVED else CO_NOT_APPLICABLE) stage
            [(''duplicate_of'', case qa_duplicate_of quality of Some u \<Rightarrow> VStr (nat_to_str u) | None \<Rightarrow> VNone)]
      in record_outcome ctx2 ''content_quality_validation'' CO_APPLIED stage
           [(''accepted'', VBool (qa_accepted quality)),
            (''page_state'', VStr (page_state_value (qa_page_state quality))),
            (''score'', VFloat (qa_score quality))])"

definition record_runtime_event :: "execution_context \<Rightarrow> string \<Rightarrow> string \<Rightarrow> document \<Rightarrow> execution_context" where
  "record_runtime_event ctx event_type actor payload =
     ctx\<lparr>xc_pending_events := xc_pending_events ctx @ [(event_type, actor, payload)]\<rparr>"

lemma record_outcome_sel [simp]:
  "xc_request (record_outcome c i s t d) = xc_request c" "xc_attempts (record_outcome c i s t d) = xc_attempts c"
  by (simp_all add: record_outcome_def)

lemma record_runtime_event_sel [simp]:
  "xc_request (record_runtime_event c i s t) = xc_request c" "xc_attempts (record_runtime_event c i s t) = xc_attempts c"
  by (simp_all add: record_runtime_event_def)

lemma record_quality_outcomes_sel [simp]:
  "xc_request (record_quality_outcomes c q s) = xc_request c" "xc_attempts (record_quality_outcomes c q s) = xc_attempts c"
  by (simp_all add: record_quality_outcomes_def DETECTORS_def Let_def)

subsection \<open>Budget accounting\<close>

lemma add_consumption_sum:
  "add_consumption budget updated cs = Inr new \<Longrightarrow>
   (case map_of new name of Some x \<Rightarrow> x | None \<Rightarrow> 0) =
     (case map_of updated name of Some x \<Rightarrow> x | None \<Rightarrow> 0) + sum_list (map snd (filter (\<lambda>(n, _). n = name) cs))"
  by (induction budget updated cs rule: add_consumption.induct)
    (auto simp: map_of_assoc_set split: if_split_asm)

lemma add_consumption_nonneg:
  "add_consumption budget updated cs = Inr new \<Longrightarrow> \<forall>(n, a)\<in>set cs. 0 \<le> a"
  by (induction budget updated cs rule: add_consumption.induct) (auto split: if_split_asm)

lemma sum_list_update_rat:
  fixes f :: "'a \<Rightarrow> rat"
  shows "i < length xs \<Longrightarrow> sum_list (map f (xs[i := x])) = sum_list (map f xs) + f x - f (xs ! i)"
proof (induction xs arbitrary: i)
  case (Cons y ys)
  then show ?case by (cases i) auto
qed simp

text \<open>
  Recording consumption is exact accounting. When an attempt's consumption is recorded, the
  run's total for every budget field grows by exactly the recorded amounts, none of which is
  negative, and the attempts keep their number.
\<close>

theorem record_attempt_consumption_exact:
  assumes "record_attempt_consumption ctx i consumed = Inr ctx'"
  shows "consumed_budget ctx' name =
      consumed_budget ctx name + sum_list (map snd (filter (\<lambda>(n, _). n = name) consumed)) \<and>
    (\<forall>(n, a)\<in>set consumed. 0 \<le> a) \<and> length (xc_attempts ctx') = length (xc_attempts ctx)"
proof -
  define a where "a = xc_attempts ctx ! nat i"
  from assms obtain updated where i: "0 \<le> i" "nat i < length (xc_attempts ctx)"
    and u: "add_consumption (rq_budget (xc_request ctx)) (at_consumed_budget a) consumed = Inr updated"
    and c: "ctx' = ctx\<lparr>xc_attempts := (xc_attempts ctx)[nat i := a\<lparr>at_consumed_budget := updated\<rparr>]\<rparr>"
    by (auto simp: record_attempt_consumption_def Let_def a_def nat_less_iff split: if_split_asm)
  have "consumption name (a\<lparr>at_consumed_budget := updated\<rparr>) =
      consumption name a + sum_list (map snd (filter (\<lambda>(n, _). n = name) consumed))"
    using add_consumption_sum [OF u] by (simp add: consumption_def)
  then show ?thesis
    using add_consumption_nonneg [OF u] i
    by (simp add: c consumed_budget_def sum_list_update_rat a_def)
qed

definition sample_attempt :: fetch_attempt where
  "sample_attempt = \<lparr>at_attempt_id = 1, at_capability_id = ''http_get'', at_adapter_version = ''0.3.0a0'',
     at_started_at = 0, at_finished_at = None, at_sanitized_destination = ''http://h/'',
     at_status = AT_RUNNING, at_http_status = None, at_bytes_received = 0, at_parser = None,
     at_artifact_ids = [], at_failure_code = None, at_warnings = [], at_consumed_budget = [(''bytes'', 5)]\<rparr>"

definition sample_context :: execution_context where
  "sample_context = (ExecutionContext 1 (default_request ''http://h/''))\<lparr>xc_attempts := [sample_attempt]\<rparr>"

theorem record_attempt_consumption_exact_witness:
  "\<exists>ctx. record_attempt_consumption sample_context 0 [(''bytes'', 7), (''redirects'', 1)] = Inr ctx \<and>
     consumed_budget ctx ''bytes'' = 12"
proof -
  obtain ctx where c: "record_attempt_consumption sample_context 0 [(''bytes'', 7), (''redirects'', 1)] = Inr ctx"
    by (simp add: record_attempt_consumption_def sample_context_def ExecutionContext_def sample_attempt_def budget_field_def)
  have "consumed_budget sample_context ''bytes'' = 5"
    by (simp add: consumed_budget_def consumption_def sample_context_def sample_attempt_def)
  then show ?thesis
    using record_attempt_consumption_exact [OF c, of "''bytes''"] c by simp
qed

text \<open>The budget a run has left is never negative and never above its limit.\<close>

lemma remaining_budget_bounds:
  assumes "remaining_budget ctx name = Inr left" and "0 \<le> consumed_budget ctx name"
    and "budget_field (rq_budget (xc_request ctx)) name = Some limit" and "0 \<le> limit"
  shows "0 \<le> left \<and> left \<le> limit"
  using assms by (auto simp: remaining_budget_def)

end
