(* ===== verification/Executor.thy ===== *)
theory Executor
  imports Planning Ledger Context
begin

section \<open>The executor: executor.py\<close>

text \<open>
  The execution of a plan. Adapters are the parameter \<open>adapters\<close> of the definitions: a partial
  map from names to functions that take the node, the context and the environment (the clock and
  the supply of fresh identifiers) and return the updated context and environment and the
  exception they raised, if any. An adapter that the surrounding \<^verbatim>\<open>asyncio.timeout\<close> interrupts
  ends with \<^const>\<open>ExcTimeout\<close>, one that is cancelled with \<^const>\<open>ExcCancelled\<close>.

  State is explicit: the executor's own state is the environment and the ledger, a computation
  returns an exception or a value, and the state it left. The context is passed along. Exceptions
  the executor does not handle leave every function with the state at that point.
\<close>

subsection \<open>State, exceptions and events\<close>

record env =
  en_clock :: time
  en_next_id :: uuid

record exec_state =
  es_env :: env
  es_ledger :: event_ledger

type_synonym 'a exec = "(py_exc + 'a) \<times> exec_state"
type_synonym adapter = "plan_node \<Rightarrow> execution_context \<Rightarrow> env \<Rightarrow> execution_context \<times> env \<times> py_exc option"
type_synonym adapter_table = "string \<Rightarrow> adapter option"

definition bind_exec :: "'a exec \<Rightarrow> ('a \<Rightarrow> exec_state \<Rightarrow> 'b exec) \<Rightarrow> 'b exec" where
  "bind_exec m f = (case m of (Inl e, st) \<Rightarrow> (Inl e, st) | (Inr x, st) \<Rightarrow> f x st)"

lemma bind_exec_simps [simp]:
  "bind_exec (Inl e, st) f = (Inl e, st)" "bind_exec (Inr x, st) f = f x st"
  by (simp_all add: bind_exec_def)

definition ProvenanceEvent ::
  "env \<Rightarrow> uuid \<Rightarrow> string \<Rightarrow> string \<Rightarrow> document \<Rightarrow> uuid list \<Rightarrow> provenance_event" where
  "ProvenanceEvent en r event_type actor payload parents =
     \<lparr>ev_event_id = en_next_id en, ev_run_id = r, ev_event_type = event_type, ev_timestamp = en_clock en,
      ev_actor = actor, ev_payload = payload, ev_parent_event_ids = parents\<rparr>"

definition emit ::
  "uuid \<Rightarrow> string \<Rightarrow> string \<Rightarrow> document \<Rightarrow> uuid list \<Rightarrow> exec_state \<Rightarrow> provenance_event exec" where
  "emit r event_type actor payload parents st =
     (let event = ProvenanceEvent (es_env st) r event_type actor payload parents;
          st' = st\<lparr>es_env := (es_env st)\<lparr>en_next_id := en_next_id (es_env st) + 1\<rparr>\<rparr>
      in case append_event (es_ledger st') event of
           Inl e \<Rightarrow> (Inl (value_exc e), st')
         | Inr l \<Rightarrow> (Inr event, st'\<lparr>es_ledger := l\<rparr>))"

subsection \<open>Results of a node\<close>

record node_execution =
  ne_completed :: bool
  ne_dependency_missing :: bool
  ne_policy_blocked :: bool
  ne_budget_exhausted :: bool
  ne_auth_required :: bool
  ne_not_found :: bool
  ne_failed :: bool
  ne_stop :: bool

definition NodeExecution :: node_execution where
  "NodeExecution = \<lparr>ne_completed = False, ne_dependency_missing = False, ne_policy_blocked = False,
     ne_budget_exhausted = False, ne_auth_required = False, ne_not_found = False, ne_failed = False,
     ne_stop = False\<rparr>"

record context_lengths =
  cl_resources :: nat
  cl_artifacts :: nat
  cl_attempts :: nat
  cl_capability_outcomes :: nat
  cl_policy_decisions :: nat
  cl_diagnostics :: nat
  cl_pending_events :: nat
  cl_accepted :: bool

definition capture :: "execution_context \<Rightarrow> context_lengths" where
  "capture ctx = \<lparr>cl_resources = length (xc_resources ctx), cl_artifacts = length (xc_artifacts ctx),
     cl_attempts = length (xc_attempts ctx),
     cl_capability_outcomes = length (xc_capability_outcomes ctx),
     cl_policy_decisions = length (xc_policy_decisions ctx),
     cl_diagnostics = length (xc_diagnostics ctx),
     cl_pending_events = length (xc_pending_events ctx), cl_accepted = xc_accepted ctx\<rparr>"

subsection \<open>Approval\<close>

definition approved :: "fetch_request \<Rightarrow> string \<Rightarrow> bool" where
  "approved request capability_id \<longleftrightarrow>
     capability_id \<in> rq_approved_capabilities request \<or>
     py_casefold (case map_of (rq_metadata request) (capability_id @ ''_approved'') of
        Some v \<Rightarrow> v | None \<Rightarrow> []) = ''true''"

definition policy_exc_of :: "string \<Rightarrow> policy_decision list \<Rightarrow> py_exc" where
  "policy_exc_of reason decisions =
     (simple_exc ExcPolicyBlocked ''PolicyBlockedError'' reason)\<lparr>ex_decisions := decisions\<rparr>"

definition enforce_approval :: "fetch_plan \<Rightarrow> plan_node \<Rightarrow> py_exc + unit" where
  "enforce_approval p node =
     (if \<not> pn_requires_approval node then Inr ()
      else if approved (fp_request p) (pn_capability_id node) then Inr ()
      else let reason = pn_capability_id node @ '' requires explicit approval'' in
        (case sanitize_url False (rq_target (fp_request p)) of
           Inl e \<Rightarrow> Inl (value_exc e)
         | Inr destination \<Rightarrow>
             Inl (policy_exc_of reason
               [PolicyDecision ''capability_approval'' False reason (Some destination)])))"

subsection \<open>Retries\<close>

text \<open>\<^verbatim>\<open>re.search(r"(?<!\d)([45]\d{2})(?!\d)", message)\<close>: the first match, with the character in front.\<close>

fun search_status :: "bool \<Rightarrow> string \<Rightarrow> string option" where
  "search_status after_digit [] = None"
| "search_status after_digit (c # cs) =
     (if \<not> after_digit \<and> (c = CHR ''4'' \<or> c = CHR ''5'') \<and> 2 \<le> length cs \<and>
         is_digit (cs ! 0) \<and> is_digit (cs ! 1) \<and> (length cs = 2 \<or> \<not> is_digit (cs ! 2))
      then Some (c # take 2 cs)
      else search_status (is_digit c) cs)"

fun chain_code :: "exc_link list \<Rightarrow> string option" where
  "chain_code [] = None"
| "chain_code (l # ls) =
     (if lk_is_timeout l then Some ''timeout''
      else if lk_is_connection l then Some ''connection''
      else (case lk_status_code l of
          Some code \<Rightarrow> Some (nat_to_str code)
        | None \<Rightarrow>
            let type_name = py_casefold (lk_type_name l) in
            if py_contains ''timeout'' type_name then Some ''timeout''
            else if py_contains ''connect'' type_name \<or> py_contains ''network'' type_name
            then Some ''connection''
            else chain_code ls))"

definition adapter_retry_code :: "py_exc \<Rightarrow> string option" where
  "adapter_retry_code e =
     (case (case ex_code e of Some c \<Rightarrow> if py_strip c \<noteq> [] then Some (py_casefold c) else None | None \<Rightarrow> None) of
        Some c \<Rightarrow> Some c
      | None \<Rightarrow>
          (case chain_code (ex_links e) of
             Some c \<Rightarrow> Some c
           | None \<Rightarrow>
               let message = py_casefold (ex_message e) in
               if py_contains ''timeout'' message \<or> py_contains ''timed out'' message then Some ''timeout''
               else if py_contains ''connection'' message \<or> py_contains ''connect failed'' message
               then Some ''connection''
               else search_status False message))"

definition retry_code_allowed :: "string \<Rightarrow> string list \<Rightarrow> bool" where
  "retry_code_allowed code allowed =
     (let normalized = py_casefold code in
      if normalized \<in> set allowed then True
      else normalized \<noteq> [] \<and> list_all is_digit normalized \<and> py_startswith normalized ''5'' \<and>
           ''5xx'' \<in> set allowed)"

text \<open>
  The retry loop, with the number of retries that are left. \<^verbatim>\<open>asyncio.sleep\<close> moves the clock.
\<close>

fun with_retries ::
  "adapter \<Rightarrow> plan_node \<Rightarrow> retry_rule \<Rightarrow> nat \<Rightarrow> execution_context \<Rightarrow> env
     \<Rightarrow> execution_context \<times> env \<times> py_exc option" where
  "with_retries operation node retry left ctx en =
     (if b_attempts (rq_budget (xc_request ctx)) \<le> int (length (xc_attempts ctx))
      then (ctx, en, Some (simple_exc ExcBudgetExhausted ''BudgetExhaustedError'' ''attempt budget exhausted''))
      else (case operation node ctx en of
          (ctx', en', None) \<Rightarrow> (ctx', en', None)
        | (ctx', en', Some e) \<Rightarrow>
            if ex_class e \<noteq> ExcExecution then (ctx', en', Some e)
            else (case adapter_retry_code e of
                None \<Rightarrow> (ctx', en', Some e)
              | Some code \<Rightarrow>
                  if left = 0 \<or> \<not> retry_code_allowed code (map py_casefold (rr_retryable_codes retry))
                  then (ctx', en', Some e)
                  else with_retries operation node retry (left - 1) ctx'
                    (if 0 < rr_backoff_seconds retry
                     then en'\<lparr>en_clock := en_clock en' + rr_backoff_seconds retry\<rparr> else en'))))"

declare with_retries.simps [simp del]

subsection \<open>Attempts and outcomes\<close>

definition details :: "(string \<times> string) list \<Rightarrow> document" where
  "details = map (\<lambda>(k, v). (k, VStr v))"

definition ensure_outcome ::
  "execution_context \<Rightarrow> plan_node \<Rightarrow> nat \<Rightarrow> capability_outcome_status \<Rightarrow> document \<Rightarrow> execution_context" where
  "ensure_outcome ctx node outcome_count status ds =
     (if list_ex (\<lambda>o'. co_capability_id o' = pn_capability_id node) (drop outcome_count (xc_capability_outcomes ctx))
      then ctx
      else record_outcome ctx (pn_capability_id node) status (pn_adapter node) ds)"

definition update_last :: "(fetch_attempt \<Rightarrow> fetch_attempt) \<Rightarrow> execution_context \<Rightarrow> execution_context" where
  "update_last f ctx = ctx\<lparr>xc_attempts := butlast (xc_attempts ctx) @ [f (last (xc_attempts ctx))]\<rparr>"

definition mark_running :: "attempt_status \<Rightarrow> time \<Rightarrow> string \<Rightarrow> execution_context \<Rightarrow> execution_context" where
  "mark_running status now failure_code ctx =
     (if xc_attempts ctx = [] \<or> at_status (last (xc_attempts ctx)) \<noteq> AT_RUNNING then ctx
      else update_last (\<lambda>a. a\<lparr>at_status := status, at_finished_at := Some now,
             at_failure_code := Some failure_code\<rparr>) ctx)"

definition mark_running_attempt_failed :: "time \<Rightarrow> string \<Rightarrow> execution_context \<Rightarrow> execution_context" where
  "mark_running_attempt_failed = mark_running AT_FAILED"

definition mark_running_attempt_cancelled :: "time \<Rightarrow> string \<Rightarrow> execution_context \<Rightarrow> execution_context" where
  "mark_running_attempt_cancelled = mark_running AT_CANCELLED"

definition failed_attempt :: "env \<Rightarrow> plan_node \<Rightarrow> string \<Rightarrow> fetch_attempt" where
  "failed_attempt en node destination =
     \<lparr>at_attempt_id = en_next_id en, at_capability_id = pn_capability_id node,
      at_adapter_version = ''0.3.0a0'', at_started_at = en_clock en, at_finished_at = Some (en_clock en),
      at_sanitized_destination = destination, at_status = AT_FAILED, at_http_status = None,
      at_bytes_received = 0, at_parser = None, at_artifact_ids = [],
      at_failure_code = Some ''budget_exhausted'', at_warnings = [], at_consumed_budget = []\<rparr>"

definition ensure_deadline_attempt_failed ::
  "plan_node \<Rightarrow> nat \<Rightarrow> execution_context \<Rightarrow> env \<Rightarrow> (py_exc + execution_context) \<times> env" where
  "ensure_deadline_attempt_failed node attempt_count ctx en =
     (if length (xc_attempts ctx) = attempt_count
      then (case sanitize_url_for_request (rq_target (xc_request ctx)) (xc_request ctx) of
          Inl e \<Rightarrow> (Inl (value_exc e), en)
        | Inr destination \<Rightarrow>
            (Inr (ctx\<lparr>xc_attempts := xc_attempts ctx @ [failed_attempt en node destination]\<rparr>),
             en\<lparr>en_next_id := en_next_id en + 1\<rparr>))
      else if xc_attempts ctx = [] then (Inl (value_exc (PyIndexError ''list index out of range'')), en)
      else if at_status (last (xc_attempts ctx)) \<notin> {AT_CANCELLED, AT_PLANNED, AT_RUNNING} then (Inr ctx, en)
      else (Inr (update_last (\<lambda>a. a\<lparr>at_status := AT_FAILED, at_finished_at := Some (en_clock en),
              at_failure_code := Some ''budget_exhausted''\<rparr>) ctx), en))"

definition add_diagnostic :: "string \<Rightarrow> string \<Rightarrow> execution_context \<Rightarrow> execution_context" where
  "add_diagnostic code message ctx = ctx\<lparr>xc_diagnostics := xc_diagnostics ctx @ [Diagnostic code message]\<rparr>"

subsection \<open>Executing a node\<close>

text \<open>The body of the \<^verbatim>\<open>try\<close> statement.\<close>

definition run_body ::
  "fetch_plan \<Rightarrow> plan_node \<Rightarrow> adapter \<Rightarrow> time \<Rightarrow> nat \<Rightarrow> execution_context \<Rightarrow> env
     \<Rightarrow> execution_context \<times> env \<times> py_exc option" where
  "run_body p node adapter started attempt_count ctx en =
     (case enforce_approval p node of
        Inl e \<Rightarrow> (ctx, en, Some e)
      | Inr _ \<Rightarrow>
          if b_deadline_seconds (rq_budget (fp_request p)) - (en_clock en - started) \<le> 0
          then (case ensure_deadline_attempt_failed node attempt_count ctx en of
              (Inl e, en') \<Rightarrow> (ctx, en', Some e)
            | (Inr ctx', en') \<Rightarrow>
                (ctx', en', Some (simple_exc ExcBudgetExhausted ''BudgetExhaustedError'' ''run deadline budget exhausted'')))
          else with_retries adapter node (pn_retry node) (rr_maximum (pn_retry node)) ctx en)"

text \<open>
  What an \<^verbatim>\<open>except\<close> clause does before it emits its event: the context, the type and payload of
  the event, and the node's result, or the exception that is raised again.
\<close>

record handler =
  hd_context :: execution_context
  hd_event_type :: string
  hd_payload :: document
  hd_result :: "py_exc + node_execution"

definition handle_with ::
  "plan_node \<Rightarrow> nat \<Rightarrow> execution_context \<Rightarrow> string \<Rightarrow> string \<Rightarrow> capability_outcome_status \<Rightarrow> string \<Rightarrow>
     (string \<times> string) list \<Rightarrow> node_execution \<Rightarrow> handler" where
  "handle_with node outcome_count ctx code message status event_type payload result =
     \<lparr>hd_context = ensure_outcome (add_diagnostic code message ctx) node outcome_count status
        (details [(''reason'', message)]),
      hd_event_type = event_type,
      hd_payload = details ((''capability_id'', pn_capability_id node) # payload),
      hd_result = Inr result\<rparr>"

definition cancellation_reason :: "execution_context \<Rightarrow> string" where
  "cancellation_reason ctx =
     (case map_of (xc_sensitive_state ctx) ''_parallel_cancellation_reason'' of
        Some r \<Rightarrow> r | None \<Rightarrow> ''execution_cancelled'')"

definition pop_cancellation_reason :: "execution_context \<Rightarrow> execution_context" where
  "pop_cancellation_reason ctx = ctx\<lparr>xc_sensitive_state :=
     filter (\<lambda>(k, _). k \<noteq> ''_parallel_cancellation_reason'') (xc_sensitive_state ctx)\<rparr>"

definition AUTH_EXPIRED_MESSAGE :: string where
  "AUTH_EXPIRED_MESSAGE = ''credential material is expired or was rejected as expired''"

definition AUTH_REQUIRED_MESSAGE :: string where
  "AUTH_REQUIRED_MESSAGE = ''authentication is required or the supplied material was rejected''"

definition handle_timeout ::
  "plan_node \<Rightarrow> nat \<Rightarrow> execution_context \<Rightarrow> handler" where
  "handle_timeout node outcome_count ctx =
     (handle_with node outcome_count ctx ''budget_exhausted'' (pn_id node @ '' exhausted the deadline budget'')
        CO_FAILED ''attempt.budget_exhausted'' [(''code'', ''budget_exhausted'')]
        (NodeExecution\<lparr>ne_budget_exhausted := True, ne_stop := True\<rparr>))
     \<lparr>hd_context := ensure_outcome
        (add_diagnostic ''budget_exhausted'' (pn_id node @ '' exhausted the deadline budget'') ctx)
        node outcome_count CO_FAILED (details [(''reason'', ''deadline budget exhausted'')])\<rparr>"

definition handle_cancelled :: "plan_node \<Rightarrow> nat \<Rightarrow> py_exc \<Rightarrow> execution_context \<Rightarrow> time \<Rightarrow> handler" where
  "handle_cancelled node outcome_count e ctx now =
     (let reason = cancellation_reason ctx in
      \<lparr>hd_context = ensure_outcome
         (mark_running_attempt_cancelled now reason (pop_cancellation_reason ctx)) node outcome_count
         CO_NOT_APPLICABLE (details [(''reason'', reason)]),
       hd_event_type = ''attempt.cancelled'',
       hd_payload = details [(''capability_id'', pn_capability_id node)], hd_result = Inl e\<rparr>)"

definition handle_exception ::
  "plan_node \<Rightarrow> nat \<Rightarrow> nat \<Rightarrow> py_exc \<Rightarrow> execution_context \<Rightarrow> env \<Rightarrow> (py_exc + handler option) \<times> env" where
  "handle_exception node attempt_count outcome_count e ctx en =
     (let now = en_clock en;
          failed = (\<lambda>code. mark_running_attempt_failed now code ctx);
          on = handle_with node outcome_count
      in case ex_class e of
        ExcBudgetExceeded \<Rightarrow> (Inr (Some (on (failed ''budget_exhausted'') ''budget_exhausted'' (ex_message e) CO_FAILED
          ''attempt.budget_exhausted'' [] (NodeExecution\<lparr>ne_budget_exhausted := True, ne_stop := True\<rparr>))), en)
      | ExcBudgetExhausted \<Rightarrow> (Inr (Some (on (failed ''budget_exhausted'') ''budget_exhausted'' (ex_message e) CO_FAILED
          ''attempt.budget_exhausted'' [] (NodeExecution\<lparr>ne_budget_exhausted := True, ne_stop := True\<rparr>))), en)
      | ExcPolicyBlocked \<Rightarrow> (Inr (Some (on ((failed ''policy'')\<lparr>xc_policy_decisions :=
            xc_policy_decisions (failed ''policy'') @ ex_decisions e\<rparr>) ''policy_blocked'' (ex_message e) CO_BLOCKED
          ''attempt.blocked'' [] (NodeExecution\<lparr>ne_policy_blocked := True, ne_stop := True\<rparr>))), en)
      | ExcDependency \<Rightarrow> (Inr (Some (on (failed ''dependency_missing'') ''dependency_missing'' (ex_message e)
          CO_DEPENDENCY_MISSING ''attempt.unavailable'' [] (NodeExecution\<lparr>ne_dependency_missing := True\<rparr>))), en)
      | ExcAuthExpired \<Rightarrow> (Inr (Some (on (failed ''auth_expired'') ''auth_expired'' AUTH_EXPIRED_MESSAGE CO_FAILED
          ''attempt.auth_expired'' [] (NodeExecution\<lparr>ne_auth_required := True, ne_stop := True\<rparr>))), en)
      | ExcAuthRequired \<Rightarrow> (Inr (Some (on (failed ''auth_required'') ''auth_required'' AUTH_REQUIRED_MESSAGE CO_FAILED
          ''attempt.auth_required'' [] (NodeExecution\<lparr>ne_auth_required := True, ne_stop := True\<rparr>))), en)
      | ExcNotFound \<Rightarrow> (Inr (Some (on (failed ''not_found'') ''not_found'' (ex_message e) CO_FAILED
          ''attempt.not_found'' [] (NodeExecution\<lparr>ne_not_found := True, ne_stop := True\<rparr>))), en)
      | ExcTimeout \<Rightarrow> (case ensure_deadline_attempt_failed node attempt_count ctx en of
            (Inl e', en') \<Rightarrow> (Inl e', en')
          | (Inr ctx', en') \<Rightarrow> (Inr (Some (handle_timeout node outcome_count ctx')), en'))
      | ExcCancelled \<Rightarrow> (Inr (Some (handle_cancelled node outcome_count e ctx now)), en)
      | ExcExecution \<Rightarrow> (Inr (Some (on (failed (ex_type_name e)) ''adapter_failed'' (ex_message e) CO_FAILED
          ''attempt.failed'' [(''code'', ex_type_name e)] (NodeExecution\<lparr>ne_failed := True\<rparr>))), en)
      | ExcValue \<Rightarrow> (Inr (Some (on (failed (ex_type_name e)) ''adapter_failed'' (ex_message e) CO_FAILED
          ''attempt.failed'' [(''code'', ex_type_name e)] (NodeExecution\<lparr>ne_failed := True\<rparr>))), en)
      | ExcOther \<Rightarrow> (Inr None, en))"

fun flush_pending_events ::
  "uuid \<Rightarrow> uuid \<Rightarrow> (string \<times> string \<times> document) list \<Rightarrow> exec_state \<Rightarrow> unit exec" where
  "flush_pending_events r parent [] st = (Inr (), st)"
| "flush_pending_events r parent ((event_type, actor, payload) # rest) st =
     bind_exec (emit r event_type actor payload [parent] st) (\<lambda>_ st'.
       flush_pending_events r parent rest st')"

definition finish_node ::
  "uuid \<Rightarrow> plan_node \<Rightarrow> nat \<Rightarrow> uuid \<Rightarrow> execution_context \<Rightarrow> exec_state \<Rightarrow> execution_context \<times> node_execution exec" where
  "finish_node r node outcome_count parent ctx st =
     (let ctx' = ensure_outcome ctx node outcome_count CO_APPLIED [];
          payload = details ((''capability_id'', pn_capability_id node) #
            (if xc_artifacts ctx' = [] then []
             else [(''artifact_id'', nat_to_str (ar_artifact_id (last (xc_artifacts ctx'))))]))
      in (ctx', bind_exec (emit r ''attempt.finished'' (pn_adapter node) payload [parent] st)
            (\<lambda>_ st'. (Inr (NodeExecution\<lparr>ne_completed := True\<rparr>), st'))))"

text \<open>
  \<^verbatim>\<open>_execute_node\<close>. The \<^verbatim>\<open>finally\<close> clause writes the events the adapter queued: after the
  event of an \<^verbatim>\<open>except\<close> clause, before the event of a finished attempt.
\<close>

definition execute_node ::
  "adapter_table \<Rightarrow> uuid \<Rightarrow> fetch_plan \<Rightarrow> plan_node \<Rightarrow> uuid \<Rightarrow> time \<Rightarrow> execution_context \<Rightarrow> exec_state
     \<Rightarrow> execution_context \<times> node_execution exec" where
  "execute_node adapters r p node root_event_id started ctx st =
     (case adapters (pn_adapter node) of
        None \<Rightarrow>
          (record_outcome (add_diagnostic ''adapter_missing'' (''no adapter registered for '' @ pn_adapter node) ctx)
             (pn_capability_id node) CO_DEPENDENCY_MISSING (pn_adapter node)
             (details [(''reason'', ''adapter is not registered'')]),
           (Inr (NodeExecution\<lparr>ne_dependency_missing := True\<rparr>), st))
      | Some adapter \<Rightarrow>
          (case emit r ''attempt.started'' (pn_adapter node)
              (details [(''capability_id'', pn_capability_id node)]) [root_event_id] st of
             (Inl e, st1) \<Rightarrow> (ctx, (Inl e, st1))
           | (Inr event, st1) \<Rightarrow>
               (let attempt_count = length (xc_attempts ctx);
                    outcome_count = length (xc_capability_outcomes ctx);
                    runtime_event_count = length (xc_pending_events ctx);
                    parent = ev_event_id event;
                    flush = (\<lambda>c. flush_pending_events r parent (drop runtime_event_count (xc_pending_events c)))
                in case run_body p node adapter started attempt_count ctx (es_env st1) of
                  (ctx2, en2, None) \<Rightarrow>
                    (case flush ctx2 (st1\<lparr>es_env := en2\<rparr>) of
                       (Inl e, st3) \<Rightarrow> (ctx2, (Inl e, st3))
                     | (Inr _, st3) \<Rightarrow> finish_node r node outcome_count parent ctx2 st3)
                | (ctx2, en2, Some e) \<Rightarrow>
                    (case handle_exception node attempt_count outcome_count e ctx2 en2 of
                       (Inl e', en3) \<Rightarrow>
                         (ctx2, bind_exec (flush ctx2 (st1\<lparr>es_env := en3\<rparr>)) (\<lambda>_ st4. (Inl e', st4)))
                     | (Inr None, en3) \<Rightarrow>
                         (ctx2, bind_exec (flush ctx2 (st1\<lparr>es_env := en3\<rparr>)) (\<lambda>_ st4. (Inl e, st4)))
                     | (Inr (Some h), en3) \<Rightarrow>
                         (hd_context h,
                          (case emit r (hd_event_type h) (pn_adapter node) (hd_payload h) [parent]
                                 (st1\<lparr>es_env := en3\<rparr>) of
                             (Inl e', st4) \<Rightarrow> bind_exec (flush (hd_context h) st4) (\<lambda>_ st5. (Inl e', st5))
                           | (Inr _, st4) \<Rightarrow>
                               bind_exec (flush (hd_context h) st4) (\<lambda>_ st5. (hd_result h, st5))))))))"

subsection \<open>Parallel branches: budgets and contexts\<close>

text \<open>\<^verbatim>\<open>int(x)\<close> truncates towards zero.\<close>

definition py_int :: "rat \<Rightarrow> int" where
  "py_int x = (if 0 \<le> x then \<lfloor>x\<rfloor> else \<lceil>x\<rceil>)"

text \<open>One branch's share of what is left: \<^verbatim>\<open>divmod(remaining, count)\<close>, the remainder to the first.\<close>

definition int_share :: "int \<Rightarrow> int \<Rightarrow> nat \<Rightarrow> nat \<Rightarrow> int" where
  "int_share limit consumed count i =
     (let left = max 0 (limit - consumed)
      in consumed + left div int count + (if int i < left mod int count then 1 else 0))"

definition rat_share :: "rat \<Rightarrow> rat \<Rightarrow> nat \<Rightarrow> rat" where
  "rat_share limit consumed count = consumed + max 0 (limit - consumed) / of_nat count"

definition branch_budget :: "execution_context \<Rightarrow> nat \<Rightarrow> nat \<Rightarrow> resource_budget" where
  "branch_budget ctx count i =
     (let b = rq_budget (xc_request ctx);
          used = (\<lambda>name. py_int (consumed_budget ctx name))
      in b\<lparr>b_attempts := int_share (b_attempts b) (int (length (xc_attempts ctx))) count i,
           b_redirects := int_share (b_redirects b) (used ''redirects'') count i,
           b_bytes := int_share (b_bytes b) (used ''bytes'') count i,
           b_decompressed_bytes := int_share (b_decompressed_bytes b) (used ''decompressed_bytes'') count i,
           b_archive_members := int_share (b_archive_members b) (used ''archive_members'') count i,
           b_model_tokens := int_share (b_model_tokens b) (used ''model_tokens'') count i,
           b_browser_seconds := rat_share (b_browser_seconds b) (consumed_budget ctx ''browser_seconds'') count,
           b_monetary_ceiling := rat_share (b_monetary_ceiling b) (consumed_budget ctx ''monetary_ceiling'') count\<rparr>)"

definition partition_parallel_budgets :: "execution_context \<Rightarrow> nat \<Rightarrow> resource_budget list res" where
  "partition_parallel_budgets ctx count =
     (if count = 0 then Inl (ValueError ''parallel execution requires at least one branch'')
      else Inr (map (branch_budget ctx count) [0..<count]))"

definition parallel_contexts :: "execution_context \<Rightarrow> nat \<Rightarrow> execution_context list res" where
  "parallel_contexts ctx count =
     bind_res (partition_parallel_budgets ctx count) (\<lambda>budgets.
       Inr (map (\<lambda>b. ctx\<lparr>xc_request := (xc_request ctx)\<lparr>rq_budget := b\<rparr>\<rparr>) budgets))"

fun assoc_update :: "('k \<times> 'v) list \<Rightarrow> ('k \<times> 'v) list \<Rightarrow> ('k \<times> 'v) list" where
  "assoc_update d [] = d"
| "assoc_update d ((k, v) # kvs) = assoc_update (assoc_set k v d) kvs"

definition merge_parallel_context ::
  "execution_context \<Rightarrow> execution_context \<Rightarrow> context_lengths \<Rightarrow> execution_context" where
  "merge_parallel_context ctx branch baseline =
     ctx\<lparr>xc_resources := xc_resources ctx @ drop (cl_resources baseline) (xc_resources branch),
         xc_artifacts := xc_artifacts ctx @ drop (cl_artifacts baseline) (xc_artifacts branch),
         xc_attempts := xc_attempts ctx @ drop (cl_attempts baseline) (xc_attempts branch),
         xc_capability_outcomes := xc_capability_outcomes ctx @
           drop (cl_capability_outcomes baseline) (xc_capability_outcomes branch),
         xc_policy_decisions := xc_policy_decisions ctx @
           drop (cl_policy_decisions baseline) (xc_policy_decisions branch),
         xc_diagnostics := xc_diagnostics ctx @ drop (cl_diagnostics baseline) (xc_diagnostics branch),
         xc_pending_events := xc_pending_events ctx @ drop (cl_pending_events baseline) (xc_pending_events branch),
         xc_accepted := (xc_accepted ctx \<or> xc_accepted branch),
         xc_crawl_report := (case xc_crawl_report branch of Some c \<Rightarrow> Some c | None \<Rightarrow> xc_crawl_report ctx),
         xc_sensitive_state := assoc_update (xc_sensitive_state ctx) (xc_sensitive_state branch)\<rparr>"

subsection \<open>Parallel batches\<close>

definition has_fallback :: "plan_node \<Rightarrow> bool" where
  "has_fallback node = (case pn_fallback_for node of Some f \<Rightarrow> f \<noteq> [] | None \<Rightarrow> False)"

definition batch_break :: "string option \<Rightarrow> string set \<Rightarrow> bool \<Rightarrow> plan_node \<Rightarrow> bool" where
  "batch_break parallel completed accepted candidate \<longleftrightarrow>
     pn_parallel_group candidate \<noteq> parallel \<or> pn_requires_approval candidate \<or>
     \<not> set (pn_dependencies candidate) \<subseteq> completed \<or>
     (accepted \<and> has_fallback candidate)"

fun grow_batch :: "string option \<Rightarrow> string set \<Rightarrow> bool \<Rightarrow> int \<Rightarrow> plan_node list \<Rightarrow> plan_node list" where
  "grow_batch parallel completed accepted room [] = []"
| "grow_batch parallel completed accepted room (c # cs) =
     (if batch_break parallel completed accepted c then []
      else c # (if room \<le> 1 then [] else grow_batch parallel completed accepted (room - 1) cs))"

text \<open>\<open>nodes\<close> is the plan's node list from the start index on.\<close>

definition parallel_batch :: "plan_node list \<Rightarrow> string set \<Rightarrow> execution_context \<Rightarrow> plan_node list" where
  "parallel_batch nodes completed ctx =
     (let first = hd nodes in
      if pn_parallel_group first = None \<or> pn_requires_approval first then [first]
      else let remaining_attempts = b_attempts (rq_budget (xc_request ctx)) - int (length (xc_attempts ctx)) in
        if remaining_attempts \<le> 1 then [first]
        else let batch = grow_batch (pn_parallel_group first) completed (xc_accepted ctx) remaining_attempts nodes
          in if batch = [] then [first] else batch)"

text \<open>
  The tasks of a batch share nothing but the ledger and the environment. A branch runs as one step
  at the moment its task ends; the order in which tasks end is the \<open>schedule\<close> of the environment:
  \<open>sc_waves\<close> lists the indices \<^verbatim>\<open>asyncio.wait\<close> reports together, and \<open>sc_finished\<close> the tasks
  that end by themselves although they are being cancelled. An interrupted task runs with the
  adapters of \<open>interrupt\<close>, the effects of adapters that are cancelled half-way.
\<close>

record schedule =
  sc_waves :: "nat list list"
  sc_finished :: "nat list"

record branch =
  br_node :: plan_node
  br_context :: execution_context
  br_result :: "(py_exc + node_execution) option"

definition run_branch ::
  "adapter_table \<Rightarrow> uuid \<Rightarrow> fetch_plan \<Rightarrow> uuid \<Rightarrow> time \<Rightarrow> nat \<Rightarrow> branch list \<times> exec_state \<Rightarrow> branch list \<times> exec_state" where
  "run_branch adapters r p root_id started i bs_st =
     (case bs_st of (bs, st) \<Rightarrow>
       (case execute_node adapters r p (br_node (bs ! i)) root_id started (br_context (bs ! i)) st of
          (ctx, res, st') \<Rightarrow> (bs[i := (bs ! i)\<lparr>br_context := ctx, br_result := Some res\<rparr>], st')))"

definition first_exception :: "branch list \<Rightarrow> nat list \<Rightarrow> py_exc option" where
  "first_exception bs is =
     (case List.find (\<lambda>i. case br_result (bs ! i) of Some (Inl _) \<Rightarrow> True | _ \<Rightarrow> False) is of
        Some i \<Rightarrow> (case br_result (bs ! i) of Some (Inl e) \<Rightarrow> Some e | _ \<Rightarrow> None)
      | None \<Rightarrow> None)"

definition accepted_winner :: "context_lengths \<Rightarrow> branch \<Rightarrow> bool" where
  "accepted_winner baseline b =
     (case br_result b of
        Some (Inr res) \<Rightarrow> ne_completed res \<and> pn_stop_on_acceptance (br_node b) \<and>
          \<not> cl_accepted baseline \<and> xc_accepted (br_context b)
      | _ \<Rightarrow> False)"

definition stops :: "branch \<Rightarrow> bool" where
  "stops b = (case br_result b of Some (Inr res) \<Rightarrow> ne_stop res | _ \<Rightarrow> False)"

definition cancel_branch ::
  "adapter_table \<Rightarrow> adapter_table \<Rightarrow> uuid \<Rightarrow> fetch_plan \<Rightarrow> uuid \<Rightarrow> time \<Rightarrow> nat list \<Rightarrow> nat
     \<Rightarrow> branch list \<times> exec_state \<Rightarrow> branch list \<times> exec_state" where
  "cancel_branch adapters interrupt r p root_id started finished i =
     run_branch (if i \<in> set finished then adapters else interrupt) r p root_id started i"

definition set_reason :: "string \<Rightarrow> nat list \<Rightarrow> branch list \<Rightarrow> branch list" where
  "set_reason reason is bs =
     fold (\<lambda>i bs. bs[i := (bs ! i)\<lparr>br_context := (br_context (bs ! i))\<lparr>xc_sensitive_state :=
        assoc_set ''_parallel_cancellation_reason'' reason (xc_sensitive_state (br_context (bs ! i)))\<rparr>\<rparr>]) is bs"

definition settle_loser :: "branch \<Rightarrow> branch" where
  "settle_loser b =
     (case br_result b of
        Some (Inl e) \<Rightarrow> if ex_class e = ExcCancelled
          then b\<lparr>br_result := Some (Inr (NodeExecution\<lparr>ne_completed := True\<rparr>))\<rparr> else b
      | _ \<Rightarrow> b)"

definition next_wave :: "nat list list \<Rightarrow> nat list \<Rightarrow> nat list" where
  "next_wave waves pending =
     (case waves of
        [] \<Rightarrow> [hd pending]
      | w # _ \<Rightarrow> (case remdups (filter (\<lambda>i. i \<in> set pending) w) of [] \<Rightarrow> [hd pending] | w' \<Rightarrow> w'))"

lemma next_wave_hits: "pending \<noteq> [] \<Longrightarrow> \<exists>i\<in>set pending. i \<in> set (next_wave waves pending)"
proof -
  assume "pending \<noteq> []"
  then have "hd pending \<in> set pending" by simp
  moreover have "\<exists>i\<in>set pending. i \<in> set (next_wave (w # ws) pending)" for w ws
  proof (cases "remdups (filter (\<lambda>i. i \<in> set pending) w)")
    case Nil
    then show ?thesis using \<open>pending \<noteq> []\<close> by (simp add: next_wave_def)
  next
    case (Cons i w2)
    then have "i \<in> set (remdups (filter (\<lambda>i. i \<in> set pending) w))" by simp
    then have "i \<in> set pending" by simp
    then show ?thesis using Cons by (auto simp: next_wave_def)
  qed
  ultimately show ?thesis by (cases waves) (auto simp: next_wave_def)
qed

lemma next_wave_progress:
  "pending \<noteq> [] \<Longrightarrow> length (filter (\<lambda>i. i \<notin> set (next_wave waves pending)) pending) < length pending"
  using next_wave_hits [of pending waves] by (auto intro: length_filter_less)

function parallel_loop ::
  "adapter_table \<Rightarrow> adapter_table \<Rightarrow> uuid \<Rightarrow> fetch_plan \<Rightarrow> uuid \<Rightarrow> time \<Rightarrow> context_lengths \<Rightarrow> nat list \<Rightarrow>
     nat list list \<Rightarrow> nat list \<Rightarrow> branch list \<Rightarrow> exec_state \<Rightarrow> branch list exec" where
  "parallel_loop adapters interrupt r p root_id started baseline finished waves pending bs st =
     (if pending = [] then (Inr bs, st)
      else let wave = next_wave waves pending;
               pending' = filter (\<lambda>i. i \<notin> set wave) pending;
               (bs1, st1) = fold (run_branch adapters r p root_id started) wave (bs, st);
               cancel = fold (cancel_branch adapters interrupt r p root_id started finished) pending'
           in case first_exception bs1 wave of
                Some e \<Rightarrow> (Inl e, snd (cancel (bs1, st1)))
              | None \<Rightarrow>
                  (let winner = list_ex (\<lambda>i. accepted_winner baseline (bs1 ! i)) wave in
                   if pending' \<noteq> [] \<and> (winner \<or> list_ex (\<lambda>i. stops (bs1 ! i)) wave)
                   then (let reason = (if winner then ''early_stop'' else ''parallel_sibling_stopped_execution'');
                             (bs2, st2) = cancel (set_reason reason pending' bs1, st1);
                             bs3 = map settle_loser bs2
                         in case first_exception bs3 pending' of
                              Some e \<Rightarrow> (Inl e, st2) | None \<Rightarrow> (Inr bs3, st2))
                   else parallel_loop adapters interrupt r p root_id started baseline finished (tl waves) pending' bs1 st1))"
  by pat_completeness auto

termination
  by (relation "measure (\<lambda>(_, _, _, _, _, _, _, _, _, pending, _). length pending)")
    (auto intro: next_wave_progress)

declare parallel_loop.simps [simp del]

definition branch_outcome :: "branch \<Rightarrow> node_execution" where
  "branch_outcome b = (case br_result b of Some (Inr res) \<Rightarrow> res | _ \<Rightarrow> NodeExecution)"

definition execute_parallel_batch ::
  "adapter_table \<Rightarrow> adapter_table \<Rightarrow> schedule \<Rightarrow> uuid \<Rightarrow> fetch_plan \<Rightarrow> plan_node list \<Rightarrow> execution_context list \<Rightarrow>
     uuid \<Rightarrow> time \<Rightarrow> context_lengths \<Rightarrow> exec_state \<Rightarrow> branch list exec" where
  "execute_parallel_batch adapters interrupt sched r p nodes contexts root_id started baseline st =
     (let bs = map2 (\<lambda>n c. \<lparr>br_node = n, br_context = c, br_result = None\<rparr>) nodes contexts in
      bind_exec (parallel_loop adapters interrupt r p root_id started baseline (sc_finished sched) (sc_waves sched)
          [0..<length bs] bs st) (\<lambda>bs' st'.
        if list_ex (\<lambda>b. br_result b = None) bs'
        then (Inl (value_exc (PyRuntimeError ''parallel execution finished without a branch result'')), st')
        else (Inr bs', st')))"

subsection \<open>The run\<close>

definition or_flags :: "node_execution \<Rightarrow> node_execution \<Rightarrow> node_execution" where
  "or_flags a b = \<lparr>ne_completed = ne_completed a, 
     ne_dependency_missing = (ne_dependency_missing a \<or> ne_dependency_missing b),
     ne_policy_blocked = (ne_policy_blocked a \<or> ne_policy_blocked b),
     ne_budget_exhausted = (ne_budget_exhausted a \<or> ne_budget_exhausted b),
     ne_auth_required = (ne_auth_required a \<or> ne_auth_required b),
     ne_not_found = (ne_not_found a \<or> ne_not_found b),
     ne_failed = (ne_failed a \<or> ne_failed b), ne_stop = ne_stop a\<rparr>"

record run_progress =
  rp_context :: execution_context
  rp_completed :: "string set"
  rp_flags :: node_execution

definition absorb :: "plan_node \<Rightarrow> node_execution \<Rightarrow> run_progress \<Rightarrow> run_progress" where
  "absorb node res pr = pr\<lparr>rp_completed := (if ne_completed res then insert (pn_id node) (rp_completed pr) else rp_completed pr),
     rp_flags := or_flags (rp_flags pr) res\<rparr>"

definition absorb_branch :: "context_lengths \<Rightarrow> branch \<Rightarrow> run_progress \<Rightarrow> run_progress" where
  "absorb_branch baseline b pr =
     absorb (br_node b) (branch_outcome b)
       (pr\<lparr>rp_context := merge_parallel_context (rp_context pr) (br_context b) baseline\<rparr>)"

definition skip_dependencies :: "plan_node \<Rightarrow> run_progress \<Rightarrow> run_progress" where
  "skip_dependencies node pr = pr\<lparr>rp_context := record_outcome
     (add_diagnostic ''dependency_skipped'' (pn_id node @ '' dependencies did not complete'') (rp_context pr))
     (pn_capability_id node) CO_NOT_APPLICABLE (pn_adapter node)
     (details [(''reason'', ''dependencies did not complete'')])\<rparr>"

definition skip_fallback :: "plan_node \<Rightarrow> run_progress \<Rightarrow> run_progress" where
  "skip_fallback node pr = pr\<lparr>rp_context := record_outcome (rp_context pr)
       (pn_capability_id node) CO_NOT_APPLICABLE (pn_adapter node)
       (details [(''reason'', ''accepted artifact made fallback for '' @
          (case pn_fallback_for node of Some f \<Rightarrow> f | None \<Rightarrow> []) @ '' unnecessary'')]),
     rp_completed := insert (pn_id node) (rp_completed pr)\<rparr>"

function run_nodes ::
  "adapter_table \<Rightarrow> adapter_table \<Rightarrow> uuid \<Rightarrow> fetch_plan \<Rightarrow> uuid \<Rightarrow> time \<Rightarrow> schedule list \<Rightarrow> plan_node list \<Rightarrow>
     run_progress \<Rightarrow> exec_state \<Rightarrow> run_progress exec" where
  "run_nodes adapters interrupt r p root_id started scheds [] pr st = (Inr pr, st)"
| "run_nodes adapters interrupt r p root_id started scheds (node # rest) pr st =
     (if \<not> set (pn_dependencies node) \<subseteq> rp_completed pr
      then run_nodes adapters interrupt r p root_id started scheds rest (skip_dependencies node pr) st
      else if xc_accepted (rp_context pr) \<and> has_fallback node
      then run_nodes adapters interrupt r p root_id started scheds rest (skip_fallback node pr) st
      else let batch = parallel_batch (node # rest) (rp_completed pr) (rp_context pr) in
        if 1 < length batch
        then (case parallel_contexts (rp_context pr) (length batch) of
            Inl e \<Rightarrow> (Inl (value_exc e), st)
          | Inr contexts \<Rightarrow>
              bind_exec (execute_parallel_batch adapters interrupt
                  (case scheds of [] \<Rightarrow> \<lparr>sc_waves = [], sc_finished = []\<rparr> | sc # _ \<Rightarrow> sc)
                  r p batch contexts root_id started (capture (rp_context pr)) st) (\<lambda>bs st'.
                let pr' = fold (absorb_branch (capture (rp_context pr))) bs pr in
                if list_ex (\<lambda>b. ne_stop (branch_outcome b)) bs then (Inr pr', st')
                else run_nodes adapters interrupt r p root_id started (tl scheds)
                       (drop (length batch) (node # rest)) pr' st'))
        else (case execute_node adapters r p node root_id started (rp_context pr) st of
            (ctx, Inl e, st') \<Rightarrow> (Inl e, st')
          | (ctx, Inr res, st') \<Rightarrow>
              (let pr' = absorb node res (pr\<lparr>rp_context := ctx\<rparr>) in
               if ne_stop res then (Inr pr', st')
               else run_nodes adapters interrupt r p root_id started scheds rest pr' st')))"
  by pat_completeness auto
termination
  by (relation "measure (\<lambda>(_, _, _, _, _, _, _, ns, _, _). length ns)") auto

declare run_nodes.simps(2) [simp del]

definition run_status :: "execution_context \<Rightarrow> node_execution \<Rightarrow> result_status" where
  "run_status ctx f =
     (if xc_accepted ctx
      then (if ne_failed f \<or> ne_dependency_missing f \<or> ne_budget_exhausted f \<or> ne_auth_required f \<or>
              ne_policy_blocked f \<or> ne_not_found f then RS_PARTIAL else RS_SUCCEEDED)
      else if ne_policy_blocked f then RS_BLOCKED_BY_POLICY
      else if ne_auth_required f then RS_AUTH_REQUIRED
      else if ne_not_found f then RS_NOT_FOUND
      else if ne_budget_exhausted f then RS_BUDGET_EXHAUSTED
      else if xc_artifacts ctx \<noteq> []
      then (if ne_failed f \<or> ne_dependency_missing f then RS_PARTIAL else RS_LOW_QUALITY)
      else if ne_dependency_missing f then RS_DEPENDENCY_MISSING
      else RS_FAILED)"

definition int_consumed :: "execution_context \<Rightarrow> string \<Rightarrow> int" where
  "int_consumed ctx name = sum_list (map (\<lambda>a. py_int (consumption name a)) (xc_attempts ctx))"

definition run_remaining_budget :: "fetch_plan \<Rightarrow> execution_context \<Rightarrow> time \<Rightarrow> time \<Rightarrow> resource_budget" where
  "run_remaining_budget p ctx started now =
     (let b = rq_budget (fp_request p) in
      b\<lparr>b_deadline_seconds := max (1/1000) (b_deadline_seconds b - (now - started)),
        b_attempts := max 0 (b_attempts b - int (length (xc_attempts ctx))),
        b_redirects := max 0 (b_redirects b - int_consumed ctx ''redirects''),
        b_bytes := max 0 (b_bytes b - int_consumed ctx ''bytes''),
        b_decompressed_bytes := max 0 (b_decompressed_bytes b - int_consumed ctx ''decompressed_bytes''),
        b_archive_members := max 0 (b_archive_members b - int_consumed ctx ''archive_members''),
        b_browser_seconds := max 0 (b_browser_seconds b - consumed_budget ctx ''browser_seconds''),
        b_model_tokens := max 0 (b_model_tokens b - int_consumed ctx ''model_tokens''),
        b_monetary_ceiling := max 0 (b_monetary_ceiling b - consumed_budget ctx ''monetary_ceiling'')\<rparr>)"

text \<open>
  \<^verbatim>\<open>sanitize_output_for_request\<close> applied to the dump of the result: every text field under its
  key. The texts of enumeration members contain no URL and stay as they are.
\<close>

definition san_opt :: "fetch_request \<Rightarrow> string \<Rightarrow> string option \<Rightarrow> string option" where
  "san_opt request key = map_option (sanitize_str request key)"

definition san_doc :: "fetch_request \<Rightarrow> document \<Rightarrow> document" where
  "san_doc request = map (\<lambda>(k, v). (k, sanitize_output_for_request request k v))"

definition sanitize_resource :: "fetch_request \<Rightarrow> resource \<Rightarrow> resource" where
  "sanitize_resource rq x = x\<lparr>
     rs_canonical_url := sanitize_str rq ''canonical_url'' (rs_canonical_url x),
     rs_requested_url := sanitize_str rq ''requested_url'' (rs_requested_url x),
     rs_media_type := san_opt rq ''media_type'' (rs_media_type x),
     rs_authority_url := san_opt rq ''authority_url'' (rs_authority_url x)\<rparr>"

definition sanitize_quality :: "fetch_request \<Rightarrow> quality_assessment \<Rightarrow> quality_assessment" where
  "sanitize_quality rq q = q\<lparr>qa_language := san_opt rq ''language'' (qa_language q),
     qa_reasons := map (sanitize_str rq ''reasons'') (qa_reasons q)\<rparr>"

definition sanitize_artifact :: "fetch_request \<Rightarrow> artifact \<Rightarrow> artifact" where
  "sanitize_artifact rq x = x\<lparr>
     ar_role := sanitize_str rq ''role'' (ar_role x),
     ar_representation := sanitize_str rq ''representation'' (ar_representation x),
     ar_media_type := sanitize_str rq ''media_type'' (ar_media_type x),
     ar_schema_version := sanitize_str rq ''schema_version'' (ar_schema_version x),
     ar_cas_uri := sanitize_str rq ''cas_uri'' (ar_cas_uri x),
     ar_sha256 := sanitize_str rq ''sha256'' (ar_sha256 x),
     ar_extractor_version := sanitize_str rq ''extractor_version'' (ar_extractor_version x),
     ar_locators := map (sanitize_str rq ''locators'') (ar_locators x),
     ar_quality := sanitize_quality rq (ar_quality x)\<rparr>"

definition sanitize_attempt :: "fetch_request \<Rightarrow> fetch_attempt \<Rightarrow> fetch_attempt" where
  "sanitize_attempt rq x = x\<lparr>
     at_capability_id := sanitize_str rq ''capability_id'' (at_capability_id x),
     at_adapter_version := sanitize_str rq ''adapter_version'' (at_adapter_version x),
     at_sanitized_destination := sanitize_str rq ''sanitized_destination'' (at_sanitized_destination x),
     at_parser := san_opt rq ''parser'' (at_parser x),
     at_failure_code := san_opt rq ''failure_code'' (at_failure_code x),
     at_warnings := map (sanitize_str rq ''warnings'') (at_warnings x)\<rparr>"

definition sanitize_outcome :: "fetch_request \<Rightarrow> capability_outcome \<Rightarrow> capability_outcome" where
  "sanitize_outcome rq x = x\<lparr>
     co_capability_id := sanitize_str rq ''capability_id'' (co_capability_id x),
     co_stage := sanitize_str rq ''stage'' (co_stage x), co_details := san_doc rq (co_details x)\<rparr>"

definition sanitize_decision :: "fetch_request \<Rightarrow> policy_decision \<Rightarrow> policy_decision" where
  "sanitize_decision rq x = x\<lparr>
     pd_policy_id := sanitize_str rq ''policy_id'' (pd_policy_id x),
     pd_reason := sanitize_str rq ''reason'' (pd_reason x),
     pd_destination := san_opt rq ''destination'' (pd_destination x)\<rparr>"

definition sanitize_diagnostic :: "fetch_request \<Rightarrow> diagnostic \<Rightarrow> diagnostic" where
  "sanitize_diagnostic rq x = x\<lparr>dg_code := sanitize_str rq ''code'' (dg_code x),
     dg_message := sanitize_str rq ''message'' (dg_message x), dg_details := san_doc rq (dg_details x)\<rparr>"

definition sanitize_target :: "fetch_request \<Rightarrow> discovered_target \<Rightarrow> discovered_target" where
  "sanitize_target rq x = x\<lparr>dt_url := sanitize_str rq ''url'' (dt_url x),
     dt_parent_url := san_opt rq ''parent_url'' (dt_parent_url x),
     dt_relation := sanitize_str rq ''relation'' (dt_relation x),
     dt_failure_code := san_opt rq ''failure_code'' (dt_failure_code x)\<rparr>"

definition sanitize_crawl :: "fetch_request \<Rightarrow> crawl_report \<Rightarrow> crawl_report" where
  "sanitize_crawl rq x = x\<lparr>cr_root_url := sanitize_str rq ''root_url'' (cr_root_url x),
     cr_targets := map (sanitize_target rq) (cr_targets x)\<rparr>"

definition sanitize_result :: "fetch_request \<Rightarrow> fetch_result \<Rightarrow> fetch_result" where
  "sanitize_result rq x = x\<lparr>
     fr_resources := map (sanitize_resource rq) (fr_resources x),
     fr_artifacts := map (sanitize_artifact rq) (fr_artifacts x),
     fr_attempts := map (sanitize_attempt rq) (fr_attempts x),
     fr_capability_outcomes := map (sanitize_outcome rq) (fr_capability_outcomes x),
     fr_policy_decisions := map (sanitize_decision rq) (fr_policy_decisions x),
     fr_diagnostics := map (sanitize_diagnostic rq) (fr_diagnostics x),
     fr_crawl_report := map_option (sanitize_crawl rq) (fr_crawl_report x)\<rparr>"

text \<open>The constraints \<^verbatim>\<open>FetchResult.model_validate\<close> checks on the fields of the dump.\<close>

definition valid_crawl_report :: "crawl_report \<Rightarrow> bool" where
  "valid_crawl_report c \<longleftrightarrow> list_all (\<lambda>t. 0 \<le> dt_depth t) (cr_targets c) \<and> 0 \<le> cr_pages_fetched c \<and>
     0 \<le> cr_pages_failed c \<and> 0 \<le> cr_maximum_depth_reached c \<and> 0 \<le> cr_frontier_omitted c"

definition valid_result :: "fetch_result \<Rightarrow> bool" where
  "valid_result x \<longleftrightarrow> valid_budget (fr_remaining_budget x) \<and>
     list_all (\<lambda>a. valid_quality (ar_quality a)) (fr_artifacts x) \<and>
     (case fr_crawl_report x of None \<Rightarrow> True | Some c \<Rightarrow> valid_crawl_report c)"

definition close_context :: "fetch_plan \<Rightarrow> execution_context \<Rightarrow> execution_context" where
  "close_context p ctx =
     (let ctx1 = record_outcome ctx ''fetch_attempt_logging'' CO_APPLIED ''ledger''
            [(''attempts'', VInt (int (length (xc_attempts ctx))))];
          ctx2 = record_outcome ctx1 ''timeout_diagnostics'' CO_APPLIED ''executor''
            [(''deadline_seconds'', VFloat (b_deadline_seconds (rq_budget (fp_request p))))]
      in if list_ex (\<lambda>o'. co_capability_id o' = ''cache_expiry_check'') (xc_capability_outcomes ctx2) then ctx2
         else record_outcome ctx2 ''cache_expiry_check'' CO_NOT_APPLICABLE ''cache''
            (details [(''reason'', ''no validated cache record was consulted'')]))"

definition build_result ::
  "uuid \<Rightarrow> fetch_plan \<Rightarrow> execution_context \<Rightarrow> result_status \<Rightarrow> resource_budget \<Rightarrow> uuid list \<Rightarrow> fetch_result" where
  "build_result r p ctx status remaining event_ids = \<lparr>fr_run_id = r, fr_status = status,
     fr_resources = xc_resources ctx, fr_artifacts = xc_artifacts ctx, fr_attempts = xc_attempts ctx,
     fr_capability_outcomes = xc_capability_outcomes ctx, fr_policy_decisions = xc_policy_decisions ctx,
     fr_diagnostics = xc_diagnostics ctx, fr_provenance_event_ids = event_ids,
     fr_remaining_budget = remaining, fr_crawl_report = xc_crawl_report ctx\<rparr>"

definition with_ledger :: "exec_state \<Rightarrow> event_ledger res \<Rightarrow> unit exec" where
  "with_ledger st m = (case m of Inl e \<Rightarrow> (Inl (value_exc e), st) | Inr l \<Rightarrow> (Inr (), st\<lparr>es_ledger := l\<rparr>))"

definition finish_run ::
  "(fetch_result \<Rightarrow> pyval) \<Rightarrow> uuid \<Rightarrow> fetch_plan \<Rightarrow> fetch_request \<Rightarrow> uuid \<Rightarrow> time \<Rightarrow> run_progress \<Rightarrow> exec_state
     \<Rightarrow> fetch_result exec" where
  "finish_run dump r p request root_id started pr st =
     (let ctx = close_context p (rp_context pr);
          status = run_status ctx (rp_flags pr);
          result = build_result r p ctx status (run_remaining_budget p ctx started (en_clock (es_env st)))
            (map ev_event_id (events (es_ledger st) r))
      in bind_exec (emit r ''run.finished'' ''executor'' (details [(''status'', result_status_value status)]) [root_id] st)
          (\<lambda>final st1.
           let public_result = sanitize_result request (result\<lparr>fr_provenance_event_ids :=
                 fr_provenance_event_ids result @ [ev_event_id final]\<rparr>)
           in if \<not> valid_result public_result
              then (Inl (value_exc (ValueError ''FetchResult validation failed'')), st1)
              else bind_exec (with_ledger st1 (update_run dump (es_ledger st1) r FINISHED (Some public_result)))
                (\<lambda>_ st2. (Inr public_result, st2))))"

definition execute ::
  "(fetch_result \<Rightarrow> pyval) \<Rightarrow> adapter_table \<Rightarrow> adapter_table \<Rightarrow> schedule list \<Rightarrow> uuid \<Rightarrow> fetch_plan \<Rightarrow> exec_state
     \<Rightarrow> fetch_result exec" where
  "execute dump adapters interrupt scheds r p st =
     (case execution_request p of
        Inl e \<Rightarrow> (Inl (value_exc e), st)
      | Inr request \<Rightarrow>
          (let started = en_clock (es_env st) in
           bind_exec (with_ledger st (update_run dump (es_ledger st) r RUNNING None)) (\<lambda>_ st1.
           bind_exec (emit r ''plan.started'' ''planner''
               (details [(''plan_id'', nat_to_str (fp_plan_id p)), (''classifier'', fp_classifier p)]) [] st1) (\<lambda>start st2.
           bind_exec (run_nodes adapters interrupt r p (ev_event_id start) started scheds (fp_nodes p)
               \<lparr>rp_context = ExecutionContext r request, rp_completed = {}, rp_flags = NodeExecution\<rparr> st2) (\<lambda>pr st3.
             finish_run dump r p request (ev_event_id start) started pr st3)))))"

end
