(* ===== verification/Executor_Frame.thy ===== *)
theory Executor_Frame
  imports Executor
begin

section \<open>Reasoning about the executor\<close>

text \<open>
  Two proof rules the properties of the executor rest on: the invariant rule of its main loop, and
  a locale for relations between the states before and after, which every part of the executor
  establishes when emitting an event does and when the environment of adapters does.
\<close>

subsection \<open>The main loop\<close>

text \<open>The invariant rule of the executor's main loop.\<close>

lemma run_nodes_invariant:
  assumes "run_nodes ad itr r p root_id started scheds nodes pr st = (x, st')" and "set nodes \<subseteq> N" and "I pr st"
    and raised: "\<And>pr st. I pr st \<Longrightarrow> E st"
    and skip: "\<And>node pr st. I pr st \<Longrightarrow> node \<in> N \<Longrightarrow> I (skip_dependencies node pr) st"
    and fallback: "\<And>node pr st. I pr st \<Longrightarrow> node \<in> N \<Longrightarrow> set (pn_dependencies node) \<subseteq> rp_completed pr \<Longrightarrow>
      I (skip_fallback node pr) st"
    and node: "\<And>node pr st ctx y st'. I pr st \<Longrightarrow> node \<in> N \<Longrightarrow> set (pn_dependencies node) \<subseteq> rp_completed pr \<Longrightarrow>
      execute_node ad r p node root_id started (rp_context pr) st = (ctx, y, st') \<Longrightarrow>
      (case y of Inl e \<Rightarrow> E st' | Inr res \<Rightarrow> I (absorb node res (pr\<lparr>rp_context := ctx\<rparr>)) st')"
    and batch: "\<And>ns batch contexts sched pr st y st'. I pr st \<Longrightarrow> ns \<noteq> [] \<Longrightarrow> set ns \<subseteq> N \<Longrightarrow>
      batch = parallel_batch ns (rp_completed pr) (rp_context pr) \<Longrightarrow> 1 < length batch \<Longrightarrow>
      parallel_contexts (rp_context pr) (length batch) = Inr contexts \<Longrightarrow>
      execute_parallel_batch ad itr sched r p batch contexts root_id started (capture (rp_context pr)) st = (y, st') \<Longrightarrow>
      (case y of Inl e \<Rightarrow> E st' | Inr bs \<Rightarrow> I (fold (absorb_branch (capture (rp_context pr))) bs pr) st')"
  shows "case x of Inl e \<Rightarrow> E st' | Inr pr' \<Rightarrow> I pr' st'"
  using assms(1-3)
proof (induction "length nodes" arbitrary: scheds nodes pr st rule: less_induct)
  case less
  show ?case
  proof (cases nodes)
    case Nil
    then show ?thesis using less.prems by auto
  next
    case (Cons n rest)
    define bt where "bt = parallel_batch (n # rest) (rp_completed pr) (rp_context pr)"
    note IH = less.hyps [where ?nodes = rest] and unf = less.prems(1) [unfolded Cons run_nodes.simps Let_def bt_def [symmetric]]
    have N: "n \<in> N" "set rest \<subseteq> N" using less.prems(2) Cons by auto
    note step = IH [OF _ _ N(2), unfolded Cons, simplified]
    consider (dep) "\<not> set (pn_dependencies n) \<subseteq> rp_completed pr"
      | (fb) "set (pn_dependencies n) \<subseteq> rp_completed pr" "xc_accepted (rp_context pr) \<and> has_fallback n"
      | (par) "set (pn_dependencies n) \<subseteq> rp_completed pr" "\<not> (xc_accepted (rp_context pr) \<and> has_fallback n)" "1 < length bt"
      | (one) "set (pn_dependencies n) \<subseteq> rp_completed pr" "\<not> (xc_accepted (rp_context pr) \<and> has_fallback n)" "\<not> 1 < length bt"
      by blast
    then show ?thesis
    proof cases
      case dep
      then show ?thesis using unf skip [OF less.prems(3) N(1)] by (intro step) auto
    next
      case fb
      then show ?thesis using unf fallback [OF less.prems(3) N(1)] by (intro step) auto
    next
      case one
      obtain ctx y st1 where e: "execute_node ad r p n root_id started (rp_context pr) st = (ctx, y, st1)" by (metis prod_cases3)
      note nd = node [OF less.prems(3) N(1) one(1) e]
      show ?thesis using unf one nd step by (cases y) (auto simp: e split: if_split_asm)
    next
      case par
      show ?thesis
      proof (cases "parallel_contexts (rp_context pr) (length bt)")
        case (Inl e)
        then show ?thesis using unf par raised [OF less.prems(3)] by auto
      next
        case (Inr contexts)
        define sched where "sched = (case scheds of [] \<Rightarrow> \<lparr>sc_waves = [], sc_finished = []\<rparr> | sc # _ \<Rightarrow> sc)"
        obtain y st1 where b: "execute_parallel_batch ad itr sched r p bt contexts root_id started
            (capture (rp_context pr)) st = (y, st1)" by (metis surj_pair)
        have bt: "case y of Inl e \<Rightarrow> E st1 | Inr bs \<Rightarrow> I (fold (absorb_branch (capture (rp_context pr))) bs pr) st1"
          by (rule batch [OF less.prems(3) _ _ bt_def par(3) Inr b]) (use less.prems(2) Cons in auto)
        have sub: "set (drop (length bt) (n # rest)) \<subseteq> N" using less.prems(2) Cons by (meson order_trans set_drop_subset)
        have shorter: "length (drop (length bt) (n # rest)) < length nodes" using par(3) Cons by simp
        note more = less.hyps [OF shorter _ sub, of "tl scheds"]
        show ?thesis
          using unf par Inr bt more by (cases y) (auto simp: b simp flip: sched_def split: if_split_asm)
      qed
    qed
  qed
qed

subsection \<open>Relations every step establishes\<close>

text \<open>
  \<open>R\<close> relates executor states, for a run; \<open>env_le\<close> environments, and \<open>good\<close> are the adapters whose effect on
  the environment it allows.
\<close>

locale exec_frame =
  fixes R :: "uuid \<Rightarrow> exec_state \<Rightarrow> exec_state \<Rightarrow> bool"
    and env_le :: "env \<Rightarrow> env \<Rightarrow> bool"
    and good :: "adapter \<Rightarrow> bool"
  assumes R_refl [simp]: "R r st st"
    and R_trans: "R r st1 st2 \<Longrightarrow> R r st2 st3 \<Longrightarrow> R r st1 st3"
    and emit_R: "emit r t actor payload parents st = (x, st') \<Longrightarrow> R r st st'"
    and env_R: "env_le (es_env st) en \<Longrightarrow> R r st (st\<lparr>es_env := en\<rparr>)"
    and env_refl [simp]: "env_le en en"
    and env_trans: "env_le en1 en2 \<Longrightarrow> env_le en2 en3 \<Longrightarrow> env_le en1 en3"
    and env_id: "env_le en (en\<lparr>en_next_id := en_next_id en + 1\<rparr>)"
    and env_clock: "env_le en (en\<lparr>en_clock := now\<rparr>)"
    and good_env: "good a \<Longrightarrow> a node ctx en = (ctx', en', e) \<Longrightarrow> env_le en en'"
begin

definition good_table :: "adapter_table \<Rightarrow> bool" where
  "good_table ad \<longleftrightarrow> (\<forall>name a. ad name = Some a \<longrightarrow> good a)"

lemma deadline_env: "ensure_deadline_attempt_failed node n ctx en = (x, en') \<Longrightarrow> env_le en en'"
  using env_id [of en] by (auto simp: ensure_deadline_attempt_failed_def split: if_split_asm sum.split_asm)

lemma with_retries_env:
  "with_retries a node retry left ctx en = (ctx', en', e) \<Longrightarrow> good a \<Longrightarrow> env_le en en'"
proof (induction a node retry left ctx en rule: with_retries.induct)
  case (1 a node retry left ctx en)
  obtain ctx1 en1 e1 where op: "a node ctx en = (ctx1, en1, e1)" by (metis prod_cases3)
  have le: "env_le en en1" by (rule good_env [OF 1(3) op])
  show ?case
  proof (cases "en' = en \<or> en' = en1")
    case False
    then obtain x code where limit: "\<not> b_attempts (rq_budget (xc_request ctx)) \<le> int (length (xc_attempts ctx))"
      and x: "e1 = Some x" "ex_class x = ExcExecution" "adapter_retry_code x = Some code"
        "left \<noteq> 0" "retry_code_allowed code (map py_casefold (rr_retryable_codes retry))"
      and rec: "with_retries a node retry (left - 1) ctx1
          (if 0 < rr_backoff_seconds retry then en1\<lparr>en_clock := en_clock en1 + rr_backoff_seconds retry\<rparr> else en1) = (ctx', en', e)"
      using 1(2) op by (subst (asm) with_retries.simps) (auto split: option.split_asm if_split_asm)
    have "env_le (if 0 < rr_backoff_seconds retry then en1\<lparr>en_clock := en_clock en1 + rr_backoff_seconds retry\<rparr> else en1) en'"
      by (rule 1(1) [OF limit op [symmetric] refl x(1) _ x(3)]) (use x rec 1(3) in auto)
    moreover have "env_le en1 (if 0 < rr_backoff_seconds retry then en1\<lparr>en_clock := en_clock en1 + rr_backoff_seconds retry\<rparr> else en1)"
      by (simp add: env_clock)
    ultimately show ?thesis using le env_trans by blast
  qed (use le in auto)
qed

lemma run_body_env: "run_body p node a started n ctx en = (ctx', en', e) \<Longrightarrow> good a \<Longrightarrow> env_le en en'"
  by (auto simp: run_body_def split: sum.split_asm if_split_asm prod.split_asm dest: deadline_env with_retries_env)

lemma handle_exception_env: "handle_exception node m n e ctx en = (x, en') \<Longrightarrow> env_le en en'"
  by (auto simp: handle_exception_def Let_def split: exc_class.split_asm prod.split_asm sum.split_asm dest: deadline_env)

lemma flush_R:
  "flush_pending_events r parent evs st = (x, st') \<Longrightarrow> R r st st'"
proof (induction r parent evs st rule: flush_pending_events.induct)
  case (2 r parent event_type actor payload rest st)
  obtain y st1 where e: "emit r event_type actor payload [parent] st = (y, st1)" by (metis surj_pair)
  note l = emit_R [OF e]
  show ?case
  proof (cases y)
    case (Inl a)
    then show ?thesis using 2(2) l by (simp add: e)
  next
    case (Inr a)
    then have "flush_pending_events r parent rest st1 = (x, st')" using 2(2) by (simp add: e)
    from 2(1) [OF this] show ?thesis using R_trans [OF l] by blast
  qed
qed simp

lemma bind_flush_R:
  assumes "bind_exec (flush_pending_events r parent evs st) (\<lambda>_ st'. (y st', st')) = (x, st')"
  shows "R r st st'"
proof -
  obtain z st1 where "flush_pending_events r parent evs st = (z, st1)" by (metis surj_pair)
  from flush_R [OF this] this assms show ?thesis by (cases z) auto
qed

lemma finish_node_R:
  assumes "finish_node r node n parent ctx st = (ctx', x, st')"
  shows "R r st st'"
proof -
  obtain t where t: "snd (finish_node r node n parent ctx st) =
      bind_exec (emit r ''attempt.finished'' (pn_adapter node) t [parent] st)
        (\<lambda>_ st'. (Inr (NodeExecution\<lparr>ne_completed := True\<rparr>), st'))"
    by (auto simp: finish_node_def Let_def)
  obtain y st1 where e: "emit r ''attempt.finished'' (pn_adapter node) t [parent] st = (y, st1)" by (metis surj_pair)
  show ?thesis using t emit_R [OF e] unfolding assms by (cases y) (auto simp: e)
qed

text \<open>The part of \<^const>\<open>execute_node\<close> after the body, on its two ways out.\<close>

lemma raised_R:
  assumes "(case handle_exception node m n ex ctx2 en2 of
      (Inl e', en3) \<Rightarrow> (ctx2, bind_exec (flush_pending_events r parent (evs ctx2) (st1\<lparr>es_env := en3\<rparr>)) (\<lambda>_ st4. (Inl e', st4)))
    | (Inr None, en3) \<Rightarrow> (ctx2, bind_exec (flush_pending_events r parent (evs ctx2) (st1\<lparr>es_env := en3\<rparr>)) (\<lambda>_ st4. (Inl ex, st4)))
    | (Inr (Some h), en3) \<Rightarrow> (hd_context h,
        (case emit r (hd_event_type h) (pn_adapter node) (hd_payload h) [parent] (st1\<lparr>es_env := en3\<rparr>) of
           (Inl e', st4) \<Rightarrow> bind_exec (flush_pending_events r parent (evs (hd_context h)) st4) (\<lambda>_ st5. (Inl e', st5))
         | (Inr _, st4) \<Rightarrow> bind_exec (flush_pending_events r parent (evs (hd_context h)) st4) (\<lambda>_ st5. (hd_result h, st5)))))
     = (ctx', x, st')"
    and le: "env_le (es_env st1) en2"
  shows "R r st1 st'"
proof -
  obtain h en3 where hx: "handle_exception node m n ex ctx2 en2 = (h, en3)" by (metis surj_pair)
  consider (raise) v where "bind_exec (flush_pending_events r parent (evs ctx2) (st1\<lparr>es_env := en3\<rparr>)) (\<lambda>_ s. (v, s)) = (x, st')"
    | (handle) hh where "h = Inr (Some hh)"
    using assms(1) by (cases h) (auto simp: hx split: option.split_asm)
  moreover have en: "R r st1 (st1\<lparr>es_env := en3\<rparr>)"
    by (rule env_R [OF env_trans [OF le handle_exception_env [OF hx]]])
  ultimately show ?thesis
  proof cases
    case raise
    from R_trans [OF en bind_flush_R [OF this]] show ?thesis .
  next
    case handle
    obtain w st4 where e4: "emit r (hd_event_type hh) (pn_adapter node) (hd_payload hh) [parent] (st1\<lparr>es_env := en3\<rparr>) = (w, st4)"
      by (metis surj_pair)
    have "\<exists>v. bind_exec (flush_pending_events r parent (evs (hd_context hh)) st4) (\<lambda>_ s. (v, s)) = (x, st')"
      using assms(1) handle e4 by (cases w) (auto simp: hx)
    then obtain v where "bind_exec (flush_pending_events r parent (evs (hd_context hh)) st4) (\<lambda>_ s. (v, s)) = (x, st')" ..
    from R_trans [OF en R_trans [OF emit_R [OF e4] bind_flush_R [OF this]]] show ?thesis .
  qed
qed

lemma finished_R:
  assumes "(case flush_pending_events r parent evs (st1\<lparr>es_env := en2\<rparr>) of
      (Inl e, st3) \<Rightarrow> (ctx2, (Inl e, st3)) | (Inr _, st3) \<Rightarrow> finish_node r node n parent ctx2 st3) = (ctx', x, st')"
    and le: "env_le (es_env st1) en2"
  shows "R r st1 st'"
proof -
  obtain z st3 where f: "flush_pending_events r parent evs (st1\<lparr>es_env := en2\<rparr>) = (z, st3)" by (metis surj_pair)
  have l: "R r st1 st3" by (rule R_trans [OF env_R [OF le] flush_R [OF f]])
  show ?thesis
  proof (cases z)
    case (Inl a)
    then show ?thesis using assms(1) l by (simp add: f)
  next
    case (Inr u)
    then have "finish_node r node n parent ctx2 st3 = (ctx', x, st')" using assms(1) by (simp add: f)
    from R_trans [OF l finish_node_R [OF this]] show ?thesis .
  qed
qed

lemma execute_node_R:
  assumes "execute_node adapters r p node root_id started ctx st = (ctx', x, st')" and ad: "good_table adapters"
  shows "R r st st'"
proof (cases "adapters (pn_adapter node)")
  case None
  then show ?thesis using assms(1) by (simp add: execute_node_def)
next
  case (Some adapter)
  then have good: "good adapter" using ad by (simp add: good_table_def)
  obtain y st1 where e: "emit r ''attempt.started'' (pn_adapter node)
      (details [(''capability_id'', pn_capability_id node)]) [root_id] st = (y, st1)" by (metis surj_pair)
  show ?thesis
  proof (cases y)
    case (Inl a)
    then show ?thesis using assms(1) emit_R [OF e] by (simp add: execute_node_def Some e)
  next
    case (Inr event)
    obtain ctx2 en2 exc where body: "run_body p node adapter started (length (xc_attempts ctx)) ctx (es_env st1) = (ctx2, en2, exc)"
      by (metis prod_cases3)
    note le = run_body_env [OF body good]
    note unf = assms(1) [unfolded execute_node_def Some option.case e prod.case Inr sum.case Let_def body]
    have "R r st1 st'"
    proof (cases exc)
      case None
      show ?thesis by (rule finished_R [OF unf [unfolded None option.case] le])
    next
      case (Some ex)
      show ?thesis
        by (rule raised_R [where evs = "\<lambda>c. drop (length (xc_pending_events ctx)) (xc_pending_events c)",
              OF unf [unfolded Some option.case] le])
    qed
    from R_trans [OF emit_R [OF e] this] show ?thesis .
  qed
qed

lemma run_branch_R: "good_table ad \<Longrightarrow> R r (snd bst) (snd (run_branch ad r p root_id started i bst))"
proof (cases bst)
  case (Pair bs st)
  assume ad: "good_table ad"
  obtain ctx res st' where e: "execute_node ad r p (br_node (bs ! i)) root_id started (br_context (bs ! i)) st = (ctx, res, st')"
    by (metis prod_cases3)
  show ?thesis using execute_node_R [OF e ad] by (simp add: Pair run_branch_def e)
qed

lemma fold_branch_R:
  "\<forall>i. good_table (tbl i) \<Longrightarrow> R r (snd bst) (snd (fold (\<lambda>i. run_branch (tbl i) r p root_id started i) js bst))"
proof (induction js arbitrary: bst)
  case (Cons i js)
  have "good_table (tbl i)" using Cons.prems by simp
  from R_trans [OF run_branch_R [OF this] Cons.IH [OF Cons.prems]] show ?case by simp
qed simp

lemma parallel_loop_R:
  "parallel_loop ad itr r p root_id started baseline finished waves pending bs st = (x, st') \<Longrightarrow>
   good_table ad \<Longrightarrow> good_table itr \<Longrightarrow> R r st st'"
proof (induction ad itr r p root_id started baseline finished waves pending bs st rule: parallel_loop.induct)
  case (1 ad itr r p root_id started baseline finished waves pending bs st)
  show ?case
  proof (cases "pending = []")
    case True
    then show ?thesis using 1(2) by (simp add: parallel_loop.simps)
  next
    case False
    define wave where "wave = next_wave waves pending"
    define rest where "rest = filter (\<lambda>i. i \<notin> set wave) pending"
    define winner where "winner bs1 = list_ex (\<lambda>i. accepted_winner baseline (bs1 ! i)) wave" for bs1
    define cancel where "cancel = fold (cancel_branch ad itr r p root_id started finished) rest"
    obtain bs1 st1 where f: "fold (run_branch ad r p root_id started) wave (bs, st) = (bs1, st1)" by (metis surj_pair)
    have l1: "R r st st1"
      using fold_branch_R [where tbl = "\<lambda>_. ad" and bst = "(bs, st)"] f 1(3) by (metis snd_conv)
    have lc: "R r st1 (snd (cancel (b, st1)))" for b
      using fold_branch_R [where tbl = "\<lambda>i. if i \<in> set finished then ad else itr" and bst = "(b, st1)"] 1(3,4)
      by (simp add: cancel_def cancel_branch_def [abs_def])
    note unf = 1(2) [unfolded parallel_loop.simps [of ad itr r p root_id started baseline finished waves pending bs st]
        if_not_P [OF False] Let_def wave_def [symmetric] rest_def [symmetric] f prod.case cancel_def [symmetric]]
    consider (stop) b where "st' = snd (cancel (b, st1))"
      | (more) "parallel_loop ad itr r p root_id started baseline finished (tl waves) rest bs1 st1 = (x, st')"
          "first_exception bs1 wave = None"
          "\<not> (rest \<noteq> [] \<and> (list_ex (\<lambda>i. accepted_winner baseline (bs1 ! i)) wave \<or> list_ex (\<lambda>i. stops (bs1 ! i)) wave))"
    proof (cases "first_exception bs1 wave")
      case (Some e)
      then show ?thesis using unf that(1) [of bs1] by simp
    next
      case None
      show ?thesis
      proof (cases "rest \<noteq> [] \<and> (list_ex (\<lambda>i. accepted_winner baseline (bs1 ! i)) wave \<or> list_ex (\<lambda>i. stops (bs1 ! i)) wave)")
        case True
        define b where "b = set_reason (if list_ex (\<lambda>i. accepted_winner baseline (bs1 ! i)) wave then ''early_stop''
            else ''parallel_sibling_stopped_execution'') rest bs1"
        obtain bs2 st2 where c: "cancel (b, st1) = (bs2, st2)" by (metis surj_pair)
        have "st' = snd (cancel (b, st1))"
          using unf None True by (auto simp: c simp flip: b_def split: option.split_asm)
        then show ?thesis by (rule that(1))
      next
        case False
        show ?thesis by (rule that(2) [OF unf [unfolded None option.case if_not_P [OF False]] None False])
      qed
    qed
    then show ?thesis
    proof cases
      case stop
      then show ?thesis using R_trans [OF l1 lc] by simp
    next
      case more
      have "R r st1 st'"
        using 1(1) [OF False wave_def rest_def refl f [symmetric] refl more(2) refl] more(1,3) 1(3,4) by auto
      then show ?thesis using R_trans [OF l1] by blast
    qed
  qed
qed

lemma execute_parallel_batch_R:
  assumes "execute_parallel_batch ad itr sched r p nodes contexts root_id started baseline st = (x, st')"
    and ad: "good_table ad" "good_table itr"
  shows "R r st st'"
proof -
  obtain y st1 where l: "parallel_loop ad itr r p root_id started baseline (sc_finished sched) (sc_waves sched)
      [0..<length (map2 (\<lambda>n c. \<lparr>br_node = n, br_context = c, br_result = None\<rparr>) nodes contexts)]
      (map2 (\<lambda>n c. \<lparr>br_node = n, br_context = c, br_result = None\<rparr>) nodes contexts) st = (y, st1)" by (metis surj_pair)
  have "st' = st1"
    using assms(1) unfolding execute_parallel_batch_def Let_def l by (cases y) (auto split: if_split_asm)
  then show ?thesis using parallel_loop_R [OF l ad] by simp
qed


lemma run_nodes_R:
  assumes "run_nodes ad itr r p root_id started scheds nodes pr st = (x, st')"
    and ad: "good_table ad" "good_table itr"
  shows "R r st st'"
proof -
  have "case x of Inl e \<Rightarrow> R r st st' | Inr pr' \<Rightarrow> R r st st'"
    by (rule run_nodes_invariant [where I = "\<lambda>_ s. R r st s" and N = "set nodes", OF assms(1)])
      (auto split: sum.split dest!: execute_node_R [OF _ ad(1)] execute_parallel_batch_R [OF _ ad] intro: R_trans)
  then show ?thesis by (cases x) auto
qed

end

subsection \<open>Events of the run only\<close>

text \<open>\<open>logs r l l'\<close>: \<open>l'\<close> has new events of run \<open>r\<close> after those of \<open>l\<close>, and is else unchanged but for queues.\<close>

definition logs :: "uuid \<Rightarrow> event_ledger \<Rightarrow> event_ledger \<Rightarrow> bool" where
  "logs r l l' \<longleftrightarrow> (\<exists>es. lg_events l' = lg_events l @ es \<and> (\<forall>e\<in>set es. ev_run_id e = r)) \<and>
     lg_runs l' = lg_runs l \<and> lg_authenticated l' = lg_authenticated l"

lemma logs_refl [simp]: "logs r l l" by (simp add: logs_def)

lemma logs_trans: "logs r a b \<Longrightarrow> logs r b c \<Longrightarrow> logs r a c"
  by (auto simp: logs_def)

lemma emit_result:
  assumes "emit r t actor payload parents st = (x, st')"
  shows "logs r (es_ledger st) (es_ledger st')"
    and "x = Inr event \<Longrightarrow> ev_event_type event = t \<and> ev_run_id event = r \<and>
      lg_events (es_ledger st') = lg_events (es_ledger st) @ [stored_event (es_ledger st) event]"
  using assms
  by (auto simp: emit_def Let_def append_event_def logs_def ProvenanceEvent_def split: if_split_asm)

lemmas emit_logs = emit_result(1)

interpretation run_log: exec_frame "\<lambda>r st st'. logs r (es_ledger st) (es_ledger st')" "\<lambda>_ _. True" "\<lambda>_. True"
  by unfold_locales (auto intro: logs_trans emit_logs)

lemma run_log_table [simp]: "run_log.good_table ad"
  by (simp add: run_log.good_table_def)

lemmas run_nodes_logs = run_log.run_nodes_R [OF _ run_log_table run_log_table]

subsection \<open>Fresh identifiers\<close>

text \<open>Identifiers are handed out in increasing order; adapters that do so keep them fresh.\<close>

definition fresh_ids :: "exec_state \<Rightarrow> bool" where
  "fresh_ids st \<longleftrightarrow> (\<forall>e\<in>set (lg_events (es_ledger st)). ev_event_id e < en_next_id (es_env st))"

definition forward_ids :: "adapter \<Rightarrow> bool" where
  "forward_ids a \<longleftrightarrow> (\<forall>node ctx en ctx' en' e. a node ctx en = (ctx', en', e) \<longrightarrow> en_next_id en \<le> en_next_id en')"

lemma fresh_emit:
  assumes "fresh_ids st"
  shows "\<exists>event st'. emit r t actor payload parents st = (Inr event, st') \<and> fresh_ids st'"
proof -
  have "\<not> list_ex (\<lambda>e'. ev_event_id e' = en_next_id (es_env st)) (lg_events (es_ledger st))"
    using assms by (fastforce simp: fresh_ids_def list_ex_iff)
  then show ?thesis
    using assms by (auto simp: emit_def Let_def append_event_def ProvenanceEvent_def fresh_ids_def stored_event_def)
qed

interpretation fresh: exec_frame "\<lambda>_ st st'. fresh_ids st \<longrightarrow> fresh_ids st'" "\<lambda>en en'. en_next_id en \<le> en_next_id en'" forward_ids
proof
  fix r t actor payload parents st x st'
  assume "emit r t actor payload parents st = (x, st')"
  then show "fresh_ids st \<longrightarrow> fresh_ids st'" using fresh_emit [of st r t actor payload parents] by auto
next
  fix st :: exec_state and en :: env assume "en_next_id (es_env st) \<le> en_next_id en"
  then show "fresh_ids st \<longrightarrow> fresh_ids (st\<lparr>es_env := en\<rparr>)" by (fastforce simp: fresh_ids_def)
qed (auto simp: forward_ids_def, blast)

end
