(* ===== verification/Executor_Correct.thy ===== *)
theory Executor_Correct
  imports Executor_Frame
begin

section \<open>Correctness of the executor\<close>

text \<open>
  What the executor guarantees: how budgets are split over parallel branches and how a batch is
  formed, that approvals and attempt limits hold, that a batch settles whatever the order in which
  its tasks end, and what a run leaves in the ledger.
\<close>

subsection \<open>Budget partition\<close>

lemma sum_remainder: "m \<le> n \<Longrightarrow> (\<Sum>i<n. if i < m then 1 else 0 :: int) = int m"
proof -
  assume "m \<le> n"
  then have "{i. i < n \<and> i < m} = {..<m}" by auto
  then show ?thesis by (simp add: sum.If_cases lessThan_def Collect_conj_eq [symmetric])
qed

lemma int_share_sum:
  assumes "0 < count"
  shows "(\<Sum>i<count. int_share limit used count i - used) = max 0 (limit - used)"
proof -
  define left where "left = max 0 (limit - used)"
  define m where "m = nat (left mod int count)"
  have left: "0 \<le> left" by (simp add: left_def)
  have m: "int m = left mod int count" "m \<le> count"
    using assms by (simp_all add: m_def nat_le_iff less_imp_le)
  have "(\<Sum>i<count. int_share limit used count i - used) =
      (\<Sum>i<count. left div int count + (if i < m then 1 else 0))"
    by (intro sum.cong) (simp_all add: int_share_def Let_def left_def [symmetric] m(1) [symmetric])
  also have "\<dots> = int count * (left div int count) + int m"
    using m(2) by (simp add: sum.distrib sum_remainder)
  also have "\<dots> = left" using m(1) by simp
  finally show ?thesis by (simp add: left_def)
qed

lemma int_share_bounds:
  assumes "0 < count"
  shows "used \<le> int_share limit used count i" and "i < count \<Longrightarrow> int_share limit used count i \<le> max limit used"
proof -
  define left where "left = max 0 (limit - used)"
  have left: "0 \<le> left" by (simp add: left_def)
  then show "used \<le> int_share limit used count i"
    using assms by (simp add: int_share_def Let_def left_def [symmetric] pos_imp_zdiv_nonneg_iff)
  assume i: "i < count"
  have "int_share limit used count i - used \<le> (\<Sum>j<count. int_share limit used count j - used)"
    using i left assms
    by (intro member_le_sum) (auto simp: int_share_def Let_def left_def [symmetric] pos_imp_zdiv_nonneg_iff)
  then show "int_share limit used count i \<le> max limit used"
    unfolding int_share_sum [OF assms] by simp
qed

lemma rat_share_bounds:
  assumes "0 < count"
  shows "rat_share limit used count \<le> max limit used"
proof -
  have "max 0 (limit - used) / of_nat count \<le> max 0 (limit - used) / 1"
    using assms by (intro divide_left_mono) auto
  then show ?thesis by (simp add: rat_share_def max_def split: if_split_asm)
qed

text \<open>
  C37: splitting a run's budget over parallel branches neither creates nor loses budget. What the
  branches may add to the amount already used sums, for each of the six integer fields that are
  split, to exactly what is left of the run's budget, whatever the remainder of the division, and
  likewise for the two fractional fields (over the rationals, so without the rounding of the
  floating-point division). In each of these fields no branch has more than the run itself, or than
  what is used already; the other fields are those of the run.
\<close>

theorem parallel_budgets_conserve:
  assumes "partition_parallel_budgets ctx count = Inr budgets"
  defines "b \<equiv> rq_budget (xc_request ctx)" and "used \<equiv> \<lambda>name. py_int (consumed_budget ctx name)"
  shows "length budgets = count \<and>
    (\<Sum>c\<leftarrow>budgets. b_attempts c - int (length (xc_attempts ctx))) = max 0 (b_attempts b - int (length (xc_attempts ctx))) \<and>
    (\<Sum>c\<leftarrow>budgets. b_bytes c - used ''bytes'') = max 0 (b_bytes b - used ''bytes'') \<and>
    (\<Sum>c\<leftarrow>budgets. b_decompressed_bytes c - used ''decompressed_bytes'') =
      max 0 (b_decompressed_bytes b - used ''decompressed_bytes'') \<and>
    (\<Sum>c\<leftarrow>budgets. b_redirects c - used ''redirects'') = max 0 (b_redirects b - used ''redirects'') \<and>
    (\<Sum>c\<leftarrow>budgets. b_archive_members c - used ''archive_members'') =
      max 0 (b_archive_members b - used ''archive_members'') \<and>
    (\<Sum>c\<leftarrow>budgets. b_model_tokens c - used ''model_tokens'') = max 0 (b_model_tokens b - used ''model_tokens'') \<and>
    (\<Sum>c\<leftarrow>budgets. b_browser_seconds c - consumed_budget ctx ''browser_seconds'') =
      max 0 (b_browser_seconds b - consumed_budget ctx ''browser_seconds'') \<and>
    (\<Sum>c\<leftarrow>budgets. b_monetary_ceiling c - consumed_budget ctx ''monetary_ceiling'') =
      max 0 (b_monetary_ceiling b - consumed_budget ctx ''monetary_ceiling'') \<and>
    (\<forall>c\<in>set budgets. b_attempts c \<le> max (b_attempts b) (int (length (xc_attempts ctx))) \<and>
       b_bytes c \<le> max (b_bytes b) (used ''bytes'') \<and>
       b_decompressed_bytes c \<le> max (b_decompressed_bytes b) (used ''decompressed_bytes'') \<and>
       b_redirects c \<le> max (b_redirects b) (used ''redirects'') \<and>
       b_archive_members c \<le> max (b_archive_members b) (used ''archive_members'') \<and>
       b_model_tokens c \<le> max (b_model_tokens b) (used ''model_tokens'') \<and>
       b_browser_seconds c \<le> max (b_browser_seconds b) (consumed_budget ctx ''browser_seconds'') \<and>
       b_monetary_ceiling c \<le> max (b_monetary_ceiling b) (consumed_budget ctx ''monetary_ceiling'') \<and>
       b_deadline_seconds c = b_deadline_seconds b \<and> b_crawl_pages c = b_crawl_pages b \<and>
       b_crawl_depth c = b_crawl_depth b \<and> b_archive_ratio c = b_archive_ratio b)"
proof -
  have c: "0 < count" and bs: "budgets = map (branch_budget ctx count) [0..<count]"
    using assms(1) by (auto simp: partition_parallel_budgets_def split: if_split_asm)
  have sum: "(\<Sum>c\<leftarrow>budgets. f c) = (\<Sum>i<count. f (branch_budget ctx count i))" for f :: "resource_budget \<Rightarrow> int"
    unfolding bs by (simp add: interv_sum_list_conv_sum_set_nat comp_def atLeast0LessThan)
  have rsum: "(\<Sum>c\<leftarrow>budgets. f c) = (\<Sum>i<count. f (branch_budget ctx count i))" for f :: "resource_budget \<Rightarrow> rat"
    unfolding bs by (simp add: interv_sum_list_conv_sum_set_nat comp_def atLeast0LessThan)
  note sel = branch_budget_def Let_def b_def [symmetric] used_def [symmetric]
  have int: "b_attempts (branch_budget ctx count i) = int_share (b_attempts b) (int (length (xc_attempts ctx))) count i"
    "b_bytes (branch_budget ctx count i) = int_share (b_bytes b) (used ''bytes'') count i"
    "b_decompressed_bytes (branch_budget ctx count i) = int_share (b_decompressed_bytes b) (used ''decompressed_bytes'') count i"
    "b_redirects (branch_budget ctx count i) = int_share (b_redirects b) (used ''redirects'') count i"
    "b_archive_members (branch_budget ctx count i) = int_share (b_archive_members b) (used ''archive_members'') count i"
    "b_model_tokens (branch_budget ctx count i) = int_share (b_model_tokens b) (used ''model_tokens'') count i"
    "b_browser_seconds (branch_budget ctx count i) = rat_share (b_browser_seconds b) (consumed_budget ctx ''browser_seconds'') count"
    "b_monetary_ceiling (branch_budget ctx count i) = rat_share (b_monetary_ceiling b) (consumed_budget ctx ''monetary_ceiling'') count"
    "b_deadline_seconds (branch_budget ctx count i) = b_deadline_seconds b" "b_crawl_pages (branch_budget ctx count i) = b_crawl_pages b"
    "b_crawl_depth (branch_budget ctx count i) = b_crawl_depth b" "b_archive_ratio (branch_budget ctx count i) = b_archive_ratio b"
    for i by (simp_all add: sel)
  have rat: "(\<Sum>i<count. rat_share limit u count - u) = max 0 (limit - u)" for limit u
    using c by (simp add: rat_share_def)
  have len: "length budgets = count" by (simp add: bs)
  have mem: "c \<in> set budgets \<Longrightarrow> \<exists>i<count. c = branch_budget ctx count i" for c by (auto simp: bs)
  show ?thesis
    unfolding sum rsum int int_share_sum [OF c] rat
    by (intro conjI refl len ballI; drule mem; clarify; simp only: int int_share_bounds(2) [OF c] rat_share_bounds [OF c])
qed

theorem parallel_budgets_conserve_witness:
  "\<exists>budgets. partition_parallel_budgets sample_context 3 = Inr budgets \<and> length budgets = 3 \<and>
     (\<Sum>c\<leftarrow>budgets. b_attempts c - 1) = 5"
proof -
  obtain budgets where b: "partition_parallel_budgets sample_context 3 = Inr budgets"
    by (simp add: partition_parallel_budgets_def)
  have "length (xc_attempts sample_context) = 1" "b_attempts (rq_budget (xc_request sample_context)) = 6"
    by (simp_all add: sample_context_def ExecutionContext_def default_request_def default_budget_def)
  then show ?thesis using parallel_budgets_conserve [OF b] b by simp
qed

subsection \<open>Parallel batches\<close>

lemma grow_batch_prefix: "\<exists>rest. nodes = grow_batch g completed acc room nodes @ rest"
  by (induction g completed acc room nodes rule: grow_batch.induct) auto

lemma grow_batch_members:
  "n \<in> set (grow_batch g completed acc room nodes) \<Longrightarrow> \<not> batch_break g completed acc n"
  by (induction g completed acc room nodes rule: grow_batch.induct) (auto split: if_split_asm)

lemma grow_batch_length: "1 \<le> room \<Longrightarrow> int (length (grow_batch g completed acc room nodes)) \<le> room"
  by (induction g completed acc room nodes rule: grow_batch.induct) auto

text \<open>
  A parallel batch is a non-empty prefix of the nodes that remain. With more than one node,
  all of them belong to one parallel group, need no approval, have their dependencies completed,
  and are no more than the attempts the run has left.
\<close>

theorem parallel_batch_spec:
  assumes "nodes \<noteq> []"
  shows "(\<exists>rest. nodes = parallel_batch nodes completed ctx @ rest) \<and> parallel_batch nodes completed ctx \<noteq> [] \<and>
    (1 < length (parallel_batch nodes completed ctx) \<longrightarrow>
       (\<forall>n\<in>set (parallel_batch nodes completed ctx).
          pn_parallel_group n = pn_parallel_group (hd nodes) \<and> pn_parallel_group n \<noteq> None \<and>
          \<not> pn_requires_approval n \<and> set (pn_dependencies n) \<subseteq> completed \<and>
          (xc_accepted ctx \<longrightarrow> \<not> has_fallback n)) \<and>
       int (length (parallel_batch nodes completed ctx)) \<le>
         b_attempts (rq_budget (xc_request ctx)) - int (length (xc_attempts ctx)))"
proof -
  define room where "room = b_attempts (rq_budget (xc_request ctx)) - int (length (xc_attempts ctx))"
  define batch where "batch = grow_batch (pn_parallel_group (hd nodes)) completed (xc_accepted ctx) room nodes"
  have hd: "\<exists>rest. nodes = [hd nodes] @ rest" using assms by (cases nodes) auto
  have pb: "parallel_batch nodes completed ctx = [hd nodes] \<or>
      (parallel_batch nodes completed ctx = batch \<and> batch \<noteq> [] \<and> 1 < room \<and> pn_parallel_group (hd nodes) \<noteq> None)"
    by (auto simp: parallel_batch_def Let_def room_def [symmetric] batch_def [symmetric])
  then show ?thesis
  proof
    assume "parallel_batch nodes completed ctx = [hd nodes]"
    then show ?thesis using hd by simp
  next
    assume b: "parallel_batch nodes completed ctx = batch \<and> batch \<noteq> [] \<and> 1 < room \<and> pn_parallel_group (hd nodes) \<noteq> None"
    have "\<not> batch_break (pn_parallel_group (hd nodes)) completed (xc_accepted ctx) n" if "n \<in> set batch" for n
      using that unfolding batch_def by (rule grow_batch_members)
    then show ?thesis
      using b grow_batch_prefix [of nodes] grow_batch_length [of room] unfolding room_def [symmetric]
      by (auto simp: batch_def batch_break_def)
  qed
qed


definition reader_node :: "string \<Rightarrow> plan_node" where
  "reader_node i = (PlanNode i ''clean_text'' ''reader'' [''http''])\<lparr>pn_parallel_group := Some ''static-readers''\<rparr>"

theorem parallel_batch_spec_witness:
  "parallel_batch [reader_node ''a'', reader_node ''b'', PlanNode ''c'' ''playwright'' ''browser'' []] {''http''} sample_context
     = [reader_node ''a'', reader_node ''b''] \<and>
   set (pn_dependencies (reader_node ''a'')) \<union> set (pn_dependencies (reader_node ''b'')) \<subseteq> {''http''}"
proof
  show b: "parallel_batch [reader_node ''a'', reader_node ''b'', PlanNode ''c'' ''playwright'' ''browser'' []] {''http''} sample_context
     = [reader_node ''a'', reader_node ''b'']"
    by (simp add: parallel_batch_def reader_node_def PlanNode_def batch_break_def sample_context_def
        ExecutionContext_def default_request_def default_budget_def)
  show "set (pn_dependencies (reader_node ''a'')) \<union> set (pn_dependencies (reader_node ''b'')) \<subseteq> {''http''}"
    using parallel_batch_spec [of "[reader_node ''a'', reader_node ''b'', PlanNode ''c'' ''playwright'' ''browser'' []]"
        "{''http''}" sample_context] unfolding b by simp
qed

subsection \<open>Approval and retries\<close>

text \<open>
  C8: a node that requires approval the request does not give never reaches its adapter. Whatever
  adapter is registered, the run sees the same: the same context, in which the capability is
  blocked, the same events, and a result that stops the run.
\<close>

theorem unapproved_node_not_executed:
  assumes "pn_requires_approval node" and "\<not> approved (fp_request p) (pn_capability_id node)"
    and "sanitize_url False (rq_target (fp_request p)) = Inr destination"
    and "adapters (pn_adapter node) = Some adapter" and "adapters' (pn_adapter node) = Some adapter'"
  shows "execute_node adapters r p node root_id started ctx st = execute_node adapters' r p node root_id started ctx st \<and>
    (case execute_node adapters r p node root_id started ctx st of
       (ctx', Inr res, st') \<Rightarrow> res = NodeExecution\<lparr>ne_policy_blocked := True, ne_stop := True\<rparr> \<and>
         length (xc_attempts ctx') = length (xc_attempts ctx) \<and> xc_artifacts ctx' = xc_artifacts ctx
     | (_, Inl e, _) \<Rightarrow> True)"
proof -
  define e where "e = policy_exc_of (pn_capability_id node @ '' requires explicit approval'')
    [PolicyDecision ''capability_approval'' False (pn_capability_id node @ '' requires explicit approval'') (Some destination)]"
  have ea: "enforce_approval p node = Inl e"
    using assms(1-3) by (simp add: enforce_approval_def e_def Let_def)
  then have body: "run_body p node a started n ctx en = (ctx, en, Some e)" for a n en
    by (simp add: run_body_def)
  have cls: "ex_class e = ExcPolicyBlocked" by (simp add: e_def policy_exc_of_def simple_exc_def)
  define failed where "failed now = mark_running_attempt_failed now ''policy'' ctx" for now
  define h where "h now = handle_with node (length (xc_capability_outcomes ctx))
      ((failed now)\<lparr>xc_policy_decisions := xc_policy_decisions (failed now) @ ex_decisions e\<rparr>)
      ''policy_blocked'' (ex_message e) CO_BLOCKED ''attempt.blocked'' []
      (NodeExecution\<lparr>ne_policy_blocked := True, ne_stop := True\<rparr>)" for now
  have hx: "handle_exception node ac (length (xc_capability_outcomes ctx)) e ctx en = (Inr (Some (h (en_clock en))), en)" for ac en
    by (simp add: handle_exception_def cls Let_def h_def failed_def)
  have same: "xc_artifacts (failed now) = xc_artifacts ctx" "length (xc_attempts (failed now)) = length (xc_attempts ctx)" for now
    by (auto simp: failed_def mark_running_attempt_failed_def mark_running_def update_last_def)
  have hc: "xc_artifacts (hd_context (h now)) = xc_artifacts ctx"
    "length (xc_attempts (hd_context (h now))) = length (xc_attempts ctx)"
    "hd_result (h now) = Inr (NodeExecution\<lparr>ne_policy_blocked := True, ne_stop := True\<rparr>)" for now
    using same by (simp_all add: h_def handle_with_def ensure_outcome_def add_diagnostic_def record_outcome_def)
  show ?thesis
    unfolding execute_node_def assms(4,5) option.case Let_def body prod.case hx
    by (auto simp: hc bind_exec_def split: prod.split sum.split)
qed

definition post_node :: plan_node where
  "post_node = (PlanNode ''http'' ''http_post'' ''http'' [])\<lparr>pn_requires_approval := True\<rparr>"

definition quiet_adapter :: adapter where
  "quiet_adapter node ctx en = (ctx, en, None)"

definition timeout_adapter :: adapter where
  "timeout_adapter node ctx en =
     (ctx\<lparr>xc_attempts := xc_attempts ctx @ [sample_attempt]\<rparr>, en,
      Some (simple_exc ExcExecution ''AdapterExecutionError'' ''read timed out''))"

definition post_plan :: fetch_plan where
  "post_plan = new_plan 0 0 (default_request ''http://h/'') [post_node]"

definition empty_state :: exec_state where
  "empty_state = \<lparr>es_env = \<lparr>en_clock = 0, en_next_id = 1\<rparr>, es_ledger = EventLedger\<rparr>"

theorem unapproved_node_not_executed_witness:
  "execute_node (\<lambda>_. Some quiet_adapter) 1 post_plan post_node 0 0 sample_context empty_state =
   execute_node (\<lambda>_. Some timeout_adapter) 1 post_plan post_node 0 0 sample_context empty_state"
proof -
  have "sanitize_url False (rq_target (fp_request post_plan)) = Inr ''http://h/''" by code_simp
  moreover have "pn_requires_approval post_node" "\<not> approved (fp_request post_plan) (pn_capability_id post_node)"
    by (simp_all add: post_node_def approved_def post_plan_def new_plan_def default_request_def PlanNode_def py_casefold_def)
  ultimately show ?thesis
    using unapproved_node_not_executed [where adapters = "\<lambda>_. Some quiet_adapter" and adapters' = "\<lambda>_. Some timeout_adapter"]
    by blast
qed

text \<open>What adapters do to the attempts of a run: at most one new attempt per call.\<close>

definition one_attempt :: "adapter \<Rightarrow> bool" where
  "one_attempt operation \<longleftrightarrow> (\<forall>node ctx en ctx' en' e. operation node ctx en = (ctx', en', e) \<longrightarrow>
     length (xc_attempts ctx') \<le> length (xc_attempts ctx) + 1 \<and>
     rq_budget (xc_request ctx') = rq_budget (xc_request ctx))"

text \<open>
  C38: retrying never exceeds the attempt budget. For an adapter that records at most one attempt
  per call, the retry loop leaves at most as many attempts as the budget allows (or as many as
  there were before), and makes no more than one call more than the retries of the rule.
\<close>

theorem with_retries_within_budget:
  assumes "one_attempt operation" and "with_retries operation node retry left ctx en = (ctx', en', e)"
  shows "int (length (xc_attempts ctx')) \<le>
      max (int (length (xc_attempts ctx))) (b_attempts (rq_budget (xc_request ctx))) \<and>
    length (xc_attempts ctx') \<le> length (xc_attempts ctx) + left + 1"
  using assms
proof (induction operation node retry left ctx en rule: with_retries.induct)
  case (1 operation node retry left ctx en)
  let ?limit = "b_attempts (rq_budget (xc_request ctx))"
  show ?case
  proof (cases "?limit \<le> int (length (xc_attempts ctx))")
    case True
    then show ?thesis using 1(3) by (simp add: with_retries.simps)
  next
    case False
    obtain ctx1 en1 e1 where op: "operation node ctx en = (ctx1, en1, e1)" by (metis prod_cases3)
    have one: "length (xc_attempts ctx1) \<le> length (xc_attempts ctx) + 1"
      "rq_budget (xc_request ctx1) = rq_budget (xc_request ctx)"
      using 1(2) [unfolded one_attempt_def, rule_format, OF op] by simp_all
    show ?thesis
    proof (cases "ctx' = ctx1")
      case True
      then show ?thesis using one False by simp
    next
      case other: False
      then obtain x code where x: "e1 = Some x" "ex_class x = ExcExecution" "adapter_retry_code x = Some code"
        "left \<noteq> 0" "retry_code_allowed code (map py_casefold (rr_retryable_codes retry))"
        and rec: "with_retries operation node retry (left - 1) ctx1
          (if 0 < rr_backoff_seconds retry then en1\<lparr>en_clock := en_clock en1 + rr_backoff_seconds retry\<rparr> else en1) = (ctx', en', e)"
        using 1(3) False op
        by (subst (asm) with_retries.simps) (auto split: option.split_asm if_split_asm)
      have "int (length (xc_attempts ctx')) \<le> max (int (length (xc_attempts ctx1))) (b_attempts (rq_budget (xc_request ctx1))) \<and>
          length (xc_attempts ctx') \<le> length (xc_attempts ctx1) + (left - 1) + 1"
        by (rule 1(1) [OF False op [symmetric] refl x(1) _ x(3)]) (use x rec 1(2) in auto)
      then show ?thesis using one False x(4) by simp
    qed
  qed
qed


theorem with_retries_within_budget_witness:
  "(case with_retries timeout_adapter post_node default_retry 9 sample_context \<lparr>en_clock = 0, en_next_id = 1\<rparr> of
      (ctx, _, e) \<Rightarrow> length (xc_attempts ctx) \<le> 6)"
proof -
  obtain ctx en e where r: "with_retries timeout_adapter post_node default_retry 9 sample_context
      \<lparr>en_clock = 0, en_next_id = 1\<rparr> = (ctx, en, e)" by (metis prod_cases3)
  have "one_attempt timeout_adapter" by (auto simp: one_attempt_def timeout_adapter_def)
  from with_retries_within_budget [OF this r] have "length (xc_attempts ctx) \<le> 6"
    by (simp add: sample_context_def ExecutionContext_def default_request_def default_budget_def)
  then show ?thesis by (simp only: r prod.case)
qed

subsection \<open>Parallel execution\<close>

text \<open>The branches with a result, and the unchanged branches of a step.\<close>

definition settled :: "branch list \<Rightarrow> nat set" where
  "settled bs = {i. i < length bs \<and> (\<exists>res. br_result (bs ! i) = Some (Inr res))}"

definition reported :: "branch list \<Rightarrow> nat set" where
  "reported bs = {i. i < length bs \<and> (\<exists>x. br_result (bs ! i) = Some x)}"

lemma run_branch_step:
  assumes "run_branch tbl r p root_id started i (bs, st) = (bs1, st1)" and i: "i < length bs"
  shows "length bs1 = length bs" "i \<in> reported bs1" "reported bs \<subseteq> reported bs1"
    "\<forall>j. j \<noteq> i \<longrightarrow> bs1 ! j = bs ! j" "map br_node bs1 = map br_node bs"
proof -
  obtain ctx res st' where e: "execute_node tbl r p (br_node (bs ! i)) root_id started (br_context (bs ! i)) st = (ctx, res, st')"
    by (metis prod_cases3)
  have bs1: "bs1 = bs[i := (bs ! i)\<lparr>br_context := ctx, br_result := Some res\<rparr>]"
    using assms(1) by (simp add: run_branch_def e)
  show "length bs1 = length bs" "i \<in> reported bs1" "reported bs \<subseteq> reported bs1" "\<forall>j. j \<noteq> i \<longrightarrow> bs1 ! j = bs ! j"
    using i by (auto simp: bs1 reported_def nth_list_update)
  show "map br_node bs1 = map br_node bs"
    using i by (simp add: bs1 map_update list_update_same_conv)
qed

lemma fold_run_branch:
  "fold (\<lambda>i. run_branch (tbl i) r p root_id started i) js (bs, st) = (bs', st') \<Longrightarrow> set js \<subseteq> {..<length bs} \<Longrightarrow>
   length bs' = length bs \<and> set js \<subseteq> reported bs' \<and> reported bs \<subseteq> reported bs' \<and>
   (\<forall>j. j \<notin> set js \<longrightarrow> bs' ! j = bs ! j) \<and> map br_node bs' = map br_node bs"
proof (induction js arbitrary: bs st)
  case (Cons i js)
  obtain bs1 st1 where e: "run_branch (tbl i) r p root_id started i (bs, st) = (bs1, st1)" by (metis surj_pair)
  have rest: "fold (\<lambda>i. run_branch (tbl i) r p root_id started i) js (bs1, st1) = (bs', st')" and i: "i < length bs"
    using Cons.prems by (simp_all add: e)
  note step = run_branch_step [OF e i]
  have "set js \<subseteq> {..<length bs1}" using Cons.prems(2) step(1) by simp
  from Cons.IH [OF rest this] show ?case using step by auto
qed simp

lemma first_exception_None:
  "first_exception bs js = None \<Longrightarrow> set js \<subseteq> reported bs \<Longrightarrow> set js \<subseteq> settled bs"
proof
  fix i assume f: "first_exception bs js = None" and sub: "set js \<subseteq> reported bs" and i: "i \<in> set js"
  have "List.find (\<lambda>i. case br_result (bs ! i) of Some (Inl _) \<Rightarrow> True | _ \<Rightarrow> False) js = None"
    using f by (auto simp: first_exception_def find_Some_iff split: option.split_asm sum.split_asm)
  then have "\<not> (case br_result (bs ! i) of Some (Inl _) \<Rightarrow> True | _ \<Rightarrow> False)" using i by (auto simp: find_None_iff)
  then show "i \<in> settled bs"
    using sub i by (auto simp: reported_def settled_def split: option.split_asm sum.split_asm)
qed

lemma set_reason_result: "length (set_reason reason js bs) = length bs \<and> map br_node (set_reason reason js bs) = map br_node bs \<and>
  (\<forall>i. br_result (set_reason reason js bs ! i) = br_result (bs ! i))"
proof (induction js arbitrary: bs)
  case (Cons i js)
  define bs1 where "bs1 = bs[i := (bs ! i)\<lparr>br_context := (br_context (bs ! i))\<lparr>xc_sensitive_state :=
        assoc_set ''_parallel_cancellation_reason'' reason (xc_sensitive_state (br_context (bs ! i)))\<rparr>\<rparr>]"
  have "br_result (bs1 ! x) = br_result (bs ! x)" for x
    by (cases "i < length bs"; cases "x = i") (simp_all add: bs1_def list_update_beyond)
  moreover have "length bs1 = length bs" by (simp add: bs1_def)
  moreover have "map br_node bs1 = map br_node bs"
    by (cases "i < length bs") (simp_all add: bs1_def map_update list_update_same_conv list_update_beyond)
  moreover have "set_reason reason (i # js) bs = set_reason reason js bs1"
    by (simp add: set_reason_def bs1_def)
  ultimately show ?case using Cons.IH [of bs1] by simp
qed (simp add: set_reason_def)

lemma settle_loser_node: "br_node (settle_loser b) = br_node b"
  by (simp add: settle_loser_def split: option.split sum.split)

lemma settle_loser_keeps: "br_result b = Some (Inr res) \<Longrightarrow> settle_loser b = b"
  by (simp add: settle_loser_def)

lemma settle_loser_reports: "br_result b = Some x \<Longrightarrow> \<exists>y. br_result (settle_loser b) = Some y"
  by (auto simp: settle_loser_def split: sum.split)

lemma next_wave_subset: "pending \<noteq> [] \<Longrightarrow> set (next_wave waves pending) \<subseteq> set pending"
proof (cases waves)
  case (Cons w ws)
  assume p: "pending \<noteq> []"
  show ?thesis
  proof (cases "remdups (filter (\<lambda>i. i \<in> set pending) w)")
    case (Cons x xs)
    have "set (remdups (filter (\<lambda>i. i \<in> set pending) w)) \<subseteq> set pending" by auto
    then show ?thesis using \<open>waves = w # ws\<close> Cons by (simp add: next_wave_def)
  qed (use p \<open>waves = w # ws\<close> in \<open>simp add: next_wave_def\<close>)
qed (simp add: next_wave_def)

lemma cancel_settles:
  assumes "fold (cancel_branch ad itr r p root_id started finished) rest (set_reason reason rest bs1, st1) = (bs2, st2)"
    and "set rest \<union> settled bs1 = {..<length bs1}" and "set rest \<inter> settled bs1 = {}"
    and "first_exception (map settle_loser bs2) rest = None"
  shows "length bs2 = length bs1 \<and> settled (map settle_loser bs2) = {..<length bs1} \<and>
    map br_node (map settle_loser bs2) = map br_node bs1"
proof -
  define bs0 where "bs0 = set_reason reason rest bs1"
  have bs0: "length bs0 = length bs1" "\<And>i. br_result (bs0 ! i) = br_result (bs1 ! i)" "map br_node bs0 = map br_node bs1"
    using set_reason_result by (auto simp: bs0_def)
  have "set rest \<subseteq> {..<length bs0}" using assms(2) bs0(1) by auto
  from fold_run_branch [where tbl = "\<lambda>i. if i \<in> set finished then ad else itr",
      OF assms(1) [unfolded cancel_branch_def bs0_def [symmetric]] this]
  have f: "length bs2 = length bs1" "set rest \<subseteq> reported bs2" "\<forall>j. j \<notin> set rest \<longrightarrow> bs2 ! j = bs0 ! j"
      "map br_node bs2 = map br_node bs1"
    using bs0(1,3) by auto
  have "set rest \<subseteq> reported (map settle_loser bs2)"
    using f(2) settle_loser_reports by (force simp: reported_def)
  then have r: "set rest \<subseteq> settled (map settle_loser bs2)"
    by (rule first_exception_None [OF assms(4)])
  have "j \<in> settled (map settle_loser bs2)" if "j \<in> settled bs1" for j
  proof -
    have "j \<notin> set rest" using that assms(3) by blast
    then have "br_result (bs2 ! j) = br_result (bs1 ! j)" using f(3) bs0(2) by simp
    then show ?thesis using that f(1) settle_loser_keeps by (auto simp: settled_def)
  qed
  then have "{..<length bs1} \<subseteq> settled (map settle_loser bs2)" using r assms(2) by blast
  moreover have "settled (map settle_loser bs2) \<subseteq> {..<length bs1}" using f(1) by (auto simp: settled_def)
  moreover have "map br_node (map settle_loser bs2) = map br_node bs1"
    using f(4) by (simp add: comp_def settle_loser_node)
  ultimately show ?thesis using f(1) by blast
qed

lemma parallel_loop_settled:
  "parallel_loop ad itr r p root_id started baseline finished waves pending bs st = (Inr bs', st') \<Longrightarrow>
   set pending \<union> settled bs = {..<length bs} \<Longrightarrow> set pending \<inter> settled bs = {} \<Longrightarrow>
   length bs' = length bs \<and> settled bs' = {..<length bs} \<and> map br_node bs' = map br_node bs"
proof (induction ad itr r p root_id started baseline finished waves pending bs st rule: parallel_loop.induct)
  case (1 ad itr r p root_id started baseline finished waves pending bs st)
  show ?case
  proof (cases "pending = []")
    case True
    then show ?thesis using 1(2,3) by (simp add: parallel_loop.simps)
  next
    case False
    define wave where "wave = next_wave waves pending"
    define rest where "rest = filter (\<lambda>i. i \<notin> set wave) pending"
    obtain bs1 st1 where f: "fold (run_branch ad r p root_id started) wave (bs, st) = (bs1, st1)" by (metis surj_pair)
    have w: "set wave \<subseteq> {..<length bs}" using next_wave_subset [OF False] 1(3) by (auto simp: wave_def)
    have ws: "set wave \<subseteq> set pending" using next_wave_subset [OF False] by (simp add: wave_def)
    have s1: "length bs1 = length bs" "set wave \<subseteq> reported bs1" "\<forall>j. j \<notin> set wave \<longrightarrow> bs1 ! j = bs ! j"
        "map br_node bs1 = map br_node bs"
      using fold_run_branch [where tbl = "\<lambda>_. ad", OF f w] by auto
    note unf = 1(2) [unfolded parallel_loop.simps [of ad itr r p root_id started baseline finished waves pending bs st]
        if_not_P [OF False] Let_def wave_def [symmetric] rest_def [symmetric] f prod.case]
    have noexc: "first_exception bs1 wave = None" using unf by (cases "first_exception bs1 wave") auto
    have "set wave \<subseteq> settled bs1" by (rule first_exception_None [OF noexc s1(2)])
    moreover have outside: "x \<in> settled bs1 \<longleftrightarrow> x \<in> settled bs" if "x \<notin> set wave" for x
      using that s1(1,3) by (simp add: settled_def)
    ultimately have settled1: "settled bs1 = set wave \<union> settled bs"
      using 1(4) ws by blast
    have cover: "set rest \<union> settled bs1 = {..<length bs1}" "set rest \<inter> settled bs1 = {}"
      using settled1 s1(1) 1(3,4) w by (auto simp: rest_def)
    define stop where "stop = (rest \<noteq> [] \<and> (list_ex (\<lambda>i. accepted_winner baseline (bs1 ! i)) wave \<or> list_ex (\<lambda>i. stops (bs1 ! i)) wave))"
    note unf2 = unf [unfolded noexc option.case stop_def [symmetric]]
    show ?thesis
    proof (cases stop)
      case True
      define reason where "reason = (if list_ex (\<lambda>i. accepted_winner baseline (bs1 ! i)) wave then ''early_stop''
          else ''parallel_sibling_stopped_execution'')"
      obtain bs2 st2 where g: "fold (cancel_branch ad itr r p root_id started finished) rest (set_reason reason rest bs1, st1) = (bs2, st2)"
        by (metis surj_pair)
      have "bs' = map settle_loser bs2" "first_exception (map settle_loser bs2) rest = None"
        using unf2 True g unfolding reason_def [symmetric] by (auto split: option.split_asm)
      then show ?thesis using cancel_settles [OF g cover] s1(1,4) by auto
    next
      case False
      then have "parallel_loop ad itr r p root_id started baseline finished (tl waves) rest bs1 st1 = (Inr bs', st')"
        using unf2 by simp
      moreover note 1(1) [OF \<open>pending \<noteq> []\<close> wave_def rest_def refl f [symmetric] refl noexc refl]
      ultimately show ?thesis using cover s1 False unfolding stop_def by auto
    qed
  qed
qed

text \<open>
  A parallel batch settles every branch. Whatever the order in which its tasks end, are
  cancelled, or finish while they are cancelled, a batch in which no task raises returns one
  result for each of its nodes; the source's check for missing results never fires.
\<close>

theorem parallel_batch_settles:
  assumes "length contexts = length nodes"
    and "parallel_loop ad itr r p root_id started baseline (sc_finished sched) (sc_waves sched) [0..<length nodes]
      (map2 (\<lambda>n c. \<lparr>br_node = n, br_context = c, br_result = None\<rparr>) nodes contexts) st = (Inr bs, st')"
  shows "execute_parallel_batch ad itr sched r p nodes contexts root_id started baseline st = (Inr bs, st') \<and>
    map br_node bs = nodes \<and> (\<forall>b\<in>set bs. \<exists>res. br_result b = Some (Inr res))"
proof -
  define bs0 where "bs0 = map2 (\<lambda>n c. \<lparr>br_node = n, br_context = c, br_result = None\<rparr>) nodes contexts"
  have len: "length bs0 = length nodes" using assms(1) by (simp add: bs0_def)
  have none: "settled bs0 = {}" by (auto simp: settled_def bs0_def)
  have "map br_node bs0 = nodes" using assms(1) by (simp add: bs0_def list_eq_iff_nth_eq)
  then have loop: "length bs = length nodes \<and> settled bs = {..<length nodes} \<and> map br_node bs = nodes"
    using parallel_loop_settled [OF assms(2) [folded bs0_def]] len none by (simp add: atLeast0LessThan)
  have "\<exists>res. br_result b = Some (Inr res)" if b: "b \<in> set bs" for b
  proof -
    obtain i where "i < length bs" "bs ! i = b" using b by (auto simp: in_set_conv_nth)
    moreover from this have "i \<in> settled bs" using loop by simp
    ultimately show ?thesis by (auto simp: settled_def)
  qed
  then have all: "map br_node bs = nodes" "\<forall>b\<in>set bs. \<exists>res. br_result b = Some (Inr res)"
    using loop by auto
  then have "\<not> list_ex (\<lambda>b. br_result b = None) bs" by (force simp: list_ex_iff)
  then show ?thesis
    using all assms(2) by (simp add: execute_parallel_batch_def Let_def bs0_def [symmetric] len)
qed


definition leaf_node :: "string \<Rightarrow> plan_node" where
  "leaf_node i = (PlanNode i ''clean_text'' ''reader'' [])\<lparr>pn_parallel_group := Some ''static-readers''\<rparr>"

definition leaf_branches :: "branch list" where
  "leaf_branches = map2 (\<lambda>n c. \<lparr>br_node = n, br_context = c, br_result = None\<rparr>)
     [leaf_node ''a'', leaf_node ''b''] [sample_context, sample_context]"

lemma leaf_loop:
  "case parallel_loop (\<lambda>_. Some quiet_adapter) (\<lambda>_. Some timeout_adapter) 1 post_plan 0 0 (capture sample_context) [] [[1]]
     [0..<2] leaf_branches empty_state of (Inr bs, _) \<Rightarrow> True | _ \<Rightarrow> False"
  by code_simp

theorem parallel_batch_settles_witness:
  "case execute_parallel_batch (\<lambda>_. Some quiet_adapter) (\<lambda>_. Some timeout_adapter) \<lparr>sc_waves = [[1]], sc_finished = []\<rparr>
     1 post_plan [leaf_node ''a'', leaf_node ''b''] [sample_context, sample_context] 0 0 (capture sample_context) empty_state of
     (Inr bs, _) \<Rightarrow> map br_node bs = [leaf_node ''a'', leaf_node ''b''] | _ \<Rightarrow> False"
proof -
  obtain bs st where "parallel_loop (\<lambda>_. Some quiet_adapter) (\<lambda>_. Some timeout_adapter) 1 post_plan 0 0
      (capture sample_context) [] [[1]] [0..<2] leaf_branches empty_state = (Inr bs, st)"
    using leaf_loop by (auto split: prod.split_asm sum.split_asm)
  then have "parallel_loop (\<lambda>_. Some quiet_adapter) (\<lambda>_. Some timeout_adapter) 1 post_plan 0 0 (capture sample_context)
      (sc_finished \<lparr>sc_waves = [[1]], sc_finished = []\<rparr>) (sc_waves \<lparr>sc_waves = [[1]], sc_finished = []\<rparr>)
      [0..<length [leaf_node ''a'', leaf_node ''b'']]
      (map2 (\<lambda>n c. \<lparr>br_node = n, br_context = c, br_result = None\<rparr>)
        [leaf_node ''a'', leaf_node ''b''] [sample_context, sample_context]) empty_state = (Inr bs, st)"
    unfolding leaf_branches_def by (simp only: schedule.simps list.size numeral_2_eq_2 add_0 add_Suc_right add_0_right)
  from parallel_batch_settles [OF _ this] show ?thesis by simp
qed

subsection \<open>Dependencies\<close>

text \<open>Every completed identifier is that of a node whose dependencies are completed.\<close>

definition dependency_closed :: "plan_node set \<Rightarrow> string set \<Rightarrow> bool" where
  "dependency_closed ns completed \<longleftrightarrow>
     (\<forall>i\<in>completed. \<exists>n\<in>ns. pn_id n = i \<and> set (pn_dependencies n) \<subseteq> completed)"

lemma dependency_closed_insert:
  "dependency_closed ns c \<Longrightarrow> n \<in> ns \<Longrightarrow> set (pn_dependencies n) \<subseteq> c \<Longrightarrow> dependency_closed ns (insert (pn_id n) c)"
  unfolding dependency_closed_def by blast

lemma absorb_completed:
  "rp_completed (absorb n res pr) = (if ne_completed res then insert (pn_id n) (rp_completed pr) else rp_completed pr)"
  by (simp add: absorb_def)

lemma absorb_closed:
  "dependency_closed ns (rp_completed pr) \<Longrightarrow> n \<in> ns \<Longrightarrow> set (pn_dependencies n) \<subseteq> rp_completed pr \<Longrightarrow>
   dependency_closed ns (rp_completed (absorb n res pr))"
  by (simp add: absorb_completed dependency_closed_insert)

lemma absorb_branches_closed:
  "dependency_closed ns (rp_completed pr) \<Longrightarrow>
   (\<forall>b\<in>set bs. br_node b \<in> ns \<and> set (pn_dependencies (br_node b)) \<subseteq> rp_completed pr) \<Longrightarrow>
   dependency_closed ns (rp_completed (fold (absorb_branch baseline) bs pr))"
proof (induction bs arbitrary: pr)
  case (Cons b bs)
  define pr1 where "pr1 = absorb_branch baseline b pr"
  have "dependency_closed ns (rp_completed pr1)"
    unfolding pr1_def absorb_branch_def by (rule absorb_closed) (use Cons.prems in auto)
  moreover have "rp_completed pr \<subseteq> rp_completed pr1"
    by (auto simp: pr1_def absorb_branch_def absorb_completed)
  ultimately have "dependency_closed ns (rp_completed (fold (absorb_branch baseline) bs pr1))"
    using Cons.prems by (intro Cons.IH) auto
  then show ?case by (simp add: pr1_def)
qed simp

text \<open>The nodes of a batch and of the branches it returns.\<close>

lemma parallel_contexts_length:
  "parallel_contexts ctx n = Inr cs \<Longrightarrow> length cs = n"
  by (auto simp: parallel_contexts_def partition_parallel_budgets_def split: if_split_asm)

lemma execute_parallel_batch_nodes:
  assumes "execute_parallel_batch ad itr sched r p nodes contexts root_id started baseline st = (Inr bs, st')"
    and len: "length contexts = length nodes"
  shows "map br_node bs = nodes"
proof -
  define bs0 where "bs0 = map2 (\<lambda>n c. \<lparr>br_node = n, br_context = c, br_result = None\<rparr>) nodes contexts"
  have bs0: "length bs0 = length nodes" "settled bs0 = {}" "map br_node bs0 = nodes"
    using len by (auto simp: bs0_def settled_def list_eq_iff_nth_eq)
  obtain y st1 where l: "parallel_loop ad itr r p root_id started baseline (sc_finished sched) (sc_waves sched)
      [0..<length nodes] bs0 st = (y, st1)" by (metis surj_pair)
  have "y = Inr bs"
    using assms(1) by (cases y) (auto simp: execute_parallel_batch_def Let_def l bs0(1) simp flip: bs0_def split: if_split_asm)
  from parallel_loop_settled [OF l [unfolded this]] show ?thesis using bs0 by (simp add: atLeast0LessThan)
qed

lemma grow_batch_nodes:
  "set (grow_batch g completed acc room nodes) \<subseteq> set nodes \<and>
   (\<forall>n\<in>set (grow_batch g completed acc room nodes). set (pn_dependencies n) \<subseteq> completed)"
  by (induction g completed acc room nodes rule: grow_batch.induct) (auto simp: batch_break_def)

lemma batch_nodes:
  assumes "ns \<noteq> []" and "1 < length (parallel_batch ns completed ctx)" and "n \<in> set (parallel_batch ns completed ctx)"
  shows "n \<in> set ns" "set (pn_dependencies n) \<subseteq> completed"
proof -
  obtain g acc room where "parallel_batch ns completed ctx = grow_batch g completed acc room ns"
    using assms(2) by (auto simp: parallel_batch_def Let_def split: if_split_asm)
  then show "n \<in> set ns" "set (pn_dependencies n) \<subseteq> completed"
    using grow_batch_nodes [of g completed acc room ns] assms(3) by auto
qed

text \<open>
  C7: the completed nodes of a run are closed under dependencies. In whatever order the branches
  of parallel batches end, whatever the adapters do, and whatever stops the loop, the identifiers
  recorded as completed are those of nodes of the plan all of whose dependencies are recorded as
  completed too.
\<close>

theorem run_dependency_closed:
  assumes "run_nodes ad itr r p root_id started scheds (fp_nodes p)
    \<lparr>rp_context = ctx, rp_completed = {}, rp_flags = NodeExecution\<rparr> st = (Inr pr, st')"
  shows "dependency_closed (set (fp_nodes p)) (rp_completed pr)"
proof -
  have "case (Inr pr :: py_exc + run_progress) of Inl e \<Rightarrow> True | Inr pr' \<Rightarrow> dependency_closed (set (fp_nodes p)) (rp_completed pr')"
  proof (rule run_nodes_invariant [where I = "\<lambda>pr _. dependency_closed (set (fp_nodes p)) (rp_completed pr)"
        and N = "set (fp_nodes p)", OF assms], goal_cases)
    case 2 then show ?case by (simp add: dependency_closed_def)
  next
    case 4 then show ?case by (simp add: skip_dependencies_def)
  next
    case 5 then show ?case by (simp add: skip_fallback_def dependency_closed_insert)
  next
    case (6 node pr st ctx y st')
    then show ?case by (auto intro!: absorb_closed split: sum.split)
  next
    case (7 ns batch contexts sched pr st y st')
    have "br_node b \<in> set (fp_nodes p) \<and> set (pn_dependencies (br_node b)) \<subseteq> rp_completed pr"
      if "b \<in> set bs" "y = Inr bs" for b bs
    proof -
      have "map br_node bs = batch"
        using 7(7) that(2) parallel_contexts_length [OF 7(6)] by (auto intro: execute_parallel_batch_nodes)
      then have "br_node b \<in> set batch" using that(1) by (metis image_eqI set_map)
      then show ?thesis using batch_nodes [OF 7(2)] 7(3-5) by blast
    qed
    then show ?case using 7(1) by (auto intro!: absorb_branches_closed split: sum.split)
  qed auto
  then show ?thesis by simp
qed


definition chain_plan :: fetch_plan where
  "chain_plan = new_plan 0 0 (default_request ''http://h/'')
     [leaf_node ''a'', leaf_node ''b'', PlanNode ''c'' ''html_conversion'' ''reader'' [''a'', ''b'']]"

definition chain_run :: "run_progress exec" where
  "chain_run = run_nodes (\<lambda>_. Some quiet_adapter) (\<lambda>_. Some timeout_adapter) 1 chain_plan 0 0
     [\<lparr>sc_waves = [[1], [0]], sc_finished = []\<rparr>] (fp_nodes chain_plan)
     \<lparr>rp_context = sample_context, rp_completed = {}, rp_flags = NodeExecution\<rparr> empty_state"

lemma chain_run_completes:
  "case chain_run of (Inr pr, _) \<Rightarrow> ''a'' \<in> rp_completed pr \<and> ''b'' \<in> rp_completed pr \<and> ''c'' \<in> rp_completed pr | _ \<Rightarrow> False"
  by code_simp

theorem run_dependency_closed_witness:
  "case chain_run of (Inr pr, _) \<Rightarrow> ''c'' \<in> rp_completed pr \<and> dependency_closed (set (fp_nodes chain_plan)) (rp_completed pr) | _ \<Rightarrow> False"
proof -
  obtain pr st where r: "chain_run = (Inr pr, st)" and c: "''c'' \<in> rp_completed pr"
    using chain_run_completes by (auto split: prod.split_asm sum.split_asm)
  from run_dependency_closed [OF r [unfolded chain_run_def]] c show ?thesis by (simp add: r)
qed

subsection \<open>A run from start to end\<close>

lemma logs_events: "logs r l l' \<Longrightarrow> r' \<noteq> r \<Longrightarrow> events l' r' = events l r'"
  by (auto simp: logs_def events_def filter_empty_conv)

lemma find_run_map:
  "(\<And>row. rw_run_id (f row) = rw_run_id row) \<Longrightarrow>
   List.find (\<lambda>row. rw_run_id row = r') (map (\<lambda>row. if rw_run_id row = r then f row else row) rows) =
   (if r' = r then map_option f (List.find (\<lambda>row. rw_run_id row = r') rows) else List.find (\<lambda>row. rw_run_id row = r') rows)"
  by (induction rows) auto

text \<open>What \<^const>\<open>update_run\<close> does to the snapshots.\<close>

lemma update_run_find:
  assumes "update_run dump l r state result = Inr l'"
  shows "find_run l' r' = (if r' = r then map_option (\<lambda>row. case result of
      None \<Rightarrow> row\<lparr>rw_state := state\<rparr>
    | Some res \<Rightarrow> row\<lparr>rw_state := state, rw_result :=
        Some (json_stored (sanitize_payload [] (r \<in> lg_authenticated l) (dump res)))\<rparr>) (find_run l r') else find_run l r')"
    and "find_run l r \<noteq> None"
proof -
  show "find_run l r \<noteq> None" using assms by (auto simp: update_run_def split: option.split_asm)
  then show "find_run l' r' = (if r' = r then map_option (\<lambda>row. case result of
      None \<Rightarrow> row\<lparr>rw_state := state\<rparr>
    | Some res \<Rightarrow> row\<lparr>rw_state := state, rw_result :=
        Some (json_stored (sanitize_payload [] (r \<in> lg_authenticated l) (dump res)))\<rparr>) (find_run l r') else find_run l r')"
    using assms
    by (cases result) (auto simp: update_run_def Let_def set_run_def find_run_def find_run_map publish_def split: if_split_asm)
qed

lemma close_context_sel [simp]:
  "xc_attempts (close_context p ctx) = xc_attempts ctx" "xc_artifacts (close_context p ctx) = xc_artifacts ctx"
  "xc_accepted (close_context p ctx) = xc_accepted ctx"
  by (simp_all add: close_context_def record_outcome_def Let_def)

lemma sanitize_result_sel [simp]:
  "fr_run_id (sanitize_result rq x) = fr_run_id x" "fr_status (sanitize_result rq x) = fr_status x"
  "fr_provenance_event_ids (sanitize_result rq x) = fr_provenance_event_ids x"
  "fr_remaining_budget (sanitize_result rq x) = fr_remaining_budget x"
  by (simp_all add: sanitize_result_def)

text \<open>The end of a run that returns.\<close>

lemma finish_run_returns:
  assumes "finish_run dump r p request root_id started pr st = (Inr result, st')"
  obtains final l where "ev_event_type final = ''run.finished''" "ev_run_id final = r"
    "lg_events l = lg_events (es_ledger st) @ [stored_event (es_ledger st) final]"
    "logs r (es_ledger st) l" "update_run dump l r FINISHED (Some result) = Inr (es_ledger st')"
    "fr_run_id result = r" "fr_status result = run_status (rp_context pr) (rp_flags pr)" "valid_result result"
    "fr_provenance_event_ids result = map ev_event_id (events l r)"
proof -
  define ctx where "ctx = close_context p (rp_context pr)"
  define status where "status = run_status ctx (rp_flags pr)"
  define res where "res = build_result r p ctx status (run_remaining_budget p ctx started (en_clock (es_env st)))
      (map ev_event_id (events (es_ledger st) r))"
  obtain y st1 where e: "emit r ''run.finished'' ''executor'' (details [(''status'', result_status_value status)]) [root_id] st = (y, st1)"
    by (metis surj_pair)
  note unf = assms [unfolded finish_run_def Let_def ctx_def [symmetric] status_def [symmetric] res_def [symmetric] e]
  obtain final where y: "y = Inr final" using unf by (cases y) auto
  define pub where "pub = sanitize_result request (res\<lparr>fr_provenance_event_ids := fr_provenance_event_ids res @ [ev_event_id final]\<rparr>)"
  note unf2 = unf [unfolded y bind_exec_simps pub_def [symmetric]]
  have v: "valid_result pub" using unf2 by (auto split: if_split_asm)
  obtain l' where u: "update_run dump (es_ledger st1) r FINISHED (Some pub) = Inr l'"
    using unf2 v by (cases "update_run dump (es_ledger st1) r FINISHED (Some pub)") (auto simp: with_ledger_def)
  have st': "result = pub" "es_ledger st' = l'" using unf2 v u by (auto simp: with_ledger_def)
  note f = emit_result(2) [OF e y]
  show thesis
  proof (rule that [of final "es_ledger st1"])
    show "fr_status result = run_status (rp_context pr) (rp_flags pr)"
      by (simp add: st' pub_def res_def build_result_def status_def run_status_def ctx_def)
    show "fr_provenance_event_ids result = map ev_event_id (events (es_ledger st1) r)"
      using f by (simp add: st' pub_def res_def build_result_def events_def)
  qed (use f emit_logs [OF e] u v in \<open>simp_all add: st' pub_def res_def build_result_def\<close>)
qed


text \<open>
  C4: a run that returns is recorded completely. When \<open>execute\<close> returns a result, the ledger has
  the events of the ledger before, then events of this run only, the first \<open>plan.started\<close> and the
  last \<open>run.finished\<close>; the result lists the identifiers of all events of the run in their order;
  the run's snapshot is finished and stores the sanitised result; the snapshots and events of
  other runs are untouched; and the result satisfies the field constraints of the contract.
\<close>

theorem execute_records_run:
  assumes "execute dump adapters interrupt scheds r p st = (Inr result, st')"
  shows "(\<exists>start mid final. all_events (es_ledger st') = all_events (es_ledger st) @ start # mid @ [final] \<and>
      ev_event_type start = ''plan.started'' \<and> ev_event_type final = ''run.finished'' \<and>
      (\<forall>e\<in>set (start # mid @ [final]). ev_run_id e = r)) \<and>
    fr_run_id result = r \<and> fr_provenance_event_ids result = map ev_event_id (events (es_ledger st') r) \<and>
    (\<exists>row. find_run (es_ledger st') r = Some row \<and> rw_state row = FINISHED \<and>
      rw_result row = Some (json_stored (sanitize_payload [] (r \<in> lg_authenticated (es_ledger st)) (dump result)))) \<and>
    (\<forall>r'. r' \<noteq> r \<longrightarrow> find_run (es_ledger st') r' = find_run (es_ledger st) r' \<and>
      events (es_ledger st') r' = events (es_ledger st) r') \<and>
    valid_result result"
proof -
  obtain request where rq: "execution_request p = Inr request"
    using assms by (cases "execution_request p") (auto simp: execute_def)
  obtain l1 where u1: "update_run dump (es_ledger st) r RUNNING None = Inr l1"
    using assms by (cases "update_run dump (es_ledger st) r RUNNING None") (auto simp: execute_def rq with_ledger_def Let_def)
  define st1 where "st1 = st\<lparr>es_ledger := l1\<rparr>"
  obtain y st2 where e: "emit r ''plan.started'' ''planner''
      (details [(''plan_id'', nat_to_str (fp_plan_id p)), (''classifier'', fp_classifier p)]) [] st1 = (y, st2)" by (metis surj_pair)
  obtain start where y: "y = Inr start"
    using assms by (cases y) (auto simp: execute_def rq with_ledger_def Let_def u1 e simp flip: st1_def)
  obtain z st3 where n: "run_nodes adapters interrupt r p (ev_event_id start) (en_clock (es_env st)) scheds (fp_nodes p)
      \<lparr>rp_context = ExecutionContext r request, rp_completed = {}, rp_flags = NodeExecution\<rparr> st2 = (z, st3)"
    by (metis surj_pair)
  obtain pr where z: "z = Inr pr" and
    fin: "finish_run dump r p request (ev_event_id start) (en_clock (es_env st)) pr st3 = (Inr result, st')"
    using assms by (cases z) (auto simp: execute_def rq with_ledger_def Let_def u1 e y n simp flip: st1_def)
  obtain final l where f: "ev_event_type final = ''run.finished''" "ev_run_id final = r"
    "lg_events l = lg_events (es_ledger st3) @ [stored_event (es_ledger st3) final]"
    "logs r (es_ledger st3) l" "update_run dump l r FINISHED (Some result) = Inr (es_ledger st')"
    "fr_run_id result = r" "fr_status result = run_status (rp_context pr) (rp_flags pr)" "valid_result result"
    "fr_provenance_event_ids result = map ev_event_id (events l r)"
    by (rule finish_run_returns [OF fin])
  have logs: "logs r l1 l"
    using logs_trans [OF emit_logs [OF e] logs_trans [OF run_nodes_logs [OF n] f(4)]] by (simp add: st1_def)
  note s = emit_result(2) [OF e y]
  obtain mid where mid: "lg_events (es_ledger st3) = lg_events (es_ledger st2) @ mid" "\<forall>e\<in>set mid. ev_run_id e = r"
    using run_nodes_logs [OF n] by (auto simp: logs_def)
  have ev': "lg_events (es_ledger st') = lg_events l" by (rule update_run_keys(1) [OF f(5)])
  have ev1: "lg_events l1 = lg_events (es_ledger st)" by (rule update_run_keys(1) [OF u1])
  have "lg_events (es_ledger st') = lg_events (es_ledger st) @ stored_event l1 start # mid @ [stored_event (es_ledger st3) final]"
    using s f(3) mid(1) ev' ev1 by (simp add: st1_def)
  moreover have "ev_event_type (stored_event l1 start) = ''plan.started''"
    "ev_event_type (stored_event (es_ledger st3) final) = ''run.finished''"
    using s f(1) by (simp_all add: stored_event_def)
  moreover have "lg_authenticated l = lg_authenticated (es_ledger st)" "lg_runs l = lg_runs l1"
    using logs update_run_keys(3) [OF u1] by (auto simp: logs_def)
  moreover have "find_run l r' = find_run l1 r'" for r' using \<open>lg_runs l = lg_runs l1\<close> by (simp add: find_run_def)
  moreover have "events l1 = events (es_ledger st)" "events l = events (es_ledger st')"
    using ev1 ev' by (auto simp: events_def fun_eq_iff)
  ultimately show ?thesis
    using f mid(2) s update_run_find [OF u1] update_run_find [OF f(5)] logs_events [OF logs]
    unfolding all_events_def by (intro conjI exI [of _ "stored_event l1 start"] exI [of _ mid]
        exI [of _ "stored_event (es_ledger st3) final"] allI impI) auto
qed


definition run_state0 :: exec_state where
  "run_state0 = \<lparr>es_env = \<lparr>en_clock = 0, en_next_id = 1\<rparr>,
     es_ledger = EventLedger\<lparr>lg_runs := [\<lparr>rw_run_id = 7, rw_state = QUEUED, rw_submitted_at = 0,
       rw_request = VDict [], rw_result = None\<rparr>]\<rparr>\<rparr>"

definition bound_chain_plan :: fetch_plan where
  "bound_chain_plan = (case bind_execution_request chain_plan (fp_request chain_plan) of Inr p \<Rightarrow> p | Inl _ \<Rightarrow> chain_plan)"

definition chain_execution :: "fetch_result exec" where
  "chain_execution = execute (\<lambda>_. VNone) (\<lambda>_. Some quiet_adapter) (\<lambda>_. Some timeout_adapter)
     [\<lparr>sc_waves = [[1], [0]], sc_finished = []\<rparr>] 7 bound_chain_plan run_state0"

lemma chain_execution_returns: "case chain_execution of (Inr _, _) \<Rightarrow> True | _ \<Rightarrow> False"
  by code_simp

theorem execute_records_run_witness:
  "case chain_execution of (Inr result, st) \<Rightarrow>
     fr_provenance_event_ids result = map ev_event_id (events (es_ledger st) 7) \<and>
     (\<exists>row. find_run (es_ledger st) 7 = Some row \<and> rw_state row = FINISHED) | _ \<Rightarrow> False"
proof -
  obtain result st where r: "chain_execution = (Inr result, st)"
    using chain_execution_returns by (auto split: prod.split_asm sum.split_asm)
  from execute_records_run [OF r [unfolded chain_execution_def]] show ?thesis by (auto simp: r)
qed

text \<open>
  A run that has used its whole archive budget cannot finish. The remaining budget then has
  no archive members left, which the contract of \<open>ResourceBudget\<close> refuses: validating the result
  raises after \<open>run.finished\<close> is logged, and the run's snapshot stays as it was.
\<close>

theorem archive_budget_used_up_raises:
  assumes "b_archive_members (rq_budget (fp_request p)) \<le> int_consumed (rp_context pr) ''archive_members''"
  shows "\<exists>e st'. finish_run dump r p request root_id started pr st = (Inl e, st') \<and>
    lg_runs (es_ledger st') = lg_runs (es_ledger st)"
proof -
  define ctx where "ctx = close_context p (rp_context pr)"
  define status where "status = run_status ctx (rp_flags pr)"
  define rem where "rem = run_remaining_budget p ctx started (en_clock (es_env st))"
  obtain y st1 where e: "emit r ''run.finished'' ''executor'' (details [(''status'', result_status_value status)]) [root_id] st = (y, st1)"
    by (metis surj_pair)
  have "int_consumed ctx = int_consumed (rp_context pr)" by (simp add: int_consumed_def fun_eq_iff ctx_def)
  then have "b_archive_members rem = 0"
    using assms by (simp add: rem_def run_remaining_budget_def Let_def)
  then have inv: "\<not> valid_budget rem" by (simp add: valid_budget_def)
  have runs: "lg_runs (es_ledger st1) = lg_runs (es_ledger st)" using emit_logs [OF e] by (simp add: logs_def)
  show ?thesis
  proof (cases y)
    case (Inl a)
    then show ?thesis
      using runs by (simp add: finish_run_def Let_def e flip: ctx_def status_def rem_def)
  next
    case (Inr final)
    then show ?thesis
      using runs inv by (simp add: finish_run_def Let_def e valid_result_def build_result_def flip: ctx_def status_def rem_def)
  qed
qed

definition archive_progress :: run_progress where
  "archive_progress = \<lparr>rp_context = sample_context\<lparr>xc_attempts :=
      [sample_attempt\<lparr>at_consumed_budget := [(''archive_members'', 10000)]\<rparr>]\<rparr>,
     rp_completed = {}, rp_flags = NodeExecution\<rparr>"

theorem archive_budget_used_up_raises_witness:
  "\<exists>e st'. finish_run (\<lambda>_. VNone) 7 chain_plan (fp_request chain_plan) 0 0 archive_progress run_state0 = (Inl e, st') \<and>
     lg_runs (es_ledger st') = lg_runs (es_ledger run_state0)"
  by (rule archive_budget_used_up_raises) code_simp

end
