(* ===== verification/Scheduling.thy ===== *)
theory Scheduling
  imports Py_Urls Models
begin

section \<open>The network scheduler: scheduling.py\<close>

text \<open>
  The scheduler that limits concurrent network operations globally and per host and spaces the
  starts on one host. Its methods run to completion on the event loop; between them the tasks that
  wait for or hold capacity are interleaved. A future is a cell of \<open>ns_futures\<close>, which the
  awaiting task and the queue share. \<^verbatim>\<open>loop.time()\<close> is read once per iteration of \<^verbatim>\<open>_pump\<close>: the
  parameter \<open>clock\<close> gives these readings. A timer is the time it is set to.
\<close>

subsection \<open>Normal form of a host\<close>

definition invalid_host :: py_error where
  "invalid_host = ValueError ''network scheduler host is invalid''"

definition label_char :: "char \<Rightarrow> bool" where
  "label_char c \<longleftrightarrow> is_lower c \<or> is_digit c"

text \<open>\<^verbatim>\<open>[a-z0-9](?:[a-z0-9-]{0,61}[a-z0-9])?\<close>\<close>

definition domain_label :: "string \<Rightarrow> bool" where
  "domain_label s \<longleftrightarrow> s \<noteq> [] \<and> length s \<le> 63 \<and> label_char (hd s) \<and> label_char (last s) \<and>
     list_all (\<lambda>c. label_char c \<or> c = CHR ''-'') s"

definition bracketed :: "string \<Rightarrow> bool" where
  "bracketed s \<longleftrightarrow> py_startswith s ''['' \<and> py_endswith s '']''"

definition host_candidate :: "string \<Rightarrow> string res" where
  "host_candidate host =
     (if bracketed host then Inr (butlast (tl host))
      else if CHR ''['' \<in> set host \<or> CHR '']'' \<in> set host then Inl invalid_host
      else if py_endswith host ''.''
      then (if py_endswith (butlast host) ''.'' then Inl invalid_host else Inr (butlast host))
      else Inr host)"

definition normalize_name :: "string \<Rightarrow> string res" where
  "normalize_name candidate =
     (case idna_encode candidate of
        Inl _ \<Rightarrow> Inl invalid_host
      | Inr encoded \<Rightarrow>
          (let normalized = py_casefold encoded in
           if normalized = [] \<or> 253 < length normalized \<or>
              \<not> list_all domain_label (py_split (CHR ''.'') normalized)
           then Inl invalid_host else Inr normalized))"

definition normalize_host :: "string \<Rightarrow> string res" where
  "normalize_host host =
     (if host = [] \<or> py_strip host \<noteq> host \<or> CHR ''%'' \<in> set host then Inl invalid_host
      else bind_res (host_candidate host) (\<lambda>candidate.
        case ip_address_of candidate of
          Some address \<Rightarrow>
            if bracketed host \<and> ip_version address \<noteq> 6 then Inl invalid_host
            else Inr (py_casefold (ip_compressed address))
        | None \<Rightarrow>
            if bracketed host then Inl invalid_host
            else if CHR '':'' \<in> set candidate \<or>
              (candidate \<noteq> [] \<and> list_all (\<lambda>c. is_digit c \<or> c = CHR ''.'') candidate) then Inl invalid_host
            else normalize_name candidate))"

subsection \<open>State\<close>

datatype future = FPending | FCancelled | FGranted

record waiter =
  wt_id :: nat
  wt_host :: string

record network_scheduler =
  ns_global_concurrency :: nat
  ns_per_host_concurrency :: nat
  ns_interval :: time
  ns_host_history_limit :: nat
  ns_active_global :: nat
  ns_active_by_host :: "(string \<times> nat) list"
  ns_last_started :: "(string \<times> time) list"
  ns_waiters :: "waiter list"
  ns_futures :: "nat \<Rightarrow> future"
  ns_loop :: "nat option"
  ns_wake_at :: "time option"

definition NetworkScheduler :: "int \<Rightarrow> int \<Rightarrow> rat \<Rightarrow> int \<Rightarrow> network_scheduler res" where
  "NetworkScheduler global_concurrency per_host interval history =
     (if global_concurrency \<le> 0 \<or> per_host \<le> 0 \<or> interval < 0 \<or> history \<le> 0
      then Inl (ValueError ''network scheduler limits are invalid'')
      else Inr \<lparr>ns_global_concurrency = nat global_concurrency, ns_per_host_concurrency = nat per_host,
        ns_interval = interval, ns_host_history_limit = nat history, ns_active_global = 0,
        ns_active_by_host = [], ns_last_started = [], ns_waiters = [], ns_futures = (\<lambda>_. FPending),
        ns_loop = None, ns_wake_at = None\<rparr>)"

definition active_on :: "network_scheduler \<Rightarrow> string \<Rightarrow> nat" where
  "active_on s host = (case map_of (ns_active_by_host s) host of Some n \<Rightarrow> n | None \<Rightarrow> 0)"

definition assoc_del :: "'k \<Rightarrow> ('k \<times> 'v) list \<Rightarrow> ('k \<times> 'v) list" where
  "assoc_del k xs = filter (\<lambda>(k', _). k' \<noteq> k) xs"

subsection \<open>Admission\<close>

fun prune_history :: "time \<Rightarrow> time \<Rightarrow> (string \<times> time) list \<Rightarrow> (string \<times> time) list" where
  "prune_history interval now [] = []"
| "prune_history interval now ((host, started) # hs) =
     (if now < started + interval then (host, started) # hs else prune_history interval now hs)"

definition prune_host_history :: "time \<Rightarrow> network_scheduler \<Rightarrow> network_scheduler" where
  "prune_host_history now s = s\<lparr>ns_last_started :=
     (if ns_interval s = 0 then [] else prune_history (ns_interval s) now (ns_last_started s))\<rparr>"

text \<open>Why a waiter cannot start now: its host is busy, or it has to wait until a time.\<close>

datatype verdict = Busy | ReadyAt time | Eligible

definition waiter_verdict :: "time \<Rightarrow> network_scheduler \<Rightarrow> waiter \<Rightarrow> verdict" where
  "waiter_verdict now s w =
     (if ns_per_host_concurrency s \<le> active_on s (wt_host w) then Busy
      else case map_of (ns_last_started s) (wt_host w) of
        Some started \<Rightarrow> if now < started + ns_interval s then ReadyAt (started + ns_interval s) else Eligible
      | None \<Rightarrow>
          if 0 < ns_interval s \<and> ns_host_history_limit s \<le> length (ns_last_started s)
          then ReadyAt (snd (hd (ns_last_started s)) + ns_interval s) else Eligible)"

definition earlier :: "time option \<Rightarrow> time \<Rightarrow> time option" where
  "earlier wake_at t = Some (case wake_at of None \<Rightarrow> t | Some u \<Rightarrow> min u t)"

fun next_eligible_waiter ::
  "time \<Rightarrow> network_scheduler \<Rightarrow> nat \<Rightarrow> time option \<Rightarrow> waiter list \<Rightarrow> nat option \<times> time option" where
  "next_eligible_waiter now s i wake_at [] = (None, wake_at)"
| "next_eligible_waiter now s i wake_at (w # ws) =
     (case waiter_verdict now s w of
        Busy \<Rightarrow> next_eligible_waiter now s (i + 1) wake_at ws
      | ReadyAt t \<Rightarrow> next_eligible_waiter now s (i + 1) (earlier wake_at t) ws
      | Eligible \<Rightarrow> (Some i, wake_at))"

definition admit :: "time \<Rightarrow> nat \<Rightarrow> network_scheduler \<Rightarrow> network_scheduler" where
  "admit now i s =
     (let w = ns_waiters s ! i in
      s\<lparr>ns_waiters := take i (ns_waiters s) @ drop (i + 1) (ns_waiters s),
        ns_active_global := ns_active_global s + 1,
        ns_active_by_host := assoc_set (wt_host w) (active_on s (wt_host w) + 1) (ns_active_by_host s),
        ns_last_started := (if 0 < ns_interval s
          then assoc_del (wt_host w) (ns_last_started s) @ [(wt_host w, now)] else ns_last_started s),
        ns_futures := (ns_futures s)(wt_id w := FGranted)\<rparr>)"

lemma next_eligible_index:
  "next_eligible_waiter now s i wake_at ws = (Some j, t) \<Longrightarrow> i \<le> j \<and> j < i + length ws"
  by (induction now s i wake_at ws rule: next_eligible_waiter.induct) (auto split: verdict.split_asm)

text \<open>The loop of \<^verbatim>\<open>_pump\<close>, with the number of the clock reading.\<close>

function pump_loop :: "(nat \<Rightarrow> time) \<Rightarrow> nat \<Rightarrow> network_scheduler \<Rightarrow> network_scheduler" where
  "pump_loop clock k s =
     (if ns_global_concurrency s \<le> ns_active_global s \<or> ns_waiters s = [] then s
      else let s1 = prune_host_history (clock k) s in
        case next_eligible_waiter (clock k) s1 0 None (ns_waiters s1) of
          (None, wake_at) \<Rightarrow> s1\<lparr>ns_wake_at := wake_at\<rparr>
        | (Some i, _) \<Rightarrow> pump_loop clock (k + 1) (admit (clock k) i s1))"
  by pat_completeness auto
termination
  by (relation "measure (\<lambda>(_, _, s). length (ns_waiters s))")
    (auto simp: admit_def Let_def prune_host_history_def dest!: next_eligible_index [OF sym])

declare pump_loop.simps [simp del]

definition discard_cancelled_waiters :: "network_scheduler \<Rightarrow> network_scheduler" where
  "discard_cancelled_waiters s =
     s\<lparr>ns_waiters := filter (\<lambda>w. ns_futures s (wt_id w) \<noteq> FCancelled) (ns_waiters s)\<rparr>"

definition pump :: "(nat \<Rightarrow> time) \<Rightarrow> network_scheduler \<Rightarrow> network_scheduler" where
  "pump clock s = pump_loop clock 0 (discard_cancelled_waiters (s\<lparr>ns_wake_at := None\<rparr>))"

subsection \<open>Operations\<close>

definition event_loop :: "nat \<Rightarrow> network_scheduler \<Rightarrow> network_scheduler res" where
  "event_loop loop s =
     (case ns_loop s of
        None \<Rightarrow> Inr (s\<lparr>ns_loop := Some loop\<rparr>)
      | Some current \<Rightarrow>
          if current = loop then Inr s
          else if ns_active_global s \<noteq> 0 \<or> ns_waiters s \<noteq> []
          then Inl (PyRuntimeError ''network scheduler cannot span active event loops'')
          else Inr (s\<lparr>ns_wake_at := None, ns_last_started := [], ns_loop := Some loop\<rparr>))"

text \<open>\<^verbatim>\<open>_acquire\<close> up to the point where it waits: a new future joins the queue.\<close>

definition enqueue :: "nat \<Rightarrow> nat \<Rightarrow> string \<Rightarrow> network_scheduler \<Rightarrow> network_scheduler res" where
  "enqueue loop i host s =
     bind_res (event_loop loop s) (\<lambda>s1.
       Inr (s1\<lparr>ns_waiters := ns_waiters s1 @ [\<lparr>wt_id = i, wt_host = host\<rparr>],
         ns_futures := (ns_futures s1)(i := FPending)\<rparr>))"

definition acquire :: "nat \<Rightarrow> (nat \<Rightarrow> time) \<Rightarrow> nat \<Rightarrow> string \<Rightarrow> network_scheduler \<Rightarrow> network_scheduler res" where
  "acquire loop clock i host s = bind_res (enqueue loop i host s) (\<lambda>s1. Inr (pump clock s1))"

definition give_back :: "nat \<Rightarrow> string \<Rightarrow> network_scheduler \<Rightarrow> network_scheduler res" where
  "give_back loop host s =
     (let active = active_on s host in
      if ns_active_global s = 0 \<or> active = 0
      then Inl (PyRuntimeError ''network scheduler capacity accounting underflow'')
      else event_loop loop
          (s\<lparr>ns_active_global := ns_active_global s - 1,
             ns_active_by_host := (if active = 1 then assoc_del host (ns_active_by_host s)
               else assoc_set host (active - 1) (ns_active_by_host s))\<rparr>))"

definition release :: "nat \<Rightarrow> (nat \<Rightarrow> time) \<Rightarrow> string \<Rightarrow> network_scheduler \<Rightarrow> network_scheduler res" where
  "release loop clock host s = bind_res (give_back loop host s) (\<lambda>s1. Inr (pump clock s1))"

definition discard_waiter :: "nat \<Rightarrow> network_scheduler \<Rightarrow> network_scheduler" where
  "discard_waiter i s = s\<lparr>ns_waiters := filter (\<lambda>w. wt_id w \<noteq> i) (ns_waiters s)\<rparr>"

text \<open>Cancelling a task that waits for a future cancels the future.\<close>

definition cancel_future :: "nat \<Rightarrow> network_scheduler \<Rightarrow> network_scheduler" where
  "cancel_future i s = (if ns_futures s i = FPending then s\<lparr>ns_futures := (ns_futures s)(i := FCancelled)\<rparr> else s)"

text \<open>The handler of \<^verbatim>\<open>_acquire\<close> for an exception thrown into the wait.\<close>

definition acquire_interrupted ::
  "nat \<Rightarrow> (nat \<Rightarrow> time) \<Rightarrow> nat \<Rightarrow> string \<Rightarrow> network_scheduler \<Rightarrow> network_scheduler res" where
  "acquire_interrupted loop clock i host s =
     (if ns_futures s i = FGranted then release loop clock host s
      else Inr (pump clock (discard_waiter i s)))"

definition wake :: "(nat \<Rightarrow> time) \<Rightarrow> network_scheduler \<Rightarrow> network_scheduler" where
  "wake clock s = (let s1 = s\<lparr>ns_wake_at := None\<rparr> in if ns_loop s1 = None then s1 else pump clock s1)"

text \<open>\<^verbatim>\<open>slot\<close> up to the wait: the host is normalised and the deadline checked first.\<close>

definition slot_enter ::
  "nat \<Rightarrow> (nat \<Rightarrow> time) \<Rightarrow> nat \<Rightarrow> string \<Rightarrow> rat \<Rightarrow> network_scheduler \<Rightarrow> (string \<times> network_scheduler) res" where
  "slot_enter loop clock i host deadline_seconds s =
     bind_res (normalize_host host) (\<lambda>normalized.
       if deadline_seconds \<le> 0 then Inl (PyRuntimeError ''network scheduling deadline is exhausted'')
       else bind_res (acquire loop clock i normalized s) (\<lambda>s'. Inr (normalized, s')))"

end
