(* ===== verification/Scheduling_Correct.thy ===== *)
theory Scheduling_Correct
  imports Scheduling
begin

section \<open>Correctness of the network scheduler\<close>

text \<open>
  The scheduler under any interleaving of the tasks that use it: capacity, spacing of starts and
  progress, as invariants of a step relation.
\<close>

subsection \<open>The waiters a pump admits\<close>

function pump_grants :: "(nat \<Rightarrow> time) \<Rightarrow> nat \<Rightarrow> network_scheduler \<Rightarrow> (waiter \<times> time) list" where
  "pump_grants clock k s =
     (if ns_global_concurrency s \<le> ns_active_global s \<or> ns_waiters s = [] then []
      else let s1 = prune_host_history (clock k) s in
        case next_eligible_waiter (clock k) s1 0 None (ns_waiters s1) of
          (None, _) \<Rightarrow> []
        | (Some i, _) \<Rightarrow> (ns_waiters s ! i, clock k) # pump_grants clock (k + 1) (admit (clock k) i s1))"
  by pat_completeness auto
termination
  by (relation "measure (\<lambda>(_, _, s). length (ns_waiters s))")
    (auto simp: admit_def Let_def prune_host_history_def dest!: next_eligible_index [OF sym])

declare pump_grants.simps [simp del]

subsection \<open>The invariant\<close>

text \<open>
  \<open>holders\<close> are the waiters that were admitted and have not released, \<open>starts\<close> the log of all
  admissions, oldest first.
\<close>

definition capacity_ok :: "network_scheduler \<Rightarrow> waiter list \<Rightarrow> bool" where
  "capacity_ok s holders \<longleftrightarrow> ns_active_global s = length holders \<and> ns_active_global s \<le> ns_global_concurrency s \<and>
     (\<forall>h. active_on s h = length (filter (\<lambda>w. wt_host w = h) holders) \<and> active_on s h \<le> ns_per_host_concurrency s)"

definition queue_ok :: "network_scheduler \<Rightarrow> waiter list \<Rightarrow> bool" where
  "queue_ok s holders \<longleftrightarrow> distinct (map wt_id (holders @ ns_waiters s)) \<and>
     (\<forall>w\<in>set holders. ns_futures s (wt_id w) = FGranted) \<and> (\<forall>w\<in>set (ns_waiters s). ns_futures s (wt_id w) \<noteq> FGranted)"

definition history_ok :: "time \<Rightarrow> network_scheduler \<Rightarrow> bool" where
  "history_ok now s \<longleftrightarrow> distinct (map fst (ns_last_started s)) \<and> sorted (map snd (ns_last_started s)) \<and>
     length (ns_last_started s) \<le> ns_host_history_limit s \<and> (\<forall>(h, t)\<in>set (ns_last_started s). t \<le> now) \<and> 0 \<le> ns_interval s"

definition spaced :: "time \<Rightarrow> (string \<times> time) list \<Rightarrow> bool" where
  "spaced interval starts \<longleftrightarrow> sorted_wrt (\<lambda>(h, t) (h', t'). h = h' \<longrightarrow> t + interval \<le> t') starts"

text \<open>A start that still counts against its host is in the history.\<close>

definition remembered :: "time \<Rightarrow> network_scheduler \<Rightarrow> (string \<times> time) list \<Rightarrow> bool" where
  "remembered now s starts \<longleftrightarrow> (\<forall>(h, t)\<in>set starts. t + ns_interval s \<le> now \<or>
     (\<exists>t'. map_of (ns_last_started s) h = Some t' \<and> t \<le> t'))"

definition sched_inv :: "time \<Rightarrow> network_scheduler \<Rightarrow> waiter list \<Rightarrow> (string \<times> time) list \<Rightarrow> bool" where
  "sched_inv now s holders starts \<longleftrightarrow> capacity_ok s holders \<and> queue_ok s holders \<and> history_ok now s \<and>
     spaced (ns_interval s) starts \<and> remembered now s starts"

subsection \<open>Preservation\<close>

lemma prune_history_suffix: "\<exists>gone. hs = gone @ prune_history iv now hs \<and> (\<forall>(h, t)\<in>set gone. t + iv \<le> now)"
proof (induction iv now hs rule: prune_history.induct)
  case (2 iv now host started hs)
  show ?case
  proof (cases "now < started + iv")
    case False
    then obtain gone where "hs = gone @ prune_history iv now hs" "\<forall>(h, t)\<in>set gone. t + iv \<le> now" using 2 by auto
    then have "(host, started) # hs = ((host, started) # gone) @ prune_history iv now ((host, started) # hs)"
      "\<forall>(h, t)\<in>set ((host, started) # gone). t + iv \<le> now" using False by auto
    then show ?thesis by blast
  qed simp
qed simp

lemma prune_sel [simp]:
  "ns_waiters (prune_host_history now s) = ns_waiters s" "ns_futures (prune_host_history now s) = ns_futures s"
  "ns_active_global (prune_host_history now s) = ns_active_global s" "ns_interval (prune_host_history now s) = ns_interval s"
  "ns_global_concurrency (prune_host_history now s) = ns_global_concurrency s"
  "ns_per_host_concurrency (prune_host_history now s) = ns_per_host_concurrency s"
  "ns_host_history_limit (prune_host_history now s) = ns_host_history_limit s"
  "ns_active_by_host (prune_host_history now s) = ns_active_by_host s"
  "active_on (prune_host_history now s) = active_on s"
  by (simp_all add: prune_host_history_def active_on_def fun_eq_iff)

lemma history_okD: "history_ok now s \<Longrightarrow> (h, t) \<in> set (ns_last_started s) \<Longrightarrow> t \<le> now"
  by (auto simp: history_ok_def)

lemma prune_splits:
  assumes "history_ok now s" and "now \<le> c"
  shows "\<exists>gone. ns_last_started s = gone @ ns_last_started (prune_host_history c s) \<and>
    (\<forall>(h, t)\<in>set gone. t + ns_interval s \<le> c)"
proof (cases "ns_interval s = 0")
  case True
  have "t \<le> c" if "(h, t) \<in> set (ns_last_started s)" for h t
    using history_okD [OF assms(1) that] assms(2) by simp
  then show ?thesis by (auto simp: prune_host_history_def True)
next
  case False
  then show ?thesis
    using prune_history_suffix [of "ns_last_started s" "ns_interval s" c] by (simp add: prune_host_history_def)
qed

lemma history_prune:
  assumes "history_ok now s" and "now \<le> c"
  shows "history_ok c (prune_host_history c s)"
proof -
  define ls where "ls = ns_last_started (prune_host_history c s)"
  obtain gone where g: "ns_last_started s = gone @ ls" using prune_splits [OF assms] by (auto simp: ls_def)
  have "t \<le> c" if "(h, t) \<in> set ls" for h t
    using history_okD [OF assms(1), of h t] that g assms(2) by simp
  moreover have "distinct (map fst ls)" "sorted (map snd ls)" "length ls \<le> ns_host_history_limit s" "0 \<le> ns_interval s"
    using assms(1) g by (simp_all add: history_ok_def sorted_append)
  ultimately show ?thesis unfolding history_ok_def prune_sel ls_def [symmetric] by auto
qed

lemma remembered_prune:
  assumes "history_ok now s" and "remembered now s starts" and "now \<le> c"
  shows "remembered c (prune_host_history c s) starts"
  unfolding remembered_def
proof (clarify)
  fix h t assume ht: "(h, t) \<in> set starts"
    and none: "\<not> (\<exists>t'. map_of (ns_last_started (prune_host_history c s)) h = Some t' \<and> t \<le> t')"
  obtain gone where g: "ns_last_started s = gone @ ns_last_started (prune_host_history c s)"
    "\<forall>(h, t)\<in>set gone. t + ns_interval s \<le> c"
    using prune_splits [OF assms(1,3)] by blast
  have d: "distinct (map fst (ns_last_started (prune_host_history c s)))"
    using history_prune [OF assms(1,3)] by (simp add: history_ok_def)
  consider "t + ns_interval s \<le> now" | t' where "map_of (ns_last_started s) h = Some t'" "t \<le> t'"
    using assms(2) ht unfolding remembered_def by blast
  then show "t + ns_interval (prune_host_history c s) \<le> c"
  proof cases
    case 2
    have "(h, t') \<notin> set (ns_last_started (prune_host_history c s))"
      using none 2(2) map_of_is_SomeI [OF d] by blast
    then have "(h, t') \<in> set gone" using map_of_SomeD [OF 2(1)] g(1) by (metis Un_iff set_append)
    then have "t' + ns_interval s \<le> c" using g(2) by blast
    then show ?thesis using 2(2) by simp
  qed (use assms(3) in simp)
qed

lemma prune_inv:
  assumes "sched_inv now s holders starts" and "now \<le> c"
  shows "sched_inv c (prune_host_history c s) holders starts"
  using assms history_prune [of now s c] remembered_prune [of now s starts c]
  unfolding sched_inv_def capacity_ok_def queue_ok_def prune_sel by blast

text \<open>Admitting a waiter that is eligible now.\<close>

lemma next_eligible_verdict:
  "next_eligible_waiter now s i wake_at ws = (Some j, t) \<Longrightarrow> waiter_verdict now s (ws ! (j - i)) = Eligible"
proof (induction now s i wake_at ws rule: next_eligible_waiter.induct)
  case (2 now s i wake_at w ws)
  show ?case
  proof (cases "waiter_verdict now s w = Eligible")
    case True
    then show ?thesis using 2(3) by simp
  next
    case False
    have "\<exists>wake'. next_eligible_waiter now s (i + 1) wake' ws = (Some j, t)"
      using 2(3) False by (auto split: verdict.split_asm)
    then have "i + 1 \<le> j" using next_eligible_index by blast
    then have "(w # ws) ! (j - i) = ws ! (j - (i + 1))" by (metis Suc_diff_Suc Suc_eq_plus1 less_eq_Suc_le nth_Cons_Suc)
    then show ?thesis using 2 False by (auto split: verdict.split_asm)
  qed
qed simp

lemma eligibleE:
  assumes "waiter_verdict now s w = Eligible"
  shows "active_on s (wt_host w) < ns_per_host_concurrency s"
    and "map_of (ns_last_started s) (wt_host w) = Some t \<Longrightarrow> t + ns_interval s \<le> now"
    and "map_of (ns_last_started s) (wt_host w) = None \<Longrightarrow> 0 < ns_interval s \<Longrightarrow>
      length (ns_last_started s) < ns_host_history_limit s"
  using assms by (auto simp: waiter_verdict_def split: if_split_asm option.split_asm)

lemma map_of_assoc_del: "map_of (assoc_del k xs) = (map_of xs)(k := None)"
  by (induction xs) (auto simp: assoc_del_def)

lemma assoc_del_keys: "fst ` set (assoc_del k xs) = fst ` set xs - {k}"
  by (auto simp: assoc_del_def image_iff)

lemma admit_sel [simp]:
  "ns_interval (admit now i s) = ns_interval s" "ns_global_concurrency (admit now i s) = ns_global_concurrency s"
  "ns_per_host_concurrency (admit now i s) = ns_per_host_concurrency s"
  "ns_host_history_limit (admit now i s) = ns_host_history_limit s"
  "ns_active_global (admit now i s) = ns_active_global s + 1"
  "active_on (admit now i s) h = active_on s h + (if h = wt_host (ns_waiters s ! i) then 1 else 0)"
  "ns_futures (admit now i s) = (ns_futures s)(wt_id (ns_waiters s ! i) := FGranted)"
  by (simp_all add: admit_def Let_def active_on_def map_of_assoc_set split: option.split)

lemma admit_capacity:
  assumes "capacity_ok s holders" and "ns_active_global s < ns_global_concurrency s"
    and "active_on s (wt_host w) < ns_per_host_concurrency s" and "w = ns_waiters s ! i"
  shows "capacity_ok (admit now i s) (holders @ [w])"
  unfolding capacity_ok_def
proof (intro conjI allI)
  fix h
  have c: "active_on s h = length (filter (\<lambda>w. wt_host w = h) holders)" "active_on s h \<le> ns_per_host_concurrency s"
    using assms(1) unfolding capacity_ok_def by blast+
  show "active_on (admit now i s) h = length (filter (\<lambda>w. wt_host w = h) (holders @ [w]))"
    using c(1) assms(4) by simp
  show "active_on (admit now i s) h \<le> ns_per_host_concurrency (admit now i s)"
    using c(2) assms(3,4) by auto
qed (use assms(1,2) in \<open>simp_all add: capacity_ok_def\<close>)

lemma admit_queue:
  assumes "queue_ok s holders" and "i < length (ns_waiters s)" and "w = ns_waiters s ! i"
  shows "queue_ok (admit now i s) (holders @ [w])"
proof -
  define a b where "a = take i (ns_waiters s)" and "b = drop (i + 1) (ns_waiters s)"
  have ws: "ns_waiters s = a @ w # b" using assms(2,3) by (simp add: a_def b_def id_take_nth_drop)
  have new: "ns_waiters (admit now i s) = a @ b" by (simp add: admit_def Let_def a_def b_def)
  have d: "distinct (map wt_id holders @ map wt_id a @ wt_id w # map wt_id b)"
    using assms(1) by (simp add: queue_ok_def ws)
  have "ns_futures (admit now i s) (wt_id v) = FGranted" if "v \<in> set (holders @ [w])" for v
    using that assms(1,3) by (auto simp: queue_ok_def)
  moreover have "ns_futures (admit now i s) (wt_id v) \<noteq> FGranted" if "v \<in> set (a @ b)" for v
  proof -
    have "wt_id w \<notin> wt_id ` set (a @ b)" using d by auto
    then have "wt_id v \<noteq> wt_id w" using that by (metis imageI)
    moreover have "v \<in> set (ns_waiters s)" using that ws by auto
    ultimately show ?thesis using assms(1,3) by (simp add: queue_ok_def)
  qed
  moreover have "distinct (map wt_id ((holders @ [w]) @ a @ b))" using d by auto
  ultimately show ?thesis unfolding queue_ok_def new by blast
qed

lemma admit_history:
  assumes "history_ok now s" and "waiter_verdict now s (ns_waiters s ! i) = Eligible"
  shows "history_ok now (admit now i s)"
proof (cases "0 < ns_interval s")
  case False
  then show ?thesis using assms(1) by (simp add: history_ok_def) (simp add: admit_def Let_def)
next
  case True
  define h where "h = wt_host (ns_waiters s ! i)"
  define ls where "ls = assoc_del h (ns_last_started s)"
  have new: "ns_last_started (admit now i s) = ls @ [(h, now)]" using True by (simp add: admit_def Let_def h_def ls_def)
  have sub: "set ls \<subseteq> set (ns_last_started s)" by (auto simp: ls_def assoc_del_def)
  have "length (ls @ [(h, now)]) \<le> ns_host_history_limit s"
  proof (cases "map_of (ns_last_started s) h")
    case None
    have "length ls \<le> length (ns_last_started s)" by (simp add: ls_def assoc_del_def)
    then show ?thesis using eligibleE(3) [OF assms(2) None [unfolded h_def] True] by simp
  next
    case (Some t)
    then have "length ls < length (ns_last_started s)"
      unfolding ls_def assoc_del_def using map_of_SomeD [OF Some] by (intro length_filter_less) auto
    then show ?thesis using assms(1) by (simp add: history_ok_def)
  qed
  moreover have "distinct (map fst ls)" "sorted (map snd ls)"
    using assms(1) by (auto simp: history_ok_def ls_def assoc_del_def distinct_map_filter sorted_filter)
  moreover have "h \<notin> fst ` set ls" by (simp add: ls_def assoc_del_keys)
  moreover have past: "\<forall>(k, t)\<in>set ls. t \<le> now"
    using sub history_okD [OF assms(1)] by blast
  moreover from past have "\<forall>t\<in>set (map snd ls). t \<le> now" by auto
  moreover have "0 \<le> ns_interval s" using True by simp
  ultimately show ?thesis unfolding history_ok_def new admit_sel by (simp add: sorted_append)
qed

lemma admit_starts:
  assumes "history_ok now s" and "remembered now s starts" and "spaced (ns_interval s) starts"
    and "waiter_verdict now s (ns_waiters s ! i) = Eligible"
  defines "h \<equiv> wt_host (ns_waiters s ! i)"
  shows "spaced (ns_interval s) (starts @ [(h, now)])" and "remembered now (admit now i s) (starts @ [(h, now)])"
proof -
  have old: "t + ns_interval s \<le> now" if ht: "(h, t) \<in> set starts" for t
  proof -
    consider "t + ns_interval s \<le> now" | t' where "map_of (ns_last_started s) h = Some t'" "t \<le> t'"
      using bspec [OF assms(2) [unfolded remembered_def] ht] by auto
    then show ?thesis
    proof cases
      case 2
      then show ?thesis using eligibleE(2) [OF assms(4), of t'] by (simp add: h_def)
    qed
  qed
  then show "spaced (ns_interval s) (starts @ [(h, now)])"
    using assms(3) by (auto simp: spaced_def sorted_wrt_append)
  have m: "map_of (ns_last_started (admit now i s)) k =
      (if 0 < ns_interval s \<and> k = h then Some now else map_of (ns_last_started s) k)" for k
    by (simp add: admit_def Let_def h_def map_of_assoc_del map_add_def split: option.split)
  have iv: "0 \<le> ns_interval s" using assms(1) by (simp add: history_ok_def)
  show "remembered now (admit now i s) (starts @ [(h, now)])"
    unfolding remembered_def admit_sel m
  proof clarify
    fix k t assume kt: "(k, t) \<in> set (starts @ [(h, now)])"
      and none: "\<not> (\<exists>t'. (if 0 < ns_interval s \<and> k = h then Some now else map_of (ns_last_started s) k) = Some t' \<and> t \<le> t')"
    show "t + ns_interval s \<le> now"
    proof (cases "(k, t) \<in> set starts")
      case True
      show ?thesis
      proof (cases "k = h")
        case False
        then have "\<not> (\<exists>t'. map_of (ns_last_started s) k = Some t' \<and> t \<le> t')" using none by simp
        moreover have "t + ns_interval s \<le> now \<or> (\<exists>t'. map_of (ns_last_started s) k = Some t' \<and> t \<le> t')"
          using bspec [OF assms(2) [unfolded remembered_def] True] by simp
        ultimately show ?thesis by blast
      qed (use old True in simp)
    next
      case False
      then have "k = h" "t = now" using kt by auto
      moreover from this have "\<not> 0 < ns_interval s" using none by auto
      ultimately show ?thesis using iv by simp
    qed
  qed
qed

lemma admit_inv:
  assumes "sched_inv now s holders starts" and "ns_active_global s < ns_global_concurrency s"
    and "waiter_verdict now s (ns_waiters s ! i) = Eligible" and "i < length (ns_waiters s)" and "w = ns_waiters s ! i"
  shows "sched_inv now (admit now i s) (holders @ [w]) (starts @ [(wt_host w, now)])"
  using assms(1) admit_capacity [OF _ assms(2) eligibleE(1) [OF assms(3), folded assms(5)] assms(5)]
    admit_queue [OF _ assms(4,5)] admit_history [OF _ assms(3)] admit_starts [OF _ _ _ assms(3), folded assms(5)]
  unfolding sched_inv_def admit_sel by blast


subsection \<open>The pump\<close>

definition host_start :: "waiter \<times> time \<Rightarrow> string \<times> time" where
  "host_start g = (wt_host (fst g), snd g)"

text \<open>
  \<open>attended c s\<close>: at time \<open>c\<close> no capacity is left, or every waiter's host is busy or the timer is
  set to a time not after the one the waiter has to wait for.
\<close>

definition covered :: "verdict \<Rightarrow> time option \<Rightarrow> bool" where
  "covered v timer = (case v of Busy \<Rightarrow> True | Eligible \<Rightarrow> False | ReadyAt t \<Rightarrow> \<exists>u. timer = Some u \<and> u \<le> t)"

definition attended :: "time \<Rightarrow> network_scheduler \<Rightarrow> bool" where
  "attended c s \<longleftrightarrow> ns_global_concurrency s \<le> ns_active_global s \<or>
     (\<forall>w\<in>set (ns_waiters s). covered (waiter_verdict c s w) (ns_wake_at s))"

lemma waiter_verdict_cong:
  assumes "active_on s' = active_on s" "ns_last_started s' = ns_last_started s" "ns_interval s' = ns_interval s"
    "ns_per_host_concurrency s' = ns_per_host_concurrency s" "ns_host_history_limit s' = ns_host_history_limit s"
  shows "waiter_verdict c s' = waiter_verdict c s"
  by (rule ext) (simp only: waiter_verdict_def assms)

lemma earlier_le: "\<exists>v. earlier x t = Some v \<and> v \<le> t" "x = Some u \<Longrightarrow> \<exists>v. earlier x t = Some v \<and> v \<le> u"
  by (auto simp: earlier_def split: option.split)

lemma next_eligible_None:
  "next_eligible_waiter now s i x ws = (None, y) \<Longrightarrow>
   (\<forall>u. x = Some u \<longrightarrow> (\<exists>v. y = Some v \<and> v \<le> u)) \<and>
   (\<forall>w\<in>set ws. covered (waiter_verdict now s w) y)"
proof (induction now s i x ws rule: next_eligible_waiter.induct)
  case (2 now s i x w ws)
  show ?case
  proof (cases "waiter_verdict now s w")
    case Busy
    then show ?thesis using 2 by (simp add: covered_def)
  next
    case (ReadyAt t)
    have ih: "(\<forall>u. earlier x t = Some u \<longrightarrow> (\<exists>v. y = Some v \<and> v \<le> u)) \<and>
        (\<forall>w\<in>set ws. covered (waiter_verdict now s w) y)"
      using 2(2) [OF ReadyAt] 2(3) ReadyAt by simp
    have "\<exists>v. y = Some v \<and> v \<le> t" using ih earlier_le(1) [of x t] order_trans by blast
    moreover have "\<exists>v. y = Some v \<and> v \<le> u" if "x = Some u" for u using ih earlier_le(2) [OF that, of t] order_trans by blast
    ultimately show ?thesis using ih ReadyAt by (simp add: covered_def)
  next
    case Eligible
    then show ?thesis using 2(3) by simp
  qed
qed simp

lemma sched_inv_upd [simp]:
  "sched_inv now (s\<lparr>ns_wake_at := x\<rparr>) holders starts = sched_inv now s holders starts"
  "sched_inv now (s\<lparr>ns_loop := l\<rparr>) holders starts = sched_inv now s holders starts"
  by (cases s; simp only: sched_inv_def capacity_ok_def queue_ok_def history_ok_def remembered_def active_on_def
      network_scheduler.simps)+

lemma inv_later:
  assumes "sched_inv now s holders starts" and "now \<le> now'"
  shows "sched_inv now' s holders starts"
proof -
  have "history_ok now' s"
    using assms history_okD [of now s] unfolding sched_inv_def history_ok_def by (auto intro: order_trans)
  moreover have "remembered now' s starts"
    using assms unfolding sched_inv_def remembered_def by (auto intro: order_trans)
  ultimately show ?thesis using assms(1) by (simp add: sched_inv_def)
qed

lemma pump_loop_inv:
  "sched_inv now s holders starts \<Longrightarrow> mono clock \<Longrightarrow> now \<le> clock k \<Longrightarrow> \<forall>n. clock n \<le> now' \<Longrightarrow>
    sched_inv now' (pump_loop clock k s) (holders @ map fst (pump_grants clock k s))
      (starts @ map host_start (pump_grants clock k s)) \<and>
    (\<exists>c\<le>now'. attended c (pump_loop clock k s))"
proof (induction clock k s arbitrary: now holders starts rule: pump_loop.induct)
  case (1 clock k s)
  have later: "now \<le> now'" using 1(4,5) order_trans by blast
  show ?case
  proof (cases "ns_global_concurrency s \<le> ns_active_global s \<or> ns_waiters s = []")
    case True
    then have "pump_loop clock k s = s" "pump_grants clock k s = []"
      by (simp_all add: pump_loop.simps [of clock k s] pump_grants.simps [of clock k s])
    moreover have "attended now s" using True by (auto simp: attended_def)
    ultimately show ?thesis using inv_later [OF 1(2) later] later by auto
  next
    case False
    define s1 where "s1 = prune_host_history (clock k) s"
    have inv1: "sched_inv (clock k) s1 holders starts" unfolding s1_def by (rule prune_inv [OF 1(2) 1(4)])
    obtain j x where n: "next_eligible_waiter (clock k) s1 0 None (ns_waiters s1) = (j, x)" by (metis surj_pair)
    show ?thesis
    proof (cases j)
      case None
      then have p: "pump_loop clock k s = s1\<lparr>ns_wake_at := x\<rparr>" "pump_grants clock k s = []"
        using False n by (simp_all add: pump_loop.simps [of clock k s] pump_grants.simps [of clock k s] flip: s1_def)
      have same: "waiter_verdict c (s1\<lparr>ns_wake_at := x\<rparr>) = waiter_verdict c s1" for c
        by (rule waiter_verdict_cong) (simp_all add: active_on_def fun_eq_iff)
      have "attended (clock k) (s1\<lparr>ns_wake_at := x\<rparr>)"
        using next_eligible_None [OF n [unfolded None]] by (simp add: attended_def same)
      moreover have "sched_inv now' (s1\<lparr>ns_wake_at := x\<rparr>) holders starts"
        using inv_later [OF inv1, of now'] 1(5) by simp
      ultimately show ?thesis using p 1(5) by auto
    next
      case (Some i)
      define s2 where "s2 = admit (clock k) i s1"
      define w where "w = ns_waiters s1 ! i"
      have p: "pump_loop clock k s = pump_loop clock (k + 1) s2"
        "pump_grants clock k s = (w, clock k) # pump_grants clock (k + 1) s2"
        using False n Some
        by (simp_all add: pump_loop.simps [of clock k s] pump_grants.simps [of clock k s] s2_def w_def flip: s1_def)
          (simp add: s1_def)
      have "i < length (ns_waiters s1)" using next_eligible_index [OF n [unfolded Some]] by simp
      moreover have "waiter_verdict (clock k) s1 (ns_waiters s1 ! i) = Eligible"
        using next_eligible_verdict [OF n [unfolded Some]] by simp
      moreover have "ns_active_global s1 < ns_global_concurrency s1" using False by (simp add: s1_def)
      ultimately have inv2: "sched_inv (clock k) s2 (holders @ [w]) (starts @ [(wt_host w, clock k)])"
        unfolding s2_def by (intro admit_inv [OF inv1 _ _ _ w_def])
      have step: "clock k \<le> clock (k + 1)" using 1(3) by (simp add: monoD)
      show ?thesis
        using 1(1) [OF False s1_def n [symmetric] Some, folded s2_def, OF inv2 1(3) step 1(5)]
        by (simp add: p host_start_def)
    qed
  qed
qed


subsection \<open>Tasks and the scheduler\<close>

text \<open>
  One event loop, the scheduler and its tasks. A task asks for capacity with a future of its own
  (\<open>Enter\<close>); while it waits, it can be cancelled (\<open>Cancel\<close>) and later run its handler (\<open>Drop\<close>);
  once admitted it gives the capacity back (\<open>Leave\<close>), be it at the end of the operation or because
  it was interrupted before it noticed the admission; the timer fires (\<open>Timer\<close>) when it is due.
  Every step reads a clock that does not go back.
\<close>

record sched_sys =
  sy_scheduler :: network_scheduler
  sy_holders :: "waiter list"
  sy_starts :: "(string \<times> time) list"
  sy_now :: time
  sy_used :: "nat set"

definition readings :: "(nat \<Rightarrow> time) \<Rightarrow> time \<Rightarrow> time \<Rightarrow> bool" where
  "readings clock now now' \<longleftrightarrow> mono clock \<and> now \<le> clock 0 \<and> (\<forall>n. clock n \<le> now')"

definition pumped :: "(nat \<Rightarrow> time) \<Rightarrow> time \<Rightarrow> network_scheduler \<Rightarrow> waiter list \<Rightarrow> sched_sys \<Rightarrow> sched_sys" where
  "pumped clock now' s holders y =
     (let grants = pump_grants clock 0 (discard_cancelled_waiters (s\<lparr>ns_wake_at := None\<rparr>)) in
      y\<lparr>sy_scheduler := pump clock s, sy_holders := holders @ map fst grants,
        sy_starts := sy_starts y @ map host_start grants, sy_now := now'\<rparr>)"

inductive sched_step :: "nat \<Rightarrow> sched_sys \<Rightarrow> sched_sys \<Rightarrow> bool" for loop :: nat where
  Enter: "i \<notin> sy_used y \<Longrightarrow> enqueue loop i host (sy_scheduler y) = Inr s \<Longrightarrow> readings clock (sy_now y) now' \<Longrightarrow>
    sched_step loop y (pumped clock now' s (sy_holders y) (y\<lparr>sy_used := insert i (sy_used y)\<rparr>))"
| Cancel: "sched_step loop y (y\<lparr>sy_scheduler := cancel_future i (sy_scheduler y)\<rparr>)"
| Drop: "i \<in> sy_used y \<Longrightarrow> ns_futures (sy_scheduler y) i = FCancelled \<Longrightarrow> readings clock (sy_now y) now' \<Longrightarrow>
    sched_step loop y (pumped clock now' (discard_waiter i (sy_scheduler y)) (sy_holders y) y)"
| Leave: "w \<in> set (sy_holders y) \<Longrightarrow> give_back loop (wt_host w) (sy_scheduler y) = Inr s \<Longrightarrow>
    readings clock (sy_now y) now' \<Longrightarrow> sched_step loop y (pumped clock now' s (remove1 w (sy_holders y)) y)"
| Timer: "ns_wake_at (sy_scheduler y) = Some t \<Longrightarrow> t \<le> clock 0 \<Longrightarrow> readings clock (sy_now y) now' \<Longrightarrow>
    sched_step loop y (pumped clock now' (sy_scheduler y) (sy_holders y) y)"

definition initial_sys :: "network_scheduler \<Rightarrow> sched_sys" where
  "initial_sys s = \<lparr>sy_scheduler = s, sy_holders = [], sy_starts = [], sy_now = 0, sy_used = {}\<rparr>"

definition sched_reachable :: "nat \<Rightarrow> network_scheduler \<Rightarrow> sched_sys \<Rightarrow> bool" where
  "sched_reachable loop s y \<longleftrightarrow> (sched_step loop)\<^sup>*\<^sup>* (initial_sys s) y"

text \<open>The invariant of the system.\<close>

definition sys_ok :: "nat \<Rightarrow> sched_sys \<Rightarrow> bool" where
  "sys_ok loop y \<longleftrightarrow> sched_inv (sy_now y) (sy_scheduler y) (sy_holders y) (sy_starts y) \<and>
     (\<exists>c\<le>sy_now y. attended c (sy_scheduler y)) \<and> ns_loop (sy_scheduler y) \<in> {None, Some loop} \<and>
     wt_id ` set (sy_holders y @ ns_waiters (sy_scheduler y)) \<subseteq> sy_used y \<and>
     (ns_loop (sy_scheduler y) = None \<longrightarrow> sy_used y = {} \<and> ns_wake_at (sy_scheduler y) = None)"

lemma pump_loop_frame:
  "ns_loop (pump_loop clock k s) = ns_loop s \<and> ns_global_concurrency (pump_loop clock k s) = ns_global_concurrency s \<and>
   ns_per_host_concurrency (pump_loop clock k s) = ns_per_host_concurrency s \<and>
   ns_interval (pump_loop clock k s) = ns_interval s \<and>
   set (map fst (pump_grants clock k s)) \<union> set (ns_waiters (pump_loop clock k s)) = set (ns_waiters s)"
proof (induction clock k s rule: pump_loop.induct)
  case (1 clock k s)
  show ?case
  proof (cases "ns_global_concurrency s \<le> ns_active_global s \<or> ns_waiters s = []")
    case True
    then show ?thesis by (simp add: pump_loop.simps [of clock k s] pump_grants.simps [of clock k s])
  next
    case False
    define s1 where "s1 = prune_host_history (clock k) s"
    obtain j x where n: "next_eligible_waiter (clock k) s1 0 None (ns_waiters s1) = (j, x)" by (metis surj_pair)
    have s1: "ns_loop s1 = ns_loop s" "ns_waiters s1 = ns_waiters s" "ns_interval s1 = ns_interval s"
      "ns_global_concurrency s1 = ns_global_concurrency s" "ns_per_host_concurrency s1 = ns_per_host_concurrency s"
      by (simp_all add: s1_def) (simp add: prune_host_history_def)
    show ?thesis
    proof (cases j)
      case None
      then show ?thesis
        using False n s1 by (simp add: pump_loop.simps [of clock k s] pump_grants.simps [of clock k s] flip: s1_def)
    next
      case (Some i)
      have i: "i < length (ns_waiters s)" using next_eligible_index [OF n [unfolded Some]] s1 by simp
      have "insert (ns_waiters s ! i) (set (ns_waiters (admit (clock k) i s1))) = set (ns_waiters s)"
        using arg_cong [OF id_take_nth_drop [OF i], of set] s1 by (simp add: admit_def Let_def)
      moreover have "ns_loop (admit (clock k) i s1) = ns_loop s" using s1 by (simp add: admit_def Let_def)
      ultimately show ?thesis
        using 1 [OF False s1_def n [symmetric] Some] False n Some s1
        by (auto simp: pump_loop.simps [of clock k s] pump_grants.simps [of clock k s] simp flip: s1_def)
    qed
  qed
qed

lemma sched_inv_frame:
  assumes "sched_inv now s holders starts" and "queue_ok s' holders"
    and "ns_active_global s' = ns_active_global s" "ns_active_by_host s' = ns_active_by_host s"
      "ns_global_concurrency s' = ns_global_concurrency s" "ns_per_host_concurrency s' = ns_per_host_concurrency s"
      "ns_last_started s' = ns_last_started s" "ns_interval s' = ns_interval s"
      "ns_host_history_limit s' = ns_host_history_limit s"
  shows "sched_inv now s' holders starts"
  using assms(1,2) unfolding sched_inv_def capacity_ok_def history_ok_def remembered_def active_on_def assms(3-) by blast

lemma sched_inv_capacity:
  assumes "sched_inv now s holders starts" and "capacity_ok s' holders'" and "queue_ok s' holders'"
    and "ns_last_started s' = ns_last_started s" "ns_interval s' = ns_interval s"
      "ns_host_history_limit s' = ns_host_history_limit s"
  shows "sched_inv now s' holders' starts"
  using assms(1-3) unfolding sched_inv_def history_ok_def remembered_def assms(4-) by blast

lemma sched_inv_shrink:
  assumes "sched_inv now s holders starts"
  shows "sched_inv now (s\<lparr>ns_waiters := filter P (ns_waiters s)\<rparr>) holders starts"
proof -
  have "queue_ok (s\<lparr>ns_waiters := filter P (ns_waiters s)\<rparr>) holders"
    using assms by (auto simp: sched_inv_def queue_ok_def distinct_map_filter)
  then show ?thesis by (intro sched_inv_frame [OF assms]) simp_all
qed

lemma pumped_ok:
  assumes inv: "sched_inv (sy_now y) s holders (sy_starts y)" and r: "readings clock (sy_now y) now'"
    and loop: "ns_loop s = Some loop" and used: "wt_id ` set (holders @ ns_waiters s) \<subseteq> sy_used y"
  shows "sys_ok loop (pumped clock now' s holders y)"
proof -
  define s0 where "s0 = discard_cancelled_waiters (s\<lparr>ns_wake_at := None\<rparr>)"
  have s0: "sched_inv (sy_now y) s0 holders (sy_starts y)"
    using sched_inv_shrink [of "sy_now y" "s\<lparr>ns_wake_at := None\<rparr>"] inv by (simp add: s0_def discard_cancelled_waiters_def)
  have c: "mono clock" "sy_now y \<le> clock 0" "\<forall>n. clock n \<le> now'" using r by (auto simp: readings_def)
  have sub: "set (ns_waiters s0) \<subseteq> set (ns_waiters s)" by (auto simp: s0_def discard_cancelled_waiters_def)
  note frame = pump_loop_frame [of clock 0 s0]
  have "wt_id ` set (holders @ map fst (pump_grants clock 0 s0) @ ns_waiters (pump_loop clock 0 s0)) \<subseteq> sy_used y"
    using frame sub used by (simp add: image_Un) blast
  moreover have "ns_loop (pump_loop clock 0 s0) = Some loop"
    using frame loop by (simp add: s0_def discard_cancelled_waiters_def)
  moreover note pump_loop_inv [OF s0 c]
  ultimately show ?thesis
    unfolding sys_ok_def pumped_def pump_def s0_def [symmetric] Let_def by simp
qed

lemma event_loop_ok:
  assumes "ns_loop s \<in> {None, Some loop}" and "event_loop loop s = Inr s'"
  shows "s' = s\<lparr>ns_loop := Some loop\<rparr>"
  using assms by (auto simp: event_loop_def split: option.split_asm if_split_asm)

lemma enqueue_inv:
  assumes "sched_inv now s holders starts" and "i \<notin> wt_id ` set (holders @ ns_waiters s)"
  shows "sched_inv now (s\<lparr>ns_loop := l, ns_waiters := ns_waiters s @ [\<lparr>wt_id = i, wt_host = host\<rparr>],
    ns_futures := (ns_futures s)(i := FPending)\<rparr>) holders starts" (is "sched_inv now ?s _ _")
proof -
  have "queue_ok ?s holders"
    using assms by (auto simp: sched_inv_def queue_ok_def)
  then show ?thesis by (intro sched_inv_frame [OF assms(1)]) simp_all
qed

lemma remove1_count:
  "w \<in> set ws \<Longrightarrow> length (filter P (remove1 w ws)) = length (filter P ws) - (if P w then 1 else 0)"
  by (simp add: filter_remove1 length_remove1)

lemma give_back_inv:
  assumes "sched_inv now s holders starts" and w: "w \<in> set holders"
  defines "active \<equiv> active_on s (wt_host w)"
  shows "ns_active_global s \<noteq> 0" "active \<noteq> 0"
    and "sched_inv now (s\<lparr>ns_active_global := ns_active_global s - 1,
      ns_active_by_host := (if active = 1 then assoc_del (wt_host w) (ns_active_by_host s)
        else assoc_set (wt_host w) (active - 1) (ns_active_by_host s))\<rparr>) (remove1 w holders) starts"
      (is "sched_inv now ?s _ _")
proof -
  have cap: "ns_active_global s = length holders" "ns_active_global s \<le> ns_global_concurrency s"
    "\<And>h. active_on s h = length (filter (\<lambda>w. wt_host w = h) holders)" "\<And>h. active_on s h \<le> ns_per_host_concurrency s"
    using assms(1) unfolding sched_inv_def capacity_ok_def by blast+
  show "ns_active_global s \<noteq> 0" using cap(1) w by auto
  have "w \<in> set (filter (\<lambda>v. wt_host v = wt_host w) holders)" using w by simp
  then show pos: "active \<noteq> 0" unfolding active_def cap(3) by (metis length_0_conv list.set(1) empty_iff)
  have on: "active_on ?s h = active_on s h - (if h = wt_host w then 1 else 0)" for h
    by (auto simp: active_on_def active_def map_of_assoc_set map_of_assoc_del)
  have "capacity_ok ?s (remove1 w holders)"
    unfolding capacity_ok_def on
  proof (intro conjI allI)
    fix h
    show "active_on s h - (if h = wt_host w then 1 else 0) = length (filter (\<lambda>v. wt_host v = h) (remove1 w holders))"
      using remove1_count [OF w, of "\<lambda>v. wt_host v = h"] cap(3) by auto
    show "active_on s h - (if h = wt_host w then 1 else 0) \<le> ns_per_host_concurrency ?s"
      using cap(4) [of h] by simp
  qed (use cap(1,2) w in \<open>simp_all add: length_remove1\<close>)
  moreover have "queue_ok ?s (remove1 w holders)"
    using assms(1) set_remove1_subset [of w holders]
    by (auto simp: sched_inv_def queue_ok_def distinct_map intro: inj_on_subset)
  ultimately show "sched_inv now ?s (remove1 w holders) starts"
    by (intro sched_inv_capacity [OF assms(1)]) simp_all
qed

lemma cancel_ok:
  assumes "sys_ok loop y"
  shows "sys_ok loop (y\<lparr>sy_scheduler := cancel_future i (sy_scheduler y)\<rparr>)"
proof (cases "ns_futures (sy_scheduler y) i = FPending")
  case True
  define s where "s = sy_scheduler y"
  define s' where "s' = s\<lparr>ns_futures := (ns_futures s)(i := FCancelled)\<rparr>"
  have ok: "sched_inv (sy_now y) s (sy_holders y) (sy_starts y)" using assms by (simp add: sys_ok_def s_def)
  then have "queue_ok s' (sy_holders y)" using True by (auto simp: sched_inv_def queue_ok_def s'_def s_def)
  then have "sched_inv (sy_now y) s' (sy_holders y) (sy_starts y)"
    by (intro sched_inv_frame [OF ok]) (simp_all add: s'_def)
  moreover have v: "waiter_verdict c s' = waiter_verdict c s" for c
    by (rule waiter_verdict_cong) (simp_all add: s'_def active_on_def fun_eq_iff)
  have "attended c s' = attended c s" for c unfolding attended_def v by (simp add: s'_def)
  ultimately show ?thesis
    using assms True by (simp add: sys_ok_def cancel_future_def flip: s_def s'_def) (simp add: s'_def s_def)
next
  case False
  then show ?thesis using assms by (simp add: cancel_future_def)
qed

lemma sys_okD:
  assumes "sys_ok loop y"
  shows "sched_inv (sy_now y) (sy_scheduler y) (sy_holders y) (sy_starts y)"
    and "ns_loop (sy_scheduler y) \<in> {None, Some loop}"
    and "wt_id ` set (sy_holders y @ ns_waiters (sy_scheduler y)) \<subseteq> sy_used y"
    and "sy_used y \<noteq> {} \<or> ns_wake_at (sy_scheduler y) \<noteq> None \<Longrightarrow> ns_loop (sy_scheduler y) = Some loop"
  using assms by (auto simp: sys_ok_def)

lemma give_back_result:
  assumes "sys_ok loop y" and "w \<in> set (sy_holders y)"
  shows "give_back loop (wt_host w) (sy_scheduler y) = Inr (let s = sy_scheduler y; active = active_on s (wt_host w) in
    s\<lparr>ns_active_global := ns_active_global s - 1,
      ns_active_by_host := (if active = 1 then assoc_del (wt_host w) (ns_active_by_host s)
        else assoc_set (wt_host w) (active - 1) (ns_active_by_host s))\<rparr>)"
proof -
  note ok = sys_okD [OF assms(1)]
  have "ns_loop (sy_scheduler y) = Some loop" using ok(3,4) assms(2) by auto
  then show ?thesis
    using give_back_inv(1,2) [OF ok(1) assms(2)] by (simp add: give_back_def event_loop_def Let_def)
qed

lemma sched_step_ok: "sched_step loop y y' \<Longrightarrow> sys_ok loop y \<Longrightarrow> sys_ok loop y'"
proof (induction rule: sched_step.induct)
  case (Enter i y host s clock now')
  note ok = sys_okD [OF Enter(4)]
  define s0 where "s0 = sy_scheduler y"
  obtain s1 where s1: "event_loop loop s0 = Inr s1" "s = s1\<lparr>ns_waiters := ns_waiters s1 @ [\<lparr>wt_id = i, wt_host = host\<rparr>],
      ns_futures := (ns_futures s1)(i := FPending)\<rparr>"
    using Enter(2) by (auto simp: enqueue_def s0_def)
  have s: "s = s0\<lparr>ns_loop := Some loop, ns_waiters := ns_waiters s0 @ [\<lparr>wt_id = i, wt_host = host\<rparr>],
      ns_futures := (ns_futures s0)(i := FPending)\<rparr>"
    using s1(2) event_loop_ok [OF ok(2) [folded s0_def] s1(1)] by simp
  have "i \<notin> wt_id ` set (sy_holders y @ ns_waiters s0)" using ok(3) Enter(1) by (auto simp: s0_def)
  then have "sched_inv (sy_now y) s (sy_holders y) (sy_starts y)"
    unfolding s by (intro enqueue_inv [OF ok(1) [folded s0_def]])
  then show ?case using Enter(3) ok(3) by (intro pumped_ok) (auto simp: s s0_def)
next
  case (Cancel y i)
  then show ?case by (rule cancel_ok)
next
  case (Drop i y clock now')
  note ok = sys_okD [OF Drop(4)]
  show ?case
    using Drop(1,3) ok(3,4) sched_inv_shrink [OF ok(1), of "\<lambda>w. wt_id w \<noteq> i"]
    by (intro pumped_ok) (auto simp: discard_waiter_def)
next
  case (Leave w y s clock now')
  note ok = sys_okD [OF Leave(4)]
  have s: "s = (let s = sy_scheduler y; active = active_on s (wt_host w) in
    s\<lparr>ns_active_global := ns_active_global s - 1,
      ns_active_by_host := (if active = 1 then assoc_del (wt_host w) (ns_active_by_host s)
        else assoc_set (wt_host w) (active - 1) (ns_active_by_host s))\<rparr>)"
    using Leave(2) give_back_result [OF Leave(4,1)] by simp
  have "sched_inv (sy_now y) s (remove1 w (sy_holders y)) (sy_starts y)"
    unfolding s Let_def by (rule give_back_inv(3) [OF ok(1) Leave(1)])
  moreover have "ns_loop s = Some loop" "ns_waiters s = ns_waiters (sy_scheduler y)"
    using ok(3,4) Leave(1) by (auto simp: s Let_def)
  ultimately show ?case
    using Leave(3) ok(3) set_remove1_subset [of w "sy_holders y"] by (intro pumped_ok) auto
next
  case (Timer y t clock now')
  note ok = sys_okD [OF Timer(4)]
  show ?case using Timer(1,3) ok by (intro pumped_ok) auto
qed

text \<open>The limits never change.\<close>

definition limits :: "network_scheduler \<Rightarrow> nat \<times> nat \<times> time" where
  "limits s = (ns_global_concurrency s, ns_per_host_concurrency s, ns_interval s)"

lemma pump_limits: "limits (pump clock s) = limits s"
  using pump_loop_frame [of clock 0 "discard_cancelled_waiters (s\<lparr>ns_wake_at := None\<rparr>)"]
  by (simp add: limits_def pump_def discard_cancelled_waiters_def)

lemma sched_step_limits: "sched_step loop y y' \<Longrightarrow> limits (sy_scheduler y') = limits (sy_scheduler y)"
proof (induction rule: sched_step.induct)
  case (Enter i y host s clock now')
  then have "limits s = limits (sy_scheduler y)"
    by (auto simp: enqueue_def event_loop_def limits_def split: option.split_asm if_split_asm)
  then show ?case by (simp add: pumped_def Let_def pump_limits)
next
  case (Leave w y s clock now')
  then have "limits s = limits (sy_scheduler y)"
    by (auto simp: give_back_def event_loop_def limits_def Let_def split: option.split_asm if_split_asm)
  then show ?case by (simp add: pumped_def Let_def pump_limits)
qed (simp_all add: pumped_def Let_def pump_limits, simp_all add: limits_def cancel_future_def discard_waiter_def)

lemma reachable_ok:
  assumes "NetworkScheduler g h iv hist = Inr s" and "sched_reachable loop s y"
  shows "sys_ok loop y" and "limits (sy_scheduler y) = (nat g, nat h, iv)" and "0 < g" "0 < h"
proof -
  have init: "sys_ok loop (initial_sys s)" "limits s = (nat g, nat h, iv)" and pos: "0 < g" "0 < h"
    using assms(1) by (auto simp: NetworkScheduler_def initial_sys_def sys_ok_def sched_inv_def capacity_ok_def queue_ok_def
        history_ok_def spaced_def remembered_def attended_def active_on_def limits_def split: if_split_asm)
  show "0 < g" "0 < h" by fact+
  have "sys_ok loop y \<and> limits (sy_scheduler y) = (nat g, nat h, iv)"
    using assms(2) unfolding sched_reachable_def
  proof (induction rule: rtranclp_induct)
    case base
    then show ?case using init by (simp add: initial_sys_def)
  next
    case (step y z)
    then show ?case using sched_step_ok sched_step_limits by metis
  qed
  then show "sys_ok loop y" "limits (sy_scheduler y) = (nat g, nat h, iv)" by auto
qed

lemma reachable_capacity:
  assumes "NetworkScheduler g h iv hist = Inr s" and "sched_reachable loop s y"
  shows "int (length (sy_holders y)) \<le> g" "ns_active_global (sy_scheduler y) = length (sy_holders y)"
    "int (length (filter (\<lambda>w. wt_host w = host) (sy_holders y))) \<le> h"
    "active_on (sy_scheduler y) host = length (filter (\<lambda>w. wt_host w = host) (sy_holders y))"
    "int (ns_global_concurrency (sy_scheduler y)) = g" "int (ns_per_host_concurrency (sy_scheduler y)) = h"
proof -
  have cap: "capacity_ok (sy_scheduler y) (sy_holders y)"
    using sys_okD(1) [OF reachable_ok(1) [OF assms]] by (simp add: sched_inv_def)
  show lim: "int (ns_global_concurrency (sy_scheduler y)) = g" "int (ns_per_host_concurrency (sy_scheduler y)) = h"
    using reachable_ok(2-4) [OF assms] by (auto simp: limits_def)
  show "ns_active_global (sy_scheduler y) = length (sy_holders y)"
    "active_on (sy_scheduler y) host = length (filter (\<lambda>w. wt_host w = host) (sy_holders y))"
    using cap unfolding capacity_ok_def by blast+
  then show "int (length (sy_holders y)) \<le> g" "int (length (filter (\<lambda>w. wt_host w = host) (sy_holders y))) \<le> h"
    using cap lim unfolding capacity_ok_def by (metis of_nat_le_iff)+
qed

text \<open>
  C9: capacity is never exceeded. In every interleaving of tasks that ask for capacity, wait, are
  cancelled and give it back, at most the configured number of operations hold capacity, in total
  and on each host, and the counters agree with the operations that do.
\<close>

theorem scheduler_capacity:
  assumes "NetworkScheduler g h iv hist = Inr s" and "sched_reachable loop s y"
  shows "int (length (sy_holders y)) \<le> g \<and> ns_active_global (sy_scheduler y) = length (sy_holders y) \<and>
    (\<forall>host. int (length (filter (\<lambda>w. wt_host w = host) (sy_holders y))) \<le> h \<and>
      active_on (sy_scheduler y) host = length (filter (\<lambda>w. wt_host w = host) (sy_holders y)))"
  using reachable_capacity [OF assms] by blast

text \<open>
  Starts on one host are spaced. Of any two operations admitted on one host, the later one
  starts at least the configured interval after the earlier one, although the scheduler remembers
  the starts of a bounded number of hosts only.
\<close>

theorem scheduler_spacing:
  assumes "NetworkScheduler g h iv hist = Inr s" and "sched_reachable loop s y"
    and "i < j" and "j < length (sy_starts y)" and "fst (sy_starts y ! i) = fst (sy_starts y ! j)"
  shows "snd (sy_starts y ! i) + iv \<le> snd (sy_starts y ! j)"
proof -
  have "spaced iv (sy_starts y)"
    using sys_okD(1) [OF reachable_ok(1) [OF assms(1,2)]] reachable_ok(2) [OF assms(1,2)]
    by (simp add: sched_inv_def limits_def)
  from sorted_wrt_nth_less [OF this [unfolded spaced_def] assms(3,4)] show ?thesis
    using assms(5) by (simp add: case_prod_beta)
qed

text \<open>
  Giving capacity back never fails, and no waiter is forgotten. The accounting error of
  \<^verbatim>\<open>_release\<close> is not raised for an operation that holds capacity; and a waiter that is not yet
  admitted waits for such an operation, on its own host or because the global limit is reached, or
  for a timer that is set to a time not after the one from which it may start.
\<close>

theorem scheduler_progress:
  assumes "NetworkScheduler g h iv hist = Inr s" and "sched_reachable loop s y"
  shows "(\<forall>w\<in>set (sy_holders y). \<exists>s'. release loop clock (wt_host w) (sy_scheduler y) = Inr s') \<and>
    (\<forall>w\<in>set (ns_waiters (sy_scheduler y)).
       int (length (sy_holders y)) = g \<or>
       int (length (filter (\<lambda>v. wt_host v = wt_host w) (sy_holders y))) = h \<or>
       (\<exists>c u t. c \<le> sy_now y \<and> waiter_verdict c (sy_scheduler y) w = ReadyAt t \<and>
          ns_wake_at (sy_scheduler y) = Some u \<and> u \<le> t))"
proof (intro conjI ballI)
  fix w assume "w \<in> set (sy_holders y)"
  from give_back_result [OF reachable_ok(1) [OF assms] this]
  show "\<exists>s'. release loop clock (wt_host w) (sy_scheduler y) = Inr s'" by (simp add: release_def)
next
  fix w assume w: "w \<in> set (ns_waiters (sy_scheduler y))"
  obtain c where c: "c \<le> sy_now y" "attended c (sy_scheduler y)" using reachable_ok(1) [OF assms] by (auto simp: sys_ok_def)
  note cap = reachable_capacity [OF assms]
  show "int (length (sy_holders y)) = g \<or>
       int (length (filter (\<lambda>v. wt_host v = wt_host w) (sy_holders y))) = h \<or>
       (\<exists>c u t. c \<le> sy_now y \<and> waiter_verdict c (sy_scheduler y) w = ReadyAt t \<and>
          ns_wake_at (sy_scheduler y) = Some u \<and> u \<le> t)"
  proof (cases "ns_global_concurrency (sy_scheduler y) \<le> ns_active_global (sy_scheduler y)")
    case True
    then show ?thesis using cap(1,2,5) by linarith
  next
    case False
    then have cov: "covered (waiter_verdict c (sy_scheduler y) w) (ns_wake_at (sy_scheduler y))"
      using c(2) w by (simp add: attended_def)
    show ?thesis
    proof (cases "waiter_verdict c (sy_scheduler y) w")
      case Busy
      then have "ns_per_host_concurrency (sy_scheduler y) \<le> active_on (sy_scheduler y) (wt_host w)"
        by (auto simp: waiter_verdict_def split: if_split_asm option.split_asm)
      then show ?thesis using cap(3,4) [of "wt_host w"] cap(6) by linarith
    qed (use cov c(1) in \<open>auto simp: covered_def\<close>)
  qed
qed

text \<open>A scheduler with one slot, a minimal interval and two tasks on one host.\<close>

definition small_scheduler :: network_scheduler where
  "small_scheduler = (case NetworkScheduler 1 1 2 1 of Inr s \<Rightarrow> s | Inl _ \<Rightarrow> undefined)"

definition second_entered :: sched_sys where
  "second_entered = \<lparr>sy_scheduler = small_scheduler\<lparr>ns_active_global := 1, ns_active_by_host := [(''h'', 1)],
       ns_last_started := [(''h'', 0)], ns_waiters := [\<lparr>wt_id = 1, wt_host = ''h''\<rparr>],
       ns_futures := (\<lambda>_. FPending)(0 := FGranted, 1 := FPending), ns_loop := Some 7\<rparr>,
     sy_holders = [\<lparr>wt_id = 0, wt_host = ''h''\<rparr>], sy_starts = [(''h'', 0)], sy_now = 0, sy_used = {1, 0}\<rparr>"

definition second_started :: sched_sys where
  "second_started = \<lparr>sy_scheduler = small_scheduler\<lparr>ns_active_global := 1, ns_active_by_host := [(''h'', 1)],
       ns_last_started := [(''h'', 3)],
       ns_futures := (\<lambda>_. FPending)(0 := FGranted, 1 := FGranted), ns_loop := Some 7\<rparr>,
     sy_holders = [\<lparr>wt_id = 1, wt_host = ''h''\<rparr>], sy_starts = [(''h'', 0), (''h'', 3)], sy_now = 3, sy_used = {1, 0}\<rparr>"

lemmas sched_eval = pumped_def pump_def pump_loop.simps pump_grants.simps discard_cancelled_waiters_def
  prune_host_history_def waiter_verdict_def active_on_def admit_def host_start_def enqueue_def event_loop_def
  give_back_def assoc_del_def small_scheduler_def NetworkScheduler_def Let_def

definition first_entered :: sched_sys where
  "first_entered = \<lparr>sy_scheduler = small_scheduler\<lparr>ns_active_global := 1, ns_active_by_host := [(''h'', 1)],
       ns_last_started := [(''h'', 0)], ns_futures := (\<lambda>_. FPending)(0 := FGranted), ns_loop := Some 7\<rparr>,
     sy_holders = [\<lparr>wt_id = 0, wt_host = ''h''\<rparr>], sy_starts = [(''h'', 0)], sy_now = 0, sy_used = {0}\<rparr>"

lemma small_reachable:
  "sched_reachable 7 small_scheduler second_entered" "sched_reachable 7 small_scheduler second_started"
proof -
  have r: "readings (\<lambda>_. 0) 0 0" "readings (\<lambda>_. 3) 0 3" by (simp_all add: readings_def mono_def)
  have "sched_step 7 (initial_sys small_scheduler) first_entered"
  proof -
    define s where "s = small_scheduler\<lparr>ns_loop := Some 7, ns_waiters := [\<lparr>wt_id = 0, wt_host = ''h''\<rparr>]\<rparr>"
    have e: "enqueue 7 0 ''h'' (sy_scheduler (initial_sys small_scheduler)) = Inr s"
      by (simp add: sched_eval initial_sys_def s_def fun_upd_idem)
    have y: "first_entered = pumped (\<lambda>_. 0) 0 s (sy_holders (initial_sys small_scheduler))
        ((initial_sys small_scheduler)\<lparr>sy_used := insert 0 (sy_used (initial_sys small_scheduler))\<rparr>)"
      by (simp add: sched_eval initial_sys_def s_def first_entered_def)
    show ?thesis by (subst y, rule sched_step.Enter [OF _ e]) (simp_all add: initial_sys_def r)
  qed
  moreover have "sched_step 7 first_entered second_entered"
  proof -
    define s where "s = (sy_scheduler first_entered)\<lparr>ns_waiters := [\<lparr>wt_id = 1, wt_host = ''h''\<rparr>],
      ns_futures := (ns_futures (sy_scheduler first_entered))(1 := FPending)\<rparr>"
    have e: "enqueue 7 1 ''h'' (sy_scheduler first_entered) = Inr s"
      by (simp add: sched_eval first_entered_def s_def)
    have y: "second_entered = pumped (\<lambda>_. 0) 0 s (sy_holders first_entered)
        (first_entered\<lparr>sy_used := insert 1 (sy_used first_entered)\<rparr>)"
      by (simp add: sched_eval s_def first_entered_def second_entered_def)
    show ?thesis by (subst y, rule sched_step.Enter [OF _ e]) (simp_all add: first_entered_def r)
  qed
  moreover have "sched_step 7 second_entered second_started"
  proof -
    define s where "s = (sy_scheduler second_entered)\<lparr>ns_active_global := 0, ns_active_by_host := []\<rparr>"
    have e: "give_back 7 ''h'' (sy_scheduler second_entered) = Inr s"
      by (simp add: sched_eval second_entered_def s_def)
    have y: "second_started = pumped (\<lambda>_. 3) 3 s (remove1 \<lparr>wt_id = 0, wt_host = ''h''\<rparr> (sy_holders second_entered)) second_entered"
      by (simp add: sched_eval s_def second_started_def second_entered_def)
    show ?thesis
      by (subst y, rule sched_step.Leave [where w = "\<lparr>wt_id = 0, wt_host = ''h''\<rparr>"])
        (use e in \<open>simp_all add: second_entered_def r\<close>)
  qed
  ultimately show "sched_reachable 7 small_scheduler second_entered" "sched_reachable 7 small_scheduler second_started"
    unfolding sched_reachable_def by auto
qed

lemma small_init: "NetworkScheduler 1 1 2 1 = Inr small_scheduler"
  by (simp add: small_scheduler_def NetworkScheduler_def)

theorem scheduler_capacity_witness:
  "length (sy_holders second_entered) \<le> 1 \<and> ns_waiters (sy_scheduler second_entered) \<noteq> []"
  using scheduler_capacity [OF small_init small_reachable(1)] by (simp add: second_entered_def)

theorem scheduler_spacing_witness: "snd (sy_starts second_started ! 0) + 2 \<le> snd (sy_starts second_started ! 1)"
  by (rule scheduler_spacing [OF small_init small_reachable(2)]) (simp_all add: second_started_def)

theorem scheduler_progress_witness:
  "\<exists>s'. release 7 (\<lambda>_. 3) ''h'' (sy_scheduler second_entered) = Inr s'"
  using scheduler_progress [OF small_init small_reachable(1), of "\<lambda>_. 3"] by (simp add: second_entered_def)

end
