(* ===== verification/Logic.thy ===== *)
theory Logic
  imports Planning
begin

section \<open>Logic backends: logic/\<close>

text \<open>
  The coordinator that asks an optional solver for a plan or an explanation, checks what it says
  against the Python planner, and falls back to Python: \<^verbatim>\<open>coordinator.py\<close>, \<^verbatim>\<open>python_backend.py\<close>,
  \<^verbatim>\<open>clingo_backend.py\<close>, \<^verbatim>\<open>prolog_backend.py\<close> and \<^verbatim>\<open>models.py\<close> of the package.

  The solver programs, the files they read, the hash and the JSON reader are the parameter
  \<open>solver\<close>. \<^verbatim>\<open>LogicBackendError\<close> with its subclasses is \<open>LogicError\<close>.
\<close>

subsection \<open>Contracts\<close>

datatype backend_status = BS_SUCCEEDED | BS_FALLBACK | BS_UNAVAILABLE | BS_FAILED

record plan_proposal =
  pp_backend :: string
  pp_status :: backend_status
  pp_plan :: fetch_plan
  pp_executable_version :: "string option"
  pp_ruleset_sha256 :: "string option"
  pp_manifest_version :: "string option"
  pp_manifest_sha256 :: "string option"
  pp_input_sha256 :: "string option"
  pp_result_sha256 :: "string option"
  pp_diagnostics :: "string list"

definition PlanProposal :: "string \<Rightarrow> backend_status \<Rightarrow> fetch_plan \<Rightarrow> plan_proposal" where
  "PlanProposal backend status p = \<lparr>pp_backend = backend, pp_status = status, pp_plan = p,
     pp_executable_version = None, pp_ruleset_sha256 = None, pp_manifest_version = None,
     pp_manifest_sha256 = None, pp_input_sha256 = None, pp_result_sha256 = None, pp_diagnostics = []\<rparr>"

record reasoning_query =
  rqy_query_type :: string
  rqy_capability_id :: string
  rqy_allowed :: bool
  rqy_available :: bool
  rqy_risk_class :: string
  rqy_dependencies :: "string list"
  rqy_facts :: "(string \<times> int) list"

text \<open>The names \<^verbatim>\<open>str.isidentifier\<close> accepts in ASCII.\<close>

definition py_isidentifier :: "string \<Rightarrow> bool" where
  "py_isidentifier s \<longleftrightarrow> s \<noteq> [] \<and> (is_alpha (hd s) \<or> hd s = CHR ''_'') \<and>
     list_all (\<lambda>c. is_alpha c \<or> is_digit c \<or> c = CHR ''_'') s"

definition valid_query :: "reasoning_query \<Rightarrow> bool" where
  "valid_query q \<longleftrightarrow> 1 \<le> py_len (rqy_capability_id q) \<and> py_len (rqy_capability_id q) \<le> 128 \<and>
     py_len (rqy_risk_class q) \<le> 32 \<and> length (rqy_dependencies q) \<le> 64 \<and> length (rqy_facts q) \<le> 32 \<and>
     list_all (\<lambda>(k, _). py_isidentifier k \<and> py_len k \<le> 64) (rqy_facts q)"

record reasoning_result =
  rr_backend :: string
  rr_status :: backend_status
  rr_capability_id :: string
  rr_conclusion :: string
  rr_eligible :: bool
  rr_reasons :: "string list"
  rr_executable_version :: "string option"
  rr_ruleset_sha256 :: "string option"
  rr_input_sha256 :: "string option"
  rr_result_sha256 :: "string option"
  rr_diagnostics :: "string list"

datatype logic_exc = LogicError string | LogicRaised py_error

definition lift_res :: "'a res \<Rightarrow> logic_exc + 'a" where
  "lift_res m = (case m of Inl e \<Rightarrow> Inl (LogicRaised e) | Inr x \<Rightarrow> Inr x)"

lemma lift_res_Inr [simp]: "lift_res m = Inr x \<longleftrightarrow> m = Inr x"
  by (cases m) (auto simp: lift_res_def)

fun exc_text :: "logic_exc \<Rightarrow> string" where
  "exc_text (LogicError m) = m"
| "exc_text (LogicRaised (ValueError m)) = m"
| "exc_text (LogicRaised (KeyError m)) = m"
| "exc_text (LogicRaised (PyIndexError m)) = m"
| "exc_text (LogicRaised (PyRuntimeError m)) = m"
| "exc_text (LogicRaised (PyTypeError m)) = m"

record process_result =
  pr_returncode :: int
  pr_stdout :: string
  pr_stderr :: string

text \<open>
  What \<^verbatim>\<open>json.loads\<close> raises: \<^verbatim>\<open>JSONDecodeError\<close>, which the backends catch, or another error, such as the
  \<^verbatim>\<open>UnicodeDecodeError\<close> for bytes that are no UTF-8, which they do not.
\<close>

datatype json_error = NotJson | JsonRaised py_error

record solver =
  so_which :: "string \<Rightarrow> string option"
  so_clingo_module :: bool
  so_run :: "string list \<Rightarrow> string \<Rightarrow> logic_exc + process_result"
  so_rules :: string
  so_manifest :: string
  so_json_loads :: "string \<Rightarrow> json_error + pyval"
  so_query_json :: "reasoning_query \<Rightarrow> string"
  so_sha256 :: "string \<Rightarrow> string"

subsection \<open>The Python backends\<close>

definition python_propose :: "fetch_request \<Rightarrow> fetch_plan \<Rightarrow> capability_registry \<Rightarrow> logic_exc + plan_proposal" where
  "python_propose request baseline reg =
     Inr (PlanProposal ''python'' BS_SUCCEEDED (baseline\<lparr>fp_classifier := ''python-rules-v1''\<rparr>))"

definition python_explain :: "reasoning_query \<Rightarrow> logic_exc + reasoning_result" where
  "python_explain query =
     (let eligible = rqy_allowed query \<and> rqy_available query in
      Inr \<lparr>rr_backend = ''python'', rr_status = BS_SUCCEEDED, rr_capability_id = rqy_capability_id query,
        rr_conclusion = (if eligible then ''eligible'' else ''ineligible''), rr_eligible = eligible,
        rr_reasons =
          (if rqy_allowed query then [] else [''capability is denied by the request policy'']) @
          (if rqy_available query then [] else [''capability implementation is unavailable'']) @
          (if eligible then [''capability is registered, allowed, and available''] else []) @
          (if rqy_dependencies query = [] then []
           else [''dependencies: '' @ py_join '', '' (rqy_dependencies query)]),
        rr_executable_version = None, rr_ruleset_sha256 = None, rr_input_sha256 = None,
        rr_result_sha256 = None, rr_diagnostics = []\<rparr>)"

subsection \<open>The Clingo backend\<close>

text \<open>\<^verbatim>\<open>json.dumps(value, ensure_ascii=True)\<close> of a string.\<close>

definition u_escape :: "nat \<Rightarrow> string" where
  "u_escape n = CHR 0x5C # CHR ''u'' # map hex_digit [n div 4096, n div 256 mod 16, n div 16 mod 16, n mod 16]"

definition json_char :: "string \<Rightarrow> string" where
  "json_char c =
     (let n = utf8_code c in
      if n = 34 \<or> n = 92 then [CHR 0x5C, char_of n]
      else if n = 10 then [CHR 0x5C, CHR ''n''] else if n = 13 then [CHR 0x5C, CHR ''r'']
      else if n = 9 then [CHR 0x5C, CHR ''t''] else if n = 8 then [CHR 0x5C, CHR ''b'']
      else if n = 12 then [CHR 0x5C, CHR ''f'']
      else if 32 \<le> n \<and> n \<le> 126 then [char_of n]
      else if n < 65536 then u_escape n
      else u_escape (55296 + (n - 65536) div 1024) @ u_escape (56320 + (n - 65536) mod 1024))"

definition asp_string :: "string \<Rightarrow> string" where
  "asp_string s = [CHR 34] @ concat (map json_char (utf8_chars s)) @ [CHR 34]"

definition clingo_node_facts :: "fetch_request \<Rightarrow> capability_registry \<Rightarrow> plan_node \<Rightarrow> string list res" where
  "clingo_node_facts request reg node =
     (let identifier = asp_string (pn_id node) in
      bind_res (get_entry reg (pn_capability_id node)) (\<lambda>entry. Inr
        ([''node('' @ identifier @ '').'', ''required('' @ identifier @ '').''] @
         (if me_implementation_available entry then [] else [''unavailable('' @ identifier @ '').'']) @
         (if me_id entry \<in> rq_deny_capabilities request then [''denied('' @ identifier @ '').''] else []) @
         map (\<lambda>d. ''dependency('' @ identifier @ '','' @ asp_string d @ '').'') (pn_dependencies node))))"

definition clingo_facts :: "fetch_request \<Rightarrow> fetch_plan \<Rightarrow> capability_registry \<Rightarrow> string res" where
  "clingo_facts request baseline reg =
     bind_res (map_res (clingo_node_facts request reg) (fp_nodes baseline)) (\<lambda>facts.
       Inr (py_join [CHR 10] ((''manifest_version('' @ asp_string (reg_manifest_version reg) @ '').'') # concat facts)))"

text \<open>\<^verbatim>\<open>^selected\("([^"\\]+)"\)$\<close>\<close>

definition selected_atom :: "string \<Rightarrow> string option" where
  "selected_atom s =
     (let prefix = ''selected('' @ [CHR 34]; suffix = [CHR 34] @ '')''; n = length prefix in
      if py_startswith s prefix \<and> py_endswith s suffix \<and> n + length suffix < length s
      then (let name = take (length s - n - length suffix) (drop n s) in
            if list_all (\<lambda>c. c \<noteq> CHR 34 \<and> c \<noteq> CHR 0x5C) name then Some name else None)
      else None)"

definition malformed_clingo :: logic_exc where
  "malformed_clingo = LogicError ''Clingo returned malformed JSON''"

definition clingo_witnesses :: "pyval \<Rightarrow> pyval option" where
  "clingo_witnesses doc =
     (case doc of
        VDict d \<Rightarrow> (case map_of d ''Call'' of
          Some (VList (VDict c # _)) \<Rightarrow> map_of c ''Witnesses''
        | _ \<Rightarrow> None)
      | _ \<Rightarrow> None)"

definition atom_text :: "pyval \<Rightarrow> logic_exc + string option" where
  "atom_text v = (case v of VStr s \<Rightarrow> Inr (selected_atom s)
     | _ \<Rightarrow> Inl (LogicRaised (PyTypeError ''expected string or bytes-like object'')))"

definition read_json :: "logic_exc \<Rightarrow> (string \<Rightarrow> json_error + pyval) \<Rightarrow> string \<Rightarrow> logic_exc + pyval" where
  "read_json malformed json_loads output =
     (case json_loads output of
        Inl NotJson \<Rightarrow> Inl malformed
      | Inl (JsonRaised e) \<Rightarrow> Inl (LogicRaised e)
      | Inr document \<Rightarrow> Inr document)"

definition selected_nodes :: "(string \<Rightarrow> json_error + pyval) \<Rightarrow> string \<Rightarrow> logic_exc + string set" where
  "selected_nodes json_loads output =
     bind_res (read_json malformed_clingo json_loads output) (\<lambda>document.
      case clingo_witnesses document of
        None \<Rightarrow> Inl malformed_clingo
      | Some (VList ws) \<Rightarrow>
          (case ws of
             [VDict w] \<Rightarrow>
               bind_res (lift_res (py_iter (py_get w ''Value'' (VList [])))) (\<lambda>atoms.
               bind_res (map_res atom_text atoms) (\<lambda>names. Inr (set (List.map_filter (\<lambda>name. name) names))))
           | [_] \<Rightarrow> Inl (LogicRaised (PyTypeError ''object has no attribute get''))
           | _ \<Rightarrow> Inl (LogicError (''Clingo returned '' @ nat_to_str (length ws) @ '' answer sets; expected exactly one'')))
      | Some _ \<Rightarrow> Inl (LogicRaised (PyTypeError ''object has no len()'')))"

definition clingo_command :: "solver \<Rightarrow> string \<Rightarrow> string list option" where
  "clingo_command so executable =
     (case so_which so executable of
        Some e \<Rightarrow> Some [e]
      | None \<Rightarrow> if executable = ''clingo'' \<and> so_clingo_module so then Some [''python'', ''-m'', ''clingo''] else None)"

text \<open>The first line of the standard output of a version query.\<close>

definition line_break :: "char \<Rightarrow> bool" where
  "line_break c \<longleftrightarrow> (10 \<le> ord_char c \<and> ord_char c \<le> 13) \<or> (28 \<le> ord_char c \<and> ord_char c \<le> 30)"

definition first_line :: "string \<Rightarrow> string option" where
  "first_line s = (if s = [] then None else Some (takeWhile (\<lambda>c. \<not> line_break c) s))"

definition clingo_version :: "solver \<Rightarrow> string list \<Rightarrow> logic_exc + string option" where
  "clingo_version so command =
     bind_res (so_run so (command @ [''--version'']) []) (\<lambda>result.
       Inr (if pr_returncode result \<noteq> 0 then None else first_line (pr_stdout result)))"

definition clingo_propose ::
  "solver \<Rightarrow> string \<Rightarrow> nat \<Rightarrow> fetch_request \<Rightarrow> fetch_plan \<Rightarrow> capability_registry \<Rightarrow> logic_exc + plan_proposal" where
  "clingo_propose so executable solution_limit request baseline reg =
     (case clingo_command so executable of
        None \<Rightarrow> Inl (LogicError (''Clingo executable not found: '' @ executable))
      | Some command \<Rightarrow>
          bind_res (lift_res (clingo_facts request baseline reg)) (\<lambda>facts.
          let program = so_rules so @ [CHR 10] @ facts in
          bind_res (so_run so (command @ [''--outf=2'', ''--models='' @ nat_to_str solution_limit, ''--warn=none'', ''-'']) program) (\<lambda>result.
          bind_res (raise_if (pr_returncode result \<notin> {0, 10, 20, 30})
            (LogicError (''Clingo exited with '' @ int_to_str (pr_returncode result)))) (\<lambda>_.
          bind_res (selected_nodes (so_json_loads so) (pr_stdout result)) (\<lambda>selected.
          bind_res (raise_if (selected \<noteq> set (map pn_id (fp_nodes baseline)))
            (LogicError ''Clingo proposal failed parity validation'')) (\<lambda>_.
          bind_res (clingo_version so command) (\<lambda>version.
            Inr ((PlanProposal ''clingo'' BS_SUCCEEDED (baseline\<lparr>fp_classifier := ''clingo-asp-v1''\<rparr>))
              \<lparr>pp_executable_version := version, pp_ruleset_sha256 := Some (so_sha256 so (so_rules so)),
               pp_manifest_version := Some (reg_manifest_version reg),
               pp_manifest_sha256 := Some (so_sha256 so (so_manifest so)),
               pp_input_sha256 := Some (so_sha256 so program),
               pp_result_sha256 := Some (so_sha256 so ([CHR ''[''] @
                 py_join '','' (map asp_string (sorted_list_of_set selected)) @ [CHR '']'']))\<rparr>))))))))"

subsection \<open>The Prolog backend\<close>

definition REASONER_SENSITIVE_KEYS :: "string list" where
  "REASONER_SENSITIVE_KEYS = [''authorization'', ''body'', ''cookie'', ''credential'', ''password'', ''secret'', ''token'']"

definition reject_sensitive_facts :: "(string \<times> int) list \<Rightarrow> logic_exc + unit" where
  "reject_sensitive_facts facts =
     (case List.find (\<lambda>(k, _). list_ex (\<lambda>f. py_contains f (py_lower k)) REASONER_SENSITIVE_KEYS) facts of
        Some (k, _) \<Rightarrow> Inl (LogicError (''sensitive reasoning fact is forbidden: '' @ k))
      | None \<Rightarrow> Inr ())"

definition malformed_prolog :: logic_exc where
  "malformed_prolog = LogicError ''SWI-Prolog returned malformed reasoning JSON''"

definition pv_texts :: "pyval list \<Rightarrow> string list option" where
  "pv_texts vs = those (map (\<lambda>v. case v of VStr s \<Rightarrow> Some s | _ \<Rightarrow> None) vs)"

text \<open>
  The fields of the answer as the contract model reads them: for \<open>eligible\<close> pydantic takes a boolean,
  the numbers 0 and 1, and a word for one of them in any case; every other shape is malformed.
\<close>

definition pv_bool :: "pyval \<Rightarrow> bool option" where
  "pv_bool v =
     (case v of
        VBool b \<Rightarrow> Some b
      | VInt i \<Rightarrow> if i = 0 then Some False else if i = 1 then Some True else None
      | VFloat x \<Rightarrow> if x = 0 then Some False else if x = 1 then Some True else None
      | VStr s \<Rightarrow>
          if py_lower s \<in> {''0'', ''off'', ''f'', ''false'', ''n'', ''no''} then Some False
          else if py_lower s \<in> {''1'', ''on'', ''t'', ''true'', ''y'', ''yes''} then Some True
          else None
      | _ \<Rightarrow> None)"

definition prolog_answer :: "pyval \<Rightarrow> (string \<times> string \<times> bool \<times> string list) option" where
  "prolog_answer doc =
     (case doc of
        VDict d \<Rightarrow>
          (case (map_of d ''capability_id'', map_of d ''conclusion'', Option.bind (map_of d ''eligible'') pv_bool,
                 case py_iter (py_get d ''reasons'' (VList [])) of Inr vs \<Rightarrow> pv_texts vs | Inl _ \<Rightarrow> None) of
             (Some (VStr c), Some (VStr conclusion), Some e, Some reasons) \<Rightarrow> Some (c, conclusion, e, reasons)
           | _ \<Rightarrow> None)
      | _ \<Rightarrow> None)"

definition validate_semantics :: "reasoning_result \<Rightarrow> reasoning_query \<Rightarrow> logic_exc + unit" where
  "validate_semantics result query =
     (let expected = rqy_allowed query \<and> rqy_available query in
      raise_if (rr_eligible result \<noteq> expected \<or>
          rr_conclusion result \<noteq> (if expected then ''eligible'' else ''ineligible''))
        (LogicError ''SWI-Prolog result contradicts Python eligibility semantics''))"

definition prolog_version :: "solver \<Rightarrow> string \<Rightarrow> logic_exc + string option" where
  "prolog_version so executable =
     bind_res (so_run so [executable, ''--version''] []) (\<lambda>result.
       Inr (if pr_returncode result \<noteq> 0 \<or> py_strip (pr_stdout result) = [] then None
            else Some (py_strip (pr_stdout result))))"

definition prolog_explain :: "solver \<Rightarrow> string \<Rightarrow> string \<Rightarrow> reasoning_query \<Rightarrow> logic_exc + reasoning_result" where
  "prolog_explain so executable0 rules_path query =
     bind_res (reject_sensitive_facts (rqy_facts query)) (\<lambda>_.
     case so_which so executable0 of
       None \<Rightarrow> Inl (LogicError (''SWI-Prolog executable not found: '' @ executable0))
     | Some executable \<Rightarrow>
         let payload = so_query_json so query in
         bind_res (raise_if (65536 < length payload)
           (LogicError ''reasoning input exceeded the configured bound'')) (\<lambda>_.
         bind_res (so_run so [executable, ''--quiet'', ''--no-tty'', ''--nodebug'', ''-f'', rules_path] payload) (\<lambda>result.
         bind_res (raise_if (pr_returncode result \<noteq> 0)
           (LogicError (''SWI-Prolog exited with '' @ int_to_str (pr_returncode result)))) (\<lambda>_.
         bind_res (read_json malformed_prolog (so_json_loads so) (pr_stdout result)) (\<lambda>document.
         case prolog_answer document of
           None \<Rightarrow> Inl malformed_prolog
         | Some (capability_id, conclusion, eligible, reasons) \<Rightarrow>
             let parsed = \<lparr>rr_backend = ''prolog'', rr_status = BS_SUCCEEDED, rr_capability_id = capability_id,
               rr_conclusion = conclusion, rr_eligible = eligible, rr_reasons = reasons,
               rr_executable_version = None, rr_ruleset_sha256 = Some (so_sha256 so (so_rules so)),
               rr_input_sha256 = Some (so_sha256 so payload),
               rr_result_sha256 = Some (so_sha256 so (pr_stdout result)), rr_diagnostics = []\<rparr> in
             bind_res (raise_if (rr_capability_id parsed \<noteq> rqy_capability_id query)
               (LogicError ''SWI-Prolog changed the queried capability ID'')) (\<lambda>_.
             bind_res (validate_semantics parsed query) (\<lambda>_.
             bind_res (prolog_version so executable) (\<lambda>version.
               Inr (parsed\<lparr>rr_executable_version := version\<rparr>)))))))))"

subsection \<open>The coordinator\<close>

record logic_settings =
  ls_planner_backend :: string
  ls_reasoner_backend :: string
  ls_logic_fallback :: bool

record planner_backend =
  pb_name :: string
  pb_propose :: "fetch_request \<Rightarrow> fetch_plan \<Rightarrow> capability_registry \<Rightarrow> logic_exc + plan_proposal"

record reasoner_backend =
  rb_name :: string
  rb_explain :: "reasoning_query \<Rightarrow> logic_exc + reasoning_result"

definition clingo_backend :: "solver \<Rightarrow> string \<Rightarrow> nat \<Rightarrow> planner_backend" where
  "clingo_backend so executable solution_limit = \<lparr>pb_name = ''clingo'', pb_propose = clingo_propose so executable solution_limit\<rparr>"

definition prolog_backend :: "solver \<Rightarrow> string \<Rightarrow> string \<Rightarrow> reasoner_backend" where
  "prolog_backend so executable path = \<lparr>rb_name = ''prolog'', rb_explain = prolog_explain so executable path\<rparr>"

definition select_planner :: "logic_settings \<Rightarrow> planner_backend \<Rightarrow> planner_backend res" where
  "select_planner settings clingo =
     (if ls_planner_backend settings = ''python'' then Inr \<lparr>pb_name = ''python'', pb_propose = python_propose\<rparr>
      else if ls_planner_backend settings = ''clingo'' then Inr clingo
      else Inl (ValueError (''unsupported planner backend: '' @ ls_planner_backend settings)))"

definition select_reasoner :: "logic_settings \<Rightarrow> reasoner_backend \<Rightarrow> reasoner_backend res" where
  "select_reasoner settings prolog =
     (if ls_reasoner_backend settings = ''python'' then Inr \<lparr>rb_name = ''python'', rb_explain = python_explain\<rparr>
      else if ls_reasoner_backend settings \<in> {''prolog'', ''swi-prolog'', ''swipl''} then Inr prolog
      else Inl (ValueError (''unsupported reasoner backend: '' @ ls_reasoner_backend settings)))"

definition validate_plan :: "capability_registry \<Rightarrow> fetch_plan \<Rightarrow> fetch_plan \<Rightarrow> fetch_request \<Rightarrow> unit res" where
  "validate_plan reg baseline p request =
     bind_res (raise_if (fp_request p \<noteq> fp_request baseline)
       (ValueError ''logic plan changed the normalized fetch request'')) (\<lambda>_.
     bind_res (raise_if (\<not> fp_deterministic p) (ValueError ''logic plan disabled deterministic execution'')) (\<lambda>_.
     bind_res (raise_if (length (fp_nodes p) \<noteq> card (set (map pn_id (fp_nodes p))))
       (ValueError ''logic plan contains duplicate node IDs'')) (\<lambda>_.
     bind_res (raise_if (fp_nodes p \<noteq> fp_nodes baseline)
       (ValueError ''logic plan changed the safe Python node structure or ordering'')) (\<lambda>_.
     bind_res (map_res (\<lambda>node. bind_res (get_entry reg (pn_capability_id node)) (\<lambda>_.
         raise_if (pn_capability_id node \<in> rq_deny_capabilities request)
           (ValueError (''logic plan selected denied capability '' @ pn_capability_id node)))) (fp_nodes p)) (\<lambda>_. Inr ())))))"

definition caught :: "logic_exc \<Rightarrow> bool" where
  "caught e = (case e of LogicError _ \<Rightarrow> True | LogicRaised (ValueError _) \<Rightarrow> True | LogicRaised _ \<Rightarrow> False)"

definition rebind :: "fetch_plan \<Rightarrow> plan_proposal \<Rightarrow> plan_proposal res" where
  "rebind baseline proposal =
     bind_res (execution_request baseline) (\<lambda>request.
     bind_res (bind_execution_request (pp_plan proposal) request) (\<lambda>p. Inr (proposal\<lparr>pp_plan := p\<rparr>)))"

text \<open>
  The plan of the coordinator. The second call of the deterministic planner, in the validation,
  makes another plan identifier and time stamp.
\<close>

definition logic_plan ::
  "logic_settings \<Rightarrow> planner_backend \<Rightarrow> capability_registry \<Rightarrow> uuid \<times> time \<Rightarrow> uuid \<times> time \<Rightarrow> fetch_request
     \<Rightarrow> logic_exc + plan_proposal" where
  "logic_plan settings clingo reg stamp stamp' request =
     bind_res (lift_res (plan reg (fst stamp) (snd stamp) request)) (\<lambda>baseline.
     bind_res (lift_res (select_planner settings clingo)) (\<lambda>backend.
     case bind_res (pb_propose backend request baseline reg) (\<lambda>proposal.
          bind_res (lift_res (plan reg (fst stamp') (snd stamp') request)) (\<lambda>again.
          bind_res (lift_res (validate_plan reg again (pp_plan proposal) request)) (\<lambda>_.
            lift_res (rebind baseline proposal)))) of
       Inr proposal \<Rightarrow> Inr proposal
     | Inl e \<Rightarrow>
         if \<not> caught e \<or> \<not> ls_logic_fallback settings \<or> pb_name backend = ''python'' then Inl e
         else let note = pb_name backend @ '' fallback: '' @ exc_text e in
           bind_res (python_propose request baseline reg) (\<lambda>fallback.
             lift_res (rebind baseline (fallback\<lparr>pp_status := BS_FALLBACK, pp_diagnostics := [note],
               pp_plan := (pp_plan fallback)\<lparr>fp_warnings := fp_warnings (pp_plan fallback) @ [note]\<rparr>\<rparr>)))))"

definition is_logic_error :: "logic_exc \<Rightarrow> bool" where
  "is_logic_error e = (case e of LogicError _ \<Rightarrow> True | LogicRaised _ \<Rightarrow> False)"

definition logic_explain :: "logic_settings \<Rightarrow> reasoner_backend \<Rightarrow> reasoning_query \<Rightarrow> logic_exc + reasoning_result" where
  "logic_explain settings prolog query =
     bind_res (lift_res (select_reasoner settings prolog)) (\<lambda>backend.
     case rb_explain backend query of
       Inr result \<Rightarrow> Inr result
     | Inl e \<Rightarrow>
         if \<not> is_logic_error e \<or> \<not> ls_logic_fallback settings \<or> rb_name backend = ''python'' then Inl e
         else bind_res (python_explain query) (\<lambda>fallback.
           Inr (fallback\<lparr>rr_status := BS_FALLBACK,
             rr_diagnostics := [rb_name backend @ '' fallback: '' @ exc_text e]\<rparr>)))"

definition capability_query :: "capability_registry \<Rightarrow> string \<Rightarrow> fetch_request option \<Rightarrow> reasoning_query res" where
  "capability_query reg capability_id request =
     bind_res (get_entry reg capability_id) (\<lambda>entry.
     let denied = (case request of Some rq \<Rightarrow> me_id entry \<in> rq_deny_capabilities rq | None \<Rightarrow> False);
         allowed_by_list = (case request of None \<Rightarrow> True | Some rq \<Rightarrow>
           rq_allow_capabilities rq = {} \<or> me_id entry \<in> rq_allow_capabilities rq);
         query = \<lparr>rqy_query_type = ''capability_eligibility'', rqy_capability_id = me_id entry,
           rqy_allowed = (\<not> denied \<and> allowed_by_list), rqy_available = me_implementation_available entry,
           rqy_risk_class = me_risk_class entry, rqy_dependencies = me_dependencies entry, rqy_facts = []\<rparr>
     in if valid_query query then Inr query else Inl (ValueError ''ReasoningQuery validation failed''))"

end
