(* ===== verification/Logic_Correct.thy ===== *)
theory Logic_Correct
  imports Logic Planning_Correct
begin

section \<open>What the logic coordinator guarantees\<close>

text \<open>
  The lemmas about the solver backends: the coordinator returns the plan and the verdicts of the Python code, whatever a solver answers or however it fails.
\<close>

subsection \<open>Planning through a solver\<close>

text \<open>Two calls of the planner differ in identifier and time stamp only.\<close>

lemma plan_stamp:
  assumes "plan reg i t request = Inr p"
  shows "plan reg i' t' request = Inr (p\<lparr>fp_plan_id := i', fp_created_at := t'\<rparr>)"
  using assms by (auto simp: plan_def Let_def bind_execution_request_def new_plan_def)

lemma bind_execution_request_sel:
  assumes "bind_execution_request q r = Inr p"
  obtains t where "normalize_url (rq_target r) = Inr t" "p = q\<lparr>fp_execution_request := Some (r\<lparr>rq_target := t\<rparr>)\<rparr>"
  using assms by (auto elim: bind_execution_requestE)

lemma plan_deterministic: "plan reg i t request = Inr p \<Longrightarrow> fp_deterministic p"
  by (auto simp: plan_def Let_def bind_execution_request_def new_plan_def)

text \<open>What the validation and the rebinding leave of a proposal.\<close>

definition same_plan :: "fetch_plan \<Rightarrow> fetch_plan \<Rightarrow> bool" where
  "same_plan baseline p \<longleftrightarrow> fp_nodes p = fp_nodes baseline \<and> fp_request p = fp_request baseline \<and> fp_deterministic p"

lemma validate_plan_same:
  assumes "plan reg i t request = Inr baseline" "plan reg i' t' request = Inr again"
    "validate_plan reg again p request = Inr u"
  shows "same_plan baseline p"
  using assms(3) plan_stamp [OF assms(1), of i' t'] assms(2)
  by (auto simp: validate_plan_def same_plan_def)

lemma rebindE:
  assumes "rebind baseline proposal = Inr proposal'"
  obtains r t where "execution_request baseline = Inr r" "normalize_url (rq_target r) = Inr t"
    "proposal' = proposal\<lparr>pp_plan := (pp_plan proposal)\<lparr>fp_execution_request := Some (r\<lparr>rq_target := t\<rparr>)\<rparr>\<rparr>"
  using assms by (auto simp: rebind_def elim!: bind_execution_request_sel)

definition rebound :: "fetch_plan \<Rightarrow> fetch_plan \<Rightarrow> bool" where
  "rebound baseline p \<longleftrightarrow> (\<exists>r t. execution_request baseline = Inr r \<and> normalize_url (rq_target r) = Inr t \<and>
     execution_request p = Inr (r\<lparr>rq_target := t\<rparr>))"

lemma rebind_same:
  assumes "rebind baseline proposal = Inr proposal'" "same_plan baseline (pp_plan proposal)"
  shows "same_plan baseline (pp_plan proposal') \<and> rebound baseline (pp_plan proposal')"
proof -
  from assms(1) obtain r t where r: "execution_request baseline = Inr r" "normalize_url (rq_target r) = Inr t"
    "proposal' = proposal\<lparr>pp_plan := (pp_plan proposal)\<lparr>fp_execution_request := Some (r\<lparr>rq_target := t\<rparr>)\<rparr>\<rparr>"
    by (rule rebindE)
  then have "execution_request (pp_plan proposal') = Inr (r\<lparr>rq_target := t\<rparr>)" by (simp add: execution_request_def)
  with r(1,2) have "rebound baseline (pp_plan proposal')" unfolding rebound_def by blast
  moreover have "same_plan baseline (pp_plan proposal')" using assms(2) r(3) by (simp add: same_plan_def)
  ultimately show ?thesis by blast
qed

text \<open>
  C13: a solver cannot change what is executed. Whatever planner backend is configured and whatever
  it answers, a plan the coordinator returns has the nodes and the request of the deterministic
  Python plan, and the request it executes is the one of that plan with its target normalised.
\<close>

theorem logic_plan_safe:
  assumes "logic_plan settings clingo reg stamp stamp' request = Inr proposal"
  shows "\<exists>baseline r t. plan reg (fst stamp) (snd stamp) request = Inr baseline \<and>
    fp_nodes (pp_plan proposal) = fp_nodes baseline \<and> fp_request (pp_plan proposal) = fp_request baseline \<and>
    fp_deterministic (pp_plan proposal) \<and> execution_request baseline = Inr r \<and>
    normalize_url (rq_target r) = Inr t \<and> execution_request (pp_plan proposal) = Inr (r\<lparr>rq_target := t\<rparr>)"
proof -
  from assms obtain baseline backend where b: "plan reg (fst stamp) (snd stamp) request = Inr baseline"
    "select_planner settings clingo = Inr backend"
    by (auto simp: logic_plan_def)
  have "same_plan baseline (pp_plan proposal) \<and> rebound baseline (pp_plan proposal)"
  proof (cases "bind_res (pb_propose backend request baseline reg) (\<lambda>proposal.
          bind_res (lift_res (plan reg (fst stamp') (snd stamp') request)) (\<lambda>again.
          bind_res (lift_res (validate_plan reg again (pp_plan proposal) request)) (\<lambda>_.
            lift_res (rebind baseline proposal))))")
    case (Inl e)
    with assms b obtain fallback msg where "python_propose request baseline reg = Inr fallback"
      "rebind baseline (fallback\<lparr>pp_status := BS_FALLBACK, pp_diagnostics := [msg],
         pp_plan := (pp_plan fallback)\<lparr>fp_warnings := fp_warnings (pp_plan fallback) @ [msg]\<rparr>\<rparr>) = Inr proposal"
      by (auto simp: logic_plan_def Let_def split: if_splits)
    then show ?thesis
      using plan_deterministic [OF b(1)]
      by (intro rebind_same) (auto simp: python_propose_def PlanProposal_def same_plan_def)
  next
    case (Inr answer)
    with assms b have "answer = proposal" by (simp add: logic_plan_def)
    with Inr obtain x again where "plan reg (fst stamp') (snd stamp') request = Inr again"
      "validate_plan reg again (pp_plan x) request = Inr ()" "rebind baseline x = Inr proposal"
      by auto
    then show ?thesis by (intro rebind_same) (auto intro: validate_plan_same [OF b(1)])
  qed
  with b(1) show ?thesis by (auto simp: same_plan_def rebound_def)
qed

lemma plan_shown_request:
  assumes "plan reg i t request = Inr p" "execution_request p = Inr r"
  obtains u where "sanitize_url_for_request (rq_target r) r = Inr u" "fp_request p = r\<lparr>rq_target := u\<rparr>"
  using assms by (auto simp: plan_def Let_def bind_execution_request_def new_plan_def execution_request_def)

text \<open>
  A failing solver does not make planning fail. When the fallback is enabled and the solver
  raises a backend error, for instance because it is not installed, timed out or answered
  nonsense, the coordinator returns the Python plan, marked as a fallback, with the reason among
  its warnings.
\<close>

theorem logic_plan_falls_back:
  assumes "plan reg (fst stamp) (snd stamp) request = Inr baseline" "execution_request baseline = Inr r"
    "normalize_url (rq_target r) = Inr (rq_target r)" "ls_planner_backend settings = ''clingo''"
    "ls_logic_fallback settings" "pb_name clingo = ''clingo''"
    "pb_propose clingo request baseline reg = Inl (LogicError reason)"
  shows "\<exists>proposal. logic_plan settings clingo reg stamp stamp' request = Inr proposal \<and>
    pp_status proposal = BS_FALLBACK \<and> pp_backend proposal = ''python'' \<and>
    fp_nodes (pp_plan proposal) = fp_nodes baseline \<and>
    fp_warnings (pp_plan proposal) = fp_warnings baseline @ [''clingo fallback: '' @ reason]"
proof -
  from assms(1,2) obtain u where "sanitize_url_for_request (rq_target r) r = Inr u" "fp_request baseline = r\<lparr>rq_target := u\<rparr>"
    by (rule plan_shown_request)
  with assms(3) have "bind_execution_request q r = Inr (q\<lparr>fp_execution_request := Some r\<rparr>)"
    if "fp_request q = fp_request baseline" for q
    using that by (auto simp: bind_execution_request_def Let_def)
  then show ?thesis
    using assms by (simp add: logic_plan_def select_planner_def python_propose_def PlanProposal_def rebind_def caught_def Let_def)
qed

subsection \<open>Explanations\<close>

text \<open>The verdict of a reasoner: what it concludes about which capability.\<close>

definition eligibility :: "reasoning_result \<Rightarrow> string \<times> bool \<times> string" where
  "eligibility r = (rr_capability_id r, rr_eligible r, rr_conclusion r)"

definition expected_eligibility :: "reasoning_query \<Rightarrow> string \<times> bool \<times> string" where
  "expected_eligibility q = (rqy_capability_id q, rqy_allowed q \<and> rqy_available q,
     if rqy_allowed q \<and> rqy_available q then ''eligible'' else ''ineligible'')"

lemma python_explain_expected:
  "python_explain q = Inr r \<Longrightarrow> eligibility r = expected_eligibility q"
  by (auto simp: python_explain_def Let_def eligibility_def expected_eligibility_def)

lemma prolog_explain_expected:
  "prolog_explain so executable path q = Inr r \<Longrightarrow> eligibility r = expected_eligibility q"
  by (auto simp: prolog_explain_def validate_semantics_def Let_def eligibility_def expected_eligibility_def
      split: option.splits if_splits)

lemma selected_reasoner_expected:
  assumes "select_reasoner settings (prolog_backend so executable path) = Inr backend" "rb_explain backend q = Inr r"
  shows "eligibility r = expected_eligibility q"
  using assms python_explain_expected prolog_explain_expected
  by (auto simp: select_reasoner_def prolog_backend_def split: if_splits)

text \<open>
  C39: the reasoners are interchangeable. Whatever the Prolog program answers, an explanation the
  coordinator returns says of the queried capability exactly what the Python reasoner says: it is
  eligible if and only if the request allows it and it is available.
\<close>

theorem reasoners_agree:
  assumes "logic_explain settings (prolog_backend so executable path) query = Inr result"
  shows "python_explain query = Inr reference \<Longrightarrow>
    rr_capability_id result = rr_capability_id reference \<and> rr_eligible result = rr_eligible reference \<and>
    rr_conclusion result = rr_conclusion reference \<and> (rr_eligible result \<longleftrightarrow> rqy_allowed query \<and> rqy_available query)"
proof -
  assume reference: "python_explain query = Inr reference"
  from assms obtain backend where b: "select_reasoner settings (prolog_backend so executable path) = Inr backend"
    by (auto simp: logic_explain_def)
  have "eligibility result = expected_eligibility query"
  proof (cases "rb_explain backend query")
    case (Inl e)
    with assms b reference show ?thesis
      using python_explain_expected [OF reference] by (auto simp: logic_explain_def eligibility_def split: if_splits)
  next
    case (Inr r)
    with assms b show ?thesis by (simp add: logic_explain_def selected_reasoner_expected)
  qed
  with python_explain_expected [OF reference] show ?thesis
    by (simp add: eligibility_def expected_eligibility_def)
qed

definition backend_errors :: "(logic_exc + 'a) \<Rightarrow> bool" where
  "backend_errors m = (case m of Inl e \<Rightarrow> is_logic_error e | Inr _ \<Rightarrow> True)"

lemma backend_errors_simps [simp]:
  "backend_errors (Inr x)" "backend_errors (Inl (LogicError m))" "backend_errors (raise_if c (LogicError m))"
  by (simp_all add: backend_errors_def is_logic_error_def raise_if_def)

lemma backend_errors_bind: "backend_errors m \<Longrightarrow> (\<And>x. backend_errors (f x)) \<Longrightarrow> backend_errors (bind_res m f)"
  by (cases m) (simp_all add: backend_errors_def)

lemma reject_sensitive_facts_errors: "backend_errors (reject_sensitive_facts fs)"
  by (auto simp: reject_sensitive_facts_def split: option.splits)

lemma read_json_errors: "\<forall>e. json_loads output \<noteq> Inl (JsonRaised e) \<Longrightarrow> backend_errors (read_json (LogicError m) json_loads output)"
  by (auto simp: read_json_def split: sum.splits json_error.splits)

lemma prolog_explain_errors:
  assumes run: "\<And>command input. backend_errors (so_run so command input)" and json: "\<And>output e. so_json_loads so output \<noteq> Inl (JsonRaised e)"
  shows "backend_errors (prolog_explain so executable path q)"
  unfolding prolog_explain_def Let_def validate_semantics_def malformed_prolog_def prolog_version_def
  by (auto intro!: backend_errors_bind reject_sensitive_facts_errors read_json_errors run simp: json split: option.splits)

text \<open>
  With the fallback enabled an explanation is always given, when the solver process fails with
  backend errors only and its answer is UTF-8, so that reading it raises at most \<^verbatim>\<open>JSONDecodeError\<close>.
\<close>

theorem explanation_total:
  assumes "\<And>command input. backend_errors (so_run so command input)" "\<And>output e. so_json_loads so output \<noteq> Inl (JsonRaised e)"
    "ls_logic_fallback settings" "ls_reasoner_backend settings \<in> {''python'', ''prolog'', ''swi-prolog'', ''swipl''}"
  shows "\<exists>result. logic_explain settings (prolog_backend so executable path) query = Inr result"
  using assms(3,4) prolog_explain_errors [OF assms(1,2), of executable path query]
  by (auto simp: backend_errors_def logic_explain_def select_reasoner_def prolog_backend_def python_explain_def Let_def split: sum.splits)

subsection \<open>An instance\<close>

text \<open>A machine without Clingo and with a Prolog that answers every query with the same text.\<close>

definition stub_solver :: "pyval \<Rightarrow> solver" where
  "stub_solver answer = \<lparr>so_which = (\<lambda>x. if x = ''swipl'' then Some x else None), so_clingo_module = False,
     so_run = (\<lambda>_ _. Inr \<lparr>pr_returncode = 0, pr_stdout = ''answer'', pr_stderr = []\<rparr>), so_rules = [], so_manifest = [],
     so_json_loads = (\<lambda>_. Inr answer), so_query_json = (\<lambda>_. []), so_sha256 = (\<lambda>s. s)\<rparr>"

definition solver_settings :: logic_settings where
  "solver_settings = \<lparr>ls_planner_backend = ''clingo'', ls_reasoner_backend = ''prolog'', ls_logic_fallback = True\<rparr>"

definition missing_clingo :: planner_backend where
  "missing_clingo = clingo_backend (stub_solver VNone) ''clingo'' 1"

theorem logic_plan_safe_witness:
  "\<exists>proposal. logic_plan solver_settings missing_clingo planner_registry (0, 0) (1, 1) sample_request = Inr proposal \<and>
     fp_nodes (pp_plan proposal) = fp_nodes sample_plan"
proof -
  have "case logic_plan solver_settings missing_clingo planner_registry (0, 0) (1, 1) sample_request of
      Inr _ \<Rightarrow> True | Inl _ \<Rightarrow> False" by code_simp
  then obtain proposal where "logic_plan solver_settings missing_clingo planner_registry (0, 0) (1, 1) sample_request = Inr proposal"
    by (auto split: sum.splits)
  with logic_plan_safe [OF this] sample_plan_ok show ?thesis by auto
qed

theorem logic_plan_falls_back_witness:
  "\<exists>proposal. logic_plan solver_settings missing_clingo planner_registry (0, 0) (1, 1) sample_request = Inr proposal \<and>
     pp_status proposal = BS_FALLBACK"
proof -
  have "case execution_request sample_plan of Inr r \<Rightarrow> normalize_url (rq_target r) = Inr (rq_target r) | Inl _ \<Rightarrow> False"
    by code_simp
  then obtain r where r: "execution_request sample_plan = Inr r" "normalize_url (rq_target r) = Inr (rq_target r)"
    by (auto split: sum.splits)
  show ?thesis
    using logic_plan_falls_back [of planner_registry "(0, 0)" sample_request sample_plan r solver_settings missing_clingo
        "''Clingo executable not found: clingo''" "(1, 1)"] r sample_plan_ok
    by (auto simp: solver_settings_def missing_clingo_def clingo_backend_def clingo_propose_def clingo_command_def stub_solver_def)
qed

definition sample_query :: reasoning_query where
  "sample_query = \<lparr>rqy_query_type = ''capability_eligibility'', rqy_capability_id = ''http_get'', rqy_allowed = False,
     rqy_available = True, rqy_risk_class = ''low'', rqy_dependencies = [], rqy_facts = []\<rparr>"

definition lying_prolog :: reasoner_backend where
  "lying_prolog = prolog_backend (stub_solver (VDict [(''capability_id'', VStr ''http_get''),
     (''conclusion'', VStr ''eligible''), (''eligible'', VBool True)])) ''swipl'' ''rules.pl''"

theorem reasoners_agree_witness:
  "\<exists>result. logic_explain solver_settings lying_prolog sample_query = Inr result \<and> \<not> rr_eligible result"
proof -
  have "case logic_explain solver_settings lying_prolog sample_query of Inr _ \<Rightarrow> True | Inl _ \<Rightarrow> False"
    "case python_explain sample_query of Inr _ \<Rightarrow> True | Inl _ \<Rightarrow> False" by code_simp+
  then obtain result reference where r: "logic_explain solver_settings lying_prolog sample_query = Inr result"
    "python_explain sample_query = Inr reference"
    by (auto split: sum.splits)
  with reasoners_agree [OF r(1) [unfolded lying_prolog_def] r(2)] show ?thesis
    by (auto simp: sample_query_def)
qed

theorem explanation_total_witness:
  "\<exists>result. logic_explain solver_settings lying_prolog sample_query = Inr result"
  unfolding lying_prolog_def
  by (rule explanation_total) (simp_all add: stub_solver_def solver_settings_def)

text \<open>
  An answer of Prolog that is no UTF-8 makes \<^verbatim>\<open>json.loads\<close> raise \<^verbatim>\<open>UnicodeDecodeError\<close>. No handler
  covers it, so that the explanation ends with it although the fallback is enabled.
\<close>

theorem undecodable_prolog_escapes:
  "logic_explain solver_settings
     (prolog_backend ((stub_solver VNone)\<lparr>so_json_loads := \<lambda>_. Inl (JsonRaised (ValueError ''invalid start byte''))\<rparr>) ''swipl'' ''reasoner.pl'')
     \<lparr>rqy_query_type = ''capability_eligibility'', rqy_capability_id = ''http_get'', rqy_allowed = True, rqy_available = True,
      rqy_risk_class = ''low'', rqy_dependencies = [], rqy_facts = []\<rparr> = Inl (LogicRaised (ValueError ''invalid start byte''))"
  by code_simp

end
