(* ===== verification/Gateway.thy ===== *)
theory Gateway
  imports Executor_Frame Logic
begin

section \<open>The gateway: gateway.py, provenance.py, client.py\<close>

text \<open>
  \<^verbatim>\<open>UniversalFetchGateway\<close>: submission, planning, execution in a task, recovery after a restart, the
  artifact projection, and the runtime graph of \<^verbatim>\<open>provenance.py\<close>.

  The state holds the executor's environment and ledger, the tasks that have been created and not
  finished, the artifacts and whether \<^verbatim>\<open>initialize\<close> has run. A task runs as one step,
  \<open>execute_and_project\<close>, when it ends; \<open>close\<close> cancels it while it runs or before it starts. The
  serialisation of the contract models, the registry, the solvers, the resolver and the graph file
  are the parameter \<open>services\<close>.
\<close>

subsection \<open>The runtime graph\<close>

record graph =
  gr_nodes :: "document list"
  gr_links :: "document list"
  gr_known :: "string set"

definition graph_node :: "string \<Rightarrow> string \<Rightarrow> string \<Rightarrow> document \<Rightarrow> document" where
  "graph_node i label kind rest = [(''id'', VStr i), (''label'', VStr label), (''type'', VStr kind)] @ rest"

definition graph_link :: "string \<Rightarrow> string \<Rightarrow> string \<Rightarrow> document" where
  "graph_link source target kind = [(''source'', VStr source), (''target'', VStr target), (''type'', VStr kind)]"

definition add_known :: "string \<Rightarrow> document \<Rightarrow> graph \<Rightarrow> graph" where
  "add_known i node g = (if i \<in> gr_known g then g
     else g\<lparr>gr_nodes := gr_nodes g @ [node], gr_known := insert i (gr_known g)\<rparr>)"

definition add_link :: "document \<Rightarrow> graph \<Rightarrow> graph" where
  "add_link l g = g\<lparr>gr_links := gr_links g @ [l]\<rparr>"

text \<open>Field name, type of the node and type of the link.\<close>

definition GRAPH_FIELDS :: "(string \<times> string \<times> string) list" where
  "GRAPH_FIELDS = [(''artifact_id'', ''Artifact'', ''REFERENCES_ARTIFACT_ID''),
     (''resource_id'', ''Resource'', ''REFERENCES_RESOURCE_ID''),
     (''capability_id'', ''Capability'', ''REFERENCES_CAPABILITY_ID'')]"

definition add_reference ::
  "(pyval \<Rightarrow> string) \<Rightarrow> string \<Rightarrow> document \<Rightarrow> string \<times> string \<times> string \<Rightarrow> graph \<Rightarrow> graph" where
  "add_reference str event_id payload = (\<lambda>(field, node_type, link_type) g.
     case py_get payload field VNone of
       VNone \<Rightarrow> g
     | value \<Rightarrow>
         let target = field @ '':'' @ str value in
         add_link (graph_link event_id target link_type)
           (add_known target (graph_node target (str value) node_type []) g))"

definition add_event :: "(pyval \<Rightarrow> string) \<Rightarrow> (time \<Rightarrow> string) \<Rightarrow> provenance_event \<Rightarrow> graph \<Rightarrow> graph" where
  "add_event str isoformat event g0 =
     (let event_id = nat_to_str (ev_event_id event);
          run = nat_to_str (ev_run_id event);
          g1 = add_known run (graph_node run (''run:'' @ take 8 run) ''FetchRun'' []) g0;
          g2 = g1\<lparr>gr_nodes := gr_nodes g1 @ [graph_node event_id (ev_event_type event) ''ProvenanceEvent''
                 [(''timestamp'', VStr (isoformat (ev_timestamp event))), (''actor'', VStr (ev_actor event)),
                  (''source'', VStr ''event-ledger'')]],
               gr_known := insert event_id (gr_known g1)\<rparr>;
          g3 = add_link (graph_link run event_id ''EMITTED'') g2;
          g4 = fold (\<lambda>parent. add_link (graph_link (nat_to_str parent) event_id ''PRECEDES'')) (ev_parent_event_ids event) g3
      in fold (add_reference str event_id (ev_payload event)) GRAPH_FIELDS g4)"

definition build_runtime_graph :: "(pyval \<Rightarrow> string) \<Rightarrow> (time \<Rightarrow> string) \<Rightarrow> event_ledger \<Rightarrow> graph" where
  "build_runtime_graph str isoformat l =
     fold (add_event str isoformat) (all_events l) \<lparr>gr_nodes = [], gr_links = [], gr_known = {}\<rparr>"

subsection \<open>State\<close>

record services =
  sv_dump :: "fetch_result \<Rightarrow> pyval"
  sv_load :: "pyval \<Rightarrow> fetch_result res"
  sv_dump_request :: "fetch_request \<Rightarrow> document"
  sv_load_budget :: "pyval \<Rightarrow> resource_budget option"
  sv_registry :: capability_registry
  sv_logic :: logic_settings
  sv_clingo :: planner_backend
  sv_prolog :: reasoner_backend
  sv_getaddrinfo :: resolver
  sv_str :: "pyval \<Rightarrow> string"
  sv_isoformat :: "time \<Rightarrow> string"
  sv_graph_writable :: bool

record gateway =
  gw_exec :: exec_state
  gw_policy :: safe_url_policy
  gw_tasks :: "(uuid \<times> fetch_plan) list"
  gw_artifacts :: "(uuid \<times> artifact) list"
  gw_initialized :: bool
  gw_graph :: "graph option"

type_synonym 'a gw = "(py_exc + 'a) \<times> gateway"

definition bind_gw :: "'a gw \<Rightarrow> ('a \<Rightarrow> gateway \<Rightarrow> 'b gw) \<Rightarrow> 'b gw" where
  "bind_gw m f = (case m of (Inl e, g) \<Rightarrow> (Inl e, g) | (Inr x, g) \<Rightarrow> f x g)"

lemma bind_gw_simps [simp]:
  "bind_gw (Inl e, g) f = (Inl e, g)" "bind_gw (Inr x, g) f = f x g"
  by (simp_all add: bind_gw_def)

definition on_exec :: "(exec_state \<Rightarrow> 'a exec) \<Rightarrow> gateway \<Rightarrow> 'a gw" where
  "on_exec f g = (case f (gw_exec g) of (x, st) \<Rightarrow> (x, g\<lparr>gw_exec := st\<rparr>))"

definition gw_ledger :: "gateway \<Rightarrow> event_ledger" where
  "gw_ledger g = es_ledger (gw_exec g)"

subsection \<open>Terminal records\<close>

text \<open>The event and the failed result the gateway writes for a run that has no result of its own.\<close>

definition record_failure ::
  "services \<Rightarrow> uuid \<Rightarrow> string \<Rightarrow> string \<Rightarrow> (string \<times> string) list \<Rightarrow> diagnostic \<Rightarrow> resource_budget \<Rightarrow> exec_state
     \<Rightarrow> fetch_result exec" where
  "record_failure sv r event_type actor payload diagnostic budget st =
     bind_exec (emit r event_type actor (details payload) [] st) (\<lambda>event st1.
     let result = (empty_result r RS_FAILED)\<lparr>fr_diagnostics := [diagnostic],
           fr_provenance_event_ids := [ev_event_id event], fr_remaining_budget := budget\<rparr> in
     bind_exec (with_ledger st1 (update_run (sv_dump sv) (es_ledger st1) r FINISHED (Some result))) (\<lambda>_ st2.
       (Inr result, st2)))"

definition record_terminal_failure ::
  "services \<Rightarrow> uuid \<Rightarrow> fetch_plan \<Rightarrow> string \<Rightarrow> string \<Rightarrow> exec_state \<Rightarrow> fetch_result exec" where
  "record_terminal_failure sv r p failure_code message =
     record_failure sv r ''run.failed'' ''gateway'' [(''code'', failure_code)] (Diagnostic failure_code message)
       (rq_budget (fp_request p))"

definition record_planning_failure :: "services \<Rightarrow> uuid \<Rightarrow> fetch_request \<Rightarrow> exec_state \<Rightarrow> fetch_result exec" where
  "record_planning_failure sv r request =
     record_failure sv r ''run.planning_failed'' ''planner'' [(''code'', ''planning_failed'')]
       (Diagnostic ''planning_failed'' ''request could not produce a valid execution plan'') (rq_budget request)"

subsection \<open>Recovery and initialisation\<close>

definition recover_run :: "services \<Rightarrow> uuid \<times> run_state \<times> time \<times> document \<Rightarrow> exec_state \<Rightarrow> fetch_result exec" where
  "recover_run sv = (\<lambda>(r, previous_state, _, request_document).
     record_failure sv r ''run.recovered_interrupted'' ''gateway''
       [(''code'', ''run_interrupted''), (''previous_state'', run_state_value previous_state)]
       (Diagnostic ''run_interrupted'' ''run was interrupted before completion and was finalized during daemon startup'')
       (case sv_load_budget sv (py_get request_document ''budget'' (VDict [])) of
          Some budget \<Rightarrow> budget | None \<Rightarrow> default_budget))"

fun recover_runs :: "services \<Rightarrow> (uuid \<times> run_state \<times> time \<times> document) list \<Rightarrow> exec_state \<Rightarrow> unit exec" where
  "recover_runs sv [] st = (Inr (), st)"
| "recover_runs sv (row # rows) st = bind_exec (recover_run sv row st) (\<lambda>_ st'. recover_runs sv rows st')"

definition recover_interrupted_runs :: "services \<Rightarrow> exec_state \<Rightarrow> unit exec" where
  "recover_interrupted_runs sv st =
     (case unfinished_runs (es_ledger st) of
        Inl e \<Rightarrow> (Inl (value_exc e), st)
      | Inr rows \<Rightarrow> recover_runs sv rows st)"

definition artifact_dict :: "artifact list \<Rightarrow> (uuid \<times> artifact) list" where
  "artifact_dict as = fold (\<lambda>a d. assoc_set (ar_artifact_id a) a d) as []"

text \<open>The part of \<^verbatim>\<open>initialize\<close> behind the test of \<^verbatim>\<open>_initialized\<close>.\<close>

definition run_initialization :: "services \<Rightarrow> gateway \<Rightarrow> unit gw" where
  "run_initialization sv g0 =
     (let g1 = g0\<lparr>gw_exec := (gw_exec g0)\<lparr>es_ledger := initialize (gw_ledger g0)\<rparr>\<rparr> in
      bind_gw (on_exec (recover_interrupted_runs sv) g1) (\<lambda>_ g2.
      case lift_exc (artifacts (sv_load sv) (gw_ledger g2)) of
        Inl e \<Rightarrow> (Inl e, g2)
      | Inr as \<Rightarrow> (Inr (), g2\<lparr>gw_artifacts := artifact_dict as, gw_initialized := True\<rparr>)))"

definition gateway_initialize :: "services \<Rightarrow> gateway \<Rightarrow> unit gw" where
  "gateway_initialize sv g = (if gw_initialized g then (Inr (), g) else run_initialization sv g)"

subsection \<open>Planning and submission\<close>

text \<open>The identifiers and time of the two plans the coordinator makes.\<close>

definition plan_stamps :: "env \<Rightarrow> (uuid \<times> time) \<times> (uuid \<times> time)" where
  "plan_stamps en = ((en_next_id en, en_clock en), (en_next_id en + 1, en_clock en))"

definition take_ids :: "nat \<Rightarrow> gateway \<Rightarrow> gateway" where
  "take_ids n g = g\<lparr>gw_exec := (gw_exec g)\<lparr>es_env := (es_env (gw_exec g))\<lparr>en_next_id := en_next_id (es_env (gw_exec g)) + n\<rparr>\<rparr>\<rparr>"

definition propose :: "services \<Rightarrow> fetch_request \<Rightarrow> gateway \<Rightarrow> (logic_exc + plan_proposal) \<times> gateway" where
  "propose sv request g =
     (case plan_stamps (es_env (gw_exec g)) of (stamp, stamp') \<Rightarrow>
        (logic_plan (sv_logic sv) (sv_clingo sv) (sv_registry sv) stamp stamp' request, take_ids 2 g))"

definition plan_async :: "services \<Rightarrow> fetch_request \<Rightarrow> gateway \<Rightarrow> (logic_exc + fetch_plan) \<times> gateway" where
  "plan_async sv request g =
     (case propose sv request g of (m, g') \<Rightarrow> (bind_res m (\<lambda>proposal. Inr (pp_plan proposal)), g'))"

definition explain_capability :: "services \<Rightarrow> string \<Rightarrow> fetch_request option \<Rightarrow> logic_exc + reasoning_result" where
  "explain_capability sv capability_id request =
     bind_res (lift_res (capability_query (sv_registry sv) capability_id request)) (\<lambda>query.
       logic_explain (sv_logic sv) (sv_prolog sv) query)"

fun backend_status_value :: "backend_status \<Rightarrow> string" where
  "backend_status_value BS_SUCCEEDED = ''SUCCEEDED''"
| "backend_status_value BS_FALLBACK = ''FALLBACK''"
| "backend_status_value BS_UNAVAILABLE = ''UNAVAILABLE''"
| "backend_status_value BS_FAILED = ''FAILED''"

definition truthy_field :: "string \<Rightarrow> string option \<Rightarrow> (string \<times> string) list" where
  "truthy_field key v = (case v of Some s \<Rightarrow> if s = [] then [] else [(key, s)] | None \<Rightarrow> [])"

definition plan_payload :: "plan_proposal \<Rightarrow> (string \<times> string) list" where
  "plan_payload proposal =
     [(''backend'', pp_backend proposal), (''status'', backend_status_value (pp_status proposal)),
      (''classifier'', fp_classifier (pp_plan proposal))] @
     truthy_field ''executable_version'' (pp_executable_version proposal) @
     truthy_field ''ruleset_sha256'' (pp_ruleset_sha256 proposal) @
     truthy_field ''manifest_version'' (pp_manifest_version proposal) @
     truthy_field ''manifest_sha256'' (pp_manifest_sha256 proposal) @
     truthy_field ''input_sha256'' (pp_input_sha256 proposal) @
     truthy_field ''result_sha256'' (pp_result_sha256 proposal) @
     (if pp_diagnostics proposal = [] then [] else [(''diagnostic'', py_join ''; '' (pp_diagnostics proposal))])"

definition record_plan :: "uuid \<Rightarrow> plan_proposal \<Rightarrow> exec_state \<Rightarrow> provenance_event exec" where
  "record_plan r proposal = emit r ''planning.completed'' (pp_backend proposal) (details (plan_payload proposal)) []"

definition FetchRun :: "uuid \<Rightarrow> run_state \<Rightarrow> time \<Rightarrow> fetch_result option \<Rightarrow> fetch_run" where
  "FetchRun r state submitted_at result =
     \<lparr>run_id = r, run_state = state, run_submitted_at = submitted_at, run_result = result\<rparr>"

definition submit :: "services \<Rightarrow> fetch_request \<Rightarrow> gateway \<Rightarrow> fetch_run gw" where
  "submit sv request g0 =
     bind_gw (gateway_initialize sv g0) (\<lambda>_ g1.
     let r = en_next_id (es_env (gw_exec g1)); submitted_at = en_clock (es_env (gw_exec g1)); g2 = take_ids 1 g1 in
     bind_gw (on_exec (\<lambda>st. with_ledger st (create_run (es_ledger st) r (sv_dump_request sv request) submitted_at)) g2) (\<lambda>_ g3.
     case propose sv request g3 of
       (Inl _, g4) \<Rightarrow>
         bind_gw (on_exec (record_planning_failure sv r request) g4) (\<lambda>result g5.
           (Inr (FetchRun r FINISHED submitted_at (Some result)), g5))
     | (Inr proposal, g4) \<Rightarrow>
         bind_gw (on_exec (record_plan r proposal) g4) (\<lambda>_ g5.
           (Inr (FetchRun r QUEUED submitted_at None), g5\<lparr>gw_tasks := gw_tasks g5 @ [(r, pp_plan proposal)]\<rparr>))))"

subsection \<open>Execution\<close>

record task_run =
  tr_adapters :: adapter_table
  tr_interrupt :: adapter_table
  tr_schedules :: "schedule list"

definition execute_or_fail :: "services \<Rightarrow> task_run \<Rightarrow> uuid \<Rightarrow> fetch_plan \<Rightarrow> exec_state \<Rightarrow> fetch_result exec" where
  "execute_or_fail sv tr r p st =
     (case execute (sv_dump sv) (tr_adapters tr) (tr_interrupt tr) (tr_schedules tr) r p st of
        (Inr result, st1) \<Rightarrow> (Inr result, st1)
      | (Inl e, st1) \<Rightarrow>
          if ex_class e = ExcCancelled
          then bind_exec (record_terminal_failure sv r p ''run_cancelled'' ''fetch execution was cancelled'' st1)
                 (\<lambda>_ st2. (Inl e, st2))
          else record_terminal_failure sv r p ''internal_error'' ''fetch execution failed at an internal boundary'' st1)"

definition project_artifacts :: "fetch_result \<Rightarrow> gateway \<Rightarrow> gateway" where
  "project_artifacts result g = g\<lparr>gw_artifacts := assoc_update (gw_artifacts g)
     (map (\<lambda>a. (ar_artifact_id a, a)) (fr_artifacts result))\<rparr>"

definition write_graph :: "services \<Rightarrow> gateway \<Rightarrow> gateway" where
  "write_graph sv g =
     (if sv_graph_writable sv
      then g\<lparr>gw_graph := Some (build_runtime_graph (sv_str sv) (sv_isoformat sv) (gw_ledger g))\<rparr> else g)"

definition execute_and_project :: "services \<Rightarrow> task_run \<Rightarrow> uuid \<Rightarrow> fetch_plan \<Rightarrow> gateway \<Rightarrow> fetch_result gw" where
  "execute_and_project sv tr r p g =
     bind_gw (on_exec (execute_or_fail sv tr r p) g) (\<lambda>result g1.
       (Inr result, write_graph sv (project_artifacts result g1)))"

definition pop_task :: "uuid \<Rightarrow> gateway \<Rightarrow> gateway" where
  "pop_task r g = g\<lparr>gw_tasks := filter (\<lambda>(r', _). r' \<noteq> r) (gw_tasks g)\<rparr>"

text \<open>Awaiting the task of a run: it ends, and the callback removes it.\<close>

definition run_task :: "services \<Rightarrow> task_run \<Rightarrow> uuid \<Rightarrow> gateway \<Rightarrow> fetch_result gw" where
  "run_task sv tr r g =
     (case map_of (gw_tasks g) r of
        None \<Rightarrow> (Inl (value_exc (KeyError (nat_to_str r))), g)
      | Some p \<Rightarrow> (case execute_and_project sv tr r p g of (x, g') \<Rightarrow> (x, pop_task r g')))"

definition gateway_fetch :: "services \<Rightarrow> task_run \<Rightarrow> fetch_request \<Rightarrow> gateway \<Rightarrow> fetch_result gw" where
  "gateway_fetch sv tr request g =
     bind_gw (submit sv request g) (\<lambda>run g'.
       case run_result run of Some result \<Rightarrow> (Inr result, g') | None \<Rightarrow> run_task sv tr (run_id run) g')"

definition get_run :: "services \<Rightarrow> uuid \<Rightarrow> gateway \<Rightarrow> fetch_run gw" where
  "get_run sv r g =
     bind_gw (gateway_initialize sv g) (\<lambda>_ g'.
       (lift_exc (bind_res (run_snapshot (sv_load sv) (gw_ledger g') r)
          (\<lambda>(state, submitted_at, result). Inr (FetchRun r state submitted_at result))), g'))"

definition wait :: "services \<Rightarrow> task_run \<Rightarrow> uuid \<Rightarrow> gateway \<Rightarrow> fetch_result gw" where
  "wait sv tr r g =
     (if map_of (gw_tasks g) r \<noteq> None then run_task sv tr r g
      else bind_gw (get_run sv r g) (\<lambda>run g'.
        case run_result run of
          Some result \<Rightarrow> (Inr result, g')
        | None \<Rightarrow> (Inl (value_exc (PyRuntimeError (''run '' @ nat_to_str r @ '' has no active task or stored result''))), g')))"

definition get_artifact :: "gateway \<Rightarrow> uuid \<Rightarrow> artifact res" where
  "get_artifact g artifact_id =
     (case map_of (gw_artifacts g) artifact_id of
        Some a \<Rightarrow> Inr a | None \<Rightarrow> Inl (KeyError (''unknown artifact: '' @ nat_to_str artifact_id)))"

text \<open>
  \<^verbatim>\<open>close\<close>: every task is cancelled, and its exception is collected. A task that has not started
  ends without running; the others run to their cancellation point.
\<close>

definition cancel_task :: "services \<Rightarrow> (uuid \<Rightarrow> task_run option) \<Rightarrow> uuid \<Rightarrow> gateway \<Rightarrow> gateway" where
  "cancel_task sv started r g =
     (case started r of None \<Rightarrow> pop_task r g | Some tr \<Rightarrow> snd (run_task sv tr r g))"

definition close :: "services \<Rightarrow> (uuid \<Rightarrow> task_run option) \<Rightarrow> gateway \<Rightarrow> gateway" where
  "close sv started g0 =
     (let g1 = fold (cancel_task sv started) (map fst (gw_tasks g0)) g0
      in g1\<lparr>gw_exec := (gw_exec g1)\<lparr>es_ledger := close_ledger (gw_ledger g1)\<rparr>, gw_initialized := False\<rparr>)"

text \<open>The process dies: what is in memory is lost, what the ledger stored stays.\<close>

definition restart :: "gateway \<Rightarrow> gateway" where
  "restart g = g\<lparr>gw_exec := (gw_exec g)\<lparr>es_ledger := (close_ledger (gw_ledger g))\<lparr>lg_subscribers := []\<rparr>\<rparr>,
     gw_tasks := [], gw_artifacts := [], gw_initialized := False\<rparr>"

subsection \<open>Inspection\<close>

definition sanitize_inspection :: "fetch_request \<Rightarrow> inspection_result \<Rightarrow> inspection_result" where
  "sanitize_inspection rq x = x\<lparr>
     in_normalized_target := sanitize_str rq ''normalized_target'' (in_normalized_target x),
     in_family := sanitize_str rq ''family'' (in_family x),
     in_media_type_hint := san_opt rq ''media_type_hint'' (in_media_type_hint x),
     in_policy_decisions := map (sanitize_decision rq) (in_policy_decisions x),
     in_suggested_capabilities := map (sanitize_str rq ''suggested_capabilities'') (in_suggested_capabilities x)\<rparr>"

definition inspect :: "services \<Rightarrow> fetch_request \<Rightarrow> gateway \<Rightarrow> (logic_exc + inspection_result) \<times> gateway" where
  "inspect sv request g =
     (case lift_res (bind_res (normalize_url (rq_target request)) (\<lambda>normalized.
             bind_res (classify_target normalized (rq_output_requirements request)) (\<lambda>family. Inr (normalized, family)))) of
        Inl e \<Rightarrow> (Inl e, g)
      | Inr (normalized, family) \<Rightarrow>
          (case (case evaluate (sv_getaddrinfo sv) (gw_policy g) normalized None of
                   Inr (_, ds, sp) \<Rightarrow> (Inr ds, g\<lparr>gw_policy := sp\<rparr>)
                 | Inl (PolicyBlocked _ ds) \<Rightarrow> (Inr ds, g)
                 | Inl (PolicyRaised e) \<Rightarrow> (Inl (LogicRaised e), g)) of
             (Inl e, g1) \<Rightarrow> (Inl e, g1)
           | (Inr ds, g1) \<Rightarrow>
               (case plan_async sv request g1 of (m, g2) \<Rightarrow>
                  (bind_res m (\<lambda>p. Inr (sanitize_inspection request
                     \<lparr>in_normalized_target = normalized, in_family = family, in_media_type_hint = None,
                      in_policy_decisions = ds,
                      in_suggested_capabilities = map pn_capability_id (fp_nodes p)\<rparr>)), g2))))"

subsection \<open>The core adapter\<close>

definition core_url_validation :: "execution_context \<Rightarrow> execution_context" where
  "core_url_validation ctx0 =
     (let budget = rq_budget (xc_request ctx0);
          ctx1 = record_outcome ctx0 ''url_validation'' CO_APPLIED ''core'' (details [(''scheme'', ''http(s)'')]);
          ctx2 = record_outcome ctx1 ''resource_budget_policy'' CO_APPLIED ''core''
            [(''attempts'', VInt (b_attempts budget)), (''maximum_bytes'', VInt (b_bytes budget))]
      in if rq_intent (xc_request ctx0) = ''crawl'' then ctx2
         else record_outcome ctx2 ''robots_policy_check'' CO_NOT_APPLICABLE ''core''
           (details [(''reason'', ''robots policy is applied to crawling, not a single retrieval'')]))"

definition core_execute :: adapter where
  "core_execute node ctx en =
     (if pn_capability_id node = ''url_normalisation'' then
        (case normalize_url (rq_target (xc_request ctx)) of
           Inl e \<Rightarrow> (ctx, en, Some (value_exc e))
         | Inr normalized \<Rightarrow>
             (record_outcome ctx ''url_normalisation'' CO_APPLIED ''core''
                [(''changed'', VBool (normalized \<noteq> rq_target (xc_request ctx)))], en, None))
      else if pn_capability_id node = ''url_validation'' then
        (case normalize_url (rq_target (xc_request ctx)) of
           Inl e \<Rightarrow> (ctx, en, Some (value_exc e))
         | Inr _ \<Rightarrow> (core_url_validation ctx, en, None))
      else (ctx, en, Some (value_exc (ValueError (''core adapter cannot execute '' @ pn_capability_id node)))))"

text \<open>The adapter table of the gateway: the core adapter beside the others.\<close>

definition gateway_adapters :: "adapter_table \<Rightarrow> adapter_table" where
  "gateway_adapters others name = (if name = ''core'' then Some core_execute else others name)"

subsection \<open>The client\<close>

definition client_crawl :: "services \<Rightarrow> task_run \<Rightarrow> fetch_request \<Rightarrow> gateway \<Rightarrow> fetch_result gw" where
  "client_crawl sv tr request = gateway_fetch sv tr (request\<lparr>rq_intent := ''crawl''\<rparr>)"

end
