(* ===== verification/Gateway_Correct.thy ===== *)
theory Gateway_Correct
  imports Gateway Planning_Correct
begin

section \<open>What the gateway guarantees\<close>

text \<open>
  The invariant of the gateway over every sequence of its operations, the outcome of tasks and fetches, and the shape of the runtime graph.
\<close>

subsection \<open>Runs of the ledger\<close>

definition run_ids :: "event_ledger \<Rightarrow> uuid set" where
  "run_ids l = rw_run_id ` set (lg_runs l)"

definition unfinished :: "event_ledger \<Rightarrow> uuid set" where
  "unfinished l = rw_run_id ` {row \<in> set (lg_runs l). rw_state row \<noteq> FINISHED}"

definition other_rows :: "uuid \<Rightarrow> event_ledger \<Rightarrow> run_row list" where
  "other_rows r l = filter (\<lambda>row. rw_run_id row \<noteq> r) (lg_runs l)"

lemma unfinished_runs_ids: "unfinished l \<subseteq> run_ids l"
  by (auto simp: unfinished_def run_ids_def)

definition settled_run :: "uuid \<Rightarrow> event_ledger \<Rightarrow> bool" where
  "settled_run r l \<longleftrightarrow> list_all (\<lambda>row. rw_run_id row = r \<longrightarrow> rw_state row = FINISHED \<and> rw_result row \<noteq> None) (lg_runs l)"

lemma settled_unfinished: "settled_run r l \<Longrightarrow> r \<notin> unfinished l"
  by (auto simp: settled_run_def unfinished_def list_all_iff)

lemma unfinished_others: "unfinished l - {r} = rw_run_id ` {row \<in> set (other_rows r l). rw_state row \<noteq> FINISHED}"
  by (auto simp: unfinished_def other_rows_def)

lemma run_ids_others: "run_ids l - {r} = rw_run_id ` set (other_rows r l)"
  by (auto simp: run_ids_def other_rows_def)

lemma find_run_absent: "find_run l r = None \<longleftrightarrow> r \<notin> run_ids l"
  by (auto simp: find_run_def find_None_iff run_ids_def)

lemma update_run_Inr: "r \<in> run_ids l \<Longrightarrow> \<exists>l'. update_run dump l r s result = Inr l'"
  using find_run_absent [of l r] by (auto simp: update_run_def Let_def)

lemma other_rows_set_run: "(\<And>row. rw_run_id (f row) = rw_run_id row) \<Longrightarrow> other_rows r (set_run f r l) = other_rows r l"
  unfolding other_rows_def set_run_def by (induction "lg_runs l" arbitrary: l) (auto simp: filter_map o_def intro!: map_idI cong: filter_cong)

lemma publish_rows [simp]: "lg_runs (publish r x l) = lg_runs l" "lg_events (publish r x l) = lg_events l"
  by (simp_all add: publish_def)

lemma run_ids_set_run: "(\<And>row. rw_run_id (f row) = rw_run_id row) \<Longrightarrow> run_ids (set_run f r l) = run_ids l"
  unfolding run_ids_def set_map [symmetric] by (rule arg_cong [where f = set]) (simp add: set_run_def)

lemma update_run_result:
  assumes "update_run dump l r s result = Inr l'"
  shows "r \<in> run_ids l" "run_ids l' = run_ids l" "other_rows r l' = other_rows r l" "lg_events l' = lg_events l"
    "s = FINISHED \<Longrightarrow> result \<noteq> None \<Longrightarrow> settled_run r l'"
proof -
  define f :: "run_row \<Rightarrow> run_row" where "f = (case result of None \<Rightarrow> (\<lambda>row. row\<lparr>rw_state := s\<rparr>)
     | Some res \<Rightarrow> (\<lambda>row. row\<lparr>rw_state := s, rw_result :=
         Some (json_stored (sanitize_payload [] (r \<in> lg_authenticated l) (dump res)))\<rparr>))"
  have f: "rw_run_id (f row) = rw_run_id row" "rw_state (f row) = s" for row
    by (cases result; simp add: f_def)+
  from assms have r: "r \<in> run_ids l" and l': "l' = (if s = FINISHED then publish r None (set_run f r l) else set_run f r l)"
    using find_run_absent [of l r] by (auto simp: update_run_def Let_def f_def split: option.splits)
  show "r \<in> run_ids l" by (rule r)
  show "run_ids l' = run_ids l" using run_ids_set_run [of f r l] f(1) l' by (auto simp: run_ids_def)
  show "other_rows r l' = other_rows r l" using other_rows_set_run [of f r l] f(1) l' by (auto simp: other_rows_def)
  show "lg_events l' = lg_events l" by (simp add: l' set_run_def)
  have "result \<noteq> None \<Longrightarrow> rw_result (f row) \<noteq> None" for row by (auto simp: f_def)
  then show "s = FINISHED \<Longrightarrow> result \<noteq> None \<Longrightarrow> settled_run r l'" using f by (auto simp: l' settled_run_def set_run_def list_all_iff)
qed

subsection \<open>What running a task leaves alone\<close>

definition tidy :: "uuid \<Rightarrow> exec_state \<Rightarrow> exec_state \<Rightarrow> bool" where
  "tidy r st st' \<longleftrightarrow> run_ids (es_ledger st') = run_ids (es_ledger st) \<and>
     other_rows r (es_ledger st') = other_rows r (es_ledger st) \<and> (fresh_ids st \<longrightarrow> fresh_ids st') \<and>
     en_next_id (es_env st) \<le> en_next_id (es_env st')"

lemma tidy_refl: "tidy r st st" by (simp add: tidy_def)

lemma tidy_trans: "tidy r a b \<Longrightarrow> tidy r b c \<Longrightarrow> tidy r a c" by (auto simp: tidy_def)

lemma logs_rows: "logs r l l' \<Longrightarrow> run_ids l' = run_ids l \<and> other_rows r l' = other_rows r l"
  by (simp add: logs_def run_ids_def other_rows_def)

lemma emit_tidy:
  assumes "emit r t actor payload parents st = (x, st')"
  shows "tidy r st st'"
  unfolding tidy_def using logs_rows [OF emit_logs [OF assms]] fresh.emit_R [OF assms] assms
  by (auto simp: emit_def Let_def split: sum.splits)

interpretation task: exec_frame tidy "\<lambda>en en'. en_next_id en \<le> en_next_id en'" forward_ids
proof (unfold_locales, goal_cases)
  case (4 st en r)
  then show ?case using fresh.env_R [of st en] by (simp add: tidy_def)
qed (auto intro: tidy_refl tidy_trans emit_tidy fresh.good_env)

lemma update_tidy: "with_ledger st (update_run dump (es_ledger st) r s result) = (x, st') \<Longrightarrow> tidy r st st'"
  by (auto simp: with_ledger_def tidy_refl tidy_def fresh_ids_def update_run_result split: sum.splits)

lemma bind_exec_tidy:
  assumes "bind_exec m f = (x, st')" "\<And>y st1. m = (y, st1) \<Longrightarrow> tidy r st st1"
    "\<And>y st1 x st2. m = (Inr y, st1) \<Longrightarrow> f y st1 = (x, st2) \<Longrightarrow> tidy r st1 st2"
  shows "tidy r st st'"
  using assms by (cases m; cases "fst m") (auto intro: tidy_trans)

lemma finish_run_tidy: "finish_run dump r p request root_id started pr st = (x, st') \<Longrightarrow> tidy r st st'"
  unfolding finish_run_def Let_def
  by (erule bind_exec_tidy) (auto intro: emit_tidy update_tidy tidy_refl elim!: bind_exec_tidy split: if_splits)

lemma execute_tidy:
  assumes "execute dump ad itr scheds r p st = (x, st')" "task.good_table ad" "task.good_table itr"
  shows "tidy r st st'"
proof (cases "execution_request p")
  case (Inl e)
  then show ?thesis using assms(1) by (auto simp: execute_def tidy_refl)
next
  case (Inr request)
  show ?thesis
    using assms(1) unfolding execute_def Inr Let_def
    by simp (erule bind_exec_tidy, auto intro: update_tidy emit_tidy finish_run_tidy task.run_nodes_R [OF _ assms(2,3)]
        elim!: bind_exec_tidy)
qed

lemma record_failure_tidy: "record_failure sv r t actor payload d b st = (x, st') \<Longrightarrow> tidy r st st'"
  unfolding record_failure_def Let_def
  by (erule bind_exec_tidy) (auto intro: emit_tidy update_tidy tidy_refl elim!: bind_exec_tidy)

lemma record_failure_finishes:
  assumes "fresh_ids st" "r \<in> run_ids (es_ledger st)"
  obtains result st' where "record_failure sv r t actor payload d b st = (Inr result, st')" "fr_status result = RS_FAILED"
    "settled_run r (es_ledger st')"
proof -
  obtain event st1 where e: "emit r t actor (details payload) [] st = (Inr event, st1)"
    using fresh_emit [OF assms(1)] by blast
  have "r \<in> run_ids (es_ledger st1)" using emit_tidy [OF e] assms(2) by (simp add: tidy_def)
  then obtain l where "update_run (sv_dump sv) (es_ledger st1) r FINISHED (Some ((empty_result r RS_FAILED)\<lparr>fr_diagnostics := [d],
      fr_provenance_event_ids := [ev_event_id event], fr_remaining_budget := b\<rparr>)) = Inr l"
    using update_run_Inr by blast
  moreover from update_run_result(5) [OF this refl] have "settled_run r l" by simp
  ultimately show thesis
    using that by (simp add: record_failure_def e Let_def with_ledger_def empty_result_def)
qed

subsection \<open>A task always ends with a finished run\<close>

lemma finish_run_finishes: "finish_run dump r p request root_id started pr st = (Inr result, st') \<Longrightarrow> settled_run r (es_ledger st')"
  unfolding finish_run_def Let_def
  by (auto simp: bind_exec_def with_ledger_def split: prod.splits sum.splits if_splits dest: update_run_result(5))

lemma execute_finishes:
  assumes "execute dump ad itr scheds r p st = (Inr result, st')"
  shows "settled_run r (es_ledger st')"
  using assms unfolding execute_def Let_def
  by (auto simp: bind_exec_def split: prod.splits sum.splits dest: finish_run_finishes)

definition forward_run :: "task_run \<Rightarrow> bool" where
  "forward_run tr \<longleftrightarrow> task.good_table (tr_adapters tr) \<and> task.good_table (tr_interrupt tr)"

lemma execute_or_fail_finishes:
  assumes "forward_run tr" "fresh_ids st" "r \<in> run_ids (es_ledger st)" "execute_or_fail sv tr r p st = (x, st')"
  shows "tidy r st st' \<and> settled_run r (es_ledger st') \<and> (case x of Inl e \<Rightarrow> ex_class e = ExcCancelled | Inr _ \<Rightarrow> True)"
proof -
  obtain y st1 where e: "execute (sv_dump sv) (tr_adapters tr) (tr_interrupt tr) (tr_schedules tr) r p st = (y, st1)"
    by fastforce
  have t: "tidy r st st1" using execute_tidy [OF e] assms(1) by (simp add: forward_run_def)
  then have st1: "fresh_ids st1" "r \<in> run_ids (es_ledger st1)" using assms(2,3) by (simp_all add: tidy_def)
  show ?thesis
  proof (cases y)
    case (Inr result)
    then show ?thesis using e assms(4) t execute_finishes by (fastforce simp: execute_or_fail_def)
  next
    case (Inl ex)
    define failure where "failure = (if ex_class ex = ExcCancelled
      then record_terminal_failure sv r p ''run_cancelled'' ''fetch execution was cancelled'' st1
      else record_terminal_failure sv r p ''internal_error'' ''fetch execution failed at an internal boundary'' st1)"
    obtain result st2 where f: "failure = (Inr result, st2)" "settled_run r (es_ledger st2)" "tidy r st1 st2"
      using st1 unfolding failure_def record_terminal_failure_def
      by (metis record_failure_finishes record_failure_tidy)
    then have "st' = st2" "x = (if ex_class ex = ExcCancelled then Inl ex else Inr result)"
      using assms(4) e Inl by (auto simp: execute_or_fail_def failure_def split: if_splits)
    then show ?thesis using f t tidy_trans by auto
  qed
qed

subsection \<open>Recovery\<close>

lemma tidy_unfinished:
  assumes "tidy r st st'" "settled_run r (es_ledger st')"
  shows "unfinished (es_ledger st') = unfinished (es_ledger st) - {r}"
  using assms(1) settled_unfinished [OF assms(2)] unfinished_others [of "es_ledger st" r] unfinished_others [of "es_ledger st'" r] by (auto simp: tidy_def)

lemma recover_runs_finish:
  assumes "fresh_ids st" "fst ` set rows \<subseteq> run_ids (es_ledger st)"
  shows "\<exists>st'. recover_runs sv rows st = (Inr (), st') \<and> fresh_ids st' \<and> run_ids (es_ledger st') = run_ids (es_ledger st) \<and>
    en_next_id (es_env st) \<le> en_next_id (es_env st') \<and> unfinished (es_ledger st') = unfinished (es_ledger st) - fst ` set rows"
  using assms
proof (induction rows arbitrary: st)
  case Nil
  then show ?case by simp
next
  case (Cons row rows)
  obtain r s t d where row: "row = (r, s, t, d)" by (cases row)
  obtain result st1 where f: "recover_run sv row st = (Inr result, st1)" "settled_run r (es_ledger st1)" "tidy r st st1"
    using Cons.prems record_failure_finishes record_failure_tidy unfolding row recover_run_def by (simp, metis)
  then have "fresh_ids st1" "run_ids (es_ledger st1) = run_ids (es_ledger st)"
    "en_next_id (es_env st) \<le> en_next_id (es_env st1)" "unfinished (es_ledger st1) = unfinished (es_ledger st) - {r}"
    using Cons.prems tidy_unfinished by (auto simp: tidy_def)
  then show ?case using Cons.IH [of st1] Cons.prems f(1) row by auto
qed

lemma unfinished_runs_rows: "unfinished_runs l = Inr rows \<Longrightarrow> fst ` set rows = unfinished l"
proof -
  have "map_res (\<lambda>row. case rw_request row of
         VDict d \<Rightarrow> Inr (rw_run_id row, rw_state row, rw_submitted_at row, d)
       | _ \<Rightarrow> Inl (ValueError (''run '' @ nat_to_str (rw_run_id row) @ '' has malformed request metadata''))) xs = Inr ys
    \<Longrightarrow> map fst ys = map rw_run_id xs" for xs and ys :: "(uuid \<times> run_state \<times> time \<times> document) list"
    by (induction xs arbitrary: ys) (auto split: pyval.splits)
  moreover assume "unfinished_runs l = Inr rows"
  ultimately have "map fst rows = map rw_run_id (filter (\<lambda>row. rw_state row \<noteq> FINISHED) (lg_runs l))"
    unfolding unfinished_runs_def by blast
  then have "fst ` set rows = rw_run_id ` set (filter (\<lambda>row. rw_state row \<noteq> FINISHED) (lg_runs l))"
    by (metis list.set_map)
  then show ?thesis by (simp add: unfinished_def)
qed

lemma recover_interrupted:
  assumes "fresh_ids st" "recover_interrupted_runs sv st = (x, st')"
  shows "fresh_ids st' \<and> run_ids (es_ledger st') = run_ids (es_ledger st) \<and> en_next_id (es_env st) \<le> en_next_id (es_env st')"
    "x = Inr () \<Longrightarrow> unfinished (es_ledger st') = {}"
proof -
  have "(fresh_ids st' \<and> run_ids (es_ledger st') = run_ids (es_ledger st) \<and> en_next_id (es_env st) \<le> en_next_id (es_env st')) \<and>
    (x = Inr () \<longrightarrow> unfinished (es_ledger st') = {})"
  proof (cases "unfinished_runs (es_ledger st)")
    case (Inl e)
    then show ?thesis using assms by (auto simp: recover_interrupted_runs_def)
  next
    case (Inr rows)
    then show ?thesis
      using assms recover_runs_finish [OF assms(1), of rows sv] unfinished_runs_rows [OF Inr] unfinished_runs_ids [of "es_ledger st"]
      by (auto simp: recover_interrupted_runs_def)
  qed
  then show "fresh_ids st' \<and> run_ids (es_ledger st') = run_ids (es_ledger st) \<and> en_next_id (es_env st) \<le> en_next_id (es_env st')"
    "x = Inr () \<Longrightarrow> unfinished (es_ledger st') = {}" by blast+
qed

subsection \<open>The gateway invariant\<close>

text \<open>
  Identifiers are fresh; an initialised gateway has a task for exactly the unfinished runs, and one
  that is not initialised has no task.
\<close>

definition gw_ok :: "gateway \<Rightarrow> bool" where
  "gw_ok g \<longleftrightarrow> fresh_ids (gw_exec g) \<and> (\<forall>r\<in>run_ids (gw_ledger g). r < en_next_id (es_env (gw_exec g))) \<and>
     (if gw_initialized g then unfinished (gw_ledger g) = fst ` set (gw_tasks g) else gw_tasks g = [])"

lemma initialize_rows [simp]: "lg_runs (initialize l) = lg_runs l" "lg_events (initialize l) = lg_events l"
  by (simp_all add: initialize_def)

lemma run_initialization_ok:
  assumes "gw_ok g" "\<not> gw_initialized g" "run_initialization sv g = (x, g')"
  shows "gw_ok g' \<and> (x = Inr () \<longrightarrow> gw_initialized g' \<and> unfinished (gw_ledger g') = {})"
proof -
  define st where "st = (gw_exec g)\<lparr>es_ledger := initialize (gw_ledger g)\<rparr>"
  have st: "fresh_ids st" "run_ids (es_ledger st) = run_ids (gw_ledger g)" "en_next_id (es_env st) = en_next_id (es_env (gw_exec g))"
    using assms(1) by (simp_all add: gw_ok_def st_def fresh_ids_def run_ids_def gw_ledger_def)
  obtain y st1 where y: "recover_interrupted_runs sv st = (y, st1)" by fastforce
  note R = recover_interrupted [OF st(1) y]
  from R(1) assms(1) st(2,3) have ok: "\<forall>r\<in>run_ids (es_ledger st1). r < en_next_id (es_env st1)"
    by (fastforce simp: gw_ok_def)
  have on: "on_exec (recover_interrupted_runs sv) (g\<lparr>gw_exec := (gw_exec g)\<lparr>es_ledger := initialize (gw_ledger g)\<rparr>\<rparr>) =
      (y, g\<lparr>gw_exec := st1\<rparr>)"
    using y by (simp add: on_exec_def st_def)
  note run = assms(3) [unfolded run_initialization_def Let_def on]
  show ?thesis
    using assms(1,2) R ok run by (cases y) (auto simp: gw_ok_def gw_ledger_def split: sum.splits)
qed

lemma gateway_initialize_ok:
  "gw_ok g \<Longrightarrow> gateway_initialize sv g = (x, g') \<Longrightarrow> gw_ok g' \<and> (x = Inr () \<longrightarrow> gw_initialized g')"
  using run_initialization_ok [of g sv x g'] by (simp add: gateway_initialize_def split: if_split_asm)

lemma take_ids_ok: "gw_ok g \<Longrightarrow> gw_ok (take_ids n g)"
proof -
  assume "gw_ok g"
  moreover have "gw_ledger (take_ids n g) = gw_ledger g" "gw_initialized (take_ids n g) = gw_initialized g"
    "gw_tasks (take_ids n g) = gw_tasks g" "en_next_id (es_env (gw_exec (take_ids n g))) = en_next_id (es_env (gw_exec g)) + n"
    by (simp_all add: take_ids_def gw_ledger_def)
  ultimately show ?thesis unfolding gw_ok_def fresh_ids_def gw_ledger_def [symmetric] by (simp add: trans_less_add1)
qed

lemma run_task_ok:
  assumes ok: "gw_ok g" "gw_initialized g" and tr: "forward_run tr" and r: "map_of (gw_tasks g) r = Some p"
    and run: "run_task sv tr r g = (x, g')"
  shows "gw_ok g'" "gw_initialized g'" "gw_tasks g' = filter (\<lambda>(r', _). r' \<noteq> r) (gw_tasks g)"
    "tidy r (gw_exec g) (gw_exec g')" "settled_run r (gw_ledger g')"
    "case x of Inl e \<Rightarrow> ex_class e = ExcCancelled | Inr _ \<Rightarrow> True"
proof -
  obtain y st where e: "execute_or_fail sv tr r p (gw_exec g) = (y, st)" by fastforce
  have "r \<in> unfinished (gw_ledger g)" using ok r by (force simp: gw_ok_def dest: map_of_SomeD)
  then have "r \<in> run_ids (es_ledger (gw_exec g))" using unfinished_runs_ids by (auto simp: gw_ledger_def)
  then have F: "tidy r (gw_exec g) st" "settled_run r (es_ledger st)" "case y of Inl e \<Rightarrow> ex_class e = ExcCancelled | Inr _ \<Rightarrow> True"
    using execute_or_fail_finishes [OF tr _ _ e] ok(1) by (auto simp: gw_ok_def)
  have g': "gw_exec g' = st" "gw_initialized g'" "gw_tasks g' = filter (\<lambda>(r', _). r' \<noteq> r) (gw_tasks g)" "x = y"
    using run e ok(2) r
    by (cases y; auto simp: run_task_def execute_and_project_def on_exec_def pop_task_def write_graph_def project_artifacts_def)+
  have "unfinished (es_ledger st) = fst ` set (gw_tasks g')"
    using tidy_unfinished [OF F(1,2)] ok g'(3) by (force simp: gw_ok_def gw_ledger_def)
  moreover have "\<forall>q\<in>run_ids (es_ledger st). q < en_next_id (es_env st)" "fresh_ids st"
    using F(1) ok(1) by (fastforce simp: tidy_def gw_ok_def gw_ledger_def)+
  ultimately show "gw_ok g'" using g' by (simp add: gw_ok_def gw_ledger_def)
  show "gw_initialized g'" "gw_tasks g' = filter (\<lambda>(r', _). r' \<noteq> r) (gw_tasks g)" by (rule g')+
  show "tidy r (gw_exec g) (gw_exec g')" "settled_run r (gw_ledger g')" using F g'(1) by (simp_all add: gw_ledger_def)
  show "case x of Inl e \<Rightarrow> ex_class e = ExcCancelled | Inr _ \<Rightarrow> True" using F(3) g'(4) by simp
qed

subsection \<open>Submission\<close>

text \<open>A gateway in the middle of a submission: one more run than tasks.\<close>

definition gw_pending :: "uuid \<Rightarrow> gateway \<Rightarrow> bool" where
  "gw_pending r g \<longleftrightarrow> fresh_ids (gw_exec g) \<and> (\<forall>q\<in>run_ids (gw_ledger g). q < en_next_id (es_env (gw_exec g))) \<and>
     gw_initialized g \<and> r \<in> run_ids (gw_ledger g) \<and> r \<notin> fst ` set (gw_tasks g) \<and>
     unfinished (gw_ledger g) - {r} = fst ` set (gw_tasks g)"

lemma gw_pending_take: "gw_pending r g \<Longrightarrow> gw_pending r (take_ids n g)"
proof -
  assume "gw_pending r g"
  moreover have "gw_ledger (take_ids n g) = gw_ledger g" "gw_initialized (take_ids n g) = gw_initialized g"
    "gw_tasks (take_ids n g) = gw_tasks g" "en_next_id (es_env (gw_exec (take_ids n g))) = en_next_id (es_env (gw_exec g)) + n"
    by (simp_all add: take_ids_def gw_ledger_def)
  ultimately show ?thesis unfolding gw_pending_def fresh_ids_def gw_ledger_def [symmetric] by (simp add: trans_less_add1)
qed

lemma gw_pending_tidy:
  assumes "gw_pending r g" "tidy r (gw_exec g) st"
  shows "gw_pending r (g\<lparr>gw_exec := st\<rparr>)"
  using assms unfinished_others [of "es_ledger st" r] unfinished_others [of "gw_ledger g" r]
  unfolding gw_pending_def tidy_def gw_ledger_def by (auto intro: less_le_trans)

lemma create_run_pending:
  assumes "gw_ok g" "gw_initialized g" and r: "r = en_next_id (es_env (gw_exec g))"
  obtains l where "create_run (gw_ledger g) r request t = Inr l"
    "gw_pending r ((take_ids 1 g)\<lparr>gw_exec := (gw_exec (take_ids 1 g))\<lparr>es_ledger := l\<rparr>\<rparr>)"
    "r \<in> unfinished l"
proof -
  define row where "row = \<lparr>rw_run_id = r, rw_state = QUEUED, rw_submitted_at = t,
     rw_request = json_stored (sanitize_payload [] (authenticated_document request) (VDict request)), rw_result = None\<rparr>"
  have row: "rw_run_id row = r" "rw_state row \<noteq> FINISHED" by (simp_all add: row_def)
  have fresh: "r \<notin> run_ids (gw_ledger g)" using assms by (auto simp: gw_ok_def)
  then have "find_run (gw_ledger g) r = None" by (simp add: find_run_absent)
  then obtain l where l: "create_run (gw_ledger g) r request t = Inr l" "lg_runs l = lg_runs (gw_ledger g) @ [row]"
    "lg_events l = lg_events (gw_ledger g)"
    by (simp add: create_run_def Let_def row_def)
  then have ids: "run_ids l = insert r (run_ids (gw_ledger g))" and un: "unfinished l = insert r (unfinished (gw_ledger g))"
    using row by (auto simp: run_ids_def unfinished_def image_iff)
  have "r \<notin> fst ` set (gw_tasks g)" "unfinished (gw_ledger g) = fst ` set (gw_tasks g)"
    using assms(1,2) fresh unfinished_runs_ids [of "gw_ledger g"] by (auto simp: gw_ok_def)
  with assms(1) ids un have "gw_pending r ((take_ids 1 g)\<lparr>gw_exec := (gw_exec (take_ids 1 g))\<lparr>es_ledger := l\<rparr>\<rparr>)"
    using l(3) assms(2) r unfolding gw_pending_def gw_ok_def fresh_ids_def take_ids_def gw_ledger_def by auto
  then show thesis using that l(1) un by blast
qed

lemma pending_finished: "gw_pending r g \<Longrightarrow> r \<notin> unfinished (gw_ledger g) \<Longrightarrow> gw_ok g"
  by (auto simp: gw_pending_def gw_ok_def)

lemma pending_task:
  assumes "gw_pending r g" "r \<in> unfinished (gw_ledger g)"
  shows "gw_ok (g\<lparr>gw_tasks := gw_tasks g @ [(r, p)]\<rparr>)"
  using assms by (auto simp: gw_pending_def gw_ok_def gw_ledger_def)

lemma submit_ok:
  assumes ok: "gw_ok g" and run: "submit sv request g = (x, g')"
  shows "gw_ok g'" "gw_initialized g \<Longrightarrow> \<exists>run. x = Inr run \<and> gw_initialized g' \<and>
    (run_result run = None \<longrightarrow> map_of (gw_tasks g') (run_id run) \<noteq> None)"
proof -
  obtain y g1 where y: "gateway_initialize sv g = (y, g1)" by fastforce
  have g1: "gw_ok g1" "y = Inr () \<Longrightarrow> gw_initialized g1" using gateway_initialize_ok [OF ok y] by auto
  have "gw_ok g' \<and> (y = Inr () \<longrightarrow> (\<exists>run. x = Inr run \<and> gw_initialized g' \<and>
    (run_result run = None \<longrightarrow> map_of (gw_tasks g') (run_id run) \<noteq> None)))"
  proof (cases y)
    case (Inl e)
    then show ?thesis using run y g1(1) by (simp add: submit_def)
  next
    case (Inr u)
    define r t where "r = en_next_id (es_env (gw_exec g1))" "t = en_clock (es_env (gw_exec g1))"
    have init: "gw_initialized g1" using g1(2) Inr by simp
    obtain l where l: "create_run (gw_ledger g1) r (sv_dump_request sv request) t = Inr l"
      "gw_pending r ((take_ids 1 g1)\<lparr>gw_exec := (gw_exec (take_ids 1 g1))\<lparr>es_ledger := l\<rparr>\<rparr>)" "r \<in> unfinished l"
      using create_run_pending [OF g1(1) init r_t_def(1)] by blast
    define g3 where "g3 = (take_ids 1 g1)\<lparr>gw_exec := (gw_exec (take_ids 1 g1))\<lparr>es_ledger := l\<rparr>\<rparr>"
    define g4 where "g4 = take_ids 2 g3"
    have "gw_pending r g4" unfolding g4_def g3_def by (rule gw_pending_take [OF l(2)])
    moreover have "r \<in> unfinished (gw_ledger g4)" using l(3) by (simp add: g4_def g3_def gw_ledger_def take_ids_def)
    ultimately have g4: "gw_pending r g4" "r \<in> unfinished (gw_ledger g4)" .
    have c: "on_exec (\<lambda>st. with_ledger st (create_run (es_ledger st) r (sv_dump_request sv request) t)) (take_ids 1 g1) = (Inr (), g3)"
      using l(1) by (simp add: on_exec_def with_ledger_def g3_def take_ids_def gw_ledger_def)
    obtain m where m: "propose sv request g3 = (m, g4)" by (simp add: propose_def plan_stamps_def g4_def)
    note run' = run [unfolded submit_def Let_def, simplified y Inr bind_gw_simps r_t_def [symmetric] c m]
    show ?thesis
    proof (cases m)
      case (Inl e)
      obtain result st where f: "record_planning_failure sv r request (gw_exec g4) = (Inr result, st)" "settled_run r (es_ledger st)"
        "tidy r (gw_exec g4) st"
        using g4(1) record_failure_finishes record_failure_tidy unfolding record_planning_failure_def gw_pending_def gw_ledger_def by metis
      have "gw_ok (g4\<lparr>gw_exec := st\<rparr>)"
        using gw_pending_tidy [OF g4(1) f(3)] f(2) by (intro pending_finished [of r]) (simp_all add: gw_ledger_def settled_unfinished)
      then show ?thesis using run' Inl f(1) g4(1) by (auto simp: on_exec_def FetchRun_def gw_pending_def)
    next
      case (Inr proposal)
      have "fresh_ids (gw_exec g4)" using g4(1) by (simp add: gw_pending_def)
      then obtain event st where e: "record_plan r proposal (gw_exec g4) = (Inr event, st)"
        using fresh_emit unfolding record_plan_def by blast
      have "tidy r (gw_exec g4) st" "unfinished (es_ledger st) = unfinished (gw_ledger g4)"
        using e emit_tidy emit_logs [of r] unfolding record_plan_def by (blast, fastforce simp: logs_def unfinished_def gw_ledger_def)
      then have "gw_ok ((g4\<lparr>gw_exec := st\<rparr>)\<lparr>gw_tasks := gw_tasks (g4\<lparr>gw_exec := st\<rparr>) @ [(r, pp_plan proposal)]\<rparr>)"
        using gw_pending_tidy [OF g4(1)] g4(2) by (intro pending_task) (simp_all add: gw_ledger_def)
      then show ?thesis using run' Inr e g4(1) by (auto simp: on_exec_def FetchRun_def gw_pending_def map_add_def split: option.splits)
    qed
  qed
  then show "gw_ok g'" "gw_initialized g \<Longrightarrow> \<exists>run. x = Inr run \<and> gw_initialized g' \<and>
    (run_result run = None \<longrightarrow> map_of (gw_tasks g') (run_id run) \<noteq> None)"
    using y by (auto simp: gateway_initialize_def split: if_splits)
qed

subsection \<open>Closing and restarting\<close>

lemma close_ledger_rows: "lg_runs (close_ledger l) = lg_runs l" "lg_events (close_ledger l) = lg_events l"
  by (simp_all add: close_ledger_def)

lemma stopped_ok:
  assumes "fresh_ids (gw_exec g)" "\<forall>r\<in>run_ids (gw_ledger g). r < en_next_id (es_env (gw_exec g))"
    "es_env (gw_exec g') = es_env (gw_exec g)" "lg_runs (gw_ledger g') = lg_runs (gw_ledger g)"
    "lg_events (gw_ledger g') = lg_events (gw_ledger g)" "gw_tasks g' = []" "\<not> gw_initialized g'"
  shows "gw_ok g'"
  using assms by (simp add: gw_ok_def fresh_ids_def run_ids_def gw_ledger_def)

definition forward_all :: "(uuid \<Rightarrow> task_run option) \<Rightarrow> bool" where
  "forward_all started \<longleftrightarrow> (\<forall>r tr. started r = Some tr \<longrightarrow> forward_run tr)"

text \<open>While tasks are cancelled the ledger may hold unfinished runs without a task.\<close>

definition gw_closing :: "gateway \<Rightarrow> bool" where
  "gw_closing g \<longleftrightarrow> fresh_ids (gw_exec g) \<and> (\<forall>r\<in>run_ids (gw_ledger g). r < en_next_id (es_env (gw_exec g))) \<and>
     fst ` set (gw_tasks g) \<subseteq> run_ids (gw_ledger g)"

lemma cancel_task_closing:
  assumes g: "gw_closing g" and started: "forward_all started"
  shows "gw_closing (cancel_task sv started r g) \<and> gw_tasks (cancel_task sv started r g) = filter (\<lambda>(q, _). q \<noteq> r) (gw_tasks g)"
proof (cases "started r")
  case None
  then show ?thesis using g by (auto simp: cancel_task_def pop_task_def gw_closing_def gw_ledger_def)
next
  case (Some tr)
  show ?thesis
  proof (cases "map_of (gw_tasks g) r")
    case None
    then have "r \<notin> fst ` set (gw_tasks g)" by (simp add: map_of_eq_None_iff)
    then have "filter (\<lambda>(q, _). q \<noteq> r) (gw_tasks g) = gw_tasks g" by (force intro: filter_True)
    then show ?thesis using None Some g by (simp add: cancel_task_def run_task_def)
  next
    case p: (Some p)
    obtain y st where e: "execute_or_fail sv tr r p (gw_exec g) = (y, st)" by fastforce
    have "r \<in> run_ids (gw_ledger g)" using g p by (force simp: gw_closing_def dest: map_of_SomeD)
    then have t: "tidy r (gw_exec g) st"
      using execute_or_fail_finishes [OF _ _ _ e] g started Some by (auto simp: forward_all_def gw_closing_def gw_ledger_def)
    have c: "gw_exec (cancel_task sv started r g) = st"
      "gw_tasks (cancel_task sv started r g) = filter (\<lambda>(q, _). q \<noteq> r) (gw_tasks g)"
      using e p Some
      by (cases y; auto simp: cancel_task_def run_task_def execute_and_project_def on_exec_def pop_task_def write_graph_def project_artifacts_def)+
    have "fst ` set (gw_tasks (cancel_task sv started r g)) \<subseteq> run_ids (es_ledger st)"
      using g t c(2) by (auto simp: gw_closing_def tidy_def gw_ledger_def)
    moreover have "\<forall>q\<in>run_ids (es_ledger st). q < en_next_id (es_env st)" "fresh_ids st"
      using t g by (fastforce simp: tidy_def gw_closing_def gw_ledger_def)+
    ultimately show ?thesis using c by (simp add: gw_closing_def gw_ledger_def)
  qed
qed

lemma cancel_tasks_closing:
  assumes "gw_closing g" "forward_all started"
  shows "gw_closing (fold (cancel_task sv started) rs g) \<and>
    gw_tasks (fold (cancel_task sv started) rs g) = filter (\<lambda>(q, _). q \<notin> set rs) (gw_tasks g)"
  using assms(1)
proof (induction rs arbitrary: g)
  case (Cons r rs)
  note c = cancel_task_closing [OF Cons.prems assms(2), of sv r]
  then show ?case using Cons.IH [of "cancel_task sv started r g"] by (auto simp: split_def intro: filter_cong)
qed (simp add: split_def)

lemma gw_ok_closing: "gw_ok g \<Longrightarrow> gw_closing g"
  using unfinished_runs_ids [of "gw_ledger g"] by (auto simp: gw_ok_def gw_closing_def split: if_splits)

lemma close_ok:
  assumes "gw_ok g" "forward_all started"
  shows "gw_ok (close sv started g)"
proof -
  define g1 where "g1 = fold (cancel_task sv started) (map fst (gw_tasks g)) g"
  have "gw_closing g1" "gw_tasks g1 = []"
    using cancel_tasks_closing [OF gw_ok_closing [OF assms(1)] assms(2), where rs = "map fst (gw_tasks g)" and sv = sv]
    by (auto simp: g1_def filter_empty_conv intro: image_eqI [rotated])
  then show ?thesis
    unfolding close_def Let_def g1_def [symmetric]
    by (intro stopped_ok [of g1]) (simp_all add: gw_closing_def gw_ledger_def close_ledger_rows)
qed

lemma restart_ok: "gw_ok g \<Longrightarrow> gw_ok (restart g)"
  by (intro stopped_ok [of g]) (simp_all add: gw_ok_def restart_def gw_ledger_def close_ledger_rows)

subsection \<open>The life of a gateway\<close>

text \<open>
  The steps of a gateway whose operations do not overlap: each of them from its call to its end, with
  adapters that may do anything to the context but hand out identifiers in increasing order, the
  passing of time, and the death of the process between operations.
\<close>

inductive gw_step :: "services \<Rightarrow> gateway \<Rightarrow> gateway \<Rightarrow> bool" for sv where
  step_initialize: "gateway_initialize sv g = (x, g') \<Longrightarrow> gw_step sv g g'"
| step_submit: "submit sv request g = (y, g') \<Longrightarrow> gw_step sv g g'"
| step_task: "forward_run tr \<Longrightarrow> map_of (gw_tasks g) r = Some p \<Longrightarrow> run_task sv tr r g = (z, g') \<Longrightarrow> gw_step sv g g'"
| step_inspect: "inspect sv request g = (w, g') \<Longrightarrow> gw_step sv g g'"
| step_close: "forward_all started \<Longrightarrow> gw_step sv g (close sv started g)"
| step_restart: "gw_step sv g (restart g)"
| step_time: "gw_step sv g (g\<lparr>gw_exec := (gw_exec g)\<lparr>es_env := (es_env (gw_exec g))\<lparr>en_clock := now\<rparr>\<rparr>\<rparr>)"

inductive gw_reachable :: "services \<Rightarrow> gateway \<Rightarrow> bool" for sv where
  reach_new: "gw_exec g = \<lparr>es_env = en, es_ledger = EventLedger\<rparr> \<Longrightarrow> gw_tasks g = [] \<Longrightarrow> \<not> gw_initialized g \<Longrightarrow> gw_reachable sv g"
| reach_step: "gw_reachable sv g \<Longrightarrow> gw_step sv g g' \<Longrightarrow> gw_reachable sv g'"

lemma inspect_frame:
  assumes "inspect sv request g = (x, g')"
  shows "\<exists>n sp. g' = take_ids n (g\<lparr>gw_policy := sp\<rparr>)"
proof -
  have 0: "take_ids 0 h = h" for h by (simp add: take_ids_def)
  have "\<exists>n sp. g = take_ids n (g\<lparr>gw_policy := sp\<rparr>)" by (intro exI [of _ 0] exI [of _ "gw_policy g"]) (simp add: 0)
  moreover have "\<exists>n sp'. take_ids 2 (g\<lparr>gw_policy := sp\<rparr>) = take_ids n (g\<lparr>gw_policy := sp'\<rparr>)" for sp by blast
  moreover have "\<exists>n sp. take_ids 2 g = take_ids n (g\<lparr>gw_policy := sp\<rparr>)" by (intro exI [of _ 2] exI [of _ "gw_policy g"]) simp
  moreover have "g' = g \<or> g' = take_ids 2 g \<or> (\<exists>sp. g' = take_ids 2 (g\<lparr>gw_policy := sp\<rparr>))"
    using assms by (auto simp: inspect_def plan_async_def propose_def plan_stamps_def split: sum.splits prod.splits policy_exc.splits)
  ultimately show ?thesis by metis
qed

lemma gw_ok_policy: "gw_ok (g\<lparr>gw_policy := sp\<rparr>) = gw_ok g"
  by (simp add: gw_ok_def gw_ledger_def)

lemma gw_step_ok:
  assumes "gw_step sv g g'" "gw_ok g"
  shows "gw_ok g'"
  using assms
proof (induction rule: gw_step.induct)
  case (step_initialize g x g')
  then show ?case using gateway_initialize_ok by blast
next
  case (step_submit request g y g')
  then show ?case using submit_ok(1) by blast
next
  case (step_task tr g r p z g')
  then have "gw_initialized g" by (auto simp: gw_ok_def split: if_splits)
  then show ?case using run_task_ok(1) step_task by blast
next
  case (step_inspect request g w g')
  then show ?case using inspect_frame take_ids_ok gw_ok_policy by metis
next
  case (step_close started g)
  then show ?case by (intro close_ok)
next
  case (step_restart g)
  then show ?case by (rule restart_ok)
next
  case (step_time g now)
  then show ?case unfolding gw_ok_def fresh_ids_def gw_ledger_def by simp
qed

lemma gw_reachable_ok: "gw_reachable sv g \<Longrightarrow> gw_ok g"
proof (induction rule: gw_reachable.induct)
  case (reach_new g en)
  then show ?case by (simp add: gw_ok_def fresh_ids_def run_ids_def gw_ledger_def EventLedger_def)
next
  case (reach_step g g')
  then show ?case by (blast intro: gw_step_ok)
qed

text \<open>
  When operations do not overlap and are not cancelled in the middle, an initialised gateway has a
  task for exactly the unfinished runs. \<open>Gateway_Live\<close> has the general case.
\<close>

lemma sequential_tasks_exact:
  assumes "gw_reachable sv g" "gw_initialized g"
  shows "rw_run_id ` set (filter (\<lambda>row. rw_state row \<noteq> FINISHED) (lg_runs (gw_ledger g))) = fst ` set (gw_tasks g)"
  using gw_reachable_ok [OF assms(1)] assms(2) by (simp add: gw_ok_def unfinished_def)


text \<open>
  \<^verbatim>\<open>fetch\<close> answers. On an initialised gateway a fetch returns a result for every request, also
  one that cannot be planned, and whatever the adapters raise; only a cancellation is passed on.
\<close>

theorem fetch_answers:
  assumes "gw_reachable sv g" "gw_initialized g" "forward_run tr" "gateway_fetch sv tr request g = (x, g')"
  shows "(\<exists>result. x = Inr result) \<or> (\<exists>e. x = Inl e \<and> ex_class e = ExcCancelled)"
proof -
  have ok: "gw_ok g" using assms(1) by (rule gw_reachable_ok)
  obtain y g1 where y: "submit sv request g = (y, g1)" by (rule prod.exhaust)
  from submit_ok(2) [OF ok y assms(2)] obtain run where run: "y = Inr run" "gw_initialized g1"
    "run_result run = None \<longrightarrow> map_of (gw_tasks g1) (run_id run) \<noteq> None"
    by (elim exE conjE)
  note fetch = assms(4) [unfolded gateway_fetch_def y run(1) bind_gw_simps]
  show ?thesis
  proof (cases "run_result run")
    case None
    then obtain p where "map_of (gw_tasks g1) (run_id run) = Some p" using run(3) by auto
    moreover have "run_task sv tr (run_id run) g1 = (x, g')" using fetch None by simp
    ultimately have "case x of Inl e \<Rightarrow> ex_class e = ExcCancelled | Inr _ \<Rightarrow> True"
      by (rule run_task_ok(6) [OF submit_ok(1) [OF ok y] run(2) assms(3)])
    then show ?thesis by (cases x) simp_all
  next
    case (Some result)
    then show ?thesis using fetch by auto
  qed
qed

text \<open>
  Concurrent first use finalises live runs. \<^verbatim>\<open>initialize\<close> tests its flag before it awaits the
  ledger, and nothing excludes a second caller. When one caller has completed a submission while
  another is between the test and the recovery, that recovery marks every run that has a task as
  interrupted and finished, while its task goes on.
\<close>

theorem concurrent_initialize_finalizes_live_runs:
  assumes "gw_reachable sv g" "map_of (gw_tasks g) r = Some p" "run_initialization sv g = (Inr (), g')"
  shows "map_of (gw_tasks g') r = Some p \<and> list_all (\<lambda>row. rw_state row = FINISHED) (lg_runs (gw_ledger g'))"
proof -
  have ok: "gw_ok g" using assms(1) by (rule gw_reachable_ok)
  define st where "st = (gw_exec g)\<lparr>es_ledger := initialize (gw_ledger g)\<rparr>"
  have st: "fresh_ids st" using ok by (simp add: gw_ok_def st_def fresh_ids_def gw_ledger_def)
  obtain y st1 where y: "recover_interrupted_runs sv st = (y, st1)" by fastforce
  have on: "on_exec (recover_interrupted_runs sv) (g\<lparr>gw_exec := (gw_exec g)\<lparr>es_ledger := initialize (gw_ledger g)\<rparr>\<rparr>) =
      (y, g\<lparr>gw_exec := st1\<rparr>)"
    using y by (simp add: on_exec_def st_def)
  note run = assms(3) [unfolded run_initialization_def Let_def on]
  then have "y = Inr ()" by (cases y) auto
  with recover_interrupted(2) [OF st y] have "unfinished (es_ledger st1) = {}" by simp
  moreover have "gw_tasks g' = gw_tasks g" "gw_exec g' = st1"
    using run \<open>y = Inr ()\<close> by (auto split: sum.splits)
  ultimately show ?thesis using assms(2) by (auto simp: unfinished_def gw_ledger_def list_all_iff)
qed

subsection \<open>A gateway\<close>

definition sample_services :: services where
  "sample_services = \<lparr>sv_dump = (\<lambda>_. VNone), sv_load = (\<lambda>_. Inr (empty_result 0 RS_FAILED)),
     sv_dump_request = (\<lambda>_. []), sv_load_budget = (\<lambda>_. None), sv_registry = planner_registry,
     sv_logic = \<lparr>ls_planner_backend = ''python'', ls_reasoner_backend = ''python'', ls_logic_fallback = True\<rparr>,
     sv_clingo = \<lparr>pb_name = ''clingo'', pb_propose = python_propose\<rparr>,
     sv_prolog = \<lparr>rb_name = ''prolog'', rb_explain = python_explain\<rparr>,
     sv_getaddrinfo = (\<lambda>_ _. None), sv_str = (\<lambda>_. []), sv_isoformat = (\<lambda>_. []), sv_graph_writable = True\<rparr>"

definition new_gateway :: gateway where
  "new_gateway = \<lparr>gw_exec = \<lparr>es_env = \<lparr>en_clock = 0, en_next_id = 0\<rparr>, es_ledger = EventLedger\<rparr>,
     gw_policy = \<lparr>sp_policy = default_destination_policy, sp_validated_addresses = (\<lambda>_. None)\<rparr>,
     gw_tasks = [], gw_artifacts = [], gw_initialized = False, gw_graph = None\<rparr>"

definition busy_gateway :: gateway where
  "busy_gateway = snd (submit sample_services sample_request new_gateway)"

definition no_adapters :: task_run where
  "no_adapters = \<lparr>tr_adapters = (\<lambda>_. None), tr_interrupt = (\<lambda>_. None), tr_schedules = []\<rparr>"

lemma busy_gateway_reachable: "gw_reachable sample_services busy_gateway"
proof (rule reach_step)
  show "gw_reachable sample_services new_gateway" by (rule reach_new) (simp_all add: new_gateway_def)
  show "gw_step sample_services new_gateway busy_gateway"
    unfolding busy_gateway_def by (rule step_submit [OF prod.collapse [symmetric]])
qed

lemma busy_gateway_facts: "gw_initialized busy_gateway" "map fst (gw_tasks busy_gateway) = [0]"
  by code_simp+

lemma busy_task: "\<exists>p. map_of (gw_tasks busy_gateway) 0 = Some p"
  using busy_gateway_facts(2) by (cases "gw_tasks busy_gateway") auto

lemma no_adapters_forward: "forward_run no_adapters"
  by (simp add: forward_run_def no_adapters_def task.good_table_def)


theorem fetch_answers_witness:
  "\<exists>x g'. gateway_fetch sample_services no_adapters sample_request busy_gateway = (x, g') \<and>
     ((\<exists>result. x = Inr result) \<or> (\<exists>e. x = Inl e \<and> ex_class e = ExcCancelled))"
proof -
  obtain x g' where run: "gateway_fetch sample_services no_adapters sample_request busy_gateway = (x, g')" by (rule prod.exhaust)
  from fetch_answers [OF busy_gateway_reachable busy_gateway_facts(1) no_adapters_forward run] run show ?thesis by blast
qed

theorem concurrent_initialize_finalizes_live_runs_witness:
  "\<exists>g'. run_initialization sample_services busy_gateway = (Inr (), g') \<and> map_of (gw_tasks g') 0 \<noteq> None \<and>
     list_all (\<lambda>row. rw_state row = FINISHED) (lg_runs (gw_ledger g'))"
proof -
  have "case run_initialization sample_services busy_gateway of (Inr _, _) \<Rightarrow> True | _ \<Rightarrow> False" by code_simp
  then obtain g' where run: "run_initialization sample_services busy_gateway = (Inr (), g')"
    by (auto split: prod.splits sum.splits)
  from busy_task obtain p where "map_of (gw_tasks busy_gateway) 0 = Some p" by blast
  from concurrent_initialize_finalizes_live_runs [OF busy_gateway_reachable this run] run show ?thesis by auto
qed

subsection \<open>The runtime graph\<close>

definition node_id :: "document \<Rightarrow> string" where
  "node_id d = (case map_of d ''id'' of Some (VStr s) \<Rightarrow> s | _ \<Rightarrow> [])"

definition link_ends :: "document \<Rightarrow> string set" where
  "link_ends d = (case (map_of d ''source'', map_of d ''target'') of (Some (VStr s), Some (VStr t)) \<Rightarrow> {s, t} | _ \<Rightarrow> {})"

lemma graph_node_id [simp]: "node_id (graph_node i label kind rest) = i"
  by (simp add: node_id_def graph_node_def)

lemma graph_link_ends [simp]: "link_ends (graph_link s t kind) = {s, t}"
  by (simp add: link_ends_def graph_link_def)

text \<open>The known identifiers are those of the nodes; links end in them or in a given set.\<close>

definition graph_ok :: "string set \<Rightarrow> graph \<Rightarrow> bool" where
  "graph_ok S g \<longleftrightarrow> node_id ` set (gr_nodes g) = gr_known g \<and> (\<Union>l\<in>set (gr_links g). link_ends l) \<subseteq> gr_known g \<union> S"

lemma add_known_ok:
  "graph_ok S g \<Longrightarrow> node_id node = i \<Longrightarrow> graph_ok S (add_known i node g) \<and> gr_known (add_known i node g) = insert i (gr_known g)"
  by (auto simp: add_known_def graph_ok_def)

lemma add_link_ok:
  "graph_ok S g \<Longrightarrow> link_ends l \<subseteq> gr_known g \<union> S \<Longrightarrow> graph_ok S (add_link l g) \<and> gr_known (add_link l g) = gr_known g"
  by (auto simp: add_link_def graph_ok_def)

lemma add_parents_ok:
  "graph_ok S g \<Longrightarrow> event_id \<in> gr_known g \<Longrightarrow> nat_to_str ` set ps \<subseteq> S \<Longrightarrow>
   graph_ok S (fold (\<lambda>parent. add_link (graph_link (nat_to_str parent) event_id kind)) ps g) \<and>
   gr_known (fold (\<lambda>parent. add_link (graph_link (nat_to_str parent) event_id kind)) ps g) = gr_known g"
proof (induction ps arbitrary: g)
  case (Cons p ps)
  then have "graph_ok S (add_link (graph_link (nat_to_str p) event_id kind) g) \<and>
      gr_known (add_link (graph_link (nat_to_str p) event_id kind) g) = gr_known g"
    by (intro add_link_ok) auto
  with Cons show ?case by simp
qed simp

lemma add_reference_ok:
  assumes "graph_ok S g" "event_id \<in> gr_known g"
  shows "graph_ok S (add_reference str event_id payload f g) \<and> gr_known g \<subseteq> gr_known (add_reference str event_id payload f g)"
proof -
  obtain field node_type link_type where f: "f = (field, node_type, link_type)" by (cases f)
  have "graph_ok S (add_link (graph_link event_id t k) (add_known t (graph_node t v nt []) g)) \<and>
      gr_known g \<subseteq> gr_known (add_link (graph_link event_id t k) (add_known t (graph_node t v nt []) g))" for t k v nt
    using add_known_ok [OF assms(1), of "graph_node t v nt []" t] add_link_ok [of S "add_known t (graph_node t v nt []) g" "graph_link event_id t k"]
      assms(2) by auto
  with assms show ?thesis by (simp add: f add_reference_def Let_def split: pyval.split)
qed

lemma add_references_ok:
  "graph_ok S g \<Longrightarrow> event_id \<in> gr_known g \<Longrightarrow>
   graph_ok S (fold (add_reference str event_id payload) fs g) \<and> gr_known g \<subseteq> gr_known (fold (add_reference str event_id payload) fs g)"
proof (induction fs arbitrary: g)
  case (Cons f fs)
  note R = add_reference_ok [OF Cons.prems, of str payload f]
  then show ?case using Cons.IH [of "add_reference str event_id payload f g"] Cons.prems by auto
qed simp

lemma add_event_ok:
  assumes "graph_ok S g" "nat_to_str ` set (ev_parent_event_ids e) \<subseteq> S"
  shows "graph_ok S (add_event str isof e g) \<and> insert (nat_to_str (ev_event_id e)) (gr_known g) \<subseteq> gr_known (add_event str isof e g)"
proof -
  define run i where "run = nat_to_str (ev_run_id e)" "i = nat_to_str (ev_event_id e)"
  define g1 where "g1 = add_known run (graph_node run (''run:'' @ take 8 run) ''FetchRun'' []) g"
  define g2 where "g2 = g1\<lparr>gr_nodes := gr_nodes g1 @ [graph_node i (ev_event_type e) ''ProvenanceEvent''
       [(''timestamp'', VStr (isof (ev_timestamp e))), (''actor'', VStr (ev_actor e)), (''source'', VStr ''event-ledger'')]],
     gr_known := insert i (gr_known g1)\<rparr>"
  define g3 where "g3 = add_link (graph_link run i ''EMITTED'') g2"
  define g4 where "g4 = fold (\<lambda>parent. add_link (graph_link (nat_to_str parent) i ''PRECEDES'')) (ev_parent_event_ids e) g3"
  have 1: "graph_ok S g1" "gr_known g1 = insert run (gr_known g)" unfolding g1_def using add_known_ok [OF assms(1) graph_node_id] by blast+
  then have 2: "graph_ok S g2" "gr_known g2 = insert i (insert run (gr_known g))" by (auto simp: g2_def graph_ok_def)
  then have 3: "graph_ok S g3" "gr_known g3 = gr_known g2" using add_link_ok [OF 2(1), of "graph_link run i ''EMITTED''"] by (auto simp: g3_def)
  then have 4: "graph_ok S g4" "gr_known g4 = gr_known g2"
    using add_parents_ok [OF 3(1) _ assms(2), of i "''PRECEDES''"] 2(2) by (auto simp: g4_def)
  have "add_event str isof e g = fold (add_reference str i (ev_payload e)) GRAPH_FIELDS g4"
    by (simp add: add_event_def Let_def run_i_def g1_def g2_def g3_def g4_def)
  then show ?thesis using add_references_ok [OF 4(1), of i str "ev_payload e" GRAPH_FIELDS] 4(2) 2(2) by (auto simp: run_i_def)
qed

lemma add_events_ok:
  "graph_ok S g \<Longrightarrow> nat_to_str ` (\<Union>e\<in>set es. set (ev_parent_event_ids e)) \<subseteq> S \<Longrightarrow>
   graph_ok S (fold (add_event str isof) es g) \<and>
   (\<lambda>e. nat_to_str (ev_event_id e)) ` set es \<union> gr_known g \<subseteq> gr_known (fold (add_event str isof) es g)"
proof (induction es arbitrary: g)
  case (Cons e es)
  have "nat_to_str ` set (ev_parent_event_ids e) \<subseteq> S" using Cons.prems(2) by auto
  note E = add_event_ok [OF Cons.prems(1) this, of str isof]
  then show ?case using Cons.IH [of "add_event str isof e g"] Cons.prems(2) by (auto simp: image_Un)
qed simp

text \<open>
  The runtime graph rebuilt from the ledger has no dangling link: when every parent an event
  names is an event of the ledger, both ends of every link are nodes of the graph, and every event
  of the ledger is one.
\<close>

theorem runtime_graph_closed:
  assumes "(\<Union>e\<in>set (lg_events l). set (ev_parent_event_ids e)) \<subseteq> ev_event_id ` set (lg_events l)"
  shows "(\<Union>k\<in>set (gr_links (build_runtime_graph str isof l)). link_ends k)
      \<subseteq> node_id ` set (gr_nodes (build_runtime_graph str isof l)) \<and>
    (\<lambda>e. nat_to_str (ev_event_id e)) ` set (lg_events l) \<subseteq> node_id ` set (gr_nodes (build_runtime_graph str isof l))"
proof -
  define S where "S = nat_to_str ` ev_event_id ` set (lg_events l)"
  have 0: "graph_ok S \<lparr>gr_nodes = [], gr_links = [], gr_known = {}\<rparr>" by (simp add: graph_ok_def)
  have "nat_to_str ` (\<Union>e\<in>set (lg_events l). set (ev_parent_event_ids e)) \<subseteq> S"
    unfolding S_def by (rule image_mono [OF assms])
  from add_events_ok [OF 0 this, of str isof] have "graph_ok S (build_runtime_graph str isof l)"
    "(\<lambda>e. nat_to_str (ev_event_id e)) ` set (lg_events l) \<subseteq> gr_known (build_runtime_graph str isof l)"
    unfolding build_runtime_graph_def all_events_def by simp_all
  then show ?thesis unfolding graph_ok_def S_def image_image by (metis (no_types, lifting) Un_absorb2)
qed

theorem runtime_graph_closed_witness:
  "(\<Union>k\<in>set (gr_links (build_runtime_graph (\<lambda>_. []) (\<lambda>_. []) (gw_ledger busy_gateway))). link_ends k)
     \<subseteq> node_id ` set (gr_nodes (build_runtime_graph (\<lambda>_. []) (\<lambda>_. []) (gw_ledger busy_gateway)))"
proof -
  have "list_all (\<lambda>e. ev_parent_event_ids e = []) (lg_events (gw_ledger busy_gateway))" by code_simp
  then show ?thesis using runtime_graph_closed [of "gw_ledger busy_gateway"] by (simp add: list_all_iff)
qed

end
