(* ===== verification/Gateway_Live.thy ===== *)
theory Gateway_Live
  imports Gateway_Correct
begin

section \<open>The gateway under interleaving\<close>

text \<open>
  \<^verbatim>\<open>submit\<close> and \<^verbatim>\<open>initialize\<close> await the ledger between their parts, so that other operations run in
  between, and each can be cancelled where it waits. Here every part up to the next await is a step:
  what a submission has done so far and what a recovery still has to do are data. Nothing excludes a
  second recovery, as in the code. The execution of a task is one step.
\<close>

subsection \<open>Operations in progress\<close>

text \<open>
  A submission has created its run; has logged that planning failed and has to store the result; or
  has logged its plan and has to create the task. A recovery has tested the flag; has opened the
  ledger; has the rows it read still to finalise; or has logged the interruption of the first one and
  has to store its result.
\<close>

datatype submission = Created uuid fetch_request | Failing uuid fetch_result | Planned uuid fetch_plan

type_synonym run_info = "uuid \<times> run_state \<times> time \<times> document"

datatype recovery = Entered | Opened | Recovering "run_info list" | Finalizing uuid fetch_result "run_info list"

fun submission_id :: "submission \<Rightarrow> uuid" where
  "submission_id (Created r _) = r"
| "submission_id (Failing r _) = r"
| "submission_id (Planned r _) = r"

fun recovery_ids :: "recovery \<Rightarrow> uuid set" where
  "recovery_ids Entered = {}"
| "recovery_ids Opened = {}"
| "recovery_ids (Recovering rows) = fst ` set rows"
| "recovery_ids (Finalizing r _ rows) = insert r (fst ` set rows)"

record live =
  lv_gateway :: gateway
  lv_submissions :: "submission list"
  lv_recoveries :: "recovery list"
  lv_lost :: "uuid set" \<comment> \<open>runs whose operation was cancelled since a recovery last read the ledger\<close>

definition lv_ledger :: "live \<Rightarrow> event_ledger" where
  "lv_ledger s = gw_ledger (lv_gateway s)"

definition task_ids :: "live \<Rightarrow> uuid set" where
  "task_ids s = fst ` set (gw_tasks (lv_gateway s))"

text \<open>The runs that an operation in progress or a task still answers for.\<close>

definition owned :: "live \<Rightarrow> uuid set" where
  "owned s = task_ids s \<union> submission_id ` set (lv_submissions s) \<union> (\<Union>v\<in>set (lv_recoveries s). recovery_ids v)"

definition set_exec :: "exec_state \<Rightarrow> live \<Rightarrow> live" where
  "set_exec st s = s\<lparr>lv_gateway := (lv_gateway s)\<lparr>gw_exec := st\<rparr>\<rparr>"

definition move_submission :: "submission \<Rightarrow> submission list \<Rightarrow> live \<Rightarrow> live" where
  "move_submission u us s = s\<lparr>lv_submissions := remove1 u (lv_submissions s) @ us\<rparr>"

definition move_recovery :: "recovery \<Rightarrow> recovery list \<Rightarrow> live \<Rightarrow> live" where
  "move_recovery v vs s = s\<lparr>lv_recoveries := remove1 v (lv_recoveries s) @ vs\<rparr>"

text \<open>The two halves of \<open>record_failure\<close>, between which the ledger is awaited.\<close>

definition log_failure ::
  "uuid \<Rightarrow> string \<Rightarrow> string \<Rightarrow> (string \<times> string) list \<Rightarrow> diagnostic \<Rightarrow> resource_budget \<Rightarrow> exec_state \<Rightarrow> fetch_result exec" where
  "log_failure r event_type actor payload diagnostic budget st =
     bind_exec (emit r event_type actor (details payload) [] st) (\<lambda>event st1.
       (Inr ((empty_result r RS_FAILED)\<lparr>fr_diagnostics := [diagnostic], fr_provenance_event_ids := [ev_event_id event],
          fr_remaining_budget := budget\<rparr>), st1))"

definition store_failure :: "services \<Rightarrow> uuid \<Rightarrow> fetch_result \<Rightarrow> exec_state \<Rightarrow> unit exec" where
  "store_failure sv r result st = with_ledger st (update_run (sv_dump sv) (es_ledger st) r FINISHED (Some result))"

lemma record_failure_halves:
  "record_failure sv r t actor payload d b st =
     bind_exec (log_failure r t actor payload d b st) (\<lambda>result st1. bind_exec (store_failure sv r result st1) (\<lambda>_ st2. (Inr result, st2)))"
  by (simp add: record_failure_def log_failure_def store_failure_def bind_exec_def Let_def split: prod.splits sum.splits)

definition log_planning_failure :: "uuid \<Rightarrow> fetch_request \<Rightarrow> exec_state \<Rightarrow> fetch_result exec" where
  "log_planning_failure r request =
     log_failure r ''run.planning_failed'' ''planner'' [(''code'', ''planning_failed'')]
       (Diagnostic ''planning_failed'' ''request could not produce a valid execution plan'') (rq_budget request)"

definition log_interruption :: "services \<Rightarrow> run_info \<Rightarrow> exec_state \<Rightarrow> fetch_result exec" where
  "log_interruption sv = (\<lambda>(r, previous_state, _, request_document).
     log_failure r ''run.recovered_interrupted'' ''gateway''
       [(''code'', ''run_interrupted''), (''previous_state'', run_state_value previous_state)]
       (Diagnostic ''run_interrupted'' ''run was interrupted before completion and was finalized during daemon startup'')
       (case sv_load_budget sv (py_get request_document ''budget'' (VDict [])) of
          Some budget \<Rightarrow> budget | None \<Rightarrow> default_budget))"

subsection \<open>Steps\<close>

text \<open>
  \<open>Scan\<close> is the step in which a recovery reads the unfinished runs, \<open>Abort\<close> a cancellation, an
  exception or the death of the process, which may leave a run without anybody to answer for it.
\<close>

datatype label = Progress | Scan | Abort

definition exec_of :: "live \<Rightarrow> exec_state" where "exec_of s = gw_exec (lv_gateway s)"

inductive live_step :: "services \<Rightarrow> label \<Rightarrow> live \<Rightarrow> live \<Rightarrow> bool" for sv where
  enter: "\<not> gw_initialized (lv_gateway s) \<Longrightarrow> live_step sv Progress s (s\<lparr>lv_recoveries := lv_recoveries s @ [Entered]\<rparr>)"
| open_ledger: "Entered \<in> set (lv_recoveries s) \<Longrightarrow>
    live_step sv Progress s (set_exec ((exec_of s)\<lparr>es_ledger := initialize (lv_ledger s)\<rparr>) (move_recovery Entered [Opened] s))"
| scan: "Opened \<in> set (lv_recoveries s) \<Longrightarrow> unfinished_runs (lv_ledger s) = Inr rows \<Longrightarrow>
    live_step sv Scan s ((move_recovery Opened [Recovering rows] s)\<lparr>lv_lost := {}\<rparr>)"
| interrupt: "Recovering (row # rows) \<in> set (lv_recoveries s) \<Longrightarrow> log_interruption sv row (exec_of s) = (Inr result, st) \<Longrightarrow>
    live_step sv Progress s (set_exec st (move_recovery (Recovering (row # rows)) [Finalizing (fst row) result rows] s))"
| finalize: "Finalizing r result rows \<in> set (lv_recoveries s) \<Longrightarrow> store_failure sv r result (exec_of s) = (Inr (), st) \<Longrightarrow>
    live_step sv Progress s (set_exec st (move_recovery (Finalizing r result rows) [Recovering rows] s))"
| recovered: "Recovering [] \<in> set (lv_recoveries s) \<Longrightarrow> artifacts (sv_load sv) (lv_ledger s) = Inr as \<Longrightarrow>
    live_step sv Progress s (let s1 = move_recovery (Recovering []) [] s in
      s1\<lparr>lv_gateway := (lv_gateway s1)\<lparr>gw_artifacts := artifact_dict as, gw_initialized := True\<rparr>\<rparr>)"
| recovery_ends: "v \<in> set (lv_recoveries s) \<Longrightarrow>
    live_step sv Abort s ((move_recovery v [] s)\<lparr>lv_lost := lv_lost s \<union> recovery_ids v\<rparr>)"
| create: "r = en_next_id (es_env (exec_of s)) \<Longrightarrow> g = take_ids 1 (lv_gateway s) \<Longrightarrow>
    create_run (gw_ledger g) r (sv_dump_request sv request) now = Inr l \<Longrightarrow>
    live_step sv Progress s (s\<lparr>lv_gateway := g\<lparr>gw_exec := (gw_exec g)\<lparr>es_ledger := l\<rparr>\<rparr>, lv_submissions := lv_submissions s @ [Created r request]\<rparr>)"
| planned: "Created r request \<in> set (lv_submissions s) \<Longrightarrow> propose sv request (lv_gateway s) = (Inr proposal, g) \<Longrightarrow>
    record_plan r proposal (gw_exec g) = (Inr event, st) \<Longrightarrow>
    live_step sv Progress s (set_exec st (move_submission (Created r request) [Planned r (pp_plan proposal)] (s\<lparr>lv_gateway := g\<rparr>)))"
| started: "Planned r p \<in> set (lv_submissions s) \<Longrightarrow>
    live_step sv Progress s (let s1 = move_submission (Planned r p) [] s in
      s1\<lparr>lv_gateway := (lv_gateway s1)\<lparr>gw_tasks := gw_tasks (lv_gateway s1) @ [(r, p)]\<rparr>\<rparr>)"
| unplanned: "Created r request \<in> set (lv_submissions s) \<Longrightarrow> propose sv request (lv_gateway s) = (Inl e, g) \<Longrightarrow>
    log_planning_failure r request (gw_exec g) = (Inr result, st) \<Longrightarrow>
    live_step sv Progress s (set_exec st (move_submission (Created r request) [Failing r result] (s\<lparr>lv_gateway := g\<rparr>)))"
| failed: "Failing r result \<in> set (lv_submissions s) \<Longrightarrow> store_failure sv r result (exec_of s) = (Inr (), st) \<Longrightarrow>
    live_step sv Progress s (set_exec st (move_submission (Failing r result) [] s))"
| submission_ends: "u \<in> set (lv_submissions s) \<Longrightarrow>
    live_step sv Abort s ((move_submission u [] s)\<lparr>lv_lost := insert (submission_id u) (lv_lost s)\<rparr>)"
| task: "forward_run tr \<Longrightarrow> map_of (gw_tasks (lv_gateway s)) r = Some p \<Longrightarrow> run_task sv tr r (lv_gateway s) = (x, g) \<Longrightarrow>
    live_step sv Progress s (s\<lparr>lv_gateway := g\<rparr>)"
| unstarted: "live_step sv Abort s (s\<lparr>lv_gateway := pop_task r (lv_gateway s), lv_lost := insert r (lv_lost s)\<rparr>)"
| closed: "live_step sv Progress s (s\<lparr>lv_gateway := (lv_gateway s)\<lparr>gw_exec := (exec_of s)\<lparr>es_ledger := close_ledger (lv_ledger s)\<rparr>,
    gw_initialized := False\<rparr>\<rparr>)"
| inspected: "inspect sv request (lv_gateway s) = (y, g) \<Longrightarrow> live_step sv Progress s (s\<lparr>lv_gateway := g\<rparr>)"
| clock: "live_step sv Progress s (set_exec ((exec_of s)\<lparr>es_env := (es_env (exec_of s))\<lparr>en_clock := now\<rparr>\<rparr>) s)"
| died: "live_step sv Abort s \<lparr>lv_gateway = restart (lv_gateway s), lv_submissions = [], lv_recoveries = [], lv_lost = unfinished (lv_ledger s)\<rparr>"

text \<open>What can happen to a gateway, the latest step first.\<close>

inductive live_run :: "services \<Rightarrow> label list \<Rightarrow> live \<Rightarrow> bool" for sv where
  new: "gw_exec g = \<lparr>es_env = en, es_ledger = EventLedger\<rparr> \<Longrightarrow> gw_tasks g = [] \<Longrightarrow> \<not> gw_initialized g \<Longrightarrow>
    live_run sv [] \<lparr>lv_gateway = g, lv_submissions = [], lv_recoveries = [], lv_lost = {}\<rparr>"
| step: "live_run sv trace s \<Longrightarrow> live_step sv l s s' \<Longrightarrow> live_run sv (l # trace) s'"

subsection \<open>The invariant\<close>

definition live_ok :: "live \<Rightarrow> bool" where
  "live_ok s \<longleftrightarrow> fresh_ids (exec_of s) \<and> (\<forall>r\<in>run_ids (lv_ledger s). r < en_next_id (es_env (exec_of s))) \<and>
     owned s \<subseteq> run_ids (lv_ledger s) \<and> unfinished (lv_ledger s) \<subseteq> owned s \<union> lv_lost s"

lemma live_sel [simp]:
  "exec_of (set_exec st s) = st" "lv_ledger (set_exec st s) = es_ledger st" "owned (set_exec st s) = owned s" "lv_lost (set_exec st s) = lv_lost s"
  "exec_of (move_submission u us s) = exec_of s" "lv_ledger (move_submission u us s) = lv_ledger s" "lv_lost (move_submission u us s) = lv_lost s"
  "exec_of (move_recovery v vs s) = exec_of s" "lv_ledger (move_recovery v vs s) = lv_ledger s" "lv_lost (move_recovery v vs s) = lv_lost s"
  "owned (s\<lparr>lv_lost := x\<rparr>) = owned s" "exec_of (s\<lparr>lv_lost := x\<rparr>) = exec_of s" "lv_ledger (s\<lparr>lv_lost := x\<rparr>) = lv_ledger s"
  by (simp_all add: set_exec_def exec_of_def lv_ledger_def gw_ledger_def move_submission_def move_recovery_def owned_def task_ids_def)

lemma lv_ledger_exec: "es_ledger (exec_of s) = lv_ledger s"
  by (simp add: exec_of_def lv_ledger_def gw_ledger_def)

lemma remove1_image: "x \<in> set xs \<Longrightarrow> f ` set xs \<subseteq> insert (f x) (f ` set (remove1 x xs))"
  by (induction xs) auto

lemma remove1_UN: "x \<in> set xs \<Longrightarrow> (\<Union>y\<in>set xs. f y) = f x \<union> (\<Union>y\<in>set (remove1 x xs). f y)"
  by (induction xs) auto

lemma owned_move_submission:
  assumes "u \<in> set (lv_submissions s)"
  shows "owned (move_submission u us s) \<subseteq> owned s \<union> submission_id ` set us"
    "owned s \<subseteq> insert (submission_id u) (owned (move_submission u us s))" "submission_id ` set us \<subseteq> owned (move_submission u us s)"
  using assms remove1_image [OF assms, of submission_id] set_remove1_subset [of u "lv_submissions s"]
  by (auto simp: owned_def move_submission_def task_ids_def)

lemma owned_move_recovery:
  assumes "v \<in> set (lv_recoveries s)"
  shows "owned (move_recovery v vs s) \<subseteq> owned s \<union> (\<Union>w\<in>set vs. recovery_ids w)"
    "owned s \<subseteq> recovery_ids v \<union> owned (move_recovery v vs s)" "(\<Union>w\<in>set vs. recovery_ids w) \<subseteq> owned (move_recovery v vs s)"
  using assms remove1_UN [OF assms, of recovery_ids] set_remove1_subset [of v "lv_recoveries s"]
  by (auto simp: owned_def move_recovery_def task_ids_def)

lemma owned_in_progress:
  "u \<in> set (lv_submissions s) \<Longrightarrow> submission_id u \<in> owned s" "v \<in> set (lv_recoveries s) \<Longrightarrow> recovery_ids v \<subseteq> owned s"
  by (auto simp: owned_def)

lemma live_ok_tidy:
  assumes "live_ok s" "tidy r (exec_of s) (exec_of s')" "owned s' \<subseteq> owned s" "owned s \<subseteq> insert r (owned s')"
    "r \<in> owned s' \<or> settled_run r (lv_ledger s')" "lv_lost s' = lv_lost s"
  shows "live_ok s'"
proof -
  note t = assms(2) [unfolded tidy_def lv_ledger_exec]
  have "unfinished (lv_ledger s') - {r} = unfinished (lv_ledger s) - {r}" using t by (simp add: unfinished_others)
  moreover have "r \<in> owned s' \<or> r \<notin> unfinished (lv_ledger s')" using assms(5) settled_unfinished by blast
  moreover have "unfinished (lv_ledger s) \<subseteq> insert r (owned s' \<union> lv_lost s')" using assms(1,4,6) unfolding live_ok_def by blast
  ultimately have "unfinished (lv_ledger s') \<subseteq> owned s' \<union> lv_lost s'" by blast
  then show ?thesis using assms(1,3) t by (fastforce simp: live_ok_def)
qed

lemma live_ok_same:
  assumes "live_ok s" "lg_runs (lv_ledger s') = lg_runs (lv_ledger s)" "lg_events (lv_ledger s') = lg_events (lv_ledger s)"
    "en_next_id (es_env (exec_of s)) \<le> en_next_id (es_env (exec_of s'))"
    "owned s' \<subseteq> owned s" "owned s \<union> lv_lost s \<subseteq> owned s' \<union> lv_lost s'"
  shows "live_ok s'"
  using assms unfolding live_ok_def fresh_ids_def lv_ledger_exec run_ids_def unfinished_def by (auto intro: less_le_trans)

lemma take_ids_tidy: "tidy r (gw_exec g) (gw_exec (take_ids n g))"
  by (auto simp: tidy_def take_ids_def fresh_ids_def intro: trans_less_add1)

lemma log_failure_tidy: "log_failure r t actor payload d b st = (x, st') \<Longrightarrow> tidy r st st'"
  unfolding log_failure_def by (erule bind_exec_tidy) (auto intro: emit_tidy tidy_refl)

lemma store_failure_tidy:
  assumes "store_failure sv r result st = (Inr u, st')"
  shows "tidy r st st' \<and> settled_run r (es_ledger st')"
  using assms update_tidy [of st "sv_dump sv" r FINISHED "Some result"] update_run_result(5)
  by (fastforce simp: store_failure_def with_ledger_def split: sum.splits)

lemma live_step_ok_submission:
  assumes "live_ok s" "u \<in> set (lv_submissions s)" "tidy (submission_id u) (exec_of s) st"
    "us = [] \<and> settled_run (submission_id u) (es_ledger st) \<or> submission_id ` set us = {submission_id u}"
  shows "live_ok (set_exec st (move_submission u us s))"
proof (rule live_ok_tidy [OF assms(1), of "submission_id u"], unfold live_sel)
  show "owned (move_submission u us s) \<subseteq> owned s"
    using owned_move_submission(1) [OF assms(2), of us] owned_in_progress(1) [OF assms(2)] assms(4) by auto
  show "submission_id u \<in> owned (move_submission u us s) \<or> settled_run (submission_id u) (es_ledger st)"
    using owned_move_submission(3) [OF assms(2), of us] assms(4) by blast
qed (rule assms(3) owned_move_submission(2) [OF assms(2)] refl)+

lemma live_step_ok_recovery:
  assumes "live_ok s" "v \<in> set (lv_recoveries s)" "tidy r (exec_of s) st" "(\<Union>w\<in>set vs. recovery_ids w) \<subseteq> recovery_ids v"
    "recovery_ids v \<subseteq> insert r (\<Union>w\<in>set vs. recovery_ids w)" "r \<in> (\<Union>w\<in>set vs. recovery_ids w) \<or> settled_run r (es_ledger st)"
  shows "live_ok (set_exec st (move_recovery v vs s))"
proof (rule live_ok_tidy [OF assms(1), of r], unfold live_sel)
  show "owned (move_recovery v vs s) \<subseteq> owned s"
    using owned_move_recovery(1) [OF assms(2), of vs] owned_in_progress(2) [OF assms(2)] assms(4) by blast
  show "owned s \<subseteq> insert r (owned (move_recovery v vs s))"
    using owned_move_recovery(2,3) [OF assms(2), of vs] assms(5) by blast
  show "r \<in> owned (move_recovery v vs s) \<or> settled_run r (es_ledger st)"
    using owned_move_recovery(3) [OF assms(2), of vs] assms(6) by blast
qed (rule assms(3) refl)+

lemma live_ok_create:
  assumes "live_ok s" and r: "r = en_next_id (es_env (exec_of s))" and g: "g = take_ids 1 (lv_gateway s)"
    and l: "create_run (gw_ledger g) r document now = Inr l"
  shows "live_ok (s\<lparr>lv_gateway := g\<lparr>gw_exec := (gw_exec g)\<lparr>es_ledger := l\<rparr>\<rparr>, lv_submissions := lv_submissions s @ [Created r request]\<rparr>)"
proof -
  define s' where "s' = s\<lparr>lv_gateway := g\<lparr>gw_exec := (gw_exec g)\<lparr>es_ledger := l\<rparr>\<rparr>, lv_submissions := lv_submissions s @ [Created r request]\<rparr>"
  have led: "gw_ledger g = lv_ledger s" by (simp add: g take_ids_def gw_ledger_def lv_ledger_def)
  obtain row where row: "lg_runs l = lg_runs (lv_ledger s) @ [row]" "rw_run_id row = r" "rw_state row \<noteq> FINISHED" "lg_events l = lg_events (lv_ledger s)"
    using l [unfolded led] by (auto simp: create_run_def Let_def simp del: sanitize_payload.simps split: if_splits)
  have ids: "run_ids l = insert r (run_ids (lv_ledger s))" "unfinished l \<subseteq> insert r (unfinished (lv_ledger s))"
    using row by (auto simp: run_ids_def unfinished_def)
  have s': "exec_of s' = \<lparr>es_env = (es_env (exec_of s))\<lparr>en_next_id := r + 1\<rparr>, es_ledger = l\<rparr>" "lv_ledger s' = l" "owned s' = insert r (owned s)" "lv_lost s' = lv_lost s"
    by (auto simp: s'_def g take_ids_def exec_of_def lv_ledger_def gw_ledger_def r owned_def task_ids_def)
  have "fresh_ids (exec_of s')" using assms(1) row(4) by (auto simp: live_ok_def fresh_ids_def s' lv_ledger_exec r)
  then have "live_ok s'" using assms(1) ids unfolding live_ok_def s' by (auto simp: r)
  then show ?thesis by (simp add: s'_def)
qed

lemma run_task_live:
  assumes "forward_run tr" "map_of (gw_tasks g) r = Some p" "run_task sv tr r g = (x, g')" "fresh_ids (gw_exec g)" "r \<in> run_ids (gw_ledger g)"
  shows "tidy r (gw_exec g) (gw_exec g')" "settled_run r (gw_ledger g')" "gw_tasks g' = filter (\<lambda>(q, _). q \<noteq> r) (gw_tasks g)"
proof -
  obtain y st where e: "execute_or_fail sv tr r p (gw_exec g) = (y, st)" by fastforce
  have F: "tidy r (gw_exec g) st" "settled_run r (es_ledger st)"
    using execute_or_fail_finishes [OF assms(1,4) _ e] assms(5) by (auto simp: gw_ledger_def)
  have g': "gw_exec g' = st" "gw_tasks g' = filter (\<lambda>(q, _). q \<noteq> r) (gw_tasks g)"
    using assms(2,3) e
    by (cases y; auto simp: run_task_def execute_and_project_def on_exec_def pop_task_def write_graph_def project_artifacts_def)+
  show "tidy r (gw_exec g) (gw_exec g')" "settled_run r (gw_ledger g')" "gw_tasks g' = filter (\<lambda>(q, _). q \<noteq> r) (gw_tasks g)"
    using F g' by (simp_all add: gw_ledger_def)
qed

lemma live_ok_gateway:
  assumes "live_ok s" "tidy r (exec_of s) (gw_exec g)" "fst ` set (gw_tasks g) \<subseteq> task_ids s" "task_ids s \<subseteq> insert r (fst ` set (gw_tasks g))"
    "r \<in> fst ` set (gw_tasks g) \<or> settled_run r (gw_ledger g)"
  shows "live_ok (s\<lparr>lv_gateway := g\<rparr>)"
proof (rule live_ok_tidy [OF assms(1), of r])
  show "tidy r (exec_of s) (exec_of (s\<lparr>lv_gateway := g\<rparr>))" using assms(2) by (simp add: exec_of_def)
  show "owned (s\<lparr>lv_gateway := g\<rparr>) \<subseteq> owned s" "owned s \<subseteq> insert r (owned (s\<lparr>lv_gateway := g\<rparr>))"
    using assms(3,4) by (auto simp: owned_def task_ids_def)
  show "r \<in> owned (s\<lparr>lv_gateway := g\<rparr>) \<or> settled_run r (lv_ledger (s\<lparr>lv_gateway := g\<rparr>))"
    using assms(5) by (auto simp: owned_def task_ids_def lv_ledger_def)
qed simp

lemma owned_task: "r \<in> task_ids s \<Longrightarrow> live_ok s \<Longrightarrow> r \<in> run_ids (lv_ledger s)"
  by (auto simp: live_ok_def owned_def)

lemma propose_gateway: "propose sv request g = (m, g') \<Longrightarrow> g' = take_ids 2 g"
  by (auto simp: propose_def plan_stamps_def)

lemma live_step_ok:
  assumes "live_step sv l s s'" "live_ok s"
  shows "live_ok s'"
  using assms
proof (induction rule: live_step.induct)
  case (enter s)
  then show ?case by (intro live_ok_same [OF enter(2)]) (auto simp: exec_of_def lv_ledger_def owned_def task_ids_def)
next
  case (open_ledger s)
  then show ?case using owned_move_recovery [OF open_ledger(1), of "[Opened]"]
    by (intro live_ok_same [OF open_ledger(2)]) auto
next
  case (scan s rows)
  then show ?case
    using owned_move_recovery [OF scan(1), of "[Recovering rows]"] unfinished_runs_rows [OF scan(2)] unfinished_runs_ids [of "lv_ledger s"]
    by (auto simp: live_ok_def)
next
  case (interrupt row rows s result st)
  have "tidy (fst row) (exec_of s) st" using interrupt(2) log_failure_tidy by (cases row) (auto simp: log_interruption_def)
  then show ?case by (rule live_step_ok_recovery [OF interrupt(3,1)]) auto
next
  case (finalize r result rows s st)
  then show ?case using store_failure_tidy [OF finalize(2)] by (intro live_step_ok_recovery [OF finalize(3,1), of r]) auto
next
  case (recovered s as)
  then show ?case using owned_move_recovery [OF recovered(1), of "[]"]
    by (intro live_ok_same [OF recovered(3)]) (auto simp: Let_def exec_of_def lv_ledger_def gw_ledger_def owned_def task_ids_def move_recovery_def)
next
  case (recovery_ends v s)
  then show ?case using owned_move_recovery [OF recovery_ends(1), of "[]"] by (intro live_ok_same [OF recovery_ends(2)]) auto
next
  case (create r s g request now l)
  then show ?case by (intro live_ok_create)
next
  case (planned r request s proposal g event st)
  have "tidy r (exec_of s) (gw_exec g)" using take_ids_tidy [of r "lv_gateway s" 2] by (simp add: propose_gateway [OF planned(2)] exec_of_def)
  then have "tidy r (exec_of s) st" by (rule tidy_trans) (rule emit_tidy [OF planned(3) [unfolded record_plan_def]])
  then show ?case using live_step_ok_submission [OF planned(4,1), of st "[Planned r (pp_plan proposal)]"] propose_gateway [OF planned(2)]
    by (simp add: set_exec_def move_submission_def take_ids_def)
next
  case (started r p s)
  have "owned (let s1 = move_submission (Planned r p) [] s in s1\<lparr>lv_gateway := (lv_gateway s1)\<lparr>gw_tasks := gw_tasks (lv_gateway s1) @ [(r, p)]\<rparr>\<rparr>) =
      insert r (owned (move_submission (Planned r p) [] s))"
    by (auto simp: Let_def owned_def task_ids_def move_submission_def)
  then show ?case using owned_move_submission [OF started(1), of "[]"] owned_in_progress(1) [OF started(1)]
    by (intro live_ok_same [OF started(2)]) (auto simp: Let_def exec_of_def lv_ledger_def gw_ledger_def move_submission_def)
next
  case (unplanned r request s e g result st)
  have "tidy r (exec_of s) (gw_exec g)" using take_ids_tidy [of r "lv_gateway s" 2] by (simp add: propose_gateway [OF unplanned(2)] exec_of_def)
  then have "tidy r (exec_of s) st" by (rule tidy_trans) (rule log_failure_tidy [OF unplanned(3) [unfolded log_planning_failure_def]])
  then show ?case using live_step_ok_submission [OF unplanned(4,1), of st "[Failing r result]"] propose_gateway [OF unplanned(2)]
    by (simp add: set_exec_def move_submission_def take_ids_def)
next
  case (failed r result s st)
  then show ?case using store_failure_tidy [OF failed(2)] by (intro live_step_ok_submission [OF failed(3,1)]) auto
next
  case (submission_ends u s)
  then show ?case using owned_move_submission [OF submission_ends(1), of "[]"] by (intro live_ok_same [OF submission_ends(2)]) auto
next
  case (task tr s r p x g)
  have r: "r \<in> task_ids s" using task(2) by (force simp: task_ids_def dest: map_of_SomeD)
  have "fresh_ids (gw_exec (lv_gateway s))" "r \<in> run_ids (gw_ledger (lv_gateway s))"
    using task(4) owned_task [OF r task(4)] by (auto simp: live_ok_def exec_of_def lv_ledger_def)
  note T = run_task_live [OF task(1-3) this]
  then show ?case by (intro live_ok_gateway [OF task(4), of r]) (auto simp: exec_of_def T(3) task_ids_def)
next
  case (unstarted s r)
  then show ?case by (intro live_ok_same [OF unstarted]) (auto simp: exec_of_def lv_ledger_def gw_ledger_def owned_def task_ids_def pop_task_def)
next
  case (closed s)
  then show ?case by (intro live_ok_same [OF closed]) (auto simp: exec_of_def lv_ledger_def gw_ledger_def owned_def task_ids_def close_ledger_rows)
next
  case (inspected request s y g)
  obtain n sp where g: "g = take_ids n ((lv_gateway s)\<lparr>gw_policy := sp\<rparr>)" using inspect_frame [OF inspected(1)] by blast
  show ?case by (intro live_ok_same [OF inspected(2)]) (auto simp: g exec_of_def lv_ledger_def gw_ledger_def owned_def task_ids_def take_ids_def)
next
  case (clock s now)
  then show ?case by (intro live_ok_same [OF clock]) (auto simp: lv_ledger_exec)
next
  case (died s)
  then show ?case by (auto simp: live_ok_def fresh_ids_def exec_of_def lv_ledger_def gw_ledger_def owned_def task_ids_def restart_def close_ledger_rows run_ids_def unfinished_def)
qed

lemma live_run_ok: "live_run sv trace s \<Longrightarrow> live_ok s"
proof (induction rule: live_run.induct)
  case (new g en)
  then show ?case by (auto simp: live_ok_def fresh_ids_def exec_of_def lv_ledger_def gw_ledger_def owned_def task_ids_def EventLedger_def run_ids_def unfinished_def)
next
  case (step trace s l s')
  then show ?case by (blast intro: live_step_ok)
qed

text \<open>Nothing was aborted since a recovery last read the ledger.\<close>

definition undisturbed :: "label list \<Rightarrow> bool" where
  "undisturbed trace \<longleftrightarrow> list_all (\<lambda>l. l = Progress) (takeWhile (\<lambda>l. l \<noteq> Scan) trace)"

lemma live_step_lost: "live_step sv l s s' \<Longrightarrow> (l = Progress \<longrightarrow> lv_lost s' = lv_lost s) \<and> (l = Scan \<longrightarrow> lv_lost s' = {})"
  by (induction rule: live_step.induct) (simp_all add: Let_def set_exec_def move_submission_def move_recovery_def)

lemma live_run_lost: "live_run sv trace s \<Longrightarrow> undisturbed trace \<Longrightarrow> lv_lost s = {}"
proof (induction rule: live_run.induct)
  case (step trace s l s')
  then show ?case using live_step_lost [OF step(2)] by (cases l) (auto simp: undisturbed_def)
qed simp

text \<open>
  C5: no run is lost. In every state a gateway can reach, whatever the interleaving of submissions,
  recoveries, tasks and closing, every run the ledger holds as unfinished has a task, or is held by a
  submission or a recovery in progress, or was abandoned by an operation that was aborted; and as soon
  as a recovery has read the ledger and nothing is aborted after that, the last case does not occur.
  In particular nothing is lost by the death of the process.
\<close>

theorem gateway_loses_no_run:
  assumes "live_run sv trace s"
  shows "unfinished (lv_ledger s) \<subseteq> task_ids s \<union> submission_id ` set (lv_submissions s) \<union>
      (\<Union>v\<in>set (lv_recoveries s). recovery_ids v) \<union> lv_lost s \<and>
    (undisturbed trace \<longrightarrow> unfinished (lv_ledger s) \<subseteq> task_ids s \<union> submission_id ` set (lv_submissions s) \<union>
      (\<Union>v\<in>set (lv_recoveries s). recovery_ids v))"
  using live_run_ok [OF assms] live_run_lost [OF assms] by (auto simp: live_ok_def owned_def)

subsection \<open>The atomic operations are made of these steps\<close>

definition idle :: "gateway \<Rightarrow> live" where
  "idle g = \<lparr>lv_gateway = g, lv_submissions = [], lv_recoveries = [], lv_lost = {}\<rparr>"

lemma submit_by_steps:
  assumes "gw_initialized g" "submit sv request g = (Inr run, g')"
  shows "(live_step sv Progress)\<^sup>*\<^sup>* (idle g) (idle g')"
proof -
  define r where "r = en_next_id (es_env (gw_exec g))"
  define g2 where "g2 = take_ids 1 g"
  obtain l where l: "create_run (gw_ledger g2) r (sv_dump_request sv request) (en_clock (es_env (gw_exec g))) = Inr l"
    using assms by (auto simp: submit_def gateway_initialize_def on_exec_def with_ledger_def gw_ledger_def r_def g2_def Let_def bind_gw_def split: sum.splits)
  define g3 where "g3 = g2\<lparr>gw_exec := (gw_exec g2)\<lparr>es_ledger := l\<rparr>\<rparr>"
  define s1 where "s1 = (idle g3)\<lparr>lv_submissions := [Created r request]\<rparr>"
  have c: "live_step sv Progress (idle g) s1"
    using create [of r "idle g" g2 sv request "en_clock (es_env (gw_exec g))" l] l by (simp add: idle_def exec_of_def r_def g2_def s1_def g3_def)
  obtain m g4 where m: "propose sv request g3 = (m, g4)" by fastforce
  have run: "submit sv request g = (case m of
       Inl _ \<Rightarrow> bind_gw (on_exec (record_planning_failure sv r request) g4) (\<lambda>result g5.
           (Inr (FetchRun r FINISHED (en_clock (es_env (gw_exec g))) (Some result)), g5))
     | Inr proposal \<Rightarrow> bind_gw (on_exec (record_plan r proposal) g4) (\<lambda>_ g5.
           (Inr (FetchRun r QUEUED (en_clock (es_env (gw_exec g))) None), g5\<lparr>gw_tasks := gw_tasks g5 @ [(r, pp_plan proposal)]\<rparr>)))"
    using assms(1) l m by (simp add: submit_def gateway_initialize_def on_exec_def with_ledger_def gw_ledger_def r_def g2_def g3_def Let_def split: sum.splits)
  show ?thesis
  proof (cases m)
    case (Inl e)
    obtain result st1 st2 where f: "log_planning_failure r request (gw_exec g4) = (Inr result, st1)" "store_failure sv r result st1 = (Inr (), st2)" "g' = g4\<lparr>gw_exec := st2\<rparr>"
      using assms(2) [unfolded run] Inl
      by (auto simp: on_exec_def record_planning_failure_def record_failure_halves log_planning_failure_def bind_exec_def bind_gw_def split: prod.splits sum.splits)
    define s2 where "s2 = (idle (g4\<lparr>gw_exec := st1\<rparr>))\<lparr>lv_submissions := [Failing r result]\<rparr>"
    have "live_step sv Progress s1 s2"
      using unplanned [of r request s1 sv e g4 result st1] m Inl f(1) by (simp add: s1_def s2_def idle_def set_exec_def move_submission_def)
    moreover have "live_step sv Progress s2 (idle g')"
      using failed [of r result s2 sv st2] f(2,3) by (simp add: s2_def idle_def set_exec_def move_submission_def exec_of_def)
    ultimately show ?thesis using c by (meson converse_rtranclp_into_rtranclp rtranclp.rtrancl_refl)
  next
    case (Inr proposal)
    obtain event st where e: "record_plan r proposal (gw_exec g4) = (Inr event, st)"
      "g' = (g4\<lparr>gw_exec := st\<rparr>)\<lparr>gw_tasks := gw_tasks (g4\<lparr>gw_exec := st\<rparr>) @ [(r, pp_plan proposal)]\<rparr>"
      using assms(2) [unfolded run] Inr by (auto simp: on_exec_def bind_gw_def split: prod.splits sum.splits)
    define s2 where "s2 = (idle (g4\<lparr>gw_exec := st\<rparr>))\<lparr>lv_submissions := [Planned r (pp_plan proposal)]\<rparr>"
    have "live_step sv Progress s1 s2"
      using planned [of r request s1 sv proposal g4 event st] m Inr e(1) by (simp add: s1_def s2_def idle_def set_exec_def move_submission_def)
    moreover have "live_step sv Progress s2 (idle g')"
      using started [of r "pp_plan proposal" s2 sv] e(2) by (simp add: s2_def idle_def move_submission_def Let_def)
    ultimately show ?thesis using c by (meson converse_rtranclp_into_rtranclp rtranclp.rtrancl_refl)
  qed
qed

lemma recover_runs_by_steps:
  "recover_runs sv rows (gw_exec g) = (Inr (), st) \<Longrightarrow>
   (live_step sv Progress)\<^sup>*\<^sup>* ((idle g)\<lparr>lv_recoveries := [Recovering rows]\<rparr>) ((idle (g\<lparr>gw_exec := st\<rparr>))\<lparr>lv_recoveries := [Recovering []]\<rparr>)"
proof (induction rows arbitrary: g)
  case Nil
  then have "g\<lparr>gw_exec := st\<rparr> = g" by simp
  then show ?case by simp
next
  case (Cons row rows)
  obtain r s t d where row: "row = (r, s, t, d)" by (cases row)
  obtain result st1 st2 where f: "log_interruption sv row (gw_exec g) = (Inr result, st1)" "store_failure sv r result st1 = (Inr (), st2)"
    "recover_runs sv rows st2 = (Inr (), st)"
    using Cons.prems
    by (auto simp: row recover_run_def record_failure_halves log_interruption_def bind_exec_def split: prod.splits sum.splits)
  define s0 where "s0 = (idle g)\<lparr>lv_recoveries := [Recovering (row # rows)]\<rparr>"
  define s1 where "s1 = (idle (g\<lparr>gw_exec := st1\<rparr>))\<lparr>lv_recoveries := [Finalizing r result rows]\<rparr>"
  define s2 where "s2 = (idle (g\<lparr>gw_exec := st2\<rparr>))\<lparr>lv_recoveries := [Recovering rows]\<rparr>"
  have "live_step sv Progress s0 s1"
    using interrupt [of row rows s0 sv result st1] f(1) by (simp add: s0_def s1_def idle_def set_exec_def move_recovery_def exec_of_def row)
  moreover have "live_step sv Progress s1 s2"
    using finalize [of r result rows s1 sv st2] f(2) by (simp add: s2_def s1_def idle_def set_exec_def move_recovery_def exec_of_def)
  moreover have "(live_step sv Progress)\<^sup>*\<^sup>* s2 ((idle (g\<lparr>gw_exec := st\<rparr>))\<lparr>lv_recoveries := [Recovering []]\<rparr>)"
    using Cons.IH [of "g\<lparr>gw_exec := st2\<rparr>"] f(3) by (simp add: s2_def)
  ultimately show ?case unfolding s0_def by (meson converse_rtranclp_into_rtranclp)
qed

subsection \<open>Witness\<close>

theorem gateway_loses_no_run_witness:
  "\<exists>s. live_run sample_services [Progress] s \<and> unfinished (lv_ledger s) = {0} \<and> submission_id ` set (lv_submissions s) = {0}"
proof -
  define s0 where "s0 = \<lparr>lv_gateway = new_gateway, lv_submissions = [], lv_recoveries = [], lv_lost = {}\<rparr>"
  obtain l row where l: "create_run (gw_ledger (take_ids 1 new_gateway)) 0 (sv_dump_request sample_services sample_request) 0 = Inr l"
    "lg_runs l = [row]" "rw_run_id row = 0" "rw_state row \<noteq> FINISHED"
    by (simp add: create_run_def gw_ledger_def take_ids_def new_gateway_def EventLedger_def find_run_def Let_def)
  define s where "s = s0\<lparr>lv_gateway := (take_ids 1 new_gateway)\<lparr>gw_exec := (gw_exec (take_ids 1 new_gateway))\<lparr>es_ledger := l\<rparr>\<rparr>,
    lv_submissions := [Created 0 sample_request]\<rparr>"
  have "live_run sample_services [] s0" unfolding s0_def by (rule new) (simp_all add: new_gateway_def)
  moreover have "live_step sample_services Progress s0 s"
    using create [of 0 s0 "take_ids 1 new_gateway" sample_services sample_request 0 l] l(1)
    by (simp add: s_def s0_def exec_of_def new_gateway_def)
  ultimately have run: "live_run sample_services [Progress] s" by (rule step)
  have "unfinished (lv_ledger s) = {0}" using l(2-4) by (auto simp: s_def lv_ledger_def gw_ledger_def unfinished_def)
  moreover have "unfinished (lv_ledger s) \<subseteq> submission_id ` set (lv_submissions s)"
    using gateway_loses_no_run [OF run] by (auto simp: undisturbed_def task_ids_def s_def s0_def take_ids_def new_gateway_def)
  ultimately show ?thesis using run by (auto simp: s_def)
qed

end
