(* ===== verification/Auth.thy ===== *)
theory Auth
  imports Security
begin

section \<open>Credential material: auth.py\<close>

text \<open>
  Canonical origins, the validation of credential material, and the in-memory provider of
  \<^verbatim>\<open>auth.py\<close>. Mappings are association lists in insertion order. An expiry is a time and whether
  it carries a time zone. The hash is the parameter \<open>sha256\<close>, which returns the hexadecimal digest.
\<close>

subsection \<open>Constants\<close>

definition SUPPORTED_AUTH_CAPABILITIES :: "string list" where
  "SUPPORTED_AUTH_CAPABILITIES = [''api_key'', ''bearer_token'', ''cookie_session'']"

definition MAX_CREDENTIAL_HEADERS :: nat where "MAX_CREDENTIAL_HEADERS = 32"
definition MAX_CREDENTIAL_COOKIES :: nat where "MAX_CREDENTIAL_COOKIES = 64"
definition MAX_CREDENTIAL_HEADER_VALUE_BYTES :: nat where "MAX_CREDENTIAL_HEADER_VALUE_BYTES = 16 * 1024"
definition MAX_CREDENTIAL_COOKIE_VALUE_BYTES :: nat where "MAX_CREDENTIAL_COOKIE_VALUE_BYTES = 4 * 1024"
definition MAX_CREDENTIAL_MATERIAL_BYTES :: nat where "MAX_CREDENTIAL_MATERIAL_BYTES = 64 * 1024"

definition FORBIDDEN_CREDENTIAL_HEADERS :: "string list" where
  "FORBIDDEN_CREDENTIAL_HEADERS = [''accept'', ''accept-language'', ''connection'', ''content-length'',
     ''content-type'', ''cookie'', ''host'', ''proxy-authenticate'', ''proxy-authorization'', ''range'',
     ''set-cookie'', ''te'', ''trailer'', ''transfer-encoding'', ''upgrade'', ''user-agent'']"

definition header_name_char :: "char \<Rightarrow> bool" where
  "header_name_char c \<longleftrightarrow> is_alpha c \<or> is_digit c \<or> c \<in> set ''!#$%&*+-.^_|~'' \<or> ord_char c = 39 \<or> ord_char c = 96"

definition header_name :: "string \<Rightarrow> bool" where
  "header_name s \<longleftrightarrow> s \<noteq> [] \<and> list_all header_name_char s"

definition cookie_value_char :: "char \<Rightarrow> bool" where
  "cookie_value_char c \<longleftrightarrow> (let n = ord_char c in n = 0x21 \<or> (0x23 \<le> n \<and> n \<le> 0x2B) \<or> (0x2D \<le> n \<and> n \<le> 0x3A) \<or>
     (0x3C \<le> n \<and> n \<le> 0x5B) \<or> (0x5D \<le> n \<and> n \<le> 0x7E))"

definition printable_char :: "char \<Rightarrow> bool" where
  "printable_char c \<longleftrightarrow> 32 \<le> ord_char c \<and> ord_char c \<le> 126"

subsection \<open>Origins\<close>

definition origin_text :: "string \<Rightarrow> string \<Rightarrow> nat option \<Rightarrow> string" where
  "origin_text scheme host port =
     (let rendered_host = bracket_host host;
          default_port = (scheme = ''http'' \<and> port \<in> {None, Some 80}) \<or> (scheme = ''https'' \<and> port \<in> {None, Some 443})
      in scheme @ ''://'' @ rendered_host @
           (case port of Some p \<Rightarrow> if default_port then [] else '':'' @ nat_to_str p | None \<Rightarrow> []))"

definition canonical_origin :: "bool \<Rightarrow> string \<Rightarrow> string res" where
  "canonical_origin origin_only url =
     bind_res (urlsplit (py_strip url)) (\<lambda>parts.
     let scheme = py_lower (sr_scheme parts) in
     bind_res (raise_if (scheme \<notin> {''http'', ''https''})
       (ValueError ''credential origins support only HTTP and HTTPS'')) (\<lambda>_.
     bind_res (raise_if (fst (sr_userinfo parts) \<noteq> [] \<or> snd (sr_userinfo parts) \<noteq> [])
       (ValueError ''credential origins cannot contain user information'')) (\<lambda>_.
     bind_res (raise_if (sr_hostname parts = []) (ValueError ''credential origins require a hostname'')) (\<lambda>_.
     bind_res (raise_if (origin_only \<and> (sr_path parts \<notin> {[], ''/''} \<or> sr_query parts \<noteq> [] \<or> sr_fragment parts \<noteq> []))
       (ValueError ''credential scope must contain an origin only'')) (\<lambda>_.
     bind_res (idna_encode (sr_hostname parts)) (\<lambda>encoded.
     bind_res (sr_port parts) (\<lambda>port.
       Inr (origin_text scheme (normal_host encoded) port))))))))"

subsection \<open>Validation\<close>

fun validate_headers :: "string set \<Rightarrow> nat \<Rightarrow> (string \<times> string) list \<Rightarrow> (string \<times> string) list res" where
  "validate_headers seen total_bytes [] = Inr []"
| "validate_headers seen total_bytes ((name, value) # items) =
     (let lowered = py_lower name; total' = total_bytes + length name + length value in
      bind_res (raise_if (256 < py_len name \<or> \<not> header_name name \<or> lowered \<in> set FORBIDDEN_CREDENTIAL_HEADERS)
        (ValueError ''credential material contains a forbidden HTTP header'')) (\<lambda>_.
      bind_res (raise_if (MAX_CREDENTIAL_HEADER_VALUE_BYTES < length value \<or> MAX_CREDENTIAL_MATERIAL_BYTES < total')
        (ValueError ''credential material exceeds the HTTP header byte limit'')) (\<lambda>_.
      bind_res (raise_if (lowered \<in> seen)
        (ValueError ''credential material contains duplicate HTTP header names'')) (\<lambda>_.
      bind_res (raise_if (value = [] \<or> \<not> list_all printable_char value)
        (ValueError ''credential material contains an invalid HTTP header value'')) (\<lambda>_.
      bind_res (validate_headers (insert lowered seen) total' items) (\<lambda>rest. Inr ((name, value) # rest)))))))"

definition validated_headers :: "(string \<times> string) list \<Rightarrow> (string \<times> string) list res" where
  "validated_headers headers =
     bind_res (raise_if (MAX_CREDENTIAL_HEADERS < length headers)
       (ValueError ''credential material contains too many HTTP headers'')) (\<lambda>_.
     validate_headers {} 0 headers)"

fun validate_cookies :: "nat \<Rightarrow> (string \<times> string) list \<Rightarrow> (string \<times> string) list res" where
  "validate_cookies total_bytes [] = Inr []"
| "validate_cookies total_bytes ((name, value) # items) =
     (let total' = total_bytes + length name + length value in
      bind_res (raise_if (256 < py_len name \<or> \<not> header_name name \<or> \<not> list_all cookie_value_char value)
        (ValueError ''credential material contains an invalid cookie'')) (\<lambda>_.
      bind_res (raise_if (MAX_CREDENTIAL_COOKIE_VALUE_BYTES < length value \<or> MAX_CREDENTIAL_MATERIAL_BYTES < total')
        (ValueError ''credential material contains an invalid cookie'')) (\<lambda>_.
      bind_res (validate_cookies total' items) (\<lambda>rest. Inr ((name, value) # rest)))))"

definition validated_cookies :: "(string \<times> string) list \<Rightarrow> (string \<times> string) list res" where
  "validated_cookies cookies =
     bind_res (raise_if (MAX_CREDENTIAL_COOKIES < length cookies)
       (ValueError ''credential material contains too many cookies'')) (\<lambda>_.
     validate_cookies 0 cookies)"

record credential_material =
  cm_origin :: string
  cm_capability_id :: string
  cm_headers :: "(string \<times> string) list"
  cm_cookies :: "(string \<times> string) list"
  cm_expires_at :: "(time \<times> bool) option"

definition CredentialMaterial ::
  "string \<Rightarrow> string \<Rightarrow> (string \<times> string) list \<Rightarrow> (string \<times> string) list \<Rightarrow> (time \<times> bool) option
     \<Rightarrow> credential_material res" where
  "CredentialMaterial origin0 capability_id headers0 cookies0 expires_at =
     bind_res (canonical_origin True origin0) (\<lambda>origin.
     bind_res (raise_if (\<not> py_startswith origin ''https://'')
       (ValueError ''credential material must be scoped to an HTTPS origin'')) (\<lambda>_.
     bind_res (raise_if (capability_id \<notin> set SUPPORTED_AUTH_CAPABILITIES)
       (ValueError ''credential material uses an unsupported authentication capability'')) (\<lambda>_.
     bind_res (validated_headers headers0) (\<lambda>headers.
     bind_res (validated_cookies cookies0) (\<lambda>cookies.
     bind_res (raise_if (headers = [] \<and> cookies = [])
       (ValueError ''credential material must contain at least one header or cookie'')) (\<lambda>_.
     bind_res (raise_if (capability_id = ''cookie_session'' \<and> cookies = [])
       (ValueError ''cookie_session material must contain at least one cookie'')) (\<lambda>_.
     bind_res (raise_if (capability_id = ''api_key'' \<and> headers = [])
       (ValueError ''api_key material must contain at least one header'')) (\<lambda>_.
     bind_res (raise_if (capability_id = ''bearer_token'' \<and>
         \<not> list_ex (\<lambda>(name, value). py_lower name = ''authorization'' \<and> py_startswith (py_lower value) ''bearer '') headers)
       (ValueError ''bearer_token material must contain a Bearer Authorization header'')) (\<lambda>_.
     bind_res (raise_if (case expires_at of Some (_, aware) \<Rightarrow> \<not> aware | None \<Rightarrow> False)
       (ValueError ''credential expiry must include a timezone'')) (\<lambda>_.
       Inr \<lparr>cm_origin = origin, cm_capability_id = capability_id, cm_headers = headers, cm_cookies = cookies,
            cm_expires_at = expires_at\<rparr>))))))))))"

definition bearer :: "string \<Rightarrow> string \<Rightarrow> (time \<times> bool) option \<Rightarrow> credential_material res" where
  "bearer origin token expires_at =
     bind_res (raise_if (token = []) (ValueError ''bearer token cannot be empty'')) (\<lambda>_.
       CredentialMaterial origin ''bearer_token'' [(''Authorization'', ''Bearer '' @ token)] [] expires_at)"

definition api_key :: "string \<Rightarrow> string \<Rightarrow> string \<Rightarrow> (time \<times> bool) option \<Rightarrow> credential_material res" where
  "api_key origin value name expires_at = CredentialMaterial origin ''api_key'' [(name, value)] [] expires_at"

definition cookie_session :: "string \<Rightarrow> (string \<times> string) list \<Rightarrow> (time \<times> bool) option \<Rightarrow> credential_material res" where
  "cookie_session origin cookies expires_at = CredentialMaterial origin ''cookie_session'' [] cookies expires_at"

definition expired :: "time \<Rightarrow> credential_material \<Rightarrow> bool" where
  "expired now m = (case cm_expires_at m of None \<Rightarrow> False | Some (t, _) \<Rightarrow> t \<le> now)"

definition applies_to :: "credential_material \<Rightarrow> string \<Rightarrow> bool res" where
  "applies_to m url = bind_res (canonical_origin False url) (\<lambda>origin. Inr (origin = cm_origin m))"

definition request_headers :: "credential_material \<Rightarrow> (string \<times> string) list" where
  "request_headers m =
     (if cm_cookies m = [] then cm_headers m
      else assoc_set ''Cookie'' (py_join ''; '' (map (\<lambda>(name, value). name @ ''='' @ value) (cm_cookies m))) (cm_headers m))"

subsection \<open>Providers\<close>

definition CredentialNotFoundError :: "string \<Rightarrow> py_error" where
  "CredentialNotFoundError message = PyRuntimeError message"

definition null_resolve :: "string \<Rightarrow> credential_material res" where
  "null_resolve reference = Inl (CredentialNotFoundError ''authentication reference is unavailable'')"

record credential_provider =
  cp_credentials :: "(string \<times> credential_material) list"
  cp_refreshed :: "(string \<times> credential_material) list"

definition InMemoryCredentialProvider ::
  "(string \<times> credential_material) list \<Rightarrow> (string \<times> credential_material) list option \<Rightarrow> credential_provider res" where
  "InMemoryCredentialProvider credentials refreshed =
     bind_res (raise_if (list_ex (\<lambda>(reference, _). py_strip reference = []) credentials)
       (ValueError ''authentication references cannot be blank'')) (\<lambda>_.
     bind_res (raise_if (case refreshed of None \<Rightarrow> False | Some r \<Rightarrow> list_ex (\<lambda>(reference, _). py_strip reference = []) r)
       (ValueError ''refresh references cannot be blank'')) (\<lambda>_.
       Inr \<lparr>cp_credentials = credentials, cp_refreshed = (case refreshed of None \<Rightarrow> [] | Some r \<Rightarrow> r)\<rparr>))"

definition provider_resolve :: "credential_provider \<Rightarrow> string \<Rightarrow> credential_material res" where
  "provider_resolve cp reference =
     (case map_of (cp_credentials cp) reference of
        Some m \<Rightarrow> Inr m
      | None \<Rightarrow> Inl (CredentialNotFoundError ''authentication reference is unavailable''))"

definition provider_refresh :: "credential_provider \<Rightarrow> string \<Rightarrow> (credential_material \<times> credential_provider) res" where
  "provider_refresh cp reference =
     (case map_of (cp_refreshed cp) reference of
        None \<Rightarrow> Inl (CredentialNotFoundError ''refresh material is unavailable'')
      | Some m \<Rightarrow> Inr (m, cp\<lparr>cp_credentials := assoc_set reference m (cp_credentials cp),
                             cp_refreshed := filter (\<lambda>(k, _). k \<noteq> reference) (cp_refreshed cp)\<rparr>))"

definition authentication_cache_scope :: "(string \<Rightarrow> string) \<Rightarrow> string option \<Rightarrow> string res" where
  "authentication_cache_scope sha256 authentication_ref =
     (case authentication_ref of
        None \<Rightarrow> Inr ''public''
      | Some reference \<Rightarrow>
          bind_res (raise_if (py_strip reference = []) (ValueError ''authentication reference cannot be blank'')) (\<lambda>_.
            Inr (''auth:sha256:'' @ sha256 (''fetech-authentication-scope-v1'' @ [CHR 0x00] @ reference))))"

subsection \<open>Origins are exact\<close>

lemma parse_ipv6_colon: "parse_ipv6 s = Some v \<Longrightarrow> CHR '':'' \<in> set s"
proof -
  have one: "CHR '':'' \<notin> set t \<Longrightarrow> py_split (CHR '':'') t = [t]" for t by (induction t) auto
  assume p: "parse_ipv6 s = Some v"
  obtain a f z where a: "py_partition (CHR ''%'') s = (a, f, z)" by (metis prod_cases3)
  show "CHR '':'' \<in> set s"
  proof (rule ccontr)
    assume "CHR '':'' \<notin> set s"
    then have "CHR '':'' \<notin> set a" using py_partition_eq [OF a] by (auto split: if_splits)
    with p a show False by (auto simp: parse_ipv6_def parse_ipv6_int_def one Let_def split: if_splits)
  qed
qed

text \<open>The effective port of an origin.\<close>

definition origin_port :: "string \<Rightarrow> nat option \<Rightarrow> nat" where
  "origin_port scheme port = (case port of Some p \<Rightarrow> p | None \<Rightarrow> if scheme = ''https'' then 443 else 80)"

text \<open>A host as an origin renders it: no closing bracket, and no opening one in front without a colon.\<close>

definition origin_host :: "string \<Rightarrow> bool" where
  "origin_host h \<longleftrightarrow> CHR '']'' \<notin> set h \<and> (CHR '':'' \<in> set h \<or> h = [] \<or> hd h \<noteq> CHR ''['')"

lemma origin_host_hostinfo:
  assumes u: "urlsplit url = Inr p" and i: "sr_userinfo p = ([], [])"
  shows "origin_host (fst (hostinfo (sr_netloc p)))"
proof -
  obtain a f hi where hi: "py_rpartition (CHR ''@'') (sr_netloc p) = (a, f, hi)" by (metis prod_cases3)
  obtain b o' br where br: "py_partition (CHR ''['') hi = (b, o', br)" by (metis prod_cases3)
  obtain us c pw where us: "py_partition (CHR '':'') a = (us, c, pw)" by (metis prod_cases3)
  have a0: "f \<Longrightarrow> set a \<subseteq> {CHR '':''}" using i hi us py_partition_eq [OF us] by (auto simp: sr_userinfo_def split: if_splits)
  have n: "set (sr_netloc p) \<subseteq> {CHR ''@'', CHR '':''} \<union> set hi" using py_rpartition_eq [OF hi] a0 by (auto split: if_splits)
  have ck: "check_netloc (sr_netloc p) = Inr ()" using urlsplit_check [OF u] by simp
  show ?thesis
  proof (cases o')
    case False
    then have no: "CHR ''['' \<notin> set hi" using br by (auto simp: py_partition_def split: if_splits)
    then have "CHR ''['' \<notin> set (sr_netloc p)" using n by auto
    then have "CHR '']'' \<notin> set (sr_netloc p)" using ck by (auto simp: check_netloc_def Let_def split: if_splits)
    moreover have "set hi \<subseteq> set (sr_netloc p)" using py_rpartition_eq [OF hi] by (auto split: if_splits)
    moreover obtain h g po where h: "py_partition (CHR '':'') hi = (h, g, po)" by (metis prod_cases3)
    moreover have "set h \<subseteq> set hi" using py_partition_eq [OF h] by (auto split: if_splits)
    moreover have "fst (hostinfo (sr_netloc p)) = h" using hi br h False by (simp add: hostinfo_def)
    ultimately show ?thesis using no by (auto simp: origin_host_def) (metis hd_in_set subsetD)
  next
    case True
    obtain h g af where h: "py_partition (CHR '']'') br = (h, g, af)" by (metis prod_cases3)
    have "CHR ''['' \<in> set (sr_netloc p)"
      using True br py_rpartition_eq [OF hi] by (auto simp: py_partition_def split: if_splits)
    then have "check_bracketed_netloc (sr_netloc p) = Inr ()" using ck by (auto simp: check_netloc_def Let_def split: if_splits)
    then have "check_bracketed_host h = Inr ()"
      using hi br h True by (auto simp: check_bracketed_netloc_def split: if_splits)
    then have "CHR '':'' \<in> set h \<or> hd h \<noteq> CHR ''[''"
      using parse_ipv6_colon [of h] by (auto simp: check_bracketed_host_def ip_address_of_def py_startswith_iff split: if_splits option.splits ip_address.splits)
    moreover have "CHR '']'' \<notin> set h" by (rule py_partition_fst [OF h])
    moreover have "fst (hostinfo (sr_netloc p)) = h" using hi br h True by (simp add: hostinfo_def)
    ultimately show ?thesis by (auto simp: origin_host_def)
  qed
qed

lemma hd_py_lower: "s \<noteq> [] \<Longrightarrow> hd (py_lower s) = lower_char (hd s)" by (cases s) auto

lemma py_rstrip_by_prefix: "\<exists>t. s = py_rstrip_by p s @ t"
proof -
  have "rev s = takeWhile p (rev s) @ dropWhile p (rev s)" by simp
  then have "s = rev (dropWhile p (rev s)) @ rev (takeWhile p (rev s))" by (metis rev_append rev_rev_ident)
  then show ?thesis unfolding py_rstrip_by_def by blast
qed

lemma in_py_rstrip_by:
  assumes "c \<in> set s" "\<not> p c"
  shows "c \<in> set (py_rstrip_by p s)"
proof -
  have "c \<in> set (takeWhile p (rev s)) \<union> set (dropWhile p (rev s))"
    using assms(1) by (metis set_append set_rev takeWhile_dropWhile_id)
  with assms(2) show ?thesis unfolding py_rstrip_by_def by (auto dest: set_takeWhileD)
qed

lemma origin_host_lower:
  assumes "origin_host h" "CHR '':'' \<in> set h \<longrightarrow> CHR '':'' \<in> set h'" "CHR '']'' \<in> set h' \<longrightarrow> CHR '']'' \<in> set h"
    "h' \<noteq> [] \<longrightarrow> h \<noteq> [] \<and> (hd h' = hd h \<or> hd h' = lower_char (hd h))"
  shows "origin_host h'"
  using assms lower_char_eq_nonalpha [of "CHR ''[''" "hd h"] by (auto simp: origin_host_def)

lemma origin_host_normal: "origin_host h \<Longrightarrow> origin_host (normal_host h)"
proof (erule origin_host_lower)
  obtain t where t: "py_lower h = normal_host h @ t" using py_rstrip_by_prefix unfolding normal_host_def by blast
  show "CHR '':'' \<in> set h \<longrightarrow> CHR '':'' \<in> set (normal_host h)"
    using in_py_rstrip_by [of "CHR '':''" "py_lower h"] by (simp add: normal_host_def set_py_lower)
  show "CHR '']'' \<in> set (normal_host h) \<longrightarrow> CHR '']'' \<in> set h"
    using set_py_rstrip_by [of _ "py_lower h"] set_py_lower [of "CHR '']''" h] by (auto simp: normal_host_def)
  show "normal_host h \<noteq> [] \<longrightarrow> h \<noteq> [] \<and> (hd (normal_host h) = hd h \<or> hd (normal_host h) = lower_char (hd h))"
    using t by (cases h; cases "normal_host h") auto
qed

lemma origin_host_hostname:
  assumes "urlsplit url = Inr p" "sr_userinfo p = ([], [])"
  shows "origin_host (sr_hostname p)"
  using origin_host_hostinfo [OF assms]
proof (rule origin_host_lower)
  let ?h = "fst (hostinfo (sr_netloc p))"
  obtain a f z where a: "py_partition (CHR ''%'') ?h = (a, f, z)" by (metis prod_cases3)
  have h: "?h = (if f then a @ CHR ''%'' # z else a)" using py_partition_eq [OF a] by metis
  have s: "sr_hostname p = py_lower a @ (if f then CHR ''%'' # z else [])" using a by (simp add: sr_hostname_def)
  show "CHR '':'' \<in> set ?h \<longrightarrow> CHR '':'' \<in> set (sr_hostname p)" unfolding h s by (auto simp: set_py_lower)
  show "CHR '']'' \<in> set (sr_hostname p) \<longrightarrow> CHR '']'' \<in> set ?h" unfolding h s by (auto simp: set_py_lower)
  show "sr_hostname p \<noteq> [] \<longrightarrow> ?h \<noteq> [] \<and> (hd (sr_hostname p) = hd ?h \<or> hd (sr_hostname p) = lower_char (hd ?h))"
    unfolding h s by (cases a) auto
qed

text \<open>Two rendered origins are equal only if host and port suffix are.\<close>

definition port_suffix :: "string \<Rightarrow> bool" where
  "port_suffix s \<longleftrightarrow> s = [] \<or> hd s = CHR '':''"

lemma bracket_host_inject:
  assumes "bracket_host h @ s = bracket_host k @ t" "origin_host h" "origin_host k" "port_suffix s" "port_suffix t" "h \<noteq> []" "k \<noteq> []"
  shows "h = k \<and> s = t"
proof -
  have cut: "a = a' \<and> b = b'" if "a @ b = a' @ b'" "x \<notin> set a" "x \<notin> set a'" "b = [] \<or> hd b = x" "b' = [] \<or> hd b' = x"
    for a b a' b' :: string and x
  proof -
    have "takeWhile (\<lambda>c. c \<noteq> x) (a @ b) = a" if "x \<notin> set a" "b = [] \<or> hd b = x" for a b
    proof -
      have "takeWhile (\<lambda>c. c \<noteq> x) (a @ b) = a @ takeWhile (\<lambda>c. c \<noteq> x) b"
        using that(1) by (intro takeWhile_append2) auto
      with that(2) show ?thesis by (cases b) simp_all
    qed
    then have "a = a'" using that by metis
    with that(1) show ?thesis by simp
  qed
  show ?thesis
  proof (cases "CHR '':'' \<in> set h"; cases "CHR '':'' \<in> set k")
    assume "CHR '':'' \<in> set h" "CHR '':'' \<in> set k"
    with assms(1) have "h @ CHR '']'' # s = k @ CHR '']'' # t" by (simp add: bracket_host_def)
    from cut [OF this, of "CHR '']''"] assms(2,3) show ?thesis by (simp add: origin_host_def)
  next
    assume no: "CHR '':'' \<notin> set h" "CHR '':'' \<notin> set k"
    with assms(1) have "h @ s = k @ t" by (simp add: bracket_host_def)
    from cut [OF this no] assms(4,5) show ?thesis by (simp add: port_suffix_def)
  next
    assume no: "CHR '':'' \<in> set h" "CHR '':'' \<notin> set k"
    then have "k @ t = CHR ''['' # h @ CHR '']'' # s" using assms(1) by (simp add: bracket_host_def)
    then have "hd (k @ t) = CHR ''[''" by (metis list.sel(1))
    with no(2) assms(3,7) show ?thesis by (simp add: origin_host_def)
  next
    assume no: "CHR '':'' \<notin> set h" "CHR '':'' \<in> set k"
    then have "hd (h @ s) = CHR ''[''" using assms(1) by (simp add: bracket_host_def)
    with no(1) assms(2,6) show ?thesis by (simp add: origin_host_def)
  qed
qed

lemma canonical_originE:
  assumes "canonical_origin only url = Inr origin"
  obtains p port where "urlsplit (py_strip url) = Inr p" "sr_scheme p \<in> {''http'', ''https''}" "sr_port p = Inr port"
    "normal_host (sr_hostname p) \<noteq> []" "origin_host (normal_host (sr_hostname p))"
    "origin = sr_scheme p @ ''://'' @ bracket_host (normal_host (sr_hostname p)) @
       (if origin_port (sr_scheme p) port = origin_port (sr_scheme p) None then [] else '':'' @ nat_to_str (origin_port (sr_scheme p) port))"
proof -
  from assms obtain p enc port where u: "urlsplit (py_strip url) = Inr p" "py_lower (sr_scheme p) \<in> {''http'', ''https''}"
    "sr_userinfo p = ([], [])" "sr_hostname p \<noteq> []" "idna_encode (sr_hostname p) = Inr enc" "sr_port p = Inr port"
    and o: "origin = origin_text (py_lower (sr_scheme p)) (normal_host enc) port"
    by (auto simp: canonical_origin_def Let_def prod_eq_iff)
  have sch: "py_lower (sr_scheme p) = sr_scheme p" by (rule urlsplit_scheme_lower [OF u(1)])
  have enc: "enc = sr_hostname p" by (rule idna_encode_id [OF u(5)])
  have "normal_host (sr_hostname p) \<noteq> []"
    using idna_rstrip [of "py_lower enc"] idna_encode_lower [of enc] u(4,5) unfolding enc normal_host_def by (auto simp: py_lower_def)
  moreover have "origin_host (normal_host (sr_hostname p))" by (rule origin_host_normal [OF origin_host_hostname [OF u(1,3)]])
  ultimately show thesis
    using that [OF u(1) _ u(6)] u(2) o unfolding sch enc by (auto simp: origin_text_def origin_port_def Let_def split: option.splits)
qed

definition same_origin :: "split_result \<Rightarrow> nat option \<Rightarrow> split_result \<Rightarrow> nat option \<Rightarrow> bool" where
  "same_origin p port q port' \<longleftrightarrow> sr_scheme p = sr_scheme q \<and> normal_host (sr_hostname p) = normal_host (sr_hostname q) \<and>
     origin_port (sr_scheme p) port = origin_port (sr_scheme q) port'"

lemma canonical_origin_exact:
  assumes a: "canonical_origin only url = Inr origin" and b: "canonical_origin only' url' = Inr origin"
  obtains p port q port' where "urlsplit (py_strip url) = Inr p" "sr_port p = Inr port" "urlsplit (py_strip url') = Inr q"
    "sr_port q = Inr port'" "same_origin p port q port'" "sr_scheme p \<in> {''http'', ''https''}"
proof -
  from a obtain p port where p: "urlsplit (py_strip url) = Inr p" "sr_scheme p \<in> {''http'', ''https''}" "sr_port p = Inr port"
    "normal_host (sr_hostname p) \<noteq> []" "origin_host (normal_host (sr_hostname p))"
    "origin = sr_scheme p @ ''://'' @ bracket_host (normal_host (sr_hostname p)) @
       (if origin_port (sr_scheme p) port = origin_port (sr_scheme p) None then [] else '':'' @ nat_to_str (origin_port (sr_scheme p) port))"
    by (rule canonical_originE)
  from b obtain q port' where q: "urlsplit (py_strip url') = Inr q" "sr_scheme q \<in> {''http'', ''https''}" "sr_port q = Inr port'"
    "normal_host (sr_hostname q) \<noteq> []" "origin_host (normal_host (sr_hostname q))"
    "origin = sr_scheme q @ ''://'' @ bracket_host (normal_host (sr_hostname q)) @
       (if origin_port (sr_scheme q) port' = origin_port (sr_scheme q) None then [] else '':'' @ nat_to_str (origin_port (sr_scheme q) port'))"
    by (rule canonical_originE)
  have sch: "sr_scheme p = sr_scheme q" using p(2,6) q(2,6) by auto
  define s where "s pt = (if origin_port (sr_scheme q) pt = origin_port (sr_scheme q) None then []
     else '':'' @ nat_to_str (origin_port (sr_scheme q) pt))" for pt
  have s: "port_suffix (s pt)" for pt by (simp add: port_suffix_def s_def)
  have "bracket_host (normal_host (sr_hostname p)) @ s port = bracket_host (normal_host (sr_hostname q)) @ s port'"
    using p(6) q(6) unfolding sch s_def by simp
  from bracket_host_inject [OF this p(5) q(5) s s p(4) q(4)]
  have "normal_host (sr_hostname p) = normal_host (sr_hostname q)" "s port = s port'" by auto
  moreover from this(2) have "origin_port (sr_scheme q) port = origin_port (sr_scheme q) port'" by (auto simp: s_def split: if_splits)
  ultimately show thesis using that p(1-3) q(1,3) sch by (simp add: same_origin_def)
qed

text \<open>
  C14: credentials stay on their origin. Material that was accepted for an origin applies to a URL
  only if that URL uses HTTPS, names the same host, and has the same effective port.
\<close>

theorem credentials_stay_on_origin:
  assumes "CredentialMaterial origin capability headers cookies expires_at = Inr m" "applies_to m url = Inr True"
  shows "\<exists>p port q port'. urlsplit (py_strip origin) = Inr p \<and> sr_port p = Inr port \<and>
    urlsplit (py_strip url) = Inr q \<and> sr_port q = Inr port' \<and> sr_scheme q = ''https'' \<and> sr_scheme p = ''https'' \<and>
    normal_host (sr_hostname q) = normal_host (sr_hostname p) \<and> origin_port ''https'' port' = origin_port ''https'' port"
proof -
  from assms(1) have o: "canonical_origin True origin = Inr (cm_origin m)" and https: "py_startswith (cm_origin m) ''https://''"
    by (auto simp: CredentialMaterial_def)
  from assms(2) have u: "canonical_origin False url = Inr (cm_origin m)" by (auto simp: applies_to_def)
  from u obtain q' port where "urlsplit (py_strip url) = Inr q'" "sr_scheme q' \<in> {''http'', ''https''}" "sr_port q' = Inr port"
    "normal_host (sr_hostname q') \<noteq> []" "origin_host (normal_host (sr_hostname q'))"
    "cm_origin m = sr_scheme q' @ ''://'' @ bracket_host (normal_host (sr_hostname q')) @
       (if origin_port (sr_scheme q') port = origin_port (sr_scheme q') None then [] else '':'' @ nat_to_str (origin_port (sr_scheme q') port))"
    by (rule canonical_originE)
  then have s: "urlsplit (py_strip url) = Inr q'" "sr_scheme q' = ''https''" using https by (auto simp: py_startswith_def)
  from o u show ?thesis
    by (rule canonical_origin_exact) (use s in \<open>auto simp: same_origin_def\<close>)
qed

subsection \<open>Headers\<close>

text \<open>A header that can be sent: a token as its name, printable ASCII as its value.\<close>

definition sendable :: "string \<times> string \<Rightarrow> bool" where
  "sendable = (\<lambda>(name, value). header_name name \<and> list_all printable_char value)"

lemma header_name_printable: "header_name_char c \<Longrightarrow> printable_char c"
  by (auto simp: header_name_char_def printable_char_def is_alpha_def is_upper_def is_lower_def is_digit_def ord_char_def)

lemma cookie_char_printable: "cookie_value_char c \<Longrightarrow> printable_char c"
  by (auto simp: cookie_value_char_def printable_char_def Let_def)

lemma validate_headers_ok:
  "validate_headers seen n items = Inr hs \<Longrightarrow> list_all sendable hs \<and>
     list_all (\<lambda>(name, _). py_lower name \<notin> set FORBIDDEN_CREDENTIAL_HEADERS \<union> seen) hs \<and>
     distinct (map (py_lower \<circ> fst) hs)"
proof (induction items arbitrary: seen n hs)
  case (Cons item items)
  obtain name v where item: "item = (name, v)" by (cases item)
  from Cons.prems obtain rest where r: "validate_headers (insert (py_lower name) seen) (n + length name + length v) items = Inr rest"
    "hs = (name, v) # rest" "header_name name" "py_lower name \<notin> set FORBIDDEN_CREDENTIAL_HEADERS" "py_lower name \<notin> seen"
    "list_all printable_char v"
    by (auto simp: Let_def item)
  from Cons.IH [OF r(1)] r(2-6) show ?case by (auto simp: sendable_def list_all_iff split_beta)
qed simp

lemma validate_cookies_ok:
  "validate_cookies n items = Inr cs \<Longrightarrow> list_all (\<lambda>(name, value). header_name name \<and> list_all cookie_value_char value) cs"
  by (induction n items arbitrary: cs rule: validate_cookies.induct) (auto simp: Let_def)

text \<open>
  What is sent cannot be split or smuggled. Every header an accepted credential contributes to
  a request has a token as its name and printable ASCII without line breaks as its value, none of
  them is a header the HTTP adapter sets itself except the one Cookie header, and no name occurs
  twice in any capitalisation.
\<close>

theorem credential_headers_sendable:
  assumes "CredentialMaterial origin capability headers cookies expires_at = Inr m"
  shows "list_all sendable (request_headers m) \<and> distinct (map (py_lower \<circ> fst) (request_headers m)) \<and>
    list_all (\<lambda>(name, _). name = ''Cookie'' \<or> py_lower name \<notin> set FORBIDDEN_CREDENTIAL_HEADERS) (request_headers m)"
proof -
  from assms have "validate_headers {} 0 headers = Inr (cm_headers m)" "validate_cookies 0 cookies = Inr (cm_cookies m)"
    by (auto simp: CredentialMaterial_def validated_headers_def validated_cookies_def)
  then have h: "list_all sendable (cm_headers m)" "distinct (map (py_lower \<circ> fst) (cm_headers m))"
    "list_all (\<lambda>(name, _). py_lower name \<notin> set FORBIDDEN_CREDENTIAL_HEADERS) (cm_headers m)"
    and c: "list_all (\<lambda>(name, value). header_name name \<and> list_all cookie_value_char value) (cm_cookies m)"
    using validate_headers_ok [of "{}" 0 headers] validate_cookies_ok [of 0 cookies] by auto
  define cookie where "cookie = py_join ''; '' (map (\<lambda>(name, value). name @ ''='' @ value) (cm_cookies m))"
  have low: "py_lower ''Cookie'' = ''cookie''" "''cookie'' \<in> set FORBIDDEN_CREDENTIAL_HEADERS" "sendable (''Cookie'', [])" by code_simp+
  have "printable_char x" if "x \<in> set cookie" for x
  proof -
    have "x \<in> set ''; '' \<or> x \<in> set ''='' \<or> (\<exists>(name, value)\<in>set (cm_cookies m). x \<in> set name \<or> x \<in> set value)"
      using subsetD [OF set_py_join that [unfolded cookie_def]] by (auto split: prod.splits)
    moreover have "list_all printable_char ''; =''" by code_simp
    ultimately show ?thesis using c header_name_printable cookie_char_printable by (fastforce simp: list_all_iff header_name_def)
  qed
  then have s: "sendable (''Cookie'', cookie)" using low(3) by (auto simp: sendable_def list_all_iff)
  have absent2: "''cookie'' \<notin> (py_lower \<circ> fst) ` set (cm_headers m)" using h(3) low(2) by (auto simp: list_all_iff)
  have absent: "''Cookie'' \<notin> fst ` set (cm_headers m)"
  proof
    assume "''Cookie'' \<in> fst ` set (cm_headers m)"
    then have "py_lower ''Cookie'' \<in> (py_lower \<circ> fst) ` set (cm_headers m)" unfolding image_comp [symmetric] by (rule imageI)
    with absent2 low(1) show False by metis
  qed
  have "assoc_set k v xs = xs @ [(k, v)]" if "k \<notin> fst ` set xs" for k and v :: string and xs :: "(string \<times> string) list"
    using that by (induction xs) auto
  then have "request_headers m = cm_headers m \<or> request_headers m = cm_headers m @ [(''Cookie'', cookie)]"
    using absent by (simp add: request_headers_def cookie_def)
  then show ?thesis using h s absent2 low(1) by (auto simp: list_all_iff)
qed

definition sample_material :: credential_material where
  "sample_material = \<lparr>cm_origin = ''https://api.example.com'', cm_capability_id = ''bearer_token'',
     cm_headers = [(''Authorization'', ''Bearer t'')], cm_cookies = [(''a'', ''b'')], cm_expires_at = None\<rparr>"

lemma sample_material_ok:
  "CredentialMaterial ''https://API.example.com:443/'' ''bearer_token'' [(''Authorization'', ''Bearer t'')] [(''a'', ''b'')] None =
     Inr sample_material"
  by code_simp

theorem credentials_stay_on_origin_witness:
  "\<exists>q. urlsplit ''https://api.example.com/v1'' = Inr q \<and> sr_scheme q = ''https''"
proof -
  have "applies_to sample_material ''https://api.example.com/v1'' = Inr True" by code_simp
  moreover have "py_strip ''https://api.example.com/v1'' = ''https://api.example.com/v1''" by code_simp
  ultimately show ?thesis using credentials_stay_on_origin [OF sample_material_ok] by metis
qed

theorem credential_headers_sendable_witness:
  "list_all sendable (request_headers sample_material) \<and> length (request_headers sample_material) = 2"
  using credential_headers_sendable [OF sample_material_ok] by (simp add: request_headers_def sample_material_def)

end
