(* ===== verification/Storage.thy ===== *)
theory Storage
  imports Auth
begin

section \<open>Content-addressed storage: storage.py\<close>

text \<open>
  \<^verbatim>\<open>FileSystemCAS\<close>: publishing with a hard link, verification of what is already there, and reads
  that are checked against the digest; and the cache keys of \<^verbatim>\<open>storage.py\<close>.

  The operating system answers the calls of a read one by one (\<open>read_calls\<close>): any process may change
  the file between two calls, so the answers need not fit together. Publishing works on a directory
  of the store, and other processes may change that directory between two steps (\<open>interfere\<close>).
  The digest function is a parameter.
\<close>

subsection \<open>Errors and paths\<close>

datatype cas_error = CASIntegrity string | CASReadLimit string | CASNotFound | CASOSError string | CASValue string

type_synonym 'a cas = "cas_error + 'a"

definition lower_hex :: "char \<Rightarrow> bool" where
  "lower_hex c \<longleftrightarrow> c \<in> set ''0123456789abcdef''"

type_synonym path = "string list"

definition cas_path :: "path \<Rightarrow> string \<Rightarrow> path cas" where
  "cas_path store_root digest =
     (if py_len digest \<noteq> 64 \<or> \<not> list_all lower_hex digest then Inl (CASValue ''invalid SHA-256 digest'')
      else Inr (store_root @ [take 2 digest, take 2 (drop 2 digest), digest]))"

definition CAS_PREFIX :: string where "CAS_PREFIX = ''cas://sha256/''"

subsection \<open>Verified reads\<close>

record file_stat =
  fs_regular :: bool
  fs_device :: nat
  fs_inode :: nat
  fs_size :: nat

text \<open>
  The answers of the calls of one read: \<^verbatim>\<open>lstat\<close> and \<^verbatim>\<open>open\<close> (\<^term>\<open>None\<close> when the file does not
  exist), both \<^verbatim>\<open>fstat\<close> calls, and what the \<^verbatim>\<open>read\<close> calls return, by the number of bytes read so
  far and the number of bytes asked for.
\<close>

record read_calls =
  rc_lstat :: "file_stat option"
  rc_open :: "bool option"
  rc_fstat :: file_stat
  rc_read :: "nat \<Rightarrow> nat \<Rightarrow> string"
  rc_final :: file_stat

definition chunk_size :: nat where "chunk_size = 1024 * 1024"

definition over :: "nat \<Rightarrow> nat option \<Rightarrow> bool" where
  "over n maximum = (case maximum of None \<Rightarrow> False | Some m \<Rightarrow> m < n)"

text \<open>The loop ends because a chunk that is not empty brings the total closer to the expected size.\<close>

function read_loop :: "(nat \<Rightarrow> nat \<Rightarrow> string) \<Rightarrow> nat \<Rightarrow> nat option \<Rightarrow> nat \<Rightarrow> string list \<Rightarrow> (string list \<times> nat) cas" where
  "read_loop os_read expected_size maximum total_read chunks =
     (let chunk = os_read total_read (min chunk_size (max 1 (expected_size - total_read + 1))) in
      if chunk = [] then Inr (chunks, total_read)
      else let total' = total_read + length chunk in
        if expected_size < total' \<or> over total' maximum
        then Inl (CASReadLimit ''CAS artifact exceeds the requested read bound'')
        else read_loop os_read expected_size maximum total' (chunks @ [chunk]))"
  by pat_completeness auto
termination
  by (relation "measure (\<lambda>(_, expected_size, _, total_read, _). expected_size + 1 - total_read)")
    (auto simp: Let_def not_less simp flip: length_greater_0_conv)

declare read_loop.simps [simp del]

definition read_verified :: "(string \<Rightarrow> string) \<Rightarrow> read_calls \<Rightarrow> string \<Rightarrow> int option \<Rightarrow> string cas" where
  "read_verified sha256 calls digest maximum_bytes =
     bind_res (raise_if (case maximum_bytes of Some m \<Rightarrow> m < 0 | None \<Rightarrow> False)
       (CASIntegrity ''CAS read bound must be non-negative'')) (\<lambda>_.
     let maximum = map_option nat maximum_bytes in
     case rc_lstat calls of
       None \<Rightarrow> Inl CASNotFound
     | Some path_stat \<Rightarrow>
         bind_res (raise_if (\<not> fs_regular path_stat) (CASIntegrity ''CAS digest path is not a regular file'')) (\<lambda>_.
         case rc_open calls of
           None \<Rightarrow> Inl CASNotFound
         | Some False \<Rightarrow> Inl (CASIntegrity ''CAS digest path could not be opened safely'')
         | Some True \<Rightarrow>
             let opened = rc_fstat calls in
             bind_res (raise_if (\<not> fs_regular opened) (CASIntegrity ''CAS digest path is not a regular file'')) (\<lambda>_.
             bind_res (raise_if ((fs_device path_stat, fs_inode path_stat) \<noteq> (fs_device opened, fs_inode opened))
               (CASIntegrity ''CAS digest path changed while it was being opened'')) (\<lambda>_.
             bind_res (raise_if (over (fs_size opened) maximum)
               (CASReadLimit ''CAS artifact exceeds the requested read bound'')) (\<lambda>_.
             bind_res (read_loop (rc_read calls) (fs_size opened) maximum 0 []) (\<lambda>(chunks, total_read).
             bind_res (raise_if (total_read \<noteq> fs_size opened \<or> fs_size (rc_final calls) \<noteq> fs_size opened)
               (CASIntegrity ''CAS digest path changed while it was being read'')) (\<lambda>_.
             bind_res (raise_if (sha256 (concat chunks) \<noteq> digest)
               (CASIntegrity ''CAS artifact digest does not match its URI'')) (\<lambda>_.
               Inr (concat chunks)))))))))"

definition cas_digest :: "path \<Rightarrow> string \<Rightarrow> string cas" where
  "cas_digest store_root uri =
     (if \<not> py_startswith uri CAS_PREFIX then Inl (CASValue ''unsupported CAS URI'')
      else let digest = py_removeprefix uri CAS_PREFIX in bind_res (cas_path store_root digest) (\<lambda>_. Inr digest))"

definition cas_get :: "(string \<Rightarrow> string) \<Rightarrow> path \<Rightarrow> (path \<Rightarrow> read_calls) \<Rightarrow> string \<Rightarrow> int option \<Rightarrow> string cas" where
  "cas_get sha256 store_root calls uri maximum_bytes =
     bind_res (cas_digest store_root uri) (\<lambda>digest.
     bind_res (cas_path store_root digest) (\<lambda>path.
       read_verified sha256 (calls path) digest maximum_bytes))"

definition cas_verify :: "(string \<Rightarrow> string) \<Rightarrow> path \<Rightarrow> (path \<Rightarrow> read_calls) \<Rightarrow> string \<Rightarrow> bool" where
  "cas_verify sha256 store_root calls uri =
     (case cas_get sha256 store_root calls uri None of Inl _ \<Rightarrow> False | Inr _ \<Rightarrow> True)"

subsection \<open>Publishing\<close>

text \<open>A directory entry of the store: a regular file with its bytes, or something else.\<close>

datatype entry = RegularFile nat string | OtherEntry

record cas_dir =
  cd_entries :: "path \<Rightarrow> entry option"
  cd_temporaries :: nat

definition chunks_of :: "string \<Rightarrow> string list" where
  "chunks_of bytes = map (\<lambda>i. take chunk_size (drop (i * chunk_size) bytes)) [0..<(length bytes + chunk_size - 1) div chunk_size]"

fun compare_chunks :: "string \<Rightarrow> nat \<Rightarrow> string list \<Rightarrow> nat cas" where
  "compare_chunks body offset [] = Inr offset"
| "compare_chunks body offset (chunk # chunks) =
     (if chunk \<noteq> take (length chunk) (drop offset body)
      then Inl (CASIntegrity ''CAS digest path contains unexpected content'')
      else compare_chunks body (offset + length chunk) chunks)"

definition unexpected :: cas_error where
  "unexpected = CASIntegrity ''CAS digest path contains unexpected content''"

definition verify_existing :: "(string \<Rightarrow> string) \<Rightarrow> entry option \<Rightarrow> string \<Rightarrow> string \<Rightarrow> unit cas" where
  "verify_existing sha256 target body digest =
     (case target of
        None \<Rightarrow> Inl CASNotFound
      | Some OtherEntry \<Rightarrow> Inl (CASIntegrity ''CAS digest path is not a regular file'')
      | Some (RegularFile _ bytes) \<Rightarrow>
          bind_res (raise_if (length bytes \<noteq> length body) unexpected) (\<lambda>_.
          bind_res (compare_chunks body 0 (chunks_of bytes)) (\<lambda>offset.
            raise_if (offset \<noteq> length body \<or> sha256 bytes \<noteq> digest) unexpected)))"

text \<open>\<^verbatim>\<open>_fsync_directory_chain\<close>: from the directory up to the root of the store.\<close>

function fsync_directory_chain :: "(path \<Rightarrow> bool) \<Rightarrow> path \<Rightarrow> path \<Rightarrow> unit cas" where
  "fsync_directory_chain fsync current stop =
     (if \<not> fsync current then Inl (CASOSError ''fsync'')
      else if current = stop then Inr ()
      else if current = [] \<or> take (length stop) current \<noteq> stop
      then Inl (CASIntegrity ''CAS durability root does not contain the digest path'')
      else fsync_directory_chain fsync (butlast current) stop)"
  by pat_completeness auto
termination
  by (relation "measure (\<lambda>(_, current, _). length current)") auto

declare fsync_directory_chain.simps [simp del]

text \<open>\<^verbatim>\<open>os.link\<close> creates the entry only where there is none; otherwise \<^verbatim>\<open>FileExistsError\<close>.\<close>

definition os_link :: "path \<Rightarrow> nat \<Rightarrow> string \<Rightarrow> cas_dir \<Rightarrow> bool \<times> cas_dir" where
  "os_link target inode body d =
     (case cd_entries d target of
        Some _ \<Rightarrow> (False, d)
      | None \<Rightarrow> (True, d\<lparr>cd_entries := (cd_entries d)(target \<mapsto> RegularFile inode body)\<rparr>))"

record cas_env =
  ce_interfere :: "nat \<Rightarrow> cas_dir \<Rightarrow> cas_dir"
  ce_fsync :: "path \<Rightarrow> bool"
  ce_stage :: "cas_error option"
  ce_inode :: nat

fun publish_attempts ::
  "(string \<Rightarrow> string) \<Rightarrow> cas_env \<Rightarrow> path \<Rightarrow> path \<Rightarrow> string \<Rightarrow> string \<Rightarrow> nat \<Rightarrow> nat \<Rightarrow> cas_dir \<Rightarrow> unit cas \<times> cas_dir" where
  "publish_attempts sha256 en store_root target body digest step 0 d =
     (Inl (CASIntegrity ''CAS target changed while content was being published''), d)"
| "publish_attempts sha256 en store_root target body digest step (Suc n) d0 =
     (let (linked, d1) = os_link target (ce_inode en) body d0;
          d2 = ce_interfere en step d1 in
      case verify_existing sha256 (cd_entries d2 target) body digest of
        Inr _ \<Rightarrow> (fsync_directory_chain (ce_fsync en) (butlast target) store_root, d2)
      | Inl e \<Rightarrow>
          if \<not> linked \<and> e = CASNotFound
          then publish_attempts sha256 en store_root target body digest (step + 1) n (ce_interfere en (step + 1) d2)
          else (Inl e, d2))"

definition write_atomic ::
  "(string \<Rightarrow> string) \<Rightarrow> cas_env \<Rightarrow> path \<Rightarrow> path \<Rightarrow> string \<Rightarrow> string \<Rightarrow> cas_dir \<Rightarrow> unit cas \<times> cas_dir" where
  "write_atomic sha256 en store_root target body digest d0 =
     (case verify_existing sha256 (cd_entries d0 target) body digest of
        Inr _ \<Rightarrow> (fsync_directory_chain (ce_fsync en) (butlast target) store_root, d0)
      | Inl e \<Rightarrow>
          if e \<noteq> CASNotFound then (Inl e, d0)
          else let d1 = d0\<lparr>cd_temporaries := cd_temporaries d0 + 1\<rparr> in
            (case (case ce_stage en of
                     Some staging_error \<Rightarrow> (Inl staging_error, d1)
                   | None \<Rightarrow> publish_attempts sha256 en store_root target body digest 1 2 (ce_interfere en 0 d1)) of
               (result, d2) \<Rightarrow> (result, d2\<lparr>cd_temporaries := cd_temporaries d2 - 1\<rparr>)))"

definition cas_put ::
  "(string \<Rightarrow> string) \<Rightarrow> cas_env \<Rightarrow> path \<Rightarrow> string \<Rightarrow> cas_dir \<Rightarrow> (string \<times> string \<times> nat) cas \<times> cas_dir" where
  "cas_put sha256 en store_root body d =
     (let digest = sha256 body in
      case cas_path store_root digest of
        Inl e \<Rightarrow> (Inl e, d)
      | Inr target \<Rightarrow>
          (case write_atomic sha256 en store_root target body digest d of
             (Inl e, d') \<Rightarrow> (Inl e, d')
           | (Inr _, d') \<Rightarrow> (Inr (CAS_PREFIX @ digest, digest, length body), d')))"

text \<open>The calls of a read of a directory nobody changes meanwhile.\<close>

definition quiet_calls :: "cas_dir \<Rightarrow> path \<Rightarrow> read_calls" where
  "quiet_calls d path =
     (let st = (case cd_entries d path of
            Some (RegularFile inode bytes) \<Rightarrow>
              Some \<lparr>fs_regular = True, fs_device = 0, fs_inode = inode, fs_size = length bytes\<rparr>
          | Some OtherEntry \<Rightarrow> Some \<lparr>fs_regular = False, fs_device = 0, fs_inode = 0, fs_size = 0\<rparr>
          | None \<Rightarrow> None);
          content = (case cd_entries d path of Some (RegularFile _ bytes) \<Rightarrow> bytes | _ \<Rightarrow> [])
      in \<lparr>rc_lstat = st, rc_open = map_option fs_regular st,
          rc_fstat = (case st of Some s \<Rightarrow> s | None \<Rightarrow> \<lparr>fs_regular = False, fs_device = 0, fs_inode = 0, fs_size = 0\<rparr>),
          rc_read = (\<lambda>offset n. take n (drop offset content)),
          rc_final = (case st of Some s \<Rightarrow> s | None \<Rightarrow> \<lparr>fs_regular = False, fs_device = 0, fs_inode = 0, fs_size = 0\<rparr>)\<rparr>)"

subsection \<open>Cache keys, records and artifacts\<close>

record cache_key =
  ck_url :: string
  ck_representation :: string
  ck_authentication_scope :: string
  ck_policy_profile :: string
  ck_language :: string
  ck_parser_version :: string
  ck_vary :: "(string \<times> string) list"
  ck_region :: string

definition or_empty :: "string option \<Rightarrow> string" where
  "or_empty v = (case v of Some s \<Rightarrow> s | None \<Rightarrow> [])"

definition cache_key_for_request ::
  "(string \<Rightarrow> string) \<Rightarrow> fetch_request \<Rightarrow> string \<Rightarrow> string \<Rightarrow> string \<Rightarrow> (string \<times> string) list \<Rightarrow> cache_key res" where
  "cache_key_for_request sha256 request url repr parser_version vary =
     bind_res (authentication_cache_scope sha256 (rq_authentication_ref request)) (\<lambda>scope.
       Inr \<lparr>ck_url = url, ck_representation = repr, ck_authentication_scope = scope,
            ck_policy_profile = rq_policy_profile request, ck_language = or_empty (rq_language request),
            ck_parser_version = parser_version, ck_vary = vary, ck_region = or_empty (rq_region request)\<rparr>)"

definition cache_document :: "cache_key \<Rightarrow> document" where
  "cache_document k = [(''url'', VStr (ck_url k)), (''representation'', VStr (ck_representation k)),
     (''authentication_scope'', VStr (ck_authentication_scope k)), (''policy_profile'', VStr (ck_policy_profile k)),
     (''language'', VStr (ck_language k)), (''parser_version'', VStr (ck_parser_version k)),
     (''region'', VStr (ck_region k)),
     (''vary'', VTuple (map (\<lambda>(a, b). VTuple [VStr a, VStr b]) (ck_vary k)))]"

definition cache_digest :: "(string \<Rightarrow> string) \<Rightarrow> (document \<Rightarrow> string) \<Rightarrow> cache_key \<Rightarrow> string" where
  "cache_digest sha256 dumps k = sha256 (dumps (cache_document k))"

record cache_record =
  cr_key :: cache_key
  cr_resource :: resource
  cr_artifact :: artifact
  cr_etag :: "string option"
  cr_last_modified :: "string option"
  cr_stored_at :: time
  cr_expires_at :: "time option"

definition record_fresh :: "time \<Rightarrow> cache_record \<Rightarrow> bool" where
  "record_fresh now r = (case cr_expires_at r of None \<Rightarrow> True | Some t \<Rightarrow> now < t)"

definition build_artifact ::
  "uuid \<Rightarrow> string \<Rightarrow> string \<Rightarrow> string \<Rightarrow> string \<Rightarrow> string \<Rightarrow> nat \<Rightarrow> resource \<Rightarrow> string \<Rightarrow> quality_assessment
     \<Rightarrow> artifact list \<Rightarrow> string list \<Rightarrow> artifact" where
  "build_artifact new_id role repr media_type cas_uri digest byte_size resource extractor quality parents locators =
     \<lparr>ar_artifact_id = new_id, ar_role = role, ar_representation = repr, ar_media_type = media_type,
      ar_schema_version = ''1.0'', ar_cas_uri = cas_uri, ar_sha256 = digest, ar_size = byte_size,
      ar_source_resource_id = rs_resource_id resource, ar_parent_artifact_ids = map ar_artifact_id parents,
      ar_extractor_version = extractor, ar_locators = locators, ar_quality = quality\<rparr>"

subsection \<open>Reads\<close>

lemma read_loop_result:
  "read_loop os_read expected_size maximum total_read chunks = Inr (chunks', total') \<Longrightarrow>
   total_read = length (concat chunks) \<Longrightarrow>
   total' = length (concat chunks') \<and> (total_read \<le> expected_size \<and> \<not> over total_read maximum \<longrightarrow> total' \<le> expected_size \<and> \<not> over total' maximum)"
proof (induction os_read expected_size maximum total_read chunks rule: read_loop.induct)
  case (1 os_read expected_size maximum total_read chunks)
  define chunk where "chunk = os_read total_read (min chunk_size (max 1 (expected_size - total_read + 1)))"
  note step = "1.prems"(1) [unfolded read_loop.simps [of os_read expected_size maximum total_read chunks] Let_def chunk_def [symmetric]]
  show ?case
  proof (cases "chunk = []")
    case True
    then show ?thesis using step "1.prems"(2) by auto
  next
    case False
    then have "read_loop os_read expected_size maximum (total_read + length chunk) (chunks @ [chunk]) = Inr (chunks', total')"
      "\<not> expected_size < total_read + length chunk" "\<not> over (total_read + length chunk) maximum"
      using step by (auto split: if_splits)
    then show ?thesis using "1.IH" [OF chunk_def False refl] "1.prems"(2) by auto
  qed
qed

text \<open>
  C15: a read returns verified content or fails. Whatever the operating system answers to the single
  calls, so also when another process replaces, truncates or extends the file meanwhile, the bytes
  \<^verbatim>\<open>get\<close> returns have the digest of the URI, the size the open file had, and do not exceed the bound.
\<close>

theorem cas_read_integrity:
  assumes "cas_get sha256 store_root calls uri maximum_bytes = Inr body"
  shows "uri = ''cas://sha256/'' @ sha256 body \<and> length (sha256 body) = 64 \<and>
    (\<exists>path. cas_path store_root (sha256 body) = Inr path \<and> length body = fs_size (rc_fstat (calls path))) \<and>
    (case maximum_bytes of Some m \<Rightarrow> int (length body) \<le> m | None \<Rightarrow> True)"
proof -
  from assms obtain digest path where d: "cas_digest store_root uri = Inr digest" "cas_path store_root digest = Inr path"
    and r: "read_verified sha256 (calls path) digest maximum_bytes = Inr body"
    by (auto simp: cas_get_def)
  from r obtain chunks where c: "read_loop (rc_read (calls path)) (fs_size (rc_fstat (calls path))) (map_option nat maximum_bytes) 0 [] =
      Inr (chunks, fs_size (rc_fstat (calls path)))" "sha256 (concat chunks) = digest" "body = concat chunks"
    and m: "case maximum_bytes of Some m \<Rightarrow> 0 \<le> m | None \<Rightarrow> True" "\<not> over (fs_size (rc_fstat (calls path))) (map_option nat maximum_bytes)"
    by (auto simp: read_verified_def Let_def split: option.splits bool.splits)
  have len: "length body = fs_size (rc_fstat (calls path))" using read_loop_result [OF c(1)] c(3) by simp
  have bound: "case maximum_bytes of Some m \<Rightarrow> int (length body) \<le> m | None \<Rightarrow> True"
    using m unfolding len by (auto simp: over_def split: option.splits)
  have "list_all lower_hex digest" "py_len digest = 64" using d(2) by (auto simp: cas_path_def split: if_splits)
  moreover have "lower_hex c \<Longrightarrow> \<not> cont_byte (ord_char c)" for c by (auto simp: lower_hex_def cont_byte_def ord_char_def)
  ultimately have "length digest = 64"
    unfolding py_len_def using filter_True [of digest "\<lambda>c. \<not> cont_byte (ord_char c)"] by (auto simp: list_all_iff)
  moreover have "uri = ''cas://sha256/'' @ digest"
    using d(1) by (auto simp: cas_digest_def Let_def CAS_PREFIX_def py_removeprefix_def py_startswith_iff split: if_splits)
  ultimately show ?thesis using c(2,3) d(2) len bound by auto
qed

subsection \<open>What is published\<close>

lemma compare_chunks_Inr: "compare_chunks body offset chunks = Inr n \<Longrightarrow> n = offset + length (concat chunks) \<and>
   concat chunks = take (length (concat chunks)) (drop offset body)"
proof (induction body offset chunks rule: compare_chunks.induct)
  case (2 body offset chunk chunks)
  from "2.prems" have c: "chunk = take (length chunk) (drop offset body)"
    "compare_chunks body (offset + length chunk) chunks = Inr n" by (auto split: if_splits)
  with "2.IH" have "n = offset + length chunk + length (concat chunks)"
    "concat chunks = take (length (concat chunks)) (drop (offset + length chunk) body)" by auto
  then show ?case using c(1) by (simp add: take_add add.commute) 
qed simp

lemma concat_chunks_of: "concat (chunks_of bytes) = bytes"
proof -
  have "concat (map (\<lambda>i. take c (drop (i * c) xs)) [0..<n]) = take (n * c) xs" for n c and xs :: string
    by (induction n) (simp_all flip: take_add add: add.commute)
  moreover have "length bytes \<le> ((length bytes + chunk_size - 1) div chunk_size) * chunk_size"
    using div_mult_mod_eq [of "length bytes + chunk_size - 1" chunk_size] mod_less_divisor [of chunk_size "length bytes + chunk_size - 1"]
    by (simp add: chunk_size_def)
  ultimately show ?thesis by (simp add: chunks_of_def)
qed

lemma verify_existing_Inr:
  "verify_existing sha256 target body digest = Inr u \<longleftrightarrow> (\<exists>inode. target = Some (RegularFile inode body)) \<and> sha256 body = digest"
proof
  assume v: "verify_existing sha256 target body digest = Inr u"
  then obtain inode bytes n where t: "target = Some (RegularFile inode bytes)" "length bytes = length body"
    "compare_chunks body 0 (chunks_of bytes) = Inr n" "sha256 bytes = digest"
    by (auto simp: verify_existing_def split: option.splits entry.splits)
  have "bytes = take (length bytes) body" using compare_chunks_Inr [OF t(3)] by (simp add: concat_chunks_of)
  with t show "(\<exists>inode. target = Some (RegularFile inode body)) \<and> sha256 body = digest" by simp
next
  assume "(\<exists>inode. target = Some (RegularFile inode body)) \<and> sha256 body = digest"
  moreover have "compare_chunks body offset chunks = Inr (offset + length (concat chunks))"
    if "concat chunks = take (length (concat chunks)) (drop offset body)" for offset chunks
    using that
  proof (induction chunks arbitrary: offset)
    case (Cons chunk chunks)
    let ?d = "drop offset body" and ?n = "length chunk" and ?m = "length (concat chunks)"
    from Cons.prems have e: "chunk @ concat chunks = take ?n ?d @ take ?m (drop (offset + ?n) body)"
      by (simp add: take_add add.commute)
    have "length (chunk @ concat chunks) \<le> length ?d" using Cons.prems by (metis concat.simps(2) length_take min.cobounded1)
    then have "length (take ?n ?d) = ?n" by simp
    with e have "chunk = take ?n ?d" "concat chunks = take ?m (drop (offset + ?n) body)" by (simp_all add: append_eq_append_conv)
    then show ?case using Cons.IH [of "offset + length chunk"] by simp
  qed simp
  from this [of "chunks_of body" 0] have "compare_chunks body 0 (chunks_of body) = Inr (length body)" by (simp add: concat_chunks_of)
  ultimately show "verify_existing sha256 target body digest = Inr u" by (auto simp: verify_existing_def)
qed

lemma publish_attempts_Inr:
  "publish_attempts sha256 en store_root target body digest step n d = (Inr u, d') \<Longrightarrow>
   \<exists>inode. cd_entries d' target = Some (RegularFile inode body)"
  by (induction n arbitrary: step d) (auto simp: Let_def verify_existing_Inr split: prod.splits sum.splits if_splits)

lemma write_atomic_Inr:
  "write_atomic sha256 en store_root target body digest d = (Inr u, d') \<Longrightarrow>
   \<exists>inode. cd_entries d' target = Some (RegularFile inode body)"
  by (auto simp: write_atomic_def Let_def verify_existing_Inr publish_attempts_Inr split: sum.splits if_splits option.splits prod.splits)

text \<open>
  Publishing is honest. Whatever other processes do to the store between the steps, when
  \<^verbatim>\<open>put\<close> returns, the entry of the digest is a regular file that holds exactly the given bytes at the
  moment it was last verified, and the URI, digest and size are those of the bytes.
\<close>

theorem cas_put_publishes:
  assumes "cas_put sha256 en store_root body d = (Inr (uri, digest, n), d')"
  shows "digest = sha256 body \<and> uri = ''cas://sha256/'' @ sha256 body \<and> n = length body \<and>
    (\<exists>target inode. cas_path store_root digest = Inr target \<and> cd_entries d' target = Some (RegularFile inode body))"
  using assms
  by (auto simp: cas_put_def Let_def CAS_PREFIX_def split: sum.splits prod.splits dest: write_atomic_Inr)

subsection \<open>Without interference\<close>

text \<open>A store nobody else touches, on a disk that works.\<close>

definition quiet_env :: "cas_env \<Rightarrow> bool" where
  "quiet_env en \<longleftrightarrow> ce_interfere en = (\<lambda>_ d. d) \<and> ce_fsync en = (\<lambda>_. True) \<and> ce_stage en = None"

lemma fsync_chain_ok: "fsync_directory_chain (\<lambda>_. True) (stop @ dirs) stop = Inr ()"
proof (induction dirs rule: rev_induct)
  case Nil
  then show ?case by (simp add: fsync_directory_chain.simps)
next
  case (snoc x dirs)
  have "fsync_directory_chain (\<lambda>_. True) (stop @ dirs @ [x]) stop = fsync_directory_chain (\<lambda>_. True) (stop @ dirs) stop"
    by (subst fsync_directory_chain.simps) (simp add: butlast_append)
  with snoc show ?case by simp
qed

lemma cas_path_parts:
  "cas_path store_root digest = Inr target \<Longrightarrow> \<exists>dirs. butlast target = store_root @ dirs"
  by (auto simp: cas_path_def butlast_append split: if_splits)

lemma cas_path_inject: "cas_path store_root a = Inr t \<Longrightarrow> cas_path store_root b = Inr t \<Longrightarrow> a = b"
  by (auto simp: cas_path_def split: if_splits)

definition may_publish :: "entry option \<Rightarrow> string \<Rightarrow> bool" where
  "may_publish target body = (case target of None \<Rightarrow> True | Some (RegularFile _ bytes) \<Rightarrow> bytes = body | Some OtherEntry \<Rightarrow> False)"

lemma quiet_publish:
  assumes "quiet_env en" "cas_path store_root (sha256 body) = Inr target" "may_publish (cd_entries d target) body"
  shows "\<exists>d'. cas_put sha256 en store_root body d = (Inr (''cas://sha256/'' @ sha256 body, sha256 body, length body), d') \<and>
    (\<exists>inode. cd_entries d' target = Some (RegularFile inode body)) \<and> cd_temporaries d' = cd_temporaries d \<and>
    (\<forall>path. path \<noteq> target \<longrightarrow> cd_entries d' path = cd_entries d path)"
proof -
  obtain dirs where dirs: "butlast target = store_root @ dirs" using cas_path_parts [OF assms(2)] by blast
  have v: "verify_existing sha256 (Some (RegularFile inode body)) body (sha256 body) = Inr ()" for inode
    by (simp add: verify_existing_Inr)
  show ?thesis
  proof (cases "cd_entries d target")
    case None
    then have "verify_existing sha256 (cd_entries d target) body (sha256 body) = Inl CASNotFound" by (simp add: verify_existing_def)
    then show ?thesis
      using assms(1,2) None v dirs
      by (simp add: cas_put_def write_atomic_def Let_def quiet_env_def numeral_2_eq_2 os_link_def fsync_chain_ok CAS_PREFIX_def)
  next
    case (Some e)
    with assms(3) obtain inode where "cd_entries d target = Some (RegularFile inode body)"
      by (auto simp: may_publish_def split: entry.splits)
    then show ?thesis
      using assms(1,2) v dirs by (simp add: cas_put_def write_atomic_def Let_def quiet_env_def fsync_chain_ok CAS_PREFIX_def)
  qed
qed

lemma quiet_read_loop:
  assumes "total_read \<le> length bytes" "\<not> over (length bytes) maximum" "concat chunks = take total_read bytes"
  shows "\<exists>chunks'. read_loop (\<lambda>offset n. take n (drop offset bytes)) (length bytes) maximum total_read chunks = Inr (chunks', length bytes) \<and>
    concat chunks' = bytes"
  using assms
proof (induction "length bytes - total_read" arbitrary: total_read chunks rule: less_induct)
  case less
  define n where "n = min chunk_size (max 1 (length bytes - total_read + 1))"
  have n: "0 < n" by (simp add: n_def chunk_size_def)
  note unf = read_loop.simps [of "\<lambda>offset n. take n (drop offset bytes)" "length bytes" maximum total_read chunks,
      unfolded Let_def, folded n_def]
  show ?case
  proof (cases "total_read = length bytes")
    case True
    then show ?thesis using less.prems unf by simp
  next
    case False
    define c where "c = take n (drop total_read bytes)"
    have "take (length (take n xs)) xs = take n xs" for xs :: string by (metis append_eq_conv_conj append_take_drop_id)
    then have c3: "c = take (length c) (drop total_read bytes)" unfolding c_def by (rule sym)
    have c12: "c \<noteq> []" "length c \<le> length bytes - total_read" using False less.prems(1) n by (simp_all add: c_def)
    note c = c12 c3
    have mono: "\<not> over (total_read + length c) maximum"
      using less.prems(1,2) c(2) by (auto simp: over_def split: option.splits)
    have "concat (chunks @ [c]) = take (total_read + length c) bytes"
      using less.prems(3) c(3) by (simp add: take_add)
    moreover have "length bytes - (total_read + length c) < length bytes - total_read" "total_read + length c \<le> length bytes"
      using c(1,2) False less.prems(1) by (cases c; auto)+
    ultimately show ?thesis
      using less.hyps [of "total_read + length c" "chunks @ [c]"] less.prems(2) c mono unf [folded c_def] by simp
  qed
qed

lemma quiet_read:
  assumes "cd_entries d path = Some (RegularFile inode body)" "sha256 body = digest"
    "case maximum_bytes of Some m \<Rightarrow> int (length body) \<le> m | None \<Rightarrow> True"
  shows "read_verified sha256 (quiet_calls d path) digest maximum_bytes = Inr body"
proof -
  have m: "case maximum_bytes of Some m \<Rightarrow> \<not> m < 0 | None \<Rightarrow> True" "\<not> over (length body) (map_option nat maximum_bytes)"
    using assms(3) by (auto simp: over_def split: option.splits)
  obtain chunks where "read_loop (\<lambda>offset n. take n (drop offset body)) (length body) (map_option nat maximum_bytes) 0 [] =
      Inr (chunks, length body)" "concat chunks = body"
    using quiet_read_loop [of 0 body "map_option nat maximum_bytes" "[]"] m(2) by auto
  then show ?thesis using m assms(1,2)
    by (auto simp: read_verified_def quiet_calls_def Let_def split: option.splits)
qed

text \<open>
  What was put can be read back. On an undisturbed store whose entry for the digest is free or
  already holds the bytes, \<^verbatim>\<open>put\<close> succeeds, leaves every other entry as it was and no temporary
  file behind, and \<^verbatim>\<open>get\<close> of the returned URI returns the bytes under every bound that admits them.
\<close>

theorem cas_round_trip:
  assumes "quiet_env en" "cas_path store_root (sha256 body) = Inr target" "may_publish (cd_entries d target) body"
    "case maximum_bytes of Some m \<Rightarrow> int (length body) \<le> m | None \<Rightarrow> True"
  shows "\<exists>uri d'. cas_put sha256 en store_root body d = (Inr (uri, sha256 body, length body), d') \<and>
    cas_get sha256 store_root (quiet_calls d') uri maximum_bytes = Inr body \<and> cd_temporaries d' = cd_temporaries d \<and>
    (\<forall>path. path \<noteq> target \<longrightarrow> cd_entries d' path = cd_entries d path)"
proof -
  obtain d' inode where p: "cas_put sha256 en store_root body d = (Inr (''cas://sha256/'' @ sha256 body, sha256 body, length body), d')"
    "cd_entries d' target = Some (RegularFile inode body)" "cd_temporaries d' = cd_temporaries d"
    "\<forall>path. path \<noteq> target \<longrightarrow> cd_entries d' path = cd_entries d path"
    using quiet_publish [of en store_root sha256 body target d, OF assms(1-3)] by blast
  have "cas_digest store_root (''cas://sha256/'' @ sha256 body) = Inr (sha256 body)"
    using assms(2) by (simp add: cas_digest_def CAS_PREFIX_def py_startswith_def py_removeprefix_def)
  then have "cas_get sha256 store_root (quiet_calls d') (''cas://sha256/'' @ sha256 body) maximum_bytes = Inr body"
    using assms(2) quiet_read [OF p(2) refl assms(4)] by (simp add: cas_get_def)
  then show ?thesis using p by blast
qed

subsection \<open>An instance\<close>

text \<open>A stand-in for the digest: 64 hexadecimal digits that say whether the bytes are the sample.\<close>

definition toy_digest :: "string \<Rightarrow> string" where
  "toy_digest s = replicate 64 (if s = ''abc'' then CHR ''a'' else CHR ''0'')"

definition quiet_disk :: cas_env where
  "quiet_disk = \<lparr>ce_interfere = (\<lambda>_ d. d), ce_fsync = (\<lambda>_. True), ce_stage = None, ce_inode = 7\<rparr>"

definition empty_dir :: cas_dir where
  "empty_dir = \<lparr>cd_entries = (\<lambda>_. None), cd_temporaries = 0\<rparr>"

lemma toy_path: "cas_path [''cas''] (toy_digest ''abc'') = Inr [''cas'', ''aa'', ''aa'', toy_digest ''abc'']"
  by code_simp

theorem cas_round_trip_witness:
  "\<exists>uri d'. cas_put toy_digest quiet_disk [''cas''] ''abc'' empty_dir = (Inr (uri, toy_digest ''abc'', 3), d') \<and>
    cas_get toy_digest [''cas''] (quiet_calls d') uri (Some 3) = Inr ''abc''"
  using cas_round_trip [of quiet_disk "[''cas'']" toy_digest "''abc''" _ empty_dir "Some 3", OF _ toy_path]
  by (auto simp: quiet_env_def quiet_disk_def may_publish_def empty_dir_def)

definition sample_dir :: cas_dir where
  "sample_dir = \<lparr>cd_entries = [[''cas'', ''aa'', ''aa'', toy_digest ''abc''] \<mapsto> RegularFile 7 ''abc''], cd_temporaries = 0\<rparr>"

theorem cas_read_integrity_witness:
  "cas_get toy_digest [''cas''] (quiet_calls sample_dir) (''cas://sha256/'' @ toy_digest ''abc'') None = Inr ''abc'' \<and>
     length (toy_digest ''abc'') = 64"
proof -
  have "cas_digest [''cas''] (''cas://sha256/'' @ toy_digest ''abc'') = Inr (toy_digest ''abc'')" by code_simp
  moreover have "read_verified toy_digest (quiet_calls sample_dir [''cas'', ''aa'', ''aa'', toy_digest ''abc'']) (toy_digest ''abc'') None = Inr ''abc''"
    by (rule quiet_read) (simp_all add: sample_dir_def)
  ultimately have "cas_get toy_digest [''cas''] (quiet_calls sample_dir) (''cas://sha256/'' @ toy_digest ''abc'') None = Inr ''abc''"
    by (simp add: cas_get_def toy_path)
  with cas_read_integrity [OF this] show ?thesis by simp
qed

theorem cas_put_publishes_witness:
  "\<exists>d' target inode. cas_put toy_digest quiet_disk [''cas''] ''abc'' empty_dir =
      (Inr (''cas://sha256/'' @ toy_digest ''abc'', toy_digest ''abc'', 3), d') \<and> cd_entries d' target = Some (RegularFile inode ''abc'')"
proof -
  obtain d' where "cas_put toy_digest quiet_disk [''cas''] ''abc'' empty_dir =
      (Inr (''cas://sha256/'' @ toy_digest ''abc'', toy_digest ''abc'', 3), d')"
    using quiet_publish [of quiet_disk "[''cas'']" toy_digest "''abc''" _ empty_dir, OF _ toy_path]
    by (auto simp: quiet_env_def quiet_disk_def may_publish_def empty_dir_def)
  from cas_put_publishes [OF this] this show ?thesis by blast
qed

end
