(* ===== verification/Quality.thy ===== *)
theory Quality
  imports Models
begin

section \<open>Quality assessment: quality.py\<close>

text \<open>
  Text is a list of code points. What Unicode says about a code point (white space, word characters,
  digits, case folding) is the parameter \<open>unicode\<close>. The expressions with \<^verbatim>\<open>\b\<close> are searched as lists of
  phrases; an optional character in one of them gives one phrase for each choice.
\<close>

record unicode =
  uc_space :: "nat \<Rightarrow> bool"
  uc_word :: "nat \<Rightarrow> bool"
  uc_digit :: "nat \<Rightarrow> bool"
  uc_casefold :: "nat list \<Rightarrow> nat list"

type_synonym code_points = "nat list"

definition codes :: "string \<Rightarrow> code_points" where
  "codes s = map ord_char s"

subsection \<open>Markers\<close>

definition LOGIN_PHRASES :: "string list" where
  "LOGIN_PHRASES = [''signin'', ''sign in'', ''sign-in'', ''login'', ''log in'', ''log-in'', ''enter your password'',
     ''authentication required'']"

definition CAPTCHA_PHRASES :: "string list" where
  "CAPTCHA_PHRASES = [''captcha'', ''verify you are human'', ''human verification'']"

definition BOT_PHRASES :: "string list" where
  "BOT_PHRASES = [''access denied'', ''bot detection'', ''unusual traffic'', ''checking your browser'']"

definition PAYWALL_PHRASES :: "string list" where
  "PAYWALL_PHRASES = [''subscribe to continue'', ''subscription required'', ''unlock this article'']"

definition ERROR_PHRASES :: "string list" where
  "ERROR_PHRASES = [''404 not found'', ''500 internal server error'', ''service unavailable'']"

definition LANGUAGE_MARKERS :: "(string \<times> string list) list" where
  "LANGUAGE_MARKERS =
     [(''de'', [''der'', ''die'', ''das'', ''ein'', ''eine'', ''ist'', ''mit'', ''und'']),
      (''en'', [''a'', ''and'', ''for'', ''is'', ''of'', ''that'', ''the'', ''to'']),
      (''es'', [''de'', ''el'', ''en'', ''es'', ''la'', ''los'', ''que'', ''y'']),
      (''fr'', [''dans'', ''de'', ''des'', ''est'', ''et'', ''la'', ''le'', ''les'']),
      (''it'', [''che'', ''con'', ''di'', ''e'', ''il'', ''la'', ''per'', ''un'']),
      (''pt'', [''a'', ''com'', ''de'', ''e'', ''o'', ''os'', ''para'', ''que''])]"

text \<open>
  \<^verbatim>\<open>re.I\<close> on a literal in ASCII: both cases, and the code points that fold to i, s and k.
\<close>

definition matches_literal :: "char \<Rightarrow> nat \<Rightarrow> bool" where
  "matches_literal a c \<longleftrightarrow> c = ord_char a \<or> (is_lower a \<and> c = ord_char a - 32) \<or>
     (a = CHR ''i'' \<and> c \<in> {0x130, 0x131}) \<or> (a = CHR ''s'' \<and> c = 0x17F) \<or> (a = CHR ''k'' \<and> c = 0x212A)"

definition matches_at :: "string \<Rightarrow> code_points \<Rightarrow> nat \<Rightarrow> bool" where
  "matches_at phrase t i \<longleftrightarrow> i + length phrase \<le> length t \<and>
     list_all (\<lambda>(a, c). matches_literal a c) (zip phrase (drop i t))"

definition word_boundary :: "unicode \<Rightarrow> code_points \<Rightarrow> nat \<Rightarrow> bool" where
  "word_boundary uc t i \<longleftrightarrow> (0 < i \<and> i \<le> length t \<and> uc_word uc (t ! (i - 1))) \<noteq> (i < length t \<and> uc_word uc (t ! i))"

definition search_phrases :: "unicode \<Rightarrow> string list \<Rightarrow> code_points \<Rightarrow> bool" where
  "search_phrases uc phrases t \<longleftrightarrow> list_ex (\<lambda>i. word_boundary uc t i \<and>
     list_ex (\<lambda>p. matches_at p t i \<and> word_boundary uc t (i + length p)) phrases) [0..<length t]"

subsection \<open>Language detection\<close>

definition count_range :: "nat \<Rightarrow> nat \<Rightarrow> code_points \<Rightarrow> nat" where
  "count_range lo hi t = length (filter (\<lambda>c. lo \<le> c \<and> c \<le> hi) t)"

text \<open>\<^verbatim>\<open>max(d, key=d.__getitem__)\<close>: the first key with the largest value.\<close>

fun first_max :: "string \<times> nat \<Rightarrow> (string \<times> nat) list \<Rightarrow> string \<times> nat" where
  "first_max best [] = best"
| "first_max best (x # xs) = first_max (if snd best < snd x then x else best) xs"

fun letter_runs :: "unicode \<Rightarrow> code_points \<Rightarrow> code_points \<Rightarrow> code_points list" where
  "letter_runs uc acc [] = (if acc = [] then [] else [rev acc])"
| "letter_runs uc acc (c # cs) =
     (if uc_word uc c \<and> \<not> uc_digit uc c \<and> c \<noteq> 95 then letter_runs uc (c # acc) cs
      else if acc = [] then letter_runs uc [] cs else rev acc # letter_runs uc [] cs)"

definition language_score :: "code_points list \<Rightarrow> string list \<Rightarrow> nat" where
  "language_score ws markers = length (filter (\<lambda>w. w \<in> codes ` set markers) ws)"

definition detect_language :: "unicode \<Rightarrow> code_points \<Rightarrow> string option" where
  "detect_language uc t =
     (if list_all (uc_space uc) t then None
      else let counts = [(''ko'', count_range 0xAC00 0xD7AF t), (''ru'', count_range 0x0400 0x04FF t)];
               script = first_max (''ar'', count_range 0x0600 0x06FF t) counts
      in if 8 \<le> snd script then Some (fst script)
         else if 4 \<le> count_range 0x3040 0x30FF t then Some ''ja''
         else if 8 \<le> count_range 0x4E00 0x9FFF t then Some ''zh''
         else let ws = map (uc_casefold uc) (letter_runs uc [] t);
                  scores = map (\<lambda>(language, markers). (language, language_score ws markers)) LANGUAGE_MARKERS;
                  best = first_max (hd scores) (tl scores)
              in if 2 \<le> snd best then Some (fst best) else None)"

subsection \<open>Assessment\<close>

definition normalized_text :: "unicode \<Rightarrow> code_points \<Rightarrow> code_points" where
  "normalized_text uc t = (case py_words (uc_space uc) [] t of [] \<Rightarrow> [] | w # ws \<Rightarrow> w @ concat (map (\<lambda>v. 32 # v) ws))"

definition marker_state :: "unicode \<Rightarrow> code_points \<Rightarrow> page_state \<times> string list" where
  "marker_state uc t =
     (if t = [] then (PS_EMPTY, [''no usable text''])
      else if search_phrases uc CAPTCHA_PHRASES t then (PS_CAPTCHA, [''CAPTCHA marker detected''])
      else if search_phrases uc BOT_PHRASES t then (PS_BOT_BLOCK, [''bot-block marker detected''])
      else if search_phrases uc PAYWALL_PHRASES t then (PS_PAYWALL, [''paywall marker detected''])
      else if search_phrases uc LOGIN_PHRASES t \<and> length t < 5000 then (PS_LOGIN, [''login page marker detected''])
      else if search_phrases uc ERROR_PHRASES t \<and> length t < 5000 then (PS_ERROR, [''error page marker detected''])
      else (PS_OK, []))"

definition truthy_language :: "string option \<Rightarrow> string option" where
  "truthy_language v = (case v of Some [] \<Rightarrow> None | _ \<Rightarrow> v)"

definition primary_subtag :: "string \<Rightarrow> string" where
  "primary_subtag l = hd (py_split (CHR ''-'') (py_lower l))"

text \<open>\<^verbatim>\<open>round(score, 4)\<close>: the scores are multiples of a thousandth, so the rounding is exact.\<close>

definition round4 :: "rat \<Rightarrow> rat" where
  "round4 x = of_int (round (x * 10000)) / 10000"

definition length_score :: "code_points \<Rightarrow> rat" where
  "length_score t = min 1 (of_nat (length t) / 1000)"

fun language_state :: "string option \<Rightarrow> string option \<Rightarrow> page_state \<times> string list \<Rightarrow> page_state \<times> string list" where
  "language_state (Some expected) (Some found) (PS_OK, reasons) =
     (if found \<noteq> primary_subtag expected
      then (PS_WRONG_LANGUAGE, reasons @ [''detected language '' @ found @ '' does not match requested '' @ expected])
      else (PS_OK, reasons))"
| "language_state _ _ state = state"

definition assess_text :: "unicode \<Rightarrow> string option \<Rightarrow> code_points \<Rightarrow> quality_assessment" where
  "assess_text uc expected_language0 t =
     (let normalized = normalized_text uc t;
          expected_language = truthy_language expected_language0;
          (state0, reasons0) = marker_state uc normalized;
          detected = detect_language uc normalized;
          (state, reasons1) = language_state expected_language detected (state0, reasons0);
          l = length_score normalized;
          accepted = (state = PS_OK \<and> 5 / 100 \<le> l);
          reasons2 = reasons1 @ (if state = PS_OK \<and> \<not> accepted
            then [''content is below the minimum useful-text threshold''] else []);
          reasons3 = reasons2 @ (if expected_language \<noteq> None \<and> detected = None
            then [''text was too ambiguous for deterministic language detection''] else []);
          score = (if state = PS_OK then l else min (1 / 5) l)
      in \<lparr>qa_page_state = state, qa_score = round4 score, qa_accepted = accepted, qa_language = detected,
          qa_completeness = l, qa_duplicate_of = None, qa_reasons = reasons3\<rparr>)"

definition assess_binary :: "int \<Rightarrow> string \<Rightarrow> quality_assessment" where
  "assess_binary byte_size media_type =
     (let accepted = 0 < byte_size in
      \<lparr>qa_page_state = (if accepted then PS_OK else PS_EMPTY), qa_score = (if accepted then 1 else 0),
       qa_accepted = accepted, qa_language = None, qa_completeness = (if accepted then 1 else 0),
       qa_duplicate_of = None, qa_reasons = (if accepted then [] else [''empty '' @ media_type @ '' body''])\<rparr>)"

subsection \<open>What an assessment says\<close>

lemma length_score_bounds: "0 \<le> length_score t" "length_score t \<le> 1"
  by (simp_all add: length_score_def)

lemma length_score_threshold: "5 / 100 \<le> length_score t \<longleftrightarrow> 50 \<le> length t"
proof -
  have "(5 / 100 :: rat) \<le> of_nat n / 1000 \<longleftrightarrow> 50 \<le> n" for n
    by (simp add: field_simps)
  then show ?thesis by (simp add: length_score_def min_def)
qed

lemma round4_multiple: "round4 (of_nat n / 1000) = of_nat n / 1000"
proof -
  have "(of_nat n / 1000 * 10000 :: rat) = of_int (10 * int n)" by simp
  then show ?thesis unfolding round4_def by (simp only: round_of_int)
qed

lemma round4_length_score: "round4 (length_score t) = length_score t"
  using round4_multiple [of "length t"] round4_multiple [of 1000] by (simp add: length_score_def min_def)

lemma round4_capped: "round4 (min (1 / 5) (length_score t)) = min (1 / 5) (length_score t)"
  using round4_length_score [of t] round4_multiple [of 200] by (simp add: min_def)

lemma marker_state_reasons: "marker_state uc t = (s, rs) \<Longrightarrow> s \<noteq> PS_OK \<longleftrightarrow> rs \<noteq> []"
  by (auto simp: marker_state_def split: if_splits)

lemma language_state_reasons:
  "language_state e d (s0, rs0) = (s, rs) \<Longrightarrow> (s0 \<noteq> PS_OK \<longleftrightarrow> rs0 \<noteq> []) \<Longrightarrow> s \<noteq> PS_OK \<longleftrightarrow> rs \<noteq> []"
  by (cases "(e, d, (s0, rs0))" rule: language_state.cases) (auto split: if_splits)

text \<open>
  C36: an assessment keeps its contract. Score and completeness lie between 0 and 1; text is accepted
  exactly when no marker, emptiness or wrong language was found and it has at least 50 characters
  after normalisation of white space; what is not accepted says why; and the score of a page that
  is not a content page is at most one fifth.
\<close>

theorem assess_text_contract:
  "valid_quality (assess_text uc expected t) \<and>
   (qa_accepted (assess_text uc expected t) \<longleftrightarrow>
      qa_page_state (assess_text uc expected t) = PS_OK \<and> 50 \<le> length (normalized_text uc t)) \<and>
   (0 < length (qa_reasons (assess_text uc expected t)) \<or> qa_accepted (assess_text uc expected t)) \<and>
   (qa_page_state (assess_text uc expected t) = PS_OK \<or> qa_score (assess_text uc expected t) \<le> 1 / 5)"
proof -
  define n where "n = normalized_text uc t"
  obtain s0 rs0 where m: "marker_state uc n = (s0, rs0)" by (cases "marker_state uc n")
  obtain s rs where l: "language_state (truthy_language expected) (detect_language uc n) (s0, rs0) = (s, rs)"
    by (rule prod.exhaust)
  have rs: "s \<noteq> PS_OK \<Longrightarrow> rs \<noteq> []"
    using language_state_reasons [OF l] marker_state_reasons [OF m] by simp
  have a: "qa_page_state (assess_text uc expected t) = s" "qa_completeness (assess_text uc expected t) = length_score n"
    "qa_accepted (assess_text uc expected t) \<longleftrightarrow> s = PS_OK \<and> 50 \<le> length n"
    "qa_score (assess_text uc expected t) = (if s = PS_OK then length_score n else min (1 / 5) (length_score n))"
    "qa_reasons (assess_text uc expected t) = [] \<Longrightarrow> rs = [] \<and> (s = PS_OK \<longrightarrow> 50 \<le> length n)"
    unfolding assess_text_def Let_def n_def [symmetric] m prod.case l length_score_threshold
    by (auto simp: round4_length_score round4_capped split: if_splits)
  show ?thesis
    using a(1-4) a(5) rs length_score_bounds [of n] unfolding valid_quality_def n_def [symmetric] by auto
qed

end
