(* ===== verification/Snapshots.thy ===== *)
theory Snapshots
  imports Executor_Correct Storage Quality "HOL-Library.Product_Lexorder"
begin

section \<open>The snapshot store: adapters/cache.py\<close>

text \<open>
  The metadata index of the validated cache: immutable records in one directory for each cache key,
  each with the artifact it describes in the content-addressed store. A lookup trusts nothing it
  finds in the directory: it checks every record against the key and the artifact against its digest.

  JSON, ISO dates, the serialisation of the contract models and the hash function are parameters
  (\<open>snapshot_codec\<close>). A date is the instant with a flag that says whether it has a time zone.
\<close>

subsection \<open>Errors\<close>

definition integrity_error :: "string \<Rightarrow> py_exc" where
  "integrity_error message = simple_exc ExcExecution ''SnapshotIntegrityError'' message"

fun cas_exc :: "cas_error \<Rightarrow> py_exc" where
  "cas_exc (CASIntegrity m) = simple_exc ExcValue ''CASIntegrityError'' m"
| "cas_exc (CASReadLimit m) = simple_exc ExcValue ''CASReadLimitError'' m"
| "cas_exc CASNotFound = simple_exc ExcOther ''FileNotFoundError'' []"
| "cas_exc (CASOSError m) = simple_exc ExcOther ''OSError'' m"
| "cas_exc (CASValue m) = simple_exc ExcValue ''ValueError'' m"

subsection \<open>Tables and bounds\<close>

definition SNAPSHOT_CAPABILITIES :: "string list" where
  "SNAPSHOT_CAPABILITIES = [''search_snippet_cache'', ''search_cache'', ''search_engine_cache_adapter'',
     ''alternate_search_cache_adapter'', ''web_archive'', ''internet_archive_snapshot'', ''local_snapshot'',
     ''previous_successful_snapshot'', ''cdn_copy'', ''browser_cache'', ''rag_document_cache'']"

definition STORAGE_CAPABILITIES :: "string list" where
  "STORAGE_CAPABILITIES = [''search_snippet_cache'', ''search_cache'', ''local_snapshot'',
     ''previous_successful_snapshot'', ''browser_cache'', ''rag_document_cache'']"

definition CONNECTOR_CAPABILITIES :: "string list" where
  "CONNECTOR_CAPABILITIES = filter (\<lambda>c. c \<notin> set STORAGE_CAPABILITIES) SNAPSHOT_CAPABILITIES"

definition REPRESENTATIONS :: "(string \<times> string) list" where
  "REPRESENTATIONS = [(''search_snippet_cache'', ''search_results''), (''search_cache'', ''search_results''),
     (''search_engine_cache_adapter'', ''search_results''), (''alternate_search_cache_adapter'', ''search_results''),
     (''web_archive'', ''archived_snapshot''), (''internet_archive_snapshot'', ''internet_archive_snapshot''),
     (''cdn_copy'', ''cdn_snapshot''), (''browser_cache'', ''rendered_html''), (''rag_document_cache'', ''clean_text'')]"

definition DEFAULT_TTL_SECONDS :: int where "DEFAULT_TTL_SECONDS = 3600"
definition MAX_TTL_SECONDS :: int where "MAX_TTL_SECONDS = 365 * 24 * 60 * 60"
definition MAX_METADATA_BYTES :: nat where "MAX_METADATA_BYTES = 1000000"
definition MAX_RECORDS_PER_KEY :: nat where "MAX_RECORDS_PER_KEY = 10000"

subsection \<open>Checks\<close>

record moment =
  mo_aware :: bool
  mo_utc :: time

definition utc :: "time \<Rightarrow> moment" where "utc t = \<lparr>mo_aware = True, mo_utc = t\<rparr>"

definition require_aware :: "moment \<Rightarrow> string \<Rightarrow> unit res" where
  "require_aware m label = raise_if (\<not> mo_aware m) (ValueError (label @ '' must include a timezone''))"

definition require_digest :: "string \<Rightarrow> string \<Rightarrow> py_exc + unit" where
  "require_digest digest label =
     raise_if (py_len digest \<noteq> 64 \<or> \<not> list_all lower_hex digest) (integrity_error (label @ '' digest is invalid''))"

definition validate_validator :: "string option \<Rightarrow> string \<Rightarrow> unit res" where
  "validate_validator v label =
     (case v of None \<Rightarrow> Inr ()
      | Some s \<Rightarrow> raise_if (py_strip s = [] \<or> 8192 < length s \<or> CHR 0x0D \<in> set s \<or> CHR 0x0A \<in> set s)
          (ValueError (label @ '' cache validator is invalid'')))"

definition bounded_seconds :: "int \<Rightarrow> string \<Rightarrow> int res" where
  "bounded_seconds s label =
     (if 0 \<le> s \<and> s \<le> MAX_TTL_SECONDS then Inr s else Inl (ValueError (label @ '' is outside the allowed bound'')))"

definition verify_artifact ::
  "(string \<Rightarrow> string) \<Rightarrow> (string \<Rightarrow> int option \<Rightarrow> string cas) \<Rightarrow> artifact \<Rightarrow> py_exc + unit" where
  "verify_artifact sha256 cas_read a =
     (if ar_cas_uri a \<noteq> CAS_PREFIX @ ar_sha256 a
      then Inl (integrity_error ''artifact CAS URI and SHA-256 disagree'')
      else case cas_read (ar_cas_uri a) (Some (int (ar_size a))) of
        Inl e \<Rightarrow>
          Inl (caused_by (integrity_error (case e of
              CASIntegrity _ \<Rightarrow> ''snapshot artifact size or SHA-256 verification failed''
            | CASReadLimit _ \<Rightarrow> ''snapshot artifact size or SHA-256 verification failed''
            | _ \<Rightarrow> ''snapshot artifact is unavailable or exceeds its bound'')) (cas_exc e))
      | Inr body \<Rightarrow>
          if length body \<noteq> ar_size a then Inl (integrity_error ''snapshot artifact size does not match metadata'')
          else if sha256 body \<noteq> ar_sha256 a then Inl (integrity_error ''snapshot artifact SHA-256 verification failed'')
          else Inr ())"

subsection \<open>Records\<close>

record snapshot_record =
  sn_snapshot_id :: string
  sn_key_digest :: string
  sn_authentication_scope :: string
  sn_source_capability :: string
  sn_resource :: resource
  sn_artifact :: artifact
  sn_stored_at :: time
  sn_expires_at :: "time option"
  sn_etag :: "string option"
  sn_last_modified :: "string option"
  sn_successful :: bool

definition fresh_at :: "snapshot_record \<Rightarrow> time \<Rightarrow> bool" where
  "fresh_at r now = (case sn_expires_at r of None \<Rightarrow> True | Some t \<Rightarrow> now < t)"

datatype cache_disposition = MISS | FRESH | STALE_WHILE_REVALIDATE | REVALIDATE

record cache_lookup =
  lu_disposition :: cache_disposition
  lu_record :: "snapshot_record option"
  lu_usable :: bool
  lu_requires_revalidation :: bool

record snapshot_codec =
  cv_sha256 :: "string \<Rightarrow> string"
  cv_dumps_key :: "document \<Rightarrow> string"
  cv_dumps :: "document \<Rightarrow> string"
  cv_loads :: "string \<Rightarrow> pyval option"
  cv_str :: "pyval \<Rightarrow> string"
  cv_isoformat :: "time \<Rightarrow> string"
  cv_fromisoformat :: "string \<Rightarrow> moment option"
  cv_dump_resource :: "resource \<Rightarrow> pyval"
  cv_load_resource :: "pyval \<Rightarrow> resource option"
  cv_dump_artifact :: "artifact \<Rightarrow> pyval"
  cv_load_artifact :: "pyval \<Rightarrow> artifact option"

definition opt_value :: "string option \<Rightarrow> pyval" where
  "opt_value v = (case v of None \<Rightarrow> VNone | Some s \<Rightarrow> VStr s)"

definition record_document :: "snapshot_codec \<Rightarrow> snapshot_record \<Rightarrow> document" where
  "record_document cv r = [(''schema_version'', VStr ''1.0''), (''snapshot_id'', VStr (sn_snapshot_id r)),
     (''key_digest'', VStr (sn_key_digest r)), (''authentication_scope'', VStr (sn_authentication_scope r)),
     (''source_capability'', VStr (sn_source_capability r)), (''resource'', cv_dump_resource cv (sn_resource r)),
     (''artifact'', cv_dump_artifact cv (sn_artifact r)), (''stored_at'', VStr (cv_isoformat cv (sn_stored_at r))),
     (''expires_at'', opt_value (map_option (cv_isoformat cv) (sn_expires_at r))),
     (''etag'', opt_value (sn_etag r)), (''last_modified'', opt_value (sn_last_modified r)),
     (''successful'', VBool (sn_successful r))]"

definition iso_date :: "snapshot_codec \<Rightarrow> pyval \<Rightarrow> string \<Rightarrow> time res" where
  "iso_date cv v label =
     (case cv_fromisoformat cv (py_str (cv_str cv) v) of
        None \<Rightarrow> Inl (ValueError ''Invalid isoformat string'')
      | Some m \<Rightarrow> bind_res (require_aware m label) (\<lambda>_. Inr (mo_utc m)))"

definition validated :: "'a option \<Rightarrow> 'a res" where
  "validated v = (case v of None \<Rightarrow> Inl (ValueError ''validation error'') | Some x \<Rightarrow> Inr x)"

definition optional_text :: "snapshot_codec \<Rightarrow> document \<Rightarrow> string \<Rightarrow> string option" where
  "optional_text cv d k =
     (case map_of d k of None \<Rightarrow> None | Some VNone \<Rightarrow> None | Some v \<Rightarrow> Some (py_str (cv_str cv) v))"

text \<open>The part of \<^verbatim>\<open>_parse_record\<close> whose errors become one integrity error.\<close>

definition decode_record :: "snapshot_codec \<Rightarrow> string \<Rightarrow> snapshot_record res" where
  "decode_record cv encoded =
     (case cv_loads cv encoded of
        Some (VDict d) \<Rightarrow>
          bind_res (raise_if (map_of d ''schema_version'' \<noteq> Some (VStr ''1.0'')) (ValueError ''unsupported snapshot metadata'')) (\<lambda>_.
          case map_of d ''successful'' of
            Some (VBool successful) \<Rightarrow>
              bind_res (py_item d ''stored_at'') (\<lambda>stored.
              bind_res (iso_date cv stored ''snapshot storage time'') (\<lambda>stored_at.
              bind_res (case map_of d ''expires_at'' of
                  None \<Rightarrow> Inr None | Some VNone \<Rightarrow> Inr None
                | Some v \<Rightarrow> bind_res (iso_date cv v ''snapshot expiry'') (\<lambda>t. Inr (Some t))) (\<lambda>expires_at.
              bind_res (py_item d ''snapshot_id'') (\<lambda>snapshot_id.
              bind_res (py_item d ''key_digest'') (\<lambda>key_digest.
              bind_res (py_item d ''authentication_scope'') (\<lambda>scope.
              bind_res (py_item d ''source_capability'') (\<lambda>capability.
              bind_res (bind_res (py_item d ''resource'') (\<lambda>v. validated (cv_load_resource cv v))) (\<lambda>resource.
              bind_res (bind_res (py_item d ''artifact'') (\<lambda>v. validated (cv_load_artifact cv v))) (\<lambda>artifact.
                Inr \<lparr>sn_snapshot_id = py_str (cv_str cv) snapshot_id, sn_key_digest = py_str (cv_str cv) key_digest,
                     sn_authentication_scope = py_str (cv_str cv) scope,
                     sn_source_capability = py_str (cv_str cv) capability,
                     sn_resource = resource, sn_artifact = artifact, sn_stored_at = stored_at, sn_expires_at = expires_at,
                     sn_etag = optional_text cv d ''etag'', sn_last_modified = optional_text cv d ''last_modified'',
                     sn_successful = successful\<rparr>)))))))))
          | _ \<Rightarrow> Inl (ValueError ''snapshot success marker must be boolean''))
      | _ \<Rightarrow> Inl (ValueError ''unsupported snapshot metadata''))"

definition parse_record :: "snapshot_codec \<Rightarrow> string \<Rightarrow> py_exc + snapshot_record" where
  "parse_record cv encoded =
     (case decode_record cv encoded of
        Inl e \<Rightarrow> Inl (caused_by (integrity_error ''snapshot metadata is malformed'') (value_exc e))
      | Inr r \<Rightarrow>
          bind_res (require_digest (sn_snapshot_id r) ''snapshot'') (\<lambda>_.
          bind_res (require_digest (sn_key_digest r) ''cache key'') (\<lambda>_.
          bind_res (raise_if (sn_source_capability r \<notin> set SNAPSHOT_CAPABILITIES)
            (integrity_error ''snapshot metadata names an unknown capability'')) (\<lambda>_.
          bind_res (lift_exc (validate_validator (sn_etag r) ''ETag'')) (\<lambda>_.
          bind_res (lift_exc (validate_validator (sn_last_modified r) ''Last-Modified'')) (\<lambda>_.
            Inr r))))))"

subsection \<open>The directory\<close>

text \<open>
  A partition is a directory, a symbolic link to one, or something else; an entry is a regular file
  with its bytes, or something else. Only the partition of a key is ever used with that key.
\<close>

datatype metadata_entry = MetadataFile string | MetadataOther

datatype partition = Partition "(string \<times> metadata_entry) list" | LinkedPartition "(string \<times> metadata_entry) list" | NoDirectory

type_synonym snapshot_store = "string \<Rightarrow> partition option"

text \<open>\<^verbatim>\<open>mkdir(parents=True, exist_ok=True)\<close> in \<^verbatim>\<open>_record_path\<close>.\<close>

definition record_path :: "string \<Rightarrow> string \<Rightarrow> snapshot_store \<Rightarrow> (py_exc + string) \<times> snapshot_store" where
  "record_path key_digest snapshot_id st =
     (case bind_res (require_digest key_digest ''cache key'') (\<lambda>_. require_digest snapshot_id ''snapshot'') of
        Inl e \<Rightarrow> (Inl e, st)
      | Inr _ \<Rightarrow>
          (case st key_digest of
             None \<Rightarrow> (Inr (snapshot_id @ ''.json''), st(key_digest \<mapsto> Partition []))
           | Some NoDirectory \<Rightarrow> (Inl (simple_exc ExcOther ''FileExistsError'' []), st)
           | Some _ \<Rightarrow> (Inr (snapshot_id @ ''.json''), st)))"

definition read_bounded :: "string \<Rightarrow> nat \<Rightarrow> py_exc + string" where
  "read_bounded content maximum_bytes =
     (let body = take (maximum_bytes + 1) content in
      if maximum_bytes < length body then Inl (integrity_error ''snapshot metadata exceeds the read bound'') else Inr body)"

definition read_existing_immutable :: "metadata_entry \<Rightarrow> py_exc + string" where
  "read_existing_immutable entry =
     (case entry of
        MetadataOther \<Rightarrow> Inl (integrity_error ''immutable snapshot metadata path is unsafe'')
      | MetadataFile content \<Rightarrow> read_bounded content MAX_METADATA_BYTES)"

text \<open>
  \<^verbatim>\<open>_write_immutable\<close>: a staged file is linked to its name. \<open>disk\<close> gives the errors of staging and of
  the two synchronisations of the directory.
\<close>

definition write_immutable ::
  "(nat \<Rightarrow> py_exc option) \<Rightarrow> string \<Rightarrow> string \<Rightarrow> (string \<times> metadata_entry) list \<Rightarrow> (py_exc + unit) \<times> (string \<times> metadata_entry) list" where
  "write_immutable disk name encoded entries =
     (case disk 0 of
        Some e \<Rightarrow> (Inl e, entries)
      | None \<Rightarrow>
          (case map_of entries name of
             Some entry \<Rightarrow>
               (bind_res (read_existing_immutable entry) (\<lambda>existing.
                  raise_if (existing \<noteq> encoded) (integrity_error ''immutable snapshot metadata collision'')), entries)
           | None \<Rightarrow>
               let entries' = entries @ [(name, MetadataFile encoded)] in
               (case disk 1 of
                  Some e \<Rightarrow> (Inl e, entries')
                | None \<Rightarrow> (case disk 2 of Some e \<Rightarrow> (Inl e, entries') | None \<Rightarrow> (Inr (), entries')))))"

definition in_partition ::
  "string \<Rightarrow> ((string \<times> metadata_entry) list \<Rightarrow> 'a \<times> (string \<times> metadata_entry) list) \<Rightarrow> snapshot_store \<Rightarrow> 'a \<times> snapshot_store" where
  "in_partition key_digest f st =
     (case st key_digest of
        Some (LinkedPartition entries) \<Rightarrow>
          (case f entries of (x, entries') \<Rightarrow> (x, st(key_digest \<mapsto> LinkedPartition entries')))
      | Some (Partition entries) \<Rightarrow> (case f entries of (x, entries') \<Rightarrow> (x, st(key_digest \<mapsto> Partition entries')))
      | _ \<Rightarrow> (case f [] of (x, entries') \<Rightarrow> (x, st(key_digest \<mapsto> Partition entries'))))"

subsection \<open>Operations\<close>

definition sanitized_resource :: "fetch_request \<Rightarrow> resource \<Rightarrow> resource res" where
  "sanitized_resource request r =
     bind_res (sanitize_url_for_request (rs_canonical_url r) request) (\<lambda>canonical.
     bind_res (sanitize_url_for_request (rs_requested_url r) request) (\<lambda>requested.
     bind_res (case rs_authority_url r of
         None \<Rightarrow> Inr None
       | Some a \<Rightarrow> if a = [] then Inr None
                    else bind_res (sanitize_url_for_request a request) (\<lambda>u. Inr (Some u))) (\<lambda>authority.
       Inr (r\<lparr>rs_canonical_url := canonical, rs_requested_url := requested, rs_authority_url := authority\<rparr>))))"

definition key_digest :: "snapshot_codec \<Rightarrow> cache_key \<Rightarrow> string" where
  "key_digest cv key = cache_digest (cv_sha256 cv) (cv_dumps_key cv) key"

definition snapshot_id :: "snapshot_codec \<Rightarrow> cache_key \<Rightarrow> artifact \<Rightarrow> time \<Rightarrow> string \<Rightarrow> string" where
  "snapshot_id cv key a now capability =
     cv_sha256 cv (''fetech-snapshot-v1'' @ [CHR 0x00] @ key_digest cv key @ [CHR 0x00] @ ar_sha256 a @ [CHR 0x00] @
       cv_isoformat cv now @ [CHR 0x00] @ capability)"

text \<open>What \<^verbatim>\<open>store\<close> checks and computes before it writes.\<close>

definition snapshot_metadata ::
  "snapshot_codec \<Rightarrow> (string \<Rightarrow> int option \<Rightarrow> string cas) \<Rightarrow> cache_key \<Rightarrow> resource \<Rightarrow> artifact \<Rightarrow> fetch_request \<Rightarrow> string
     \<Rightarrow> moment \<Rightarrow> moment option \<Rightarrow> string option \<Rightarrow> string option \<Rightarrow> bool \<Rightarrow> py_exc + snapshot_record \<times> string" where
  "snapshot_metadata cv cas_read key resource artifact request source_capability stored_at expires_at etag last_modified successful =
     bind_res (lift_exc (require_aware stored_at ''snapshot storage time'')) (\<lambda>_.
     bind_res (lift_exc (case expires_at of None \<Rightarrow> Inr () | Some m \<Rightarrow> require_aware m ''snapshot expiry'')) (\<lambda>_.
     bind_res (lift_exc (validate_validator etag ''ETag'')) (\<lambda>_.
     bind_res (lift_exc (validate_validator last_modified ''Last-Modified'')) (\<lambda>_.
     bind_res (raise_if (source_capability \<notin> set SNAPSHOT_CAPABILITIES)
       (value_exc (ValueError ''snapshot source capability is not registered''))) (\<lambda>_.
     bind_res (verify_artifact (cv_sha256 cv) cas_read artifact) (\<lambda>_.
     bind_res (lift_exc (sanitized_resource request resource)) (\<lambda>resource'.
     let artifact' = sanitize_artifact request artifact in
     bind_res (raise_if (ar_source_resource_id artifact \<noteq> rs_resource_id resource)
       (integrity_error ''artifact does not belong to the supplied resource'')) (\<lambda>_.
     let record = \<lparr>sn_snapshot_id = snapshot_id cv key artifact (mo_utc stored_at) source_capability,
           sn_key_digest = key_digest cv key, sn_authentication_scope = ck_authentication_scope key,
           sn_source_capability = source_capability, sn_resource = resource', sn_artifact = artifact',
           sn_stored_at = mo_utc stored_at, sn_expires_at = map_option mo_utc expires_at, sn_etag = etag,
           sn_last_modified = last_modified, sn_successful = successful\<rparr>;
         encoded = cv_dumps cv (record_document cv record)
     in bind_res (raise_if (MAX_METADATA_BYTES < length encoded)
          (integrity_error ''snapshot metadata exceeds the storage bound'')) (\<lambda>_.
        Inr (record, encoded))))))))))"

definition store_snapshot ::
  "snapshot_codec \<Rightarrow> (nat \<Rightarrow> py_exc option) \<Rightarrow> (string \<Rightarrow> int option \<Rightarrow> string cas) \<Rightarrow> cache_key \<Rightarrow> resource \<Rightarrow> artifact
     \<Rightarrow> fetch_request \<Rightarrow> string \<Rightarrow> moment \<Rightarrow> moment option \<Rightarrow> string option \<Rightarrow> string option \<Rightarrow> bool \<Rightarrow> snapshot_store
     \<Rightarrow> (py_exc + snapshot_record) \<times> snapshot_store" where
  "store_snapshot cv disk cas_read key resource artifact request source_capability stored_at expires_at etag last_modified successful st =
     (case snapshot_metadata cv cas_read key resource artifact request source_capability stored_at expires_at etag last_modified successful of
        Inl e \<Rightarrow> (Inl e, st)
      | Inr (record, encoded) \<Rightarrow>
          (case record_path (sn_key_digest record) (sn_snapshot_id record) st of
             (Inl e, st') \<Rightarrow> (Inl e, st')
           | (Inr name, st') \<Rightarrow>
               (case in_partition (sn_key_digest record) (write_immutable disk name encoded) st' of
                  (Inl e, st'') \<Rightarrow> (Inl e, st'')
                | (Inr _, st'') \<Rightarrow> (Inr record, st''))))"

definition read_entry :: "snapshot_codec \<Rightarrow> cache_key \<Rightarrow> string \<times> metadata_entry \<Rightarrow> py_exc + snapshot_record" where
  "read_entry cv key x =
     (case snd x of
        MetadataOther \<Rightarrow> Inl (integrity_error ''snapshot metadata must be a regular file'')
      | MetadataFile content \<Rightarrow>
          bind_res (read_bounded content MAX_METADATA_BYTES) (\<lambda>encoded.
          bind_res (parse_record cv encoded) (\<lambda>record.
          bind_res (raise_if (sn_key_digest record \<noteq> key_digest cv key \<or>
              sn_authentication_scope record \<noteq> ck_authentication_scope key)
            (integrity_error ''snapshot metadata does not match the cache partition'')) (\<lambda>_.
            Inr record))))"

definition json_entries :: "(string \<times> metadata_entry) list \<Rightarrow> (string \<times> metadata_entry) list" where
  "json_entries entries = sort_key fst (filter (\<lambda>(name, _). py_endswith name ''.json'') entries)"

definition snapshot_records :: "snapshot_codec \<Rightarrow> cache_key \<Rightarrow> snapshot_store \<Rightarrow> py_exc + snapshot_record list" where
  "snapshot_records cv key st =
     bind_res (require_digest (key_digest cv key) ''cache key'') (\<lambda>_.
     case st (key_digest cv key) of
       None \<Rightarrow> Inr []
     | Some (Partition entries) \<Rightarrow>
         let paths = json_entries entries in
         bind_res (raise_if (MAX_RECORDS_PER_KEY < length paths)
           (integrity_error ''snapshot record count exceeds the lookup bound'')) (\<lambda>_.
         map_res (read_entry cv key) paths)
     | Some _ \<Rightarrow> Inl (integrity_error ''snapshot partition must be a regular directory''))"

text \<open>\<^verbatim>\<open>max(candidates, key=...)\<close>: the first record with the largest time and identifier.\<close>

fun newest :: "snapshot_record \<Rightarrow> snapshot_record list \<Rightarrow> snapshot_record" where
  "newest best [] = best"
| "newest best (r # rs) =
     newest (if (sn_stored_at best, sn_snapshot_id best) < (sn_stored_at r, sn_snapshot_id r) then r else best) rs"

definition latest_successful ::
  "snapshot_codec \<Rightarrow> (string \<Rightarrow> int option \<Rightarrow> string cas) \<Rightarrow> cache_key \<Rightarrow> snapshot_store \<Rightarrow> py_exc + snapshot_record option" where
  "latest_successful cv cas_read key st =
     bind_res (snapshot_records cv key st) (\<lambda>records.
     case filter sn_successful records of
       [] \<Rightarrow> Inr None
     | r # rs \<Rightarrow>
         let selected = newest r rs in
         bind_res (verify_artifact (cv_sha256 cv) cas_read (sn_artifact selected)) (\<lambda>_. Inr (Some selected)))"

definition disposition_at :: "time \<Rightarrow> int \<Rightarrow> snapshot_record option \<Rightarrow> cache_lookup" where
  "disposition_at now stale_seconds found =
     (case found of
        None \<Rightarrow> \<lparr>lu_disposition = MISS, lu_record = None, lu_usable = False, lu_requires_revalidation = False\<rparr>
      | Some record \<Rightarrow>
          if fresh_at record now
          then \<lparr>lu_disposition = FRESH, lu_record = Some record, lu_usable = True, lu_requires_revalidation = False\<rparr>
          else (case sn_expires_at record of
              Some expires_at \<Rightarrow>
                if stale_seconds \<noteq> 0 \<and> now \<le> expires_at + of_int stale_seconds
                then \<lparr>lu_disposition = STALE_WHILE_REVALIDATE, lu_record = Some record, lu_usable = True, lu_requires_revalidation = True\<rparr>
                else \<lparr>lu_disposition = REVALIDATE, lu_record = Some record, lu_usable = False, lu_requires_revalidation = True\<rparr>
            | None \<Rightarrow> \<lparr>lu_disposition = REVALIDATE, lu_record = Some record, lu_usable = False, lu_requires_revalidation = True\<rparr>))"

definition lookup_snapshot ::
  "snapshot_codec \<Rightarrow> (string \<Rightarrow> int option \<Rightarrow> string cas) \<Rightarrow> cache_key \<Rightarrow> moment \<Rightarrow> int \<Rightarrow> snapshot_store \<Rightarrow> py_exc + cache_lookup" where
  "lookup_snapshot cv cas_read key now stale_seconds st =
     bind_res (raise_if (\<not> (0 \<le> stale_seconds \<and> stale_seconds \<le> MAX_TTL_SECONDS))
       (value_exc (ValueError ''stale-while-revalidate seconds are outside the allowed bound''))) (\<lambda>_.
     bind_res (lift_exc (require_aware now ''cache lookup time'')) (\<lambda>_.
     bind_res (latest_successful cv cas_read key st) (\<lambda>found.
       Inr (disposition_at (mo_utc now) stale_seconds found))))"

definition or_else :: "'a option \<Rightarrow> 'a option \<Rightarrow> 'a option" where
  "or_else v d = (case v of None \<Rightarrow> d | Some _ \<Rightarrow> v)"

definition record_not_modified ::
  "snapshot_codec \<Rightarrow> (nat \<Rightarrow> py_exc option) \<Rightarrow> (string \<Rightarrow> int option \<Rightarrow> string cas) \<Rightarrow> cache_key \<Rightarrow> snapshot_record
     \<Rightarrow> fetch_request \<Rightarrow> int \<Rightarrow> moment \<Rightarrow> string option \<Rightarrow> string option \<Rightarrow> snapshot_store
     \<Rightarrow> (py_exc + snapshot_record) \<times> snapshot_store" where
  "record_not_modified cv disk cas_read key record request ttl_seconds checked_at etag last_modified st =
     (case bind_res (lift_exc (bounded_seconds ttl_seconds ''cache TTL'')) (\<lambda>ttl.
           bind_res (lift_exc (require_aware checked_at ''revalidation time'')) (\<lambda>_.
           bind_res (raise_if (sn_key_digest record \<noteq> key_digest cv key)
             (integrity_error ''revalidation record does not match the cache key'')) (\<lambda>_. Inr ttl))) of
        Inl e \<Rightarrow> (Inl e, st)
      | Inr ttl \<Rightarrow>
          store_snapshot cv disk cas_read key (sn_resource record) (sn_artifact record) request (sn_source_capability record)
            (utc (mo_utc checked_at)) (Some (utc (mo_utc checked_at + of_int ttl)))
            (or_else etag (sn_etag record)) (or_else last_modified (sn_last_modified record)) True st)"

definition truthy_header :: "string \<Rightarrow> string option \<Rightarrow> (string \<times> string) list" where
  "truthy_header name v = (case v of Some (c # cs) \<Rightarrow> [(name, c # cs)] | _ \<Rightarrow> [])"

definition conditional_headers :: "snapshot_record \<Rightarrow> (string \<times> string) list" where
  "conditional_headers r = truthy_header ''If-None-Match'' (sn_etag r) @ truthy_header ''If-Modified-Since'' (sn_last_modified r)"

subsection \<open>What a lookup returns\<close>

lemma map_res_Inr: "map_res f xs = Inr ys \<longleftrightarrow> list_all2 (\<lambda>x y. f x = Inr y) xs ys"
  by (induction xs arbitrary: ys) (auto simp: list_all2_Cons1)

lemma newest_in: "newest best rs \<in> insert best (set rs)"
  by (induction best rs rule: newest.induct) (auto split: if_splits)

text \<open>The law of the content-addressed store a lookup relies on.\<close>

locale verified_store =
  fixes sha256 :: "string \<Rightarrow> string" and cas_read :: "string \<Rightarrow> int option \<Rightarrow> string cas"
  assumes read_digest: "cas_read uri maximum_bytes = Inr body \<Longrightarrow> uri = CAS_PREFIX @ sha256 body"
    and read_hex: "cas_read uri maximum_bytes = Inr body \<Longrightarrow> list_all lower_hex (sha256 body)"
begin

lemma verified_body:
  "verify_artifact sha256 cas_read a = Inr () \<longleftrightarrow>
   (\<exists>body. cas_read (ar_cas_uri a) (Some (int (ar_size a))) = Inr body \<and> ar_cas_uri a = CAS_PREFIX @ ar_sha256 a \<and>
      sha256 body = ar_sha256 a \<and> length body = ar_size a)"
  using read_digest by (auto simp: verify_artifact_def split: sum.splits)

lemma latest_record:
  assumes "latest_successful cv cas_read key st = Inr (Some r)" "cv_sha256 cv = sha256"
  shows "\<exists>rs. snapshot_records cv key st = Inr rs \<and> r \<in> set rs \<and> sn_successful r \<and>
    verify_artifact sha256 cas_read (sn_artifact r) = Inr ()"
proof -
  obtain rs where rs: "snapshot_records cv key st = Inr rs"
    using assms(1) by (auto simp: latest_successful_def)
  obtain r0 rs0 where f: "filter sn_successful rs = r0 # rs0"
    using assms(1) rs by (cases "filter sn_successful rs") (simp_all add: latest_successful_def)
  have r: "r = newest r0 rs0" "verify_artifact sha256 cas_read (sn_artifact r) = Inr ()"
    using assms rs f by (auto simp: latest_successful_def Let_def)
  have "r \<in> set (filter sn_successful rs)" using newest_in [of r0 rs0] f r(1) by simp
  then show ?thesis using rs r by simp
qed

end

lemma cas_get_digest:
  assumes "cas_get sha256 store_root calls uri maximum_bytes = Inr body"
  shows "uri = CAS_PREFIX @ sha256 body" "list_all lower_hex (sha256 body)"
proof -
  from assms obtain digest path where d: "cas_digest store_root uri = Inr digest" "cas_path store_root digest = Inr path"
    and r: "read_verified sha256 (calls path) digest maximum_bytes = Inr body"
    by (auto simp: cas_get_def)
  from r obtain chunks where "sha256 (concat chunks) = digest" "body = concat chunks"
    by (auto simp: read_verified_def Let_def split: option.splits bool.splits)
  then have "sha256 body = digest" by simp
  then show "uri = CAS_PREFIX @ sha256 body" "list_all lower_hex (sha256 body)" using d
    by (auto simp: cas_digest_def cas_path_def Let_def py_startswith_iff py_removeprefix_def split: if_splits)
qed

interpretation fs_cas: verified_store sha256 "cas_get sha256 store_root calls" for sha256 store_root calls
  by unfold_locales (erule cas_get_digest)+

lemma snapshot_records_partition:
  assumes "snapshot_records cv key st = Inr rs" "r \<in> set rs"
  shows "sn_key_digest r = key_digest cv key \<and> sn_authentication_scope r = ck_authentication_scope key"
proof -
  from assms(1) have "rs = [] \<or> (\<exists>paths. map_res (read_entry cv key) paths = Inr rs)"
    by (auto simp: snapshot_records_def Let_def split: option.splits partition.splits)
  then obtain paths where "list_all2 (\<lambda>x y. read_entry cv key x = Inr y) paths rs"
    using assms(2) by (auto simp: map_res_Inr)
  moreover obtain i where "i < length rs" "r = rs ! i" using assms(2) by (auto simp: in_set_conv_nth)
  ultimately have "read_entry cv key (paths ! i) = Inr r" by (simp add: list_all2_conv_all_nth)
  then show ?thesis by (auto simp: read_entry_def split: metadata_entry.splits)
qed

lemma disposition_record:
  assumes "lu_record (disposition_at now stale found) = Some r"
  shows "found = Some r" "lu_usable (disposition_at now stale found) \<longleftrightarrow>
      fresh_at r now \<or> (stale \<noteq> 0 \<and> (\<exists>t. sn_expires_at r = Some t \<and> now \<le> t + of_int stale))"
    "lu_requires_revalidation (disposition_at now stale found) \<longleftrightarrow> \<not> fresh_at r now"
  using assms by (auto simp: disposition_at_def fresh_at_def split: option.splits if_splits)

text \<open>
  C17: cached content is never served across partitions or unverified. Whatever files other processes
  left in the snapshot directory and whatever the content store's file system answers, the record a
  lookup returns names the key and the authentication scope it was asked for, was stored as
  successful, and its artifact was read back with exactly the size and the digest of its metadata.
  It is usable exactly while it is fresh or, when the caller allows stale content, within that many
  seconds after its expiry.
\<close>

theorem snapshot_lookup_safe:
  assumes "lookup_snapshot cv (cas_get (cv_sha256 cv) store_root calls) key now stale_seconds st = Inr found"
    "lu_record found = Some r"
  shows "sn_key_digest r = key_digest cv key \<and> sn_authentication_scope r = ck_authentication_scope key \<and> sn_successful r \<and>
    (\<exists>body. cas_get (cv_sha256 cv) store_root calls (ar_cas_uri (sn_artifact r)) (Some (int (ar_size (sn_artifact r)))) = Inr body \<and>
       cv_sha256 cv body = ar_sha256 (sn_artifact r) \<and> length body = ar_size (sn_artifact r)) \<and>
    (lu_usable found \<longleftrightarrow> fresh_at r (mo_utc now) \<or>
       (stale_seconds \<noteq> 0 \<and> (\<exists>t. sn_expires_at r = Some t \<and> mo_utc now \<le> t + of_int stale_seconds)))"
proof -
  from assms(1) obtain latest where l: "latest_successful cv (cas_get (cv_sha256 cv) store_root calls) key st = Inr latest"
    "found = disposition_at (mo_utc now) stale_seconds latest"
    by (auto simp: lookup_snapshot_def)
  note d = disposition_record [OF assms(2) [unfolded l(2)], folded l(2)]
  obtain rs where "snapshot_records cv key st = Inr rs" "r \<in> set rs" "sn_successful r"
    "verify_artifact (cv_sha256 cv) (cas_get (cv_sha256 cv) store_root calls) (sn_artifact r) = Inr ()"
    using fs_cas.latest_record [OF l(1) [unfolded d(1)] refl] by blast
  then show ?thesis
    using snapshot_records_partition [of cv key st rs r] fs_cas.verified_body d(2) by blast
qed

subsection \<open>Records are immutable\<close>

definition partition_entries :: "snapshot_store \<Rightarrow> string \<Rightarrow> (string \<times> metadata_entry) list" where
  "partition_entries st digest =
     (case st digest of Some (Partition es) \<Rightarrow> es | Some (LinkedPartition es) \<Rightarrow> es | _ \<Rightarrow> [])"

lemma write_immutable_entries:
  "write_immutable disk name encoded es = (x, es') \<Longrightarrow>
   es' = es \<or> (map_of es name = None \<and> es' = es @ [(name, MetadataFile encoded)])"
  by (auto simp: write_immutable_def Let_def split: option.splits)

lemma store_snapshot_effect:
  assumes "store_snapshot cv disk cas_read key resource artifact request capability stored_at expires_at etag last_modified successful st = (x, st')"
  shows "(\<forall>digest. digest \<noteq> key_digest cv key \<longrightarrow> st' digest = st digest) \<and>
    (partition_entries st' (key_digest cv key) = partition_entries st (key_digest cv key) \<or>
     (\<exists>name content. map_of (partition_entries st (key_digest cv key)) name = None \<and>
        partition_entries st' (key_digest cv key) = partition_entries st (key_digest cv key) @ [(name, MetadataFile content)]))"
proof (cases "snapshot_metadata cv cas_read key resource artifact request capability stored_at expires_at etag last_modified successful")
  case (Inl e)
  then show ?thesis using assms by (simp add: store_snapshot_def)
next
  case (Inr m)
  obtain snap encoded where m: "m = (snap, encoded)" by (rule prod.exhaust)
  have k: "sn_key_digest snap = key_digest cv key"
    using Inr m by (auto simp: snapshot_metadata_def Let_def)
  obtain y st1 where p: "record_path (key_digest cv key) (sn_snapshot_id snap) st = (y, st1)" by (rule prod.exhaust)
  have f: "(\<forall>digest. digest \<noteq> key_digest cv key \<longrightarrow> st1 digest = st digest) \<and>
      partition_entries st1 (key_digest cv key) = partition_entries st (key_digest cv key)"
    using p by (auto simp: record_path_def partition_entries_def split: sum.splits option.splits partition.splits)
  show ?thesis
  proof (cases y)
    case (Inl e)
    then show ?thesis using assms f p k m Inr by (simp add: store_snapshot_def)
  next
    case inr: (Inr name)
    obtain z st2 where w: "in_partition (key_digest cv key) (write_immutable disk name encoded) st1 = (z, st2)" by (rule prod.exhaust)
    have st': "st' = st2" using assms p k m Inr inr w by (auto simp: store_snapshot_def split: sum.splits)
    obtain es' where "write_immutable disk name encoded (partition_entries st1 (key_digest cv key)) = (z, es')"
      "partition_entries st2 (key_digest cv key) = es'" "\<forall>digest. digest \<noteq> key_digest cv key \<longrightarrow> st2 digest = st1 digest"
      using w by (auto simp: in_partition_def partition_entries_def split: option.splits partition.splits prod.splits)
    then show ?thesis using f write_immutable_entries [of disk name encoded] st' by metis
  qed
qed

text \<open>One use of the store by any caller, with any outcome.\<close>

inductive snapshot_step :: "snapshot_codec \<Rightarrow> snapshot_store \<Rightarrow> snapshot_store \<Rightarrow> bool" for cv where
  step_store: "store_snapshot cv disk cas_read key resource artifact request capability stored_at expires_at etag last_modified successful st = (x, st') \<Longrightarrow>
     snapshot_step cv st st'"
| step_not_modified: "record_not_modified cv disk cas_read key r request ttl checked_at etag last_modified st = (x, st') \<Longrightarrow>
     snapshot_step cv st st'"

lemma map_of_appended: "map_of xs k = Some v \<Longrightarrow> map_of (xs @ ys) k = Some v"
  by (simp add: map_add_Some_iff)

lemma snapshot_step_extends:
  assumes "snapshot_step cv st st'"
  shows "\<exists>new. partition_entries st' digest = partition_entries st digest @ new"
  using assms
proof cases
  case (step_store disk cas_read key resource artifact request capability stored_at expires_at etag last_modified successful x)
  from store_snapshot_effect [OF this] show ?thesis
    by (cases "digest = key_digest cv key") (auto simp: partition_entries_def)
next
  case (step_not_modified disk cas_read key r request ttl checked_at etag last_modified x)
  then consider "st' = st"
    | e l t ex rs a c y where "store_snapshot cv disk cas_read key rs a request c t ex e l True st = (y, st')"
    by (auto simp: record_not_modified_def split: sum.splits)
  then show ?thesis
  proof cases
    case 2
    from store_snapshot_effect [OF this] show ?thesis
      by (cases "digest = key_digest cv key") (auto simp: partition_entries_def)
  qed simp
qed

text \<open>
  Snapshot metadata is immutable. Through any sequence of uses of the store, successful or not,
  a metadata file that is in a partition keeps its name and its bytes; partitions only grow.
\<close>

theorem snapshot_immutable:
  assumes "(snapshot_step cv)\<^sup>*\<^sup>* st st'" "map_of (partition_entries st digest) name = Some entry"
  shows "map_of (partition_entries st' digest) name = Some entry"
proof -
  from assms(1) have "\<exists>new. partition_entries st' digest = partition_entries st digest @ new"
  proof induction
    case (step y z)
    then show ?case using snapshot_step_extends [of cv y z digest] by auto
  qed simp
  then show ?thesis using map_of_appended [OF assms(2)] by metis
qed

subsection \<open>What was stored is found\<close>

lemma no_url_match: "CHR ''t'' \<notin> set (py_lower s) \<Longrightarrow> url_match_length s = 0"
  by (auto simp: url_match_length_def Let_def py_startswith_iff)

lemma sanitize_text_id: "CHR ''t'' \<notin> set (py_lower s) \<Longrightarrow> sanitize_authenticated_text s = s"
proof (induction s)
  case (Cons c s)
  then show ?case
    using no_url_match [OF Cons.prems] by (simp add: sanitize_authenticated_text.simps [of "c # s"])
qed (simp add: sanitize_authenticated_text.simps)

lemma hex_no_t:
  assumes "list_all lower_hex digest"
  shows "CHR ''t'' \<notin> set (py_lower digest)" "CHR ''t'' \<notin> set (py_lower (CAS_PREFIX @ digest))"
proof -
  have "list_all (\<lambda>c. lower_char c \<noteq> CHR ''t'') ''0123456789abcdef''" by code_simp
  then have "lower_char c \<noteq> CHR ''t''" if "lower_hex c" for c
    using that unfolding lower_hex_def list_all_iff by blast
  then show d: "CHR ''t'' \<notin> set (py_lower digest)"
    using assms unfolding py_lower_def list_all_iff set_map by (metis imageE)
  have "CHR ''t'' \<notin> set (py_lower CAS_PREFIX)" by code_simp
  with d show "CHR ''t'' \<notin> set (py_lower (CAS_PREFIX @ digest))" by (simp add: py_lower_def)
qed

lemma sanitize_artifact_digest:
  assumes "list_all lower_hex (ar_sha256 a)" "ar_cas_uri a = CAS_PREFIX @ ar_sha256 a"
  shows "ar_cas_uri (sanitize_artifact rq a) = ar_cas_uri a" "ar_sha256 (sanitize_artifact rq a) = ar_sha256 a"
    "ar_size (sanitize_artifact rq a) = ar_size a"
proof -
  have f: "\<not> is_url_field ''cas_uri''" "\<not> is_url_field ''sha256''" by code_simp+
  show "ar_cas_uri (sanitize_artifact rq a) = ar_cas_uri a" "ar_sha256 (sanitize_artifact rq a) = ar_sha256 a"
    "ar_size (sanitize_artifact rq a) = ar_size a"
    using f hex_no_t [OF assms(1)] sanitize_text_id by (simp_all add: sanitize_artifact_def sanitize_str_def assms(2))
qed

text \<open>
  The documented round trips of JSON, of ISO dates and of the contract models, for one record: JSON
  may reorder the keys of an object.
\<close>

definition decodable :: "snapshot_codec \<Rightarrow> snapshot_record \<Rightarrow> bool" where
  "decodable cv r \<longleftrightarrow>
     (\<exists>d. cv_loads cv (cv_dumps cv (record_document cv r)) = Some (VDict d) \<and> map_of d = map_of (record_document cv r)) \<and>
     cv_fromisoformat cv (cv_isoformat cv (sn_stored_at r)) = Some (utc (sn_stored_at r)) \<and>
     (case sn_expires_at r of None \<Rightarrow> True | Some t \<Rightarrow> cv_fromisoformat cv (cv_isoformat cv t) = Some (utc t)) \<and>
     cv_load_resource cv (cv_dump_resource cv (sn_resource r)) = Some (sn_resource r) \<and>
     cv_load_artifact cv (cv_dump_artifact cv (sn_artifact r)) = Some (sn_artifact r)"

lemma decode_record_document:
  assumes "decodable cv r"
  shows "decode_record cv (cv_dumps cv (record_document cv r)) = Inr r"
proof -
  from assms obtain d where l: "cv_loads cv (cv_dumps cv (record_document cv r)) = Some (VDict d)"
    and d: "map_of d = map_of (record_document cv r)" by (auto simp: decodable_def)
  have k: "map_of d ''schema_version'' = Some (VStr ''1.0'')" "map_of d ''successful'' = Some (VBool (sn_successful r))"
    "map_of d ''stored_at'' = Some (VStr (cv_isoformat cv (sn_stored_at r)))"
    "map_of d ''expires_at'' = Some (opt_value (map_option (cv_isoformat cv) (sn_expires_at r)))"
    "map_of d ''snapshot_id'' = Some (VStr (sn_snapshot_id r))" "map_of d ''key_digest'' = Some (VStr (sn_key_digest r))"
    "map_of d ''authentication_scope'' = Some (VStr (sn_authentication_scope r))"
    "map_of d ''source_capability'' = Some (VStr (sn_source_capability r))"
    "map_of d ''resource'' = Some (cv_dump_resource cv (sn_resource r))"
    "map_of d ''artifact'' = Some (cv_dump_artifact cv (sn_artifact r))"
    "map_of d ''etag'' = Some (opt_value (sn_etag r))" "map_of d ''last_modified'' = Some (opt_value (sn_last_modified r))"
    unfolding d record_document_def by simp_all
  have t: "iso_date cv (VStr (cv_isoformat cv (sn_stored_at r))) label = Inr (sn_stored_at r)" for label
    using assms by (simp add: decodable_def iso_date_def py_str_def utc_def require_aware_def)
  have e: "(case opt_value (map_option (cv_isoformat cv) (sn_expires_at r)) of VNone \<Rightarrow> Inr None
      | v \<Rightarrow> bind_res (iso_date cv v label) (\<lambda>t. Inr (Some t))) = Inr (sn_expires_at r)" for label
    using assms by (cases "sn_expires_at r") (simp_all add: decodable_def iso_date_def py_str_def utc_def require_aware_def opt_value_def)
  have o: "optional_text cv d ''etag'' = sn_etag r" "optional_text cv d ''last_modified'' = sn_last_modified r"
    by (simp_all add: optional_text_def k opt_value_def py_str_def split: option.splits)
  have m: "cv_load_resource cv (cv_dump_resource cv (sn_resource r)) = Some (sn_resource r)"
    "cv_load_artifact cv (cv_dump_artifact cv (sn_artifact r)) = Some (sn_artifact r)"
    using assms by (simp_all add: decodable_def)
  show ?thesis
    by (simp add: decode_record_def l k py_item_def py_str_def validated_def t e o m)
qed

lemma map_res_projr: "map_res f xs = Inr ys \<longleftrightarrow> (\<forall>x\<in>set xs. \<not> isl (f x)) \<and> ys = map (\<lambda>x. projr (f x)) xs"
  by (induction xs arbitrary: ys) (auto simp: isl_def split: sum.splits intro: sum.exhaust_sel)

lemma newest_greatest:
  "r \<in> insert best (set rs) \<Longrightarrow> \<forall>s\<in>insert best (set rs). s = r \<or> sn_stored_at s < sn_stored_at r \<Longrightarrow> newest best rs = r"
proof (induction best rs rule: newest.induct)
  case (2 best s rs)
  have "(if (sn_stored_at best, sn_snapshot_id best) < (sn_stored_at s, sn_snapshot_id s) then s else best) \<in> {best, s}" by simp
  moreover have "r \<in> insert (if (sn_stored_at best, sn_snapshot_id best) < (sn_stored_at s, sn_snapshot_id s) then s else best) (set rs)"
    using 2(2,3) by (auto simp: less_prod_def)
  ultimately show ?case using 2(1) 2(3) by auto
qed simp

lemma snapshot_metadata_Inr:
  assumes "snapshot_metadata cv cas_read key resource artifact request capability stored_at expires_at etag last_modified successful = Inr (r, encoded)"
  shows "encoded = cv_dumps cv (record_document cv r)" "length encoded \<le> MAX_METADATA_BYTES"
    "sn_key_digest r = key_digest cv key" "sn_authentication_scope r = ck_authentication_scope key"
    "sn_source_capability r \<in> set SNAPSHOT_CAPABILITIES" "sn_stored_at r = mo_utc stored_at"
    "sn_expires_at r = map_option mo_utc expires_at" "sn_successful r = successful"
    "sn_artifact r = sanitize_artifact request artifact" "verify_artifact (cv_sha256 cv) cas_read artifact = Inr ()"
    "lift_exc (validate_validator (sn_etag r) ''ETag'') = Inr ()"
    "lift_exc (validate_validator (sn_last_modified r) ''Last-Modified'') = Inr ()"
  using assms by (auto simp: snapshot_metadata_def Let_def)

lemma read_entry_written:
  assumes "decodable cv r" "sn_key_digest r = key_digest cv key" "sn_authentication_scope r = ck_authentication_scope key"
    "sn_source_capability r \<in> set SNAPSHOT_CAPABILITIES" "length (cv_dumps cv (record_document cv r)) \<le> MAX_METADATA_BYTES"
    "require_digest (sn_key_digest r) ''cache key'' = Inr ()" "require_digest (sn_snapshot_id r) ''snapshot'' = Inr ()"
    "lift_exc (validate_validator (sn_etag r) ''ETag'') = Inr ()"
    "lift_exc (validate_validator (sn_last_modified r) ''Last-Modified'') = Inr ()"
    "read_bounded content MAX_METADATA_BYTES = Inr (cv_dumps cv (record_document cv r))"
  shows "read_entry cv key (name, MetadataFile content) = Inr r"
  using assms by (simp add: read_entry_def parse_record_def decode_record_document [OF assms(1)])

lemma readable_partition:
  assumes "snapshot_records cv key st = Inr rs"
  shows "st (key_digest cv key) = None \<or> st (key_digest cv key) = Some (Partition (partition_entries st (key_digest cv key)))"
    "map_res (read_entry cv key) (json_entries (partition_entries st (key_digest cv key))) = Inr rs"
  using assms by (auto simp: snapshot_records_def partition_entries_def Let_def json_entries_def split: option.splits partition.splits)

lemma store_snapshot_Inr:
  assumes "store_snapshot cv disk cas_read key resource artifact request capability stored_at expires_at etag last_modified successful st = (Inr r, st')"
    "snapshot_records cv key st = Inr rs"
  defines "es \<equiv> partition_entries st (key_digest cv key)" and "name \<equiv> sn_snapshot_id r @ ''.json''"
  obtains "snapshot_metadata cv cas_read key resource artifact request capability stored_at expires_at etag last_modified successful =
      Inr (r, cv_dumps cv (record_document cv r))"
    "require_digest (sn_key_digest r) ''cache key'' = Inr ()" "require_digest (sn_snapshot_id r) ''snapshot'' = Inr ()"
    "(\<exists>content. map_of es name = Some (MetadataFile content) \<and> read_bounded content MAX_METADATA_BYTES = Inr (cv_dumps cv (record_document cv r))) \<or>
      st' (key_digest cv key) = Some (Partition (es @ [(name, MetadataFile (cv_dumps cv (record_document cv r)))]))"
proof -
  define k where "k = key_digest cv key"
  from assms(1) obtain e path st1 where
    m: "snapshot_metadata cv cas_read key resource artifact request capability stored_at expires_at etag last_modified successful = Inr (r, e)"
    and p: "record_path (sn_key_digest r) (sn_snapshot_id r) st = (Inr path, st1)"
    and w: "in_partition (sn_key_digest r) (write_immutable disk path e) st1 = (Inr (), st')"
    by (auto simp: store_snapshot_def split: sum.splits prod.splits)
  have e: "e = cv_dumps cv (record_document cv r)" "sn_key_digest r = k"
    using snapshot_metadata_Inr [OF m] by (simp_all add: k_def)
  have es: "st k = None \<and> es = [] \<or> st k = Some (Partition es)"
    using readable_partition(1) [OF assms(2)] by (auto simp: es_def k_def partition_entries_def)
  have q: "require_digest k ''cache key'' = Inr ()" "require_digest (sn_snapshot_id r) ''snapshot'' = Inr ()"
    "path = name" "st1 k = Some (Partition es)"
    using p e(2) es by (auto simp: record_path_def name_def split: sum.splits option.splits partition.splits)
  have w': "\<exists>es'. write_immutable disk name e es = (Inr (), es') \<and> st' k = Some (Partition es')"
    using w q(3,4) e(2) by (auto simp: in_partition_def split: prod.splits)
  then have "(\<exists>content. map_of es name = Some (MetadataFile content) \<and> read_bounded content MAX_METADATA_BYTES = Inr e) \<or>
      st' k = Some (Partition (es @ [(name, MetadataFile e)]))"
    by (auto simp: write_immutable_def read_existing_immutable_def Let_def split: option.splits metadata_entry.splits)
  then show ?thesis using that m q(1,2) e unfolding k_def by simp
qed

text \<open>A record that is newer than all records of the partition is the one a lookup selects.\<close>

lemma written_is_latest:
  assumes "snapshot_records cv key st = Inr rs" "length rs < MAX_RECORDS_PER_KEY"
    "list_all (\<lambda>s. sn_stored_at s < sn_stored_at r) rs" "sn_successful r"
    "st' (key_digest cv key) = Some (Partition (partition_entries st (key_digest cv key) @ [(name, entry)]))"
    "py_endswith name ''.json''" "read_entry cv key (name, entry) = Inr r"
  shows "latest_successful cv cas_read key st' =
    bind_res (verify_artifact (cv_sha256 cv) cas_read (sn_artifact r)) (\<lambda>_. Inr (Some r))"
proof -
  define paths where "paths = json_entries (partition_entries st (key_digest cv key))"
  define paths' where "paths' = json_entries (partition_entries st (key_digest cv key) @ [(name, entry)])"
  define rs' where "rs' = map (\<lambda>x. projr (read_entry cv key x)) paths'"
  have p: "set paths' = insert (name, entry) (set paths)" "length paths' = Suc (length paths)"
    using assms(6) by (auto simp: paths_def paths'_def json_entries_def)
  have rs: "\<forall>x\<in>set paths. \<not> isl (read_entry cv key x)" "rs = map (\<lambda>x. projr (read_entry cv key x)) paths"
    using readable_partition(2) [OF assms(1)] by (simp_all add: map_res_projr paths_def)
  then have rs': "map_res (read_entry cv key) paths' = Inr rs'" "set rs' = insert r (set rs)" "length rs' = Suc (length rs)"
    using p assms(7) by (auto simp: map_res_projr rs'_def)
  have k: "require_digest (key_digest cv key) ''cache key'' = Inr ()" using assms(1) by (auto simp: snapshot_records_def)
  then have s: "snapshot_records cv key st' = Inr rs'"
    using assms(2,5) rs' p(2) rs(2) by (simp add: snapshot_records_def paths'_def Let_def)
  obtain b bs where b: "filter sn_successful rs' = b # bs" using rs'(2) assms(4) by (cases "filter sn_successful rs'") (auto simp: filter_empty_conv)
  have "insert b (set bs) = set (filter sn_successful rs')" using b by simp
  then have in_bs: "insert b (set bs) = insert r {s \<in> set rs. sn_successful s}" using rs'(2) assms(4) by auto
  have "newest b bs = r" by (rule newest_greatest) (use in_bs assms(3) in \<open>auto simp: list_all_iff\<close>)
  then show ?thesis using s b by (simp add: latest_successful_def Let_def)
qed

context verified_store
begin

lemma verify_sanitized:
  assumes "verify_artifact sha256 cas_read a = Inr ()"
  shows "verify_artifact sha256 cas_read (sanitize_artifact rq a) = Inr ()" "ar_sha256 (sanitize_artifact rq a) = ar_sha256 a"
proof -
  from assms obtain body where b: "cas_read (ar_cas_uri a) (Some (int (ar_size a))) = Inr body"
    "ar_cas_uri a = CAS_PREFIX @ ar_sha256 a" "sha256 body = ar_sha256 a"
    by (auto simp: verified_body)
  have h: "list_all lower_hex (ar_sha256 a)" using read_hex [OF b(1)] b(3) by simp
  show "verify_artifact sha256 cas_read (sanitize_artifact rq a) = Inr ()" "ar_sha256 (sanitize_artifact rq a) = ar_sha256 a"
    using assms sanitize_artifact_digest [OF h b(2)] by (simp_all add: verified_body)
qed

lemma stored_is_latest:
  assumes "cv_sha256 cv = sha256"
    "store_snapshot cv disk cas_read key resource artifact request capability stored_at expires_at etag last_modified True st = (Inr r, st')"
    "snapshot_records cv key st = Inr rs" "length rs < MAX_RECORDS_PER_KEY"
    "list_all (\<lambda>s. sn_stored_at s < sn_stored_at r) rs" "decodable cv r"
  shows "latest_successful cv cas_read key st' = Inr (Some r)" "ar_sha256 (sn_artifact r) = ar_sha256 artifact"
    "sn_expires_at r = map_option mo_utc expires_at"
proof -
  let ?name = "sn_snapshot_id r @ ''.json''"
  from assms(2,3) obtain
    m: "snapshot_metadata cv cas_read key resource artifact request capability stored_at expires_at etag last_modified True =
      Inr (r, cv_dumps cv (record_document cv r))"
    and d: "require_digest (sn_key_digest r) ''cache key'' = Inr ()" "require_digest (sn_snapshot_id r) ''snapshot'' = Inr ()"
    and w: "(\<exists>content. map_of (partition_entries st (key_digest cv key)) ?name = Some (MetadataFile content) \<and>
        read_bounded content MAX_METADATA_BYTES = Inr (cv_dumps cv (record_document cv r))) \<or>
      st' (key_digest cv key) = Some (Partition (partition_entries st (key_digest cv key) @
        [(?name, MetadataFile (cv_dumps cv (record_document cv r)))]))"
    by (rule store_snapshot_Inr)
  note f = snapshot_metadata_Inr [OF m]
  note re = read_entry_written [OF assms(6) f(3,4,5,2) d f(11,12)]
  have v: "verify_artifact sha256 cas_read artifact = Inr ()" using f(10) assms(1) by simp
  have n: "py_endswith ?name ''.json''" by (simp add: py_endswith_iff)
  have "\<not> (\<exists>content. map_of (partition_entries st (key_digest cv key)) ?name = Some (MetadataFile content) \<and>
        read_bounded content MAX_METADATA_BYTES = Inr (cv_dumps cv (record_document cv r)))"
  proof (intro notI, elim exE conjE)
    fix content
    assume c: "map_of (partition_entries st (key_digest cv key)) ?name = Some (MetadataFile content)"
      "read_bounded content MAX_METADATA_BYTES = Inr (cv_dumps cv (record_document cv r))"
    then have "(?name, MetadataFile content) \<in> set (json_entries (partition_entries st (key_digest cv key)))"
      using n by (auto simp: json_entries_def dest: map_of_SomeD)
    moreover have "read_entry cv key (?name, MetadataFile content) = Inr r" by (rule re) (rule c(2))
    ultimately have "r \<in> set rs" using readable_partition(2) [OF assms(3)] by (force simp: map_res_projr)
    then show False using assms(5) by (auto simp: list_all_iff)
  qed
  with w have st': "st' (key_digest cv key) = Some (Partition (partition_entries st (key_digest cv key) @
        [(?name, MetadataFile (cv_dumps cv (record_document cv r)))]))" by blast
  have "read_bounded (cv_dumps cv (record_document cv r)) MAX_METADATA_BYTES = Inr (cv_dumps cv (record_document cv r))"
    using f(2) by (simp add: read_bounded_def)
  from written_is_latest [of cv key st rs r st', OF assms(3-5) f(8) [THEN iffD2, OF TrueI] st' n re [OF this]]
  show "latest_successful cv cas_read key st' = Inr (Some r)" using verify_sanitized(1) [OF v] assms(1) f(9) by auto
  show "ar_sha256 (sn_artifact r) = ar_sha256 artifact" using f(9) verify_sanitized(2) [OF v] by simp
  show "sn_expires_at r = map_option mo_utc expires_at" by (rule f(7))
qed

end

text \<open>
  C19: what was stored is found. When \<^verbatim>\<open>store\<close> succeeds with a record newer than those of its
  partition, the next lookup of the key returns that record, fresh and usable until it expires, and
  it still names the digest of the stored artifact, also when the request is authenticated and the
  texts of the metadata are scrubbed.
\<close>

theorem snapshot_round_trip:
  assumes "store_snapshot cv disk (cas_get (cv_sha256 cv) store_root calls) key resource artifact request capability
      stored_at expires_at etag last_modified True st = (Inr r, st')"
    "snapshot_records cv key st = Inr rs" "length rs < MAX_RECORDS_PER_KEY"
    "list_all (\<lambda>s. sn_stored_at s < sn_stored_at r) rs" "decodable cv r"
    "case expires_at of None \<Rightarrow> True | Some t \<Rightarrow> now < mo_utc t"
  shows "lookup_snapshot cv (cas_get (cv_sha256 cv) store_root calls) key (utc now) 0 st' =
      Inr \<lparr>lu_disposition = FRESH, lu_record = Some r, lu_usable = True, lu_requires_revalidation = False\<rparr> \<and>
    ar_sha256 (sn_artifact r) = ar_sha256 artifact"
proof -
  note l = fs_cas.stored_is_latest [OF refl assms(1-5)]
  have "fresh_at r now" using l(3) assms(6) by (auto simp: fresh_at_def split: option.splits)
  then show ?thesis
    using l(1,2) by (simp add: lookup_snapshot_def disposition_at_def utc_def require_aware_def lift_exc_def MAX_TTL_SECONDS_def)
qed

subsection \<open>An instance\<close>

definition snapshot_resource :: resource where
  "snapshot_resource = \<lparr>rs_resource_id = 2, rs_canonical_url = ''https://a.b/'', rs_requested_url = ''https://a.b/'',
     rs_media_type = None, rs_status_code = None, rs_retrieved_at = 0, rs_authority_url = None, rs_checked_only = False\<rparr>"

definition snapshot_artifact :: artifact where
  "snapshot_artifact = \<lparr>ar_artifact_id = 3, ar_role = ''primary'', ar_representation = ''raw'', ar_media_type = ''text/html'',
     ar_schema_version = ''1.0'', ar_cas_uri = CAS_PREFIX @ toy_digest ''abc'', ar_sha256 = toy_digest ''abc'', ar_size = 3,
     ar_source_resource_id = 2, ar_parent_artifact_ids = [], ar_extractor_version = ''x'', ar_locators = [],
     ar_quality = default_quality\<rparr>"

definition snapshot_key :: cache_key where
  "snapshot_key = \<lparr>ck_url = ''https://a.b/'', ck_representation = ''raw'', ck_authentication_scope = ''public'',
     ck_policy_profile = ''default'', ck_language = [], ck_parser_version = ''x'', ck_vary = [], ck_region = []\<rparr>"

definition snapshot_sample :: snapshot_record where
  "snapshot_sample = \<lparr>sn_snapshot_id = toy_digest [], sn_key_digest = toy_digest [], sn_authentication_scope = ''public'',
     sn_source_capability = ''local_snapshot'', sn_resource = snapshot_resource, sn_artifact = snapshot_artifact,
     sn_stored_at = 5, sn_expires_at = Some 9, sn_etag = None, sn_last_modified = None, sn_successful = True\<rparr>"

definition plain_codec :: snapshot_codec where
  "plain_codec = \<lparr>cv_sha256 = toy_digest, cv_dumps_key = (\<lambda>_. []), cv_dumps = (\<lambda>_. ''{}''), cv_loads = (\<lambda>_. None),
     cv_str = (\<lambda>_. []), cv_isoformat = (\<lambda>t. if t = 5 then ''5'' else ''9''),
     cv_fromisoformat = (\<lambda>s. Some (utc (if s = ''5'' then 5 else 9))),
     cv_dump_resource = (\<lambda>_. VNone), cv_load_resource = (\<lambda>_. Some snapshot_resource),
     cv_dump_artifact = (\<lambda>_. VNone), cv_load_artifact = (\<lambda>_. Some snapshot_artifact)\<rparr>"

definition sample_codec :: snapshot_codec where
  "sample_codec = plain_codec\<lparr>cv_loads := (\<lambda>_. Some (VDict (record_document plain_codec snapshot_sample)))\<rparr>"

definition sample_reads :: "string \<Rightarrow> int option \<Rightarrow> string cas" where
  "sample_reads = cas_get (cv_sha256 sample_codec) [''cas''] (quiet_calls sample_dir)"

lemma sample_codec_sel [simp]:
  "cv_sha256 sample_codec = toy_digest" "cv_dumps sample_codec = (\<lambda>_. ''{}'')"
  "record_document sample_codec = record_document plain_codec"
  by (auto simp: sample_codec_def plain_codec_def record_document_def)

lemma sample_verified: "verify_artifact toy_digest sample_reads snapshot_artifact = Inr ()"
proof -
  have "cas_digest [''cas''] (CAS_PREFIX @ toy_digest ''abc'') = Inr (toy_digest ''abc'')" by code_simp
  moreover have "read_verified toy_digest (quiet_calls sample_dir [''cas'', ''aa'', ''aa'', toy_digest ''abc'']) (toy_digest ''abc'') (Some 3) = Inr ''abc''"
    by (rule quiet_read) (simp_all add: sample_dir_def)
  ultimately have "sample_reads (CAS_PREFIX @ toy_digest ''abc'') (Some 3) = Inr ''abc''"
    by (simp add: cas_get_def toy_path sample_reads_def)
  then show ?thesis by (simp add: verify_artifact_def snapshot_artifact_def)
qed

definition sample_snapshot :: "(py_exc + snapshot_record) \<times> snapshot_store" where
  "sample_snapshot = store_snapshot sample_codec (\<lambda>_. None) sample_reads snapshot_key snapshot_resource snapshot_artifact
     (default_request ''https://a.b/'') ''local_snapshot'' (utc 5) (Some (utc 9)) None None True (\<lambda>_. None)"

lemma sample_digest: "key_digest sample_codec snapshot_key = toy_digest []" "require_digest (toy_digest []) label = Inr ()"
  by (simp_all add: key_digest_def cache_digest_def sample_codec_def plain_codec_def require_digest_def) code_simp+

lemma sample_metadata:
  "snapshot_metadata sample_codec sample_reads snapshot_key snapshot_resource snapshot_artifact
     (default_request ''https://a.b/'') ''local_snapshot'' (utc 5) (Some (utc 9)) None None True = Inr (snapshot_sample, ''{}'')"
proof -
  have "sanitized_resource (default_request ''https://a.b/'') snapshot_resource = Inr snapshot_resource" by code_simp
  moreover have "sanitize_artifact (default_request ''https://a.b/'') snapshot_artifact = snapshot_artifact" by code_simp
  moreover have "''local_snapshot'' \<in> set SNAPSHOT_CAPABILITIES" by code_simp
  moreover have "snapshot_id sample_codec snapshot_key snapshot_artifact 5 ''local_snapshot'' = toy_digest []"
    by (simp add: snapshot_id_def toy_digest_def)
  moreover have "ck_authentication_scope snapshot_key = ''public''" "ar_source_resource_id snapshot_artifact = rs_resource_id snapshot_resource"
    by (simp_all add: snapshot_key_def snapshot_artifact_def snapshot_resource_def)
  ultimately show ?thesis
    using sample_verified
    by (simp add: snapshot_metadata_def Let_def sample_digest lift_exc_def require_aware_def utc_def validate_validator_def
        snapshot_sample_def MAX_METADATA_BYTES_def)
qed

lemma sample_stored: "\<exists>st. sample_snapshot = (Inr snapshot_sample, st)"
  using sample_metadata sample_digest(2)
  by (simp add: sample_snapshot_def store_snapshot_def record_path_def snapshot_sample_def in_partition_def write_immutable_def)

lemma sample_decodable: "decodable sample_codec snapshot_sample"
  by (auto simp: decodable_def sample_codec_def plain_codec_def record_document_def snapshot_sample_def utc_def)

theorem snapshot_round_trip_witness:
  "\<exists>st found. sample_snapshot = (Inr snapshot_sample, st) \<and> lookup_snapshot sample_codec sample_reads snapshot_key (utc 7) 0 st = Inr found \<and>
     lu_record found = Some snapshot_sample \<and> lu_usable found"
proof -
  obtain st where st: "sample_snapshot = (Inr snapshot_sample, st)" using sample_stored by blast
  have "snapshot_records sample_codec snapshot_key (\<lambda>_. None) = Inr []"
    by (simp add: snapshot_records_def sample_digest)
  from snapshot_round_trip [OF st [unfolded sample_snapshot_def sample_reads_def] this _ _ sample_decodable, of 7]
  have "lookup_snapshot sample_codec sample_reads snapshot_key (utc 7) 0 st =
      Inr \<lparr>lu_disposition = FRESH, lu_record = Some snapshot_sample, lu_usable = True, lu_requires_revalidation = False\<rparr>"
    by (simp add: sample_reads_def MAX_RECORDS_PER_KEY_def utc_def)
  with st show ?thesis by fastforce
qed

theorem snapshot_lookup_safe_witness:
  "\<exists>st found. lookup_snapshot sample_codec sample_reads snapshot_key (utc 7) 0 st = Inr found \<and> lu_record found = Some snapshot_sample \<and>
     sn_authentication_scope snapshot_sample = ck_authentication_scope snapshot_key"
proof -
  obtain st where st: "sample_snapshot = (Inr snapshot_sample, st)" using sample_stored by blast
  have "snapshot_records sample_codec snapshot_key (\<lambda>_. None) = Inr []"
    by (simp add: snapshot_records_def sample_digest)
  from fs_cas.stored_is_latest(1) [OF refl st [unfolded sample_snapshot_def sample_reads_def] this _ _ sample_decodable]
  have "lookup_snapshot sample_codec sample_reads snapshot_key (utc 7) 0 st = Inr (disposition_at 7 0 (Some snapshot_sample))"
    by (simp add: lookup_snapshot_def utc_def require_aware_def lift_exc_def MAX_TTL_SECONDS_def MAX_RECORDS_PER_KEY_def sample_reads_def)
  moreover have "lu_record (disposition_at 7 0 (Some snapshot_sample)) = Some snapshot_sample"
    by (simp add: disposition_at_def fresh_at_def snapshot_sample_def)
  ultimately show ?thesis using snapshot_lookup_safe unfolding sample_reads_def by blast
qed

theorem snapshot_immutable_witness:
  "\<exists>st. map_of (partition_entries st (toy_digest [])) ''a.json'' = Some (MetadataFile ''x'')"
proof -
  define st0 :: snapshot_store where "st0 = [toy_digest [] \<mapsto> Partition [(''a.json'', MetadataFile ''x'')]]"
  obtain x st where "store_snapshot sample_codec (\<lambda>_. None) sample_reads snapshot_key snapshot_resource snapshot_artifact
     (default_request ''https://a.b/'') ''local_snapshot'' (utc 5) (Some (utc 9)) None None True st0 = (x, st)" by (rule prod.exhaust)
  then have "(snapshot_step sample_codec)\<^sup>*\<^sup>* st0 st" by (intro r_into_rtranclp step_store)
  moreover have "map_of (partition_entries st0 (toy_digest [])) ''a.json'' = Some (MetadataFile ''x'')"
    by (simp add: st0_def partition_entries_def)
  ultimately show ?thesis using snapshot_immutable by blast
qed

end
