(* ===== verification/Cache.thy ===== *)
theory Cache
  imports Snapshots
begin

section \<open>The cache adapter: adapters/cache.py\<close>

text \<open>
  \<^verbatim>\<open>CacheAdapter\<close>: storing the artifact of a run, looking one up, and snapshots from third-party
  connectors. Connectors are parameters; they see the target, the bounds and the environment, and a
  reporting connector also returns the usage it recorded, whether or not it fails. The adapter
  works on the context of the run, the environment (clock and identifiers) and its own stores.
\<close>

subsection \<open>State\<close>

record cache_state =
  cs_snapshots :: snapshot_store
  cs_cas :: cas_dir
  cs_policy :: "safe_url_policy option"

record cache_run =
  cx_context :: execution_context
  cx_env :: env
  cx_state :: cache_state

definition in_context :: "(execution_context \<Rightarrow> execution_context) \<Rightarrow> cache_run \<Rightarrow> cache_run" where
  "in_context f run = run\<lparr>cx_context := f (cx_context run)\<rparr>"

definition new_id :: "cache_run \<Rightarrow> uuid \<times> cache_run" where
  "new_id run = (en_next_id (cx_env run), run\<lparr>cx_env := (cx_env run)\<lparr>en_next_id := en_next_id (cx_env run) + 1\<rparr>\<rparr>)"

subsection \<open>Snapshots and connectors\<close>

record archived_snapshot =
  as_original_url :: string
  as_snapshot_url :: string
  as_body :: string
  as_media_type :: string
  as_captured_at :: moment
  as_etag :: "string option"
  as_last_modified :: "string option"
  as_auxiliary_bytes :: int

definition ArchivedSnapshot :: "archived_snapshot \<Rightarrow> archived_snapshot res" where
  "ArchivedSnapshot s =
     bind_res (normalize_url (as_original_url s)) (\<lambda>original.
     bind_res (normalize_url (as_snapshot_url s)) (\<lambda>snapshot.
     bind_res (raise_if (\<not> py_startswith snapshot ''https://'') (ValueError ''snapshot connector URLs must use HTTPS'')) (\<lambda>_.
     bind_res (raise_if (\<not> mo_aware (as_captured_at s)) (ValueError ''snapshot capture time must include a timezone'')) (\<lambda>_.
     bind_res (raise_if (as_body s = []) (ValueError ''snapshot connector returned an empty body'')) (\<lambda>_.
     bind_res (raise_if (py_strip (as_media_type s) = [] \<or> 255 < py_len (as_media_type s))
       (ValueError ''snapshot media type is invalid'')) (\<lambda>_.
     bind_res (raise_if (as_auxiliary_bytes s < 0) (ValueError ''snapshot auxiliary byte count is invalid'')) (\<lambda>_.
       Inr (s\<lparr>as_original_url := original, as_snapshot_url := snapshot, as_captured_at := utc (mo_utc (as_captured_at s))\<rparr>))))))))"

record connector_usage =
  us_wire_bytes :: int
  us_decompressed_bytes :: int
  us_redirects :: int

definition SnapshotConnectorUsage :: connector_usage where
  "SnapshotConnectorUsage = \<lparr>us_wire_bytes = 0, us_decompressed_bytes = 0, us_redirects = 0\<rparr>"

definition record_usage :: "int \<Rightarrow> int \<Rightarrow> int \<Rightarrow> connector_usage \<Rightarrow> connector_usage res" where
  "record_usage wire_bytes decompressed_bytes redirects u =
     (if wire_bytes < 0 \<or> decompressed_bytes < 0 \<or> redirects < 0
      then Inl (ValueError ''snapshot connector usage must be non-negative integers'')
      else Inr \<lparr>us_wire_bytes = us_wire_bytes u + wire_bytes, us_decompressed_bytes = us_decompressed_bytes u + decompressed_bytes,
                us_redirects = us_redirects u + redirects\<rparr>)"

text \<open>A connector returns a snapshot or (\<^term>\<open>None\<close>) something else.\<close>

datatype connector =
    PlainConnector "string \<Rightarrow> int \<Rightarrow> rat \<Rightarrow> env \<Rightarrow> (py_exc + archived_snapshot option) \<times> env"
  | UsageReportingConnector "string \<Rightarrow> int \<Rightarrow> int \<Rightarrow> rat \<Rightarrow> env \<Rightarrow> (py_exc + archived_snapshot option) \<times> connector_usage \<times> env"

record cache_services =
  ca_codec :: snapshot_codec
  ca_disk :: "nat \<Rightarrow> py_exc option"
  ca_cas_env :: cas_env
  ca_cas_root :: path
  ca_reads :: "cas_dir \<Rightarrow> path \<Rightarrow> read_calls"
  ca_resolver :: resolver
  ca_unicode :: unicode
  ca_connectors :: "string \<Rightarrow> connector option"

definition cas_read :: "cache_services \<Rightarrow> cache_state \<Rightarrow> string \<Rightarrow> int option \<Rightarrow> string cas" where
  "cas_read sv cs = cas_get (cv_sha256 (ca_codec sv)) (ca_cas_root sv) (ca_reads sv (cs_cas cs))"

subsection \<open>Parameters of a node\<close>

definition representation_of :: "plan_node \<Rightarrow> artifact option \<Rightarrow> py_exc + string" where
  "representation_of node a =
     (let required = map_of REPRESENTATIONS (pn_capability_id node) in
      case py_get (pn_parameters node) ''representation'' VNone of
        VNone \<Rightarrow>
          (case required of
             Some r \<Rightarrow> Inr r
           | None \<Rightarrow> (case a of Some x \<Rightarrow> Inr (ar_representation x)
                       | None \<Rightarrow> Inl (adapter_error ''snapshot lookup requires an explicit representation'')))
      | VStr configured \<Rightarrow>
          if py_strip configured = [] \<or> 200 < py_len configured
          then Inl (adapter_error ''cache representation parameter is invalid'')
          else (case required of
              Some r \<Rightarrow>
                if py_strip configured \<noteq> r
                then Inl (adapter_error (pn_capability_id node @ '' requires a '' @ r @ '' artifact''))
                else Inr (py_strip configured)
            | None \<Rightarrow> Inr (py_strip configured))
      | _ \<Rightarrow> Inl (adapter_error ''cache representation parameter is invalid''))"

definition parser_version :: "plan_node \<Rightarrow> artifact option \<Rightarrow> py_exc + string" where
  "parser_version node a =
     (case py_get (pn_parameters node) ''parser_version'' VNone of
        VNone \<Rightarrow> (case a of Some x \<Rightarrow> Inr (ar_extractor_version x)
                   | None \<Rightarrow> Inl (adapter_error ''snapshot lookup requires an explicit parser_version''))
      | VStr configured \<Rightarrow>
          if py_strip configured = [] \<or> 200 < py_len configured
          then Inl (adapter_error ''cache parser_version parameter is invalid'') else Inr (py_strip configured)
      | _ \<Rightarrow> Inl (adapter_error ''cache parser_version parameter is invalid''))"

definition seq_items :: "pyval \<Rightarrow> pyval list option" where
  "seq_items v = (case v of VList vs \<Rightarrow> Some vs | VTuple vs \<Rightarrow> Some vs | _ \<Rightarrow> None)"

definition text_pair :: "pyval \<Rightarrow> (string \<times> string) option" where
  "text_pair v = (case seq_items v of Some [VStr a, VStr b] \<Rightarrow> Some (a, b) | _ \<Rightarrow> None)"

definition vary_values :: "plan_node \<Rightarrow> py_exc + (string \<times> string) list" where
  "vary_values node =
     (let configured = py_get (pn_parameters node) ''vary'' (VTuple []) in
      if configured = VNone \<or> configured = VTuple [] then Inr []
      else case seq_items configured of
        None \<Rightarrow> Inl (adapter_error ''cache Vary parameters are invalid'')
      | Some vs \<Rightarrow>
          if 32 < length vs \<or> list_ex (\<lambda>v. text_pair v = None) vs
          then Inl (adapter_error ''cache Vary parameters are invalid'')
          else let normalized = sort (map (\<lambda>(a, b). (py_lower a, b)) (List.map_filter text_pair vs)) in
            if list_ex (\<lambda>(name, v). 256 < py_len name \<or> 8192 < py_len v) normalized
            then Inl (adapter_error ''cache Vary parameters exceed the allowed bound'') else Inr normalized)"

definition parameter_seconds :: "plan_node \<Rightarrow> string \<Rightarrow> int \<Rightarrow> py_exc + int" where
  "parameter_seconds node name fallback =
     (case py_get (pn_parameters node) name (VInt fallback) of
        VInt v \<Rightarrow> if 0 \<le> v \<and> v \<le> MAX_TTL_SECONDS then Inr v else Inl (adapter_error (name @ '' is outside the allowed bound''))
      | _ \<Rightarrow> Inl (adapter_error (name @ '' must be an integer'')))"

definition ttl_seconds :: "plan_node \<Rightarrow> fetch_request \<Rightarrow> py_exc + int" where
  "ttl_seconds node request =
     parameter_seconds node ''ttl_seconds'' (case rq_freshness_seconds request of Some s \<Rightarrow> s | None \<Rightarrow> DEFAULT_TTL_SECONDS)"

definition optional_parameter :: "plan_node \<Rightarrow> string \<Rightarrow> py_exc + string option" where
  "optional_parameter node name =
     (case py_get (pn_parameters node) name VNone of
        VNone \<Rightarrow> Inr None
      | VStr s \<Rightarrow> bind_res (lift_exc (validate_validator (Some s) name)) (\<lambda>_. Inr (Some s))
      | _ \<Rightarrow> Inl (adapter_error (name @ '' must be a string'')))"

definition is_textual :: "string \<Rightarrow> bool" where
  "is_textual media_type \<longleftrightarrow> py_startswith (py_casefold media_type) ''text/'' \<or>
     py_casefold media_type \<in> {''application/atom+xml'', ''application/json'', ''application/rss+xml'',
       ''application/xhtml+xml'', ''application/xml''}"

definition failure_code :: "py_exc \<Rightarrow> string" where
  "failure_code e =
     (if ex_class e = ExcNotFound then ''not_found''
      else if ex_type_name e = ''SnapshotIntegrityError'' then ''snapshot_integrity''
      else if py_contains ''miss'' (ex_message e) then ''cache_miss''
      else if py_contains ''revalidation'' (ex_message e) then ''cache_revalidation_required''
      else ''cache_error'')"

fun disposition_value :: "cache_disposition \<Rightarrow> string" where
  "disposition_value MISS = ''MISS''"
| "disposition_value FRESH = ''FRESH''"
| "disposition_value STALE_WHILE_REVALIDATE = ''STALE_WHILE_REVALIDATE''"
| "disposition_value REVALIDATE = ''REVALIDATE''"

subsection \<open>Stored snapshots\<close>

definition validated_source :: "execution_context \<Rightarrow> string \<Rightarrow> py_exc + resource \<times> artifact" where
  "validated_source ctx repr =
     (case latest_artifact ctx [repr] of
        None \<Rightarrow> Inl (adapter_error (''cache storage requires an accepted '' @ repr @ '' artifact''))
      | Some a \<Rightarrow>
          if xc_resources ctx = [] then Inl (adapter_error (''cache storage requires an accepted '' @ repr @ '' artifact''))
          else if \<not> qa_accepted (ar_quality a) \<or> ar_role a = ''checked-only''
          then Inl (adapter_error ''only validated accepted artifacts may enter the cache'')
          else (case List.find (\<lambda>r. rs_resource_id r = ar_source_resource_id a) (rev (xc_resources ctx)) of
              Some r \<Rightarrow> Inr (r, a)
            | None \<Rightarrow> Inl (integrity_error ''artifact source resource is absent from the execution context'')))"

definition merge_snapshot :: "snapshot_record \<Rightarrow> execution_context \<Rightarrow> execution_context" where
  "merge_snapshot r ctx =
     (let ctx1 = (if list_all (\<lambda>x. rs_resource_id x \<noteq> rs_resource_id (sn_resource r)) (xc_resources ctx)
                  then ctx\<lparr>xc_resources := xc_resources ctx @ [sn_resource r]\<rparr> else ctx);
          ctx2 = (if list_all (\<lambda>x. ar_artifact_id x \<noteq> ar_artifact_id (sn_artifact r)) (xc_artifacts ctx1)
                  then ctx1\<lparr>xc_artifacts := xc_artifacts ctx1 @ [sn_artifact r]\<rparr> else ctx1)
      in ctx2\<lparr>xc_accepted := xc_accepted ctx2 \<or> qa_accepted (ar_quality (sn_artifact r))\<rparr>)"

text \<open>The calls of the snapshot store, on the stores of a run.\<close>

definition run_store ::
  "cache_services \<Rightarrow> cache_key \<Rightarrow> resource \<Rightarrow> artifact \<Rightarrow> string \<Rightarrow> int \<Rightarrow> string option \<Rightarrow> string option \<Rightarrow> bool \<Rightarrow> cache_run
     \<Rightarrow> (py_exc + snapshot_record) \<times> cache_run" where
  "run_store sv key resource artifact capability ttl etag last_modified successful run =
     (let now = en_clock (cx_env run) in
      case store_snapshot (ca_codec sv) (ca_disk sv) (cas_read sv (cx_state run)) key resource artifact
             (xc_request (cx_context run)) capability (utc now) (Some (utc (now + of_int ttl))) etag last_modified successful
             (cs_snapshots (cx_state run)) of
        (x, st) \<Rightarrow> (x, run\<lparr>cx_state := (cx_state run)\<lparr>cs_snapshots := st\<rparr>\<rparr>))"

definition run_not_modified ::
  "cache_services \<Rightarrow> cache_key \<Rightarrow> snapshot_record \<Rightarrow> int \<Rightarrow> string option \<Rightarrow> string option \<Rightarrow> cache_run
     \<Rightarrow> (py_exc + snapshot_record) \<times> cache_run" where
  "run_not_modified sv key found ttl etag last_modified run =
     (case record_not_modified (ca_codec sv) (ca_disk sv) (cas_read sv (cx_state run)) key found
             (xc_request (cx_context run)) ttl (utc (en_clock (cx_env run))) etag last_modified (cs_snapshots (cx_state run)) of
        (x, st) \<Rightarrow> (x, run\<lparr>cx_state := (cx_state run)\<lparr>cs_snapshots := st\<rparr>\<rparr>))"

definition request_key ::
  "cache_services \<Rightarrow> plan_node \<Rightarrow> fetch_request \<Rightarrow> string \<Rightarrow> string \<Rightarrow> py_exc + cache_key" where
  "request_key sv node request repr version =
     bind_res (lift_exc (normalize_url (rq_target request))) (\<lambda>url.
     bind_res (vary_values node) (\<lambda>vary.
       lift_exc (cache_key_for_request (cv_sha256 (ca_codec sv)) request url repr version vary)))"

definition store_operation :: "cache_services \<Rightarrow> plan_node \<Rightarrow> string \<Rightarrow> cache_run \<Rightarrow> (py_exc + artifact) \<times> cache_run" where
  "store_operation sv node repr run =
     (let ctx = cx_context run; request = xc_request ctx; capability = pn_capability_id node in
      bind_run
        (bind_res (validated_source ctx repr) (\<lambda>(resource, artifact).
         bind_res (parser_version node (Some artifact)) (\<lambda>version.
         bind_res (request_key sv node request repr version) (\<lambda>key.
         bind_res (ttl_seconds node request) (\<lambda>ttl.
         bind_res (optional_parameter node ''etag'') (\<lambda>etag.
         bind_res (optional_parameter node ''last_modified'') (\<lambda>last_modified.
           Inr (resource, artifact, key, ttl, etag, last_modified))))))), run)
        (\<lambda>(resource, artifact, key, ttl, etag, last_modified) run1.
      bind_run (run_store sv key resource artifact capability ttl etag last_modified True run1) (\<lambda>_ run2.
        let digest = key_digest (ca_codec sv) key in
        (Inr artifact, in_context (\<lambda>c.
           (record_runtime_event (record_outcome c capability CO_APPLIED ''cache''
                [(''operation'', VStr ''store''), (''key_digest'', VStr digest),
                 (''authentication_scope'', VStr (ck_authentication_scope key)), (''immutable'', VBool True)])
              ''snapshot_stored'' ''cache''
              [(''capability_id'', VStr capability), (''key_digest'', VStr digest), (''artifact_sha256'', VStr (ar_sha256 artifact))])
           \<lparr>xc_accepted := True\<rparr>) run2))))"

definition lookup_operation :: "cache_services \<Rightarrow> plan_node \<Rightarrow> string \<Rightarrow> string \<Rightarrow> cache_run \<Rightarrow> (py_exc + artifact) \<times> cache_run" where
  "lookup_operation sv node operation repr run =
     (let ctx = cx_context run; request = xc_request ctx; capability = pn_capability_id node in
      bind_run
        (bind_res (parser_version node (latest_artifact ctx [])) (\<lambda>version.
         bind_res (request_key sv node request repr version) (\<lambda>key.
         bind_res (parameter_seconds node ''stale_while_revalidate_seconds'' 0) (\<lambda>stale_seconds.
         bind_res (lookup_snapshot (ca_codec sv) (cas_read sv (cx_state run)) key (utc (en_clock (cx_env run))) stale_seconds
                     (cs_snapshots (cx_state run))) (\<lambda>found.
           Inr (key, found))))), run)
        (\<lambda>(key, found) run1.
      let digest = key_digest (ca_codec sv) key;
          run2 = in_context (\<lambda>c. record_outcome c ''cache_expiry_check'' CO_APPLIED ''cache''
            [(''disposition'', VStr (disposition_value (lu_disposition found))),
             (''record_found'', VBool (lu_record found \<noteq> None)), (''fresh'', VBool (lu_disposition found = FRESH)),
             (''usable'', VBool (lu_usable found)), (''requires_revalidation'', VBool (lu_requires_revalidation found))]) run1 in
      case lu_record found of
        None \<Rightarrow> (Inl (adapter_error ''validated cache miss''), run2)
      | Some r0 \<Rightarrow>
          bind_run
            (if operation = ''not_modified'' then
               bind_run
                 (bind_res (ttl_seconds node request) (\<lambda>ttl.
                  bind_res (optional_parameter node ''etag'') (\<lambda>etag.
                  bind_res (optional_parameter node ''last_modified'') (\<lambda>last_modified. Inr (ttl, etag, last_modified)))), run2)
                 (\<lambda>(ttl, etag, last_modified) run3.
               bind_run (run_not_modified sv key r0 ttl etag last_modified run3) (\<lambda>r run4. (Inr (r, ''NOT_MODIFIED''), run4)))
             else if lu_disposition found = REVALIDATE \<and> capability \<noteq> ''previous_successful_snapshot''
             then (Inl (adapter_error ''cache entry requires revalidation''), run2)
             else (Inr (r0, disposition_value (lu_disposition found)), run2))
            (\<lambda>(r, disposition) run3.
          (Inr (sn_artifact r), in_context (\<lambda>c.
             let c1 = merge_snapshot r c;
                 c2 = (if lu_requires_revalidation found
                       then record_runtime_event c1 ''cache_revalidation_required'' ''cache''
                         [(''capability_id'', VStr capability), (''key_digest'', VStr digest),
                          (''disposition'', VStr (disposition_value (lu_disposition found)))]
                       else c1)
             in record_outcome c2 capability CO_APPLIED ''cache''
                  [(''operation'', VStr operation), (''disposition'', VStr disposition), (''key_digest'', VStr digest),
                   (''authentication_scope'', VStr (ck_authentication_scope key))]) run3))))"

definition execute_storage :: "cache_services \<Rightarrow> plan_node \<Rightarrow> cache_run \<Rightarrow> (py_exc + artifact) \<times> cache_run" where
  "execute_storage sv node run =
     (let latest = latest_artifact (cx_context run) [];
          given = py_lower (py_strip (py_str (cv_str (ca_codec sv)) (py_get (pn_parameters node) ''cache_operation'' (VStr []))));
          operation = (if given \<noteq> [] then given
            else if pn_capability_id node = ''previous_successful_snapshot'' \<or> latest = None then ''lookup'' else ''store'') in
      if operation \<notin> {''store'', ''lookup'', ''not_modified''}
      then (Inl (adapter_error ''cache operation must be store, lookup, or not_modified''), run)
      else case representation_of node latest of
        Inl e \<Rightarrow> (Inl e, run)
      | Inr repr \<Rightarrow>
          if operation = ''store'' then store_operation sv node repr run else lookup_operation sv node operation repr run)"

subsection \<open>Connectors\<close>

definition validated_connector_snapshot :: "archived_snapshot option \<Rightarrow> py_exc + archived_snapshot" where
  "validated_connector_snapshot v =
     (case v of
        None \<Rightarrow> Inl (adapter_error ''configured snapshot connector returned an invalid result'')
      | Some s \<Rightarrow>
          (case ArchivedSnapshot (s\<lparr>as_auxiliary_bytes := 0\<rparr>) of
             Inr t \<Rightarrow> Inr t
           | Inl e \<Rightarrow> Inl (caused_by (adapter_error ''configured snapshot connector returned an invalid result'') (value_exc e))))"

definition budget_exceeded :: "string \<Rightarrow> py_exc" where
  "budget_exceeded message = simple_exc ExcBudgetExceeded ''AdapterBudgetExceededError'' message"

definition remaining_connector_deadline :: "execution_context \<Rightarrow> time \<Rightarrow> py_exc + rat" where
  "remaining_connector_deadline ctx now =
     (case map at_started_at (xc_attempts ctx) of
        [] \<Rightarrow> Inr (b_deadline_seconds (rq_budget (xc_request ctx)))
      | t # ts \<Rightarrow>
          let elapsed = max 0 (now - fold min ts t);
              remaining = b_deadline_seconds (rq_budget (xc_request ctx)) - elapsed in
          if remaining \<le> 0 then Inl (budget_exceeded ''deadline budget exhausted'') else Inr remaining)"

definition reconcile_usage :: "archived_snapshot option \<Rightarrow> int \<Rightarrow> connector_usage \<Rightarrow> (py_exc + unit) \<times> connector_usage" where
  "reconcile_usage result maximum_body_bytes u =
     (case result of
        None \<Rightarrow> (Inr (), u)
      | Some s \<Rightarrow>
          if us_wire_bytes u < 0 \<or> us_decompressed_bytes u < 0 \<or> us_redirects u < 0 then (Inr (), u)
          else let body_bytes = int (length (as_body s));
                   accounted = body_bytes + as_auxiliary_bytes s;
                   underreported_wire = (0 < accounted \<and> us_wire_bytes u = 0);
                   underreported_decompressed = (us_decompressed_bytes u < accounted);
                   u' = u\<lparr>us_wire_bytes := (if underreported_wire then accounted else us_wire_bytes u),
                          us_decompressed_bytes := max (us_decompressed_bytes u) accounted\<rparr> in
            if maximum_body_bytes < body_bytes
            then (Inl (budget_exceeded ''snapshot connector body exceeds the remaining byte budget''), u')
            else if underreported_wire \<or> underreported_decompressed
            then (Inl (adapter_error ''configured snapshot connector under-reported body usage''), u')
            else (Inr (), u'))"

definition charge_usage :: "nat \<Rightarrow> connector_usage \<Rightarrow> int \<Rightarrow> int \<Rightarrow> int \<Rightarrow> execution_context \<Rightarrow> (py_exc + unit) \<times> execution_context" where
  "charge_usage index u remaining_wire remaining_decompressed remaining_redirects ctx =
     (if us_wire_bytes u < 0 \<or> us_decompressed_bytes u < 0 \<or> us_redirects u < 0
      then (Inl (adapter_error ''configured snapshot connector returned invalid usage''), ctx)
      else let consumed = filter (\<lambda>(_, n). n \<noteq> 0) [(''bytes'', of_int (us_wire_bytes u)),
                 (''decompressed_bytes'', of_int (us_decompressed_bytes u)), (''redirects'', of_int (us_redirects u))] in
        case (if consumed = [] then Inr ctx else record_attempt_consumption ctx (int index) consumed) of
          Inl e \<Rightarrow> (Inl (value_exc e), ctx)
        | Inr ctx' \<Rightarrow>
            (bind_res (raise_if (remaining_wire < us_wire_bytes u) (budget_exceeded ''bytes budget exhausted'')) (\<lambda>_.
             bind_res (raise_if (remaining_decompressed < us_decompressed_bytes u)
               (budget_exceeded ''decompressed_bytes budget exhausted'')) (\<lambda>_.
             raise_if (remaining_redirects < us_redirects u) (budget_exceeded ''redirects budget exhausted''))), ctx'))"

text \<open>The exceptions of a connector that pass unchanged; a cancellation is no \<^verbatim>\<open>Exception\<close>.\<close>

definition connector_failure :: "py_exc \<Rightarrow> py_exc" where
  "connector_failure e =
     (if ex_class e \<in> {ExcBudgetExceeded, ExcDependency, ExcNotFound, ExcPolicyBlocked, ExcTimeout, ExcCancelled} then e
      else caused_by (adapter_error ''configured snapshot connector failed'') e)"

definition report_snapshot ::
  "(string \<Rightarrow> int \<Rightarrow> int \<Rightarrow> rat \<Rightarrow> env \<Rightarrow> (py_exc + archived_snapshot option) \<times> connector_usage \<times> env)
     \<Rightarrow> string \<Rightarrow> int \<Rightarrow> int \<Rightarrow> cache_run \<Rightarrow> (py_exc + archived_snapshot option) \<times> connector_usage \<times> cache_run" where
  "report_snapshot fetch target maximum remaining_redirects run =
     (case remaining_connector_deadline (cx_context run) (en_clock (cx_env run)) of
        Inl e \<Rightarrow> (Inl e, SnapshotConnectorUsage, run)
      | Inr deadline \<Rightarrow>
          (case fetch target maximum remaining_redirects deadline (cx_env run) of
             (Inl e, u, en) \<Rightarrow> (Inl e, u, run\<lparr>cx_env := en\<rparr>)
           | (Inr result, u, en) \<Rightarrow>
               (case reconcile_usage result maximum u of
                  (Inl e, u') \<Rightarrow> (Inl e, u', run\<lparr>cx_env := en\<rparr>)
                | (Inr _, u') \<Rightarrow> (Inr result, u', run\<lparr>cx_env := en\<rparr>))))"

definition fetch_snapshot ::
  "connector \<Rightarrow> string \<Rightarrow> nat \<Rightarrow> int \<Rightarrow> int \<Rightarrow> cache_run \<Rightarrow> (py_exc + archived_snapshot option) \<times> cache_run" where
  "fetch_snapshot connector target index remaining_wire remaining_decompressed run =
     (let maximum = min remaining_wire remaining_decompressed; ctx = cx_context run in
      case (case connector of
          UsageReportingConnector fetch \<Rightarrow>
            (case remaining_budget ctx ''redirects'' of
               Inl e \<Rightarrow> (Inl (value_exc e), run)
             | Inr redirects \<Rightarrow>
                 (case report_snapshot fetch target maximum \<lfloor>redirects\<rfloor> run of
                    (result, u, run1) \<Rightarrow>
                      (case charge_usage index u remaining_wire remaining_decompressed \<lfloor>redirects\<rfloor> (cx_context run1) of
                         (Inl e, ctx') \<Rightarrow> (Inl e, run1\<lparr>cx_context := ctx'\<rparr>)
                       | (Inr _, ctx') \<Rightarrow> (result, run1\<lparr>cx_context := ctx'\<rparr>))))
        | PlainConnector fetch \<Rightarrow>
            (case fetch target maximum (b_deadline_seconds (rq_budget (xc_request ctx))) (cx_env run) of
               (result, en) \<Rightarrow> (result, run\<lparr>cx_env := en\<rparr>))) of
        (Inl e, run') \<Rightarrow> (Inl (connector_failure e), run')
      | (Inr result, run') \<Rightarrow> (Inr result, run'))"

text \<open>The body of a connector that does not report its usage is charged afterwards.\<close>

definition charge_body :: "connector \<Rightarrow> archived_snapshot option \<Rightarrow> nat \<Rightarrow> int \<Rightarrow> int \<Rightarrow> cache_run \<Rightarrow> (py_exc + unit) \<times> cache_run" where
  "charge_body connector result index remaining_wire remaining_decompressed run =
     (case (connector, result) of
        (PlainConnector _, Some s) \<Rightarrow>
          let consumed = int (length (as_body s)) + as_auxiliary_bytes s in
          (case record_attempt_consumption (cx_context run) (int index)
                  [(''bytes'', of_int consumed), (''decompressed_bytes'', of_int consumed)] of
             Inl e \<Rightarrow> (Inl (value_exc e), run)
           | Inr ctx \<Rightarrow>
               (bind_res (raise_if (remaining_wire < consumed) (budget_exceeded ''bytes budget exhausted'')) (\<lambda>_.
                raise_if (remaining_decompressed < consumed) (budget_exceeded ''decompressed_bytes budget exhausted'')),
                run\<lparr>cx_context := ctx\<rparr>))
      | _ \<Rightarrow> (Inr (), run))"

definition check_archive_host :: "plan_node \<Rightarrow> archived_snapshot \<Rightarrow> py_exc + unit" where
  "check_archive_host node s =
     (if pn_capability_id node \<noteq> ''internet_archive_snapshot'' then Inr ()
      else bind_res (lift_exc (sanitize_url False (as_snapshot_url s))) (\<lambda>url.
        case drop 2 (py_split (CHR ''/'') url) of
          [] \<Rightarrow> Inl (value_exc (PyIndexError ''list index out of range''))
        | host # _ \<Rightarrow> raise_if (host \<noteq> ''web.archive.org'')
            (adapter_error ''Internet Archive snapshots must originate from web.archive.org'')))"

definition assess_snapshot :: "cache_services \<Rightarrow> fetch_request \<Rightarrow> archived_snapshot \<Rightarrow> quality_assessment" where
  "assess_snapshot sv request s =
     (if is_textual (as_media_type s)
      then assess_text (ca_unicode sv) (rq_language request) (map utf8_code (utf8_chars (utf8_replace (as_body s))))
      else assess_binary (int (length (as_body s))) (as_media_type s))"

definition put_body :: "cache_services \<Rightarrow> string \<Rightarrow> cache_run \<Rightarrow> (py_exc + string \<times> string \<times> nat) \<times> cache_run" where
  "put_body sv body run =
     (case cas_put (cv_sha256 (ca_codec sv)) (ca_cas_env sv) (ca_cas_root sv) body (cs_cas (cx_state run)) of
        (x, d) \<Rightarrow> ((case x of Inl e \<Rightarrow> Inl (cas_exc e) | Inr y \<Rightarrow> Inr y), run\<lparr>cx_state := (cx_state run)\<lparr>cs_cas := d\<rparr>\<rparr>))"

text \<open>What is made of a snapshot: resource, artifact, outcomes and an immutable record.\<close>

definition keep_snapshot ::
  "cache_services \<Rightarrow> plan_node \<Rightarrow> string \<Rightarrow> archived_snapshot \<Rightarrow> cache_run \<Rightarrow> (py_exc + artifact) \<times> cache_run" where
  "keep_snapshot sv node target s run =
     (let request = xc_request (cx_context run); capability = pn_capability_id node; cv = ca_codec sv in
      bind_run (put_body sv (as_body s) run) (\<lambda>(uri, digest, byte_size) run1.
      bind_run
        (bind_res (lift_exc (sanitize_url_for_request target request)) (\<lambda>canonical.
         bind_res (lift_exc (sanitize_url_for_request (as_snapshot_url s) request)) (\<lambda>requested.
         bind_res (lift_exc (py_item (map (\<lambda>(k, v). (k, VStr v)) REPRESENTATIONS) capability)) (\<lambda>repr.
           Inr (canonical, requested, case repr of VStr r \<Rightarrow> r | _ \<Rightarrow> [])))), run1)
        (\<lambda>(canonical, requested, repr) run2.
      let (resource_id, run3) = new_id run2;
          (artifact_id, run4) = new_id run3;
          resource = \<lparr>rs_resource_id = resource_id, rs_canonical_url = canonical, rs_requested_url = requested,
            rs_media_type = Some (as_media_type s), rs_status_code = Some 200, rs_retrieved_at = mo_utc (as_captured_at s),
            rs_authority_url = Some canonical, rs_checked_only = False\<rparr>;
          quality = assess_snapshot sv request s;
          artifact = build_artifact artifact_id (if qa_accepted quality then ''primary'' else ''checked-only'') repr
            (as_media_type s) uri digest byte_size resource (''configured-cache-connector/'' @ capability @ ''/0.4'') quality []
            [''captured:'' @ cv_isoformat cv (mo_utc (as_captured_at s))];
          run5 = in_context (\<lambda>c. record_quality_outcomes (c\<lparr>xc_resources := xc_resources c @ [resource],
            xc_artifacts := xc_artifacts c @ [artifact], xc_accepted := xc_accepted c \<or> qa_accepted quality\<rparr>) quality ''cache'') run4 in
      bind_run
        (bind_res (lift_exc (cache_key_for_request (cv_sha256 cv) request target repr (ar_extractor_version artifact) [])) (\<lambda>key.
         bind_res (ttl_seconds node request) (\<lambda>ttl. Inr (key, ttl))), run5)
        (\<lambda>(key, ttl) run6.
      bind_run (run_store sv key resource artifact capability ttl (as_etag s) (as_last_modified s) (qa_accepted quality) run6) (\<lambda>_ run7.
        (Inr artifact, in_context (\<lambda>c.
           record_runtime_event (record_outcome c capability CO_APPLIED ''cache''
               [(''operation'', VStr ''connector''), (''original_authority_preserved'', VBool True),
                (''accepted'', VBool (qa_accepted quality)), (''page_state'', VStr (page_state_value (qa_page_state quality))),
                (''key_digest'', VStr (key_digest cv key))])
             (if qa_accepted quality then ''snapshot_connector_succeeded'' else ''snapshot_connector_checked_only'') ''cache''
             [(''capability_id'', VStr capability), (''key_digest'', VStr (key_digest cv key)),
              (''artifact_sha256'', VStr (ar_sha256 artifact))]) run7))))))"

definition execute_connector :: "cache_services \<Rightarrow> plan_node \<Rightarrow> nat \<Rightarrow> cache_run \<Rightarrow> (py_exc + artifact) \<times> cache_run" where
  "execute_connector sv node index run =
     (let ctx = cx_context run; request = xc_request ctx in
      if rq_authentication_ref request \<noteq> None \<or> rq_privacy_profile request \<noteq> ''public''
      then (Inl (policy_exc_of ''third-party cache connectors require a public unauthenticated request'' []), run)
      else case ca_connectors sv (pn_capability_id node) of
        None \<Rightarrow> (Inl (simple_exc ExcDependency ''AdapterDependencyError''
                    (pn_capability_id node @ '' requires a configured snapshot connector'')), run)
      | Some connector \<Rightarrow>
          bind_run
            (bind_res (lift_exc (normalize_url (rq_target request))) (\<lambda>target.
             bind_res (lift_exc (sanitize_url False target)) (\<lambda>public_target.
             bind_res (raise_if (public_target \<noteq> target)
               (policy_exc_of ''third-party cache connectors cannot receive sensitive URL query values'' [])) (\<lambda>_.
             bind_res (lift_exc (remaining_budget ctx ''bytes'')) (\<lambda>wire.
             bind_res (lift_exc (remaining_budget ctx ''decompressed_bytes'')) (\<lambda>decompressed.
             bind_res (require_budget ctx ''bytes'' 1) (\<lambda>_.
             bind_res (require_budget ctx ''decompressed_bytes'' 1) (\<lambda>_.
               Inr (target, \<lfloor>wire\<rfloor>, \<lfloor>decompressed\<rfloor>)))))))), run)
            (\<lambda>(target, wire, decompressed) run1.
          bind_run (fetch_snapshot connector target index wire decompressed run1) (\<lambda>result run2.
          bind_run (charge_body connector result index wire decompressed run2) (\<lambda>_ run3.
          bind_run
            (bind_res (validated_connector_snapshot result) (\<lambda>s.
             bind_res (lift_exc (normalize_url (as_original_url s))) (\<lambda>original.
             bind_res (raise_if (original \<noteq> target)
               (adapter_error ''snapshot connector changed the original source authority'')) (\<lambda>_.
             bind_res (check_archive_host node s) (\<lambda>_. Inr s)))), run3)
            (\<lambda>s run4. keep_snapshot sv node target s run4)))))"

subsection \<open>The adapter\<close>

definition update_attempt :: "nat \<Rightarrow> (fetch_attempt \<Rightarrow> fetch_attempt) \<Rightarrow> execution_context \<Rightarrow> execution_context" where
  "update_attempt index f ctx =
     ctx\<lparr>xc_attempts := (xc_attempts ctx)[index := f (xc_attempts ctx ! index)]\<rparr>"

definition fail_attempt :: "nat \<Rightarrow> time \<Rightarrow> string \<Rightarrow> string list option \<Rightarrow> execution_context \<Rightarrow> execution_context" where
  "fail_attempt index now code warnings = update_attempt index (\<lambda>a. a\<lparr>at_status := AT_FAILED, at_finished_at := Some now,
     at_failure_code := Some code, at_warnings := (case warnings of None \<Rightarrow> at_warnings a | Some w \<Rightarrow> w)\<rparr>)"

text \<open>The handlers of \<^verbatim>\<open>execute\<close>, in their order; other exceptions leave the attempt running.\<close>

definition handle_failure :: "plan_node \<Rightarrow> nat \<Rightarrow> py_exc \<Rightarrow> cache_run \<Rightarrow> cache_run" where
  "handle_failure node index e run =
     (let now = en_clock (cx_env run); capability = pn_capability_id node;
          outcome = (\<lambda>status reason c. record_outcome c capability status ''cache'' [(''reason'', VStr reason)]) in
      if ex_class e = ExcDependency then
        in_context (\<lambda>c. fail_attempt index now ''dependency_missing'' None
          (outcome CO_DEPENDENCY_MISSING ''configured connector is unavailable'' c)) run
      else if ex_class e = ExcBudgetExceeded then
        in_context (\<lambda>c. fail_attempt index now ''budget_exhausted'' (Some [ex_message e]) (outcome CO_FAILED (ex_message e) c)) run
      else if ex_class e = ExcTimeout then
        in_context (\<lambda>c. fail_attempt index now ''budget_exhausted'' (Some [''snapshot connector deadline budget exhausted''])
          (outcome CO_FAILED ''snapshot connector deadline budget exhausted'' c)) run
      else if ex_class e = ExcPolicyBlocked then
        in_context (\<lambda>c. fail_attempt index now ''policy'' None
          (outcome CO_BLOCKED ''third-party cache connectors require a public unauthenticated request'' c)) run
      else if is_adapter_execution_error (ex_class e) then
        in_context (\<lambda>c. fail_attempt index now (failure_code e) (Some [ex_message e]) (outcome CO_FAILED (ex_message e) c)) run
      else run)"

definition apply_policy :: "cache_services \<Rightarrow> cache_run \<Rightarrow> (py_exc + unit) \<times> cache_run" where
  "apply_policy sv run =
     (case cs_policy (cx_state run) of
        None \<Rightarrow> (Inr (), run)
      | Some sp \<Rightarrow>
          (case normalize_url (rq_target (xc_request (cx_context run))) of
             Inl e \<Rightarrow> (Inl (value_exc e), run)
           | Inr target \<Rightarrow>
               (case evaluate (ca_resolver sv) sp target None of
                  Inl (PolicyBlocked reason decisions) \<Rightarrow> (Inl (policy_exc_of reason decisions), run)
                | Inl (PolicyRaised e) \<Rightarrow> (Inl (value_exc e), run)
                | Inr (_, decisions, sp') \<Rightarrow>
                    (Inr (), in_context (\<lambda>c.
                       fold (\<lambda>d c. record_outcome c (pd_policy_id d) CO_APPLIED ''security'' [(''reason'', VStr (pd_reason d))]) decisions
                         (c\<lparr>xc_policy_decisions := xc_policy_decisions c @ decisions\<rparr>))
                       (run\<lparr>cx_state := (cx_state run)\<lparr>cs_policy := Some sp'\<rparr>\<rparr>)))))"

definition cache_attempt :: "uuid \<Rightarrow> time \<Rightarrow> string \<Rightarrow> string \<Rightarrow> fetch_attempt" where
  "cache_attempt i now capability destination = \<lparr>at_attempt_id = i, at_capability_id = capability, at_adapter_version = ''0.4.0a0'',
     at_started_at = now, at_finished_at = None, at_sanitized_destination = destination, at_status = AT_RUNNING,
     at_http_status = None, at_bytes_received = 0, at_parser = None, at_artifact_ids = [], at_failure_code = None,
     at_warnings = [], at_consumed_budget = []\<rparr>"

definition run_capability :: "cache_services \<Rightarrow> plan_node \<Rightarrow> nat \<Rightarrow> cache_run \<Rightarrow> (py_exc + artifact \<times> string) \<times> cache_run" where
  "run_capability sv node index run =
     (if pn_capability_id node \<notin> set SNAPSHOT_CAPABILITIES
      then (Inl (adapter_error (''cache adapter cannot execute '' @ pn_capability_id node)), run)
      else bind_run (apply_policy sv run) (\<lambda>_ run1.
        if pn_capability_id node \<in> set CONNECTOR_CAPABILITIES
        then bind_run (execute_connector sv node index run1) (\<lambda>a run2. (Inr (a, ''configured-'' @ pn_capability_id node), run2))
        else bind_run (execute_storage sv node run1) (\<lambda>a run2. (Inr (a, ''validated-snapshot-cache''), run2))))"

definition cache_execute :: "cache_services \<Rightarrow> plan_node \<Rightarrow> cache_run \<Rightarrow> py_exc option \<times> cache_run" where
  "cache_execute sv node run0 =
     (case sanitize_url_for_request (rq_target (xc_request (cx_context run0))) (xc_request (cx_context run0)) of
        Inl e \<Rightarrow> (Some (value_exc e), run0)
      | Inr destination \<Rightarrow>
          let (attempt_id, run1) = new_id run0;
              attempt = cache_attempt attempt_id (en_clock (cx_env run0)) (pn_capability_id node) destination;
              index = length (xc_attempts (cx_context run0));
              run2 = in_context (\<lambda>c. c\<lparr>xc_attempts := xc_attempts c @ [attempt]\<rparr>) run1 in
          (case run_capability sv node index run2 of
             (Inl e, run3) \<Rightarrow> (Some e, handle_failure node index e run3)
           | (Inr (artifact, parser), run3) \<Rightarrow>
               (None, in_context (update_attempt index (\<lambda>a. a\<lparr>at_status := AT_SUCCEEDED,
                  at_finished_at := Some (en_clock (cx_env run3)), at_bytes_received := int (ar_size artifact),
                  at_parser := Some parser, at_artifact_ids := [ar_artifact_id artifact]\<rparr>)) run3)))"

end
