(* ===== verification/Cache_Correct.thy ===== *)
theory Cache_Correct
  imports Cache
begin

section \<open>The cache adapter keeps its budgets and its secrets\<close>

text \<open>
  What a call of the cache adapter leaves alone, its accounting of connector usage, and the independence of private requests from the connectors.
\<close>

subsection \<open>What the operations leave alone\<close>

definition quiet_run :: "cache_run \<Rightarrow> cache_run \<Rightarrow> bool" where
  "quiet_run s s' \<longleftrightarrow> xc_request (cx_context s') = xc_request (cx_context s) \<and> xc_attempts (cx_context s') = xc_attempts (cx_context s)"

named_theorems quiet

lemma quiet_run_refl [quiet]: "quiet_run s s"
  by (simp add: quiet_run_def)

lemma bind_run_quiet [quiet]:
  "quiet_run s (snd m) \<Longrightarrow> (\<And>x s1. m = (Inr x, s1) \<Longrightarrow> quiet_run s s1 \<Longrightarrow> quiet_run s (snd (f x s1))) \<Longrightarrow> quiet_run s (snd (bind_run m f))"
  by (cases m; cases "fst m") auto

lemma merge_snapshot_sel [simp]:
  "xc_request (merge_snapshot r c) = xc_request c" "xc_attempts (merge_snapshot r c) = xc_attempts c"
  by (simp_all add: merge_snapshot_def Let_def)

lemma in_context_quiet [quiet]:
  "quiet_run s run \<Longrightarrow> (\<And>c. xc_request (f c) = xc_request c \<and> xc_attempts (f c) = xc_attempts c) \<Longrightarrow> quiet_run s (in_context f run)"
  by (simp add: quiet_run_def in_context_def)

lemma run_store_quiet [quiet]: "quiet_run s run \<Longrightarrow> quiet_run s (snd (run_store sv key r a c ttl e l ok run))"
  by (simp add: run_store_def quiet_run_def Let_def split: prod.splits)

lemma run_not_modified_quiet [quiet]: "quiet_run s run \<Longrightarrow> quiet_run s (snd (run_not_modified sv key r ttl e l run))"
  by (simp add: run_not_modified_def quiet_run_def Let_def split: prod.splits)

lemma put_body_quiet [quiet]: "quiet_run s run \<Longrightarrow> quiet_run s (snd (put_body sv body run))"
  by (simp add: put_body_def quiet_run_def split: prod.splits)

lemma env_quiet [simp]: "quiet_run s (run\<lparr>cx_env := e\<rparr>) = quiet_run s run"
  by (simp add: quiet_run_def)

lemma store_operation_quiet [quiet]: "quiet_run run (snd (store_operation sv node repr run))"
  unfolding store_operation_def Let_def
  by (auto intro!: quiet split: prod.splits)

lemma lookup_operation_quiet [quiet]: "quiet_run run (snd (lookup_operation sv node operation repr run))"
  unfolding lookup_operation_def Let_def
  by (auto intro!: quiet split: prod.splits option.splits)

lemma execute_storage_quiet: "quiet_run run (snd (execute_storage sv node run))"
  by (auto simp: execute_storage_def Let_def intro!: quiet split: sum.splits)

lemma keep_snapshot_quiet: "quiet_run run (snd (keep_snapshot sv node target s run))"
  unfolding keep_snapshot_def Let_def new_id_def
  by (auto intro!: quiet split: prod.splits)

lemma fold_outcomes_sel:
  "xc_request (fold (\<lambda>d c. record_outcome c (i d) st sg (dt d)) ds c) = xc_request c"
  "xc_attempts (fold (\<lambda>d c. record_outcome c (i d) st sg (dt d)) ds c) = xc_attempts c"
  by (induction ds arbitrary: c) simp_all

lemma apply_policy_quiet: "quiet_run run (snd (apply_policy sv run))"
  by (auto simp: apply_policy_def quiet_run_def in_context_def fold_outcomes_sel split: option.splits sum.splits policy_exc.splits)

subsection \<open>Accounting\<close>

text \<open>A step keeps the request and the number of attempts, and stays within a budget it was within.\<close>

definition keeps_attempts :: "cache_run \<Rightarrow> cache_run \<Rightarrow> bool" where
  "keeps_attempts s s' \<longleftrightarrow> xc_request (cx_context s') = xc_request (cx_context s) \<and>
     length (xc_attempts (cx_context s')) = length (xc_attempts (cx_context s))"

definition METERED :: "string list" where
  "METERED = [''bytes'', ''decompressed_bytes'', ''redirects'']"

definition within_budget :: "cache_run \<Rightarrow> cache_run \<Rightarrow> bool" where
  "within_budget s s' \<longleftrightarrow> xc_request (cx_context s') = xc_request (cx_context s) \<and>
     (\<forall>name limit. name \<in> set METERED \<longrightarrow> budget_field (rq_budget (xc_request (cx_context s))) name = Some limit \<longrightarrow>
        consumed_budget (cx_context s') name \<le> max (consumed_budget (cx_context s) name) limit)"

lemma quiet_keeps: "quiet_run s s' \<Longrightarrow> keeps_attempts s s'"
  by (simp add: quiet_run_def keeps_attempts_def)

lemma quiet_within: "quiet_run s s' \<Longrightarrow> within_budget s s'"
  by (auto simp: quiet_run_def within_budget_def consumed_budget_def)

lemma within_budget_trans: "within_budget s s1 \<Longrightarrow> within_budget s1 s2 \<Longrightarrow> within_budget s s2"
  unfolding within_budget_def by (metis (no_types, opaque_lifting) max.absorb4 max.cobounded2 max_def order_trans)

lemma keeps_trans: "keeps_attempts s s1 \<Longrightarrow> keeps_attempts s1 s2 \<Longrightarrow> keeps_attempts s s2"
  by (simp add: keeps_attempts_def)

lemma record_consumption_sel:
  assumes "record_attempt_consumption ctx i cs = Inr ctx'"
  shows "xc_request ctx' = xc_request ctx" "length (xc_attempts ctx') = length (xc_attempts ctx)"
  using assms by (auto simp: record_attempt_consumption_def Let_def split: if_splits)

lemma charge_usage_keeps:
  assumes "charge_usage index u w d r ctx = (x, ctx')"
  shows "xc_request ctx' = xc_request ctx" "length (xc_attempts ctx') = length (xc_attempts ctx)"
  using assms by (auto simp: charge_usage_def Let_def dest: record_consumption_sel split: if_splits sum.splits)

definition metered_usage :: "connector_usage \<Rightarrow> string \<Rightarrow> rat" where
  "metered_usage u name = (if name = ''bytes'' then of_int (us_wire_bytes u)
     else if name = ''decompressed_bytes'' then of_int (us_decompressed_bytes u)
     else if name = ''redirects'' then of_int (us_redirects u) else 0)"

lemma charge_usage_exact:
  assumes "charge_usage index u w d r ctx = (Inr (), ctx')"
  shows "consumed_budget ctx' name = consumed_budget ctx name + metered_usage u name" "us_wire_bytes u \<le> w"
    "us_decompressed_bytes u \<le> d" "us_redirects u \<le> r"
proof -
  define cs :: "(string \<times> rat) list" where "cs = filter (\<lambda>(_, n). n \<noteq> 0) [(''bytes'', of_int (us_wire_bytes u)),
                 (''decompressed_bytes'', of_int (us_decompressed_bytes u)), (''redirects'', of_int (us_redirects u))]"
  have sum: "sum_list (map snd (filter (\<lambda>(n, _). n = name) cs)) = metered_usage u name"
    by (simp add: cs_def metered_usage_def)
  from assms obtain y where y: "(if cs = [] then Inr ctx else record_attempt_consumption ctx (int index) cs) = Inr y" "ctx' = y"
    and b: "us_wire_bytes u \<le> w" "us_decompressed_bytes u \<le> d" "us_redirects u \<le> r"
    unfolding charge_usage_def Let_def cs_def [symmetric] by (auto split: if_splits sum.splits)
  show "consumed_budget ctx' name = consumed_budget ctx name + metered_usage u name"
  proof (cases "cs = []")
    case True
    then show ?thesis using y sum by simp
  next
    case False
    then show ?thesis using y sum record_attempt_consumption_exact [of ctx "int index" cs ctx' name] by simp
  qed
  show "us_wire_bytes u \<le> w" "us_decompressed_bytes u \<le> d" "us_redirects u \<le> r" by (rule b)+
qed

lemma remaining_floor:
  assumes "remaining_budget ctx name = Inr left" "budget_field (rq_budget (xc_request ctx)) name = Some limit" "amount \<le> \<lfloor>left\<rfloor>"
  shows "consumed_budget ctx name + of_int amount \<le> max (consumed_budget ctx name) limit"
proof -
  have "left = max 0 (limit - consumed_budget ctx name)" using assms(1,2) by (simp add: remaining_budget_def)
  moreover have "of_int amount \<le> left" using assms(3) by (simp add: le_floor_iff)
  ultimately show ?thesis by (auto simp: max_def split: if_splits)
qed

lemma report_snapshot_quiet: "report_snapshot fetch target m r run = (x, u, run') \<Longrightarrow> quiet_run run run'"
  by (auto simp: report_snapshot_def quiet_run_def split: sum.splits prod.splits)

lemma fetch_snapshot_keeps: "keeps_attempts run (snd (fetch_snapshot connector target index w d run))"
proof (cases connector)
  case (PlainConnector fetch)
  then show ?thesis by (simp add: fetch_snapshot_def keeps_attempts_def split: prod.splits sum.splits)
next
  case (UsageReportingConnector fetch)
  show ?thesis
  proof (cases "remaining_budget (cx_context run) ''redirects''")
    case (Inr redirects)
    obtain x u run1 where r: "report_snapshot fetch target (min w d) \<lfloor>redirects\<rfloor> run = (x, u, run1)" by (rule prod_cases3)
    obtain y ctx' where c: "charge_usage index u w d \<lfloor>redirects\<rfloor> (cx_context run1) = (y, ctx')" by (rule prod.exhaust)
    show ?thesis
      using report_snapshot_quiet [OF r] charge_usage_keeps [OF c]
      by (auto simp: fetch_snapshot_def UsageReportingConnector Inr r c keeps_attempts_def quiet_run_def split: sum.splits)
  qed (simp add: fetch_snapshot_def UsageReportingConnector keeps_attempts_def)
qed

lemma fetch_snapshot_within:
  assumes "fetch_snapshot connector target index \<lfloor>w\<rfloor> \<lfloor>d\<rfloor> run = (Inr result, run')"
    "remaining_budget (cx_context run) ''bytes'' = Inr w" "remaining_budget (cx_context run) ''decompressed_bytes'' = Inr d"
  shows "within_budget run run'" "(\<exists>fetch. connector = PlainConnector fetch) \<Longrightarrow> quiet_run run run'"
proof -
  have plain: "quiet_run run run'" if "connector = PlainConnector fetch" for fetch
    using assms(1) that by (auto simp: fetch_snapshot_def quiet_run_def split: prod.splits sum.splits)
  then show "(\<exists>fetch. connector = PlainConnector fetch) \<Longrightarrow> quiet_run run run'" by blast
  show "within_budget run run'"
  proof (cases connector)
    case (PlainConnector fetch)
    then show ?thesis using plain quiet_within by blast
  next
    case (UsageReportingConnector fetch)
    then obtain redirects x u run1 y ctx' where r: "remaining_budget (cx_context run) ''redirects'' = Inr redirects"
      and s: "report_snapshot fetch target (min \<lfloor>w\<rfloor> \<lfloor>d\<rfloor>) \<lfloor>redirects\<rfloor> run = (x, u, run1)"
      and c: "charge_usage index u \<lfloor>w\<rfloor> \<lfloor>d\<rfloor> \<lfloor>redirects\<rfloor> (cx_context run1) = (Inr (), ctx')" "cx_context run' = ctx'"
      using assms(1) by (auto simp: fetch_snapshot_def split: prod.splits sum.splits)
    note q = report_snapshot_quiet [OF s, unfolded quiet_run_def]
    have cb: "consumed_budget (cx_context run1) name = consumed_budget (cx_context run) name" for name
      using q by (simp add: consumed_budget_def)
    note e = charge_usage_exact [OF c(1)] charge_usage_keeps [OF c(1)]
    show ?thesis
      using e q c(2) remaining_floor [OF assms(2)] remaining_floor [OF assms(3)] remaining_floor [OF r]
      by (auto simp: within_budget_def METERED_def metered_usage_def cb)
  qed
qed

lemma charge_body_keeps: "keeps_attempts run (snd (charge_body connector result index w d run))"
  by (auto simp: charge_body_def keeps_attempts_def Let_def dest: record_consumption_sel split: connector.splits option.splits sum.splits)

lemma charge_body_within:
  assumes "charge_body connector result index \<lfloor>w\<rfloor> \<lfloor>d\<rfloor> run = (Inr (), run')"
    "(\<exists>fetch. connector = PlainConnector fetch) \<Longrightarrow>
       remaining_budget (cx_context run) ''bytes'' = Inr w \<and> remaining_budget (cx_context run) ''decompressed_bytes'' = Inr d"
  shows "within_budget run run'"
proof (cases "(\<exists>fetch. connector = PlainConnector fetch) \<and> result \<noteq> None")
  case False
  then have "run' = run" using assms(1) by (auto simp: charge_body_def split: connector.splits option.splits)
  then show ?thesis by (simp add: within_budget_def)
next
  case True
  then obtain fetch s where p: "connector = PlainConnector fetch" "result = Some s" by blast
  define n where "n = int (length (as_body s)) + as_auxiliary_bytes s"
  from assms(1) p obtain ctx' where c: "record_attempt_consumption (cx_context run) (int index)
      [(''bytes'', of_int n), (''decompressed_bytes'', of_int n)] = Inr ctx'" "cx_context run' = ctx'" "n \<le> \<lfloor>w\<rfloor>" "n \<le> \<lfloor>d\<rfloor>"
    by (auto simp: charge_body_def n_def Let_def split: sum.splits)
  note e = record_attempt_consumption_exact [OF c(1)] record_consumption_sel [OF c(1)]
  have r: "remaining_budget (cx_context run) ''bytes'' = Inr w" "remaining_budget (cx_context run) ''decompressed_bytes'' = Inr d"
    using assms(2) p(1) by blast+
  show ?thesis
    using e c(2) remaining_floor [OF r(1) _ c(3)] remaining_floor [OF r(2) _ c(4)]
    by (auto simp: within_budget_def METERED_def)
qed

lemma bind_run_keeps:
  "keeps_attempts s (snd m) \<Longrightarrow> (\<And>x s1. m = (Inr x, s1) \<Longrightarrow> keeps_attempts s s1 \<Longrightarrow> keeps_attempts s (snd (f x s1))) \<Longrightarrow> keeps_attempts s (snd (bind_run m f))"
  by (cases m; cases "fst m") auto

lemma keeps_refl: "keeps_attempts s s"
  by (simp add: keeps_attempts_def)

lemmas keeps_steps =
  keeps_trans [OF _ fetch_snapshot_keeps] keeps_trans [OF _ charge_body_keeps]
  keeps_trans [OF _ quiet_keeps [OF keep_snapshot_quiet]] keeps_trans [OF _ quiet_keeps [OF execute_storage_quiet]]

lemma execute_connector_keeps: "keeps_attempts run (snd (execute_connector sv node index run))"
  unfolding execute_connector_def Let_def
  by (auto intro!: bind_run_keeps keeps_refl keeps_steps split: option.splits prod.splits)

lemma run_capability_keeps: "keeps_attempts run (snd (run_capability sv node index run))"
  unfolding run_capability_def
  by (auto intro!: bind_run_keeps keeps_refl keeps_steps keeps_trans [OF _ execute_connector_keeps]
      quiet_keeps [OF apply_policy_quiet])

lemma execute_connector_within:
  assumes "execute_connector sv node index run = (Inr a, run')"
  shows "within_budget run run'"
proof -
  from assms obtain connector target w d result run2 run3 s where
    w: "remaining_budget (cx_context run) ''bytes'' = Inr w" "remaining_budget (cx_context run) ''decompressed_bytes'' = Inr d"
    and f: "fetch_snapshot connector target index \<lfloor>w\<rfloor> \<lfloor>d\<rfloor> run = (Inr result, run2)"
    and c: "charge_body connector result index \<lfloor>w\<rfloor> \<lfloor>d\<rfloor> run2 = (Inr (), run3)"
    and k: "keep_snapshot sv node target s run3 = (Inr a, run')"
    by (auto simp: execute_connector_def Let_def bind_run_def lift_exc_def split: if_splits option.splits sum.splits prod.splits)
  note fw = fetch_snapshot_within [OF f w]
  have "remaining_budget (cx_context run2) ''bytes'' = Inr w \<and> remaining_budget (cx_context run2) ''decompressed_bytes'' = Inr d"
    if "\<exists>fetch. connector = PlainConnector fetch"
  proof -
    have q: "xc_request (cx_context run2) = xc_request (cx_context run)" "xc_attempts (cx_context run2) = xc_attempts (cx_context run)"
      using fw(2) [OF that] by (simp_all add: quiet_run_def)
    show ?thesis using w unfolding remaining_budget_def consumed_budget_def q by blast
  qed
  from charge_body_within [OF c this] have cw: "within_budget run2 run3" .
  have "within_budget run3 run'" using keep_snapshot_quiet [of run3 sv node target s] k by (simp add: quiet_within)
  then show ?thesis using within_budget_trans [OF fw(1) within_budget_trans [OF cw]] by blast
qed

lemma run_capability_within:
  assumes "run_capability sv node index run = (Inr x, run')"
  shows "within_budget run run'"
proof -
  obtain y run1 where p: "apply_policy sv run = (y, run1)" by (rule prod.exhaust)
  have q: "within_budget run run1" using apply_policy_quiet [of run sv] p by (simp add: quiet_within)
  from assms p consider a where "execute_connector sv node index run1 = (Inr a, run')"
    | a where "execute_storage sv node run1 = (Inr a, run')"
    by (cases y) (auto simp: run_capability_def bind_run_def split: if_splits sum.splits prod.splits)
  then have "within_budget run1 run'"
  proof cases
    case 1
    then show ?thesis by (rule execute_connector_within)
  next
    case 2
    then show ?thesis using execute_storage_quiet [of run1 sv node] by (simp add: quiet_within)
  qed
  then show ?thesis by (rule within_budget_trans [OF q])
qed

lemma update_attempt_sel:
  "xc_request (update_attempt i f c) = xc_request c" "length (xc_attempts (update_attempt i f c)) = length (xc_attempts c)"
  by (simp_all add: update_attempt_def)

lemma update_attempt_consumed:
  assumes "\<And>a. at_consumed_budget (f a) = at_consumed_budget a"
  shows "consumed_budget (update_attempt i f c) name = consumed_budget c name"
proof -
  have "consumption name (f a) = consumption name a" for a using assms by (simp add: consumption_def)
  then have "map (consumption name) ((xc_attempts c)[i := f (xc_attempts c ! i)]) = map (consumption name) (xc_attempts c)"
    by (cases "i < length (xc_attempts c)") (simp_all add: map_update list_update_same_conv list_update_beyond)
  then show ?thesis by (simp add: update_attempt_def consumed_budget_def)
qed

lemma handle_failure_keeps: "keeps_attempts run (handle_failure node index e run)"
  by (simp add: handle_failure_def Let_def keeps_attempts_def in_context_def fail_attempt_def update_attempt_sel)

lemma cache_execute_accounting:
  assumes "cache_execute sv node run = (x, run')"
  shows "length (xc_attempts (cx_context run')) \<le> length (xc_attempts (cx_context run)) + 1 \<and>
    xc_request (cx_context run') = xc_request (cx_context run) \<and>
    (x = None \<longrightarrow> name \<in> set METERED \<longrightarrow> budget_field (rq_budget (xc_request (cx_context run))) name = Some limit \<longrightarrow>
       consumed_budget (cx_context run') name \<le> max (consumed_budget (cx_context run) name) limit)"
proof (cases "sanitize_url_for_request (rq_target (xc_request (cx_context run))) (xc_request (cx_context run))")
  case (Inl e)
  then show ?thesis using assms by (auto simp: cache_execute_def)
next
  case (Inr destination)
  define attempt where "attempt = cache_attempt (en_next_id (cx_env run)) (en_clock (cx_env run)) (pn_capability_id node) destination"
  define index where "index = length (xc_attempts (cx_context run))"
  define run2 where "run2 = in_context (\<lambda>c. c\<lparr>xc_attempts := xc_attempts c @ [attempt]\<rparr>) (snd (new_id run))"
  obtain y run3 where y: "run_capability sv node index run2 = (y, run3)" by (rule prod.exhaust)
  have r2: "xc_request (cx_context run2) = xc_request (cx_context run)" "length (xc_attempts (cx_context run2)) = Suc index"
    "consumed_budget (cx_context run2) name = consumed_budget (cx_context run) name"
    by (simp_all add: run2_def in_context_def new_id_def index_def consumed_budget_def attempt_def cache_attempt_def consumption_def)
  have k: "keeps_attempts run2 run3" using run_capability_keeps [of run2 sv node index] y by simp
  have e: "cache_execute sv node run = (case y of Inl e \<Rightarrow> (Some e, handle_failure node index e run3)
     | Inr (artifact, parser) \<Rightarrow> (None, in_context (update_attempt index (\<lambda>a. a\<lparr>at_status := AT_SUCCEEDED,
                  at_finished_at := Some (en_clock (cx_env run3)), at_bytes_received := int (ar_size artifact),
                  at_parser := Some parser, at_artifact_ids := [ar_artifact_id artifact]\<rparr>)) run3))"
    using y by (auto simp: cache_execute_def Inr Let_def new_id_def run2_def index_def attempt_def split: sum.splits)
  show ?thesis
  proof (cases y)
    case (Inl err)
    then show ?thesis using e assms k handle_failure_keeps [of run3 node index err] r2
      by (auto simp: keeps_attempts_def index_def)
  next
    case inr: (Inr p)
    have w: "within_budget run2 run3" using run_capability_within y inr by blast
    obtain artifact parser where p: "p = (artifact, parser)" by (rule prod.exhaust)
    have run': "run' = in_context (update_attempt index (\<lambda>a. a\<lparr>at_status := AT_SUCCEEDED,
                  at_finished_at := Some (en_clock (cx_env run3)), at_bytes_received := int (ar_size artifact),
                  at_parser := Some parser, at_artifact_ids := [ar_artifact_id artifact]\<rparr>)) run3"
      using e assms inr p by simp
    have cb: "consumed_budget (cx_context run') name = consumed_budget (cx_context run3) name"
      unfolding run' in_context_def by (simp add: update_attempt_consumed)
    show ?thesis
      using w k r2 cb by (auto simp: within_budget_def keeps_attempts_def index_def run' in_context_def update_attempt_sel)
  qed
qed

text \<open>
  The adapter in the form the executor calls, on a given state of its stores: one attempt for each
  call, as the retry loop requires.
\<close>

definition as_adapter :: "cache_services \<Rightarrow> cache_state \<Rightarrow> adapter" where
  "as_adapter sv cs node ctx en =
     (case cache_execute sv node \<lparr>cx_context = ctx, cx_env = en, cx_state = cs\<rparr> of
        (e, run) \<Rightarrow> (cx_context run, cx_env run, e))"

text \<open>
  C18: the cache adapter stays within its budgets. Whatever a connector returns or reports, a call that
  succeeds leaves the consumed bytes, decompressed bytes and redirects of the run within the
  budget (or where they already were). Every call, successful or not, adds at most one attempt and
  does not change the request.
\<close>

theorem cache_within_budget:
  assumes "as_adapter sv cs node ctx en = (ctx', en', None)" "name \<in> set METERED"
    "budget_field (rq_budget (xc_request ctx)) name = Some limit"
  shows "consumed_budget ctx' name \<le> max (consumed_budget ctx name) limit \<and> one_attempt (as_adapter sv cs)"
proof -
  have "one_attempt (as_adapter sv cs)"
    unfolding one_attempt_def as_adapter_def using cache_execute_accounting by (fastforce split: prod.splits)
  moreover have "consumed_budget ctx' name \<le> max (consumed_budget ctx name) limit"
    using assms cache_execute_accounting [of sv node "\<lparr>cx_context = ctx, cx_env = en, cx_state = cs\<rparr>" None]
    by (auto simp: as_adapter_def split: prod.splits)
  ultimately show ?thesis by blast
qed

subsection \<open>Connectors\<close>

text \<open>Two tables that configure connectors for the same capabilities.\<close>

definition same_connectors :: "cache_services \<Rightarrow> cache_services \<Rightarrow> bool" where
  "same_connectors sv sv' \<longleftrightarrow> sv' = sv\<lparr>ca_connectors := ca_connectors sv'\<rparr> \<and>
     (\<forall>c. ca_connectors sv c = None \<longleftrightarrow> ca_connectors sv' c = None)"

definition must_stay_private :: "fetch_request \<Rightarrow> bool" where
  "must_stay_private request \<longleftrightarrow> rq_authentication_ref request \<noteq> None \<or> rq_privacy_profile request \<noteq> ''public'' \<or>
     (case normalize_url (rq_target request) of Inr t \<Rightarrow> sanitize_url False t \<noteq> Inr t | Inl _ \<Rightarrow> True)"

lemma execute_connector_private:
  assumes "must_stay_private (xc_request (cx_context run))" "same_connectors sv sv'"
  shows "execute_connector sv node index run = execute_connector sv' node index run" (is "?l = ?r")
    and "\<exists>e. execute_connector sv node index run = (Inl e, run)"
proof -
  let ?rq = "xc_request (cx_context run)"
  consider "rq_authentication_ref ?rq \<noteq> None \<or> rq_privacy_profile ?rq \<noteq> ''public''"
    | "ca_connectors sv (pn_capability_id node) = None" "ca_connectors sv' (pn_capability_id node) = None"
    | c c' where "ca_connectors sv (pn_capability_id node) = Some c" "ca_connectors sv' (pn_capability_id node) = Some c'"
        "case normalize_url (rq_target ?rq) of Inr t \<Rightarrow> sanitize_url False t \<noteq> Inr t | Inl _ \<Rightarrow> True"
    using assms unfolding must_stay_private_def same_connectors_def by (metis not_None_eq)
  then have "?l = ?r \<and> (\<exists>e. ?l = (Inl e, run))"
  proof cases
    case 1
    then show ?thesis by (auto simp: execute_connector_def Let_def)
  next
    case 2
    then show ?thesis by (simp add: execute_connector_def Let_def)
  next
    case 3
    show ?thesis
    proof (cases "normalize_url (rq_target ?rq)")
      case (Inl e)
      then show ?thesis using 3 by (simp add: execute_connector_def lift_exc_def Let_def)
    next
      case (Inr t)
      then show ?thesis using 3
        by (cases "sanitize_url False t") (simp_all add: execute_connector_def lift_exc_def Let_def)
    qed
  qed
  then show "?l = ?r" "\<exists>e. ?l = (Inl e, run)" by blast+
qed

lemma connectors_sel:
  "ca_codec (sv\<lparr>ca_connectors := t\<rparr>) = ca_codec sv" "ca_resolver (sv\<lparr>ca_connectors := t\<rparr>) = ca_resolver sv"
  by simp_all

lemma connectors_upd [simp]:
  "cas_read (sv\<lparr>ca_connectors := t\<rparr>) cs = cas_read sv cs"
  "run_store (sv\<lparr>ca_connectors := t\<rparr>) key r a c ttl e l ok run = run_store sv key r a c ttl e l ok run"
  "run_not_modified (sv\<lparr>ca_connectors := t\<rparr>) key s ttl e l run = run_not_modified sv key s ttl e l run"
  "request_key (sv\<lparr>ca_connectors := t\<rparr>) node rq repr v = request_key sv node rq repr v"
  by (simp_all add: cas_read_def run_store_def run_not_modified_def request_key_def)

lemma apply_policy_connectors [simp]: "apply_policy (sv\<lparr>ca_connectors := t\<rparr>) run = apply_policy sv run"
  unfolding apply_policy_def connectors_sel by (rule refl)

lemma storage_connectors:
  "store_operation (sv\<lparr>ca_connectors := t\<rparr>) node repr run = store_operation sv node repr run"
  "lookup_operation (sv\<lparr>ca_connectors := t\<rparr>) node operation repr run = lookup_operation sv node operation repr run"
  unfolding store_operation_def lookup_operation_def connectors_upd connectors_sel by (rule refl)+

lemma execute_storage_connectors: "execute_storage (sv\<lparr>ca_connectors := t\<rparr>) node run = execute_storage sv node run"
  unfolding execute_storage_def storage_connectors connectors_sel by (rule refl)

text \<open>
  C16: private requests stay away from third parties. For a request with a credential, with a
  private profile, or with a target that sanitising would change, no connector is ever called: what the
  adapter does is the same for any two tables of connectors for the same capabilities.
\<close>

theorem connectors_see_public_only:
  assumes "must_stay_private (xc_request (cx_context run))" "same_connectors sv sv'"
  shows "cache_execute sv node run = cache_execute sv' node run"
proof -
  obtain t where sv': "sv' = sv\<lparr>ca_connectors := t\<rparr>" using assms(2) unfolding same_connectors_def by metis
  have "run_capability sv node index s = run_capability sv' node index s"
    if "xc_request (cx_context s) = xc_request (cx_context run)" for index s
  proof -
    obtain y s1 where p: "apply_policy sv s = (y, s1)" by (rule prod.exhaust)
    have "xc_request (cx_context s1) = xc_request (cx_context s)"
      using apply_policy_quiet [of s sv] p by (simp add: quiet_run_def)
    then have "must_stay_private (xc_request (cx_context s1))" using assms(1) that by simp
    from execute_connector_private(1) [OF this assms(2)] show ?thesis
      unfolding run_capability_def sv' using p by (cases y) (simp_all add: execute_storage_connectors)
  qed
  then show ?thesis
    by (simp add: cache_execute_def Let_def new_id_def in_context_def split: sum.splits)
qed

subsection \<open>An instance\<close>

definition plain_unicode :: unicode where
  "plain_unicode = \<lparr>uc_space = (\<lambda>c. c = 32), uc_word = (\<lambda>c. 65 \<le> c), uc_digit = (\<lambda>c. 48 \<le> c \<and> c \<le> 57), uc_casefold = (\<lambda>s. s)\<rparr>"

definition sample_cache :: cache_services where
  "sample_cache = \<lparr>ca_codec = sample_codec, ca_disk = (\<lambda>_. None), ca_cas_env = quiet_disk, ca_cas_root = [''cas''],
     ca_reads = quiet_calls, ca_resolver = (\<lambda>_ _. None), ca_unicode = plain_unicode, ca_connectors = (\<lambda>_. None)\<rparr>"

definition sample_cache_state :: cache_state where
  "sample_cache_state = \<lparr>cs_snapshots = (\<lambda>_. None), cs_cas = sample_dir, cs_policy = None\<rparr>"

definition accepted_artifact :: artifact where
  "accepted_artifact = snapshot_artifact\<lparr>ar_quality := default_quality\<lparr>qa_accepted := True\<rparr>\<rparr>"

definition cached_context :: execution_context where
  "cached_context = (ExecutionContext 1 (default_request ''https://a.b/''))\<lparr>xc_resources := [snapshot_resource], xc_artifacts := [accepted_artifact]\<rparr>"

definition store_node :: plan_node where
  "store_node = PlanNode ''cache'' ''local_snapshot'' ''cache'' []"

definition start_env :: env where
  "start_env = \<lparr>en_clock = 5, en_next_id = 10\<rparr>"

lemma sample_store:
  "\<exists>r st. store_snapshot sample_codec (\<lambda>_. None) sample_reads snapshot_key snapshot_resource accepted_artifact
     (default_request ''https://a.b/'') ''local_snapshot'' (utc 5) (Some (utc 3605)) None None True (\<lambda>_. None) = (Inr r, st)"
proof -
  have "sanitized_resource (default_request ''https://a.b/'') snapshot_resource = Inr snapshot_resource" by code_simp
  moreover have "''local_snapshot'' \<in> set SNAPSHOT_CAPABILITIES" by code_simp
  moreover have "verify_artifact toy_digest sample_reads accepted_artifact = Inr ()"
    using sample_verified unfolding sample_reads_def sample_codec_sel(1) fs_cas.verified_body by (simp add: accepted_artifact_def)
  moreover have "snapshot_id sample_codec snapshot_key accepted_artifact 5 ''local_snapshot'' = toy_digest []"
    by (simp add: snapshot_id_def toy_digest_def)
  moreover have "ar_source_resource_id accepted_artifact = rs_resource_id snapshot_resource"
    by (simp add: accepted_artifact_def snapshot_artifact_def snapshot_resource_def)
  ultimately show ?thesis
    by (simp add: store_snapshot_def snapshot_metadata_def Let_def sample_digest lift_exc_def require_aware_def utc_def
        validate_validator_def MAX_METADATA_BYTES_def record_path_def in_partition_def write_immutable_def)
qed

lemma sample_store_operation:
  assumes "run = \<lparr>cx_context = cached_context\<lparr>xc_attempts := as\<rparr>, cx_env = start_env\<lparr>en_next_id := 11\<rparr>, cx_state = sample_cache_state\<rparr>"
  shows "\<exists>a run'. execute_storage sample_cache store_node run = (Inr a, run')"
proof -
  have a: "latest_artifact (cx_context run) allowed = (if allowed = [] \<or> ''raw'' \<in> set allowed then Some accepted_artifact else None)" for allowed
    by (simp add: assms latest_artifact_def cached_context_def accepted_artifact_def snapshot_artifact_def)
  have r: "representation_of store_node (Some accepted_artifact) = Inr ''raw''" by code_simp
  have v: "validated_source (cx_context run) ''raw'' = Inr (snapshot_resource, accepted_artifact)"
    by (simp add: validated_source_def a) (simp add: assms cached_context_def accepted_artifact_def snapshot_artifact_def snapshot_resource_def)
  have p: "parser_version store_node (Some accepted_artifact) = Inr ''x''" by code_simp
  have rq0: "xc_request cached_context = default_request ''https://a.b/''" by (simp add: cached_context_def ExecutionContext_def)
  then have rq: "xc_request (cx_context run) = default_request ''https://a.b/''" by (simp add: assms)
  have k: "request_key sample_cache store_node (default_request ''https://a.b/'') ''raw'' ''x'' = Inr snapshot_key" by code_simp
  have t: "ttl_seconds store_node (default_request ''https://a.b/'') = Inr 3600" by code_simp
  have o: "optional_parameter store_node ''etag'' = Inr None" "optional_parameter store_node ''last_modified'' = Inr None" by code_simp+
  obtain s st where s: "store_snapshot sample_codec (\<lambda>_. None) sample_reads snapshot_key snapshot_resource accepted_artifact
     (default_request ''https://a.b/'') ''local_snapshot'' (utc 5) (Some (utc 3605)) None None True (\<lambda>_. None) = (Inr s, st)"
    using sample_store by blast
  have w: "\<exists>run1. run_store sample_cache snapshot_key snapshot_resource accepted_artifact ''local_snapshot'' 3600 None None True run = (Inr s, run1)"
    using s by (simp add: run_store_def rq0 assms cas_read_def sample_cache_def sample_cache_state_def sample_reads_def start_env_def)
  have n: "py_get (pn_parameters store_node) ''cache_operation'' (VStr []) = VStr []" "pn_capability_id store_node = ''local_snapshot''"
    by (simp_all add: store_node_def PlanNode_def py_get_def)
  from w obtain run1 where w': "run_store sample_cache snapshot_key snapshot_resource accepted_artifact ''local_snapshot'' 3600 None None True run = (Inr s, run1)" by blast
  have "\<exists>a run'. store_operation sample_cache store_node ''raw'' run = (Inr a, run')"
    unfolding store_operation_def Let_def v rq bind_res_simps prod.case p k t o n(2) bind_run_simps w' by blast
  then show ?thesis
    by (simp add: execute_storage_def a r n py_str_def py_lower_def py_strip_def py_lstrip_by_def py_rstrip_by_def)
qed

theorem cache_within_budget_witness:
  "\<exists>ctx' en'. as_adapter sample_cache sample_cache_state store_node cached_context start_env = (ctx', en', None) \<and>
     consumed_budget ctx' ''bytes'' \<le> 10000000 \<and> one_attempt (as_adapter sample_cache sample_cache_state)"
proof -
  let ?rq = "default_request ''https://a.b/''"
  have rq: "xc_request cached_context = ?rq" "xc_attempts cached_context = []" by (simp_all add: cached_context_def ExecutionContext_def)
  have d: "sanitize_url_for_request (rq_target ?rq) ?rq = Inr ''https://a.b/''" by code_simp
  have m: "''local_snapshot'' \<in> set SNAPSHOT_CAPABILITIES" "''local_snapshot'' \<notin> set CONNECTOR_CAPABILITIES" by code_simp+
  define as where "as = [cache_attempt 10 5 ''local_snapshot'' ''https://a.b/'']"
  define run where "run = \<lparr>cx_context = cached_context\<lparr>xc_attempts := as\<rparr>, cx_env = start_env\<lparr>en_next_id := 11\<rparr>, cx_state = sample_cache_state\<rparr>"
  obtain a run' where "execute_storage sample_cache store_node run = (Inr a, run')" using sample_store_operation [OF run_def] by blast
  then have "run_capability sample_cache store_node 0 run = (Inr (a, ''validated-snapshot-cache''), run')"
    using m by (simp add: run_capability_def store_node_def PlanNode_def apply_policy_def run_def sample_cache_state_def)
  then obtain ctx' en' where e: "as_adapter sample_cache sample_cache_state store_node cached_context start_env = (ctx', en', None)"
    by (simp add: as_adapter_def cache_execute_def rq d new_id_def Let_def in_context_def run_def as_def start_env_def store_node_def PlanNode_def)
  moreover have "budget_field (rq_budget ?rq) ''bytes'' = Some 10000000" by code_simp
  moreover have "consumed_budget cached_context ''bytes'' = 0" by (simp add: consumed_budget_def rq)
  ultimately show ?thesis
    using cache_within_budget [OF e, of "''bytes''" 10000000] by (auto simp: rq METERED_def)
qed

theorem connectors_see_public_only_witness:
  "cache_execute (sample_cache\<lparr>ca_connectors := (\<lambda>_. Some (PlainConnector (\<lambda>url _ _ en. (Inl (adapter_error url), en))))\<rparr>)
     (store_node\<lparr>pn_capability_id := ''web_archive''\<rparr>)
     \<lparr>cx_context = ExecutionContext 1 ((default_request ''https://a.b/'')\<lparr>rq_authentication_ref := Some ''ref''\<rparr>), cx_env = start_env, cx_state = sample_cache_state\<rparr> =
   cache_execute (sample_cache\<lparr>ca_connectors := (\<lambda>_. Some (PlainConnector (\<lambda>_ _ _ en. (Inr None, en))))\<rparr>)
     (store_node\<lparr>pn_capability_id := ''web_archive''\<rparr>)
     \<lparr>cx_context = ExecutionContext 1 ((default_request ''https://a.b/'')\<lparr>rq_authentication_ref := Some ''ref''\<rparr>), cx_env = start_env, cx_state = sample_cache_state\<rparr>"
  by (rule connectors_see_public_only) (simp_all add: must_stay_private_def same_connectors_def ExecutionContext_def)

end
