(* ===== verification/Variants.thy ===== *)
theory Variants
  imports Security
begin

section \<open>URL variants: variants.py\<close>

text \<open>
  The candidate URLs of \<^verbatim>\<open>generate_variant_map\<close>, in the order of the capabilities, and the rule that
  none of them leaves HTTPS.
\<close>

definition TRACKING_KEYS :: "string list" where
  "TRACKING_KEYS = [''fbclid'', ''gclid'', ''mc_cid'', ''mc_eid'']"

definition TRACKING_PREFIXES :: "string list" where
  "TRACKING_PREFIXES = [''utm_'']"

definition tracking_key :: "string \<Rightarrow> bool" where
  "tracking_key key \<longleftrightarrow> py_lower key \<in> set TRACKING_KEYS \<or> list_ex (py_startswith (py_lower key)) TRACKING_PREFIXES"

definition clean_query_parameters :: "string \<Rightarrow> string res" where
  "clean_query_parameters url =
     bind_res (urlsplit url) (\<lambda>parts.
     let query = urlencode (filter (\<lambda>(key, _). \<not> tracking_key key) (parse_qsl True (sr_query parts)))
     in Inr (urlunsplit (parts\<lparr>sr_query := query, sr_fragment := []\<rparr>)))"

text \<open>\<^verbatim>\<open>[A-Za-z]{2,8}(?:-[A-Za-z0-9]{1,8})*\<close>\<close>

definition language_tag :: "string \<Rightarrow> bool" where
  "language_tag s =
     (case py_split (CHR ''-'') s of
        first # rest \<Rightarrow> 2 \<le> length first \<and> length first \<le> 8 \<and> list_all is_alpha first \<and>
          list_all (\<lambda>p. 1 \<le> length p \<and> length p \<le> 8 \<and> list_all (\<lambda>c. is_alpha c \<or> is_digit c) p) rest
      | [] \<Rightarrow> False)"

definition downgrades :: "string \<Rightarrow> string \<Rightarrow> bool res" where
  "downgrades original candidate =
     bind_res (urlsplit original) (\<lambda>o'.
       if sr_scheme o' = ''https'' then bind_res (urlsplit candidate) (\<lambda>c. Inr (sr_scheme c = ''http'')) else Inr False)"

definition safe_optional_url :: "string option \<Rightarrow> string option" where
  "safe_optional_url candidate =
     (case candidate of
        None \<Rightarrow> None
      | Some c \<Rightarrow> if c = [] then None else (case normalize_url c of Inr u \<Rightarrow> Some u | Inl _ \<Rightarrow> None))"

definition truthy :: "string option \<Rightarrow> string option" where
  "truthy v = (case v of Some [] \<Rightarrow> None | _ \<Rightarrow> v)"

definition strip_slashes :: "string \<Rightarrow> string" where
  "strip_slashes = py_rstrip_by (\<lambda>c. c = CHR ''/'')"

definition variant_candidates ::
  "string \<Rightarrow> split_result \<Rightarrow> nat option \<Rightarrow> string \<Rightarrow> string option \<Rightarrow> string option \<Rightarrow> string option \<Rightarrow> (string \<times> string option) list" where
  "variant_candidates original parts port_number clean language region canonical_url =
     (let host = sr_hostname parts;
          port = (case port_number of Some p \<Rightarrow> if p \<noteq> 0 then '':'' @ nat_to_str p else [] | None \<Rightarrow> []);
          path = sr_path parts;
          without_www = py_removeprefix host ''www.'';
          path_without_slash = (if strip_slashes path = [] then ''/'' else strip_slashes path);
          valid_language = (case truthy language of Some l \<Rightarrow> if language_tag l then Some l else None | None \<Rightarrow> None);
          language_path = map_option (\<lambda>l. CHR ''/'' # py_lower l @ (if py_startswith path ''/'' then path else CHR ''/'' # path)) valid_language;
          query = parse_qsl True (sr_query parts);
          print_query = urlencode (query @ [(''output'', ''1'')]);
          region_query = map_option (\<lambda>r. urlencode (query @ [(''region'', r)])) (truthy region);
          unsplit = (\<lambda>scheme netloc path' query'. urlunsplit \<lparr>sr_scheme = scheme, sr_netloc = netloc, sr_path = path',
            sr_query = query', sr_fragment = []\<rparr>);
          scheme = sr_scheme parts; netloc = sr_netloc parts; q = sr_query parts
      in [(''http_to_https'', if scheme = ''http'' then Some (unsplit ''https'' netloc path q) else None),
          (''https_to_http'', None),
          (''www_to_non_www'', if py_startswith host ''www.'' then Some (unsplit scheme (without_www @ port) path q) else None),
          (''non_www_to_www'', if host \<noteq> [] \<and> \<not> py_startswith host ''www.''
             then Some (unsplit scheme (''www.'' @ host @ port) path q) else None),
          (''trailing_slash'', if \<not> py_endswith path ''/'' then Some (unsplit scheme netloc (path @ ''/'') q) else None),
          (''remove_trailing_slash'', if py_endswith path ''/'' \<and> path \<noteq> ''/''
             then Some (unsplit scheme netloc path_without_slash q) else None),
          (''clean_query_parameters'', if clean \<noteq> original then Some clean else None),
          (''canonical_url_variant'', safe_optional_url canonical_url),
          (''mobile_variant'', if host \<noteq> [] \<and> \<not> py_startswith host ''m.''
             then Some (unsplit scheme (''m.'' @ without_www @ port) path q) else None),
          (''amp_variant'', if \<not> py_endswith (strip_slashes path) ''/amp''
             then Some (unsplit scheme netloc (strip_slashes path @ ''/amp'') q) else None),
          (''print_variant'', Some (unsplit scheme netloc path print_query)),
          (''language_variant'', map_option (\<lambda>p. unsplit scheme netloc p q) (truthy language_path)),
          (''region_variant'', map_option (\<lambda>rq. unsplit scheme netloc path rq) (truthy region_query))])"

definition keep_candidate :: "string \<Rightarrow> string \<times> string option \<Rightarrow> (string \<times> string option) res" where
  "keep_candidate original = (\<lambda>(capability_id, candidate).
     case candidate of
       None \<Rightarrow> Inr (capability_id, None)
     | Some c \<Rightarrow> bind_res (downgrades original c) (\<lambda>down. Inr (capability_id, if down then None else Some c)))"

definition generate_variant_map ::
  "string \<Rightarrow> string option \<Rightarrow> string option \<Rightarrow> string option \<Rightarrow> (string \<times> string option) list res" where
  "generate_variant_map url language region canonical_url =
     bind_res (normalize_url url) (\<lambda>original.
     bind_res (urlsplit original) (\<lambda>parts.
     bind_res (sr_port parts) (\<lambda>port_number.
     bind_res (clean_query_parameters original) (\<lambda>clean.
       map_res (keep_candidate original) (variant_candidates original parts port_number clean language region canonical_url)))))"

definition generate_variants ::
  "string \<Rightarrow> string option \<Rightarrow> string option \<Rightarrow> string option \<Rightarrow> string list res" where
  "generate_variants url language region canonical_url =
     bind_res (normalize_url url) (\<lambda>original.
     bind_res (generate_variant_map original language region canonical_url) (\<lambda>candidates.
     bind_res (filter_res (\<lambda>c. bind_res (downgrades original c) (\<lambda>down. Inr (\<not> down)))
         (original # List.map_filter snd candidates)) (\<lambda>vals.
       Inr (dict_fromkeys vals))))"

subsection \<open>No variant leaves HTTPS\<close>

lemma in_filter_res: "filter_res p xs = Inr ys \<Longrightarrow> y \<in> set ys \<longleftrightarrow> y \<in> set xs \<and> p y = Inr True"
  by (auto dest: filter_res_eq)

lemma downgrades_False:
  "downgrades original c = Inr False \<Longrightarrow> urlsplit original = Inr p \<Longrightarrow> sr_scheme p = ''https'' \<Longrightarrow>
   \<exists>q. urlsplit c = Inr q \<and> sr_scheme q \<noteq> ''http''"
  by (auto simp: downgrades_def)

text \<open>
  No variant downgrades. The variants of an HTTPS URL, also one a page declares as its
  canonical URL, are never HTTP URLs; they are pairwise different and the normalised URL is first.
\<close>

theorem variants_never_downgrade:
  assumes "generate_variants url language region canonical_url = Inr vs" "normalize_url url = Inr original"
    "urlsplit original = Inr p" "sr_scheme p = ''https''"
  shows "list_all (\<lambda>v. case urlsplit v of Inr q \<Rightarrow> sr_scheme q \<noteq> ''http'' | Inl _ \<Rightarrow> False) vs \<and> distinct vs \<and> hd vs = original"
proof -
  from assms(1,2) obtain candidates vals where v: "generate_variant_map original language region canonical_url = Inr candidates"
    "filter_res (\<lambda>c. bind_res (downgrades original c) (\<lambda>down. Inr (\<not> down))) (original # List.map_filter snd candidates) = Inr vals"
    "vs = dict_fromkeys vals"
    by (auto simp: generate_variants_def)
  have "downgrades original c = Inr False" if "c \<in> set vs" for c
    using that v(3) in_filter_res [OF v(2), of c] by auto
  then have "list_all (\<lambda>v. case urlsplit v of Inr q \<Rightarrow> sr_scheme q \<noteq> ''http'' | Inl _ \<Rightarrow> False) vs"
    using downgrades_False [OF _ assms(3,4)] by (fastforce simp: list_all_iff)
  moreover have "downgrades original original = Inr False" using assms(3,4) by (simp add: downgrades_def)
  then have "hd vs = original" using v(2,3) by auto
  ultimately show ?thesis using v(3) by simp
qed

theorem variants_never_downgrade_witness:
  "\<exists>vs. generate_variants ''https://www.h.com/a?utm_x=1'' None None (Some ''http://h.com/a'') = Inr vs \<and> distinct vs \<and>
     hd vs = ''https://www.h.com/a?utm_x=1''"
proof -
  have a: "case generate_variants ''https://www.h.com/a?utm_x=1'' None None (Some ''http://h.com/a'') of Inr _ \<Rightarrow> True | Inl _ \<Rightarrow> False"
    by code_simp
  have b: "normalize_url ''https://www.h.com/a?utm_x=1'' = Inr ''https://www.h.com/a?utm_x=1''"
    "urlsplit ''https://www.h.com/a?utm_x=1'' = Inr \<lparr>sr_scheme = ''https'', sr_netloc = ''www.h.com'', sr_path = ''/a'',
       sr_query = ''utm_x=1'', sr_fragment = []\<rparr>"
    by code_simp+
  from a obtain vs where "generate_variants ''https://www.h.com/a?utm_x=1'' None None (Some ''http://h.com/a'') = Inr vs"
    by (auto split: sum.splits)
  with variants_never_downgrade [OF this b(1,2)] show ?thesis by auto
qed

end
