(* ===== verification/Discovery.thy ===== *)
theory Discovery
  imports Executor_Correct Storage Quality Variants
begin

section \<open>Bounded crawling: adapters/discovery.py\<close>

text \<open>
  The crawl frontier and its loop. The HTTP adapter, the search provider, the content store, the JSON
  encoder and the tokenizer of \<^verbatim>\<open>html.parser\<close> (the start tags of a page, in order) are parameters. The
  requests of a batch run concurrently and all read the context as it was when the batch started;
  their results are merged in the order of the batch.
\<close>

subsection \<open>State\<close>

record frontier_item =
  fi_url :: string
  fi_depth :: int
  fi_parent_url :: "string option"
  fi_relation :: string

record frontier =
  fo_items :: "frontier_item list"
  fo_seen :: "string list"
  fo_counters :: "string \<Rightarrow> int"

record crawl_services =
  dv_http :: adapter
  dv_batch_size :: int
  dv_search :: "(string \<Rightarrow> int \<Rightarrow> py_exc + string list) option"
  dv_tags :: "string \<Rightarrow> (string \<times> (string \<times> string option) list) list"
  dv_read :: "string \<Rightarrow> int option \<Rightarrow> py_exc + string"
  dv_put :: "string \<Rightarrow> py_exc + string \<times> string \<times> nat"
  dv_dumps :: "crawl_report \<Rightarrow> string"
  dv_unicode :: unicode

record crawl =
  cw_context :: execution_context
  cw_env :: env
  cw_frontier :: frontier
  cw_targets :: "discovered_target list"
  cw_pages_checked :: int
  cw_pages_fetched :: int
  cw_pages_failed :: int
  cw_maximum_depth :: int

subsection \<open>Links of a page\<close>

definition site_host :: "string \<Rightarrow> string res" where
  "site_host url = bind_res (urlsplit url) (\<lambda>p. Inr (py_removeprefix (py_lower (sr_hostname p)) ''www.''))"

definition words :: "string \<Rightarrow> string list" where
  "words s = py_words is_space [] s"

definition link_relation :: "string list \<Rightarrow> string list \<Rightarrow> string" where
  "link_relation rels classes =
     (if ''next'' \<in> set rels then ''next''
      else if ''prev'' \<in> set rels \<or> ''previous'' \<in> set rels \<or> ''pagination'' \<in> set classes then ''pagination''
      else if ''related'' \<in> set rels \<or> ''related'' \<in> set classes then ''related''
      else if ''tag'' \<in> set rels \<or> ''category'' \<in> set rels \<or> ''tag'' \<in> set classes \<or> ''category'' \<in> set classes then ''category''
      else ''internal'')"

text \<open>The attribute dictionary keeps the last value of a name.\<close>

definition attribute :: "(string \<times> string option) list \<Rightarrow> string \<Rightarrow> string option" where
  "attribute attrs name =
     map_option (\<lambda>v. case v of None \<Rightarrow> [] | Some s \<Rightarrow> s) (map_of (rev (map (\<lambda>(k, v). (py_lower k, v)) attrs)) name)"

definition handle_starttag ::
  "string \<Rightarrow> string \<times> (string \<times> string option) list \<Rightarrow> (string \<times> string) list res" where
  "handle_starttag base_url t =
     (if py_lower (fst t) \<notin> {''a'', ''link''} then Inr []
      else case attribute (snd t) ''href'' of
        None \<Rightarrow> Inr []
      | Some href \<Rightarrow>
          if href = [] then Inr []
          else let rels = words (py_lower (case attribute (snd t) ''rel'' of None \<Rightarrow> [] | Some s \<Rightarrow> s));
                   classes = words (py_lower (case attribute (snd t) ''class'' of None \<Rightarrow> [] | Some s \<Rightarrow> s)) in
            bind_res (urljoin base_url (py_strip href)) (\<lambda>candidate.
            bind_res (urlsplit candidate) (\<lambda>p.
              Inr (if sr_scheme p \<in> {''http'', ''https''} then [(candidate, link_relation rels classes)] else []))))"

definition page_links :: "crawl_services \<Rightarrow> string \<Rightarrow> string \<Rightarrow> (string \<times> string) list res" where
  "page_links sv page_url body =
     bind_res (map_res (handle_starttag page_url) (dv_tags sv (utf8_replace body))) (\<lambda>links. Inr (concat links))"

text \<open>
  The matches of \<^verbatim>\<open><loc\b[^>]*>(.*?)</loc>\<close> (case does not matter) in a text: after the
  opening tag, everything up to the next closing tag.
\<close>

definition word_start :: "unicode \<Rightarrow> string \<Rightarrow> bool" where
  "word_start uc s \<longleftrightarrow> s \<noteq> [] \<and> uc_word uc (utf8_code (hd (utf8_chars s)))"

fun until_close :: "string \<Rightarrow> (string \<times> string) option" where
  "until_close [] = None"
| "until_close (c # cs) =
     (if py_startswith (py_lower (c # cs)) ''</loc>'' then Some ([], drop 6 (c # cs))
      else map_option (\<lambda>(a, b). (c # a, b)) (until_close cs))"

definition loc_match :: "unicode \<Rightarrow> string \<Rightarrow> (string \<times> string) option" where
  "loc_match uc s =
     (if py_startswith (py_lower s) ''<loc'' \<and> \<not> word_start uc (drop 4 s)
      then (case dropWhile (\<lambda>c. c \<noteq> CHR ''>'') (drop 4 s) of [] \<Rightarrow> None | _ # rest \<Rightarrow> until_close rest)
      else None)"

lemma until_close_length: "until_close s = Some (a, b) \<Longrightarrow> length b < length s"
  by (induction s arbitrary: a) (auto split: if_splits)

lemma loc_match_length: "loc_match uc s = Some (a, b) \<Longrightarrow> length b < length s"
proof -
  assume m: "loc_match uc s = Some (a, b)"
  then obtain c rest where d: "dropWhile (\<lambda>c. c \<noteq> CHR ''>'') (drop 4 s) = c # rest" and u: "until_close rest = Some (a, b)"
    by (auto simp: loc_match_def split: if_splits list.splits)
  have "length (c # rest) \<le> length s" using length_dropWhile_le [of "\<lambda>c. c \<noteq> CHR ''>''" "drop 4 s"] unfolding d by simp
  then show ?thesis using until_close_length [OF u] by simp
qed

function loc_matches :: "unicode \<Rightarrow> string \<Rightarrow> string list" where
  "loc_matches uc [] = []"
| "loc_matches uc (c # cs) =
     (case loc_match uc (c # cs) of
        Some (content, rest) \<Rightarrow> content # loc_matches uc rest
      | None \<Rightarrow> loc_matches uc cs)"
  by pat_completeness auto
termination
  by (relation "measure (length \<circ> snd)") (auto dest!: loc_match_length)

subsection \<open>The frontier\<close>

definition bump :: "string \<Rightarrow> int \<Rightarrow> frontier \<Rightarrow> frontier" where
  "bump name n f = f\<lparr>fo_counters := (fo_counters f)(name := fo_counters f name + n)\<rparr>"

definition enqueue_item :: "string \<Rightarrow> int \<Rightarrow> frontier_item \<Rightarrow> frontier \<Rightarrow> (bool \<times> frontier) res" where
  "enqueue_item root_host maximum_depth item f =
     (case normalize_url (fi_url item) of
        Inl (ValueError _) \<Rightarrow> Inr (False, f)
      | Inl e \<Rightarrow> Inl e
      | Inr candidate \<Rightarrow>
          if candidate \<in> set (fo_seen f) then Inr (False, f)
          else if maximum_depth < fi_depth item then Inr (False, bump ''depth_blocked'' 1 f)
          else bind_res (site_host candidate) (\<lambda>host.
            if host \<noteq> root_host then Inr (False, bump ''domain_blocked'' 1 f)
            else Inr (True, f\<lparr>fo_seen := candidate # fo_seen f, fo_items := fo_items f @ [item\<lparr>fi_url := candidate\<rparr>]\<rparr>)))"

definition enqueue_link ::
  "fetch_request \<Rightarrow> string \<Rightarrow> string \<Rightarrow> int \<Rightarrow> string \<times> string \<Rightarrow> frontier \<Rightarrow> frontier res" where
  "enqueue_link request root_host page_url depth link f =
     (case link of (candidate, relation) \<Rightarrow>
        bind_res (enqueue_item root_host (b_crawl_depth (rq_budget request))
          \<lparr>fi_url = candidate, fi_depth = depth + 1, fi_parent_url = Some page_url, fi_relation = relation\<rparr> f) (\<lambda>(admitted, f1).
        if \<not> admitted then Inr f1
        else bind_res (generate_variants candidate (rq_language request) (rq_region request) None) (\<lambda>vs.
          Inr (bump ''variants'' (max 0 (int (length vs) - 1)) (bump relation 1 f1)))))"

definition enqueue_location ::
  "fetch_request \<Rightarrow> string \<Rightarrow> string \<Rightarrow> int \<Rightarrow> string \<Rightarrow> frontier \<Rightarrow> frontier res" where
  "enqueue_location request root_host page_url depth location f =
     (case bind_res (urljoin page_url (py_strip location)) normalize_url of
        Inl (ValueError _) \<Rightarrow> Inr f
      | Inl e \<Rightarrow> Inl e
      | Inr candidate \<Rightarrow>
          bind_res (enqueue_item root_host (b_crawl_depth (rq_budget request))
            \<lparr>fi_url = candidate, fi_depth = depth + 1, fi_parent_url = Some page_url, fi_relation = ''sitemap''\<rparr> f) (\<lambda>(admitted, f1).
          Inr (bump ''sitemap'' (if admitted then 1 else 0) f1)))"

definition discover_from_latest ::
  "crawl_services \<Rightarrow> execution_context \<Rightarrow> string \<Rightarrow> int \<Rightarrow> string \<Rightarrow> frontier \<Rightarrow> py_exc + frontier" where
  "discover_from_latest sv ctx page_url depth root_host f =
     (let request = xc_request ctx in
      case latest_artifact ctx [''raw''] of
        None \<Rightarrow> Inr f
      | Some a \<Rightarrow>
          bind_res (dv_read sv (ar_cas_uri a) (Some (b_decompressed_bytes (rq_budget request)))) (\<lambda>body.
          if ar_media_type a \<in> {''text/html'', ''application/xhtml+xml''} then
            lift_exc (bind_res (page_links sv page_url body) (\<lambda>links.
              fold_res (\<lambda>g l. enqueue_link request root_host page_url depth l g) f links))
          else if ar_media_type a \<in> {''application/xml'', ''text/xml''} \<or> py_endswith page_url ''.xml'' then
            lift_exc (fold_res (\<lambda>g l. enqueue_location request root_host page_url depth l g) f
              (loc_matches (dv_unicode sv) (utf8_replace body)))
          else Inr f))"

subsection \<open>Fetching a page\<close>

definition consumed_whole :: "string \<Rightarrow> execution_context \<Rightarrow> int" where
  "consumed_whole name ctx = sum_list (map (\<lambda>a. \<lfloor>consumption name a\<rfloor>) (xc_attempts ctx))"

definition page_budget :: "execution_context \<Rightarrow> int \<Rightarrow> resource_budget" where
  "page_budget ctx batch =
     (let b = rq_budget (xc_request ctx);
          remaining_bytes = max 1 (b_bytes b - consumed_whole ''bytes'' ctx);
          remaining_decompressed = max 1 (b_decompressed_bytes b - consumed_whole ''decompressed_bytes'' ctx)
      in b\<lparr>b_attempts := 1, b_bytes := max 1 (remaining_bytes div max 1 batch),
           b_decompressed_bytes := max 1 (remaining_decompressed div max 1 batch)\<rparr>)"

definition page_context :: "execution_context \<Rightarrow> int \<Rightarrow> frontier_item \<Rightarrow> execution_context" where
  "page_context ctx batch item =
     ExecutionContext (xc_run_id ctx) ((xc_request ctx)\<lparr>rq_target := fi_url item, rq_intent := ''retrieve'',
       rq_output_requirements := [''raw_html''], rq_budget := page_budget ctx batch\<rparr>)"

text \<open>The exceptions \<^verbatim>\<open>_fetch\<close> turns into a result; any other ends the crawl.\<close>

definition fetch_page ::
  "crawl_services \<Rightarrow> execution_context \<Rightarrow> int \<Rightarrow> frontier_item \<Rightarrow> env \<Rightarrow> (py_exc + frontier_item \<times> execution_context \<times> py_exc option) \<times> env" where
  "fetch_page sv ctx batch item en =
     (case dv_http sv (PlanNode (''crawl:'' @ int_to_str (fi_depth item)) ''http_get'' ''http'' []) (page_context ctx batch item) en of
        (sub, en', None) \<Rightarrow> (Inr (item, sub, None), en')
      | (sub, en', Some e) \<Rightarrow>
          if ex_class e = ExcPolicyBlocked
          then (Inr (item, sub\<lparr>xc_policy_decisions := xc_policy_decisions sub @ ex_decisions e\<rparr>, Some e), en')
          else if is_adapter_execution_error (ex_class e) \<or> ex_class e = ExcValue then (Inr (item, sub, Some e), en')
          else (Inl e, en'))"

text \<open>
  \<^verbatim>\<open>asyncio.gather\<close> starts the fetches of a batch together: all of them are made, also when one raises
  an exception that \<^verbatim>\<open>_fetch\<close> does not handle; the first such exception is then that of the batch.
  (Here the fetches come one after the other, and first means first in the batch.)
\<close>

fun fetch_batch ::
  "crawl_services \<Rightarrow> execution_context \<Rightarrow> int \<Rightarrow> frontier_item list \<Rightarrow> env
     \<Rightarrow> (py_exc + (frontier_item \<times> execution_context \<times> py_exc option) list) \<times> env" where
  "fetch_batch sv ctx batch [] en = (Inr [], en)"
| "fetch_batch sv ctx batch (item # items) en =
     (case fetch_page sv ctx batch item en of (r, en1) \<Rightarrow>
        (case fetch_batch sv ctx batch items en1 of (rs, en2) \<Rightarrow>
           (bind_res r (\<lambda>x. bind_res rs (\<lambda>xs. Inr (x # xs))), en2)))"

definition merge_context :: "execution_context \<Rightarrow> execution_context \<Rightarrow> execution_context" where
  "merge_context ctx sub = ctx\<lparr>xc_resources := xc_resources ctx @ xc_resources sub,
     xc_artifacts := xc_artifacts ctx @ xc_artifacts sub, xc_attempts := xc_attempts ctx @ xc_attempts sub,
     xc_capability_outcomes := xc_capability_outcomes ctx @ xc_capability_outcomes sub,
     xc_policy_decisions := xc_policy_decisions ctx @ xc_policy_decisions sub,
     xc_diagnostics := xc_diagnostics ctx @ xc_diagnostics sub\<rparr>"

definition discovered ::
  "fetch_request \<Rightarrow> frontier_item \<Rightarrow> bool \<Rightarrow> bool \<Rightarrow> string option \<Rightarrow> discovered_target res" where
  "discovered request item fetched accepted failure =
     bind_res (sanitize_url_for_request (fi_url item) request) (\<lambda>url.
     bind_res (case fi_parent_url item of
         None \<Rightarrow> Inr None
       | Some u \<Rightarrow> if u = [] then Inr None else bind_res (sanitize_url_for_request u request) (\<lambda>v. Inr (Some v))) (\<lambda>parent.
       Inr \<lparr>dt_url = url, dt_depth = fi_depth item, dt_parent_url = parent, dt_relation = fi_relation item,
            dt_fetched = fetched, dt_accepted = accepted, dt_failure_code = failure\<rparr>))"

definition page_failed :: "execution_context \<Rightarrow> py_exc option \<Rightarrow> bool" where
  "page_failed sub failure \<longleftrightarrow> failure \<noteq> None \<or> xc_resources sub = []"

definition absorb_page ::
  "crawl_services \<Rightarrow> string \<Rightarrow> frontier_item \<times> execution_context \<times> py_exc option \<Rightarrow> crawl \<Rightarrow> (py_exc + unit) \<times> crawl" where
  "absorb_page sv root_host result w =
     (case result of (item, sub, failure) \<Rightarrow>
        let w1 = w\<lparr>cw_pages_checked := cw_pages_checked w + 1, cw_context := merge_context (cw_context w) sub,
                   cw_maximum_depth := max (cw_maximum_depth w) (fi_depth item)\<rparr>;
            request = xc_request (cw_context w1) in
        if page_failed sub failure then
          let w2 = w1\<lparr>cw_pages_failed := cw_pages_failed w1 + 1\<rparr> in
          (case discovered request item False False
              (Some (case failure of Some e \<Rightarrow> ex_type_name e | None \<Rightarrow> ''empty_response'')) of
             Inl e \<Rightarrow> (Inl (value_exc e), w2)
           | Inr t \<Rightarrow> (Inr (), w2\<lparr>cw_targets := cw_targets w2 @ [t]\<rparr>))
        else
          let w2 = w1\<lparr>cw_pages_fetched := cw_pages_fetched w1 + 1\<rparr>;
              accepted = (case latest_artifact sub [''raw''] of Some a \<Rightarrow> qa_accepted (ar_quality a) | None \<Rightarrow> False) in
          (case discovered request item True accepted None of
             Inl e \<Rightarrow> (Inl (value_exc e), w2)
           | Inr t \<Rightarrow>
               let w3 = w2\<lparr>cw_targets := cw_targets w2 @ [t]\<rparr> in
               (case discover_from_latest sv sub (fi_url item) (fi_depth item) root_host (cw_frontier w3) of
                  Inl e \<Rightarrow> (Inl e, w3)
                | Inr f \<Rightarrow> (Inr (), w3\<lparr>cw_frontier := f\<rparr>))))"

fun absorb_pages ::
  "crawl_services \<Rightarrow> string \<Rightarrow> (frontier_item \<times> execution_context \<times> py_exc option) list \<Rightarrow> crawl \<Rightarrow> (py_exc + unit) \<times> crawl" where
  "absorb_pages sv root_host [] w = (Inr (), w)"
| "absorb_pages sv root_host (r # rs) w = bind_run (absorb_page sv root_host r w) (\<lambda>_ w1. absorb_pages sv root_host rs w1)"

subsection \<open>The loop\<close>

definition slots :: "crawl_services \<Rightarrow> int \<Rightarrow> crawl \<Rightarrow> int" where
  "slots sv maximum_pages w =
     min (max 1 (dv_batch_size sv)) (min (maximum_pages - cw_pages_checked w)
       (b_attempts (rq_budget (xc_request (cw_context w))) - int (length (xc_attempts (cw_context w)))))"

definition crawl_batch :: "crawl_services \<Rightarrow> string \<Rightarrow> int \<Rightarrow> crawl \<Rightarrow> (py_exc + unit) \<times> crawl" where
  "crawl_batch sv root_host maximum_pages w =
     (let n = nat (slots sv maximum_pages w);
          batch = take n (fo_items (cw_frontier w));
          w1 = w\<lparr>cw_frontier := (cw_frontier w)\<lparr>fo_items := drop n (fo_items (cw_frontier w))\<rparr>\<rparr> in
      case fetch_batch sv (cw_context w1) (int (length batch)) batch (cw_env w1) of
        (Inl e, en) \<Rightarrow> (Inl e, w1\<lparr>cw_env := en\<rparr>)
      | (Inr results, en) \<Rightarrow> absorb_pages sv root_host results (w1\<lparr>cw_env := en\<rparr>))"

lemma fetch_batch_length: "fetch_batch sv ctx b items en = (Inr rs, en') \<Longrightarrow> length rs = length items"
  by (induction sv ctx b items en arbitrary: rs rule: fetch_batch.induct) (auto split: prod.splits)

lemma absorb_page_checked: "absorb_page sv h r w = (x, w') \<Longrightarrow> cw_pages_checked w' = cw_pages_checked w + 1"
  by (auto simp: absorb_page_def Let_def split: prod.splits if_splits sum.splits)

lemma absorb_pages_checked:
  "absorb_pages sv h rs w = (Inr (), w') \<Longrightarrow> cw_pages_checked w' = cw_pages_checked w + int (length rs)"
  by (induction sv h rs w rule: absorb_pages.induct)
    (auto simp: bind_run_def dest: absorb_page_checked split: prod.splits sum.splits)

lemma crawl_batch_progress:
  assumes "fo_items (cw_frontier w) \<noteq> []" "0 < slots sv m w" "crawl_batch sv h m w = (Inr (), w')"
  shows "cw_pages_checked w < cw_pages_checked w'"
  using assms
  by (auto simp: crawl_batch_def Let_def dest!: absorb_pages_checked fetch_batch_length split: prod.splits sum.splits)

function crawl_loop :: "crawl_services \<Rightarrow> string \<Rightarrow> int \<Rightarrow> crawl \<Rightarrow> (py_exc + unit) \<times> crawl" where
  "crawl_loop sv root_host maximum_pages w =
     (if fo_items (cw_frontier w) = [] \<or> maximum_pages \<le> cw_pages_checked w then (Inr (), w)
      else if slots sv maximum_pages w \<le> 0 then (Inr (), w)
      else case crawl_batch sv root_host maximum_pages w of
        (Inl e, w1) \<Rightarrow> (Inl e, w1)
      | (Inr _, w1) \<Rightarrow> crawl_loop sv root_host maximum_pages w1)"
  by pat_completeness auto
termination
  by (relation "measure (\<lambda>(_, _, m, w). nat (m - cw_pages_checked w))") (auto dest!: crawl_batch_progress)

declare crawl_loop.simps [simp del]

subsection \<open>The adapter\<close>

definition crawl_attempt :: "uuid \<Rightarrow> time \<Rightarrow> string \<Rightarrow> string \<Rightarrow> fetch_attempt" where
  "crawl_attempt i now capability destination = \<lparr>at_attempt_id = i, at_capability_id = capability, at_adapter_version = ''0.3.0a0'',
     at_started_at = now, at_finished_at = None, at_sanitized_destination = destination, at_status = AT_RUNNING,
     at_http_status = None, at_bytes_received = 0, at_parser = None, at_artifact_ids = [], at_failure_code = None,
     at_warnings = [], at_consumed_budget = []\<rparr>"

definition may_search :: "fetch_request \<Rightarrow> bool" where
  "may_search request \<longleftrightarrow> rq_policy_profile request = ''allow_search_discovery'' \<and> rq_privacy_profile request = ''public'' \<and>
     rq_authentication_ref request = None"

fun enqueue_results :: "string \<Rightarrow> int \<Rightarrow> string \<Rightarrow> string list \<Rightarrow> frontier \<Rightarrow> frontier res" where
  "enqueue_results root_host depth root_url [] f = Inr f"
| "enqueue_results root_host depth root_url (candidate # cs) f =
     bind_res (enqueue_item root_host depth
       \<lparr>fi_url = candidate, fi_depth = 1, fi_parent_url = Some root_url, fi_relation = ''search''\<rparr> f) (\<lambda>(_, f1).
     enqueue_results root_host depth root_url cs
       (bump ''search'' (if length (fo_items f) < length (fo_items f1) then 1 else 0) f1))"

definition search_frontier :: "crawl_services \<Rightarrow> string \<Rightarrow> string \<Rightarrow> int \<Rightarrow> crawl \<Rightarrow> (py_exc + unit) \<times> crawl" where
  "search_frontier sv root_url root_host maximum_pages w =
     (let request = xc_request (cw_context w) in
      case dv_search sv of
        None \<Rightarrow> (Inr (), w)
      | Some discover \<Rightarrow>
          if may_search request then
            let w1 = w\<lparr>cw_frontier := (cw_frontier w)\<lparr>fo_counters := (fo_counters (cw_frontier w))(''search_configured'' := 1)\<rparr>\<rparr> in
            (case discover root_host (min 20 maximum_pages) of
               Inl e \<Rightarrow>
                 if is_adapter_execution_error (ex_class e)
                 then (Inr (), w1\<lparr>cw_context := record_outcome (cw_context w1) ''search_provider_discovery'' CO_FAILED ''discovery''
                        [(''reason'', VStr (ex_type_name e))]\<rparr>)
                 else (Inl e, w1)
             | Inr results \<Rightarrow>
                 (case enqueue_results root_host (b_crawl_depth (rq_budget request)) root_url results (cw_frontier w1) of
                    Inl e \<Rightarrow> (Inl (value_exc e), w1)
                  | Inr f \<Rightarrow> (Inr (), w1\<lparr>cw_frontier := f\<rparr>)))
          else (Inr (), w\<lparr>cw_context := record_outcome (cw_context w) ''search_provider_discovery'' CO_BLOCKED ''discovery''
                  [(''reason'', VStr ''search discovery requires an explicit public, unauthenticated policy'')]\<rparr>))"

definition no_counts :: "string \<Rightarrow> int" where "no_counts name = 0"

definition maximum_pages :: "execution_context \<Rightarrow> int" where
  "maximum_pages ctx =
     (let b = rq_budget (xc_request ctx) in min (b_crawl_pages b) (1 + max 0 (b_attempts b - int (length (xc_attempts ctx)))))"

text \<open>The state at the start of the loop: the root page is checked, its links are in the frontier.\<close>

definition start_crawl :: "crawl_services \<Rightarrow> string \<Rightarrow> string \<Rightarrow> execution_context \<Rightarrow> env \<Rightarrow> (py_exc + unit) \<times> crawl" where
  "start_crawl sv root_url root_host ctx en =
     (let request = xc_request ctx;
          w0 = \<lparr>cw_context = ctx, cw_env = en, cw_frontier = \<lparr>fo_items = [], fo_seen = [root_url], fo_counters = no_counts\<rparr>,
                cw_targets = [], cw_pages_checked = 1, cw_pages_fetched = 1, cw_pages_failed = 0, cw_maximum_depth = 0\<rparr> in
      case bind_res (lift_exc (sanitize_url_for_request root_url request)) (\<lambda>url.
           bind_res (lift_exc (bind_res (urljoin root_url ''/sitemap.xml'') normalize_url)) (\<lambda>sitemap.
           bind_res (lift_exc (enqueue_item root_host (b_crawl_depth (rq_budget request))
             \<lparr>fi_url = sitemap, fi_depth = 0, fi_parent_url = Some root_url, fi_relation = ''sitemap''\<rparr> (cw_frontier w0))) (\<lambda>(_, f1).
           bind_res (discover_from_latest sv ctx root_url 0 root_host f1) (\<lambda>f2.
             Inr (\<lparr>dt_url = url, dt_depth = 0, dt_parent_url = None, dt_relation = ''root'', dt_fetched = True,
                   dt_accepted = qa_accepted (ar_quality (last (xc_artifacts ctx))), dt_failure_code = None\<rparr>, f2))))) of
        Inl e \<Rightarrow> (Inl e, w0)
      | Inr (root_target, f2) \<Rightarrow>
          search_frontier sv root_url root_host (maximum_pages ctx) (w0\<lparr>cw_targets := [root_target], cw_frontier := f2\<rparr>))"

definition OBSERVATIONS :: "(string \<times> string) list" where
  "OBSERVATIONS = [(''sitemap_discovery'', ''sitemap''), (''internal_link_discovery'', ''internal''),
     (''related_link_discovery'', ''related''), (''pagination_discovery'', ''pagination''),
     (''next_page_discovery'', ''next''), (''category_tag_discovery'', ''category''),
     (''candidate_url_expansion'', ''variants'')]"

definition record_crawl_outcomes :: "(string \<Rightarrow> int) \<Rightarrow> crawl_report \<Rightarrow> string \<Rightarrow> execution_context \<Rightarrow> execution_context" where
  "record_crawl_outcomes counters report host ctx0 =
     (let ctx1 = fold (\<lambda>(capability_id, name) c. record_outcome c capability_id
            (if counters name \<noteq> 0 then CO_OBSERVED else CO_NOT_APPLICABLE) ''discovery'' [(''count'', VInt (counters name))]) OBSERVATIONS ctx0;
          ctx2 = record_outcome ctx1 ''robots_discovery'' CO_APPLIED ''discovery'' [(''policy_checked'', VBool True)];
          ctx3 = record_outcome ctx2 ''depth_limited_crawl'' CO_APPLIED ''discovery''
            [(''maximum_depth'', VInt (cr_maximum_depth_reached report)), (''blocked'', VInt (counters ''depth_blocked''))];
          ctx4 = record_outcome ctx3 ''domain_limited_crawl'' CO_APPLIED ''discovery'' [(''blocked'', VInt (counters ''domain_blocked''))];
          ctx5 = record_outcome ctx4 ''official_domain_discovery'' CO_OBSERVED ''discovery'' [(''host'', VStr host)]
      in if list_ex (\<lambda>x. co_capability_id x = ''search_provider_discovery'') (xc_capability_outcomes ctx5) then ctx5
         else record_outcome ctx5 ''search_provider_discovery'' (if counters ''search'' \<noteq> 0 then CO_OBSERVED else CO_NOT_APPLICABLE) ''discovery''
           [(''count'', VInt (counters ''search'')), (''configured'', VBool (counters ''search_configured'' \<noteq> 0))])"

definition finish_crawl ::
  "crawl_services \<Rightarrow> string \<Rightarrow> int \<Rightarrow> nat \<Rightarrow> fetch_attempt \<Rightarrow> crawl \<Rightarrow> execution_context \<times> env \<times> py_exc option" where
  "finish_crawl sv root_url pages index attempt w =
     (let ctx = cw_context w; request = xc_request ctx; en = cw_env w in
      case bind_res (lift_exc (sanitize_url_for_request root_url request)) (\<lambda>url.
           let report = \<lparr>cr_root_url = url, cr_targets = cw_targets w, cr_pages_fetched = cw_pages_fetched w,
                 cr_pages_failed = cw_pages_failed w, cr_maximum_depth_reached = cw_maximum_depth w,
                 cr_frontier_omitted = int (length (fo_items (cw_frontier w)))\<rparr> in
           bind_res (dv_put sv (dv_dumps sv report)) (\<lambda>(uri, digest, byte_size). Inr (report, uri, digest, byte_size))) of
        Inl e \<Rightarrow> (ctx, en, Some e)
      | Inr (report, uri, digest, byte_size) \<Rightarrow>
          let quality = \<lparr>qa_page_state = PS_OK, qa_score = (if cw_pages_fetched w \<noteq> 0 then 1 else 0),
                qa_accepted = (0 < cw_pages_fetched w), qa_language = None,
                qa_completeness = min 1 (of_int (cw_pages_fetched w) / of_int (max 1 pages)),
                qa_duplicate_of = None, qa_reasons = []\<rparr>;
              summary = build_artifact (en_next_id en) ''primary'' ''crawl_report'' ''application/json'' uri digest byte_size
                (hd (xc_resources ctx)) ''builtin-crawl/0.2'' quality (xc_artifacts ctx) (map (\<lambda>t. ''url:'' @ dt_url t) (cw_targets w));
              en1 = en\<lparr>en_next_id := en_next_id en + 1\<rparr>;
              ctx1 = ctx\<lparr>xc_artifacts := xc_artifacts ctx @ [summary], xc_crawl_report := Some report,
                xc_accepted := qa_accepted quality,
                xc_attempts := (xc_attempts ctx)[index := attempt\<lparr>at_status := AT_SUCCEEDED,
                  at_finished_at := Some (en_clock en), at_parser := Some ''bounded-frontier'',
                  at_artifact_ids := [ar_artifact_id summary]\<rparr>]\<rparr> in
          (case urlsplit (cr_root_url report) of
             Inl e \<Rightarrow> (ctx1, en1, Some (value_exc e))
           | Inr p \<Rightarrow> (record_crawl_outcomes (fo_counters (cw_frontier w)) report (sr_hostname p) ctx1, en1, None)))"

definition crawl_execute :: "crawl_services \<Rightarrow> adapter" where
  "crawl_execute sv node ctx0 en0 =
     (let request = xc_request ctx0 in
      if pn_capability_id node \<noteq> ''depth_limited_crawl''
      then (ctx0, en0, Some (simple_exc ExcExecution ''AdapterExecutionError'' (''discovery adapter cannot execute '' @ pn_capability_id node)))
      else if xc_resources ctx0 = [] \<or> latest_artifact ctx0 [''raw''] = None
      then (ctx0, en0, Some (simple_exc ExcExecution ''AdapterExecutionError'' ''crawl requires an acquired root resource''))
      else case sanitize_url_for_request (rq_target request) request of
        Inl e \<Rightarrow> (ctx0, en0, Some (value_exc e))
      | Inr destination \<Rightarrow>
          let attempt = crawl_attempt (en_next_id en0) (en_clock en0) (pn_capability_id node) destination;
              index = length (xc_attempts ctx0);
              ctx = ctx0\<lparr>xc_attempts := xc_attempts ctx0 @ [attempt]\<rparr>;
              en = en0\<lparr>en_next_id := en_next_id en0 + 1\<rparr> in
          (case bind_res (normalize_url (rq_target request)) (\<lambda>r. bind_res (site_host r) (\<lambda>h. Inr (r, h))) of
             Inl e \<Rightarrow> (ctx, en, Some (value_exc e))
           | Inr (root_url, root_host) \<Rightarrow>
               (case bind_run (start_crawl sv root_url root_host ctx en) (\<lambda>_ w. crawl_loop sv root_host (maximum_pages ctx) w) of
                  (Inl e, w) \<Rightarrow> (cw_context w, cw_env w, Some e)
                | (Inr _, w) \<Rightarrow> finish_crawl sv root_url (maximum_pages ctx) index attempt w)))"

subsection \<open>The frontier stays within the crawl\<close>

lemma fold_res_invariant:
  "fold_res f s xs = Inr s' \<Longrightarrow> P s \<Longrightarrow> (\<And>s x s'. P s \<Longrightarrow> f s x = Inr s' \<Longrightarrow> P s') \<Longrightarrow> P s'"
  by (induction xs arbitrary: s) auto

definition item_ok :: "string \<Rightarrow> int \<Rightarrow> frontier_item \<Rightarrow> bool" where
  "item_ok root_host depth i \<longleftrightarrow> 0 \<le> fi_depth i \<and> fi_depth i \<le> depth \<and> site_host (fi_url i) = Inr root_host"

definition frontier_ok :: "string \<Rightarrow> int \<Rightarrow> frontier \<Rightarrow> bool" where
  "frontier_ok root_host depth f \<longleftrightarrow> list_all (item_ok root_host depth) (fo_items f) \<and>
     distinct (map fi_url (fo_items f)) \<and> fi_url ` set (fo_items f) \<subseteq> set (fo_seen f)"

lemma frontier_ok_bump [simp]: "frontier_ok h d (bump name n f) = frontier_ok h d f"
  by (simp add: frontier_ok_def bump_def)

lemma enqueue_ok:
  assumes "enqueue_item h d item f = Inr (b, f')" "frontier_ok h d f" "0 \<le> fi_depth item"
  shows "frontier_ok h d f'"
  using assms
  by (auto simp: enqueue_item_def frontier_ok_def item_ok_def bump_def image_subset_iff
      split: sum.splits py_error.splits if_splits)

lemma enqueue_link_ok:
  assumes "enqueue_link rq h u depth l f = Inr f'" "frontier_ok h (b_crawl_depth (rq_budget rq)) f" "0 \<le> depth + 1"
  shows "frontier_ok h (b_crawl_depth (rq_budget rq)) f'"
  using assms by (auto simp: enqueue_link_def dest!: enqueue_ok split: prod.splits if_splits)

lemma enqueue_location_ok:
  assumes "enqueue_location rq h u depth l f = Inr f'" "frontier_ok h (b_crawl_depth (rq_budget rq)) f" "0 \<le> depth + 1"
  shows "frontier_ok h (b_crawl_depth (rq_budget rq)) f'"
  using assms by (auto simp: enqueue_location_def dest!: enqueue_ok split: prod.splits sum.splits py_error.splits)

lemma discover_ok:
  assumes "discover_from_latest sv ctx u depth h f = Inr f'" "frontier_ok h d f" "0 \<le> depth + 1"
    "b_crawl_depth (rq_budget (xc_request ctx)) = d"
  shows "frontier_ok h d f'"
proof (cases "latest_artifact ctx [''raw'']")
  case None
  then show ?thesis using assms by (simp add: discover_from_latest_def)
next
  case (Some a)
  with assms(1) consider "f' = f"
    | links where "fold_res (\<lambda>g l. enqueue_link (xc_request ctx) h u depth l g) f links = Inr f'"
    | locs where "fold_res (\<lambda>g l. enqueue_location (xc_request ctx) h u depth l g) f locs = Inr f'"
    by (auto simp: discover_from_latest_def Let_def split: if_splits)
  then show ?thesis
  proof cases
    case 2
    then show ?thesis
      by (rule fold_res_invariant [where P = "frontier_ok h d"]) (use assms enqueue_link_ok in blast)+
  next
    case 3
    then show ?thesis
      by (rule fold_res_invariant [where P = "frontier_ok h d"]) (use assms enqueue_location_ok in blast)+
  qed (use assms(2) in simp)
qed

lemma enqueue_results_ok:
  "enqueue_results h d u cs f = Inr f' \<Longrightarrow> frontier_ok h d f \<Longrightarrow> frontier_ok h d f'"
proof (induction h d u cs f rule: enqueue_results.induct)
  case (2 h d u c cs f)
  then obtain b f1 where e: "enqueue_item h d \<lparr>fi_url = c, fi_depth = 1, fi_parent_url = Some u, fi_relation = ''search''\<rparr> f = Inr (b, f1)"
    "enqueue_results h d u cs (bump ''search'' (if length (fo_items f) < length (fo_items f1) then 1 else 0) f1) = Inr f'"
    by auto
  have "frontier_ok h d f1" by (rule enqueue_ok [OF e(1) "2.prems"(2)]) simp
  then show ?case using "2.IH" [OF e(1) refl e(2)] by simp
qed simp

subsection \<open>The crawl stays within its budget\<close>

definition crawl_ok :: "fetch_request \<Rightarrow> string \<Rightarrow> int \<Rightarrow> nat \<Rightarrow> crawl \<Rightarrow> bool" where
  "crawl_ok rq root_host pages started w \<longleftrightarrow>
     xc_request (cw_context w) = rq \<and> frontier_ok root_host (b_crawl_depth (rq_budget rq)) (cw_frontier w) \<and>
     list_all (\<lambda>t. 0 \<le> dt_depth t \<and> dt_depth t \<le> b_crawl_depth (rq_budget rq)) (cw_targets w) \<and>
     int (length (cw_targets w)) = cw_pages_checked w \<and> cw_pages_checked w = cw_pages_fetched w + cw_pages_failed w \<and>
     cw_pages_checked w \<le> max 1 pages \<and> cw_maximum_depth w \<le> b_crawl_depth (rq_budget rq) \<and>
     int (length (xc_attempts (cw_context w))) \<le> max (b_attempts (rq_budget rq)) (int started)"

text \<open>What holds of a result of the batch.\<close>

definition result_ok :: "fetch_request \<Rightarrow> string \<Rightarrow> frontier_item \<times> execution_context \<times> py_exc option \<Rightarrow> bool" where
  "result_ok rq root_host r \<longleftrightarrow> (case r of (item, sub, _) \<Rightarrow> item_ok root_host (b_crawl_depth (rq_budget rq)) item \<and>
     length (xc_attempts sub) \<le> 1 \<and> b_crawl_depth (rq_budget (xc_request sub)) = b_crawl_depth (rq_budget rq))"

lemma page_context_sel:
  "xc_attempts (page_context ctx b item) = []"
  "b_crawl_depth (rq_budget (xc_request (page_context ctx b item))) = b_crawl_depth (rq_budget (xc_request ctx))"
  by (simp_all add: page_context_def ExecutionContext_def page_budget_def Let_def)

lemma fetch_page_ok:
  assumes "fetch_page sv ctx b item en = (Inr r, en')" "one_attempt (dv_http sv)"
    "item_ok h (b_crawl_depth (rq_budget (xc_request ctx))) item"
  shows "result_ok (xc_request ctx) h r"
proof -
  obtain sub en1 e where h: "dv_http sv (PlanNode (''crawl:'' @ int_to_str (fi_depth item)) ''http_get'' ''http'' [])
      (page_context ctx b item) en = (sub, en1, e)" by (rule prod_cases3)
  with assms(2) have "length (xc_attempts sub) \<le> 1"
    "b_crawl_depth (rq_budget (xc_request sub)) = b_crawl_depth (rq_budget (xc_request ctx))"
    unfolding one_attempt_def by (metis One_nat_def add.commute list.size(3) page_context_sel(1) plus_1_eq_Suc, metis page_context_sel(2))
  then show ?thesis using assms(1,3) h by (auto simp: fetch_page_def result_ok_def split: option.splits if_splits)
qed

lemma fetch_batch_ok:
  "fetch_batch sv ctx b items en = (Inr rs, en') \<Longrightarrow> one_attempt (dv_http sv) \<Longrightarrow>
   list_all (item_ok h (b_crawl_depth (rq_budget (xc_request ctx)))) items \<Longrightarrow> list_all (result_ok (xc_request ctx) h) rs"
  by (induction sv ctx b items en arbitrary: rs rule: fetch_batch.induct)
    (auto dest: fetch_page_ok split: prod.splits)

lemma discovered_depth: "discovered rq item a b c = Inr t \<Longrightarrow> dt_depth t = fi_depth item"
  by (auto simp: discovered_def)

text \<open>Absorbing a page: one target more, at most one attempt more.\<close>

definition room :: "fetch_request \<Rightarrow> string \<Rightarrow> int \<Rightarrow> nat \<Rightarrow> nat \<Rightarrow> crawl \<Rightarrow> bool" where
  "room rq h pages started n w \<longleftrightarrow> crawl_ok rq h pages started w \<and> cw_pages_checked w + int n \<le> pages \<and>
     int (length (xc_attempts (cw_context w))) + int n \<le> b_attempts (rq_budget rq)"

lemma absorb_page_ok:
  assumes "absorb_page sv h r w = (Inr (), w')" "room rq h pages started (Suc n) w" "result_ok rq h r"
  shows "room rq h pages started n w'"
proof -
  obtain item sub failure where r: "r = (item, sub, failure)" by (rule prod_cases3)
  have i: "0 \<le> fi_depth item" "fi_depth item \<le> b_crawl_depth (rq_budget rq)" "length (xc_attempts sub) \<le> 1"
    "b_crawl_depth (rq_budget (xc_request sub)) = b_crawl_depth (rq_budget rq)"
    using assms(3) by (simp_all add: r result_ok_def item_ok_def)
  have w: "xc_request (cw_context w) = rq" using assms(2) by (simp add: room_def crawl_ok_def)
  show ?thesis
  proof (cases "page_failed sub failure")
    case True
    then show ?thesis
      using assms(1,2) i w
      by (auto simp: absorb_page_def r Let_def room_def crawl_ok_def merge_context_def dest!: discovered_depth split: sum.splits)
  next
    case False
    then obtain t f where t: "dt_depth t = fi_depth item"
      and f: "discover_from_latest sv sub (fi_url item) (fi_depth item) h (cw_frontier w) = Inr f"
      and w': "w' = w\<lparr>cw_pages_checked := cw_pages_checked w + 1, cw_context := merge_context (cw_context w) sub,
           cw_maximum_depth := max (cw_maximum_depth w) (fi_depth item), cw_pages_fetched := cw_pages_fetched w + 1,
           cw_targets := cw_targets w @ [t], cw_frontier := f\<rparr>"
      using assms(1) by (auto simp: absorb_page_def r Let_def dest!: discovered_depth split: sum.splits)
    have "frontier_ok h (b_crawl_depth (rq_budget rq)) f"
      by (rule discover_ok [OF f]) (use assms(2) i in \<open>auto simp: room_def crawl_ok_def\<close>)
    then show ?thesis
      using assms(2) i t by (auto simp: w' room_def crawl_ok_def merge_context_def)
  qed
qed

lemma absorb_pages_ok:
  "absorb_pages sv h rs w = (Inr (), w') \<Longrightarrow> room rq h pages started (length rs) w \<Longrightarrow> list_all (result_ok rq h) rs \<Longrightarrow>
   crawl_ok rq h pages started w'"
proof (induction sv h rs w rule: absorb_pages.induct)
  case (1 sv h w)
  then show ?case by (simp add: room_def)
next
  case (2 sv h r rs w)
  then obtain w1 where a: "absorb_page sv h r w = (Inr (), w1)" "absorb_pages sv h rs w1 = (Inr (), w')"
    by (auto simp: bind_run_def split: prod.splits sum.splits)
  then show ?case using 2 absorb_page_ok [OF a(1)] by simp
qed

lemma crawl_batch_ok:
  assumes "crawl_batch sv h pages w = (Inr (), w')" "crawl_ok rq h pages started w" "one_attempt (dv_http sv)" "0 < slots sv pages w"
  shows "crawl_ok rq h pages started w'"
proof -
  define n where "n = nat (slots sv pages w)"
  define w1 where "w1 = w\<lparr>cw_frontier := (cw_frontier w)\<lparr>fo_items := drop n (fo_items (cw_frontier w))\<rparr>\<rparr>"
  define items where "items = take n (fo_items (cw_frontier w))"
  from assms(1) obtain rs en where f: "fetch_batch sv (cw_context w1) (int (length items)) items (cw_env w1) = (Inr rs, en)"
    and a: "absorb_pages sv h rs (w1\<lparr>cw_env := en\<rparr>) = (Inr (), w')"
    by (auto simp: crawl_batch_def Let_def n_def w1_def items_def split: prod.splits sum.splits)
  have rq: "xc_request (cw_context w1) = rq" using assms(2) by (simp add: w1_def crawl_ok_def)
  have l: "length rs = length items" by (rule fetch_batch_length [OF f])
  have "list_all (item_ok h (b_crawl_depth (rq_budget rq))) (fo_items (cw_frontier w))"
    using assms(2) by (simp add: crawl_ok_def frontier_ok_def)
  then have "list_all (item_ok h (b_crawl_depth (rq_budget rq))) items"
    unfolding items_def list_all_iff by (meson in_set_takeD)
  then have "list_all (result_ok rq h) rs" using fetch_batch_ok [OF f assms(3), of h] rq by simp
  moreover have "room rq h pages started (length rs) (w1\<lparr>cw_env := en\<rparr>)"
  proof -
    have "int (length rs) \<le> slots sv pages w" using assms(4) by (simp add: l items_def n_def)
    moreover have "frontier_ok h (b_crawl_depth (rq_budget rq)) (cw_frontier w1)"
    proof -
      have "set (fo_items (cw_frontier w1)) \<subseteq> set (fo_items (cw_frontier w))" by (simp add: w1_def set_drop_subset)
      moreover have "distinct (map fi_url (fo_items (cw_frontier w1)))" if "distinct (map fi_url (fo_items (cw_frontier w)))"
        using that by (simp add: w1_def drop_map [symmetric])
      moreover have "fo_seen (cw_frontier w1) = fo_seen (cw_frontier w)" by (simp add: w1_def)
      ultimately show ?thesis using assms(2) unfolding crawl_ok_def frontier_ok_def list_all_iff by (metis image_mono order_trans subsetD)
    qed
    ultimately show ?thesis
      using assms(2) by (auto simp: room_def crawl_ok_def w1_def slots_def)
  qed
  ultimately show ?thesis using absorb_pages_ok [OF a] by blast
qed

lemma crawl_loop_ok:
  "crawl_loop sv h pages w = (Inr (), w') \<Longrightarrow> crawl_ok rq h pages started w \<Longrightarrow> one_attempt (dv_http sv) \<Longrightarrow> crawl_ok rq h pages started w'"
proof (induction sv h pages w rule: crawl_loop.induct)
  case (1 sv h pages w)
  then show ?case
    by (subst (asm) (2) crawl_loop.simps) (auto dest: crawl_batch_ok split: if_splits prod.splits sum.splits)
qed

lemma start_crawl_ok:
  assumes "start_crawl sv root_url h ctx en = (Inr (), w)" "0 \<le> b_crawl_depth (rq_budget (xc_request ctx))"
  shows "crawl_ok (xc_request ctx) h (maximum_pages ctx) (length (xc_attempts ctx)) w"
proof -
  define f0 where "f0 = \<lparr>fo_items = [], fo_seen = [root_url], fo_counters = no_counts\<rparr>"
  define d where "d = b_crawl_depth (rq_budget (xc_request ctx))"
  define target where "target = (\<lambda>url. \<lparr>dt_url = url, dt_depth = 0, dt_parent_url = None, dt_relation = ''root'', dt_fetched = True,
      dt_accepted = qa_accepted (ar_quality (last (xc_artifacts ctx))), dt_failure_code = None\<rparr>)"
  from assms(1) obtain url f1 f2 b sitemap where
    e: "enqueue_item h d \<lparr>fi_url = sitemap, fi_depth = 0, fi_parent_url = Some root_url, fi_relation = ''sitemap''\<rparr> f0 = Inr (b, f1)"
    and f2: "discover_from_latest sv ctx root_url 0 h f1 = Inr f2"
    and s: "search_frontier sv root_url h (maximum_pages ctx) \<lparr>cw_context = ctx, cw_env = en, cw_frontier = f2, cw_targets = [target url],
        cw_pages_checked = 1, cw_pages_fetched = 1, cw_pages_failed = 0, cw_maximum_depth = 0\<rparr> = (Inr (), w)"
    by (auto simp: start_crawl_def Let_def f0_def d_def target_def split: sum.splits)
  have "frontier_ok h d f0" by (simp add: frontier_ok_def f0_def)
  then have "frontier_ok h d f1" using enqueue_ok [OF e] by simp
  then have f: "frontier_ok h d f2" by (rule discover_ok [OF f2]) (simp_all add: d_def)
  have up: "frontier_ok h d (g\<lparr>fo_counters := c\<rparr>) = frontier_ok h d g" for g c by (simp add: frontier_ok_def)
  have fw: "frontier_ok h d (cw_frontier w)" using s f
    by (auto simp: search_frontier_def Let_def d_def [symmetric] up dest!: enqueue_results_ok split: option.splits if_splits sum.splits)
  have "cw_targets w = [target url]" "cw_pages_checked w = 1" "cw_pages_fetched w = 1" "cw_pages_failed w = 0" "cw_maximum_depth w = 0"
    "xc_request (cw_context w) = xc_request ctx" "xc_attempts (cw_context w) = xc_attempts ctx"
    using s by (auto simp: search_frontier_def Let_def split: option.splits if_splits sum.splits)
  then show ?thesis using fw assms(2) by (simp add: crawl_ok_def d_def target_def)
qed

lemma record_outcome_report [simp]: "xc_crawl_report (record_outcome c i s t d) = xc_crawl_report c"
  by (simp add: record_outcome_def)

lemma record_crawl_outcomes_sel [simp]:
  "xc_crawl_report (record_crawl_outcomes n r h c) = xc_crawl_report c" "xc_attempts (record_crawl_outcomes n r h c) = xc_attempts c"
  by (simp_all add: record_crawl_outcomes_def OBSERVATIONS_def Let_def)

text \<open>What a crawl that returns normally did.\<close>

lemma crawl_executeE:
  assumes "crawl_execute sv node ctx0 en0 = (ctx', en', None)"
  obtains root_url h attempt en w w1 where "normalize_url (rq_target (xc_request ctx0)) = Inr root_url" "site_host root_url = Inr h"
    "start_crawl sv root_url h (ctx0\<lparr>xc_attempts := xc_attempts ctx0 @ [attempt]\<rparr>) en = (Inr (), w)"
    "crawl_loop sv h (maximum_pages (ctx0\<lparr>xc_attempts := xc_attempts ctx0 @ [attempt]\<rparr>)) w = (Inr (), w1)"
    "finish_crawl sv root_url (maximum_pages (ctx0\<lparr>xc_attempts := xc_attempts ctx0 @ [attempt]\<rparr>)) (length (xc_attempts ctx0)) attempt w1 =
       (ctx', en', None)"
  using assms
  by (auto simp: crawl_execute_def Let_def bind_run_def split: if_splits sum.splits prod.splits)

lemma finish_crawl_report:
  assumes "finish_crawl sv root_url pages index attempt w = (ctx', en', None)"
  shows "\<exists>report. xc_crawl_report ctx' = Some report \<and> cr_targets report = cw_targets w \<and> cr_pages_fetched report = cw_pages_fetched w \<and>
      cr_pages_failed report = cw_pages_failed w \<and> cr_maximum_depth_reached report = cw_maximum_depth w"
    "length (xc_attempts ctx') = length (xc_attempts (cw_context w))"
  using assms by (auto simp: finish_crawl_def Let_def split: sum.splits)

text \<open>
  C34: crawling is bounded. With an HTTP adapter that records at most one attempt for each call, a
  crawl that returns has a report that lists one target for each page it checked, at most as many
  as the budget allows, none of them deeper than the allowed depth; and the attempts of the run stay
  within the attempt budget (or the crawl's own attempt was the last one).
\<close>

theorem crawl_bounded:
  assumes "crawl_execute sv node ctx en = (ctx', en', None)" "one_attempt (dv_http sv)" "valid_budget (rq_budget (xc_request ctx))"
  shows "\<exists>report. xc_crawl_report ctx' = Some report \<and>
    int (length (cr_targets report)) = cr_pages_fetched report + cr_pages_failed report \<and>
    int (length (cr_targets report)) \<le> b_crawl_pages (rq_budget (xc_request ctx)) \<and>
    list_all (\<lambda>t. 0 \<le> dt_depth t \<and> dt_depth t \<le> b_crawl_depth (rq_budget (xc_request ctx))) (cr_targets report) \<and>
    cr_maximum_depth_reached report \<le> b_crawl_depth (rq_budget (xc_request ctx)) \<and>
    int (length (xc_attempts ctx')) \<le> max (b_attempts (rq_budget (xc_request ctx))) (int (length (xc_attempts ctx)) + 1)"
proof -
  from assms(1) obtain root_url h attempt en1 w w1 where
    s: "start_crawl sv root_url h (ctx\<lparr>xc_attempts := xc_attempts ctx @ [attempt]\<rparr>) en1 = (Inr (), w)"
    and l: "crawl_loop sv h (maximum_pages (ctx\<lparr>xc_attempts := xc_attempts ctx @ [attempt]\<rparr>)) w = (Inr (), w1)"
    and f: "finish_crawl sv root_url (maximum_pages (ctx\<lparr>xc_attempts := xc_attempts ctx @ [attempt]\<rparr>)) (length (xc_attempts ctx)) attempt w1 =
       (ctx', en', None)"
    by (rule crawl_executeE)
  have b: "0 \<le> b_crawl_depth (rq_budget (xc_request ctx))" "1 \<le> b_crawl_pages (rq_budget (xc_request ctx))"
    using assms(3) by (simp_all add: valid_budget_def)
  have "crawl_ok (xc_request ctx) h (maximum_pages (ctx\<lparr>xc_attempts := xc_attempts ctx @ [attempt]\<rparr>)) (Suc (length (xc_attempts ctx))) w"
    using start_crawl_ok [OF s] b(1) by simp
  from crawl_loop_ok [OF l this assms(2)] show ?thesis
    using finish_crawl_report [OF f] b(2) by (auto simp: crawl_ok_def maximum_pages_def Let_def)
qed

subsection \<open>The crawl stays on the site\<close>

text \<open>Services that differ only in what the HTTP adapter does with requests to other sites.\<close>

definition same_on_site :: "string \<Rightarrow> crawl_services \<Rightarrow> crawl_services \<Rightarrow> bool" where
  "same_on_site h sv sv' \<longleftrightarrow> sv' = sv\<lparr>dv_http := dv_http sv'\<rparr> \<and>
     (\<forall>node ctx en. site_host (rq_target (xc_request ctx)) = Inr h \<longrightarrow> dv_http sv' node ctx en = dv_http sv node ctx en)"

lemma http_sel:
  "dv_read (sv\<lparr>dv_http := g\<rparr>) = dv_read sv" "dv_put (sv\<lparr>dv_http := g\<rparr>) = dv_put sv" "dv_tags (sv\<lparr>dv_http := g\<rparr>) = dv_tags sv"
  "dv_dumps (sv\<lparr>dv_http := g\<rparr>) = dv_dumps sv" "dv_search (sv\<lparr>dv_http := g\<rparr>) = dv_search sv"
  "dv_unicode (sv\<lparr>dv_http := g\<rparr>) = dv_unicode sv" "dv_batch_size (sv\<lparr>dv_http := g\<rparr>) = dv_batch_size sv"
  by simp_all

lemma http_upd:
  "page_links (sv\<lparr>dv_http := g\<rparr>) = page_links sv"
  "slots (sv\<lparr>dv_http := g\<rparr>) = slots sv"
  "search_frontier (sv\<lparr>dv_http := g\<rparr>) = search_frontier sv"
  "finish_crawl (sv\<lparr>dv_http := g\<rparr>) = finish_crawl sv"
  unfolding page_links_def slots_def search_frontier_def finish_crawl_def http_sel by (rule refl)+

lemma discover_http: "discover_from_latest (sv\<lparr>dv_http := g\<rparr>) = discover_from_latest sv"
  unfolding discover_from_latest_def http_sel http_upd by (rule refl)

lemma start_http: "start_crawl (sv\<lparr>dv_http := g\<rparr>) = start_crawl sv"
  unfolding start_crawl_def discover_http http_upd by (rule refl)

lemma absorb_http: "absorb_pages (sv\<lparr>dv_http := g\<rparr>) h rs w = absorb_pages sv h rs w"
proof (induction rs arbitrary: w)
  case (Cons r rs)
  have "absorb_page (sv\<lparr>dv_http := g\<rparr>) = absorb_page sv" unfolding absorb_page_def discover_http by (rule refl)
  moreover have "absorb_pages (sv\<lparr>dv_http := g\<rparr>) h rs = absorb_pages sv h rs" using Cons by (intro ext)
  ultimately show ?case by simp
qed simp

lemma fetch_batch_same:
  assumes "same_on_site h sv sv'" "list_all (item_ok h d) items"
  shows "fetch_batch sv' ctx b items en = fetch_batch sv ctx b items en"
  using assms(2)
proof (induction items arbitrary: en)
  case (Cons i items)
  have "site_host (rq_target (xc_request (page_context ctx b i))) = Inr h"
    using Cons.prems by (simp add: page_context_def ExecutionContext_def item_ok_def)
  then have "fetch_page sv' ctx b i en = fetch_page sv ctx b i en"
    using assms(1) by (simp add: same_on_site_def fetch_page_def)
  then show ?case using Cons by simp
qed simp

lemma crawl_batch_same:
  assumes "same_on_site h sv sv'" "crawl_ok rq h pages started w"
  shows "crawl_batch sv' h m w = crawl_batch sv h m w"
proof -
  obtain g where g: "sv' = sv\<lparr>dv_http := g\<rparr>" using assms(1) unfolding same_on_site_def by metis
  have "list_all (item_ok h (b_crawl_depth (rq_budget rq))) (take n (fo_items (cw_frontier w)))" for n
    using assms(2) unfolding crawl_ok_def frontier_ok_def list_all_iff by (meson in_set_takeD)
  then have "fetch_batch sv' ctx b (take n (fo_items (cw_frontier w))) en = fetch_batch sv ctx b (take n (fo_items (cw_frontier w))) en" for ctx b n en
    using fetch_batch_same [OF assms(1)] by blast
  then show ?thesis
    unfolding crawl_batch_def Let_def g by (simp only: http_upd absorb_http)
qed

lemma crawl_loop_same:
  "same_on_site h sv sv' \<Longrightarrow> crawl_ok rq h pages started w \<Longrightarrow> one_attempt (dv_http sv) \<Longrightarrow> crawl_loop sv' h pages w = crawl_loop sv h pages w"
proof (induction sv h pages w rule: crawl_loop.induct)
  case (1 sv h pages w)
  obtain g where g: "sv' = sv\<lparr>dv_http := g\<rparr>" using 1(2) unfolding same_on_site_def by metis
  have sl: "slots sv' pages w = slots sv pages w" by (simp add: g http_upd)
  have b: "crawl_batch sv' h pages w = crawl_batch sv h pages w" by (rule crawl_batch_same [OF 1(2,3)])
  obtain x w1 where c: "crawl_batch sv h pages w = (x, w1)" by (rule prod.exhaust)
  show ?case
  proof (cases "fo_items (cw_frontier w) = [] \<or> pages \<le> cw_pages_checked w \<or> slots sv pages w \<le> 0 \<or> isl x")
    case True
    then show ?thesis
      by (subst (1 2) crawl_loop.simps) (auto simp: sl b c isl_def)
  next
    case False
    then obtain u where x: "x = Inr u" by (cases x) auto
    have "crawl_ok rq h pages started w1"
      by (rule crawl_batch_ok [OF c [unfolded x, simplified] 1(3,4)]) (use False in simp)
    then have "crawl_loop sv' h pages w1 = crawl_loop sv h pages w1"
      using 1(1) [OF _ _ c [symmetric] _ 1(2) _ 1(4)] False x by auto
    then show ?thesis
      using False by (subst (1 2) crawl_loop.simps) (simp add: sl b c x)
  qed
qed

text \<open>
  C35: a crawl stays on the site of its root. It does not depend on what the HTTP adapter does with
  targets whose host, without a leading www, is not the host of the root: it never asks for them.
\<close>

theorem crawl_stays_on_site:
  assumes "normalize_url (rq_target (xc_request ctx)) = Inr root_url" "site_host root_url = Inr h" "same_on_site h sv sv'"
    "one_attempt (dv_http sv)" "valid_budget (rq_budget (xc_request ctx))"
  shows "crawl_execute sv' node ctx en = crawl_execute sv node ctx en"
proof -
  obtain g where g: "sv' = sv\<lparr>dv_http := g\<rparr>" using assms(3) unfolding same_on_site_def by metis
  have st: "start_crawl sv' = start_crawl sv" "finish_crawl sv' = finish_crawl sv" by (simp_all add: g start_http http_upd)
  have "bind_run (start_crawl sv root_url h c e) (\<lambda>_ w. crawl_loop sv' h (maximum_pages c) w) =
      bind_run (start_crawl sv root_url h c e) (\<lambda>_ w. crawl_loop sv h (maximum_pages c) w)"
    if "xc_request c = xc_request ctx" for c e
  proof -
    obtain x w where s: "start_crawl sv root_url h c e = (x, w)" by (rule prod.exhaust)
    show ?thesis
    proof (cases x)
      case (Inr u)
      have "crawl_ok (xc_request c) h (maximum_pages c) (length (xc_attempts c)) w"
        by (rule start_crawl_ok) (use s Inr that assms(5) in \<open>simp_all add: valid_budget_def\<close>)
      then show ?thesis using s crawl_loop_same [OF assms(3) _ assms(4)] by (simp add: Inr)
    qed (simp add: s)
  qed
  then show ?thesis
    unfolding crawl_execute_def st by (simp add: assms(1,2) Let_def split: sum.splits)
qed

subsection \<open>Malformed links\<close>

lemma map_res_Inl: "x \<in> set xs \<Longrightarrow> f x = Inl e \<Longrightarrow> \<exists>e'. map_res f xs = Inl e'"
proof (induction xs)
  case (Cons y ys)
  then show ?case by (cases "f y"; cases "map_res f ys") auto
qed simp

lemma start_crawl_Inl:
  assumes "\<And>f. \<exists>e. discover_from_latest sv ctx root_url 0 h f = Inl e"
  obtains e w where "start_crawl sv root_url h ctx en = (Inl e, w)" "cw_context w = ctx"
proof -
  define f0 where "f0 = \<lparr>fo_items = [], fo_seen = [root_url], fo_counters = no_counts\<rparr>"
  obtain g where g: "discover_from_latest sv ctx root_url 0 h f = Inl (g f)" for f using assms by metis
  have "(\<exists>e. bind_res m (\<lambda>url. bind_res m' (\<lambda>sitemap. bind_res (k sitemap) (\<lambda>(b, f). bind_res (discover_from_latest sv ctx root_url 0 h f) (l url)))) = Inl e)"
    for m :: "py_exc + string" and m' :: "py_exc + string" and k :: "string \<Rightarrow> py_exc + bool \<times> frontier" and l :: "string \<Rightarrow> frontier \<Rightarrow> py_exc + discovered_target \<times> frontier"
    unfolding g by (cases m; cases m'; cases "k (projr m')") (auto split: prod.splits)
  from this [of "lift_exc (sanitize_url_for_request root_url (xc_request ctx))" "lift_exc (bind_res (urljoin root_url ''/sitemap.xml'') normalize_url)"
      "\<lambda>sitemap. lift_exc (enqueue_item h (b_crawl_depth (rq_budget (xc_request ctx)))
         \<lparr>fi_url = sitemap, fi_depth = 0, fi_parent_url = Some root_url, fi_relation = ''sitemap''\<rparr> f0)"
      "\<lambda>url f2. Inr (\<lparr>dt_url = url, dt_depth = 0, dt_parent_url = None, dt_relation = ''root'', dt_fetched = True,
         dt_accepted = qa_accepted (ar_quality (last (xc_artifacts ctx))), dt_failure_code = None\<rparr>, f2)"]
  show ?thesis
    using that by (auto simp: start_crawl_def Let_def f0_def)
qed

text \<open>
  One malformed link ends the crawl. When the root page has a link with an unbalanced bracket,
  the crawl raises and leaves no report, although the same text in a sitemap is skipped.
\<close>

theorem malformed_link_ends_crawl:
  assumes "pn_capability_id node = ''depth_limited_crawl''" "xc_resources ctx \<noteq> []" "latest_artifact ctx [''raw''] = Some a"
    "ar_media_type a = ''text/html''" "normalize_url (rq_target (xc_request ctx)) = Inr ''https://site.example/''"
    "dv_read sv (ar_cas_uri a) (Some (b_decompressed_bytes (rq_budget (xc_request ctx)))) = Inr body"
    "(''a'', [(''href'', Some ''http://['')]) \<in> set (dv_tags sv (utf8_replace body))"
  shows "\<exists>ctx' en' e. crawl_execute sv node ctx en = (ctx', en', Some e) \<and> xc_crawl_report ctx' = xc_crawl_report ctx"
proof -
  have "isl (handle_starttag ''https://site.example/'' (''a'', [(''href'', Some ''http://['')]))" by code_simp
  then obtain e0 where "handle_starttag ''https://site.example/'' (''a'', [(''href'', Some ''http://['')]) = Inl e0" by (auto simp: isl_def)
  then obtain e where p: "page_links sv ''https://site.example/'' body = Inl e"
    using map_res_Inl [OF assms(7)] by (fastforce simp: page_links_def)
  have h: "site_host ''https://site.example/'' = Inr ''site.example''" by code_simp
  have d: "\<exists>e. discover_from_latest sv c ''https://site.example/'' 0 h f = Inl e"
    if "xc_request c = xc_request ctx" "latest_artifact c [''raw''] = Some a" for c h f
    using that assms(4,6) p by (simp add: discover_from_latest_def lift_exc_def)
  show ?thesis
  proof (cases "sanitize_url_for_request (rq_target (xc_request ctx)) (xc_request ctx)")
    case (Inl e)
    then show ?thesis using assms(1-3) by (simp add: crawl_execute_def)
  next
    case (Inr destination)
    define c where "c = ctx\<lparr>xc_attempts := xc_attempts ctx @ [crawl_attempt (en_next_id en) (en_clock en) ''depth_limited_crawl'' destination]\<rparr>"
    have c: "xc_request c = xc_request ctx" "latest_artifact c [''raw''] = Some a" "xc_crawl_report c = xc_crawl_report ctx"
      using assms(3) by (simp_all add: c_def latest_artifact_def)
    obtain e w where s: "start_crawl sv ''https://site.example/'' ''site.example'' c (en\<lparr>en_next_id := en_next_id en + 1\<rparr>) = (Inl e, w)"
      and w: "cw_context w = c"
      by (rule start_crawl_Inl [OF d [OF c(1,2)]])
    show ?thesis
      using assms(1-3,5) Inr h c(3) w s [unfolded c_def] by (simp add: crawl_execute_def Let_def)
  qed
qed

subsection \<open>A concrete crawl\<close>

definition crawled_page :: execution_context where
  "crawled_page = (ExecutionContext 1 (default_request ''https://site.example/''))\<lparr>
     xc_resources := [\<lparr>rs_resource_id = 2, rs_canonical_url = ''https://site.example/'', rs_requested_url = ''https://site.example/'',
       rs_media_type = None, rs_status_code = None, rs_retrieved_at = 0, rs_authority_url = None, rs_checked_only = False\<rparr>],
     xc_artifacts := [sample_artifact]\<rparr>"

definition linked_page :: "(string \<times> (string \<times> string option) list) list \<Rightarrow> crawl_services" where
  "linked_page tags = \<lparr>dv_http = (\<lambda>_ ctx en. (ctx, en, None)), dv_batch_size = 2, dv_search = None, dv_tags = (\<lambda>_. tags),
     dv_read = (\<lambda>_ _. Inr ''page''), dv_put = (\<lambda>_. Inr (''cas://sha256/00'', ''00'', 1)), dv_dumps = (\<lambda>_. []),
     dv_unicode = \<lparr>uc_space = (\<lambda>c. c = 32), uc_word = (\<lambda>c. 65 \<le> c), uc_digit = (\<lambda>c. 48 \<le> c), uc_casefold = (\<lambda>s. s)\<rparr>\<rparr>"

definition discovery_node :: plan_node where
  "discovery_node = PlanNode ''crawl'' ''depth_limited_crawl'' ''discovery'' []"

definition crawl_env :: env where
  "crawl_env = \<lparr>en_clock = 5, en_next_id = 10\<rparr>"

lemma one_attempt_linked_page: "one_attempt (dv_http (linked_page tags))"
  by (simp add: one_attempt_def linked_page_def)

lemma sample_urls:
  "sanitize_url_for_request ''https://site.example/'' (default_request ''https://site.example/'') = Inr ''https://site.example/''"
  "sanitize_url_for_request ''https://site.example/sitemap.xml'' (default_request ''https://site.example/'') = Inr ''https://site.example/sitemap.xml''"
  "normalize_url ''https://site.example/'' = Inr ''https://site.example/''"
  "normalize_url ''https://site.example/sitemap.xml'' = Inr ''https://site.example/sitemap.xml''"
  "urljoin ''https://site.example/'' ''/sitemap.xml'' = Inr ''https://site.example/sitemap.xml''"
  "site_host ''https://site.example/'' = Inr ''site.example''"
  "site_host ''https://site.example/sitemap.xml'' = Inr ''site.example''"
  "\<not> isl (urlsplit ''https://site.example/'')"
  by code_simp+

lemma sample_crawl_context [simp]:
  "xc_request crawled_page = default_request ''https://site.example/''" "xc_resources crawled_page \<noteq> []" "xc_attempts crawled_page = []"
  "latest_artifact crawled_page [''raw''] = Some sample_artifact" 
  by (simp_all add: crawled_page_def ExecutionContext_def latest_artifact_def sample_artifact_def)

lemma sample_budget [simp]:
  "rq_target (default_request u) = u" "rq_budget (default_request u) = default_budget"
  "b_crawl_depth default_budget = 2" "b_crawl_pages default_budget = 20" "b_attempts default_budget = 6"
  by (simp_all add: default_request_def default_budget_def)

lemma linked_page_sel [simp]:
  "dv_http (linked_page t) = (\<lambda>_ ctx en. (ctx, en, None))" "dv_batch_size (linked_page t) = 2" "dv_search (linked_page t) = None"
  "dv_put (linked_page t) = (\<lambda>_. Inr (''cas://sha256/00'', ''00'', 1))" "dv_tags (linked_page t) = (\<lambda>_. t)"
  by (simp_all add: linked_page_def)

lemma sample_crawl:
  "\<exists>ctx' en'. crawl_execute (linked_page []) discovery_node crawled_page crawl_env = (ctx', en', None)"
proof -
  define c where "c = crawled_page\<lparr>xc_attempts := [crawl_attempt 10 5 ''depth_limited_crawl'' ''https://site.example/'']\<rparr>"
  define en where "en = \<lparr>en_clock = 5, en_next_id = (11::nat)\<rparr>"
  have c: "xc_request c = default_request ''https://site.example/''" "latest_artifact c [''raw''] = Some sample_artifact"
    by (simp_all add: c_def crawled_page_def ExecutionContext_def latest_artifact_def sample_artifact_def)
  have d: "discover_from_latest (linked_page []) c ''https://site.example/'' 0 ''site.example'' f = Inr f" for f
    using c by (simp add: discover_from_latest_def page_links_def linked_page_def sample_artifact_def lift_exc_def)
  define w0 where "w0 = \<lparr>cw_context = c, cw_env = en,
     cw_frontier = \<lparr>fo_items = [\<lparr>fi_url = ''https://site.example/sitemap.xml'', fi_depth = 0, fi_parent_url = Some ''https://site.example/'', fi_relation = ''sitemap''\<rparr>],
       fo_seen = [''https://site.example/sitemap.xml'', ''https://site.example/''], fo_counters = no_counts\<rparr>,
     cw_targets = [\<lparr>dt_url = ''https://site.example/'', dt_depth = 0, dt_parent_url = None, dt_relation = ''root'', dt_fetched = True,
       dt_accepted = qa_accepted (ar_quality (last (xc_artifacts c))), dt_failure_code = None\<rparr>],
     cw_pages_checked = 1, cw_pages_fetched = 1, cw_pages_failed = 0, cw_maximum_depth = 0\<rparr>"
  have s: "start_crawl (linked_page []) ''https://site.example/'' ''site.example'' c en = (Inr (), w0)"
    by (simp add: start_crawl_def c d sample_urls lift_exc_def enqueue_item_def search_frontier_def w0_def)
  have m: "maximum_pages c = 6" using c by (simp add: maximum_pages_def c_def)
  have a: "length (xc_attempts c) = 1" by (simp add: c_def)
  obtain w1 where b: "crawl_batch (linked_page []) ''site.example'' 6 w0 = (Inr (), w1)" and w1: "fo_items (cw_frontier w1) = []"
     "xc_request (cw_context w1) = default_request ''https://site.example/''"
    using c a by (simp add: crawl_batch_def slots_def w0_def fetch_page_def absorb_page_def page_failed_def page_context_def ExecutionContext_def
        merge_context_def discovered_def sample_urls)
  have "crawl_loop (linked_page []) ''site.example'' 6 w0 = (Inr (), w1)"
    using b w1 c a by (simp add: crawl_loop.simps slots_def w0_def)
  moreover have "\<exists>ctx' en'. finish_crawl (linked_page []) ''https://site.example/'' 6 0 attempt w1 = (ctx', en', None)" for attempt
    using w1 sample_urls by (cases "urlsplit ''https://site.example/''") (auto simp: finish_crawl_def lift_exc_def Let_def)
  ultimately show ?thesis
    using s m by (simp add: crawl_execute_def discovery_node_def PlanNode_def sample_urls c_def crawl_env_def en_def Let_def)
qed

theorem crawl_bounded_witness:
  "\<exists>ctx' en' report. crawl_execute (linked_page []) discovery_node crawled_page crawl_env = (ctx', en', None) \<and>
     xc_crawl_report ctx' = Some report \<and> length (cr_targets report) \<le> 20 \<and> length (xc_attempts ctx') \<le> 6"
proof -
  obtain ctx' en' where e: "crawl_execute (linked_page []) discovery_node crawled_page crawl_env = (ctx', en', None)" using sample_crawl by blast
  show ?thesis
    using crawl_bounded [OF e one_attempt_linked_page] e valid_default_budget by auto
qed

theorem crawl_stays_on_site_witness:
  "crawl_execute ((linked_page [])\<lparr>dv_http := \<lambda>_ ctx en.
       if site_host (rq_target (xc_request ctx)) = Inr ''site.example'' then (ctx, en, None) else (ctx, en, Some (adapter_error ''off site''))\<rparr>)
     discovery_node crawled_page crawl_env =
   crawl_execute (linked_page []) discovery_node crawled_page crawl_env"
  by (rule crawl_stays_on_site [where root_url = "''https://site.example/''" and h = "''site.example''"])
    (use sample_urls valid_default_budget in \<open>simp_all add: same_on_site_def one_attempt_def\<close>)

theorem malformed_link_ends_crawl_witness:
  "\<exists>ctx' en' e. crawl_execute (linked_page [(''a'', [(''href'', Some ''http://['')])]) discovery_node crawled_page crawl_env = (ctx', en', Some e) \<and>
     xc_crawl_report ctx' = None"
proof -
  have r: "xc_crawl_report crawled_page = None" by (simp add: crawled_page_def ExecutionContext_def)
  show ?thesis
    using malformed_link_ends_crawl [of discovery_node crawled_page sample_artifact
        "linked_page [(''a'', [(''href'', Some ''http://['')])]" "''page''" crawl_env] sample_urls r
    by (simp add: discovery_node_def PlanNode_def sample_artifact_def linked_page_def)
qed

end
