(* ===== verification/Archive.thy ===== *)
theory Archive
  imports Executor_Correct Storage Quality Logic
begin

section \<open>Archives: adapters/archive.py and archive\_worker.py\<close>

text \<open>
  The validation of archive members, the worker process that parses an archive, the parent that
  checks what the worker says, and the adapter. What \<^verbatim>\<open>zipfile\<close> and \<^verbatim>\<open>tarfile\<close> read from a body,
  base64, JSON, the process runner and the Unicode tables are parameters. Names and bodies are byte
  lists. Of an error of these libraries that is replaced by another one, the cause is not kept.
\<close>

subsection \<open>Names and contents\<close>

definition ARCHIVE_SUFFIXES :: "string set" where
  "ARCHIVE_SUFFIXES = {''.7z'', ''.bz2'', ''.gz'', ''.rar'', ''.tar'', ''.tgz'', ''.zip''}"

definition MAX_WORKER_OUTPUT_BYTES :: int where "MAX_WORKER_OUTPUT_BYTES = 256000000"
definition MAX_ARCHIVE_INPUT_BYTES :: int where "MAX_ARCHIVE_INPUT_BYTES = 50000000"
definition MAX_MEMBER_NAME_BYTES :: nat where "MAX_MEMBER_NAME_BYTES = 4096"

record archive_limits =
  al_maximum_members :: int
  al_maximum_expanded :: int
  al_maximum_ratio :: rat

definition ArchiveLimits :: "int \<Rightarrow> int \<Rightarrow> rat \<Rightarrow> archive_limits res" where
  "ArchiveLimits members expanded ratio =
     (if members \<le> 0 \<or> expanded \<le> 0 then Inl (ValueError ''archive integer limits must be positive'')
      else if ratio < 1 then Inl (ValueError ''archive compression ratio must be at least one'')
      else Inr \<lparr>al_maximum_members = members, al_maximum_expanded = expanded, al_maximum_ratio = ratio\<rparr>)"

text \<open>The components of a \<^verbatim>\<open>PurePosixPath\<close> without its root.\<close>

definition posix_parts :: "string \<Rightarrow> string list" where
  "posix_parts path = filter (\<lambda>c. c \<noteq> [] \<and> c \<noteq> ''.'') (py_split (CHR ''/'') path)"

definition validate_name :: "string \<Rightarrow> string res" where
  "validate_name name =
     (if name = [] \<or> MAX_MEMBER_NAME_BYTES < length name \<or> CHR 0x5C \<in> set name \<or> list_ex (\<lambda>c. ord_char c < 32) name
      then Inl (ValueError ''archive member name is invalid'')
      else if py_startswith name ''/'' \<or> ''..'' \<in> set (posix_parts name) \<or> posix_parts name = []
      then Inl (ValueError ''archive path traversal detected'')
      else let normalized = py_join ''/'' (posix_parts name) in
        if py_startswith normalized ''/'' \<or> py_startswith normalized ''../''
        then Inl (ValueError ''archive path traversal detected'')
        else Inr normalized)"

definition casefold_name :: "unicode \<Rightarrow> string \<Rightarrow> nat list" where
  "casefold_name uc name = uc_casefold uc (map utf8_code (utf8_chars name))"

definition record_name :: "unicode \<Rightarrow> string \<Rightarrow> nat list list \<Rightarrow> nat list list res" where
  "record_name uc name seen =
     (if casefold_name uc name \<in> set seen then Inl (ValueError ''duplicate archive member path detected'')
      else Inr (casefold_name uc name # seen))"

definition ARCHIVE_SIGNATURES :: "string list" where
  "ARCHIVE_SIGNATURES = [''PK'' @ [CHR 0x03, CHR 0x04], ''PK'' @ [CHR 0x05, CHR 0x06], ''PK'' @ [CHR 0x07, CHR 0x08],
     [CHR 0x1F, CHR 0x8B], ''BZh'', ''7z'' @ [CHR 0xBC, CHR 0xAF, CHR 0x27, CHR 0x1C], ''Rar!'' @ [CHR 0x1A, CHR 0x07]]"

definition has_archive_signature :: "string \<Rightarrow> bool" where
  "has_archive_signature content \<longleftrightarrow> list_ex (py_startswith content) ARCHIVE_SIGNATURES \<or>
     262 < length content \<and> take 5 (drop 257 content) = ''ustar''"

definition reject_nested :: "string \<Rightarrow> string \<Rightarrow> unit res" where
  "reject_nested name content =
     raise_if (posix_suffix (py_lower name) \<in> ARCHIVE_SUFFIXES \<or> has_archive_signature content)
       (ValueError ''nested archives require an explicitly isolated recursive plan'')"

subsection \<open>Extraction\<close>

record zip_info =
  zi_filename :: string
  zi_external_attr :: nat
  zi_flag_bits :: nat
  zi_file_size :: nat
  zi_compress_size :: nat
  zi_read :: "py_exc + string"

record tar_member =
  tm_name :: string
  tm_link_or_device :: bool
  tm_isfile :: bool
  tm_sparse :: bool
  tm_size :: nat
  tm_extractfile :: "py_exc + string option"

record extraction =
  xt_output :: "(string \<times> string) list"
  xt_expanded :: nat
  xt_seen :: "nat list list"

definition no_members :: extraction where
  "no_members = \<lparr>xt_output = [], xt_expanded = 0, xt_seen = []\<rparr>"

definition is_link_mode :: "nat \<Rightarrow> bool" where
  "is_link_mode mode \<longleftrightarrow> (mode div 4096) mod 16 = 10"

definition admit_name :: "unicode \<Rightarrow> string \<Rightarrow> extraction \<Rightarrow> (string \<times> extraction) res" where
  "admit_name uc raw_name x =
     bind_res (validate_name raw_name) (\<lambda>name.
     bind_res (record_name uc name (xt_seen x)) (\<lambda>seen. Inr (name, x\<lparr>xt_seen := seen\<rparr>)))"

definition keep_member :: "string \<Rightarrow> string \<Rightarrow> extraction \<Rightarrow> extraction res" where
  "keep_member name content x =
     bind_res (reject_nested name content) (\<lambda>_. Inr (x\<lparr>xt_output := xt_output x @ [(name, content)]\<rparr>))"

definition zip_member :: "unicode \<Rightarrow> archive_limits \<Rightarrow> extraction \<Rightarrow> zip_info \<Rightarrow> py_exc + extraction" where
  "zip_member uc bounds x0 info =
     bind_res (lift_exc (admit_name uc (zi_filename info) x0)) (\<lambda>(name, x).
     if is_link_mode (zi_external_attr info div 65536) then Inl (value_exc (ValueError ''archive symlinks are forbidden''))
     else if py_endswith (zi_filename info) ''/'' then Inr x
     else if odd (zi_flag_bits info) then Inl (value_exc (ValueError ''encrypted archive members are forbidden''))
     else if al_maximum_ratio bounds < of_nat (zi_file_size info) / of_nat (max 1 (zi_compress_size info))
     then Inl (value_exc (ValueError ''archive compression ratio exceeded''))
     else let x1 = x\<lparr>xt_expanded := xt_expanded x + zi_file_size info\<rparr> in
       if al_maximum_expanded bounds < int (xt_expanded x1) then Inl (value_exc (ValueError ''archive expanded-byte limit exceeded''))
       else bind_res (zi_read info) (\<lambda>content.
         if length content \<noteq> zi_file_size info then Inl (value_exc (ValueError ''archive member size does not match metadata''))
         else lift_exc (keep_member name content x1)))"

definition extract_zip :: "unicode \<Rightarrow> archive_limits \<Rightarrow> zip_info list \<Rightarrow> py_exc + (string \<times> string) list" where
  "extract_zip uc bounds infos =
     (if al_maximum_members bounds < int (length infos) then Inl (value_exc (ValueError ''archive member limit exceeded''))
      else bind_res (fold_res (zip_member uc bounds) no_members infos) (\<lambda>x. Inr (xt_output x)))"

definition read_tar_member :: "tar_member \<Rightarrow> py_exc + string" where
  "read_tar_member member =
     bind_res (tm_extractfile member) (\<lambda>extracted.
     case extracted of
       None \<Rightarrow> Inl (value_exc (ValueError ''archive member could not be read''))
     | Some file \<Rightarrow>
         let content = take (tm_size member + 1) file in
         if length content \<noteq> tm_size member then Inl (value_exc (ValueError ''archive member size does not match metadata''))
         else Inr content)"

definition tar_step :: "unicode \<Rightarrow> archive_limits \<Rightarrow> nat \<Rightarrow> extraction \<Rightarrow> tar_member \<Rightarrow> py_exc + extraction" where
  "tar_step uc bounds body_size x0 member =
     bind_res (lift_exc (admit_name uc (tm_name member) x0)) (\<lambda>(name, x).
     if tm_link_or_device member then Inl (value_exc (ValueError ''archive links and devices are forbidden''))
     else if \<not> tm_isfile member then Inr x
     else if tm_sparse member then Inl (value_exc (ValueError ''sparse archive members are forbidden''))
     else let x1 = x\<lparr>xt_expanded := xt_expanded x + tm_size member\<rparr> in
       if al_maximum_expanded bounds < int (xt_expanded x1) then Inl (value_exc (ValueError ''archive expanded-byte limit exceeded''))
       else if al_maximum_ratio bounds < of_nat (xt_expanded x1) / of_nat (max 1 body_size)
       then Inl (value_exc (ValueError ''archive compression ratio exceeded''))
       else bind_res (read_tar_member member) (\<lambda>content. lift_exc (keep_member name content x1)))"

definition extract_tar :: "unicode \<Rightarrow> archive_limits \<Rightarrow> nat \<Rightarrow> tar_member list \<Rightarrow> py_exc + (string \<times> string) list" where
  "extract_tar uc bounds body_size members =
     (if al_maximum_members bounds < int (length members) then Inl (value_exc (ValueError ''archive member limit exceeded''))
      else bind_res (fold_res (tar_step uc bounds body_size) no_members members) (\<lambda>x. Inr (xt_output x)))"

record archive_services =
  av_is_zipfile :: "string \<Rightarrow> bool"
  av_infolist :: "string \<Rightarrow> py_exc + zip_info list"
  av_getmembers :: "string \<Rightarrow> py_exc + tar_member list"
  av_b64encode :: "string \<Rightarrow> string"
  av_b64decode :: "string \<Rightarrow> string option"
  av_dumps :: "pyval \<Rightarrow> string"
  av_summary_dumps :: "pyval \<Rightarrow> string"
  av_loads :: "string \<Rightarrow> pyval option"
  av_unicode :: unicode

definition extract_members :: "archive_services \<Rightarrow> string \<Rightarrow> int \<Rightarrow> int \<Rightarrow> rat \<Rightarrow> py_exc + (string \<times> string) list" where
  "extract_members sv body members expanded ratio =
     bind_res (lift_exc (ArchiveLimits members expanded ratio)) (\<lambda>bounds.
     if body = [] then Inl (value_exc (ValueError ''archive body cannot be empty''))
     else if av_is_zipfile sv body then bind_res (av_infolist sv body) (extract_zip (av_unicode sv) bounds)
     else case bind_res (av_getmembers sv body) (extract_tar (av_unicode sv) bounds (length body)) of
       Inl e \<Rightarrow>
         if ex_type_name e = ''ReadError'' then Inl (caused_by (value_exc (ValueError ''unsupported or malformed archive'')) e)
         else Inl e
     | Inr ms \<Rightarrow> Inr ms)"

subsection \<open>The worker\<close>

definition MAX_ARCHIVE_WORKER_STDIN_BYTES :: nat where "MAX_ARCHIVE_WORKER_STDIN_BYTES = 70000000"

definition read_payload :: "archive_services \<Rightarrow> string \<Rightarrow> pyval res" where
  "read_payload sv stdin =
     (let encoded = take (MAX_ARCHIVE_WORKER_STDIN_BYTES + 1) stdin in
      if MAX_ARCHIVE_WORKER_STDIN_BYTES < length encoded
      then Inl (ValueError ''archive worker input exceeded its hard byte limit'')
      else case av_loads sv encoded of
        None \<Rightarrow> Inl (ValueError ''archive worker input is not strict JSON'')
      | Some v \<Rightarrow> Inr v)"

definition has_keys :: "document \<Rightarrow> string set \<Rightarrow> bool" where
  "has_keys d ks \<longleftrightarrow> fst ` set d = ks"

definition parse_limits :: "pyval \<Rightarrow> archive_limits res" where
  "parse_limits v =
     (case v of
        VDict d \<Rightarrow>
          if \<not> has_keys d {''maximum_members'', ''maximum_expanded'', ''maximum_ratio''}
          then Inl (ValueError ''archive worker limits schema is invalid'')
          else let invalid = Inl (ValueError ''archive worker limits are invalid'') in
            (case (map_of d ''maximum_members'', map_of d ''maximum_expanded'') of
               (Some (VInt members), Some (VInt expanded)) \<Rightarrow>
                 if members \<le> 0 \<or> expanded \<le> 0 then invalid
                 else (case map_of d ''maximum_ratio'' of
                    Some (VInt r) \<Rightarrow> if r < 1 then invalid else ArchiveLimits members expanded (of_int r)
                  | Some (VFloat r) \<Rightarrow> if r < 1 then invalid else ArchiveLimits members expanded r
                  | _ \<Rightarrow> invalid)
             | _ \<Rightarrow> invalid)
      | _ \<Rightarrow> Inl (ValueError ''archive worker limits schema is invalid''))"

definition validate_payload :: "archive_services \<Rightarrow> pyval \<Rightarrow> (string \<times> archive_limits) res" where
  "validate_payload sv payload =
     (case payload of
        VDict d \<Rightarrow>
          if \<not> has_keys d {''body'', ''limits''} then Inl (ValueError ''archive worker payload schema is invalid'')
          else (case map_of d ''body'' of
             Some (VStr encoded_body) \<Rightarrow>
               (case av_b64decode sv encoded_body of
                  None \<Rightarrow> Inl (ValueError ''archive worker body is not valid base64'')
                | Some body \<Rightarrow>
                    bind_res (parse_limits (the (map_of d ''limits''))) (\<lambda>bounds.
                    if al_maximum_expanded bounds < int (length body)
                    then Inl (ValueError ''archive worker body exceeds its hard byte limit'')
                    else Inr (body, bounds)))
           | _ \<Rightarrow> Inl (ValueError ''archive worker body must be base64 text''))
      | _ \<Rightarrow> Inl (ValueError ''archive worker payload schema is invalid''))"

definition members_document :: "archive_services \<Rightarrow> (string \<times> string) list \<Rightarrow> pyval" where
  "members_document sv members =
     VDict [(''members'', VList (map (\<lambda>(name, content).
       VDict [(''body'', VStr (av_b64encode sv content)), (''name'', VStr name)]) members))]"

definition worker_main :: "archive_services \<Rightarrow> string \<Rightarrow> string \<times> int" where
  "worker_main sv stdin =
     (case bind_res (lift_exc (read_payload sv stdin)) (\<lambda>payload.
           bind_res (lift_exc (validate_payload sv payload)) (\<lambda>(body, bounds).
           extract_members sv body (al_maximum_members bounds) (al_maximum_expanded bounds) (al_maximum_ratio bounds))) of
        Inl e \<Rightarrow> (av_dumps sv (VDict [(''error'', VStr ''archive_parse_failed'')]), 1)
      | Inr members \<Rightarrow> (av_dumps sv (members_document sv members), 0))"

definition deny_runtime_side_effects :: "string \<Rightarrow> bool" where
  "deny_runtime_side_effects event \<longleftrightarrow>
     event = ''open'' \<or> py_startswith event ''socket.'' \<or> py_startswith event ''subprocess.'' \<or> py_startswith event ''os.spawn'' \<or>
     event \<in> {''os.system'', ''os.posix_spawn'', ''pty.spawn''}"

subsection \<open>The parent\<close>

definition decode_member :: "archive_services \<Rightarrow> archive_limits \<Rightarrow> extraction \<Rightarrow> string \<Rightarrow> string \<Rightarrow> py_exc + extraction" where
  "decode_member sv bounds x0 raw_name encoded =
     bind_res (lift_exc (admit_name (av_unicode sv) raw_name x0)) (\<lambda>(name, x).
     case av_b64decode sv encoded of
       None \<Rightarrow> Inl (adapter_error ''archive worker returned invalid base64'')
     | Some content \<Rightarrow>
         let x1 = x\<lparr>xt_expanded := xt_expanded x + length content\<rparr> in
         if al_maximum_expanded bounds < int (xt_expanded x1) then Inl (adapter_error ''archive worker exceeded the expanded-byte limit'')
         else lift_exc (keep_member name content x1))"

definition worker_member :: "archive_services \<Rightarrow> archive_limits \<Rightarrow> extraction \<Rightarrow> pyval \<Rightarrow> py_exc + extraction" where
  "worker_member sv bounds x item =
     (case item of
        VDict d \<Rightarrow>
          if \<not> has_keys d {''body'', ''name''} then Inl (adapter_error ''archive worker member schema is invalid'')
          else (case (map_of d ''name'', map_of d ''body'') of
             (Some (VStr raw_name), Some (VStr encoded)) \<Rightarrow> decode_member sv bounds x raw_name encoded
           | _ \<Rightarrow> Inl (adapter_error ''archive worker member types are invalid''))
      | _ \<Rightarrow> Inl (adapter_error ''archive worker member schema is invalid''))"

definition validate_worker_members :: "archive_services \<Rightarrow> pyval \<Rightarrow> archive_limits \<Rightarrow> py_exc + (string \<times> string) list" where
  "validate_worker_members sv response bounds =
     (case response of
        VDict d \<Rightarrow>
          if \<not> has_keys d {''members''} then Inl (adapter_error ''archive worker response schema is invalid'')
          else (case map_of d ''members'' of
             Some (VList raw_members) \<Rightarrow>
               if al_maximum_members bounds < int (length raw_members) then Inl (adapter_error ''archive worker member list is invalid'')
               else bind_res (fold_res (worker_member sv bounds) no_members raw_members) (\<lambda>x. Inr (xt_output x))
           | _ \<Rightarrow> Inl (adapter_error ''archive worker member list is invalid''))
      | _ \<Rightarrow> Inl (adapter_error ''archive worker response schema is invalid''))"

definition payload_document :: "archive_services \<Rightarrow> string \<Rightarrow> archive_limits \<Rightarrow> pyval" where
  "payload_document sv body bounds =
     VDict [(''body'', VStr (av_b64encode sv body)),
       (''limits'', VDict [(''maximum_members'', VInt (al_maximum_members bounds)),
          (''maximum_expanded'', VInt (al_maximum_expanded bounds)),
          (''maximum_ratio'', VFloat (al_maximum_ratio bounds))])]"

definition worker_payload :: "archive_services \<Rightarrow> string \<Rightarrow> archive_limits \<Rightarrow> string" where
  "worker_payload sv body bounds = av_dumps sv (payload_document sv body bounds)"

definition worker_output_limit :: "archive_limits \<Rightarrow> int" where
  "worker_output_limit bounds = min MAX_WORKER_OUTPUT_BYTES (al_maximum_expanded bounds * 2 + 65536)"

text \<open>\<open>run\<close> is \<^verbatim>\<open>run_bounded\<close>: the payload, the deadline and the output limit to the result of the process.\<close>

definition worker_extract ::
  "archive_services \<Rightarrow> (string \<Rightarrow> rat \<Rightarrow> int \<Rightarrow> logic_exc + process_result) \<Rightarrow> string \<Rightarrow> archive_limits \<Rightarrow> rat \<Rightarrow> py_exc + (string \<times> string) list" where
  "worker_extract sv run body bounds timeout_seconds =
     (if timeout_seconds \<le> 0 then Inl (adapter_error ''archive extraction has no deadline budget'')
      else if min MAX_ARCHIVE_INPUT_BYTES (al_maximum_expanded bounds) < int (length body)
      then Inl (adapter_error ''archive body exceeds the worker input limit'')
      else case run (worker_payload sv body bounds) timeout_seconds (worker_output_limit bounds) of
        Inl (LogicError m) \<Rightarrow> Inl (adapter_error ''bounded archive extraction process failed'')
      | Inl (LogicRaised e) \<Rightarrow> Inl (value_exc e)
      | Inr process \<Rightarrow>
          if pr_stdout process = [] then Inl (adapter_error ''archive worker exited without output'')
          else (case av_loads sv (pr_stdout process) of
             None \<Rightarrow> Inl (adapter_error ''archive worker returned malformed output'')
           | Some response \<Rightarrow>
               if pr_returncode process \<noteq> 0 then Inl (adapter_error ''bounded archive extraction failed'')
               else validate_worker_members sv response bounds))"

subsection \<open>The adapter\<close>

record archive_adapter =
  aa_services :: archive_services
  aa_parser :: "string \<Rightarrow> archive_limits \<Rightarrow> rat \<Rightarrow> py_exc + (string \<times> string) list"
  aa_worker_timeout_seconds :: rat
  aa_library_error :: "py_exc \<Rightarrow> bool"
  aa_read :: "string \<Rightarrow> int option \<Rightarrow> py_exc + string"
  aa_put :: "string \<Rightarrow> py_exc + string \<times> string \<times> nat"

text \<open>
  \<open>aa_library_error\<close>: whether an exception is one of \<^verbatim>\<open>EOFError\<close>, \<^verbatim>\<open>OSError\<close>, \<^verbatim>\<open>RuntimeError\<close>,
  \<^verbatim>\<open>tarfile.TarError\<close> and \<^verbatim>\<open>zipfile.BadZipFile\<close>.
\<close>

definition archive_input_limit :: "resource_budget \<Rightarrow> int" where
  "archive_input_limit b = min (b_bytes b) (min (b_decompressed_bytes b) MAX_ARCHIVE_INPUT_BYTES)"

definition archive_attempt :: "uuid \<Rightarrow> time \<Rightarrow> string \<Rightarrow> string \<Rightarrow> fetch_attempt" where
  "archive_attempt i now capability destination = \<lparr>at_attempt_id = i, at_capability_id = capability, at_adapter_version = ''0.4.0a0'',
     at_started_at = now, at_finished_at = None, at_sanitized_destination = destination, at_status = AT_RUNNING,
     at_http_status = None, at_bytes_received = 0, at_parser = None, at_artifact_ids = [], at_failure_code = None,
     at_warnings = [], at_consumed_budget = []\<rparr>"

text \<open>What the adapter reads and checks before it starts an attempt: the source, its body and the bounds left.\<close>

definition archive_source :: "archive_adapter \<Rightarrow> plan_node \<Rightarrow> execution_context \<Rightarrow> py_exc + artifact \<times> string \<times> int \<times> int \<times> string" where
  "archive_source aa node ctx =
     (let request = xc_request ctx; limit = archive_input_limit (rq_budget request) in
      if pn_capability_id node \<noteq> ''zip_archive'' then Inl (adapter_error (''archive adapter cannot execute '' @ pn_capability_id node))
      else case latest_artifact ctx [''raw''] of
        None \<Rightarrow> Inl (adapter_error ''archive extraction requires a source artifact'')
      | Some raw \<Rightarrow>
          if xc_resources ctx = [] then Inl (adapter_error ''archive extraction requires a source artifact'')
          else if limit < int (ar_size raw) then Inl (adapter_error ''archive body exceeds the parser input limit'')
          else bind_res (aa_read aa (ar_cas_uri raw) (Some limit)) (\<lambda>body.
            bind_res (lift_exc (remaining_budget ctx ''decompressed_bytes'')) (\<lambda>expanded.
            bind_res (lift_exc (remaining_budget ctx ''archive_members'')) (\<lambda>members.
            bind_res (require_budget ctx ''decompressed_bytes'' 1) (\<lambda>_.
            bind_res (require_budget ctx ''archive_members'' 1) (\<lambda>_.
            bind_res (lift_exc (sanitize_url_for_request (rq_target request) request)) (\<lambda>destination.
              Inr (raw, body, \<lfloor>members\<rfloor>, \<lfloor>expanded\<rfloor>, destination))))))))"

definition run_parser :: "archive_adapter \<Rightarrow> execution_context \<Rightarrow> string \<Rightarrow> int \<Rightarrow> int \<Rightarrow> py_exc + (string \<times> string) list" where
  "run_parser aa ctx body members expanded =
     (let b = rq_budget (xc_request ctx) in
      bind_res (lift_exc (ArchiveLimits members expanded (b_archive_ratio b))) (\<lambda>bounds.
        aa_parser aa body bounds (min (aa_worker_timeout_seconds aa) (b_deadline_seconds b))))"

definition fail_archive :: "archive_adapter \<Rightarrow> plan_node \<Rightarrow> fetch_attempt \<Rightarrow> py_exc \<Rightarrow> time \<Rightarrow> execution_context \<Rightarrow> execution_context \<times> py_exc" where
  "fail_archive aa node attempt e now ctx =
     (if is_adapter_execution_error (ex_class e) \<or> ex_class e = ExcValue \<or> aa_library_error aa e then
        let ctx1 = ctx\<lparr>xc_attempts := butlast (xc_attempts ctx) @ [attempt\<lparr>at_status := AT_FAILED, at_finished_at := Some now,
              at_failure_code := Some ''unsafe_or_malformed_archive'', at_warnings := [ex_message e]\<rparr>]\<rparr>;
            ctx2 = record_outcome ctx1 (pn_capability_id node) CO_FAILED ''archive'' [(''reason'', VStr (ex_message e))] in
        (ctx2, if is_adapter_execution_error (ex_class e) then e else caused_by (adapter_error (ex_message e)) e)
      else (ctx, e))"

definition member_locator :: "string \<Rightarrow> string" where
  "member_locator name = ''member:'' @ name"

definition archive_summary :: "(string \<times> string) list \<Rightarrow> pyval" where
  "archive_summary members = VDict [(''members'', VList (map (\<lambda>(name, content).
     VDict [(''locator'', VStr (member_locator name)), (''size'', VInt (int (length content)))]) members))]"

definition expanded_bytes :: "(string \<times> string) list \<Rightarrow> nat" where
  "expanded_bytes members = sum_list (map (length \<circ> snd) members)"

definition archive_quality :: "(string \<times> string) list \<Rightarrow> quality_assessment" where
  "archive_quality members =
     (let found = members \<noteq> [] in
      \<lparr>qa_page_state = (if found then PS_OK else PS_EMPTY), qa_score = (if found then 1 else 0), qa_accepted = found, qa_language = None,
       qa_completeness = (if found then 1 else 0), qa_duplicate_of = None,
       qa_reasons = [if found then ''bounded archive member manifest validated'' else ''archive contains no regular members'']\<rparr>)"

fun store_members ::
  "archive_adapter \<Rightarrow> artifact \<Rightarrow> artifact \<Rightarrow> (string \<times> string) list \<Rightarrow> execution_context \<times> env \<Rightarrow> (py_exc + unit) \<times> execution_context \<times> env" where
  "store_members aa raw manifest [] s = (Inr (), s)"
| "store_members aa raw manifest ((name, content) # ms) (ctx, en) =
     (case aa_put aa content of
        Inl e \<Rightarrow> (Inl e, ctx, en)
      | Inr (uri, digest, byte_size) \<Rightarrow>
          let quality = assess_text (av_unicode (aa_services aa)) None (map utf8_code (utf8_chars (utf8_replace content)));
              member = build_artifact (en_next_id en) ''derived'' ''archive_member'' ''application/octet-stream'' uri digest byte_size
                (last (xc_resources ctx)) ''stdlib-archive/0.1'' quality [raw, manifest] [member_locator name] in
          store_members aa raw manifest ms (ctx\<lparr>xc_artifacts := xc_artifacts ctx @ [member]\<rparr>, en\<lparr>en_next_id := en_next_id en + 1\<rparr>))"

definition finish_archive ::
  "plan_node \<Rightarrow> fetch_attempt \<Rightarrow> string \<Rightarrow> (string \<times> string) list \<Rightarrow> nat \<Rightarrow> time \<Rightarrow> execution_context \<Rightarrow> execution_context" where
  "finish_archive node attempt body members byte_size now ctx =
     (let recent = drop (length (xc_artifacts ctx) - (length members + 1)) (xc_artifacts ctx);
          ctx1 = ctx\<lparr>xc_accepted := xc_accepted ctx \<or> qa_accepted (archive_quality members)\<rparr>;
          ctx2 = record_outcome ctx1 (pn_capability_id node) CO_APPLIED ''archive''
            [(''bounded'', VBool True), (''isolated_worker'', VBool True), (''members'', VInt (int (length members))),
             (''expanded_bytes'', VInt (int (expanded_bytes members)))]
      in ctx2\<lparr>xc_attempts := butlast (xc_attempts ctx2) @ [attempt\<lparr>at_status := AT_SUCCEEDED, at_finished_at := Some now,
           at_bytes_received := int (length body), at_parser := Some ''stdlib-archive'',
           at_artifact_ids := map ar_artifact_id (filter (\<lambda>a. a \<in> set recent) (xc_artifacts ctx)),
           at_consumed_budget := [(''decompressed_bytes'', of_nat (expanded_bytes members + byte_size)),
             (''archive_members'', of_nat (length members))]\<rparr>]\<rparr>)"

definition store_archive ::
  "archive_adapter \<Rightarrow> plan_node \<Rightarrow> fetch_attempt \<Rightarrow> artifact \<Rightarrow> string \<Rightarrow> (string \<times> string) list \<Rightarrow> execution_context \<times> env
     \<Rightarrow> (py_exc + unit) \<times> execution_context \<times> env" where
  "store_archive aa node attempt raw body members s =
     (case s of (ctx, en) \<Rightarrow>
        let encoded = av_summary_dumps (aa_services aa) (archive_summary members); quality = archive_quality members in
        case bind_res (require_budget ctx ''decompressed_bytes'' (of_nat (expanded_bytes members + length encoded))) (\<lambda>_.
             bind_res (require_budget ctx ''archive_members'' (of_nat (length members))) (\<lambda>_. aa_put aa encoded)) of
          Inl e \<Rightarrow> (Inl e, ctx, en)
        | Inr (uri, digest, byte_size) \<Rightarrow>
            let manifest = build_artifact (en_next_id en) (if qa_accepted quality then ''primary'' else ''checked-only'') ''archive_manifest''
                  ''application/vnd.fetech.archive+json'' uri digest byte_size (last (xc_resources ctx)) ''stdlib-archive/0.1'' quality
                  [raw] (map (member_locator \<circ> fst) members) in
            bind_run (store_members aa raw manifest members
                (ctx\<lparr>xc_artifacts := xc_artifacts ctx @ [manifest]\<rparr>, en\<lparr>en_next_id := en_next_id en + 1\<rparr>)) (\<lambda>_ (ctx1, en1).
              (Inr (), finish_archive node attempt body members byte_size (en_clock en1) ctx1, en1)))"

definition archive_execute :: "archive_adapter \<Rightarrow> adapter" where
  "archive_execute aa node ctx0 en0 =
     (case archive_source aa node ctx0 of
        Inl e \<Rightarrow> (ctx0, en0, Some e)
      | Inr (raw, body, members_left, expanded_left, destination) \<Rightarrow>
          let attempt = archive_attempt (en_next_id en0) (en_clock en0) (pn_capability_id node) destination;
              ctx = ctx0\<lparr>xc_attempts := xc_attempts ctx0 @ [attempt]\<rparr>;
              en = en0\<lparr>en_next_id := en_next_id en0 + 1\<rparr> in
          (case run_parser aa ctx body members_left expanded_left of
             Inl e \<Rightarrow> (case fail_archive aa node attempt e (en_clock en) ctx of (ctx1, e1) \<Rightarrow> (ctx1, en, Some e1))
           | Inr members \<Rightarrow>
               (case store_archive aa node attempt raw body members (ctx, en) of
                  (Inl e, ctx1, en1) \<Rightarrow> (ctx1, en1, Some e)
                | (Inr _, ctx1, en1) \<Rightarrow> (ctx1, en1, None))))"

end
