(* ===== verification/Archive_Correct.thy ===== *)
theory Archive_Correct
  imports Archive
begin

section \<open>Correctness of the archive extraction\<close>

text \<open>
  What the worker and its parent accept, that the two processes agree, and the budgets of the
  adapter. The three loops over members share the locale \<open>member_step\<close>.
\<close>

subsection \<open>Member names\<close>

definition safe_member_name :: "string \<Rightarrow> bool" where
  "safe_member_name name \<longleftrightarrow> length name \<le> MAX_MEMBER_NAME_BYTES \<and>
     list_all (\<lambda>c. c \<noteq> CHR 0x5C \<and> 32 \<le> ord_char c) name \<and>
     list_all (\<lambda>p. p \<notin> {[], ''.'', ''..''}) (py_split (CHR ''/'') name)"

lemma safe_member_name_start:
  assumes "safe_member_name name"
  shows "name \<noteq> []" "\<not> py_startswith name ''/''" "\<not> py_startswith name ''../''"
proof -
  show "name \<noteq> []" "\<not> py_startswith name ''/''"
    using assms by (cases name; auto simp: safe_member_name_def py_startswith_iff)+
  show "\<not> py_startswith name ''../''"
    using assms by (auto simp: safe_member_name_def py_startswith_iff split: list.splits)
qed

lemma validate_nameE:
  assumes "validate_name raw = Inr name"
  obtains "length raw \<le> MAX_MEMBER_NAME_BYTES" "CHR 0x5C \<notin> set raw" "\<not> list_ex (\<lambda>c. ord_char c < 32) raw"
    "''..'' \<notin> set (posix_parts raw)" "posix_parts raw \<noteq> []" "name = py_join ''/'' (posix_parts raw)"
  using assms unfolding validate_name_def Let_def by (simp split: if_splits)

lemma validate_name_safe:
  assumes "validate_name raw = Inr name"
  shows "safe_member_name name"
proof -
  let ?ps = "posix_parts raw"
  from assms obtain ok: "length raw \<le> MAX_MEMBER_NAME_BYTES" "CHR 0x5C \<notin> set raw" "\<not> list_ex (\<lambda>c. ord_char c < 32) raw"
    and p: "''..'' \<notin> set ?ps" "?ps \<noteq> []" and n: "name = py_join ''/'' ?ps"
    by (rule validate_nameE)
  have mem: "q \<in> set (py_split (CHR ''/'') raw)" if "q \<in> set ?ps" for q using that by (simp add: posix_parts_def)
  have sep: "list_all (\<lambda>q. CHR ''/'' \<notin> set q) ?ps"
    unfolding list_all_iff using py_split_no_sep [OF mem] by blast
  have s: "py_split (CHR ''/'') name = ?ps" unfolding n by (rule py_split_join [OF p(2) sep])
  have "Suc (length name) \<le> Suc (length (py_join [CHR ''/''] (py_split (CHR ''/'') raw)))"
    using p(2) sum_list_filter_le [of "\<lambda>p. Suc (length p)" "\<lambda>c. c \<noteq> [] \<and> c \<noteq> ''.''" "py_split (CHR ''/'') raw"]
    unfolding n by (simp only: length_py_join py_split_not_Nil not_False_eq_True posix_parts_def)
  then have len: "length name \<le> MAX_MEMBER_NAME_BYTES" using ok(1) by (simp add: py_join_split)
  have sub: "set name \<subseteq> insert (CHR ''/'') (set raw)"
    using set_py_join [of "''/''" ?ps] py_split_subset [OF mem] unfolding n by fastforce
  have "c \<noteq> CHR 0x5C \<and> 32 \<le> ord_char c" if "c \<in> set name" for c
  proof (cases "c = CHR ''/''")
    case False
    then have "c \<in> set raw" using that sub by blast
    then show ?thesis using ok(2,3) by (force simp: list_ex_iff)
  qed (simp add: ord_char_def)
  then have "list_all (\<lambda>c. c \<noteq> CHR 0x5C \<and> 32 \<le> ord_char c) name" by (simp add: list_all_iff)
  moreover have "list_all (\<lambda>p. p \<notin> {[], ''.'', ''..''}) ?ps" using p(1) by (auto simp: posix_parts_def list_all_iff)
  ultimately show ?thesis using len s by (simp add: safe_member_name_def)
qed

lemma validate_name_id:
  assumes "safe_member_name name"
  shows "validate_name name = Inr name"
proof -
  have parts: "posix_parts name = py_split (CHR ''/'') name"
    using assms by (auto simp: safe_member_name_def posix_parts_def list_all_iff intro!: filter_True)
  have "''..'' \<notin> set (posix_parts name)" using assms unfolding parts by (auto simp: safe_member_name_def list_all_iff)
  moreover have "\<not> (MAX_MEMBER_NAME_BYTES < length name \<or> CHR 0x5C \<in> set name \<or> list_ex (\<lambda>c. ord_char c < 32) name)"
    using assms by (fastforce simp: safe_member_name_def list_all_iff list_ex_iff)
  ultimately show ?thesis
    using safe_member_name_start [OF assms] py_join_split [of "CHR ''/''" name] parts by (simp add: validate_name_def)
qed

subsection \<open>What an extraction may return\<close>

definition good_member :: "string \<times> string \<Rightarrow> bool" where
  "good_member m \<longleftrightarrow> safe_member_name (fst m) \<and> reject_nested (fst m) (snd m) = Inr ()"

definition members_safe :: "unicode \<Rightarrow> archive_limits \<Rightarrow> (string \<times> string) list \<Rightarrow> bool" where
  "members_safe uc bounds ms \<longleftrightarrow> int (length ms) \<le> al_maximum_members bounds \<and>
     int (expanded_bytes ms) \<le> al_maximum_expanded bounds \<and> list_all good_member ms \<and>
     distinct (map (casefold_name uc \<circ> fst) ms)"

definition extraction_ok :: "unicode \<Rightarrow> archive_limits \<Rightarrow> extraction \<Rightarrow> bool" where
  "extraction_ok uc bounds x \<longleftrightarrow> list_all good_member (xt_output x) \<and>
     distinct (map (casefold_name uc \<circ> fst) (xt_output x)) \<and>
     set (map (casefold_name uc \<circ> fst) (xt_output x)) \<subseteq> set (xt_seen x) \<and>
     expanded_bytes (xt_output x) \<le> xt_expanded x \<and> int (xt_expanded x) \<le> al_maximum_expanded bounds"

text \<open>
  Every way to extract members folds a step over what was listed. A step that keeps the invariant
  and adds at most one member gives safe members.
\<close>

locale member_step =
  fixes step :: "extraction \<Rightarrow> 'a \<Rightarrow> py_exc + extraction" and uc :: unicode and bounds :: archive_limits
  assumes step_ok: "step x item = Inr x' \<Longrightarrow> extraction_ok uc bounds x \<Longrightarrow> extraction_ok uc bounds x'"
    and step_one: "step x item = Inr x' \<Longrightarrow> length (xt_output x') \<le> Suc (length (xt_output x))"
begin

lemma fold_ok:
  "fold_res step x items = Inr x' \<Longrightarrow> extraction_ok uc bounds x \<Longrightarrow>
     extraction_ok uc bounds x' \<and> length (xt_output x') \<le> length (xt_output x) + length items"
proof (induction items arbitrary: x)
  case (Cons i items)
  then obtain y where y: "step x i = Inr y" "fold_res step y items = Inr x'" by auto
  then show ?case
    using Cons.IH [OF y(2) step_ok [OF y(1) Cons.prems(2)]] step_one [OF y(1)] by simp
qed simp

lemma fold_safe:
  assumes "fold_res step no_members items = Inr x" "int (length items) \<le> al_maximum_members bounds" "0 \<le> al_maximum_expanded bounds"
  shows "members_safe uc bounds (xt_output x)"
proof -
  have "extraction_ok uc bounds no_members" using assms(3) by (simp add: extraction_ok_def no_members_def expanded_bytes_def)
  from fold_ok [OF assms(1) this] show ?thesis
    using assms(2) by (auto simp: members_safe_def extraction_ok_def no_members_def)
qed

end

lemma expanded_bytes_simps [simp]:
  "expanded_bytes [] = 0" "expanded_bytes (m # ms) = length (snd m) + expanded_bytes ms"
  "expanded_bytes (ms @ ms') = expanded_bytes ms + expanded_bytes ms'"
  by (simp_all add: expanded_bytes_def)

lemma admit_name_Inr:
  assumes "admit_name uc raw x = Inr (name, y)"
  obtains "validate_name raw = Inr name" "casefold_name uc name \<notin> set (xt_seen x)" "y = x\<lparr>xt_seen := casefold_name uc name # xt_seen x\<rparr>"
  using assms by (auto simp: admit_name_def record_name_def split: if_splits)

lemma admit_name_ok:
  assumes "admit_name uc raw x = Inr (name, y)" "extraction_ok uc bounds x"
  shows "extraction_ok uc bounds y" "xt_output y = xt_output x" "xt_expanded y = xt_expanded x"
proof -
  from assms(1) have y: "y = x\<lparr>xt_seen := casefold_name uc name # xt_seen x\<rparr>" by (rule admit_name_Inr)
  show "xt_output y = xt_output x" "xt_expanded y = xt_expanded x" by (simp_all add: y)
  show "extraction_ok uc bounds y" using assms(2) unfolding extraction_ok_def by (simp add: y subset_insertI2)
qed

text \<open>The common tail of the three steps: the size is charged, the content is checked and kept.\<close>

lemma keep_member_ok:
  assumes "keep_member name content (y\<lparr>xt_expanded := xt_expanded y + n\<rparr>) = Inr z" "admit_name uc raw x = Inr (name, y)"
    "length content = n" "int (xt_expanded y + n) \<le> al_maximum_expanded bounds" "extraction_ok uc bounds x"
  shows "extraction_ok uc bounds z"
proof -
  from assms(2) obtain v: "validate_name raw = Inr name" "casefold_name uc name \<notin> set (xt_seen x)"
    and y: "y = x\<lparr>xt_seen := casefold_name uc name # xt_seen x\<rparr>" by (rule admit_name_Inr)
  have z: "reject_nested name content = Inr ()"
    "z = x\<lparr>xt_seen := casefold_name uc name # xt_seen x, xt_expanded := xt_expanded x + n, xt_output := xt_output x @ [(name, content)]\<rparr>"
    using assms(1) by (auto simp: keep_member_def y)
  have x: "list_all good_member (xt_output x)" "distinct (map (casefold_name uc \<circ> fst) (xt_output x))"
    "set (map (casefold_name uc \<circ> fst) (xt_output x)) \<subseteq> set (xt_seen x)" "expanded_bytes (xt_output x) \<le> xt_expanded x"
    using assms(5) unfolding extraction_ok_def by blast+
  have "casefold_name uc name \<notin> set (map (casefold_name uc \<circ> fst) (xt_output x))" using v(2) x(3) by blast
  then show ?thesis
    using assms(3,4) z(1) validate_name_safe [OF v(1)] x unfolding extraction_ok_def
    by (simp add: z(2) good_member_def y subset_insertI2)
qed

lemma keep_member_one: "keep_member name content y = Inr z \<Longrightarrow> length (xt_output z) = Suc (length (xt_output y))"
  by (auto simp: keep_member_def)

lemma read_tar_member_length: "read_tar_member m = Inr content \<Longrightarrow> length content = tm_size m"
  by (auto simp: read_tar_member_def returns)

lemma worker_memberE:
  assumes "worker_member sv bounds x item = Inr x'"
  obtains raw encoded where "decode_member sv bounds x raw encoded = Inr x'"
  using assms by (auto simp: worker_member_def split: pyval.split_asm if_splits option.split_asm)

lemma admit_name_output: "admit_name uc raw x = Inr (name, y) \<Longrightarrow> xt_output y = xt_output x"
  by (auto elim!: admit_name_Inr)

interpretation zip: member_step "zip_member uc bounds" uc bounds for uc bounds
proof (unfold_locales, goal_cases)
  case (1 x info x')
  from 1(1) obtain name y where a: "admit_name uc (zi_filename info) x = Inr (name, y)"
    and r: "x' = y \<or> (\<exists>content. length content = zi_file_size info \<and> int (xt_expanded y + zi_file_size info) \<le> al_maximum_expanded bounds \<and>
      keep_member name content (y\<lparr>xt_expanded := xt_expanded y + zi_file_size info\<rparr>) = Inr x')"
    by (auto simp: zip_member_def Let_def split: if_splits)
  show ?case using r keep_member_ok [OF _ a _ _ 1(2)] admit_name_ok(1) [OF a 1(2)] by blast
next
  case (2 x info x')
  then show ?case
    by (auto simp: zip_member_def Let_def dest!: admit_name_output keep_member_one split: if_splits)
qed

interpretation tar: member_step "tar_step uc bounds n" uc bounds for uc bounds n
proof (unfold_locales, goal_cases)
  case (1 x member x')
  from 1(1) obtain name y where a: "admit_name uc (tm_name member) x = Inr (name, y)"
    and r: "x' = y \<or> (\<exists>content. length content = tm_size member \<and> int (xt_expanded y + tm_size member) \<le> al_maximum_expanded bounds \<and>
      keep_member name content (y\<lparr>xt_expanded := xt_expanded y + tm_size member\<rparr>) = Inr x')"
    using read_tar_member_length [of member] by (fastforce simp: tar_step_def Let_def split: if_splits)
  show ?case using r keep_member_ok [OF _ a _ _ 1(2)] admit_name_ok(1) [OF a 1(2)] by blast
next
  case (2 x member x')
  then show ?case
    by (auto simp: tar_step_def Let_def dest!: admit_name_output keep_member_one split: if_splits)
qed

interpretation worker: member_step "worker_member sv bounds" "av_unicode sv" bounds for sv bounds
proof (unfold_locales, goal_cases)
  case (1 x item x')
  from 1(1) obtain raw encoded where "decode_member sv bounds x raw encoded = Inr x'" by (rule worker_memberE)
  then obtain name y content where a: "admit_name (av_unicode sv) raw x = Inr (name, y)"
    and r: "int (xt_expanded y + length content) \<le> al_maximum_expanded bounds"
      "keep_member name content (y\<lparr>xt_expanded := xt_expanded y + length content\<rparr>) = Inr x'"
    by (auto simp: decode_member_def returns not_less)
  show ?case by (rule keep_member_ok [OF r(2) a refl r(1) 1(2)])
next
  case (2 x item x')
  from 2 obtain raw encoded where "decode_member sv bounds x raw encoded = Inr x'" by (rule worker_memberE)
  then show ?case by (auto simp: decode_member_def returns dest!: admit_name_output keep_member_one)
qed

lemma extract_members_safe:
  assumes "extract_members sv body members expanded ratio = Inr ms"
  shows "members_safe (av_unicode sv) \<lparr>al_maximum_members = members, al_maximum_expanded = expanded, al_maximum_ratio = ratio\<rparr> ms"
proof -
  let ?b = "\<lparr>al_maximum_members = members, al_maximum_expanded = expanded, al_maximum_ratio = ratio\<rparr>"
  have l: "ArchiveLimits members expanded ratio = Inr ?b" "0 \<le> al_maximum_expanded ?b"
    using assms by (auto simp: extract_members_def ArchiveLimits_def split: if_splits)
  from assms l(1) consider infos where "extract_zip (av_unicode sv) ?b infos = Inr ms"
    | ts where "extract_tar (av_unicode sv) ?b (length body) ts = Inr ms"
    by (auto simp: extract_members_def split: if_splits sum.splits)
  then show ?thesis
  proof cases
    case 1
    then show ?thesis using zip.fold_safe [OF _ _ l(2)] by (auto simp: extract_zip_def split: if_splits)
  next
    case 2
    then show ?thesis using tar.fold_safe [OF _ _ l(2)] by (auto simp: extract_tar_def split: if_splits)
  qed
qed

lemma validate_worker_members_safe:
  "validate_worker_members sv response bounds = Inr ms \<Longrightarrow> 0 \<le> al_maximum_expanded bounds \<Longrightarrow> members_safe (av_unicode sv) bounds ms"
  by (auto simp: validate_worker_members_def intro: worker.fold_safe split: pyval.splits if_splits option.splits)

subsection \<open>Whatever the worker says\<close>

text \<open>
  C32: the parent accepts safe members only. Whatever the worker process answers, members that the
  parent returns are at most as many as allowed and at most as large in sum, their names are
  relative paths of at most 4096 bytes without dot components, backslashes and control characters,
  no two of them are equal when case is ignored, and none of them is an archive.
\<close>

theorem archive_members_safe:
  assumes "worker_extract sv run body bounds timeout_seconds = Inr ms"
  shows "members_safe (av_unicode sv) bounds ms"
proof -
  from assms obtain response where "validate_worker_members sv response bounds = Inr ms"
    by (auto simp: worker_extract_def split: if_splits sum.split_asm logic_exc.split_asm option.split_asm)
  moreover have "0 \<le> al_maximum_expanded bounds"
    using assms by (auto simp: worker_extract_def split: if_splits)
  ultimately show ?thesis by (rule validate_worker_members_safe)
qed

subsection \<open>The two processes agree\<close>

text \<open>The process runner on the worker, which fails when the output is too long.\<close>

definition run_worker :: "archive_services \<Rightarrow> string \<Rightarrow> rat \<Rightarrow> int \<Rightarrow> logic_exc + process_result" where
  "run_worker sv payload timeout_seconds maximum_output_bytes =
     (case worker_main sv payload of (out, status) \<Rightarrow>
        if maximum_output_bytes < int (length out) then Inl (LogicError ''worker output exceeded its limit'')
        else Inr \<lparr>pr_returncode = status, pr_stdout = out, pr_stderr = []\<rparr>)"

lemma validate_good_member: "good_member m \<Longrightarrow> validate_name (fst m) = Inr (fst m) \<and> reject_nested (fst m) (snd m) = Inr ()"
  by (simp add: good_member_def validate_name_id)

lemma worker_member_encoded:
  assumes "good_member (name, content)" "casefold_name (av_unicode sv) name \<notin> set (xt_seen x)"
    "int (xt_expanded x + length content) \<le> al_maximum_expanded bounds" "av_b64decode sv (av_b64encode sv content) = Some content"
  shows "worker_member sv bounds x (VDict [(''body'', VStr (av_b64encode sv content)), (''name'', VStr name)]) =
    Inr \<lparr>xt_output = xt_output x @ [(name, content)], xt_expanded = xt_expanded x + length content,
      xt_seen = casefold_name (av_unicode sv) name # xt_seen x\<rparr>"
  using assms(2-4) validate_good_member [OF assms(1)]
  by (auto simp: worker_member_def has_keys_def decode_member_def admit_name_def record_name_def keep_member_def lift_exc_def)

lemma worker_members_encoded:
  assumes "list_all good_member ms" "distinct (map (casefold_name (av_unicode sv) \<circ> fst) ms)"
    "set (map (casefold_name (av_unicode sv) \<circ> fst) ms) \<inter> set (xt_seen x) = {}"
    "int (xt_expanded x + expanded_bytes ms) \<le> al_maximum_expanded bounds" "\<And>c. av_b64decode sv (av_b64encode sv c) = Some c"
  shows "\<exists>x'. fold_res (worker_member sv bounds) x (map (\<lambda>(name, content).
       VDict [(''body'', VStr (av_b64encode sv content)), (''name'', VStr name)]) ms) = Inr x' \<and> xt_output x' = xt_output x @ ms"
  using assms(1-4)
proof (induction ms arbitrary: x)
  case (Cons m ms)
  obtain name content where m: "m = (name, content)" by (rule prod.exhaust)
  let ?x = "\<lparr>xt_output = xt_output x @ [(name, content)], xt_expanded = xt_expanded x + length content,
      xt_seen = casefold_name (av_unicode sv) name # xt_seen x\<rparr>"
  have s: "worker_member sv bounds x (VDict [(''body'', VStr (av_b64encode sv content)), (''name'', VStr name)]) = Inr ?x"
    by (rule worker_member_encoded) (use Cons.prems assms(5) in \<open>auto simp: m\<close>)
  have "\<exists>x'. fold_res (worker_member sv bounds) ?x (map (\<lambda>(name, content).
       VDict [(''body'', VStr (av_b64encode sv content)), (''name'', VStr name)]) ms) = Inr x' \<and> xt_output x' = xt_output ?x @ ms"
    by (rule Cons.IH) (use Cons.prems in \<open>auto simp: m\<close>)
  then show ?case using s by (auto simp: m)
qed simp

lemma validate_members_document:
  assumes "members_safe (av_unicode sv) bounds ms" "\<And>c. av_b64decode sv (av_b64encode sv c) = Some c"
  shows "validate_worker_members sv (members_document sv ms) bounds = Inr ms"
proof -
  have "\<exists>x'. fold_res (worker_member sv bounds) no_members (map (\<lambda>(name, content).
       VDict [(''body'', VStr (av_b64encode sv content)), (''name'', VStr name)]) ms) = Inr x' \<and> xt_output x' = xt_output no_members @ ms"
    by (rule worker_members_encoded [OF _ _ _ _ assms(2)]) (use assms(1) in \<open>auto simp: members_safe_def no_members_def\<close>)
  then show ?thesis
    using assms(1) by (auto simp: validate_worker_members_def members_document_def has_keys_def members_safe_def no_members_def)
qed

lemma parse_limits_document:
  "0 < al_maximum_members b \<Longrightarrow> 0 < al_maximum_expanded b \<Longrightarrow> 1 \<le> al_maximum_ratio b \<Longrightarrow>
   parse_limits (VDict [(''maximum_members'', VInt (al_maximum_members b)), (''maximum_expanded'', VInt (al_maximum_expanded b)),
     (''maximum_ratio'', VFloat (al_maximum_ratio b))]) = Inr b"
  by (auto simp: parse_limits_def has_keys_def ArchiveLimits_def)

text \<open>
  C33: nothing is lost between the two processes. When the worker runs on the payload the parent
  sends and extracts members, the parent validates the answer and returns exactly these members:
  the second validation never rejects what the first one accepted. The JSON and base64 libraries
  have to read back what they wrote, and payload and answer have to fit the two limits.
\<close>

theorem archive_round_trip:
  assumes "extract_members sv body (al_maximum_members bounds) (al_maximum_expanded bounds) (al_maximum_ratio bounds) = Inr ms"
    "0 < timeout_seconds" "int (length body) \<le> min MAX_ARCHIVE_INPUT_BYTES (al_maximum_expanded bounds)"
    "\<And>c. av_b64decode sv (av_b64encode sv c) = Some c"
    "av_loads sv (worker_payload sv body bounds) = Some (payload_document sv body bounds)"
    "length (worker_payload sv body bounds) \<le> MAX_ARCHIVE_WORKER_STDIN_BYTES"
    "av_loads sv (av_dumps sv (members_document sv ms)) = Some (members_document sv ms)"
    "av_dumps sv (members_document sv ms) \<noteq> []" "int (length (av_dumps sv (members_document sv ms))) \<le> worker_output_limit bounds"
  shows "worker_extract sv (run_worker sv) body bounds timeout_seconds = Inr ms"
proof -
  have b: "0 < al_maximum_members bounds" "0 < al_maximum_expanded bounds" "1 \<le> al_maximum_ratio bounds"
    using assms(1) by (auto simp: extract_members_def ArchiveLimits_def split: if_splits)
  have "read_payload sv (worker_payload sv body bounds) = Inr (payload_document sv body bounds)"
    using assms(5,6) by (simp add: read_payload_def)
  moreover have "validate_payload sv (payload_document sv body bounds) = Inr (body, bounds)"
    using assms(3,4) parse_limits_document [OF b] by (auto simp: validate_payload_def payload_document_def has_keys_def)
  ultimately have m: "worker_main sv (worker_payload sv body bounds) = (av_dumps sv (members_document sv ms), 0)"
    using assms(1) by (simp add: worker_main_def lift_exc_def)
  have "members_safe (av_unicode sv) bounds ms" using extract_members_safe [OF assms(1)] by (simp add: members_safe_def)
  then show ?thesis
    using assms(2,3,7-9) validate_members_document [OF _ assms(4)] by (auto simp: worker_extract_def run_worker_def m)
qed

subsection \<open>Budgets of the adapter\<close>

lemma store_members_frame:
  "store_members aa raw m ms (ctx, en) = (r, ctx', en') \<Longrightarrow> xc_attempts ctx' = xc_attempts ctx \<and> xc_request ctx' = xc_request ctx"
proof (induction ms arbitrary: ctx en)
  case (Cons x ms)
  obtain name content where x: "x = (name, content)" by (rule prod.exhaust)
  show ?case
  proof (cases "aa_put aa content")
    case (Inr y)
    then show ?thesis using Cons by (cases y) (auto simp: x Let_def)
  qed (use Cons x in simp)
qed simp

lemma finish_archive_attempts:
  "\<exists>a. xc_attempts (finish_archive node attempt body ms n now ctx) = butlast (xc_attempts ctx) @ [a] \<and>
     consumption ''decompressed_bytes'' a = of_nat (expanded_bytes ms + n) \<and> consumption ''archive_members'' a = of_nat (length ms)"
  "xc_request (finish_archive node attempt body ms n now ctx) = xc_request ctx"
  by (simp_all add: finish_archive_def Let_def consumption_def)

lemma require_budget_Inr:
  assumes "require_budget ctx name amount = Inr ()" "budget_field (rq_budget (xc_request ctx)) name = Some limit"
  shows "amount \<le> max 0 (limit - consumed_budget ctx name)"
  using assms by (auto simp: require_budget_def remaining_budget_def split: if_splits)

text \<open>An attempt whose consumption was checked against what the run has left.\<close>

definition charged :: "archive_adapter \<Rightarrow> execution_context \<Rightarrow> fetch_attempt \<Rightarrow> bool" where
  "charged aa ctx a \<longleftrightarrow> (\<exists>ms n uri digest.
     aa_put aa (av_summary_dumps (aa_services aa) (archive_summary ms)) = Inr (uri, digest, n) \<and>
     consumption ''decompressed_bytes'' a = of_nat (expanded_bytes ms + n) \<and> consumption ''archive_members'' a = of_nat (length ms) \<and>
     require_budget ctx ''decompressed_bytes'' (of_nat (expanded_bytes ms + length (av_summary_dumps (aa_services aa) (archive_summary ms)))) = Inr () \<and>
     require_budget ctx ''archive_members'' (of_nat (length ms)) = Inr ())"

lemma store_archive_attempts:
  assumes "store_archive aa node attempt raw body ms (ctx, en) = (r, ctx', en')"
  shows "xc_request ctx' = xc_request ctx \<and>
    (xc_attempts ctx' = xc_attempts ctx \<and> isl r \<or> (\<exists>a. xc_attempts ctx' = butlast (xc_attempts ctx) @ [a] \<and> charged aa ctx a))"
proof -
  let ?d = "av_summary_dumps (aa_services aa) (archive_summary ms)"
  define pre where "pre = bind_res (require_budget ctx ''decompressed_bytes'' (of_nat (expanded_bytes ms + length ?d))) (\<lambda>_.
             bind_res (require_budget ctx ''archive_members'' (of_nat (length ms))) (\<lambda>_. aa_put aa ?d))"
  show ?thesis
  proof (cases pre)
    case (Inl e)
    then show ?thesis using assms unfolding pre_def by (auto simp: store_archive_def Let_def)
  next
    case (Inr y)
    obtain uri digest n where y: "y = (uri, digest, n)" by (rule prod_cases3)
    obtain m c0 e0 where s: "store_archive aa node attempt raw body ms (ctx, en) =
        bind_run (store_members aa raw m ms (c0, e0)) (\<lambda>_ (ctx1, en1). (Inr (), finish_archive node attempt body ms n (en_clock en1) ctx1, en1))"
      and c0: "xc_attempts c0 = xc_attempts ctx" "xc_request c0 = xc_request ctx"
      using Inr unfolding pre_def y by (auto simp: store_archive_def Let_def)
    obtain q c1 e1 where q: "store_members aa raw m ms (c0, e0) = (q, c1, e1)" by (rule prod_cases3)
    have c1: "xc_attempts c1 = xc_attempts ctx" "xc_request c1 = xc_request ctx" using store_members_frame [OF q] c0 by simp_all
    show ?thesis
    proof (cases q)
      case (Inl e)
      then show ?thesis using assms s q c1 by auto
    next
      case Inr': (Inr u)
      then have f: "ctx' = finish_archive node attempt body ms n (en_clock e1) c1" using assms s q by auto
      obtain a where "xc_attempts ctx' = butlast (xc_attempts ctx) @ [a]"
        "consumption ''decompressed_bytes'' a = of_nat (expanded_bytes ms + n)" "consumption ''archive_members'' a = of_nat (length ms)"
        using finish_archive_attempts(1) [where ctx = c1] unfolding f c1 by blast
      moreover have "charged aa ctx a"
        using calculation(2,3) Inr unfolding charged_def pre_def y by auto
      ultimately show ?thesis using finish_archive_attempts(2) c1(2) f by auto
    qed
  qed
qed

lemma archive_sourceE:
  assumes "archive_source aa node ctx = Inr (raw, body, members, expanded, destination)"
  obtains "require_budget ctx ''decompressed_bytes'' 1 = Inr ()" "require_budget ctx ''archive_members'' 1 = Inr ()"
  using assms by (auto simp: archive_source_def Let_def split: if_splits option.split_asm)

lemma fail_archive_attempts:
  "fail_archive aa node attempt e now ctx = (ctx', e') \<Longrightarrow> xc_attempts ctx \<noteq> [] \<Longrightarrow>
     length (xc_attempts ctx') = length (xc_attempts ctx) \<and> xc_request ctx' = xc_request ctx"
  by (auto simp: fail_archive_def Let_def split: if_splits)

lemma archive_execute_attempts:
  assumes "archive_execute aa node ctx en = (ctx', en', r)"
  shows "xc_request ctx' = xc_request ctx \<and> length (xc_attempts ctx') \<le> length (xc_attempts ctx) + 1 \<and>
    (r \<noteq> None \<or> (\<exists>a. xc_attempts ctx' = xc_attempts ctx @ [a] \<and> charged aa ctx a \<and>
       require_budget ctx ''decompressed_bytes'' 1 = Inr () \<and> require_budget ctx ''archive_members'' 1 = Inr ()))"
proof (cases "archive_source aa node ctx")
  case (Inl e)
  then show ?thesis using assms by (auto simp: archive_execute_def)
next
  case (Inr s)
  obtain raw body left_m left_e destination where s: "s = (raw, body, left_m, left_e, destination)" by (metis prod_cases5)
  from Inr s have q: "require_budget ctx ''decompressed_bytes'' 1 = Inr ()" "require_budget ctx ''archive_members'' 1 = Inr ()"
    by (auto elim: archive_sourceE)
  define at0 where "at0 = archive_attempt (en_next_id en) (en_clock en) (pn_capability_id node) destination"
  define c where "c = ctx\<lparr>xc_attempts := xc_attempts ctx @ [at0]\<rparr>"
  define en1 where "en1 = en\<lparr>en_next_id := en_next_id en + 1\<rparr>"
  have c: "xc_attempts c = xc_attempts ctx @ [at0]" "xc_request c = xc_request ctx" by (simp_all add: c_def)
  have "consumption name at0 = 0" for name by (simp add: at0_def archive_attempt_def consumption_def)
  then have "consumed_budget c = consumed_budget ctx" by (intro ext) (simp add: consumed_budget_def c)
  then have "require_budget c = require_budget ctx" by (intro ext) (simp only: require_budget_def remaining_budget_def c)
  then have rb: "charged aa c = charged aa ctx" by (intro ext) (simp only: charged_def)
  show ?thesis
  proof (cases "run_parser aa c body left_m left_e")
    case (Inl e)
    obtain c1 e1 where f: "fail_archive aa node at0 e (en_clock en1) c = (c1, e1)" by (rule prod.exhaust)
    have "ctx' = c1 \<and> r = Some e1"
      using assms Inr s Inl f by (auto simp: archive_execute_def Let_def at0_def c_def en1_def)
    then show ?thesis using fail_archive_attempts [OF f] c by simp
  next
    case Inr': (Inr ms)
    obtain q1 c1 e1 where f: "store_archive aa node at0 raw body ms (c, en1) = (q1, c1, e1)" by (rule prod_cases3)
    have "ctx' = c1 \<and> (isl q1 \<longrightarrow> r \<noteq> None)"
      using assms Inr s Inr' f by (auto simp: archive_execute_def Let_def at0_def c_def en1_def split: sum.splits)
    then show ?thesis using store_archive_attempts [OF f] c q rb by auto
  qed
qed

text \<open>
  Unpacking stays within the budgets. With a content store that reports the size of what it
  stored, a call of the archive adapter that succeeds leaves the expanded bytes (manifest included)
  and the members of the run within their limits; and every call records at most one attempt.
\<close>

theorem archive_within_budget:
  assumes "archive_execute aa node ctx en = (ctx', en', None)" "name \<in> {''decompressed_bytes'', ''archive_members''}"
    "budget_field (rq_budget (xc_request ctx)) name = Some limit"
    "\<And>bytes uri digest n. aa_put aa bytes = Inr (uri, digest, n) \<Longrightarrow> n = length bytes"
  shows "consumed_budget ctx' name \<le> limit \<and> one_attempt (archive_execute aa)"
proof -
  obtain a where x: "xc_attempts ctx' = xc_attempts ctx @ [a]" "charged aa ctx a"
    and q: "require_budget ctx ''decompressed_bytes'' 1 = Inr ()" "require_budget ctx ''archive_members'' 1 = Inr ()"
    using archive_execute_attempts [OF assms(1)] by blast
  have c: "consumed_budget ctx' name = consumed_budget ctx name + consumption name a" using x(1) by (simp add: consumed_budget_def)
  have r: "require_budget ctx name (consumption name a) = Inr ()" "require_budget ctx name 1 = Inr ()"
    using assms(2) x(2) q assms(4) unfolding charged_def by auto
  have "consumption name a \<le> max 0 (limit - consumed_budget ctx name)" "1 \<le> max 0 (limit - consumed_budget ctx name)"
    using require_budget_Inr [OF _ assms(3)] r by blast+
  then have "consumed_budget ctx' name \<le> limit" unfolding c by linarith
  moreover have "one_attempt (archive_execute aa)"
    unfolding one_attempt_def using archive_execute_attempts by metis
  ultimately show ?thesis ..
qed

subsection \<open>A concrete archive\<close>

text \<open>A tar archive with one file; the libraries write and read one fixed text for each document.\<close>

definition archive_bounds :: archive_limits where
  "archive_bounds = \<lparr>al_maximum_members = 5, al_maximum_expanded = 100, al_maximum_ratio = 100\<rparr>"

definition one_file :: archive_services where
  "one_file = \<lparr>av_is_zipfile = (\<lambda>_. False), av_infolist = (\<lambda>_. Inr []),
     av_getmembers = (\<lambda>_. Inr [\<lparr>tm_name = ''./a/b.txt'', tm_link_or_device = False, tm_isfile = True, tm_sparse = False, tm_size = 2,
        tm_extractfile = Inr (Some ''hi'')\<rparr>]),
     av_b64encode = (\<lambda>s. s), av_b64decode = Some,
     av_dumps = (\<lambda>v. case v of VDict [(k, _)] \<Rightarrow> ''answer'' | _ \<Rightarrow> ''payload''),
     av_summary_dumps = (\<lambda>_. ''summary''),
     av_loads = (\<lambda>s. Some (if s = ''answer'' then VDict [(''members'', VList [VDict [(''body'', VStr ''hi''), (''name'', VStr ''a/b.txt'')]])]
       else VDict [(''body'', VStr ''tar''), (''limits'', VDict [(''maximum_members'', VInt 5), (''maximum_expanded'', VInt 100),
         (''maximum_ratio'', VFloat 100)])])),
     av_unicode = \<lparr>uc_space = (\<lambda>c. c = 32), uc_word = (\<lambda>c. 65 \<le> c), uc_digit = (\<lambda>c. 48 \<le> c), uc_casefold = (\<lambda>s. s)\<rparr>\<rparr>"

lemma one_file_extracts: "extract_members one_file ''tar'' 5 100 100 = Inr [(''a/b.txt'', ''hi'')]"
  by code_simp

theorem archive_round_trip_witness:
  "worker_extract one_file (run_worker one_file) ''tar'' archive_bounds 1 = Inr [(''a/b.txt'', ''hi'')]"
  by (rule archive_round_trip)
    (use one_file_extracts in \<open>simp add: archive_bounds_def\<close>,
     simp_all add: archive_bounds_def one_file_def MAX_ARCHIVE_INPUT_BYTES_def worker_payload_def payload_document_def
      members_document_def MAX_ARCHIVE_WORKER_STDIN_BYTES_def worker_output_limit_def MAX_WORKER_OUTPUT_BYTES_def)

theorem archive_members_safe_witness:
  "worker_extract one_file (\<lambda>_ _ _. Inr \<lparr>pr_returncode = 0, pr_stdout = ''answer'', pr_stderr = []\<rparr>) ''tar'' archive_bounds 1 = Inr [(''a/b.txt'', ''hi'')] \<and>
   members_safe (av_unicode one_file) archive_bounds [(''a/b.txt'', ''hi'')]"
proof -
  have "worker_extract one_file (\<lambda>_ _ _. Inr \<lparr>pr_returncode = 0, pr_stdout = ''answer'', pr_stderr = []\<rparr>) ''tar'' archive_bounds 1 = Inr [(''a/b.txt'', ''hi'')]"
    by code_simp
  then show ?thesis using archive_members_safe by blast
qed

definition archive_page :: execution_context where
  "archive_page = (ExecutionContext 1 (default_request ''https://site.example/x.tar''))\<lparr>
     xc_resources := [\<lparr>rs_resource_id = 2, rs_canonical_url = ''https://site.example/x.tar'', rs_requested_url = ''https://site.example/x.tar'',
       rs_media_type = None, rs_status_code = None, rs_retrieved_at = 0, rs_authority_url = None, rs_checked_only = False\<rparr>],
     xc_artifacts := [sample_artifact]\<rparr>"

definition empty_archive :: archive_adapter where
  "empty_archive = \<lparr>aa_services = one_file, aa_parser = (\<lambda>_ _ _. Inr []), aa_worker_timeout_seconds = 20, aa_library_error = (\<lambda>_. False),
     aa_read = (\<lambda>_ _. Inr ''tar''), aa_put = (\<lambda>bytes. Inr (''cas://sha256/00'', ''00'', length bytes))\<rparr>"

lemma empty_archive_stored:
  "\<exists>ctx' en'. archive_execute empty_archive (PlanNode ''zip'' ''zip_archive'' ''archive'' []) archive_page \<lparr>en_clock = 5, en_next_id = 10\<rparr> = (ctx', en', None)"
proof -
  have s: "sanitize_url_for_request ''https://site.example/x.tar'' (default_request ''https://site.example/x.tar'') = Inr ''https://site.example/x.tar''"
    by code_simp
  have b: "rq_budget (default_request u) = default_budget" "rq_target (default_request u) = u" for u by (simp_all add: default_request_def)
  show ?thesis
    by (simp add: archive_execute_def archive_source_def PlanNode_def archive_page_def ExecutionContext_def latest_artifact_def sample_artifact_def
        archive_input_limit_def b s default_budget_def MAX_ARCHIVE_INPUT_BYTES_def empty_archive_def remaining_budget_def budget_field_def
        consumed_budget_def require_budget_def lift_exc_def Let_def run_parser_def ArchiveLimits_def store_archive_def consumption_def
        archive_attempt_def one_file_def bind_run_def)
qed

theorem archive_within_budget_witness:
  "\<exists>ctx' en'. archive_execute empty_archive (PlanNode ''zip'' ''zip_archive'' ''archive'' []) archive_page \<lparr>en_clock = 5, en_next_id = 10\<rparr> = (ctx', en', None) \<and>
     consumed_budget ctx' ''archive_members'' \<le> 1000"
proof -
  obtain ctx' en' where e: "archive_execute empty_archive (PlanNode ''zip'' ''zip_archive'' ''archive'' []) archive_page \<lparr>en_clock = 5, en_next_id = 10\<rparr> = (ctx', en', None)"
    using empty_archive_stored by blast
  have "budget_field (rq_budget (xc_request archive_page)) ''archive_members'' = Some 1000"
    by (simp add: archive_page_def ExecutionContext_def default_request_def default_budget_def budget_field_def)
  then show ?thesis using archive_within_budget [OF e, of "''archive_members''" 1000] e by (auto simp: empty_archive_def)
qed

end
