(* ===== verification/Auth_Flows.thy ===== *)
theory Auth_Flows
  imports Auth Models
begin

section \<open>Session and form proposals: auth\_flows.py\<close>

text \<open>
  Session descriptors, CSRF tokens, approvals and form proposals, and their in-memory providers. A
  date is an instant with a flag that says whether it has a time zone. Parameters are the clock
  (\<open>now\<close>), \<^verbatim>\<open>str.casefold\<close> (\<open>casefold\<close>) and what the tokenizer of \<^verbatim>\<open>html.parser\<close> calls (the start and
  end tags of a text, in order).
\<close>

subsection \<open>Constants and errors\<close>

definition MAX_CSRF_HTML_BYTES :: int where "MAX_CSRF_HTML_BYTES = 256 * 1024"
definition MAX_CSRF_FORMS :: int where "MAX_CSRF_FORMS = 32"
definition MAX_CSRF_FIELDS :: int where "MAX_CSRF_FIELDS = 256"
definition MAX_CSRF_TOKEN_BYTES :: nat where "MAX_CSRF_TOKEN_BYTES = 4 * 1024"
definition MAX_FORM_FIELDS :: nat where "MAX_FORM_FIELDS = 128"
definition MAX_FORM_BYTES :: nat where "MAX_FORM_BYTES = 64 * 1024"
definition MAX_APPROVAL_LIFETIME :: time where "MAX_APPROVAL_LIFETIME = 15 * 60"

definition field_name_ok :: "string \<Rightarrow> bool" where
  "field_name_ok s \<longleftrightarrow> s \<noteq> [] \<and> length s \<le> 128 \<and> list_all (\<lambda>c. is_alpha c \<or> is_digit c \<or> c \<in> set ''_.:-[]'') s"

definition connector_id_ok :: "string \<Rightarrow> bool" where
  "connector_id_ok s \<longleftrightarrow> s \<noteq> [] \<and> is_lower (hd s) \<and> length s \<le> 128 \<and>
     list_all (\<lambda>c. is_lower c \<or> is_digit c \<or> c \<in> set ''_.-'') (tl s)"

definition scope_ok :: "string \<Rightarrow> bool" where
  "scope_ok s \<longleftrightarrow> s \<noteq> [] \<and> length s \<le> 256 \<and> list_all (\<lambda>c. 0x21 \<le> ord_char c \<and> ord_char c \<le> 0x7E) s"

definition MUTATING_METHODS :: "string list" where
  "MUTATING_METHODS = [''POST'', ''PUT'', ''PATCH'', ''DELETE'']"

definition FORM_METHODS :: "string list" where
  "FORM_METHODS = ''GET'' # MUTATING_METHODS"

definition DEFAULT_CSRF_FIELD_NAMES :: "string list" where
  "DEFAULT_CSRF_FIELD_NAMES = [''_csrf'', ''_csrf_token'', ''__requestverificationtoken'', ''authenticity_token'', ''csrf'',
     ''csrf_token'', ''csrftoken'']"

datatype flow_error =
    AuthFlowError string
  | SessionBindingError string
  | CSRFExtractionError string
  | CSRFTokenNotFoundError string
  | CSRFTokenAmbiguousError string
  | ApprovalRequiredError string
  | SessionProviderError string
  | SessionNotFoundError string
  | SessionProviderUnavailableError string
  | FormSubmissionProviderError string
  | FormSubmissionNotFoundError string
  | FlowRaised py_error

type_synonym 'a flow = "flow_error + 'a"

text \<open>\<^verbatim>\<open>except ValueError as exc: raise E(str(exc))\<close>\<close>

definition as_flow_error :: "(string \<Rightarrow> flow_error) \<Rightarrow> 'a res \<Rightarrow> 'a flow" where
  "as_flow_error E m = (case m of Inr x \<Rightarrow> Inr x | Inl (ValueError msg) \<Rightarrow> Inl (E msg) | Inl e \<Rightarrow> Inl (FlowRaised e))"

definition lift_flow :: "'a res \<Rightarrow> 'a flow" where
  "lift_flow m = (case m of Inr x \<Rightarrow> Inr x | Inl e \<Rightarrow> Inl (FlowRaised e))"

text \<open>Whether an error is a \<^verbatim>\<open>ValueError\<close>: all flow errors are, those of providers are not.\<close>

definition is_value_error :: "flow_error \<Rightarrow> bool" where
  "is_value_error e = (case e of
     FlowRaised (ValueError _) \<Rightarrow> True | FlowRaised _ \<Rightarrow> False
   | SessionProviderError _ \<Rightarrow> False | SessionNotFoundError _ \<Rightarrow> False | SessionProviderUnavailableError _ \<Rightarrow> False
   | FormSubmissionProviderError _ \<Rightarrow> False | FormSubmissionNotFoundError _ \<Rightarrow> False | _ \<Rightarrow> True)"

subsection \<open>Validation\<close>

definition https_origin :: "string \<Rightarrow> string flow" where
  "https_origin url =
     bind_res (as_flow_error SessionBindingError (canonical_origin True url)) (\<lambda>origin.
     if \<not> py_startswith origin ''https://'' then Inl (SessionBindingError ''authenticated session origins must use HTTPS'')
     else Inr origin)"

definition https_url :: "string \<Rightarrow> string flow" where
  "https_url url =
     (let candidate = py_strip url in
      bind_res (lift_flow (urlsplit candidate)) (\<lambda>parts.
      if py_lower (sr_scheme parts) \<noteq> ''https'' then Inl (AuthFlowError ''authenticated flow targets must use HTTPS'')
      else if fst (sr_userinfo parts) \<noteq> [] \<or> snd (sr_userinfo parts) \<noteq> []
      then Inl (AuthFlowError ''authenticated flow targets cannot contain user information'')
      else if sr_hostname parts = [] then Inl (AuthFlowError ''authenticated flow targets require a hostname'')
      else if sr_fragment parts \<noteq> [] then Inl (AuthFlowError ''authenticated flow targets cannot contain fragments'')
      else bind_res (as_flow_error AuthFlowError (canonical_origin False candidate)) (\<lambda>origin.
        bind_res (lift_flow (urlsplit origin)) (\<lambda>o_parts.
          Inr (urlunsplit \<lparr>sr_scheme = ''https'', sr_netloc = sr_netloc o_parts,
                 sr_path = (if sr_path parts = [] then ''/'' else sr_path parts), sr_query = sr_query parts, sr_fragment = []\<rparr>)))))"

text \<open>
  The upper case of a method name. Outside ASCII, only the long s and the two ligatures of s and t
  (given by their UTF-8 bytes) have an upper case that can be part of a method name.
\<close>

definition upper_char :: "char \<Rightarrow> char" where
  "upper_char c = (if is_lower c then char_of (ord_char c - 32) else c)"

fun method_upper :: "string \<Rightarrow> string" where
  "method_upper (a # b # c # cs) =
     (if ord_char a = 0xEF \<and> ord_char b = 0xAC \<and> ord_char c \<in> {0x85, 0x86} then ''ST'' @ method_upper cs
      else if ord_char a = 0xC5 \<and> ord_char b = 0xBF then CHR ''S'' # method_upper (c # cs)
      else upper_char a # method_upper (b # c # cs))"
| "method_upper [a, b] = (if ord_char a = 0xC5 \<and> ord_char b = 0xBF then ''S'' else [upper_char a, upper_char b])"
| "method_upper [a] = [upper_char a]"
| "method_upper [] = []"

definition form_method :: "string \<Rightarrow> string flow" where
  "form_method m =
     (let normalized = method_upper (py_strip m) in
      if normalized \<notin> set FORM_METHODS then Inl (AuthFlowError ''form method is unsupported'') else Inr normalized)"

definition opaque_reference :: "string option \<Rightarrow> string \<Rightarrow> string flow" where
  "opaque_reference v name =
     (case v of
        None \<Rightarrow> Inl (SessionBindingError (name @ '' is required''))
      | Some s \<Rightarrow>
          let candidate = py_strip s in
          if candidate = [] \<or> 2048 < length candidate \<or> list_ex (\<lambda>c. ord_char c < 32 \<or> ord_char c = 127) candidate
          then Inl (SessionBindingError (name @ '' must be a bounded opaque reference''))
          else Inr candidate)"

definition bounded_connector_id :: "string \<Rightarrow> string flow" where
  "bounded_connector_id v =
     (if connector_id_ok (py_strip v) then Inr (py_strip v)
      else Inl (SessionBindingError ''private workspace connector_id is invalid''))"

definition aware_datetime :: "(time \<times> bool) option \<Rightarrow> string \<Rightarrow> (time \<times> bool) option flow" where
  "aware_datetime v name =
     (case v of Some (_, False) \<Rightarrow> Inl (SessionBindingError (name @ '' must include a timezone'')) | _ \<Rightarrow> Inr v)"

definition comparison_time :: "time \<Rightarrow> (time \<times> bool) option \<Rightarrow> time flow" where
  "comparison_time now v =
     (case v of
        None \<Rightarrow> Inr now
      | Some (t, aware) \<Rightarrow> if aware then Inr t else Inl (SessionBindingError ''comparison time must include a timezone''))"

definition validate_secret_value :: "string \<Rightarrow> string \<Rightarrow> nat \<Rightarrow> unit flow" where
  "validate_secret_value v name maximum_bytes =
     (if v = [] \<or> CHR 0x00 \<in> set v \<or> maximum_bytes < length v
      then Inl (AuthFlowError (name @ '' must be non-empty, bounded, and contain no NUL bytes'')) else Inr ())"

fun validate_fields :: "nat \<Rightarrow> (string \<times> string) list \<Rightarrow> unit flow" where
  "validate_fields total_bytes [] = Inr ()"
| "validate_fields total_bytes ((name, v) # inputs) =
     (if \<not> field_name_ok name then Inl (AuthFlowError ''form contains an invalid field name'')
      else bind_res (validate_secret_value v ''form field value'' MAX_FORM_BYTES) (\<lambda>_.
        let total' = total_bytes + (length name + length v) in
        if MAX_FORM_BYTES < total' then Inl (AuthFlowError ''form exceeds the bounded payload size'')
        else validate_fields total' inputs))"

definition validated_form_fields :: "(string \<times> string) list \<Rightarrow> (string \<times> string) list flow" where
  "validated_form_fields inputs =
     (if MAX_FORM_FIELDS < length inputs then Inl (AuthFlowError ''form exceeds the bounded field count'')
      else bind_res (validate_fields 0 inputs) (\<lambda>_. Inr inputs))"

definition bounded_limit :: "int \<Rightarrow> int \<Rightarrow> string \<Rightarrow> unit flow" where
  "bounded_limit v maximum name =
     (if v < 1 \<or> maximum < v
      then Inl (CSRFExtractionError (name @ '' limit must be positive and no greater than '' @ int_to_str maximum)) else Inr ())"

definition bounded_label :: "string \<Rightarrow> string \<Rightarrow> string flow" where
  "bounded_label v name =
     (let candidate = py_strip v in
      if candidate = [] \<or> 256 < py_len candidate \<or> \<not> list_all printable_char candidate
      then Inl (AuthFlowError (name @ '' must be printable and bounded'')) else Inr candidate)"

subsection \<open>Sessions\<close>

datatype session_capability = LOGIN_SESSION | OAUTH | SSO | PRIVATE_WORKSPACE

fun session_capability_value :: "session_capability \<Rightarrow> string" where
  "session_capability_value LOGIN_SESSION = ''login_session''"
| "session_capability_value OAUTH = ''oauth''"
| "session_capability_value SSO = ''sso''"
| "session_capability_value PRIVATE_WORKSPACE = ''private_workspace''"

definition SessionCapability :: "string \<Rightarrow> session_capability option" where
  "SessionCapability v = List.find (\<lambda>c. session_capability_value c = v) [LOGIN_SESSION, OAUTH, SSO, PRIVATE_WORKSPACE]"

fun MATERIAL_CAPABILITIES :: "session_capability \<Rightarrow> string list" where
  "MATERIAL_CAPABILITIES LOGIN_SESSION = [''cookie_session'']"
| "MATERIAL_CAPABILITIES OAUTH = [''bearer_token'']"
| "MATERIAL_CAPABILITIES SSO = [''bearer_token'', ''cookie_session'']"
| "MATERIAL_CAPABILITIES PRIVATE_WORKSPACE = [''api_key'', ''bearer_token'', ''cookie_session'']"

record origin_scoped_session =
  os_origin :: string
  os_capability_id :: session_capability
  os_authentication_ref :: string
  os_expires_at :: "(time \<times> bool) option"
  os_refresh_ref :: "string option"
  os_refresh_after :: "(time \<times> bool) option"
  os_issuer_origin :: "string option"
  os_scopes :: "string list"
  os_connector_id :: "string option"

definition session_issuer :: "session_capability \<Rightarrow> string option \<Rightarrow> string option flow" where
  "session_issuer capability issuer =
     (if capability \<in> {OAUTH, SSO} then
        (case issuer of
           None \<Rightarrow> Inl (SessionBindingError ''OAuth and SSO sessions require an HTTPS issuer origin'')
         | Some i \<Rightarrow> bind_res (https_origin i) (\<lambda>x. Inr (Some x)))
      else if issuer \<noteq> None then Inl (SessionBindingError ''issuer_origin is supported only for OAuth and SSO sessions'')
      else Inr None)"

definition session_connector :: "session_capability \<Rightarrow> string option \<Rightarrow> string option flow" where
  "session_connector capability connector =
     (if capability = PRIVATE_WORKSPACE then
        (case connector of None \<Rightarrow> Inr None | Some c \<Rightarrow> bind_res (bounded_connector_id c) (\<lambda>x. Inr (Some x)))
      else if connector \<noteq> None then Inl (SessionBindingError ''connector_id is supported only for private workspace sessions'')
      else Inr None)"

definition check_refresh ::
  "session_capability \<Rightarrow> (time \<times> bool) option \<Rightarrow> string option \<Rightarrow> (time \<times> bool) option \<Rightarrow> unit flow" where
  "check_refresh capability expires_at refresh_ref refresh_after =
     (if refresh_after \<noteq> None \<and> refresh_ref = None then Inl (SessionBindingError ''refresh_after requires an opaque refresh_ref'')
      else if refresh_ref \<noteq> None \<and> capability \<notin> {OAUTH, SSO}
      then Inl (SessionBindingError ''refresh metadata is supported only for OAuth and SSO sessions'')
      else case (expires_at, refresh_after) of
        (Some (e, _), Some (r, _)) \<Rightarrow>
          if e < r then Inl (SessionBindingError ''refresh_after cannot be later than session expiry'') else Inr ()
      | _ \<Rightarrow> Inr ())"

definition check_scopes :: "string list \<Rightarrow> unit flow" where
  "check_scopes scopes =
     (if 128 < length scopes \<or> \<not> distinct scopes then Inl (SessionBindingError ''session scopes must be unique and bounded'')
      else if \<not> list_all scope_ok scopes then Inl (SessionBindingError ''session contains an invalid scope'')
      else Inr ())"

definition OriginScopedSession ::
  "string \<Rightarrow> string \<Rightarrow> string \<Rightarrow> (time \<times> bool) option \<Rightarrow> string option \<Rightarrow> (time \<times> bool) option \<Rightarrow> string option \<Rightarrow> string list
     \<Rightarrow> string option \<Rightarrow> origin_scoped_session flow" where
  "OriginScopedSession origin0 capability_id authentication_ref expires_at0 refresh_ref0 refresh_after0 issuer0 scopes connector0 =
     bind_res (https_origin origin0) (\<lambda>origin.
     bind_res (opaque_reference (Some authentication_ref) ''authentication_ref'') (\<lambda>reference.
     case SessionCapability capability_id of
       None \<Rightarrow> Inl (SessionBindingError ''session uses an unsupported capability'')
     | Some capability \<Rightarrow>
         bind_res (aware_datetime expires_at0 ''session expiry'') (\<lambda>expires_at.
         bind_res (aware_datetime refresh_after0 ''session refresh time'') (\<lambda>refresh_after.
         bind_res (case refresh_ref0 of None \<Rightarrow> Inr None | Some r \<Rightarrow> bind_res (opaque_reference (Some r) ''refresh_ref'') (\<lambda>x. Inr (Some x))) (\<lambda>refresh_ref.
         bind_res (session_issuer capability issuer0) (\<lambda>issuer.
         bind_res (session_connector capability connector0) (\<lambda>connector.
         bind_res (check_refresh capability expires_at refresh_ref refresh_after) (\<lambda>_.
         bind_res (check_scopes scopes) (\<lambda>_.
           Inr \<lparr>os_origin = origin, os_capability_id = capability, os_authentication_ref = reference, os_expires_at = expires_at,
                os_refresh_ref = refresh_ref, os_refresh_after = refresh_after, os_issuer_origin = issuer, os_scopes = scopes,
                os_connector_id = connector\<rparr>)))))))))"

definition login_session :: "string \<Rightarrow> string \<Rightarrow> (time \<times> bool) option \<Rightarrow> origin_scoped_session flow" where
  "login_session origin reference expires_at = OriginScopedSession origin ''login_session'' reference expires_at None None None [] None"

definition oauth ::
  "string \<Rightarrow> string \<Rightarrow> string \<Rightarrow> (time \<times> bool) option \<Rightarrow> string option \<Rightarrow> (time \<times> bool) option \<Rightarrow> string list \<Rightarrow> origin_scoped_session flow" where
  "oauth origin reference issuer expires_at refresh_ref refresh_after scopes =
     OriginScopedSession origin ''oauth'' reference expires_at refresh_ref refresh_after (Some issuer) scopes None"

definition sso ::
  "string \<Rightarrow> string \<Rightarrow> string \<Rightarrow> (time \<times> bool) option \<Rightarrow> string option \<Rightarrow> (time \<times> bool) option \<Rightarrow> string list \<Rightarrow> origin_scoped_session flow" where
  "sso origin reference issuer expires_at refresh_ref refresh_after scopes =
     OriginScopedSession origin ''sso'' reference expires_at refresh_ref refresh_after (Some issuer) scopes None"

definition private_workspace :: "string \<Rightarrow> string \<Rightarrow> string option \<Rightarrow> (time \<times> bool) option \<Rightarrow> origin_scoped_session flow" where
  "private_workspace origin reference connector expires_at =
     OriginScopedSession origin ''private_workspace'' reference expires_at None None None [] connector"

definition session_applies_to :: "origin_scoped_session \<Rightarrow> string \<Rightarrow> bool flow" where
  "session_applies_to s url =
     (case bind_res (https_url url) (\<lambda>u. lift_flow (canonical_origin False u)) of
        Inr origin \<Rightarrow> Inr (origin = os_origin s)
      | Inl e \<Rightarrow> if is_value_error e then Inr False else Inl e)"

definition past :: "time \<Rightarrow> (time \<times> bool) option \<Rightarrow> bool" where
  "past instant deadline = (case deadline of None \<Rightarrow> False | Some (t, _) \<Rightarrow> t \<le> instant)"

definition session_expired :: "time \<Rightarrow> origin_scoped_session \<Rightarrow> (time \<times> bool) option \<Rightarrow> bool flow" where
  "session_expired now s at_time = bind_res (comparison_time now at_time) (\<lambda>instant. Inr (past instant (os_expires_at s)))"

definition needs_refresh :: "time \<Rightarrow> origin_scoped_session \<Rightarrow> (time \<times> bool) option \<Rightarrow> bool flow" where
  "needs_refresh now s at_time =
     (if os_refresh_ref s = None then Inr False
      else bind_res (comparison_time now at_time) (\<lambda>instant.
        Inr (if os_refresh_after s \<noteq> None then past instant (os_refresh_after s) else past instant (os_expires_at s))))"

definition validate_material_binding :: "origin_scoped_session \<Rightarrow> credential_material \<Rightarrow> unit flow" where
  "validate_material_binding s material =
     (if cm_origin material \<noteq> os_origin s then Inl (SessionBindingError ''resolved credentials do not match the session origin'')
      else if cm_capability_id material \<notin> set (MATERIAL_CAPABILITIES (os_capability_id s))
      then Inl (SessionBindingError ''resolved credential type is invalid for this session capability'')
      else Inr ())"

definition validate_material :: "time \<Rightarrow> origin_scoped_session \<Rightarrow> credential_material \<Rightarrow> (time \<times> bool) option \<Rightarrow> unit flow" where
  "validate_material now s material at_time =
     bind_res (validate_material_binding s material) (\<lambda>_.
     bind_res (session_expired now s at_time) (\<lambda>is_expired.
     if is_expired then Inl (SessionBindingError ''session metadata is expired'')
     else bind_res (comparison_time now at_time) (\<lambda>instant.
       if past instant (cm_expires_at material) then Inl (SessionBindingError ''resolved credential material is expired'') else Inr ())))"

text \<open>The metadata that may be stored, with \<open>isoformat\<close> for dates.\<close>

definition session_public_metadata :: "(time \<Rightarrow> string) \<Rightarrow> origin_scoped_session \<Rightarrow> document" where
  "session_public_metadata isoformat s =
     (let date = (\<lambda>d. case d of None \<Rightarrow> VNone | Some (t, _) \<Rightarrow> VStr (isoformat t));
          opt = (\<lambda>x. case x of None \<Rightarrow> VNone | Some v \<Rightarrow> VStr v) in
      [(''origin'', VStr (os_origin s)), (''capability_id'', VStr (session_capability_value (os_capability_id s))),
       (''expires_at'', date (os_expires_at s)), (''refresh_after'', date (os_refresh_after s)),
       (''refresh_available'', VBool (os_refresh_ref s \<noteq> None)), (''issuer_origin'', opt (os_issuer_origin s)),
       (''scopes'', VTuple (map VStr (os_scopes s))), (''connector_id'', opt (os_connector_id s))])"

subsection \<open>CSRF tokens\<close>

record csrf_token =
  ct_source_url :: string
  ct_form_action :: string
  ct_form_method :: string
  ct_field_name :: string
  ct_token :: string

definition CSRFTokenMaterial :: "string \<Rightarrow> string \<Rightarrow> string \<Rightarrow> string \<Rightarrow> string \<Rightarrow> csrf_token flow" where
  "CSRFTokenMaterial source_url0 form_action0 form_method0 field_name token =
     bind_res (https_url source_url0) (\<lambda>source_url.
     bind_res (https_url form_action0) (\<lambda>form_action.
     bind_res (form_method form_method0) (\<lambda>m.
     bind_res (lift_flow (canonical_origin False source_url)) (\<lambda>source_origin.
     bind_res (lift_flow (canonical_origin False form_action)) (\<lambda>action_origin.
     if source_origin \<noteq> action_origin then Inl (CSRFExtractionError ''CSRF form action must use the source page origin'')
     else if \<not> field_name_ok field_name then Inl (CSRFExtractionError ''CSRF field name is invalid'')
     else bind_res (validate_secret_value token ''CSRF token'' MAX_CSRF_TOKEN_BYTES) (\<lambda>_.
       Inr \<lparr>ct_source_url = source_url, ct_form_action = form_action, ct_form_method = m, ct_field_name = field_name,
            ct_token = token\<rparr>))))))"

definition csrf_applies_to :: "csrf_token \<Rightarrow> string \<Rightarrow> string \<Rightarrow> bool flow" where
  "csrf_applies_to t target m =
     (case bind_res (https_url target) (\<lambda>u.
           if u \<noteq> ct_form_action t then Inr False else bind_res (form_method m) (\<lambda>n. Inr (n = ct_form_method t))) of
        Inr b \<Rightarrow> Inr b
      | Inl e \<Rightarrow> if is_value_error e then Inr False else Inl e)"

definition form_field :: "csrf_token \<Rightarrow> (string \<times> string) list" where
  "form_field t = [(ct_field_name t, ct_token t)]"

definition csrf_public_metadata :: "csrf_token \<Rightarrow> document flow" where
  "csrf_public_metadata t =
     bind_res (lift_flow (canonical_origin False (ct_source_url t))) (\<lambda>origin.
       Inr [(''origin'', VStr origin), (''form_method'', VStr (ct_form_method t)), (''field_name'', VStr (ct_field_name t))])"

text \<open>The parser: the tags it is called with, and its state.\<close>

datatype form_tag = StartTag string "(string \<times> string option) list" | EndTag string

record csrf_parser =
  cp_forms :: int
  cp_fields :: int
  cp_form :: "(string \<times> string) option"
  cp_candidates :: "(string \<times> string \<times> string \<times> string) list"

definition new_csrf_parser :: csrf_parser where
  "new_csrf_parser = \<lparr>cp_forms = 0, cp_fields = 0, cp_form = None, cp_candidates = []\<rparr>"

fun form_attributes :: "(string \<Rightarrow> string) \<Rightarrow> (string \<times> string) list \<Rightarrow> (string \<times> string option) list \<Rightarrow> (string \<times> string) list flow" where
  "form_attributes casefold result [] = Inr result"
| "form_attributes casefold result ((name, v) # attrs) =
     (let lowered = casefold name in
      if lowered \<in> fst ` set result then Inl (CSRFExtractionError ''duplicate HTML form attributes are rejected'')
      else form_attributes casefold (result @ [(lowered, case v of None \<Rightarrow> [] | Some s \<Rightarrow> s)]) attrs)"

definition attribute_or :: "(string \<times> string) list \<Rightarrow> string \<Rightarrow> string \<Rightarrow> string" where
  "attribute_or attributes name fallback = (case map_of attributes name of None \<Rightarrow> fallback | Some v \<Rightarrow> v)"

definition csrf_starttag ::
  "(string \<Rightarrow> string) \<Rightarrow> string set \<Rightarrow> int \<Rightarrow> int \<Rightarrow> string \<Rightarrow> (string \<times> string option) list \<Rightarrow> csrf_parser \<Rightarrow> csrf_parser flow" where
  "csrf_starttag casefold field_names max_forms max_fields tag attrs p =
     bind_res (form_attributes casefold [] attrs) (\<lambda>attributes.
     if casefold tag = ''form'' then
       (if cp_form p \<noteq> None then Inl (CSRFExtractionError ''nested form data is rejected'')
        else if max_forms < cp_forms p + 1 then Inl (CSRFExtractionError ''HTML exceeds the bounded CSRF form budget'')
        else Inr (p\<lparr>cp_forms := cp_forms p + 1,
               cp_form := Some (attribute_or attributes ''action'' [], attribute_or attributes ''method'' ''GET'')\<rparr>))
     else case (casefold tag = ''input'', cp_form p) of
       (True, Some (action, m)) \<Rightarrow>
         if max_fields < cp_fields p + 1 then Inl (CSRFExtractionError ''HTML exceeds the bounded CSRF field budget'')
         else let p1 = p\<lparr>cp_fields := cp_fields p + 1\<rparr>; name = attribute_or attributes ''name'' [] in
           if casefold (attribute_or attributes ''type'' ''text'') \<noteq> ''hidden'' \<or> casefold name \<notin> field_names then Inr p1
           else let token = attribute_or attributes ''value'' [] in
             bind_res (validate_secret_value token ''CSRF token'' MAX_CSRF_TOKEN_BYTES) (\<lambda>_.
               Inr (p1\<lparr>cp_candidates := cp_candidates p1 @ [(action, m, name, token)]\<rparr>))
     | _ \<Rightarrow> Inr p)"

definition csrf_tag :: "(string \<Rightarrow> string) \<Rightarrow> string set \<Rightarrow> int \<Rightarrow> int \<Rightarrow> csrf_parser \<Rightarrow> form_tag \<Rightarrow> csrf_parser flow" where
  "csrf_tag casefold field_names max_forms max_fields p t =
     (case t of
        StartTag tag attrs \<Rightarrow> csrf_starttag casefold field_names max_forms max_fields tag attrs p
      | EndTag tag \<Rightarrow> Inr (if casefold tag = ''form'' then p\<lparr>cp_form := None\<rparr> else p))"

text \<open>
  A candidate that is accepted, if any, with its action: those with an unusable or another action
  are passed over.
\<close>

definition csrf_candidate ::
  "string \<Rightarrow> string \<Rightarrow> string option \<Rightarrow> string \<times> string \<times> string \<times> string \<Rightarrow> (string \<times> csrf_token) option flow" where
  "csrf_candidate source_url source_origin expected c =
     (case c of (action, m, name, token) \<Rightarrow>
        case bind_res (lift_flow (urljoin source_url (if action = [] then source_url else action))) https_url of
          Inl e \<Rightarrow> if is_value_error e then Inr None else Inl e
        | Inr normalized_action \<Rightarrow>
            bind_res (lift_flow (canonical_origin False normalized_action)) (\<lambda>origin.
            if origin \<noteq> source_origin then Inr None
            else if expected \<noteq> None \<and> Some normalized_action \<noteq> expected then Inr None
            else bind_res (CSRFTokenMaterial source_url normalized_action m name token) (\<lambda>t. Inr (Some (normalized_action, t)))))"

definition expected_csrf_action :: "string \<Rightarrow> string \<Rightarrow> string option \<Rightarrow> string option flow" where
  "expected_csrf_action source_url source_origin expected =
     (case expected of
        None \<Rightarrow> Inr None
      | Some action \<Rightarrow>
          bind_res (bind_res (lift_flow (urljoin source_url action)) https_url) (\<lambda>normalized.
          bind_res (lift_flow (canonical_origin False normalized)) (\<lambda>origin.
          if origin \<noteq> source_origin then Inl (CSRFExtractionError ''expected CSRF form action must be same-origin'')
          else Inr (Some normalized))))"

text \<open>Errors of the parser other than its own are replaced.\<close>

definition parse_forms ::
  "(string \<Rightarrow> string) \<Rightarrow> string set \<Rightarrow> int \<Rightarrow> int \<Rightarrow> form_tag list \<Rightarrow> csrf_parser flow" where
  "parse_forms casefold field_names max_forms max_fields tags =
     (case fold_res (csrf_tag casefold field_names max_forms max_fields) new_csrf_parser tags of
        Inl (CSRFExtractionError m) \<Rightarrow> Inl (CSRFExtractionError m)
      | Inl _ \<Rightarrow> Inl (CSRFExtractionError ''HTML form data could not be parsed safely'')
      | Inr p \<Rightarrow> Inr p)"

definition only_token :: "(string \<times> csrf_token) list \<Rightarrow> csrf_token flow" where
  "only_token accepted =
     (case accepted of
        [] \<Rightarrow> Inl (CSRFTokenNotFoundError ''no bounded same-origin CSRF form token was found'')
      | [(_, t)] \<Rightarrow> Inr t
      | _ \<Rightarrow> Inl (CSRFTokenAmbiguousError ''several different same-origin CSRF tokens were found''))"

definition extract_csrf_token ::
  "(string \<Rightarrow> string) \<Rightarrow> (string \<Rightarrow> form_tag list) \<Rightarrow> string \<Rightarrow> string \<Rightarrow> string option \<Rightarrow> string list \<Rightarrow> int \<Rightarrow> int \<Rightarrow> int \<Rightarrow> csrf_token flow" where
  "extract_csrf_token casefold tokenize html page_url expected_action field_names max_html_bytes max_forms max_fields =
     bind_res (bounded_limit max_html_bytes MAX_CSRF_HTML_BYTES ''CSRF HTML byte'') (\<lambda>_.
     bind_res (bounded_limit max_forms MAX_CSRF_FORMS ''CSRF form'') (\<lambda>_.
     bind_res (bounded_limit max_fields MAX_CSRF_FIELDS ''CSRF field'') (\<lambda>_.
     bind_res (https_url page_url) (\<lambda>source_url.
     bind_res (lift_flow (canonical_origin False source_url)) (\<lambda>source_origin.
     bind_res (expected_csrf_action source_url source_origin expected_action) (\<lambda>expected.
     if max_html_bytes < int (length html) then Inl (CSRFExtractionError ''HTML exceeds the bounded CSRF extraction budget'')
     else let names = set (map casefold field_names) in
       if names = {} \<or> 32 < card names \<or> (\<exists>n\<in>names. \<not> field_name_ok n)
       then Inl (CSRFExtractionError ''CSRF field-name allowlist is invalid or unbounded'')
       else bind_res (parse_forms casefold names max_forms max_fields (tokenize (utf8_replace html))) (\<lambda>p.
         bind_res (map_res (csrf_candidate source_url source_origin expected) (cp_candidates p)) (\<lambda>found.
           only_token (remdups (List.map_filter id found))))))))))"

subsection \<open>Approvals and proposals\<close>

record form_approval =
  fa_approval_id :: string
  fa_target :: string
  fa_method :: string
  fa_granted_at :: "time \<times> bool"
  fa_expires_at :: "time \<times> bool"
  fa_actor :: string

definition FormSubmissionApproval ::
  "string \<Rightarrow> string \<Rightarrow> string \<Rightarrow> time \<times> bool \<Rightarrow> time \<times> bool \<Rightarrow> string \<Rightarrow> form_approval flow" where
  "FormSubmissionApproval approval_id0 target0 method0 expires_at granted_at actor0 =
     bind_res (bounded_label approval_id0 ''approval_id'') (\<lambda>approval_id.
     bind_res (https_url target0) (\<lambda>target.
     bind_res (form_method method0) (\<lambda>m.
     if m \<notin> set MUTATING_METHODS then Inl (ApprovalRequiredError ''approval grants are only valid for mutating form methods'')
     else bind_res (aware_datetime (Some granted_at) ''approval grant time'') (\<lambda>_.
     bind_res (aware_datetime (Some expires_at) ''approval expiry'') (\<lambda>_.
     if fst expires_at \<le> fst granted_at then Inl (ApprovalRequiredError ''approval expiry must be later than grant time'')
     else if MAX_APPROVAL_LIFETIME < fst expires_at - fst granted_at
     then Inl (ApprovalRequiredError ''approval lifetime exceeds the bounded maximum'')
     else bind_res (bounded_label actor0 ''approval actor'') (\<lambda>actor.
       Inr \<lparr>fa_approval_id = approval_id, fa_target = target, fa_method = m, fa_granted_at = granted_at,
            fa_expires_at = expires_at, fa_actor = actor\<rparr>))))))"

definition grant ::
  "string \<Rightarrow> time \<Rightarrow> string \<Rightarrow> string \<Rightarrow> string \<Rightarrow> (time \<times> bool) option \<Rightarrow> time \<Rightarrow> form_approval flow" where
  "grant fresh_uuid now target m actor granted_at valid_for =
     (let instant = (case granted_at of None \<Rightarrow> (now, True) | Some g \<Rightarrow> g) in
      if valid_for \<le> 0 \<or> MAX_APPROVAL_LIFETIME < valid_for
      then Inl (ApprovalRequiredError ''approval validity must be positive and bounded'')
      else FormSubmissionApproval (''approval-'' @ fresh_uuid) target m (fst instant + valid_for, snd instant) instant actor)"

definition permits :: "time \<Rightarrow> form_approval \<Rightarrow> string \<Rightarrow> string \<Rightarrow> (time \<times> bool) option \<Rightarrow> bool flow" where
  "permits now a target m at_time =
     (case bind_res (https_url target) (\<lambda>u. bind_res (form_method m) (\<lambda>n. Inr (u, n))) of
        Inl e \<Rightarrow> if is_value_error e then Inr False else Inl e
      | Inr (u, n) \<Rightarrow>
          bind_res (comparison_time now at_time) (\<lambda>instant.
            Inr (u = fa_target a \<and> n = fa_method a \<and> fst (fa_granted_at a) \<le> instant \<and> instant < fst (fa_expires_at a))))"

definition approval_public_metadata :: "(time \<Rightarrow> string) \<Rightarrow> form_approval \<Rightarrow> document flow" where
  "approval_public_metadata isoformat a =
     bind_res (lift_flow (canonical_origin False (fa_target a))) (\<lambda>origin.
       Inr [(''approval_id'', VStr (fa_approval_id a)), (''origin'', VStr origin), (''method'', VStr (fa_method a)),
            (''actor'', VStr (fa_actor a)), (''granted_at'', VStr (isoformat (fst (fa_granted_at a)))),
            (''expires_at'', VStr (isoformat (fst (fa_expires_at a))))])"

record form_submission =
  fs_target :: string
  fs_method :: string
  fs_fields :: "(string \<times> string) list"
  fs_authentication_ref :: "string option"
  fs_csrf :: "csrf_token option"
  fs_approval :: "form_approval option"

definition mutating :: "form_submission \<Rightarrow> bool" where
  "mutating s \<longleftrightarrow> fs_method s \<in> set MUTATING_METHODS"

definition submission_origin :: "form_submission \<Rightarrow> string flow" where
  "submission_origin s = lift_flow (canonical_origin False (fs_target s))"

definition assert_authorized :: "time \<Rightarrow> form_submission \<Rightarrow> (time \<times> bool) option \<Rightarrow> unit flow" where
  "assert_authorized now s at_time =
     (let refuse = Inl (ApprovalRequiredError ''mutating form submission requires explicit approval for the exact target and method'') in
      if \<not> mutating s then Inr ()
      else case fs_approval s of
        None \<Rightarrow> refuse
      | Some a \<Rightarrow> bind_res (permits now a (fs_target s) (fs_method s) at_time) (\<lambda>ok. if ok then Inr () else refuse))"

definition check_csrf :: "string \<Rightarrow> string \<Rightarrow> (string \<times> string) list \<Rightarrow> csrf_token option \<Rightarrow> unit flow" where
  "check_csrf target m inputs csrf =
     (case csrf of
        None \<Rightarrow> Inr ()
      | Some t \<Rightarrow>
          bind_res (csrf_applies_to t target m) (\<lambda>ok.
          if \<not> ok then Inl (CSRFExtractionError ''CSRF token is not bound to the exact form action and method'')
          else (case map_of inputs (ct_field_name t) of
             Some existing \<Rightarrow>
               if existing \<noteq> ct_token t then Inl (CSRFExtractionError ''form fields conflict with the bound CSRF token'') else Inr ()
           | None \<Rightarrow> Inr ())))"

definition FormSubmission ::
  "time \<Rightarrow> string \<Rightarrow> string \<Rightarrow> (string \<times> string) list \<Rightarrow> string option \<Rightarrow> csrf_token option \<Rightarrow> form_approval option \<Rightarrow> form_submission flow" where
  "FormSubmission now target0 method0 inputs0 authentication_ref csrf approval =
     bind_res (https_url target0) (\<lambda>target.
     bind_res (form_method method0) (\<lambda>m.
     if m = ''GET'' then Inl (AuthFlowError ''GET form proposals are unsupported; encode retrieval fields in the target URL'')
     else bind_res (validated_form_fields inputs0) (\<lambda>inputs.
     bind_res (case authentication_ref of None \<Rightarrow> Inr None
         | Some r \<Rightarrow> bind_res (opaque_reference (Some r) ''authentication_ref'') (\<lambda>x. Inr (Some x))) (\<lambda>reference.
     bind_res (check_csrf target m inputs csrf) (\<lambda>_.
     let s = \<lparr>fs_target = target, fs_method = m, fs_fields = inputs, fs_authentication_ref = reference, fs_csrf = csrf,
              fs_approval = approval\<rparr> in
     bind_res (assert_authorized now s None) (\<lambda>_. Inr s))))))"

definition payload :: "time \<Rightarrow> form_submission \<Rightarrow> (time \<times> bool) option \<Rightarrow> (string \<times> string) list flow" where
  "payload now s at_time =
     bind_res (assert_authorized now s at_time) (\<lambda>_.
       Inr (case fs_csrf s of None \<Rightarrow> fs_fields s | Some t \<Rightarrow> assoc_set (ct_field_name t) (ct_token t) (fs_fields s)))"

definition submission_public_metadata :: "form_submission \<Rightarrow> document flow" where
  "submission_public_metadata s =
     bind_res (submission_origin s) (\<lambda>origin.
       Inr [(''origin'', VStr origin), (''method'', VStr (fs_method s)),
            (''field_count'', VInt (int (length (fs_fields s)) + (if fs_csrf s \<noteq> None then 1 else 0))),
            (''authenticated'', VBool (fs_authentication_ref s \<noteq> None)), (''csrf_bound'', VBool (fs_csrf s \<noteq> None)),
            (''approval_id'', case fs_approval s of None \<Rightarrow> VNone | Some a \<Rightarrow> VStr (fa_approval_id a))])"

subsection \<open>Providers\<close>

definition null_consume :: "string \<Rightarrow> form_submission flow" where
  "null_consume reference = Inl (FormSubmissionNotFoundError ''approved form submission is unavailable'')"

type_synonym form_provider = "(string \<times> form_submission) list"

fun InMemoryFormSubmissionProvider :: "form_provider \<Rightarrow> (string \<times> form_submission) list \<Rightarrow> form_provider flow" where
  "InMemoryFormSubmissionProvider known [] = Inr known"
| "InMemoryFormSubmissionProvider known ((reference, s) # rest) =
     bind_res (opaque_reference (Some reference) ''authentication_ref'') (\<lambda>normalized.
     if fs_authentication_ref s = None
     then Inl (SessionBindingError ''provider form submissions require an opaque authentication_ref'')
     else if fs_authentication_ref s \<noteq> Some normalized
     then Inl (SessionBindingError ''provider key must match the form submission authentication_ref'')
     else InMemoryFormSubmissionProvider (assoc_set normalized s known) rest)"

text \<open>The proposal leaves the provider before its approval is checked.\<close>

definition consume :: "time \<Rightarrow> string \<Rightarrow> form_provider \<Rightarrow> form_submission flow \<times> form_provider" where
  "consume now authentication_ref fp =
     (case opaque_reference (Some authentication_ref) ''authentication_ref'' of
        Inl e \<Rightarrow> (Inl e, fp)
      | Inr reference \<Rightarrow>
          (case map_of fp reference of
             None \<Rightarrow> (Inl (FormSubmissionNotFoundError ''approved form submission is unavailable''), fp)
           | Some s \<Rightarrow>
               (bind_res (assert_authorized now s None) (\<lambda>_. Inr s), filter (\<lambda>(k, _). k \<noteq> reference) fp)))"

definition null_session_resolve :: "string \<Rightarrow> origin_scoped_session flow" where
  "null_session_resolve reference = Inl (SessionProviderUnavailableError ''session provider is unavailable'')"

type_synonym session_provider = "(string \<times> origin_scoped_session) list"

fun InMemorySessionProvider :: "session_provider \<Rightarrow> (string \<times> origin_scoped_session) list \<Rightarrow> session_provider flow" where
  "InMemorySessionProvider known [] = Inr known"
| "InMemorySessionProvider known ((reference, s) # rest) =
     bind_res (opaque_reference (Some reference) ''authentication_ref'') (\<lambda>normalized.
     if os_authentication_ref s \<noteq> normalized
     then Inl (SessionBindingError ''provider key must match the session authentication_ref'')
     else if os_capability_id s = PRIVATE_WORKSPACE \<and> os_connector_id s = None
     then Inl (SessionBindingError ''private workspace session providers require a connector_id'')
     else InMemorySessionProvider (assoc_set normalized s known) rest)"

definition session_resolve :: "session_provider \<Rightarrow> string \<Rightarrow> origin_scoped_session flow" where
  "session_resolve sp authentication_ref =
     bind_res (opaque_reference (Some authentication_ref) ''authentication_ref'') (\<lambda>reference.
     case map_of sp reference of
       None \<Rightarrow> Inl (SessionNotFoundError ''session descriptor is unavailable'')
     | Some s \<Rightarrow> Inr s)"

subsection \<open>Private workspaces\<close>

record workspace_target =
  wt_target :: string
  wt_connector_id :: string
  wt_authentication_ref :: string

definition PrivateWorkspaceTarget :: "string \<Rightarrow> string \<Rightarrow> string \<Rightarrow> workspace_target flow" where
  "PrivateWorkspaceTarget target0 connector_id authentication_ref =
     bind_res (https_url target0) (\<lambda>target.
     if \<not> connector_id_ok connector_id then Inl (SessionBindingError ''private workspace connector_id is invalid'')
     else bind_res (opaque_reference (Some authentication_ref) ''authentication_ref'') (\<lambda>reference.
       Inr \<lparr>wt_target = target, wt_connector_id = connector_id, wt_authentication_ref = reference\<rparr>))"

definition workspace_origin :: "workspace_target \<Rightarrow> string flow" where
  "workspace_origin w = lift_flow (canonical_origin False (wt_target w))"

definition as_session :: "workspace_target \<Rightarrow> (time \<times> bool) option \<Rightarrow> origin_scoped_session flow" where
  "as_session w expires_at =
     bind_res (workspace_origin w) (\<lambda>origin.
       private_workspace origin (wt_authentication_ref w) (Some (wt_connector_id w)) expires_at)"

definition workspace_validate_session :: "workspace_target \<Rightarrow> origin_scoped_session \<Rightarrow> unit flow" where
  "workspace_validate_session w s =
     (if os_capability_id s \<noteq> PRIVATE_WORKSPACE then Inl (SessionBindingError ''private workspace session uses the wrong capability'')
      else bind_res (workspace_origin w) (\<lambda>origin.
        if os_origin s \<noteq> origin then Inl (SessionBindingError ''private workspace session does not match the target origin'')
        else if os_authentication_ref s \<noteq> wt_authentication_ref w
        then Inl (SessionBindingError ''private workspace session uses a different opaque reference'')
        else if os_connector_id s \<noteq> Some (wt_connector_id w)
        then Inl (SessionBindingError ''private workspace session uses a different connector_id'')
        else Inr ()))"

definition workspace_validate_material :: "time \<Rightarrow> workspace_target \<Rightarrow> credential_material \<Rightarrow> (time \<times> bool) option \<Rightarrow> unit flow" where
  "workspace_validate_material now w material at_time =
     bind_res (as_session w (cm_expires_at material)) (\<lambda>s. validate_material now s material at_time)"

definition workspace_public_metadata :: "workspace_target \<Rightarrow> document flow" where
  "workspace_public_metadata w =
     bind_res (workspace_origin w) (\<lambda>origin. Inr [(''origin'', VStr origin), (''connector_id'', VStr (wt_connector_id w))])"

end
