(* ===== verification/Auth_Adapter.thy ===== *)
theory Auth_Adapter
  imports Auth_Flows Executor_Correct Storage Quality
begin

section \<open>The authentication adapter: adapters/auth.py\<close>

text \<open>
  Sessions, CSRF tokens and form proposals during a run. The entries of the sensitive state that the
  adapter sets are inputs of \<open>auth_state\<close>, beside the context. Providers, the HTTP request and the
  content store are parameters; a provider that returns an object of another type is not part of the
  model. Of an error that is replaced by another one, the cause is not kept.
\<close>

subsection \<open>State\<close>

datatype credential_error = CredentialUnavailable | CredentialNotFound | CredentialFailed | CredentialRaised

record auth_state =
  au_context :: execution_context
  au_env :: env
  au_policy :: safe_url_policy
  au_forms :: form_provider
  au_material :: "credential_material option"
  au_session :: "origin_scoped_session option"
  au_session_capability :: "string option"
  au_csrf :: "csrf_token option"
  au_csrf_source :: "uuid option"

record form_response =
  hr_url :: string
  hr_content_type :: "string option"
  hr_status_code :: int
  hr_body :: string
  hr_text :: "nat list"
  hr_wire_bytes :: int
  hr_cookie_handoff :: bool

text \<open>\<open>ap_request\<close>: target, method, body, whether login cookies may be kept, credential mode.\<close>

record auth_services =
  ap_resolver :: resolver
  ap_casefold :: "string \<Rightarrow> string"
  ap_tokenize :: "string \<Rightarrow> form_tag list"
  ap_unicode :: unicode
  ap_session :: "string \<Rightarrow> origin_scoped_session flow"
  ap_credential :: "string \<Rightarrow> credential_error + credential_material"
  ap_refresh :: "(string \<Rightarrow> credential_error + credential_material) option"
  ap_consume :: "time \<Rightarrow> string \<Rightarrow> uuid \<Rightarrow> form_provider \<Rightarrow> form_submission flow \<times> form_provider"
  ap_request :: "string \<Rightarrow> string \<Rightarrow> string \<Rightarrow> bool \<Rightarrow> string \<Rightarrow> auth_state \<Rightarrow> (py_exc + form_response) \<times> auth_state"
  ap_read :: "string \<Rightarrow> int option \<Rightarrow> py_exc + string"
  ap_put :: "string \<Rightarrow> py_exc + string \<times> string \<times> nat"
  ap_os_error :: "py_exc \<Rightarrow> bool"

definition SESSION_CAPABILITIES :: "string list" where
  "SESSION_CAPABILITIES = [''login_session'', ''oauth'', ''sso'', ''private_workspace'']"

definition auth_required :: "string \<Rightarrow> py_exc" where
  "auth_required m = simple_exc ExcAuthRequired ''AdapterAuthRequiredError'' m"

definition auth_expired :: "string \<Rightarrow> py_exc" where
  "auth_expired m = simple_exc ExcAuthExpired ''AdapterAuthExpiredError'' m"

definition dependency_error :: "string \<Rightarrow> py_exc" where
  "dependency_error m = simple_exc ExcDependency ''AdapterDependencyError'' m"

definition in_auth_context :: "(execution_context \<Rightarrow> execution_context) \<Rightarrow> auth_state \<Rightarrow> auth_state" where
  "in_auth_context f st = st\<lparr>au_context := f (au_context st)\<rparr>"

definition auth_now :: "auth_state \<Rightarrow> time" where
  "auth_now st = en_clock (au_env st)"

subsection \<open>Attempts\<close>

definition start_attempt :: "plan_node \<Rightarrow> auth_state \<Rightarrow> (py_exc + fetch_attempt) \<times> auth_state" where
  "start_attempt node st =
     (case sanitize_url False (rq_target (xc_request (au_context st))) of
        Inl e \<Rightarrow> (Inl (value_exc e), st)
      | Inr destination \<Rightarrow>
          let en = au_env st;
              attempt = \<lparr>at_attempt_id = en_next_id en, at_capability_id = pn_capability_id node, at_adapter_version = ''0.3.0a0'',
                at_started_at = en_clock en, at_finished_at = None, at_sanitized_destination = destination, at_status = AT_RUNNING,
                at_http_status = None, at_bytes_received = 0, at_parser = None, at_artifact_ids = [], at_failure_code = None,
                at_warnings = [], at_consumed_budget = []\<rparr> in
          (Inr attempt, in_auth_context (\<lambda>c. c\<lparr>xc_attempts := xc_attempts c @ [attempt]\<rparr>)
             (st\<lparr>au_env := en\<lparr>en_next_id := en_next_id en + 1\<rparr>\<rparr>)))"

definition set_last_attempt :: "fetch_attempt \<Rightarrow> auth_state \<Rightarrow> auth_state" where
  "set_last_attempt a = in_auth_context (\<lambda>c. c\<lparr>xc_attempts := butlast (xc_attempts c) @ [a]\<rparr>)"

definition finish_attempt :: "fetch_attempt \<Rightarrow> string \<Rightarrow> int \<Rightarrow> uuid list \<Rightarrow> auth_state \<Rightarrow> auth_state" where
  "finish_attempt attempt parser bytes_received artifact_ids st =
     set_last_attempt (attempt\<lparr>at_status := AT_SUCCEEDED, at_finished_at := Some (auth_now st), at_bytes_received := bytes_received,
       at_parser := Some parser, at_artifact_ids := artifact_ids\<rparr>) st"

definition auth_fail_attempt :: "fetch_attempt \<Rightarrow> string \<Rightarrow> auth_state \<Rightarrow> auth_state" where
  "auth_fail_attempt attempt failure st =
     set_last_attempt (attempt\<lparr>at_status := AT_FAILED, at_finished_at := Some (auth_now st), at_failure_code := Some failure\<rparr>) st"

subsection \<open>Policy\<close>

definition auth_outcome :: "string \<Rightarrow> capability_outcome_status \<Rightarrow> string \<Rightarrow> document \<Rightarrow> auth_state \<Rightarrow> auth_state" where
  "auth_outcome capability status stage info = in_auth_context (\<lambda>c. record_outcome c capability status stage info)"

definition auth_event :: "string \<Rightarrow> document \<Rightarrow> auth_state \<Rightarrow> auth_state" where
  "auth_event event_type data = in_auth_context (\<lambda>c. record_runtime_event c event_type ''auth'' data)"

definition record_decisions :: "policy_decision list \<Rightarrow> auth_state \<Rightarrow> auth_state" where
  "record_decisions decisions st =
     fold (\<lambda>d. auth_outcome (pd_policy_id d) (if pd_allowed d then CO_APPLIED else CO_BLOCKED) ''security'' [(''reason'', VStr (pd_reason d))])
       decisions (in_auth_context (\<lambda>c. c\<lparr>xc_policy_decisions := xc_policy_decisions c @ decisions\<rparr>) st)"

definition evaluate_in :: "auth_services \<Rightarrow> string \<Rightarrow> string option \<Rightarrow> auth_state \<Rightarrow> (py_exc + string) \<times> auth_state" where
  "evaluate_in sv target previous_url st =
     (case evaluate (ap_resolver sv) (au_policy st) target previous_url of
        Inl (PolicyBlocked reason decisions) \<Rightarrow> (Inl (policy_exc_of reason decisions), st)
      | Inl (PolicyRaised e) \<Rightarrow> (Inl (value_exc e), st)
      | Inr (normalized, decisions, sp) \<Rightarrow> (Inr normalized, record_decisions decisions (st\<lparr>au_policy := sp\<rparr>)))"

definition refuse :: "string \<Rightarrow> string \<Rightarrow> string \<Rightarrow> py_exc" where
  "refuse policy_id reason url =
     (case sanitize_url False url of
        Inl e \<Rightarrow> value_exc e
      | Inr destination \<Rightarrow> policy_exc_of reason [PolicyDecision policy_id False reason (Some destination)])"

definition evaluate_session_policy :: "auth_services \<Rightarrow> plan_node \<Rightarrow> auth_state \<Rightarrow> (py_exc + string) \<times> auth_state" where
  "evaluate_session_policy sv node st =
     bind_run (evaluate_in sv (rq_target (xc_request (au_context st))) None st) (\<lambda>normalized st1.
     if \<not> py_startswith normalized ''https://''
     then (Inl (refuse ''authenticated_https'' ''authenticated sessions require an HTTPS destination'' normalized), st1)
     else if pn_capability_id node = ''private_workspace'' \<and> rq_privacy_profile (xc_request (au_context st1)) \<noteq> ''private''
     then (Inl (refuse ''private_workspace_privacy'' ''private_workspace requires a private privacy profile'' normalized), st1)
     else (Inr normalized, st1))"

subsection \<open>Sessions\<close>

fun flow_exc :: "flow_error \<Rightarrow> py_exc" where
  "flow_exc (AuthFlowError m) = simple_exc ExcValue ''AuthFlowError'' m"
| "flow_exc (SessionBindingError m) = simple_exc ExcValue ''SessionBindingError'' m"
| "flow_exc (CSRFExtractionError m) = simple_exc ExcValue ''CSRFExtractionError'' m"
| "flow_exc (CSRFTokenNotFoundError m) = simple_exc ExcValue ''CSRFTokenNotFoundError'' m"
| "flow_exc (CSRFTokenAmbiguousError m) = simple_exc ExcValue ''CSRFTokenAmbiguousError'' m"
| "flow_exc (ApprovalRequiredError m) = simple_exc ExcValue ''ApprovalRequiredError'' m"
| "flow_exc (SessionProviderError m) = simple_exc ExcOther ''SessionProviderError'' m"
| "flow_exc (SessionNotFoundError m) = simple_exc ExcOther ''SessionNotFoundError'' m"
| "flow_exc (SessionProviderUnavailableError m) = simple_exc ExcOther ''SessionProviderUnavailableError'' m"
| "flow_exc (FormSubmissionProviderError m) = simple_exc ExcOther ''FormSubmissionProviderError'' m"
| "flow_exc (FormSubmissionNotFoundError m) = simple_exc ExcOther ''FormSubmissionNotFoundError'' m"
| "flow_exc (FlowRaised e) = value_exc e"

definition lift_flow_exc :: "'a flow \<Rightarrow> py_exc + 'a" where
  "lift_flow_exc m = (case m of Inl e \<Rightarrow> Inl (flow_exc e) | Inr x \<Rightarrow> Inr x)"

definition resolve_session :: "auth_services \<Rightarrow> string \<Rightarrow> string \<Rightarrow> py_exc + origin_scoped_session" where
  "resolve_session sv reference capability_id =
     (case ap_session sv reference of
        Inr s \<Rightarrow> Inr s
      | Inl (SessionProviderUnavailableError _) \<Rightarrow> Inl (dependency_error ''session provider is unavailable'')
      | Inl (SessionNotFoundError _) \<Rightarrow>
          if capability_id \<in> {''sso'', ''private_workspace''} then Inl (dependency_error ''configured session connector is unavailable'')
          else Inl (auth_required ''authentication reference has no configured session'')
      | Inl _ \<Rightarrow> Inl (dependency_error ''session provider failed''))"

definition resolve_material :: "auth_services \<Rightarrow> string \<Rightarrow> py_exc + credential_material" where
  "resolve_material sv reference =
     (case ap_credential sv reference of
        Inr m \<Rightarrow> Inr m
      | Inl CredentialUnavailable \<Rightarrow> Inl (dependency_error ''credential provider is unavailable'')
      | Inl CredentialNotFound \<Rightarrow> Inl (auth_required ''authentication reference could not be resolved'')
      | Inl _ \<Rightarrow> Inl (dependency_error ''credential provider failed''))"

definition validate_session_descriptor :: "origin_scoped_session \<Rightarrow> string \<Rightarrow> string \<Rightarrow> string \<Rightarrow> py_exc + unit" where
  "validate_session_descriptor s capability_id authentication_ref target =
     (if os_authentication_ref s \<noteq> authentication_ref
      then Inl (auth_required ''session descriptor does not match the authentication reference'')
      else if session_capability_value (os_capability_id s) \<noteq> capability_id
      then Inl (auth_required ''session descriptor does not match the requested capability'')
      else bind_res (lift_flow_exc (session_applies_to s target)) (\<lambda>applies.
        if \<not> applies then Inl (auth_required ''session descriptor does not match the target origin'')
        else if capability_id = ''private_workspace'' \<and> os_connector_id s = None
        then Inl (dependency_error ''private workspace session has no configured connector identity'')
        else Inr ()))"

definition validate_existing_material :: "origin_scoped_session \<Rightarrow> credential_material \<Rightarrow> py_exc + unit" where
  "validate_existing_material s material =
     (case validate_material_binding s material of
        Inl _ \<Rightarrow> Inl (auth_required ''credential material does not match the configured session'')
      | Inr _ \<Rightarrow> Inr ())"

definition refresh_failed :: "origin_scoped_session \<Rightarrow> string \<Rightarrow> auth_state \<Rightarrow> auth_state" where
  "refresh_failed s reason =
     auth_event ''auth.refresh.failed'' [(''capability_id'', VStr (session_capability_value (os_capability_id s))), (''reason'', VStr reason)]"

definition check_refreshed :: "origin_scoped_session \<Rightarrow> credential_material \<Rightarrow> credential_material \<Rightarrow> auth_state \<Rightarrow> (py_exc + credential_material) \<times> auth_state" where
  "check_refreshed s existing material st =
     (case validate_material_binding s material of
        Inl _ \<Rightarrow> (Inl (auth_required ''refreshed credential does not match the configured session''), refresh_failed s ''invalid_binding'' st)
      | Inr _ \<Rightarrow>
          if cm_capability_id material \<noteq> cm_capability_id existing
          then (Inl (auth_required ''refreshed credential changed authentication type''), refresh_failed s ''credential_type_changed'' st)
          else if expired (auth_now st) material
          then (Inl (auth_expired ''credential refresh returned expired material''), refresh_failed s ''expired_material'' st)
          else let capability = session_capability_value (os_capability_id s) in
            (Inr material, auth_event ''auth.refresh.succeeded'' [(''capability_id'', VStr capability)]
               (auth_outcome capability CO_APPLIED ''auth'' [(''refreshed'', VBool True)] st)))"

definition refresh_session ::
  "auth_services \<Rightarrow> origin_scoped_session \<Rightarrow> credential_material \<Rightarrow> auth_state \<Rightarrow> (py_exc + credential_material) \<times> auth_state" where
  "refresh_session sv s existing st =
     (case (os_refresh_ref s, ap_refresh sv) of
        (Some refresh_ref, refresh) \<Rightarrow>
          if os_capability_id s \<notin> {OAUTH, SSO} \<or> cm_capability_id existing \<noteq> ''bearer_token''
          then (Inl (auth_expired ''session credential is expired''), st)
          else (case refresh of
             None \<Rightarrow> (Inl (auth_expired ''credential refresh is unavailable''), refresh_failed s ''refresh_unsupported'' st)
           | Some f \<Rightarrow>
               let st1 = auth_event ''auth.refresh.started'' [(''capability_id'', VStr (session_capability_value (os_capability_id s)))] st in
               (case f refresh_ref of
                  Inl CredentialUnavailable \<Rightarrow>
                    (Inl (dependency_error ''credential provider is unavailable''), refresh_failed s ''provider_unavailable'' st1)
                | Inl CredentialRaised \<Rightarrow> (Inl (dependency_error ''credential provider failed''), refresh_failed s ''provider_failed'' st1)
                | Inl _ \<Rightarrow> (Inl (auth_expired ''credential refresh was rejected''), refresh_failed s ''refresh_rejected'' st1)
                | Inr material \<Rightarrow> check_refreshed s existing material st1))
      | (None, _) \<Rightarrow> (Inl (auth_expired ''session credential is expired''), st))"

definition current_material ::
  "auth_services \<Rightarrow> string \<Rightarrow> origin_scoped_session \<Rightarrow> credential_material \<Rightarrow> auth_state \<Rightarrow> (py_exc + credential_material) \<times> auth_state" where
  "current_material sv capability_id s material st =
     (let now = auth_now st; descriptor_expired = past now (os_expires_at s); material_expired = expired now material;
          refresh_authorized = (capability_id \<in> {''oauth'', ''sso''} \<and> cm_capability_id material = ''bearer_token'' \<and> os_refresh_ref s \<noteq> None) in
      bind_run (if refresh_authorized then (lift_flow_exc (needs_refresh now s None), st) else (Inr False, st)) (\<lambda>due st1.
      if refresh_authorized \<and> (descriptor_expired \<or> material_expired \<or> due) then
        bind_run (refresh_session sv s material st1) (\<lambda>refreshed st2.
        bind_run (validate_existing_material s refreshed, st2) (\<lambda>_ st3.
        if expired (auth_now st3) refreshed then (Inl (auth_expired ''credential refresh returned expired material''), st3)
        else (Inr refreshed, st3)))
      else if descriptor_expired \<or> material_expired then (Inl (auth_expired ''session credential is expired''), st1)
      else (Inr material, st1)))"

definition session_and_material ::
  "auth_services \<Rightarrow> plan_node \<Rightarrow> string \<Rightarrow> auth_state \<Rightarrow> (py_exc + origin_scoped_session \<times> credential_material) \<times> auth_state" where
  "session_and_material sv node reference st =
     bind_run (evaluate_session_policy sv node st) (\<lambda>target st1.
     bind_run (resolve_session sv reference (pn_capability_id node), st1) (\<lambda>s st2.
     bind_run (validate_session_descriptor s (pn_capability_id node) reference target, st2) (\<lambda>_ st3.
     bind_run (resolve_material sv reference, st3) (\<lambda>material0 st4.
     bind_run (validate_existing_material s material0, st4) (\<lambda>_ st5.
     bind_run (current_material sv (pn_capability_id node) s material0 st5) (\<lambda>material st6.
       (Inr (s, material), st6)))))))"

definition session_failure_code :: "py_exc \<Rightarrow> string option" where
  "session_failure_code e = (case ex_class e of
     ExcPolicyBlocked \<Rightarrow> Some ''policy'' | ExcDependency \<Rightarrow> Some ''dependency_missing'' | ExcAuthExpired \<Rightarrow> Some ''auth_expired''
   | ExcAuthRequired \<Rightarrow> Some ''auth_required'' | _ \<Rightarrow> None)"

definition text_or_none :: "string option \<Rightarrow> pyval" where
  "text_or_none x = (case x of None \<Rightarrow> VNone | Some s \<Rightarrow> VStr s)"

definition keep_session :: "plan_node \<Rightarrow> fetch_attempt \<Rightarrow> origin_scoped_session \<Rightarrow> credential_material \<Rightarrow> auth_state \<Rightarrow> auth_state" where
  "keep_session node attempt s material st =
     (let st1 = st\<lparr>au_material := Some material, au_session := Some s, au_session_capability := Some (pn_capability_id node)\<rparr>;
          st2 = auth_outcome (pn_capability_id node) CO_APPLIED ''auth''
            [(''exact_origin'', VBool True), (''credential_type'', VStr (cm_capability_id material)),
             (''issuer_origin'', text_or_none (os_issuer_origin s)), (''scope_count'', VInt (int (length (os_scopes s)))),
             (''connector_id'', text_or_none (os_connector_id s))] st1;
          st3 = auth_event ''auth.session.validated'' [(''capability_id'', VStr (pn_capability_id node))] st2
      in finish_attempt attempt ''origin-scoped-session'' 0 [] st3)"

definition validate_session :: "auth_services \<Rightarrow> plan_node \<Rightarrow> auth_state \<Rightarrow> (py_exc + unit) \<times> auth_state" where
  "validate_session sv node st0 =
     bind_run (start_attempt node st0) (\<lambda>attempt st.
     case rq_authentication_ref (xc_request (au_context st)) of
       None \<Rightarrow> (Inl (auth_required ''authentication reference is required''), auth_fail_attempt attempt ''auth_required'' st)
     | Some reference \<Rightarrow>
         (case session_and_material sv node reference st of
            (Inl e, st1) \<Rightarrow>
              (Inl e, case session_failure_code e of Some failure \<Rightarrow> auth_fail_attempt attempt failure st1 | None \<Rightarrow> st1)
          | (Inr (s, material), st1) \<Rightarrow> (Inr (), keep_session node attempt s material st1)))"

subsection \<open>CSRF tokens\<close>

definition is_auth_flow_error :: "flow_error \<Rightarrow> bool" where
  "is_auth_flow_error e \<longleftrightarrow> is_value_error e \<and> (case e of FlowRaised _ \<Rightarrow> False | _ \<Rightarrow> True)"

definition find_resource :: "execution_context \<Rightarrow> uuid \<Rightarrow> resource option" where
  "find_resource ctx i = List.find (\<lambda>r. rs_resource_id r = i) (xc_resources ctx)"

definition finish_csrf :: "auth_services \<Rightarrow> fetch_attempt \<Rightarrow> resource \<Rightarrow> string \<Rightarrow> csrf_token flow \<Rightarrow> auth_state \<Rightarrow> (py_exc + unit) \<times> auth_state" where
  "finish_csrf sv attempt source body extracted st =
     (case extracted of
        Inl e \<Rightarrow>
          if is_auth_flow_error e
          then (Inl (adapter_error ''bounded same-origin CSRF extraction failed''), auth_fail_attempt attempt ''adapter_failed'' st)
          else if is_value_error e
          then (Inl (dependency_error ''CSRF source artifact is unavailable or invalid''), auth_fail_attempt attempt ''dependency_missing'' st)
          else (Inl (flow_exc e), st)
      | Inr t \<Rightarrow>
          let st1 = st\<lparr>au_csrf := Some t, au_csrf_source := Some (rs_resource_id source)\<rparr>;
              st2 = auth_outcome ''csrf_token'' CO_APPLIED ''auth''
                [(''exact_action'', VBool True), (''method'', VStr (ct_form_method t)), (''field_name'', VStr (ct_field_name t))] st1 in
          (Inr (), finish_attempt attempt ''bounded-html-form'' (int (length body)) [] st2))"

definition extract_csrf :: "auth_services \<Rightarrow> plan_node \<Rightarrow> auth_state \<Rightarrow> (py_exc + unit) \<times> auth_state" where
  "extract_csrf sv node st0 =
     bind_run (start_attempt node st0) (\<lambda>attempt st.
     let ctx = au_context st in
     case latest_artifact ctx [''raw''] of
       None \<Rightarrow> (Inl (dependency_error ''CSRF extraction requires an acquired HTML artifact''), auth_fail_attempt attempt ''dependency_missing'' st)
     | Some raw \<Rightarrow>
         (case find_resource ctx (ar_source_resource_id raw) of
            None \<Rightarrow> (Inl (dependency_error ''CSRF artifact has no matching source resource''), auth_fail_attempt attempt ''dependency_missing'' st)
          | Some source \<Rightarrow>
              if ar_media_type raw \<notin> {''text/html'', ''application/xhtml+xml''}
              then (Inl (adapter_error ''CSRF extraction requires an HTML source artifact''), auth_fail_attempt attempt ''adapter_failed'' st)
              else (case ap_read sv (ar_cas_uri raw)
                      (Some (min (int (ar_size raw)) (min (b_decompressed_bytes (rq_budget (xc_request ctx))) (256 * 1024)))) of
                 Inl e \<Rightarrow>
                   if ex_class e = ExcValue \<or> ap_os_error sv e
                   then (Inl (dependency_error ''CSRF source artifact is unavailable or invalid''), auth_fail_attempt attempt ''dependency_missing'' st)
                   else (Inl e, st)
               | Inr body \<Rightarrow>
                   finish_csrf sv attempt source body
                     (extract_csrf_token (ap_casefold sv) (ap_tokenize sv) body (rs_canonical_url source) None DEFAULT_CSRF_FIELD_NAMES
                        MAX_CSRF_HTML_BYTES MAX_CSRF_FORMS MAX_CSRF_FIELDS) st)))"

definition context_csrf :: "auth_state \<Rightarrow> py_exc + csrf_token option" where
  "context_csrf st =
     (case au_csrf st of
        None \<Rightarrow> Inr None
      | Some t \<Rightarrow>
          (case au_csrf_source st of
             None \<Rightarrow> Inl (adapter_error ''CSRF source binding is missing'')
           | Some i \<Rightarrow>
               (case find_resource (au_context st) i of
                  Some source \<Rightarrow>
                    if rs_canonical_url source \<noteq> ct_source_url t then Inl (adapter_error ''CSRF source binding is invalid'') else Inr (Some t)
                | None \<Rightarrow> Inl (adapter_error ''CSRF source binding is invalid''))))"

subsection \<open>Forms\<close>

datatype form_exc = FlowExc flow_error | AdapterExc py_exc

definition adapter_side :: "(py_exc + 'a) \<times> auth_state \<Rightarrow> (form_exc + 'a) \<times> auth_state" where
  "adapter_side m = (case m of (Inl e, st) \<Rightarrow> (Inl (AdapterExc e), st) | (Inr x, st) \<Rightarrow> (Inr x, st))"

definition flow_side :: "'a flow \<Rightarrow> auth_state \<Rightarrow> (form_exc + 'a) \<times> auth_state" where
  "flow_side m st = (case m of Inl e \<Rightarrow> (Inl (FlowExc e), st) | Inr x \<Rightarrow> (Inr x, st))"

definition bind_form :: "(form_exc + 'a) \<times> auth_state \<Rightarrow> ('a \<Rightarrow> auth_state \<Rightarrow> (form_exc + 'b) \<times> auth_state) \<Rightarrow> (form_exc + 'b) \<times> auth_state" where
  "bind_form m f = (case m of (Inl e, st) \<Rightarrow> (Inl e, st) | (Inr x, st) \<Rightarrow> f x st)"

definition resolve_submission :: "auth_services \<Rightarrow> string \<Rightarrow> auth_state \<Rightarrow> (form_exc + form_submission) \<times> auth_state" where
  "resolve_submission sv reference st =
     (case ap_consume sv (auth_now st) reference (xc_run_id (au_context st)) (au_forms st) of (r, forms) \<Rightarrow>
        (case r of
           Inr s \<Rightarrow> Inr s
         | Inl (FormSubmissionNotFoundError m) \<Rightarrow> Inl (FlowExc (FormSubmissionNotFoundError m))
         | Inl (FormSubmissionProviderError m) \<Rightarrow> Inl (FlowExc (FormSubmissionProviderError m))
         | Inl _ \<Rightarrow> Inl (FlowExc (FormSubmissionProviderError ''form submission provider failed'')),
         st\<lparr>au_forms := forms\<rparr>))"

definition evaluate_form_action_policy :: "auth_services \<Rightarrow> form_submission \<Rightarrow> auth_state \<Rightarrow> (py_exc + unit) \<times> auth_state" where
  "evaluate_form_action_policy sv s st =
     bind_run (evaluate_in sv (fs_target s) (Some (rq_target (xc_request (au_context st)))) st) (\<lambda>normalized st1.
     if normalized \<noteq> fs_target s then (Inl (adapter_error ''form action changed during destination normalization''), st1)
     else (Inr (), st1))"

definition bind_csrf :: "form_submission \<Rightarrow> auth_state \<Rightarrow> (form_exc + form_submission) \<times> auth_state" where
  "bind_csrf s st =
     bind_form (adapter_side (context_csrf st, st)) (\<lambda>csrf st1.
     case fs_csrf s of
       Some supplied \<Rightarrow>
         if csrf \<noteq> Some supplied then (Inl (AdapterExc (adapter_error ''form CSRF token does not match the current source binding'')), st1)
         else (Inr s, st1)
     | None \<Rightarrow>
         (case csrf of
            None \<Rightarrow> (Inr s, st1)
          | Some t \<Rightarrow> flow_side (FormSubmission (auth_now st1) (fs_target s) (fs_method s) (fs_fields s) (fs_authentication_ref s)
                        (Some t) (fs_approval s)) st1))"

definition check_submission :: "auth_services \<Rightarrow> string \<Rightarrow> string \<Rightarrow> form_submission \<Rightarrow> auth_state \<Rightarrow> (form_exc + form_submission) \<times> auth_state" where
  "check_submission sv reference target s st =
     (if fs_authentication_ref s \<noteq> Some reference
      then (Inl (FlowExc (AuthFlowError ''form submission reference does not match the request reference'')), st)
      else bind_form (flow_side (submission_origin s) st) (\<lambda>origin st1.
        bind_form (flow_side (lift_flow (canonical_origin False target)) st1) (\<lambda>request_origin st2.
        if origin \<noteq> request_origin
        then (Inl (AdapterExc (refuse ''form_action_origin'' ''form submission action must remain on the request origin'' (fs_target s))), st2)
        else bind_form (adapter_side (evaluate_form_action_policy sv s st2)) (\<lambda>_ st3. bind_csrf s st3))))"

definition send_form ::
  "auth_services \<Rightarrow> form_submission \<Rightarrow> auth_state \<Rightarrow> (form_exc + form_submission \<times> (string \<times> string) list \<times> form_response) \<times> auth_state" where
  "send_form sv s st =
     bind_form (flow_side (assert_authorized (auth_now st) s None) st) (\<lambda>_ st1.
     bind_form (flow_side (payload (auth_now st1) s None) st1) (\<lambda>data st2.
     let has_session_credential = (au_material st2 \<noteq> None) in
     bind_form (adapter_side (ap_request sv (fs_target s) (fs_method s) (urlencode data) (\<not> has_session_credential)
         (if has_session_credential then ''request'' else ''anonymous'') st2)) (\<lambda>response st3.
       (Inr (s, data, response), st3))))"

definition form_body ::
  "auth_services \<Rightarrow> plan_node \<Rightarrow> string \<Rightarrow> auth_state \<Rightarrow> (form_exc + form_submission \<times> (string \<times> string) list \<times> form_response) \<times> auth_state" where
  "form_body sv node reference st =
     bind_form (adapter_side (evaluate_session_policy sv node st)) (\<lambda>target st1.
     bind_form (resolve_submission sv reference st1) (\<lambda>s st2.
     bind_form (check_submission sv reference target s st2) (\<lambda>s1 st3. send_form sv s1 st3)))"

text \<open>The handlers, in their order; an exception of none of these classes is a cancellation.\<close>

definition form_failure :: "auth_services \<Rightarrow> fetch_request \<Rightarrow> form_exc \<Rightarrow> string option \<times> py_exc" where
  "form_failure sv request e =
     (case e of
        FlowExc (ApprovalRequiredError _) \<Rightarrow>
          (Some ''policy'', refuse ''form_submit_approval'' ''form_submit requires a live exact-target approval'' (rq_target request))
      | FlowExc (FormSubmissionNotFoundError _) \<Rightarrow> (Some ''dependency_missing'', dependency_error ''approved form submission provider is unavailable'')
      | FlowExc (FormSubmissionProviderError _) \<Rightarrow> (Some ''dependency_missing'', dependency_error ''form submission provider failed'')
      | FlowExc f \<Rightarrow>
          if is_auth_flow_error f then (Some ''adapter_failed'', adapter_error ''form submission proposal is invalid'')
          else (Some ''adapter_failed'', adapter_error ''form execution boundary failed'')
      | AdapterExc x \<Rightarrow>
          (case ex_class x of
             ExcPolicyBlocked \<Rightarrow> (Some ''policy'', x)
           | ExcAuthExpired \<Rightarrow> (Some ''auth_expired'', x)
           | ExcAuthRequired \<Rightarrow> (Some ''auth_required'', x)
           | ExcDependency \<Rightarrow> (Some ''dependency_missing'', x)
           | ExcCancelled \<Rightarrow> (None, x)
           | _ \<Rightarrow>
               if is_adapter_execution_error (ex_class x) then (Some ''adapter_failed'', x)
               else if ap_os_error sv x then (Some ''adapter_failed'', adapter_error ''form transport failed'')
               else (Some ''adapter_failed'', adapter_error ''form execution boundary failed'')))"

definition response_media_type :: "form_response \<Rightarrow> string" where
  "response_media_type r =
     py_strip (fst (py_partition (CHR '';'') (case hr_content_type r of None \<Rightarrow> ''application/octet-stream'' | Some t \<Rightarrow> t)))"

definition form_quality :: "auth_services \<Rightarrow> fetch_request \<Rightarrow> form_response \<Rightarrow> quality_assessment" where
  "form_quality sv request r =
     (let media_type = response_media_type r in
      if py_startswith media_type ''text/'' \<or> media_type \<in> {''application/json'', ''application/xml''}
      then assess_text (ap_unicode sv) (rq_language request) (hr_text r)
      else assess_binary (int (length (hr_body r))) media_type)"

definition record_form_outcomes :: "form_submission \<Rightarrow> (string \<times> string) list \<Rightarrow> form_response \<Rightarrow> auth_state \<Rightarrow> auth_state" where
  "record_form_outcomes s data r st =
     (let st1 = auth_outcome ''form_submit'' CO_APPLIED ''auth''
            [(''method'', VStr (fs_method s)), (''status_code'', VInt (hr_status_code r)), (''field_count'', VInt (int (length data))),
             (''csrf_bound'', VBool (fs_csrf s \<noteq> None))] st;
          st2 = (if hr_cookie_handoff r then
              auth_outcome ''login_session'' CO_APPLIED ''auth'' [(''established_by'', VStr ''approved_form_redirect''), (''ephemeral'', VBool True)]
                (auth_outcome ''cookie_session'' CO_APPLIED ''auth'' [(''ephemeral'', VBool True), (''exact_origin'', VBool True)] st1)
            else st1);
          st3 = (if fs_csrf s \<noteq> None then auth_outcome ''csrf_token'' CO_APPLIED ''auth'' [(''attached'', VBool True)] st2 else st2)
      in auth_event ''auth.form.submitted''
           [(''capability_id'', VStr ''form_submit''), (''method'', VStr (fs_method s)), (''status_code'', VInt (hr_status_code r))] st3)"

definition store_form ::
  "auth_services \<Rightarrow> fetch_attempt \<Rightarrow> form_submission \<Rightarrow> (string \<times> string) list \<Rightarrow> form_response \<Rightarrow> auth_state \<Rightarrow> (py_exc + unit) \<times> auth_state" where
  "store_form sv attempt s data r st =
     (let request = xc_request (au_context st); media_type = response_media_type r; quality = form_quality sv request r in
      case bind_res (lift_exc (sanitize_url_for_request (hr_url r) request)) (\<lambda>canonical.
           bind_res (lift_exc (sanitize_url_for_request (fs_target s) request)) (\<lambda>requested.
           bind_res (ap_put sv (hr_body r)) (\<lambda>stored. Inr (canonical, requested, stored)))) of
        Inl e \<Rightarrow> (Inl e, st)
      | Inr (canonical, requested, uri, digest, byte_size) \<Rightarrow>
          let en = au_env st;
              resource = \<lparr>rs_resource_id = en_next_id en, rs_canonical_url = canonical, rs_requested_url = requested,
                rs_media_type = Some media_type, rs_status_code = Some (hr_status_code r), rs_retrieved_at = en_clock en,
                rs_authority_url = Some requested, rs_checked_only = False\<rparr>;
              a = build_artifact (en_next_id en + 1) ''source'' ''raw'' media_type uri digest byte_size resource ''builtin-auth-form/0.3'' quality [] [];
              st1 = in_auth_context (\<lambda>c. c\<lparr>xc_resources := xc_resources c @ [resource], xc_artifacts := xc_artifacts c @ [a],
                xc_accepted := xc_accepted c \<or> (qa_accepted quality \<and> qa_page_state quality \<noteq> PS_LOGIN)\<rparr>)
                (st\<lparr>au_env := en\<lparr>en_next_id := en_next_id en + 2\<rparr>\<rparr>) in
          (Inr (), finish_attempt attempt ''approved-form'' (hr_wire_bytes r) [ar_artifact_id a] (record_form_outcomes s data r st1)))"

definition submit_form :: "auth_services \<Rightarrow> plan_node \<Rightarrow> auth_state \<Rightarrow> (py_exc + unit) \<times> auth_state" where
  "submit_form sv node st0 =
     bind_run (start_attempt node st0) (\<lambda>attempt st.
     case rq_authentication_ref (xc_request (au_context st)) of
       None \<Rightarrow> (Inl (auth_required ''form submission requires an opaque authentication reference''), auth_fail_attempt attempt ''auth_required'' st)
     | Some reference \<Rightarrow>
         (case form_body sv node reference st of
            (Inl e, st1) \<Rightarrow>
              (case form_failure sv (xc_request (au_context st1)) e of
                 (Some failure, x) \<Rightarrow> (Inl x, auth_fail_attempt attempt failure st1)
               | (None, x) \<Rightarrow> (Inl x, st1))
          | (Inr (s, data, r), st1) \<Rightarrow> store_form sv attempt s data r st1))"

definition auth_execute :: "auth_services \<Rightarrow> plan_node \<Rightarrow> auth_state \<Rightarrow> (py_exc + unit) \<times> auth_state" where
  "auth_execute sv node st =
     (if pn_capability_id node \<in> set SESSION_CAPABILITIES then validate_session sv node st
      else if pn_capability_id node = ''csrf_token'' then extract_csrf sv node st
      else if pn_capability_id node = ''form_submit'' then submit_form sv node st
      else (Inl (adapter_error (''authentication adapter cannot execute '' @ pn_capability_id node)), st))"

end
