(* ===== verification/Auth_Correct.thy ===== *)
theory Auth_Correct
  imports Auth_Adapter
begin

section \<open>Correctness of the authentication flows\<close>

text \<open>
  Where the material of a session and the token of a form may go, when a form is sent, and what an
  expired approval leads to.
\<close>

subsection \<open>CSRF tokens\<close>

lemma lift_flow_Inr [simp]: "lift_flow m = Inr x \<longleftrightarrow> m = Inr x"
  by (cases m) (auto simp: lift_flow_def)

lemma CSRFTokenMaterial_Inr:
  assumes "CSRFTokenMaterial u a m name token = Inr t"
  shows "\<exists>origin. canonical_origin False (ct_source_url t) = Inr origin \<and> canonical_origin False (ct_form_action t) = Inr origin"
    "https_url u = Inr (ct_source_url t)" "https_url a = Inr (ct_form_action t)" "form_method m = Inr (ct_form_method t)"
    "ct_field_name t = name" "ct_token t = token" "field_name_ok name"
    "token \<noteq> [] \<and> CHR 0x00 \<notin> set token \<and> length token \<le> MAX_CSRF_TOKEN_BYTES"
  using assms by (auto simp: CSRFTokenMaterial_def validate_secret_value_def split: if_splits)

text \<open>A candidate comes from a hidden field of an open form with an allowed name.\<close>

definition candidate_ok :: "(string \<Rightarrow> string) \<Rightarrow> string set \<Rightarrow> string \<times> string \<times> string \<times> string \<Rightarrow> bool" where
  "candidate_ok casefold names c \<longleftrightarrow> (case c of (_, _, name, _) \<Rightarrow> casefold name \<in> names)"

lemma csrf_tag_ok:
  assumes "csrf_tag casefold names mf mi p t = Inr p'" "list_all (candidate_ok casefold names) (cp_candidates p)"
    "cp_forms p \<le> mf" "cp_fields p \<le> mi"
  shows "list_all (candidate_ok casefold names) (cp_candidates p')" "cp_forms p' \<le> mf" "cp_fields p' \<le> mi"
  using assms
  by (auto simp: csrf_tag_def csrf_starttag_def candidate_ok_def Let_def split: form_tag.splits if_splits option.splits bool.splits)

lemma parse_forms_ok:
  assumes "parse_forms casefold names mf mi tags = Inr p" "0 \<le> mf" "0 \<le> mi"
  shows "list_all (candidate_ok casefold names) (cp_candidates p)" "cp_forms p \<le> mf" "cp_fields p \<le> mi"
proof -
  have "fold_res (csrf_tag casefold names mf mi) q tags = Inr p \<Longrightarrow>
      list_all (candidate_ok casefold names) (cp_candidates q) \<Longrightarrow> cp_forms q \<le> mf \<Longrightarrow> cp_fields q \<le> mi \<Longrightarrow>
      list_all (candidate_ok casefold names) (cp_candidates p) \<and> cp_forms p \<le> mf \<and> cp_fields p \<le> mi" for q
  proof (induction tags arbitrary: q)
    case (Cons t tags)
    then obtain q' where q: "csrf_tag casefold names mf mi q t = Inr q'" "fold_res (csrf_tag casefold names mf mi) q' tags = Inr p" by auto
    show ?case by (rule Cons.IH [OF q(2)]) (use csrf_tag_ok [OF q(1)] Cons.prems in auto)
  qed simp
  moreover have "fold_res (csrf_tag casefold names mf mi) new_csrf_parser tags = Inr p"
    using assms(1) by (auto simp: parse_forms_def split: sum.splits flow_error.splits)
  ultimately show "list_all (candidate_ok casefold names) (cp_candidates p)" "cp_forms p \<le> mf" "cp_fields p \<le> mi"
    using assms(2,3) by (auto simp: new_csrf_parser_def)
qed

lemma csrf_candidate_Some:
  assumes "csrf_candidate u origin expected (action, m, name, token) = Inr (Some (a, t))"
  shows "CSRFTokenMaterial u a m name token = Inr t" "canonical_origin False a = Inr origin"
  using assms by (auto simp: csrf_candidate_def split: sum.splits if_splits)

lemma only_token_Inr: "only_token xs = Inr t \<longleftrightarrow> (\<exists>a. xs = [(a, t)])"
  by (auto simp: only_token_def split: list.splits)

text \<open>
  A CSRF token stays on the origin of its page. A token that extraction returns is bound to an
  action URL with the origin of the page, is a candidate of its parsed forms whose field name is
  allowed, has a value of 1 to 4096 bytes without NUL, and it is the only candidate of the page with
  an acceptable action.
\<close>

theorem csrf_token_same_origin:
  assumes "extract_csrf_token casefold tokenize html page_url expected names max_bytes max_forms max_fields = Inr t"
  shows "\<exists>u origin ex p c a. https_url page_url = Inr u \<and> canonical_origin False u = Inr origin \<and> expected_csrf_action u origin expected = Inr ex \<and>
    c \<in> set (cp_candidates p) \<and> csrf_candidate u origin ex c = Inr (Some (a, t)) \<and> canonical_origin False a = Inr origin \<and>
    https_url u = Inr (ct_source_url t) \<and> https_url a = Inr (ct_form_action t) \<and>
    canonical_origin False (ct_source_url t) = canonical_origin False (ct_form_action t) \<and>
    casefold (ct_field_name t) \<in> set (map casefold names) \<and>
    ct_token t \<noteq> [] \<and> CHR 0x00 \<notin> set (ct_token t) \<and> length (ct_token t) \<le> 4096 \<and>
    parse_forms casefold (set (map casefold names)) max_forms max_fields (tokenize (utf8_replace html)) = Inr p \<and>
    cp_forms p \<le> 32 \<and> cp_fields p \<le> 256 \<and>
    (\<forall>c' a' t'. c' \<in> set (cp_candidates p) \<and> csrf_candidate u origin ex c' = Inr (Some (a', t')) \<longrightarrow> t' = t)"
proof -
  from assms obtain u origin ex p found a where lim: "1 \<le> max_forms" "max_forms \<le> 32" "1 \<le> max_fields" "max_fields \<le> 256"
    and u: "https_url page_url = Inr u" "canonical_origin False u = Inr origin" "expected_csrf_action u origin expected = Inr ex"
    and p: "parse_forms casefold (set (map casefold names)) max_forms max_fields (tokenize (utf8_replace html)) = Inr p"
    and f: "map_res (csrf_candidate u origin ex) (cp_candidates p) = Inr found" "remdups (List.map_filter id found) = [(a, t)]"
    by (auto simp: extract_csrf_token_def bounded_limit_def MAX_CSRF_FORMS_def MAX_CSRF_FIELDS_def Let_def only_token_Inr
        split: if_splits)
  have all: "x = (a, t)" if "Some x \<in> set found" for x
  proof -
    have "x \<in> set (List.map_filter id found)" using that by (force simp: map_filter_def)
    then show ?thesis using f(2) by (metis empty_iff empty_set insert_iff list.set(2) set_remdups)
  qed
  have "(a, t) \<in> set (List.map_filter id found)" using f(2) by (metis list.set_intros(1) set_remdups)
  then have "Some (a, t) \<in> set found" by (auto simp: map_filter_def)
  then obtain c where c: "c \<in> set (cp_candidates p)" "csrf_candidate u origin ex c = Inr (Some (a, t))"
    using map_res_Inr_nth [OF f(1)] map_res_Inr_length [OF f(1)] by (metis in_set_conv_nth)
  obtain action m name token where c4: "c = (action, m, name, token)" by (metis prod_cases4)
  have mat: "CSRFTokenMaterial u a m name token = Inr t" "canonical_origin False a = Inr origin"
    using csrf_candidate_Some [OF c(2) [unfolded c4]] by auto
  note t = CSRFTokenMaterial_Inr [OF mat(1)]
  have "t' = t" if "c' \<in> set (cp_candidates p)" "csrf_candidate u origin ex c' = Inr (Some (a', t'))" for c' a' t'
  proof -
    have "Some (a', t') \<in> set found" using that map_res_Inr_nth [OF f(1)] map_res_Inr_length [OF f(1)] by (metis Inr_inject in_set_conv_nth)
    then show ?thesis using all by blast
  qed
  then have only: "\<forall>c' a' t'. c' \<in> set (cp_candidates p) \<and> csrf_candidate u origin ex c' = Inr (Some (a', t')) \<longrightarrow> t' = t" by blast
  have name: "casefold (ct_field_name t) \<in> set (map casefold names)"
    using parse_forms_ok(1) [OF p] lim c(1) t(5) by (auto simp: list_all_iff candidate_ok_def c4)
  have bounds: "cp_forms p \<le> 32" "cp_fields p \<le> 256" "length (ct_token t) \<le> 4096" "ct_token t \<noteq> []" "CHR 0x00 \<notin> set (ct_token t)"
    "canonical_origin False (ct_source_url t) = canonical_origin False (ct_form_action t)"
    using parse_forms_ok(2,3) [OF p] lim t(1,6,8) by (auto simp: MAX_CSRF_TOKEN_BYTES_def)
  show ?thesis by (intro exI conjI) (rule u p c mat(2) t(2,3) name bounds only)+
qed

subsection \<open>Sessions\<close>

lemma validate_existing_material_Inr:
  "validate_existing_material s m = Inr () \<longleftrightarrow> cm_origin m = os_origin s \<and> cm_capability_id m \<in> set (MATERIAL_CAPABILITIES (os_capability_id s))"
  by (auto simp: validate_existing_material_def validate_material_binding_def)

lemma auth_state_simps [simp]:
  "auth_now (in_auth_context f st) = auth_now st" "auth_now (auth_outcome a b c d st) = auth_now st" "auth_now (auth_event x y st) = auth_now st"
  "auth_now (refresh_failed s r st) = auth_now st"
  "au_forms (in_auth_context f st) = au_forms st"
  by (simp_all add: auth_now_def in_auth_context_def auth_outcome_def auth_event_def refresh_failed_def)

lemma record_decisions_frame: "au_env (record_decisions ds st) = au_env st \<and> au_forms (record_decisions ds st) = au_forms st"
proof -
  have "au_env (fold (\<lambda>d. auth_outcome (pd_policy_id d) (if pd_allowed d then CO_APPLIED else CO_BLOCKED) ''security'' [(''reason'', VStr (pd_reason d))]) ds st) = au_env st \<and>
    au_forms (fold (\<lambda>d. auth_outcome (pd_policy_id d) (if pd_allowed d then CO_APPLIED else CO_BLOCKED) ''security'' [(''reason'', VStr (pd_reason d))]) ds st) = au_forms st" for st
    by (induction ds arbitrary: st) (auto simp: auth_outcome_def in_auth_context_def)
  then show ?thesis by (simp add: record_decisions_def in_auth_context_def)
qed

lemma evaluate_session_policy_Inr:
  assumes "evaluate_session_policy sv node st = (Inr target, st')"
  shows "\<exists>decisions sp. evaluate (ap_resolver sv) (au_policy st) (rq_target (xc_request (au_context st))) None = Inr (target, decisions, sp)"
    "py_startswith target ''https://''" "au_env st' = au_env st" "au_forms st' = au_forms st"
  using assms
  by (auto simp: evaluate_session_policy_def bind_run_Inr evaluate_in_def record_decisions_frame split: if_splits sum.splits policy_exc.splits prod.splits)

lemma refresh_session_now: "refresh_session sv s m st = (r, st') \<Longrightarrow> auth_now st' = auth_now st"
  by (auto simp: refresh_session_def check_refreshed_def Let_def split: option.splits if_splits sum.splits credential_error.splits)

lemma current_material_Inr:
  assumes "current_material sv c s m st = (Inr m', st')" "validate_existing_material s m = Inr ()"
  shows "validate_existing_material s m' = Inr ()" "\<not> expired (auth_now st) m'" "auth_now st' = auth_now st"
  using assms refresh_session_now
  by (auto simp: current_material_def bind_run_Inr Let_def split: if_splits)

lemma start_attempt_frame:
  assumes "start_attempt node st = (Inr a, st')"
  shows "auth_now st' = auth_now st" "au_policy st' = au_policy st" "xc_request (au_context st') = xc_request (au_context st)"
    "au_forms st' = au_forms st"
  using assms by (auto simp: start_attempt_def auth_now_def in_auth_context_def Let_def split: sum.splits)

lemma keep_session_sel:
  "au_session (keep_session node attempt s m st) = Some s" "au_material (keep_session node attempt s m st) = Some m"
  by (simp_all add: keep_session_def Let_def finish_attempt_def set_last_attempt_def auth_event_def auth_outcome_def in_auth_context_def)

lemma validate_sessionE:
  assumes "validate_session sv node st = (Inr (), st')"
  obtains attempt st1 reference s m st2 where "start_attempt node st = (Inr attempt, st1)"
    "rq_authentication_ref (xc_request (au_context st1)) = Some reference"
    "session_and_material sv node reference st1 = (Inr (s, m), st2)" "st' = keep_session node attempt s m st2"
proof -
  from assms obtain attempt st1 where a: "start_attempt node st = (Inr attempt, st1)"
    by (auto simp: validate_session_def bind_run_Inr)
  obtain reference where r: "rq_authentication_ref (xc_request (au_context st1)) = Some reference"
    using assms a by (cases "rq_authentication_ref (xc_request (au_context st1))") (auto simp: validate_session_def)
  obtain x st2 where x: "session_and_material sv node reference st1 = (x, st2)" by (rule prod.exhaust)
  then show thesis
    using assms a r that by (cases x) (auto simp: validate_session_def split: prod.splits)
qed

text \<open>
  C21: a validated session is bound. When a session node succeeds, the destination policy has let the
  target of the run through as an HTTPS URL, the session belongs to the reference of the request, to
  the capability of the node and to the origin of the target, and the credential kept for the rest
  of the run has the origin of the session, a kind this capability allows, and is not expired.
\<close>

theorem session_credentials_bound:
  assumes "validate_session sv node st = (Inr (), st')"
  shows "\<exists>target decisions sp u s m. evaluate (ap_resolver sv) (au_policy st) (rq_target (xc_request (au_context st))) None = Inr (target, decisions, sp) \<and>
    py_startswith target ''https://'' \<and> https_url target = Inr u \<and> canonical_origin False u = Inr (os_origin s) \<and>
    au_session st' = Some s \<and> au_material st' = Some m \<and>
    rq_authentication_ref (xc_request (au_context st)) = Some (os_authentication_ref s) \<and>
    session_capability_value (os_capability_id s) = pn_capability_id node \<and> cm_origin m = os_origin s \<and>
    cm_capability_id m \<in> set (MATERIAL_CAPABILITIES (os_capability_id s)) \<and> \<not> expired (auth_now st) m"
proof -
  from assms obtain attempt st1 reference s m st2 where a: "start_attempt node st = (Inr attempt, st1)"
    and r: "rq_authentication_ref (xc_request (au_context st1)) = Some reference"
    and sm: "session_and_material sv node reference st1 = (Inr (s, m), st2)" and k: "st' = keep_session node attempt s m st2"
    by (rule validate_sessionE)
  from sm obtain target st3 m0 st5 where t: "evaluate_session_policy sv node st1 = (Inr target, st3)"
    and d: "validate_session_descriptor s (pn_capability_id node) reference target = Inr ()"
    and m0: "validate_existing_material s m0 = Inr ()" and m: "current_material sv (pn_capability_id node) s m0 st3 = (Inr m, st5)"
    by (auto simp: session_and_material_def bind_run_Inr)
  obtain u where u: "https_url target = Inr u" "canonical_origin False u = Inr (os_origin s)"
    using d by (auto simp: validate_session_descriptor_def lift_flow_exc_def session_applies_to_def split: if_splits sum.splits)
  have "auth_now st3 = auth_now st" using evaluate_session_policy_Inr(3) [OF t] start_attempt_frame(1) [OF a] by (simp add: auth_now_def)
  then show ?thesis
    using evaluate_session_policy_Inr(1,2) [OF t] start_attempt_frame [OF a] keep_session_sel r d u k current_material_Inr [OF m m0]
    unfolding validate_existing_material_Inr
    by (auto simp: validate_session_descriptor_def split: if_splits)
qed

subsection \<open>Forms\<close>

text \<open>A live approval for a target and a method.\<close>

definition live_approval :: "form_approval \<Rightarrow> string \<Rightarrow> string \<Rightarrow> time \<Rightarrow> bool" where
  "live_approval a target m now \<longleftrightarrow> https_url target = Inr (fa_target a) \<and> fa_method a = m \<and>
     fst (fa_granted_at a) \<le> now \<and> now < fst (fa_expires_at a)"

definition constructed :: "form_submission \<Rightarrow> bool" where
  "constructed s \<longleftrightarrow> (\<exists>now target m inputs reference csrf approval. FormSubmission now target m inputs reference csrf approval = Inr s)"

lemma upper_fixed: "list_all (\<lambda>m. method_upper (py_strip m) = m) FORM_METHODS"
  by code_simp

lemma form_method_fixed: "form_method m = Inr n \<Longrightarrow> form_method n = Inr n"
  using upper_fixed by (auto simp: form_method_def Let_def list_all_iff split: if_splits)

lemma FormSubmission_Inr:
  assumes "FormSubmission now target m inputs reference csrf approval = Inr s"
  shows "mutating s" "form_method (fs_method s) = Inr (fs_method s)" "fs_approval s = approval" "fs_csrf s = csrf"
    "https_url target = Inr (fs_target s)"
proof -
  have m: "form_method m = Inr (fs_method s)" "fs_method s \<noteq> ''GET''" "fs_approval s = approval \<and> fs_csrf s = csrf \<and> https_url target = Inr (fs_target s)"
    using assms by (auto simp: FormSubmission_def Let_def split: if_splits)
  then show "fs_approval s = approval" "fs_csrf s = csrf" "https_url target = Inr (fs_target s)" by simp_all
  show "form_method (fs_method s) = Inr (fs_method s)" using m(1) by (rule form_method_fixed)
  have "fs_method s \<in> set FORM_METHODS" using m(1) by (auto simp: form_method_def Let_def split: if_splits)
  then show "mutating s" using m(2) by (auto simp: mutating_def FORM_METHODS_def)
qed

lemma assert_authorized_live:
  assumes "assert_authorized now s None = Inr ()" "constructed s"
  shows "\<exists>a. fs_approval s = Some a \<and> live_approval a (fs_target s) (fs_method s) now"
proof -
  have f: "mutating s" "form_method (fs_method s) = Inr (fs_method s)" using assms(2) FormSubmission_Inr(1,2) unfolding constructed_def by blast+
  then obtain a where a: "fs_approval s = Some a" "permits now a (fs_target s) (fs_method s) None = Inr True"
    using assms(1) by (cases "fs_approval s") (auto simp: assert_authorized_def Let_def split: if_splits)
  then show ?thesis using f(2)
    by (auto simp: permits_def live_approval_def comparison_time_def split: sum.splits if_splits)
qed

text \<open>
  A request that is allowed, for a run that starts with the proposals \<^term>\<open>fp\<close> in the in-memory
  provider: one of them is kept for the reference of the run and names this reference, its approval
  covers this target and method at this time, and it has left the provider.
\<close>

definition approved_request :: "form_provider \<Rightarrow> string \<Rightarrow> string \<Rightarrow> string \<Rightarrow> auth_state \<Rightarrow> bool" where
  "approved_request fp reference target m st \<longleftrightarrow> (\<exists>k s a. opaque_reference (Some reference) ''authentication_ref'' = Inr k \<and>
     map_of fp k = Some s \<and> fs_authentication_ref s = Some reference \<and> fs_approval s = Some a \<and>
     live_approval a target m (auth_now st) \<and> map_of (au_forms st) k = None)"

definition same_approved_requests :: "form_provider \<Rightarrow> string \<Rightarrow> auth_services \<Rightarrow> auth_services \<Rightarrow> bool" where
  "same_approved_requests fp reference sv sv' \<longleftrightarrow> sv' = sv\<lparr>ap_request := ap_request sv'\<rparr> \<and>
     (\<forall>target m body cookies mode st. approved_request fp reference target m st \<longrightarrow>
        ap_request sv' target m body cookies mode st = ap_request sv target m body cookies mode st)"

lemma request_upd:
  "evaluate_session_policy (sv\<lparr>ap_request := g\<rparr>) = evaluate_session_policy sv"
  "resolve_submission (sv\<lparr>ap_request := g\<rparr>) = resolve_submission sv"
  "check_submission (sv\<lparr>ap_request := g\<rparr>) = check_submission sv"
  "form_failure (sv\<lparr>ap_request := g\<rparr>) = form_failure sv"
  "store_form (sv\<lparr>ap_request := g\<rparr>) = store_form sv"
proof -
  have sel: "ap_resolver (sv\<lparr>ap_request := g\<rparr>) = ap_resolver sv" "ap_consume (sv\<lparr>ap_request := g\<rparr>) = ap_consume sv"
    "ap_os_error (sv\<lparr>ap_request := g\<rparr>) = ap_os_error sv" "ap_unicode (sv\<lparr>ap_request := g\<rparr>) = ap_unicode sv" "ap_put (sv\<lparr>ap_request := g\<rparr>) = ap_put sv"
    by simp_all
  have e: "evaluate_in (sv\<lparr>ap_request := g\<rparr>) = evaluate_in sv" unfolding evaluate_in_def sel by (rule refl)
  have q: "form_quality (sv\<lparr>ap_request := g\<rparr>) = form_quality sv" unfolding form_quality_def sel by (rule refl)
  show "evaluate_session_policy (sv\<lparr>ap_request := g\<rparr>) = evaluate_session_policy sv" unfolding evaluate_session_policy_def e by (rule refl)
  show "resolve_submission (sv\<lparr>ap_request := g\<rparr>) = resolve_submission sv" unfolding resolve_submission_def sel by (rule refl)
  show "check_submission (sv\<lparr>ap_request := g\<rparr>) = check_submission sv"
    unfolding check_submission_def evaluate_form_action_policy_def e by (rule refl)
  show "form_failure (sv\<lparr>ap_request := g\<rparr>) = form_failure sv" unfolding form_failure_def sel by (rule refl)
  show "store_form (sv\<lparr>ap_request := g\<rparr>) = store_form sv" unfolding store_form_def sel q by (rule refl)
qed

lemma bind_form_Inr: "bind_form m f = (Inr y, s') \<longleftrightarrow> (\<exists>x s. m = (Inr x, s) \<and> f x s = (Inr y, s'))"
  by (cases m; cases "fst m") (auto simp: bind_form_def)

lemma flow_side_Inr [simp]: "flow_side m st = (Inr x, st') \<longleftrightarrow> m = Inr x \<and> st' = st"
  by (cases m) (auto simp: flow_side_def)

lemma adapter_side_Inr [simp]: "adapter_side m = (Inr x, st') \<longleftrightarrow> m = (Inr x, st')"
  by (cases m; cases "fst m") (auto simp: adapter_side_def)

lemma map_of_filter_key: "map_of (filter (\<lambda>(k, _). k \<noteq> x) kvs) x = None"
  by (induction kvs) auto

lemma check_submission_Inr:
  assumes "check_submission sv reference target s st = (Inr s', st')" "constructed s"
  shows "constructed s'" "fs_approval s' = fs_approval s" "fs_authentication_ref s = Some reference" "au_forms st' = au_forms st"
proof -
  from assms(1) obtain u st0 st1 where b: "bind_csrf s st1 = (Inr s', st')" and r: "fs_authentication_ref s = Some reference"
      and e: "evaluate_form_action_policy sv s st = (Inr u, st1)"
    by (auto simp: check_submission_def bind_form_Inr split: if_splits)
  show "fs_authentication_ref s = Some reference" by (rule r)
  have "au_forms st1 = au_forms st"
    using e by (auto simp: evaluate_form_action_policy_def bind_run_Inr evaluate_in_def record_decisions_frame
        split: if_splits sum.splits policy_exc.splits prod.splits)
  moreover have "st' = st1"
    using b by (auto simp: bind_csrf_def bind_form_Inr split: option.splits if_splits)
  ultimately show "au_forms st' = au_forms st" by simp
  from b consider "s' = s" | t where "FormSubmission (auth_now st1) (fs_target s) (fs_method s) (fs_fields s) (fs_authentication_ref s) (Some t) (fs_approval s) = Inr s'"
    by (auto simp: bind_csrf_def bind_form_Inr split: option.splits if_splits)
  then show "constructed s'" "fs_approval s' = fs_approval s"
    using assms(2) FormSubmission_Inr(3) unfolding constructed_def by (cases; blast)+
qed

text \<open>What the in-memory provider hands out is the proposal it keeps for the reference, and it keeps it no more.\<close>

lemma consume_Inr:
  assumes "consume now reference fp = (Inr s, fp')"
  obtains k where "opaque_reference (Some reference) ''authentication_ref'' = Inr k" "map_of fp k = Some s" "map_of fp' k = None"
  using assms by (auto simp: consume_def map_of_filter_key bind_res_def split: sum.splits option.splits)

lemma resolve_submission_Inr:
  assumes "ap_consume sv = (\<lambda>now r i fp. consume now r fp)" "resolve_submission sv reference st = (Inr s, st')"
  obtains k where "opaque_reference (Some reference) ''authentication_ref'' = Inr k" "map_of (au_forms st) k = Some s" "map_of (au_forms st') k = None"
proof -
  obtain fp' where "consume (auth_now st) reference (au_forms st) = (Inr s, fp')" "st' = st\<lparr>au_forms := fp'\<rparr>"
    using assms(2) by (auto simp: resolve_submission_def assms(1) split: prod.splits sum.splits flow_error.splits)
  then show thesis by (auto elim!: consume_Inr intro: that)
qed

lemma send_form_same:
  assumes "same_approved_requests fp reference sv sv'" "constructed s" "fs_approval s = fs_approval p" "fs_authentication_ref p = Some reference"
    "opaque_reference (Some reference) ''authentication_ref'' = Inr k" "map_of fp k = Some p" "map_of (au_forms st) k = None"
  shows "send_form sv' s st = send_form sv s st"
proof (cases "assert_authorized (auth_now st) s None")
  case (Inr u)
  then obtain a where "fs_approval s = Some a" "live_approval a (fs_target s) (fs_method s) (auth_now st)"
    using assert_authorized_live [OF _ assms(2)] by auto
  then have "approved_request fp reference (fs_target s) (fs_method s) st" using assms(3-7) unfolding approved_request_def by metis
  then show ?thesis
    using assms(1) Inr unfolding same_approved_requests_def by (auto simp: send_form_def bind_form_def flow_side_def payload_def Let_def)
qed (simp add: send_form_def bind_form_def flow_side_def)

lemma form_body_same:
  assumes "ap_consume sv = (\<lambda>now r i fp. consume now r fp)" "same_approved_requests (au_forms st) reference sv sv'"
    "list_all (\<lambda>(k, s). constructed s) (au_forms st)"
  shows "form_body sv' node reference st = form_body sv node reference st"
proof -
  obtain g where g: "sv' = sv\<lparr>ap_request := g\<rparr>" using assms(2) unfolding same_approved_requests_def by metis
  have s: "send_form sv' s2 st3 = send_form sv s2 st3"
    if e: "evaluate_session_policy sv node st = (Inr target, st1)" and r: "resolve_submission sv reference st1 = (Inr p, st2)"
      and c: "check_submission sv reference target p st2 = (Inr s2, st3)" for st1 st2 st3 p s2 target
  proof -
    obtain k where k: "opaque_reference (Some reference) ''authentication_ref'' = Inr k" "map_of (au_forms st) k = Some p" "map_of (au_forms st2) k = None"
      using resolve_submission_Inr [OF assms(1) r] evaluate_session_policy_Inr(4) [OF e] by metis
    then have "constructed p" using assms(3) map_of_SomeD by (fastforce simp: list_all_iff)
    note n = check_submission_Inr [OF c this]
    show ?thesis using k n(4) by (intro send_form_same [OF assms(2) n(1-3)]) simp_all
  qed
  have f: "bind_form m f = bind_form m h" if "\<And>x s. m = (Inr x, s) \<Longrightarrow> f x s = h x s" for m :: "(form_exc + 'x) \<times> auth_state" and f h :: "'x \<Rightarrow> auth_state \<Rightarrow> (form_exc + 'y) \<times> auth_state"
    using that by (cases m; cases "fst m") (auto simp: bind_form_def)
  show ?thesis
    unfolding form_body_def g request_upd by (intro f) (use s g in auto)
qed

text \<open>
  C20: with the in-memory provider, a form is sent only under a live approval, and at most once.
  Submitting a form does not depend on what the HTTP adapter does with any other request than one
  that a proposal kept in the provider at the start allows: the proposal is kept for the reference of
  the run and names it, its approval covers the exact target and method at the time of the request,
  and it has left the provider before the request is made. So no other request is ever made. (The
  proposals in the provider are constructed by \<^verbatim>\<open>FormSubmission\<close>, which excludes GET.)
\<close>

theorem form_needs_live_approval:
  assumes "ap_consume sv = (\<lambda>now r i fp. consume now r fp)" "rq_authentication_ref (xc_request (au_context st)) = Some reference"
    "list_all (\<lambda>(k, s). constructed s) (au_forms st)" "same_approved_requests (au_forms st) reference sv sv'"
  shows "submit_form sv' node st = submit_form sv node st"
proof -
  obtain g where g: "sv' = sv\<lparr>ap_request := g\<rparr>" using assms(4) unfolding same_approved_requests_def by metis
  obtain x st1 where s: "start_attempt node st = (x, st1)" by (rule prod.exhaust)
  show ?thesis
  proof (cases x)
    case (Inr attempt)
    then have r: "rq_authentication_ref (xc_request (au_context st1)) = Some reference" "au_forms st1 = au_forms st"
      using start_attempt_frame(3,4) s assms(2) by simp_all
    have fb: "form_body sv' node reference st1 = form_body sv node reference st1"
      using form_body_same [OF assms(1), of st1] assms(3,4) r(2) by simp
    have ff: "form_failure sv' = form_failure sv" "store_form sv' = store_form sv" by (simp_all add: g request_upd)
    show ?thesis unfolding submit_form_def s Inr bind_run_simps r(1) option.case fb ff by (rule refl)
  qed (simp add: submit_form_def s)
qed

subsection \<open>Proposals are used once\<close>

text \<open>
  A proposal leaves the in-memory provider when it is asked for, also when its approval is no longer
  live: a second request for the same reference finds nothing.
\<close>

lemma consumed_once:
  assumes "consume now reference fp = (r, fp')"
  shows "\<exists>e. fst (consume now' reference fp') = Inl e"
  using assms by (auto simp: consume_def map_of_filter_key split: sum.splits option.splits)

text \<open>
  An expired approval is reported as a missing dependency. When the approval of a proposal in
  the in-memory provider is not live, the run fails with the code \<^verbatim>\<open>dependency_missing\<close> and not with the
  policy block that the adapter has for a missing approval; and the proposal is used up.
\<close>

theorem expired_approval_is_dependency:
  assumes "ap_consume sv = (\<lambda>now r i fp. consume now r fp)" "evaluate_session_policy sv node st = (Inr target, st1)"
    "opaque_reference (Some reference) ''authentication_ref'' = Inr k" "map_of (au_forms st) k = Some s"
    "assert_authorized (auth_now st) s None = Inl (ApprovalRequiredError m)"
  shows "\<exists>e st2. form_body sv node reference st = (Inl e, st2) \<and>
    form_failure sv request e = (Some ''dependency_missing'', dependency_error ''form submission provider failed'') \<and> map_of (au_forms st2) k = None"
proof -
  have f: "auth_now st1 = auth_now st" "au_forms st1 = au_forms st"
    using evaluate_session_policy_Inr(3,4) [OF assms(2)] by (simp_all add: auth_now_def)
  have "resolve_submission sv reference st1 =
      (Inl (FlowExc (FormSubmissionProviderError ''form submission provider failed'')), st1\<lparr>au_forms := filter (\<lambda>(k', _). k' \<noteq> k) (au_forms st)\<rparr>)"
    using assms(3-5) by (simp add: resolve_submission_def assms(1) consume_def f)
  then show ?thesis
    by (auto simp: form_body_def assms(2) adapter_side_def bind_form_def form_failure_def map_of_filter_key)
qed

subsection \<open>Concrete flows\<close>

definition csrf_tags :: "form_tag list" where
  "csrf_tags = [StartTag ''form'' [(''action'', Some ''/login''), (''method'', Some ''post'')],
     StartTag ''input'' [(''type'', Some ''hidden''), (''name'', Some ''csrf_token''), (''value'', Some ''abc'')], EndTag ''form'']"

lemma csrf_extracts:
  "extract_csrf_token py_casefold (\<lambda>_. csrf_tags) ''page'' ''https://site.example/'' None [''csrf_token''] 1000 4 8 =
     Inr \<lparr>ct_source_url = ''https://site.example/'', ct_form_action = ''https://site.example/login'', ct_form_method = ''POST'',
       ct_field_name = ''csrf_token'', ct_token = ''abc''\<rparr>"
  by code_simp

theorem csrf_token_same_origin_witness:
  "\<exists>t. extract_csrf_token py_casefold (\<lambda>_. csrf_tags) ''page'' ''https://site.example/'' None [''csrf_token''] 1000 4 8 = Inr t \<and>
     canonical_origin False (ct_source_url t) = canonical_origin False (ct_form_action t) \<and> length (ct_token t) \<le> 4096"
  using csrf_extracts csrf_token_same_origin [OF csrf_extracts] by blast

definition sample_approval :: form_approval where
  "sample_approval = \<lparr>fa_approval_id = ''approval-1'', fa_target = ''https://site.example/login'', fa_method = ''POST'',
     fa_granted_at = (0, True), fa_expires_at = (300, True), fa_actor = ''user''\<rparr>"

definition sample_form :: form_submission where
  "sample_form = \<lparr>fs_target = ''https://site.example/login'', fs_method = ''POST'', fs_fields = [(''user'', ''me'')],
     fs_authentication_ref = Some ''ref'', fs_csrf = None, fs_approval = Some sample_approval\<rparr>"

lemma sample_form_constructed: "constructed sample_form"
proof -
  have "FormSubmission 10 ''https://site.example/login'' ''post'' [(''user'', ''me'')] (Some ''ref'') None (Some sample_approval) = Inr sample_form"
    by code_simp
  then show ?thesis unfolding constructed_def by blast
qed

definition sample_session :: origin_scoped_session where
  "sample_session = \<lparr>os_origin = ''https://site.example'', os_capability_id = LOGIN_SESSION, os_authentication_ref = ''ref'',
     os_expires_at = None, os_refresh_ref = None, os_refresh_after = None, os_issuer_origin = None, os_scopes = [], os_connector_id = None\<rparr>"

definition sample_cookie :: credential_material where
  "sample_cookie = \<lparr>cm_origin = ''https://site.example'', cm_capability_id = ''cookie_session'', cm_headers = [], cm_cookies = [(''sid'', ''1'')],
     cm_expires_at = None\<rparr>"

definition sample_auth :: auth_services where
  "sample_auth = \<lparr>ap_resolver = public_resolver, ap_casefold = py_casefold, ap_tokenize = (\<lambda>_. csrf_tags),
     ap_unicode = \<lparr>uc_space = (\<lambda>c. c = 32), uc_word = (\<lambda>c. 65 \<le> c), uc_digit = (\<lambda>c. 48 \<le> c), uc_casefold = (\<lambda>s. s)\<rparr>,
     ap_session = (\<lambda>_. Inr sample_session), ap_credential = (\<lambda>_. Inr sample_cookie), ap_refresh = None,
     ap_consume = (\<lambda>now r i fp. (Inr sample_form, fp)), ap_request = (\<lambda>_ _ _ _ _ st. (Inl (adapter_error ''offline''), st)),
     ap_read = (\<lambda>_ _. Inr ''page''), ap_put = (\<lambda>_. Inr (''cas://sha256/00'', ''00'', 1)), ap_os_error = (\<lambda>_. False)\<rparr>"

definition auth_start :: auth_state where
  "auth_start = \<lparr>au_context = ExecutionContext 1 ((default_request ''https://site.example/'')\<lparr>rq_authentication_ref := Some ''ref''\<rparr>),
     au_env = \<lparr>en_clock = 5, en_next_id = 10\<rparr>, au_policy = fresh_policy, au_forms = [(''ref'', sample_form)], au_material = None, au_session = None,
     au_session_capability = None, au_csrf = None, au_csrf_source = None\<rparr>"

definition memory_auth :: auth_services where
  "memory_auth = sample_auth\<lparr>ap_consume := \<lambda>now r i fp. consume now r fp\<rparr>"

text \<open>A transport that fails in one way for the approved request and in another for all the others.\<close>

definition login_transport :: "string \<Rightarrow> string \<Rightarrow> string \<Rightarrow> bool \<Rightarrow> string \<Rightarrow> auth_state \<Rightarrow> (py_exc + form_response) \<times> auth_state" where
  "login_transport target m body cookies mode st =
     (if https_url target = Inr ''https://site.example/login'' \<and> m = ''POST'' \<and> map_of (au_forms st) ''ref'' = None
      then (Inl (adapter_error ''offline''), st) else (Inl (adapter_error ''sent''), st))"

theorem form_needs_live_approval_witness:
  "submit_form (memory_auth\<lparr>ap_request := login_transport\<rparr>) (PlanNode ''form'' ''form_submit'' ''auth'' []) auth_start =
     submit_form (memory_auth\<lparr>ap_request := \<lambda>_ _ _ _ _ st. (Inl (adapter_error ''offline''), st)\<rparr>) (PlanNode ''form'' ''form_submit'' ''auth'' []) auth_start \<and>
   fst (submit_form (memory_auth\<lparr>ap_request := login_transport\<rparr>) (PlanNode ''form'' ''form_submit'' ''auth'' []) auth_start) =
     Inl (adapter_error ''offline'')"
proof (rule conjI [OF form_needs_live_approval [symmetric, where reference = "''ref''"]])
  show "ap_consume (memory_auth\<lparr>ap_request := login_transport\<rparr>) = (\<lambda>now r i fp. consume now r fp)" by (simp add: memory_auth_def)
  show "rq_authentication_ref (xc_request (au_context auth_start)) = Some ''ref''" by (simp add: auth_start_def ExecutionContext_def)
  show "list_all (\<lambda>(k, s). constructed s) (au_forms auth_start)" using sample_form_constructed by (simp add: auth_start_def)
  have r: "opaque_reference (Some ''ref'') ''authentication_ref'' = Inr ''ref''" by code_simp
  show "same_approved_requests (au_forms auth_start) ''ref'' (memory_auth\<lparr>ap_request := login_transport\<rparr>)
      (memory_auth\<lparr>ap_request := \<lambda>_ _ _ _ _ st. (Inl (adapter_error ''offline''), st)\<rparr>)"
    by (auto simp: same_approved_requests_def approved_request_def login_transport_def live_approval_def sample_form_def sample_approval_def auth_start_def r)
  show "fst (submit_form (memory_auth\<lparr>ap_request := login_transport\<rparr>) (PlanNode ''form'' ''form_submit'' ''auth'' []) auth_start) =
     Inl (adapter_error ''offline'')"
    by code_simp
qed

lemma sample_session_validates:
  "fst (validate_session sample_auth (PlanNode ''login'' ''login_session'' ''auth'' []) auth_start) = Inr ()"
  by code_simp

theorem session_credentials_bound_witness:
  "\<exists>st'. validate_session sample_auth (PlanNode ''login'' ''login_session'' ''auth'' []) auth_start = (Inr (), st') \<and>
     (\<exists>s m. au_session st' = Some s \<and> au_material st' = Some m \<and> cm_origin m = os_origin s)"
proof -
  obtain st' where "validate_session sample_auth (PlanNode ''login'' ''login_session'' ''auth'' []) auth_start = (Inr (), st')"
    using sample_session_validates by (metis prod.collapse)
  then show ?thesis using session_credentials_bound by blast
qed

theorem expired_approval_is_dependency_witness:
  "\<exists>e st2. form_body memory_auth (PlanNode ''form'' ''form_submit'' ''auth'' []) ''ref''
       (auth_start\<lparr>au_env := \<lparr>en_clock = 400, en_next_id = 10\<rparr>\<rparr>) = (Inl e, st2) \<and>
     form_failure memory_auth (default_request ''https://site.example/'') e =
       (Some ''dependency_missing'', dependency_error ''form submission provider failed'')"
proof -
  let ?sv = memory_auth
  let ?st = "auth_start\<lparr>au_env := \<lparr>en_clock = 400, en_next_id = 10\<rparr>\<rparr>"
  let ?node = "PlanNode ''form'' ''form_submit'' ''auth'' []"
  have "fst (evaluate_session_policy ?sv ?node ?st) = Inr ''https://site.example/''" by code_simp
  then obtain st1 where e: "evaluate_session_policy ?sv ?node ?st = (Inr ''https://site.example/'', st1)" by (metis prod.collapse)
  have r: "opaque_reference (Some ''ref'') ''authentication_ref'' = Inr ''ref''" by code_simp
  have f: "map_of (au_forms ?st) ''ref'' = Some sample_form" by (simp add: auth_start_def)
  have u: "https_url ''https://site.example/login'' = Inr ''https://site.example/login''" "form_method ''POST'' = Inr ''POST''" by code_simp+
  obtain m where m: "assert_authorized (auth_now ?st) sample_form None = Inl (ApprovalRequiredError m)"
    by (simp add: assert_authorized_def permits_def comparison_time_def sample_form_def sample_approval_def mutating_def MUTATING_METHODS_def auth_now_def u)
  have c: "ap_consume ?sv = (\<lambda>now r i fp. consume now r fp)" by (simp add: memory_auth_def)
  show ?thesis using expired_approval_is_dependency [OF c e r f m] by blast
qed

end
