(* ===== verification/Wayback.thy ===== *)
theory Wayback
  imports Cache Auth
begin

section \<open>The Wayback connector: wayback.py\<close>

text \<open>
  The snapshot connector for the Internet Archive and its HTTP client, on the connection pins of
  \<^verbatim>\<open>transport.py\<close>. Parameters are the streamed HTTP exchange, the wait for a slot of the scheduler,
  the clock, the resolver, zlib, the JSON parser and the Unicode tables. An exchange yields the
  status, the headers and the chunks of the body, which may end with an error; a deadline that passes
  during an operation is the \<^verbatim>\<open>TimeoutError\<close> that \<^verbatim>\<open>asyncio.timeout\<close> makes of it.
\<close>

subsection \<open>Pinned connections: transport.py\<close>

record network_backend =
  nb_pins :: "(string \<times> string list) list"
  nb_cursor :: "(string \<times> nat) list"

definition pin :: "string \<Rightarrow> string list \<Rightarrow> network_backend \<Rightarrow> network_backend res" where
  "pin host addresses b =
     bind_res (raise_if (addresses = []) (ValueError ''at least one validated address is required'')) (\<lambda>_.
       Inr (b\<lparr>nb_pins := assoc_set (normal_host host) addresses (nb_pins b)\<rparr>))"

text \<open>The address a connection goes to, round robin over the pins of the host.\<close>

definition connect_address :: "string \<Rightarrow> network_backend \<Rightarrow> (string + string) \<times> network_backend" where
  "connect_address host b =
     (let key = normal_host host in
      case map_of (nb_pins b) key of
        None \<Rightarrow> (Inl (''destination '' @ host @ '' has no validated DNS pin''), b)
      | Some [] \<Rightarrow> (Inl (''destination '' @ host @ '' has no validated DNS pin''), b)
      | Some addresses \<Rightarrow>
          let cursor = (case map_of (nb_cursor b) key of Some n \<Rightarrow> n | None \<Rightarrow> 0) in
          (Inr (addresses ! (cursor mod length addresses)), b\<lparr>nb_cursor := assoc_set key (cursor + 1) (nb_cursor b)\<rparr>))"

subsection \<open>Constants\<close>

definition AVAILABILITY_ENDPOINT :: string where "AVAILABILITY_ENDPOINT = ''https://archive.org/wayback/available''"
definition AVAILABILITY_HOST :: string where "AVAILABILITY_HOST = ''archive.org''"
definition SNAPSHOT_HOST :: string where "SNAPSHOT_HOST = ''web.archive.org''"
definition MAX_AVAILABILITY_BYTES :: int where "MAX_AVAILABILITY_BYTES = 256000"
definition MAX_WAYBACK_REDIRECTS :: int where "MAX_WAYBACK_REDIRECTS = 4"
definition MAX_HEADER_BYTES :: nat where "MAX_HEADER_BYTES = 65536"
definition MAX_HEADERS :: nat where "MAX_HEADERS = 128"
definition MAX_ORIGINAL_URL_BYTES :: nat where "MAX_ORIGINAL_URL_BYTES = 8192"
definition MAX_REQUEST_URL_BYTES :: nat where "MAX_REQUEST_URL_BYTES = 32768"

definition SENSITIVE_QUERY_MARKERS :: "string list" where
  "SENSITIVE_QUERY_MARKERS = [''accesskey'', ''credential'', ''jwt'', ''password'', ''passwd'', ''secret'', ''session'', ''signature'', ''token'']"

definition media_type_value :: "string \<Rightarrow> bool" where
  "media_type_value s =
     (case py_split (CHR ''/'') s of
        [a, b] \<Rightarrow> header_name a \<and> header_name b \<and> list_all (\<lambda>c. \<not> is_upper c) s
      | _ \<Rightarrow> False)"

subsection \<open>Exchanges\<close>

datatype http_failure =
    HttpTimeout py_exc \<comment> \<open>httpx.TimeoutException\<close>
  | HttpFailed py_exc \<comment> \<open>another httpx.HTTPError\<close>
  | HttpRaised py_exc

record raw_response =
  rw_status_code :: int
  rw_url :: string
  rw_headers :: "(string \<times> string) list"
  rw_chunks :: "string list"
  rw_end :: "http_failure option"

record wayback_response =
  wr_status_code :: int
  wr_url :: string
  wr_headers :: "(string \<times> string) list"
  wr_body :: string

text \<open>What a decompressor holds after a call: its output (\<^term>\<open>None\<close> for \<^verbatim>\<open>zlib.error\<close>) and attributes.\<close>

record zlib_state =
  zs_output :: "string option"
  zs_eof :: bool
  zs_unused_data :: string
  zs_unconsumed_tail :: string

record civil_time =
  ci_year :: nat
  ci_month :: nat
  ci_day :: nat
  ci_hour :: nat
  ci_minute :: nat
  ci_second :: nat

text \<open>
  Calls of the decompressor are listed from the latest. \<open>wy_int\<close> and \<open>wy_strptime\<close> are what \<^verbatim>\<open>int\<close> and
  \<^verbatim>\<open>strptime\<close> make of texts with digits outside ASCII, \<open>wy_year\<close> is the text of a year below 1000,
  which depends on the C library.
\<close>

record wayback_services =
  wy_resolver :: resolver
  wy_unicode :: unicode
  wy_user_agent :: string
  wy_maximum_redirects :: int
  wy_slot :: "string \<Rightarrow> rat \<Rightarrow> env \<Rightarrow> (py_exc + unit) \<times> env"
  wy_resolving :: "string \<Rightarrow> env \<Rightarrow> env"
  wy_stream :: "string \<Rightarrow> string \<Rightarrow> string list \<Rightarrow> rat \<Rightarrow> env \<Rightarrow> (http_failure + raw_response) \<times> env"
  wy_zlib :: "(string \<times> int) list \<Rightarrow> zlib_state"
  wy_json :: "string \<Rightarrow> py_exc + pyval"
  wy_int :: "string \<Rightarrow> int option"
  wy_strptime :: "string \<Rightarrow> civil_time option"
  wy_year :: "nat \<Rightarrow> string"

record wayback_run =
  wb_policy :: safe_url_policy
  wb_usage :: connector_usage
  wb_env :: env

definition deadline_exc :: "string \<Rightarrow> py_exc" where
  "deadline_exc message = (simple_exc ExcTimeout ''NetworkDeadlineExceededError'' message)
     \<lparr>ex_links := [\<lparr>lk_is_timeout = True, lk_is_connection = False, lk_status_code = None, lk_type_name = ''NetworkDeadlineExceededError''\<rparr>]\<rparr>"

definition bind_http :: "('e + 'a) \<times> 's \<Rightarrow> ('a \<Rightarrow> 's \<Rightarrow> ('e + 'b) \<times> 's) \<Rightarrow> ('e + 'b) \<times> 's" where
  "bind_http m f = (case m of (Inl e, s) \<Rightarrow> (Inl e, s) | (Inr x, s) \<Rightarrow> f x s)"

definition raising :: "py_exc + 'a \<Rightarrow> http_failure + 'a" where
  "raising m = (case m of Inl e \<Rightarrow> Inl (HttpRaised e) | Inr x \<Rightarrow> Inr x)"

text \<open>The handlers around an exchange.\<close>

fun http_exc :: "http_failure \<Rightarrow> py_exc" where
  "http_exc (HttpTimeout e) = caused_by (deadline_exc ''Wayback request exceeded its deadline'') e"
| "http_exc (HttpFailed e) = caused_by (adapter_error ''Wayback transport failed'') e"
| "http_exc (HttpRaised e) = e"

text \<open>\<^verbatim>\<open>async with asyncio.timeout\<close>: a timeout other than the scheduler's is replaced.\<close>

definition within_deadline :: "string \<Rightarrow> (py_exc + 'a) \<times> 's \<Rightarrow> (py_exc + 'a) \<times> 's" where
  "within_deadline message m =
     (case m of
        (Inl e, s) \<Rightarrow>
          (Inl (if ex_class e = ExcTimeout \<and> ex_type_name e \<noteq> ''NetworkDeadlineExceededError'' then deadline_exc message else e), s)
      | (Inr x, s) \<Rightarrow> (Inr x, s))"

subsection \<open>Bodies\<close>

definition use_budget :: "int \<Rightarrow> int \<Rightarrow> int \<Rightarrow> wayback_run \<Rightarrow> (http_failure + unit) \<times> wayback_run" where
  "use_budget wire decompressed redirects st =
     (case record_usage wire decompressed redirects (wb_usage st) of
        Inl e \<Rightarrow> (Inl (HttpRaised (value_exc e)), st)
      | Inr u \<Rightarrow> (Inr (), st\<lparr>wb_usage := u\<rparr>))"

definition end_of_body :: "http_failure option \<Rightarrow> 'a \<Rightarrow> wayback_run \<Rightarrow> (http_failure + 'a) \<times> wayback_run" where
  "end_of_body e x st = (case e of None \<Rightarrow> (Inr x, st) | Some f \<Rightarrow> (Inl f, st))"

fun read_identity ::
  "int \<Rightarrow> http_failure option \<Rightarrow> int \<Rightarrow> string \<Rightarrow> string list \<Rightarrow> wayback_run \<Rightarrow> (http_failure + string) \<times> wayback_run" where
  "read_identity maximum ended consumed body [] st = end_of_body ended body st"
| "read_identity maximum ended consumed body (chunk # chunks) st =
     bind_http (use_budget (int (length chunk)) (int (length chunk)) 0 st) (\<lambda>_ st1.
     if maximum < consumed + int (length chunk)
     then (Inl (HttpRaised (budget_exceeded ''Wayback response exceeds the byte budget'')), st1)
     else read_identity maximum ended (consumed + int (length chunk)) (body @ chunk) chunks st1)"

text \<open>One chunk of a gzip member; the state of the reader is the wire size, the calls and the output.\<close>

definition gzip_chunk ::
  "wayback_services \<Rightarrow> int \<Rightarrow> string \<Rightarrow> int \<times> (string \<times> int) list \<times> string \<Rightarrow> wayback_run
     \<Rightarrow> (http_failure + int \<times> (string \<times> int) list \<times> string) \<times> wayback_run" where
  "gzip_chunk sv maximum chunk r st =
     (case r of (wire, calls, body) \<Rightarrow>
      let wire' = wire + int (length chunk); allowance = maximum - int (length body) + 1; calls' = (chunk, allowance) # calls;
          z = wy_zlib sv calls' in
      bind_http (use_budget (int (length chunk)) 0 0 st) (\<lambda>_ st1.
      if maximum < wire' then (Inl (HttpRaised (budget_exceeded ''Wayback response exceeds the wire byte budget'')), st1)
      else if calls \<noteq> [] \<and> zs_eof (wy_zlib sv calls)
      then (Inl (HttpRaised (adapter_error ''Wayback gzip response contains trailing data'')), st1)
      else (case zs_output z of
          None \<Rightarrow>
            bind_http (use_budget 0 allowance 0 st1) (\<lambda>_ st2.
              (Inl (HttpRaised (adapter_error ''Wayback gzip response is malformed'')), st2))
        | Some decoded \<Rightarrow>
            bind_http (use_budget 0 (int (length decoded)) 0 st1) (\<lambda>_ st2.
            if maximum < int (length body) + int (length decoded)
            then (Inl (HttpRaised (budget_exceeded ''Wayback response exceeds the decompressed byte budget'')), st2)
            else if zs_unused_data z \<noteq> []
            then (Inl (HttpRaised (adapter_error ''Wayback gzip response contains trailing data'')), st2)
            else if zs_unconsumed_tail z \<noteq> []
            then (Inl (HttpRaised (budget_exceeded ''Wayback response exceeds the decompressed byte budget'')), st2)
            else (Inr (wire', calls', body @ decoded), st2)))))"

fun read_gzip ::
  "wayback_services \<Rightarrow> int \<Rightarrow> http_failure option \<Rightarrow> int \<times> (string \<times> int) list \<times> string \<Rightarrow> string list \<Rightarrow> wayback_run
     \<Rightarrow> (http_failure + string) \<times> wayback_run" where
  "read_gzip sv maximum ended r [] st =
     bind_http (end_of_body ended r st) (\<lambda>(wire, calls, body) st1.
     if calls \<noteq> [] \<and> zs_eof (wy_zlib sv calls) then (Inr body, st1)
     else (Inl (HttpRaised (adapter_error ''Wayback gzip response is truncated'')), st1))"
| "read_gzip sv maximum ended r (chunk # chunks) st =
     (if chunk = [] then read_gzip sv maximum ended r chunks st
      else bind_http (gzip_chunk sv maximum chunk r st) (\<lambda>r1 st1. read_gzip sv maximum ended r1 chunks st1))"

definition read_body ::
  "wayback_services \<Rightarrow> raw_response \<Rightarrow> int \<Rightarrow> bool \<Rightarrow> wayback_run \<Rightarrow> (http_failure + string) \<times> wayback_run" where
  "read_body sv response maximum gzip st =
     (if gzip then read_gzip sv maximum (rw_end response) (0, [], []) (rw_chunks response) st
      else read_identity maximum (rw_end response) 0 [] (rw_chunks response) st)"

subsection \<open>Headers\<close>

fun merge_headers :: "nat \<Rightarrow> (string \<times> string) list \<Rightarrow> (string \<times> string) list \<Rightarrow> py_exc + (string \<times> string) list" where
  "merge_headers consumed seen [] = Inr seen"
| "merge_headers consumed seen ((key, v) # items) =
     (let consumed' = consumed + length key + length v in
      if MAX_HEADER_BYTES < consumed' \<or> \<not> header_name key \<or>
         list_ex (\<lambda>c. (ord_char c < 32 \<and> ord_char c \<noteq> 9) \<or> ord_char c = 127) v
      then Inl (adapter_error ''Wayback response headers are invalid'')
      else let normalized = py_casefold key in
        merge_headers consumed'
          (assoc_set normalized (case map_of seen normalized of Some old \<Rightarrow> old @ '', '' @ v | None \<Rightarrow> v) seen) items)"

definition bounded_headers :: "(string \<times> string) list \<Rightarrow> py_exc + (string \<times> string) list" where
  "bounded_headers items =
     (if MAX_HEADERS < length items then Inl (adapter_error ''Wayback response has too many headers'')
      else merge_headers 0 [] items)"

definition folded :: "wayback_services \<Rightarrow> string \<Rightarrow> code_points" where
  "folded sv s = uc_casefold (wy_unicode sv) (map utf8_code (utf8_chars (py_strip s)))"

text \<open>\<^verbatim>\<open>int(text)\<close>: white space around it, a sign, and digits with single underscores between them.\<close>

definition plain_int :: "string \<Rightarrow> nat option" where
  "plain_int s =
     (let parts = py_split (CHR ''_'') s in
      if list_all (\<lambda>p. p \<noteq> [] \<and> list_all is_digit p) parts \<and> length (concat parts) \<le> 4300 then Some (digits_value (concat parts)) else None)"

definition int_of_text :: "wayback_services \<Rightarrow> string \<Rightarrow> int option" where
  "int_of_text sv s =
     (if list_ex (\<lambda>c. 128 \<le> ord_char c) s then wy_int sv s
      else case py_strip s of
          [] \<Rightarrow> None
        | c # cs \<Rightarrow>
            if c = CHR ''-'' then map_option (\<lambda>n. - int n) (plain_int cs)
            else if c = CHR ''+'' then map_option int (plain_int cs)
            else map_option int (plain_int (c # cs)))"

subsection \<open>Capture locators\<close>

definition replacing :: "py_exc \<Rightarrow> 'a res \<Rightarrow> py_exc + 'a" where
  "replacing e m =
     (case m of
        Inl (ValueError message) \<Rightarrow> Inl (caused_by e (value_exc (ValueError message)))
      | Inl other \<Rightarrow> Inl (value_exc other)
      | Inr x \<Rightarrow> Inr x)"

definition decimal :: "wayback_services \<Rightarrow> string \<Rightarrow> bool" where
  "decimal sv c = (case c of [x] \<Rightarrow> is_digit x | _ \<Rightarrow> uc_digit (wy_unicode sv) (utf8_code c))"

text \<open>
  The regular expression of a capture path, case-insensitive: next to the letters of ASCII, \<^verbatim>\<open>[a-z]\<close>
  then matches the code points 304, 305, 383 and 8490, and the literal s matches 383.
\<close>

definition literal_matches :: "string \<Rightarrow> string list \<Rightarrow> bool" where
  "literal_matches pattern cs \<longleftrightarrow>
     list_all2 (\<lambda>p c. map lower_char c = [p] \<or> p = CHR ''s'' \<and> utf8_code c = 383) pattern (take (length pattern) cs)"

definition modifier_char :: "string \<Rightarrow> bool" where
  "modifier_char c = (case c of [x] \<Rightarrow> is_alpha x \<or> x = CHR ''_'' | _ \<Rightarrow> utf8_code c \<in> {304, 305, 383, 8490})"

definition original_matches :: "string list \<Rightarrow> bool" where
  "original_matches cs \<longleftrightarrow>
     (literal_matches ''https://'' cs \<and> 8 < length cs \<or> literal_matches ''http://'' cs \<and> 7 < length cs) \<and> [CHR 0x0A] \<notin> set cs"

definition match_capture :: "wayback_services \<Rightarrow> string \<Rightarrow> (string \<times> string option \<times> string) option" where
  "match_capture sv s =
     (let cs = utf8_chars s; stamp = take 14 (drop 5 cs); rest = drop 19 cs;
          modifier = takeWhile modifier_char rest; after = dropWhile modifier_char rest in
      if literal_matches ''/web/'' cs \<and> length stamp = 14 \<and> list_all (decimal sv) stamp \<and>
         after \<noteq> [] \<and> hd after = ''/'' \<and> original_matches (tl after)
      then Some (concat stamp, if modifier = [] then None else Some (concat modifier), concat (tl after)) else None)"

definition capture_text :: "split_result \<Rightarrow> string" where
  "capture_text p = sr_path p @ (if sr_query p = [] then [] else CHR ''?'' # sr_query p)"

definition exact_origin_parts :: "string \<Rightarrow> (split_result \<times> string \<times> nat option) res" where
  "exact_origin_parts url =
     bind_res (urlsplit url) (\<lambda>p. bind_res (sr_port p) (\<lambda>port. Inr (p, normal_host (sr_hostname p), port)))"

definition has_userinfo :: "split_result \<Rightarrow> bool" where
  "has_userinfo p \<longleftrightarrow> CHR ''@'' \<in> set (sr_netloc p)"

definition validate_capture_url :: "wayback_services \<Rightarrow> string \<Rightarrow> string \<Rightarrow> string \<Rightarrow> bool \<Rightarrow> py_exc + unit" where
  "validate_capture_url sv url original timestamp allow_http =
     bind_res (replacing (adapter_error ''Wayback capture locator is not an exact archive origin'') (exact_origin_parts url)) (\<lambda>(p, host, port).
     let scheme = py_casefold (sr_scheme p) in
     bind_res (raise_if (scheme \<notin> (if allow_http then {''http'', ''https''} else {''https''}) \<or> host \<noteq> SNAPSHOT_HOST \<or> has_userinfo p \<or>
         sr_fragment p \<noteq> [] \<or> port \<notin> {None, Some (if scheme = ''https'' then 443 else 80)})
       (adapter_error ''Wayback capture locator is not an exact archive origin'')) (\<lambda>_.
     case match_capture sv (capture_text p) of
       None \<Rightarrow> Inl (adapter_error ''Wayback capture locator is malformed'')
     | Some (stamp, modifier, embedded_url) \<Rightarrow>
         bind_res (raise_if (stamp \<noteq> timestamp) (adapter_error ''Wayback capture locator is malformed'')) (\<lambda>_.
         bind_res (raise_if (\<not> allow_http \<and> modifier \<noteq> Some ''id_'')
           (adapter_error ''Wayback final capture locator is not in raw snapshot mode'')) (\<lambda>_.
         bind_res (replacing (adapter_error ''Wayback capture locator omitted the original source'') (normalize_url embedded_url)) (\<lambda>embedded.
           raise_if (embedded \<noteq> original) (adapter_error ''Wayback capture locator changed the original source authority''))))))"

definition canonical_capture_url :: "wayback_services \<Rightarrow> string \<Rightarrow> string \<Rightarrow> py_exc + string" where
  "canonical_capture_url sv locator timestamp =
     bind_res (lift_exc (urlsplit locator)) (\<lambda>p.
     case match_capture sv (capture_text p) of
       None \<Rightarrow> Inl (adapter_error ''Wayback capture locator is malformed'')
     | Some (_, _, original) \<Rightarrow> Inr (''https://'' @ SNAPSHOT_HOST @ ''/web/'' @ timestamp @ ''id_/'' @ original))"

definition require_exact_https_host :: "string \<Rightarrow> string \<Rightarrow> py_exc + unit" where
  "require_exact_https_host url expected_host =
     (let blocked = policy_exc_of ''Wayback requests require an exact HTTPS archive origin'' [] in
      bind_res (replacing blocked (exact_origin_parts url)) (\<lambda>(p, host, port).
        raise_if (MAX_REQUEST_URL_BYTES < length url \<or> py_casefold (sr_scheme p) \<noteq> ''https'' \<or> host \<noteq> expected_host \<or> has_userinfo p \<or>
          port \<notin> {None, Some 443} \<or> sr_fragment p \<noteq> []) blocked))"

definition normalize_request_url :: "string \<Rightarrow> py_exc + string" where
  "normalize_request_url url = replacing (policy_exc_of ''Wayback requests require a valid HTTPS archive URL'' []) (normalize_url url)"

definition has_sensitive_query_key :: "wayback_services \<Rightarrow> string \<Rightarrow> bool res" where
  "has_sensitive_query_key sv url =
     bind_res (urlsplit url) (\<lambda>p.
       Inr (list_ex (\<lambda>(key, _).
              let compact = filter (\<lambda>n. 97 \<le> n \<and> n \<le> 122 \<or> 48 \<le> n \<and> n \<le> 57)
                    (uc_casefold (wy_unicode sv) (map utf8_code (utf8_chars key))) in
              list_ex (\<lambda>marker. py_contains marker (map char_of compact)) SENSITIVE_QUERY_MARKERS)
            (parse_qsl True (sr_query p))))"

subsection \<open>Times\<close>

definition leap_year :: "nat \<Rightarrow> bool" where
  "leap_year y \<longleftrightarrow> y mod 4 = 0 \<and> (y mod 100 \<noteq> 0 \<or> y mod 400 = 0)"

definition month_days :: "nat \<Rightarrow> nat list" where
  "month_days y = [31, if leap_year y then 29 else 28, 31, 30, 31, 30, 31, 31, 30, 31, 30, 31]"

definition valid_civil :: "civil_time \<Rightarrow> bool" where
  "valid_civil t \<longleftrightarrow> 1 \<le> ci_year t \<and> 1 \<le> ci_month t \<and> ci_month t \<le> 12 \<and> 1 \<le> ci_day t \<and>
     ci_day t \<le> month_days (ci_year t) ! (ci_month t - 1) \<and> ci_hour t \<le> 23 \<and> ci_minute t \<le> 59 \<and> ci_second t \<le> 59"

text \<open>\<^verbatim>\<open>strptime\<close> with \<^verbatim>\<open>%Y%m%d%H%M%S\<close> on 14 digits, and \<^verbatim>\<open>strftime\<close>; \<^term>\<open>None\<close> is the \<^verbatim>\<open>ValueError\<close>.\<close>

definition strptime :: "wayback_services \<Rightarrow> string \<Rightarrow> civil_time option" where
  "strptime sv s =
     (if list_ex (\<lambda>c. 128 \<le> ord_char c) s then wy_strptime sv s
      else let part = (\<lambda>i n. digits_value (take n (drop i s)));
               t = \<lparr>ci_year = part 0 4, ci_month = part 4 2, ci_day = part 6 2, ci_hour = part 8 2, ci_minute = part 10 2, ci_second = part 12 2\<rparr> in
        if valid_civil t then Some t else None)"

definition two_digits :: "nat \<Rightarrow> string" where
  "two_digits n = [digit_char (n div 10), digit_char (n mod 10)]"

definition strftime :: "wayback_services \<Rightarrow> civil_time \<Rightarrow> string" where
  "strftime sv t = (if 1000 \<le> ci_year t then nat_to_str (ci_year t) else wy_year sv (ci_year t)) @
     concat (map two_digits [ci_month t, ci_day t, ci_hour t, ci_minute t, ci_second t])"

text \<open>Seconds from the start of 1970.\<close>

definition civil_moment :: "civil_time \<Rightarrow> moment" where
  "civil_moment t =
     (let y = int (ci_year t) - 1;
          days = 365 * y + y div 4 - y div 100 + y div 400 + int (sum_list (take (ci_month t - 1) (month_days (ci_year t)))) + int (ci_day t) - 719163 in
      utc (of_int (days * 86400 + int (ci_hour t * 3600 + ci_minute t * 60 + ci_second t))))"

subsection \<open>The availability document\<close>

fun strict_document :: "pyval \<Rightarrow> bool" where
  "strict_document (VDict kvs) \<longleftrightarrow> distinct (map fst kvs) \<and> list_all (\<lambda>(_, v). strict_document v) kvs"
| "strict_document (VList vs) \<longleftrightarrow> list_all strict_document vs"
| "strict_document _ \<longleftrightarrow> True"

text \<open>The JSON parser with the hooks of the connector; the parser itself refuses non-finite numbers.\<close>

definition load_availability :: "wayback_services \<Rightarrow> string \<Rightarrow> py_exc + pyval" where
  "load_availability sv body =
     (case wy_json sv body of
        Inl e \<Rightarrow> if ex_class e = ExcValue then Inl (caused_by (adapter_error ''Wayback availability response is malformed'') e) else Inl e
      | Inr v \<Rightarrow>
          if strict_document v then Inr v
          else Inl (caused_by (adapter_error ''Wayback availability response is malformed'')
                 (value_exc (ValueError ''duplicate JSON keys are forbidden''))))"

definition closest_capture :: "wayback_services \<Rightarrow> document \<Rightarrow> py_exc + string \<times> string" where
  "closest_capture sv closest =
     (case (py_get closest ''timestamp'' VNone, py_get closest ''url'' VNone) of
        (VStr timestamp, VStr locator) \<Rightarrow>
          if py_get closest ''available'' VNone \<noteq> VBool True \<or>
             py_get closest ''status'' VNone \<notin> {VInt 200, VFloat 200, VStr ''200''} \<or>
             length (utf8_chars timestamp) \<noteq> 14 \<or> \<not> list_all (decimal sv) (utf8_chars timestamp) \<or>
             locator = [] \<or> MAX_ORIGINAL_URL_BYTES < length locator
          then Inl (simple_exc ExcNotFound ''AdapterNotFoundError'' ''no usable Wayback snapshot is available'')
          else Inr (timestamp, locator)
      | _ \<Rightarrow> Inl (simple_exc ExcNotFound ''AdapterNotFoundError'' ''no usable Wayback snapshot is available''))"

definition parse_availability :: "wayback_services \<Rightarrow> string \<Rightarrow> string \<Rightarrow> py_exc + string \<times> civil_time" where
  "parse_availability sv body original =
     (if body = [] \<or> MAX_AVAILABILITY_BYTES < int (length body) then Inl (adapter_error ''Wayback availability response is invalid'')
      else bind_res (load_availability sv body) (\<lambda>document.
        case document of
          VDict d \<Rightarrow>
            (case py_get d ''archived_snapshots'' VNone of
               VDict archived \<Rightarrow>
                 (case py_get archived ''closest'' VNone of
                    VNone \<Rightarrow> Inl (simple_exc ExcNotFound ''AdapterNotFoundError'' ''no Wayback snapshot is available'')
                  | VDict closest \<Rightarrow>
                      bind_res (closest_capture sv closest) (\<lambda>(timestamp, locator).
                      bind_res (validate_capture_url sv locator original timestamp True) (\<lambda>_.
                      case strptime sv timestamp of
                        None \<Rightarrow> Inl (caused_by (adapter_error ''Wayback capture timestamp is invalid'') (value_exc (ValueError ''time data'')))
                      | Some captured_at \<Rightarrow>
                          bind_res (canonical_capture_url sv locator timestamp) (\<lambda>url. Inr (url, captured_at))))
                  | _ \<Rightarrow> Inl (adapter_error ''Wayback closest snapshot is invalid''))
             | _ \<Rightarrow> Inl (adapter_error ''Wayback availability response omitted snapshots''))
        | _ \<Rightarrow> Inl (adapter_error ''Wayback availability response must be an object'')))"

definition wayback_media_type :: "wayback_services \<Rightarrow> (string \<times> string) list \<Rightarrow> py_exc + string" where
  "wayback_media_type sv headers =
     (let v = (case map_of headers ''content-type'' of Some x \<Rightarrow> x | None \<Rightarrow> ''application/octet-stream'');
          points = folded sv (takeWhile (\<lambda>c. c \<noteq> CHR '';'') v) in
      if points = [] \<or> 255 < length points \<or> list_ex (\<lambda>n. 128 \<le> n \<or> n = 42) points \<or> \<not> media_type_value (map char_of points)
      then Inl (adapter_error ''Wayback snapshot media type is invalid'') else Inr (map char_of points))"

definition optional_validator :: "string option \<Rightarrow> string option" where
  "optional_validator v =
     (case v of
        None \<Rightarrow> None
      | Some s \<Rightarrow>
          let candidate = py_strip s in
          if candidate = [] \<or> 1024 < length candidate \<or> list_ex (\<lambda>c. ord_char c < 32 \<and> ord_char c \<noteq> 9) candidate then None
          else Some candidate)"

subsection \<open>The client\<close>

definition valid_user_agent :: "string \<Rightarrow> bool" where
  "valid_user_agent s \<longleftrightarrow> s \<noteq> [] \<and> s = py_strip s \<and> length s \<le> 512 \<and> list_all (\<lambda>c. 32 \<le> ord_char c \<and> ord_char c \<le> 126) s"

definition PinnedWaybackHTTPClient :: "wayback_services \<Rightarrow> wayback_services res" where
  "PinnedWaybackHTTPClient sv =
     bind_res (raise_if (\<not> valid_user_agent (wy_user_agent sv)) (ValueError ''Wayback user agent is invalid'')) (\<lambda>_.
     bind_res (raise_if (wy_maximum_redirects sv < 0) (ValueError ''Wayback redirect bound cannot be negative'')) (\<lambda>_. Inr sv))"

definition validate_request_budget :: "int \<Rightarrow> rat \<Rightarrow> py_exc + unit" where
  "validate_request_budget maximum_bytes deadline =
     raise_if (maximum_bytes \<le> 0 \<or> deadline \<le> 0) (budget_exceeded ''Wayback request has no remaining budget'')"

definition validate_redirect_budget :: "int \<Rightarrow> py_exc + unit" where
  "validate_redirect_budget maximum_redirects =
     raise_if (maximum_redirects < 0) (budget_exceeded ''Wayback request has an invalid redirect budget'')"

datatype hop = Redirected string string | Answered wayback_response

definition remaining_time :: "rat \<Rightarrow> time \<Rightarrow> wayback_run \<Rightarrow> py_exc + rat" where
  "remaining_time deadline started st =
     (let remaining = deadline - (en_clock (wb_env st) - started) in
      if remaining \<le> 0 then Inl (deadline_exc ''Wayback request exceeded its deadline'') else Inr remaining)"

text \<open>The policy decides again on every hop, and the connection is pinned to what it validated.\<close>

definition pinned_destination ::
  "wayback_services \<Rightarrow> string \<Rightarrow> string option \<Rightarrow> wayback_run \<Rightarrow> (http_failure + string \<times> string list) \<times> wayback_run" where
  "pinned_destination sv current previous st =
     (case evaluate (wy_resolver sv) (wb_policy st) current previous of
        Inl (PolicyBlocked reason decisions) \<Rightarrow> (Inl (HttpRaised (policy_exc_of reason decisions)), st)
      | Inl (PolicyRaised e) \<Rightarrow> (Inl (HttpRaised (value_exc e)), st)
      | Inr (normalized, _, sp) \<Rightarrow>
          (raising (bind_res (lift_exc (urlsplit normalized)) (\<lambda>p.
             let addresses = validated_addresses sp (normal_host (sr_hostname p)) in
             bind_res (raise_if (addresses = []) (policy_exc_of ''Wayback destination has no validated address pin'' [])) (\<lambda>_.
             bind_res (lift_exc (pin (normal_host (sr_hostname p)) addresses \<lparr>nb_pins = [], nb_cursor = []\<rparr>)) (\<lambda>_.
               Inr (normalized, addresses))))),
           st\<lparr>wb_policy := sp, wb_env := wy_resolving sv current (wb_env st)\<rparr>))"

definition follow_redirect ::
  "(string \<times> string) list \<Rightarrow> string \<Rightarrow> int \<Rightarrow> bool \<Rightarrow> wayback_run \<Rightarrow> (http_failure + hop) \<times> wayback_run" where
  "follow_redirect headers normalized maximum_redirects last_hop st =
     bind_http (use_budget 0 0 1 st) (\<lambda>_ st1.
     if maximum_redirects < us_redirects (wb_usage st1)
     then (Inl (HttpRaised (budget_exceeded ''Wayback redirect budget exhausted'')), st1)
     else case map_of headers ''location'' of
         None \<Rightarrow> (Inl (HttpRaised (adapter_error ''Wayback redirect response is invalid'')), st1)
       | Some location \<Rightarrow>
           if location = [] \<or> last_hop then (Inl (HttpRaised (adapter_error ''Wayback redirect response is invalid'')), st1)
           else (raising (bind_res (lift_exc (urljoin normalized location)) (\<lambda>url.
                  bind_res (normalize_request_url url) (\<lambda>current. Inr (Redirected normalized current)))), st1))"

definition check_framing :: "wayback_services \<Rightarrow> (string \<times> string) list \<Rightarrow> int \<Rightarrow> py_exc + bool" where
  "check_framing sv headers maximum_bytes =
     (let encoding = folded sv (case map_of headers ''content-encoding'' of Some x \<Rightarrow> x | None \<Rightarrow> ''identity'');
          transfer_encoding = folded sv (case map_of headers ''transfer-encoding'' of Some x \<Rightarrow> x | None \<Rightarrow> []) in
      bind_res (raise_if (encoding \<notin> {[], codes ''identity'', codes ''gzip''})
        (adapter_error ''Wayback response compression is not accepted'')) (\<lambda>_.
      bind_res (raise_if (transfer_encoding \<notin> {[], codes ''chunked''})
        (adapter_error ''Wayback response transfer encoding is not accepted'')) (\<lambda>_.
      case map_of headers ''content-length'' of
        None \<Rightarrow> Inr (encoding = codes ''gzip'')
      | Some l \<Rightarrow>
          bind_res (raise_if (transfer_encoding \<noteq> []) (adapter_error ''Wayback response framing is ambiguous'')) (\<lambda>_.
          case int_of_text sv l of
            None \<Rightarrow> Inl (caused_by (adapter_error ''Wayback response has an invalid content length'') (value_exc (ValueError ''invalid literal for int()'')))
          | Some declared \<Rightarrow>
              bind_res (raise_if (declared < 0 \<or> maximum_bytes < declared) (budget_exceeded ''Wayback response exceeds the byte budget'')) (\<lambda>_.
                Inr (encoding = codes ''gzip''))))))"

definition receive ::
  "wayback_services \<Rightarrow> string \<Rightarrow> int \<Rightarrow> int \<Rightarrow> bool \<Rightarrow> raw_response \<Rightarrow> wayback_run \<Rightarrow> (http_failure + hop) \<times> wayback_run" where
  "receive sv normalized maximum_bytes maximum_redirects last_hop response st =
     bind_http (raising (bounded_headers (rw_headers response)), st) (\<lambda>headers st1.
     if rw_status_code response \<in> {301, 302, 303, 307, 308}
     then follow_redirect headers normalized maximum_redirects last_hop st1
     else bind_http (raising (check_framing sv headers maximum_bytes), st1) (\<lambda>gzip st2.
       bind_http (read_body sv response maximum_bytes gzip st2) (\<lambda>body st3.
       bind_http (raising (replacing (adapter_error ''Wayback transport returned an invalid response URL'') (normalize_url (rw_url response))), st3)
         (\<lambda>url st4.
         (Inr (Answered \<lparr>wr_status_code = rw_status_code response, wr_url = url, wr_headers = headers, wr_body = body\<rparr>), st4)))))"

definition take_slot :: "wayback_services \<Rightarrow> string \<Rightarrow> rat \<Rightarrow> wayback_run \<Rightarrow> (http_failure + unit) \<times> wayback_run" where
  "take_slot sv host remaining st =
     (case wy_slot sv host remaining (wb_env st) of (x, en) \<Rightarrow> (raising x, st\<lparr>wb_env := en\<rparr>))"

definition exchange :: "wayback_services \<Rightarrow> string \<Rightarrow> string list \<Rightarrow> rat \<Rightarrow> wayback_run \<Rightarrow> (http_failure + raw_response) \<times> wayback_run" where
  "exchange sv normalized addresses remaining st =
     (case wy_stream sv (wy_user_agent sv) normalized addresses remaining (wb_env st) of (x, en) \<Rightarrow> (x, st\<lparr>wb_env := en\<rparr>))"

text \<open>What precedes a request: the deadline, the exact host, a slot, the policy and the pins.\<close>

definition approach ::
  "wayback_services \<Rightarrow> string \<Rightarrow> rat \<Rightarrow> time \<Rightarrow> string \<Rightarrow> string option \<Rightarrow> wayback_run \<Rightarrow> (http_failure + string \<times> string list \<times> rat) \<times> wayback_run" where
  "approach sv expected_host deadline started current previous st =
     bind_http (raising (remaining_time deadline started st), st) (\<lambda>remaining st1.
     bind_http (raising (require_exact_https_host current expected_host), st1) (\<lambda>_ st2.
     bind_http (raising (lift_exc (exact_origin_parts current)), st2) (\<lambda>(_, host, _) st3.
     bind_http (take_slot sv host remaining st3) (\<lambda>_ st4.
     bind_http (pinned_destination sv current previous st4) (\<lambda>(normalized, addresses) st5.
     bind_http (raising (remaining_time deadline started st5), st5) (\<lambda>request_remaining st6.
       (Inr (normalized, addresses, request_remaining), st6)))))))"

text \<open>One round of the loop over the redirects.\<close>

definition wayback_hop ::
  "wayback_services \<Rightarrow> string \<Rightarrow> int \<Rightarrow> int \<Rightarrow> rat \<Rightarrow> time \<Rightarrow> bool \<Rightarrow> string \<Rightarrow> string option \<Rightarrow> wayback_run \<Rightarrow> (http_failure + hop) \<times> wayback_run" where
  "wayback_hop sv expected_host maximum_bytes maximum_redirects deadline started last_hop current previous st =
     bind_http (approach sv expected_host deadline started current previous st) (\<lambda>(normalized, addresses, remaining) st1.
     bind_http (exchange sv normalized addresses remaining st1) (\<lambda>response st2.
       receive sv normalized maximum_bytes maximum_redirects last_hop response st2))"

fun get_loop ::
  "wayback_services \<Rightarrow> string \<Rightarrow> int \<Rightarrow> int \<Rightarrow> rat \<Rightarrow> time \<Rightarrow> nat \<Rightarrow> string \<Rightarrow> string option \<Rightarrow> wayback_run \<Rightarrow> (py_exc + wayback_response) \<times> wayback_run" where
  "get_loop sv expected_host maximum_bytes maximum_redirects deadline started 0 current previous st =
     (Inl (adapter_error ''Wayback redirect bound was exhausted''), st)"
| "get_loop sv expected_host maximum_bytes maximum_redirects deadline started (Suc left) current previous st =
     (case wayback_hop sv expected_host maximum_bytes maximum_redirects deadline started (left = 0) current previous st of
        (Inl f, st1) \<Rightarrow> (Inl (http_exc f), st1)
      | (Inr (Answered r), st1) \<Rightarrow> (Inr r, st1)
      | (Inr (Redirected from_url to_url), st1) \<Rightarrow>
          get_loop sv expected_host maximum_bytes maximum_redirects deadline started left to_url (Some from_url) st1)"

definition get_within_deadline ::
  "wayback_services \<Rightarrow> string \<Rightarrow> string \<Rightarrow> int \<Rightarrow> int \<Rightarrow> rat \<Rightarrow> wayback_run \<Rightarrow> (py_exc + wayback_response) \<times> wayback_run" where
  "get_within_deadline sv url allowed_host maximum_bytes maximum_redirects deadline st =
     bind_run (normalize_request_url url, st) (\<lambda>current st1.
       get_loop sv (normal_host allowed_host) maximum_bytes maximum_redirects deadline (en_clock (wb_env st1))
         (nat (wy_maximum_redirects sv + 1)) current None st1)"

definition wayback_get ::
  "wayback_services \<Rightarrow> string \<Rightarrow> string \<Rightarrow> int \<Rightarrow> int option \<Rightarrow> rat \<Rightarrow> wayback_run \<Rightarrow> (py_exc + wayback_response) \<times> wayback_run" where
  "wayback_get sv url allowed_host maximum_bytes maximum_redirects deadline st =
     (let redirect_ceiling = (case maximum_redirects of None \<Rightarrow> us_redirects (wb_usage st) + wy_maximum_redirects sv | Some m \<Rightarrow> m) in
      bind_run (validate_request_budget maximum_bytes deadline, st) (\<lambda>_ st1.
      bind_run (validate_redirect_budget redirect_ceiling, st1) (\<lambda>_ st2.
        within_deadline ''Wayback request exceeded its deadline''
          (get_within_deadline sv url allowed_host maximum_bytes redirect_ceiling deadline st2))))"

subsection \<open>The connector\<close>

type_synonym wayback_client =
  "string \<Rightarrow> string \<Rightarrow> int \<Rightarrow> int option \<Rightarrow> rat \<Rightarrow> wayback_run \<Rightarrow> (py_exc + wayback_response) \<times> wayback_run"

definition validate_transfer_usage :: "int \<Rightarrow> connector_usage \<Rightarrow> py_exc + unit" where
  "validate_transfer_usage maximum_bytes u =
     bind_res (raise_if (us_wire_bytes u < 0 \<or> us_decompressed_bytes u < 0) (adapter_error ''Wayback client returned invalid byte usage'')) (\<lambda>_.
     bind_res (raise_if (maximum_bytes < us_wire_bytes u) (budget_exceeded ''Wayback wire byte budget exhausted'')) (\<lambda>_.
       raise_if (maximum_bytes < us_decompressed_bytes u) (budget_exceeded ''Wayback decompressed byte budget exhausted'')))"

definition remaining_transfer_bytes :: "int \<Rightarrow> connector_usage \<Rightarrow> py_exc + int" where
  "remaining_transfer_bytes maximum_bytes u =
     bind_res (validate_transfer_usage maximum_bytes u) (\<lambda>_.
       Inr (min (maximum_bytes - us_wire_bytes u) (maximum_bytes - us_decompressed_bytes u)))"

definition public_original :: "wayback_services \<Rightarrow> string \<Rightarrow> py_exc + string" where
  "public_original sv original_url =
     bind_res (replacing (policy_exc_of ''Wayback original URL is invalid'' []) (normalize_url original_url)) (\<lambda>original.
     bind_res (raise_if (MAX_ORIGINAL_URL_BYTES < length original) (policy_exc_of ''Wayback original URL exceeds its length bound'' [])) (\<lambda>_.
     bind_res (lift_exc (sanitize_url False original)) (\<lambda>sanitized.
     bind_res (if sanitized \<noteq> original then Inr True else lift_exc (has_sensitive_query_key sv original)) (\<lambda>sensitive.
     bind_res (raise_if sensitive (policy_exc_of ''Wayback lookup cannot receive sensitive URL query values'' [])) (\<lambda>_. Inr original)))))"

definition find_capture ::
  "wayback_services \<Rightarrow> wayback_client \<Rightarrow> string \<Rightarrow> int \<Rightarrow> int \<Rightarrow> rat \<Rightarrow> wayback_run \<Rightarrow> (py_exc + string \<times> civil_time \<times> int) \<times> wayback_run" where
  "find_capture sv client original maximum_bytes maximum_redirects deadline st =
     (let limit = min MAX_AVAILABILITY_BYTES maximum_bytes in
      bind_run (client (AVAILABILITY_ENDPOINT @ CHR ''?'' # urlencode [(''url'', original)]) AVAILABILITY_HOST limit (Some maximum_redirects) deadline st)
        (\<lambda>availability st1.
      bind_run (bind_res (raise_if (limit < int (length (wr_body availability)))
           (budget_exceeded ''Wayback availability response exceeds the byte budget'')) (\<lambda>_.
         bind_res (raise_if (wr_status_code availability \<noteq> 200) (adapter_error ''Wayback availability lookup failed'')) (\<lambda>_.
         parse_availability sv (wr_body availability) original)), st1) (\<lambda>(url, captured_at) st2.
        (Inr (url, captured_at, int (length (wr_body availability))), st2))))"

definition archived_snapshot_of ::
  "wayback_services \<Rightarrow> string \<Rightarrow> civil_time \<Rightarrow> int \<Rightarrow> int \<Rightarrow> wayback_response \<Rightarrow> py_exc + archived_snapshot" where
  "archived_snapshot_of sv original captured_at auxiliary remaining_bytes snapshot =
     bind_res (raise_if (wr_status_code snapshot \<in> {404, 410}) (simple_exc ExcNotFound ''AdapterNotFoundError'' ''Wayback snapshot is unavailable'')) (\<lambda>_.
     bind_res (raise_if (wr_status_code snapshot \<noteq> 200) (adapter_error ''Wayback snapshot retrieval failed'')) (\<lambda>_.
     bind_res (raise_if (remaining_bytes < int (length (wr_body snapshot))) (budget_exceeded ''Wayback snapshot exceeds the byte budget'')) (\<lambda>_.
     bind_res (validate_capture_url sv (wr_url snapshot) original (strftime sv captured_at) False) (\<lambda>_.
     bind_res (wayback_media_type sv (wr_headers snapshot)) (\<lambda>media_type.
       lift_exc (ArchivedSnapshot \<lparr>as_original_url = original, as_snapshot_url = wr_url snapshot, as_body = wr_body snapshot,
         as_media_type = media_type, as_captured_at = civil_moment captured_at,
         as_etag = optional_validator (map_of (wr_headers snapshot) ''etag''),
         as_last_modified = optional_validator (map_of (wr_headers snapshot) ''last-modified''), as_auxiliary_bytes = auxiliary\<rparr>))))))"

definition fetch_snapshot_within_deadline ::
  "wayback_services \<Rightarrow> wayback_client \<Rightarrow> string \<Rightarrow> int \<Rightarrow> int \<Rightarrow> rat \<Rightarrow> wayback_run \<Rightarrow> (py_exc + archived_snapshot) \<times> wayback_run" where
  "fetch_snapshot_within_deadline sv client original_url maximum_bytes maximum_redirects deadline st0 =
     bind_run (public_original sv original_url, st0) (\<lambda>original st.
     bind_run (find_capture sv client original maximum_bytes maximum_redirects deadline st) (\<lambda>(snapshot_url, captured_at, auxiliary) st1.
     bind_run (remaining_transfer_bytes maximum_bytes (wb_usage st1), st1) (\<lambda>remaining_bytes st2.
     let remaining = deadline - (en_clock (wb_env st2) - en_clock (wb_env st)) in
     if remaining_bytes \<le> 0 then (Inl (budget_exceeded ''Wayback availability lookup exhausted the byte budget''), st2)
     else if remaining \<le> 0 then (Inl (deadline_exc ''Wayback connector exceeded its deadline''), st2)
     else bind_run (client snapshot_url SNAPSHOT_HOST remaining_bytes (Some maximum_redirects) remaining st2) (\<lambda>snapshot st3.
       bind_run (validate_transfer_usage maximum_bytes (wb_usage st3), st3) (\<lambda>_ st4.
         (archived_snapshot_of sv original captured_at auxiliary remaining_bytes snapshot, st4))))))"

definition fetch_snapshot_with_usage ::
  "wayback_services \<Rightarrow> wayback_client \<Rightarrow> string \<Rightarrow> int \<Rightarrow> int \<Rightarrow> rat \<Rightarrow> wayback_run \<Rightarrow> (py_exc + archived_snapshot) \<times> wayback_run" where
  "fetch_snapshot_with_usage sv client original_url maximum_bytes maximum_redirects deadline st =
     bind_run (validate_request_budget maximum_bytes deadline, st) (\<lambda>_ st1.
     bind_run (validate_redirect_budget maximum_redirects, st1) (\<lambda>_ st2.
       within_deadline ''Wayback connector exceeded its deadline''
         (fetch_snapshot_within_deadline sv client original_url maximum_bytes maximum_redirects deadline st2)))"

definition wayback_fetch_snapshot ::
  "wayback_services \<Rightarrow> wayback_client \<Rightarrow> string \<Rightarrow> int \<Rightarrow> rat \<Rightarrow> wayback_run \<Rightarrow> (py_exc + archived_snapshot) \<times> wayback_run" where
  "wayback_fetch_snapshot sv client original_url maximum_bytes deadline st =
     fetch_snapshot_with_usage sv client original_url maximum_bytes (MAX_WAYBACK_REDIRECTS * 2) deadline
       (st\<lparr>wb_usage := SnapshotConnectorUsage\<rparr>)"

text \<open>The connector as the cache adapter uses it: built with the client above and a policy of its own run.\<close>

definition wayback_connector :: "wayback_services \<Rightarrow> safe_url_policy \<Rightarrow> connector" where
  "wayback_connector sv sp = UsageReportingConnector (\<lambda>url maximum_bytes maximum_redirects deadline en.
     case fetch_snapshot_with_usage sv (wayback_get sv) url maximum_bytes maximum_redirects deadline
            \<lparr>wb_policy = sp, wb_usage = SnapshotConnectorUsage, wb_env = en\<rparr> of
       (x, st) \<Rightarrow> ((case x of Inl e \<Rightarrow> Inl e | Inr s \<Rightarrow> Inr (Some s)), wb_usage st, wb_env st))"

end
