(* ===== verification/Wayback_Correct.thy ===== *)
theory Wayback_Correct
  imports Wayback
begin

section \<open>Correctness of the Wayback connector\<close>

text \<open>
  What a response is charged for, what a snapshot stands for, that the connector meets the contract
  of the cache adapter (the locale \<open>metered_client\<close> is what it needs of its client), and where its
  requests go.
\<close>

subsection \<open>Accounting\<close>


lemma bind_http_Inr: "bind_http m f = (Inr y, s') \<longleftrightarrow> (\<exists>x s. m = (Inr x, s) \<and> f x s = (Inr y, s'))"
  by (cases m; cases "fst m") (auto simp: bind_http_def)

lemma bind_http_simps [simp]: "bind_http (Inl e, s) f = (Inl e, s)" "bind_http (Inr x, s) f = f x s"
  by (simp_all add: bind_http_def)

lemma raising_Inr [simp]: "raising m = Inr x \<longleftrightarrow> m = Inr x"
  by (cases m) (auto simp: raising_def)

lemma replacing_Inr [simp]: "replacing e m = Inr x \<longleftrightarrow> m = Inr x"
  by (auto simp: replacing_def split: sum.splits py_error.splits)

lemma use_budget_eq:
  "0 \<le> w \<Longrightarrow> 0 \<le> d \<Longrightarrow> 0 \<le> r \<Longrightarrow> use_budget w d r st = (Inr (), st\<lparr>wb_usage := (wb_usage st)
     \<lparr>us_wire_bytes := us_wire_bytes (wb_usage st) + w, us_decompressed_bytes := us_decompressed_bytes (wb_usage st) + d,
      us_redirects := us_redirects (wb_usage st) + r\<rparr>\<rparr>)"
  by (simp add: use_budget_def record_usage_def)

text \<open>What reading a body does to the usage: the body is accounted exactly, the wire within its bound.\<close>

definition accounted :: "int \<Rightarrow> nat \<Rightarrow> wayback_run \<Rightarrow> wayback_run \<Rightarrow> bool" where
  "accounted wire_bound n st st' \<longleftrightarrow>
     us_wire_bytes (wb_usage st) \<le> us_wire_bytes (wb_usage st') \<and> us_wire_bytes (wb_usage st') \<le> us_wire_bytes (wb_usage st) + wire_bound \<and>
     us_decompressed_bytes (wb_usage st') = us_decompressed_bytes (wb_usage st) + int n \<and>
     us_redirects (wb_usage st') = us_redirects (wb_usage st) \<and>
     (0 < n \<longrightarrow> us_wire_bytes (wb_usage st) < us_wire_bytes (wb_usage st'))"

lemma end_of_body_Inr [simp]: "end_of_body e x st = (Inr y, st') \<longleftrightarrow> e = None \<and> y = x \<and> st' = st"
  by (auto simp: end_of_body_def split: option.splits)

lemma read_identity_accounts:
  assumes "read_identity maximum ended consumed body chunks st = (Inr b, st')" "consumed = int (length body)" "consumed \<le> maximum"
  shows "int (length b) \<le> maximum \<and> length body \<le> length b \<and>
    us_wire_bytes (wb_usage st') = us_wire_bytes (wb_usage st) + int (length b) - int (length body) \<and>
    us_decompressed_bytes (wb_usage st') = us_decompressed_bytes (wb_usage st) + int (length b) - int (length body) \<and>
    us_redirects (wb_usage st') = us_redirects (wb_usage st)"
  using assms
proof (induction maximum ended consumed body chunks st rule: read_identity.induct)
  case (2 maximum ended consumed body chunk chunks st)
  from "2.prems" have m: "\<not> maximum < consumed + int (length chunk)"
    and rest: "read_identity maximum ended (consumed + int (length chunk)) (body @ chunk) chunks
      (snd (use_budget (int (length chunk)) (int (length chunk)) 0 st)) = (Inr b, st')"
    by (auto simp: use_budget_eq split: if_splits)
  show ?case using "2.IH" [OF m rest] "2.prems"(2) m by (simp add: use_budget_eq)
qed auto

lemma gzip_chunk_accounts:
  assumes "gzip_chunk sv maximum chunk (wire, calls, body) st = (Inr (wire', calls', body'), st')" "int (length body) \<le> maximum"
  shows "int (length body') \<le> maximum \<and> wire' = wire + int (length chunk) \<and> wire' \<le> maximum \<and> length body \<le> length body' \<and>
    us_wire_bytes (wb_usage st') = us_wire_bytes (wb_usage st) + int (length chunk) \<and>
    us_decompressed_bytes (wb_usage st') = us_decompressed_bytes (wb_usage st) + int (length body') - int (length body) \<and>
    us_redirects (wb_usage st') = us_redirects (wb_usage st)"
  using assms by (auto simp: gzip_chunk_def Let_def use_budget_eq split: if_splits option.splits)

lemma read_gzip_accounts:
  assumes "read_gzip sv maximum ended r chunks st = (Inr b, st')" "r = (wire, calls, body)" "int (length body) \<le> maximum" "wire \<le> maximum"
  shows "int (length b) \<le> maximum \<and> length body \<le> length b \<and> us_wire_bytes (wb_usage st) \<le> us_wire_bytes (wb_usage st') \<and>
    us_wire_bytes (wb_usage st') \<le> us_wire_bytes (wb_usage st) + maximum - wire \<and>
    us_decompressed_bytes (wb_usage st') = us_decompressed_bytes (wb_usage st) + int (length b) - int (length body) \<and>
    us_redirects (wb_usage st') = us_redirects (wb_usage st) \<and>
    (us_wire_bytes (wb_usage st') = us_wire_bytes (wb_usage st) \<longrightarrow> b = body)"
  using assms
proof (induction sv maximum ended r chunks st arbitrary: wire calls body rule: read_gzip.induct)
  case (2 sv maximum ended r chunk chunks st)
  show ?case
  proof (cases "chunk = []")
    case False
    with "2.prems" obtain wire1 calls1 body1 st1 where g: "gzip_chunk sv maximum chunk (wire, calls, body) st = (Inr (wire1, calls1, body1), st1)"
      and rest: "read_gzip sv maximum ended (wire1, calls1, body1) chunks st1 = (Inr b, st')"
      by (auto simp: bind_http_Inr)
    from False have "0 < length chunk" by simp
    with gzip_chunk_accounts [OF g] "2.prems"(3) "2.IH"(2) [OF False rest refl] show ?thesis by auto
  qed (use "2.prems" "2.IH"(1) in simp)
qed (auto simp: bind_http_Inr split: if_splits)

lemma read_body_accounts:
  assumes "read_body sv response maximum gzip st = (Inr b, st')" "0 \<le> maximum"
  shows "int (length b) \<le> maximum \<and> accounted maximum (length b) st st'"
proof (cases gzip)
  case True
  with assms(1) have r: "read_gzip sv maximum (rw_end response) (0, [], []) (rw_chunks response) st = (Inr b, st')"
    by (simp add: read_body_def)
  show ?thesis using read_gzip_accounts [OF r refl] assms(2) by (auto simp: accounted_def)
next
  case False
  with assms(1) have r: "read_identity maximum (rw_end response) 0 [] (rw_chunks response) st = (Inr b, st')"
    by (simp add: read_body_def)
  show ?thesis using read_identity_accounts [OF r] assms(2) by (auto simp: accounted_def)
qed

lemma follow_redirect_accounts:
  assumes "follow_redirect headers normalized maximum_redirects last_hop st = (Inr h, st')"
  shows "\<exists>url. h = Redirected normalized url \<and> wb_usage st' = (wb_usage st)\<lparr>us_redirects := us_redirects (wb_usage st) + 1\<rparr> \<and>
    us_redirects (wb_usage st) + 1 \<le> maximum_redirects"
  using assms by (auto simp: follow_redirect_def use_budget_eq bind_http_Inr split: if_splits option.splits)

lemma pinned_destination_usage [simp]: "wb_usage (snd (pinned_destination sv current previous st)) = wb_usage st"
  by (auto simp: pinned_destination_def split: sum.splits policy_exc.splits)

lemma wait_usage [simp]: "wb_usage (snd (take_slot sv host remaining st)) = wb_usage st" "wb_usage (snd (exchange sv url addresses remaining st)) = wb_usage st"
  by (simp_all add: take_slot_def exchange_def split: prod.splits)

text \<open>One hop: a redirect is counted and within its bound, an answer is accounted.\<close>

definition hop_ok :: "int \<Rightarrow> int \<Rightarrow> hop \<Rightarrow> wayback_run \<Rightarrow> wayback_run \<Rightarrow> bool" where
  "hop_ok maximum_bytes maximum_redirects h st st' =
     (case h of
        Redirected _ _ \<Rightarrow> wb_usage st' = (wb_usage st)\<lparr>us_redirects := us_redirects (wb_usage st) + 1\<rparr> \<and> us_redirects (wb_usage st) + 1 \<le> maximum_redirects
      | Answered r \<Rightarrow> int (length (wr_body r)) \<le> maximum_bytes \<and> accounted maximum_bytes (length (wr_body r)) st st')"

lemma receive_accounts:
  assumes "receive sv normalized maximum_bytes maximum_redirects last_hop response st = (Inr h, st')" "0 \<le> maximum_bytes"
  shows "hop_ok maximum_bytes maximum_redirects h st st'"
  using assms follow_redirect_accounts read_body_accounts
  by (fastforce simp: receive_def bind_http_Inr hop_ok_def split: if_splits)

lemma hop_accounts:
  assumes "wayback_hop sv host maximum_bytes maximum_redirects deadline started last_hop current previous st = (Inr h, st')" "0 \<le> maximum_bytes"
  shows "hop_ok maximum_bytes maximum_redirects h st st'"
proof -
  from assms(1) obtain rem target st1 normalized addresses st2 rem' response st3
    where a: "take_slot sv target rem st = (Inr (), st1)"
    and p: "pinned_destination sv current previous st1 = (Inr (normalized, addresses), st2)"
    and e: "exchange sv normalized addresses rem' st2 = (Inr response, st3)"
    and r: "receive sv normalized maximum_bytes maximum_redirects last_hop response st3 = (Inr h, st')"
    by (auto simp: wayback_hop_def approach_def bind_http_Inr)
  have "wb_usage st3 = wb_usage st"
    using wait_usage(1) [of sv target rem st] pinned_destination_usage [of sv current previous st1]
      wait_usage(2) [of sv normalized addresses rem' st2] by (simp add: a p e)
  with receive_accounts [OF r assms(2)] show ?thesis by (auto simp: hop_ok_def accounted_def split: hop.splits)
qed

lemma get_loop_accounts:
  assumes "get_loop sv host maximum_bytes maximum_redirects deadline started n current previous st = (Inr r, st')" "0 \<le> maximum_bytes"
  shows "int (length (wr_body r)) \<le> maximum_bytes \<and>
    (\<exists>k. 0 \<le> k \<and> (0 < k \<longrightarrow> us_redirects (wb_usage st) + k \<le> maximum_redirects) \<and>
      accounted maximum_bytes (length (wr_body r)) (st\<lparr>wb_usage := (wb_usage st)\<lparr>us_redirects := us_redirects (wb_usage st) + k\<rparr>\<rparr>) st')"
  using assms(1)
proof (induction n arbitrary: current previous st)
  case (Suc n)
  obtain x st1 where h: "wayback_hop sv host maximum_bytes maximum_redirects deadline started (n = 0) current previous st = (x, st1)"
    by (rule prod.exhaust)
  show ?case
  proof (cases x)
    case (Inl f)
    then show ?thesis using Suc.prems h by simp
  next
    case (Inr y)
    note ok = hop_accounts [OF h [unfolded Inr] assms(2)]
    show ?thesis
    proof (cases y)
      case (Answered r1)
      then have "r1 = r" "st1 = st'" using Suc.prems h Inr by auto
      then show ?thesis using ok Answered by (intro conjI exI [of _ 0]) (auto simp: hop_ok_def accounted_def)
    next
      case (Redirected a b)
      then have "get_loop sv host maximum_bytes maximum_redirects deadline started n b (Some a) st1 = (Inr r, st')"
        using Suc.prems h Inr by simp
      from Suc.IH [OF this] obtain k where k: "int (length (wr_body r)) \<le> maximum_bytes" "0 \<le> k"
        "0 < k \<longrightarrow> us_redirects (wb_usage st1) + k \<le> maximum_redirects"
        "accounted maximum_bytes (length (wr_body r)) (st1\<lparr>wb_usage := (wb_usage st1)\<lparr>us_redirects := us_redirects (wb_usage st1) + k\<rparr>\<rparr>) st'"
        by blast
      then show ?thesis using ok Redirected by (intro conjI exI [of _ "k + 1"]) (auto simp: hop_ok_def accounted_def)
    qed
  qed
qed simp

lemma within_deadline_Inr [simp]: "within_deadline message m = (Inr x, s) \<longleftrightarrow> m = (Inr x, s)"
  by (cases m; cases "fst m") (auto simp: within_deadline_def)

text \<open>
  The interface of a client for the connector: a returned response respects the byte bound and is
  accounted in the usage, and redirects stay within their hop_limit.
\<close>

locale metered_client =
  fixes client :: wayback_client
  assumes metered: "client url host maximum_bytes (Some hop_limit) deadline st = (Inr r, st') \<Longrightarrow>
    int (length (wr_body r)) \<le> maximum_bytes \<and> accounted maximum_bytes (length (wr_body r)) (st\<lparr>wb_usage := (wb_usage st)
      \<lparr>us_redirects := us_redirects (wb_usage st')\<rparr>\<rparr>) st' \<and> us_redirects (wb_usage st) \<le> us_redirects (wb_usage st') \<and>
    us_redirects (wb_usage st') \<le> max (us_redirects (wb_usage st)) hop_limit"

lemma wayback_get_metered:
  assumes "wayback_get sv url host maximum_bytes (Some hop_limit) deadline st = (Inr r, st')"
  shows "int (length (wr_body r)) \<le> maximum_bytes \<and> accounted maximum_bytes (length (wr_body r)) (st\<lparr>wb_usage := (wb_usage st)
      \<lparr>us_redirects := us_redirects (wb_usage st')\<rparr>\<rparr>) st' \<and> us_redirects (wb_usage st) \<le> us_redirects (wb_usage st') \<and>
    us_redirects (wb_usage st') \<le> max (us_redirects (wb_usage st)) hop_limit"
proof -
  from assms obtain current started n where m: "0 < maximum_bytes"
    and g: "get_loop sv (normal_host host) maximum_bytes hop_limit deadline started n current None st = (Inr r, st')"
    by (auto simp: wayback_get_def get_within_deadline_def bind_run_Inr validate_request_budget_def Let_def)
  from get_loop_accounts [OF g] m obtain k where "int (length (wr_body r)) \<le> maximum_bytes" "0 \<le> k"
    "0 < k \<longrightarrow> us_redirects (wb_usage st) + k \<le> hop_limit"
    "accounted maximum_bytes (length (wr_body r)) (st\<lparr>wb_usage := (wb_usage st)\<lparr>us_redirects := us_redirects (wb_usage st) + k\<rparr>\<rparr>) st'"
    by auto
  then show ?thesis by (auto simp: accounted_def)
qed

interpretation wayback: metered_client "wayback_get sv" for sv
  by unfold_locales (rule wayback_get_metered)

subsection \<open>Snapshots\<close>

lemma public_original_Inr:
  "public_original sv url = Inr original \<longleftrightarrow> normalize_url url = Inr original \<and> length original \<le> MAX_ORIGINAL_URL_BYTES \<and>
     sanitize_url False original = Inr original \<and> has_sensitive_query_key sv original = Inr False"
  by (auto simp: public_original_def split: if_splits)

lemma find_capture_Inr:
  assumes "find_capture sv client original maximum_bytes maximum_redirects deadline st = (Inr (url, captured, auxiliary), st')"
  obtains availability where "client (AVAILABILITY_ENDPOINT @ CHR ''?'' # urlencode [(''url'', original)]) AVAILABILITY_HOST
      (min MAX_AVAILABILITY_BYTES maximum_bytes) (Some maximum_redirects) deadline st = (Inr availability, st')"
    "auxiliary = int (length (wr_body availability))" "parse_availability sv (wr_body availability) original = Inr (url, captured)"
  using assms by (auto simp: find_capture_def Let_def bind_run_Inr)

lemma fetch_snapshot_Inr:
  assumes "fetch_snapshot_with_usage sv client original_url maximum_bytes maximum_redirects deadline st = (Inr s, st')"
  obtains original url captured auxiliary st1 remaining_bytes remaining snapshot where "public_original sv original_url = Inr original"
    "find_capture sv client original maximum_bytes maximum_redirects deadline st = (Inr (url, captured, auxiliary), st1)"
    "remaining_transfer_bytes maximum_bytes (wb_usage st1) = Inr remaining_bytes" "0 < remaining_bytes"
    "client url SNAPSHOT_HOST remaining_bytes (Some maximum_redirects) remaining st1 = (Inr snapshot, st')"
    "validate_transfer_usage maximum_bytes (wb_usage st') = Inr ()"
    "archived_snapshot_of sv original captured auxiliary remaining_bytes snapshot = Inr s"
  using assms
  by (auto simp: fetch_snapshot_with_usage_def fetch_snapshot_within_deadline_def bind_run_Inr Let_def not_le split: if_splits)

lemma validate_capture_url_Inr:
  assumes "validate_capture_url sv url original timestamp False = Inr ()"
  shows "\<exists>p port embedded. urlsplit url = Inr p \<and> py_casefold (sr_scheme p) = ''https'' \<and> normal_host (sr_hostname p) = ''web.archive.org'' \<and>
    CHR ''@'' \<notin> set (sr_netloc p) \<and> sr_port p = Inr port \<and> port \<in> {None, Some 443} \<and>
    match_capture sv (capture_text p) = Some (timestamp, Some ''id_'', embedded) \<and> normalize_url embedded = Inr original"
  using assms
  by (auto simp: validate_capture_url_def exact_origin_parts_def Let_def SNAPSHOT_HOST_def has_userinfo_def split: option.splits prod.splits)

lemma archived_snapshot_of_Inr:
  assumes "archived_snapshot_of sv original captured auxiliary remaining_bytes snapshot = Inr s"
  shows "wr_status_code snapshot = 200" "int (length (wr_body snapshot)) \<le> remaining_bytes"
    "validate_capture_url sv (wr_url snapshot) original (strftime sv captured) False = Inr ()"
    "normalize_url original = Inr (as_original_url s)" "normalize_url (wr_url snapshot) = Inr (as_snapshot_url s)"
    "as_body s = wr_body snapshot" "wr_body snapshot \<noteq> []" "as_captured_at s = civil_moment captured" "as_auxiliary_bytes s = auxiliary"
    "py_startswith (as_snapshot_url s) ''https://''"
  using assms by (auto simp: archived_snapshot_of_def ArchivedSnapshot_def civil_moment_def utc_def Let_def)

text \<open>
  C23: a Wayback snapshot is what it claims to be. Whatever client the connector uses, a snapshot it
  returns was asked for a public URL without sensitive query keys; its locator lies on
  \<^verbatim>\<open>web.archive.org\<close> over HTTPS without user information, is in raw mode, and embeds exactly that
  URL and the capture time of the snapshot; its body is not empty and fits into the byte bound, and
  so does the usage the client reported.
\<close>

theorem wayback_snapshot_faithful:
  assumes "fetch_snapshot_with_usage sv client original_url maximum_bytes maximum_redirects deadline st = (Inr s, st')"
  shows "\<exists>original url captured p port embedded. normalize_url original_url = Inr original \<and> length original \<le> 8192 \<and>
    sanitize_url False original = Inr original \<and> has_sensitive_query_key sv original = Inr False \<and>
    normalize_url original = Inr (as_original_url s) \<and> normalize_url url = Inr (as_snapshot_url s) \<and> urlsplit url = Inr p \<and>
    py_casefold (sr_scheme p) = ''https'' \<and> normal_host (sr_hostname p) = ''web.archive.org'' \<and> CHR ''@'' \<notin> set (sr_netloc p) \<and>
    sr_port p = Inr port \<and> port \<in> {None, Some 443} \<and>
    match_capture sv (capture_text p) = Some (strftime sv captured, Some ''id_'', embedded) \<and> normalize_url embedded = Inr original \<and>
    as_captured_at s = civil_moment captured \<and> as_body s \<noteq> [] \<and> int (length (as_body s)) \<le> maximum_bytes \<and>
    us_wire_bytes (wb_usage st') \<le> maximum_bytes \<and> us_decompressed_bytes (wb_usage st') \<le> maximum_bytes"
proof -
  from assms obtain original url captured auxiliary st1 remaining_bytes remaining snapshot where o: "public_original sv original_url = Inr original"
    and f: "find_capture sv client original maximum_bytes maximum_redirects deadline st = (Inr (url, captured, auxiliary), st1)"
    and r: "remaining_transfer_bytes maximum_bytes (wb_usage st1) = Inr remaining_bytes" and "0 < remaining_bytes"
    and c: "client url SNAPSHOT_HOST remaining_bytes (Some maximum_redirects) remaining st1 = (Inr snapshot, st')"
    and v: "validate_transfer_usage maximum_bytes (wb_usage st') = Inr ()"
    and a: "archived_snapshot_of sv original captured auxiliary remaining_bytes snapshot = Inr s"
    by (rule fetch_snapshot_Inr)
  note a' = archived_snapshot_of_Inr [OF a]
  from validate_capture_url_Inr [OF a'(3)] obtain p port embedded where p: "urlsplit (wr_url snapshot) = Inr p"
    "py_casefold (sr_scheme p) = ''https''" "normal_host (sr_hostname p) = ''web.archive.org''" "CHR ''@'' \<notin> set (sr_netloc p)"
    "sr_port p = Inr port" "port \<in> {None, Some 443}" "match_capture sv (capture_text p) = Some (strftime sv captured, Some ''id_'', embedded)"
    "normalize_url embedded = Inr original" by blast
  have o': "normalize_url original_url = Inr original" "length original \<le> 8192" "sanitize_url False original = Inr original"
    "has_sensitive_query_key sv original = Inr False" using o unfolding public_original_Inr MAX_ORIGINAL_URL_BYTES_def by simp_all
  have b: "as_body s \<noteq> []" "int (length (as_body s)) \<le> maximum_bytes" using r a'(2,6,7)
    by (auto simp: remaining_transfer_bytes_def validate_transfer_usage_def)
  have u: "us_wire_bytes (wb_usage st') \<le> maximum_bytes" "us_decompressed_bytes (wb_usage st') \<le> maximum_bytes"
    using v by (auto simp: validate_transfer_usage_def)
  show ?thesis by (intro exI conjI) (rule o' a'(4,5) p a'(8) b u)+
qed

subsection \<open>The contract of the cache adapter\<close>

text \<open>With a metered client the usage a successful call reports is exact enough for the adapter.\<close>

context metered_client
begin

lemma usage_reconciles:
  assumes "fetch_snapshot_with_usage sv client original_url maximum_bytes maximum_redirects deadline st = (Inr s, st')"
    "wb_usage st = SnapshotConnectorUsage"
  shows "reconcile_usage (Some s) maximum_bytes (wb_usage st') = (Inr (), wb_usage st') \<and> 0 \<le> us_redirects (wb_usage st') \<and>
    us_redirects (wb_usage st') \<le> maximum_redirects \<and> 0 \<le> us_wire_bytes (wb_usage st')"
proof -
  from assms(1) obtain original url captured auxiliary st1 remaining_bytes remaining snapshot
    where "public_original sv original_url = Inr original"
    and f: "find_capture sv client original maximum_bytes maximum_redirects deadline st = (Inr (url, captured, auxiliary), st1)"
    and r: "remaining_transfer_bytes maximum_bytes (wb_usage st1) = Inr remaining_bytes" and "0 < remaining_bytes"
    and c: "client url SNAPSHOT_HOST remaining_bytes (Some maximum_redirects) remaining st1 = (Inr snapshot, st')"
    and v: "validate_transfer_usage maximum_bytes (wb_usage st') = Inr ()"
    and a: "archived_snapshot_of sv original captured auxiliary remaining_bytes snapshot = Inr s"
    by (rule fetch_snapshot_Inr)
  from f obtain availability where g: "client (AVAILABILITY_ENDPOINT @ CHR ''?'' # urlencode [(''url'', original)]) AVAILABILITY_HOST
      (min MAX_AVAILABILITY_BYTES maximum_bytes) (Some maximum_redirects) deadline st = (Inr availability, st1)"
    and aux: "auxiliary = int (length (wr_body availability))" and "parse_availability sv (wr_body availability) original = Inr (url, captured)" by (rule find_capture_Inr)
  have m: "0 \<le> maximum_redirects" using assms(1) by (auto simp: fetch_snapshot_with_usage_def validate_redirect_budget_def bind_run_Inr)
  have "remaining_bytes \<le> maximum_bytes" using r by (auto simp: remaining_transfer_bytes_def validate_transfer_usage_def)
  with metered [OF g] metered [OF c] archived_snapshot_of_Inr(2,6,7,9) [OF a] m assms(2) aux show ?thesis
    by (auto simp: accounted_def reconcile_usage_def SnapshotConnectorUsage_def Let_def)
qed

end

text \<open>
  C24: the built-in connector meets the contract of the cache adapter. When it returns a snapshot, the
  usage it reports accounts for the availability document and the body, so the adapter never
  rejects the result as under-reported or too large, and redirects and bytes stay within the bounds
  the adapter passed.
\<close>

theorem wayback_meets_contract:
  assumes "wayback_connector sv sp = UsageReportingConnector fetch"
    "fetch url maximum_bytes maximum_redirects deadline en = (Inr (Some s), u, en')"
  shows "reconcile_usage (Some s) maximum_bytes u = (Inr (), u) \<and> 0 \<le> us_redirects u \<and> us_redirects u \<le> maximum_redirects \<and>
    us_wire_bytes u \<le> maximum_bytes \<and> us_decompressed_bytes u \<le> maximum_bytes"
proof -
  from assms obtain st' where f: "fetch_snapshot_with_usage sv (wayback_get sv) url maximum_bytes maximum_redirects deadline
      \<lparr>wb_policy = sp, wb_usage = SnapshotConnectorUsage, wb_env = en\<rparr> = (Inr s, st')" and u: "u = wb_usage st'"
    by (auto simp: wayback_connector_def split: prod.splits sum.splits)
  have "validate_transfer_usage maximum_bytes (wb_usage st') = Inr ()" by (rule fetch_snapshot_Inr [OF f])
  then show ?thesis using wayback.usage_reconciles [OF f] by (auto simp: u validate_transfer_usage_def)
qed

subsection \<open>Destinations\<close>

lemma connect_pinned:
  assumes "pin host addresses b = Inr b1" "connect_address host b1 = (Inr a, b2)"
  shows "a \<in> set addresses"
proof -
  from assms(1) have "map_of (nb_pins b1) (normal_host host) = Some addresses" "addresses \<noteq> []"
    by (auto simp: pin_def map_of_assoc_set)
  moreover from this have "addresses ! (n mod length addresses) \<in> set addresses" for n by (intro nth_mem) simp
  ultimately show ?thesis using assms(2) by (cases addresses) (auto simp: connect_address_def Let_def simp del: set_simps)
qed

text \<open>Everything the connector does besides the exchange is independent of the exchange.\<close>

lemma stream_sel:
  "wy_resolver (sv\<lparr>wy_stream := g\<rparr>) = wy_resolver sv" "wy_unicode (sv\<lparr>wy_stream := g\<rparr>) = wy_unicode sv"
  "wy_user_agent (sv\<lparr>wy_stream := g\<rparr>) = wy_user_agent sv" "wy_maximum_redirects (sv\<lparr>wy_stream := g\<rparr>) = wy_maximum_redirects sv"
  "wy_slot (sv\<lparr>wy_stream := g\<rparr>) = wy_slot sv" "wy_resolving (sv\<lparr>wy_stream := g\<rparr>) = wy_resolving sv" "wy_zlib (sv\<lparr>wy_stream := g\<rparr>) = wy_zlib sv"
  "wy_json (sv\<lparr>wy_stream := g\<rparr>) = wy_json sv" "wy_int (sv\<lparr>wy_stream := g\<rparr>) = wy_int sv"
  "wy_strptime (sv\<lparr>wy_stream := g\<rparr>) = wy_strptime sv" "wy_year (sv\<lparr>wy_stream := g\<rparr>) = wy_year sv"
  by simp_all

lemma text_stream:
  "decimal (sv\<lparr>wy_stream := g\<rparr>) = decimal sv" "folded (sv\<lparr>wy_stream := g\<rparr>) = folded sv" "strptime (sv\<lparr>wy_stream := g\<rparr>) = strptime sv"
  "strftime (sv\<lparr>wy_stream := g\<rparr>) = strftime sv" "int_of_text (sv\<lparr>wy_stream := g\<rparr>) = int_of_text sv"
  "has_sensitive_query_key (sv\<lparr>wy_stream := g\<rparr>) = has_sensitive_query_key sv" "load_availability (sv\<lparr>wy_stream := g\<rparr>) = load_availability sv"
  unfolding fun_eq_iff decimal_def folded_def strptime_def strftime_def int_of_text_def has_sensitive_query_key_def load_availability_def stream_sel
  by (rule allI refl)+

lemma capture_stream: "match_capture (sv\<lparr>wy_stream := g\<rparr>) = match_capture sv"
  unfolding fun_eq_iff match_capture_def text_stream by (rule allI refl)+

lemma locator_stream:
  "validate_capture_url (sv\<lparr>wy_stream := g\<rparr>) = validate_capture_url sv" "canonical_capture_url (sv\<lparr>wy_stream := g\<rparr>) = canonical_capture_url sv"
  "closest_capture (sv\<lparr>wy_stream := g\<rparr>) = closest_capture sv" "wayback_media_type (sv\<lparr>wy_stream := g\<rparr>) = wayback_media_type sv"
  unfolding fun_eq_iff validate_capture_url_def canonical_capture_url_def closest_capture_def wayback_media_type_def capture_stream text_stream
  by (rule allI refl)+

lemma document_stream:
  "parse_availability (sv\<lparr>wy_stream := g\<rparr>) = parse_availability sv" "public_original (sv\<lparr>wy_stream := g\<rparr>) = public_original sv"
  "archived_snapshot_of (sv\<lparr>wy_stream := g\<rparr>) = archived_snapshot_of sv" "check_framing (sv\<lparr>wy_stream := g\<rparr>) = check_framing sv"
  "gzip_chunk (sv\<lparr>wy_stream := g\<rparr>) = gzip_chunk sv"
  unfolding fun_eq_iff parse_availability_def public_original_def archived_snapshot_of_def check_framing_def gzip_chunk_def
    locator_stream text_stream stream_sel by (rule allI refl)+

lemma read_gzip_stream: "read_gzip (sv\<lparr>wy_stream := g\<rparr>) maximum ended r chunks st = read_gzip sv maximum ended r chunks st"
proof (induction chunks arbitrary: r st)
  case (Cons chunk chunks)
  show ?case unfolding read_gzip.simps document_stream Cons.IH by (rule refl)
qed (unfold read_gzip.simps stream_sel, rule refl)

lemma receive_stream:
  "receive (sv\<lparr>wy_stream := g\<rparr>) = receive sv" "pinned_destination (sv\<lparr>wy_stream := g\<rparr>) = pinned_destination sv"
  "take_slot (sv\<lparr>wy_stream := g\<rparr>) = take_slot sv" "approach (sv\<lparr>wy_stream := g\<rparr>) = approach sv"
  unfolding fun_eq_iff receive_def read_body_def approach_def pinned_destination_def take_slot_def document_stream read_gzip_stream stream_sel
  by (rule allI refl)+

text \<open>
  A request to an archive host: the normal form of a URL with exactly that HTTPS origin, on a
  connection pinned to public addresses.
\<close>

definition archive_request :: "string \<Rightarrow> string \<Rightarrow> string list \<Rightarrow> bool" where
  "archive_request host url addresses \<longleftrightarrow>
     (\<exists>current. require_exact_https_host current host = Inr () \<and> normalize_url current = Inr url) \<and>
     addresses \<noteq> [] \<and> (\<forall>a. a \<in> set addresses \<longrightarrow> is_public_address a = Inr True)"

definition same_exchanges :: "string set \<Rightarrow> wayback_services \<Rightarrow> wayback_services \<Rightarrow> bool" where
  "same_exchanges hosts sv sv' \<longleftrightarrow> (\<exists>g. sv' = sv\<lparr>wy_stream := g\<rparr> \<and>
     (\<forall>host agent url addresses t en. host \<in> hosts \<and> archive_request host url addresses \<longrightarrow>
        g agent url addresses t en = wy_stream sv agent url addresses t en))"

text \<open>The recorded addresses of the policy are public, as its decisions leave them.\<close>

definition pins_public :: "safe_url_policy \<Rightarrow> bool" where
  "pins_public sp \<longleftrightarrow> (\<forall>host addresses a. sp_validated_addresses sp host = Some addresses \<and> a \<in> set addresses \<longrightarrow> is_public_address a = Inr True)"

lemma pins_public_evaluate:
  assumes "evaluate ga sp target prev = Inr (n, ds, sp')" "pins_public sp"
  shows "pins_public sp'" "normalize_url target = Inr n"
proof -
  from assms(1) obtain p explicit bs where n: "normalize_url target = Inr n"
    and m: "map_res is_public_address (resolve ga (sr_hostname p) (effective_port (sr_scheme p) explicit)) = Inr bs" "False \<notin> set bs"
    and s: "sp' = sp\<lparr>sp_validated_addresses := (sp_validated_addresses sp)
       (sr_hostname p \<mapsto> resolve ga (sr_hostname p) (effective_port (sr_scheme p) explicit))\<rparr>" by (rule evaluateE) blast
  show "pins_public sp'" using assms(2) map_res_public [OF m] by (auto simp: pins_public_def s)
  show "normalize_url target = Inr n" by (rule n)
qed

lemma pinned_destination_ok:
  assumes "pinned_destination sv current previous st = (x, st')" "pins_public (wb_policy st)"
  shows "pins_public (wb_policy st')"
    "x = Inr (url, addresses) \<Longrightarrow> normalize_url current = Inr url \<and> addresses \<noteq> [] \<and> (\<forall>a. a \<in> set addresses \<longrightarrow> is_public_address a = Inr True)"
  using assms pins_public_evaluate
  by (auto simp: pinned_destination_def Let_def validated_addresses_def pins_public_def
      split: sum.splits policy_exc.splits prod.splits option.splits; blast)+

text \<open>Only the decision of the policy changes what it recorded.\<close>

lemma bind_policy:
  assumes "P (wb_policy (snd m))" "\<And>x s. P (wb_policy s) \<Longrightarrow> P (wb_policy (snd (f x s)))"
  shows "P (wb_policy (snd (bind_http m f)))"
  using assms by (cases m; cases "fst m") (auto simp: bind_http_def)

lemma step_policy [simp]:
  "wb_policy (snd (use_budget w d r st)) = wb_policy st" "wb_policy (snd (end_of_body e x st)) = wb_policy st"
  "wb_policy (snd (exchange sv url addresses t st)) = wb_policy st" "wb_policy (snd (take_slot sv host t st)) = wb_policy st"
  by (simp_all add: use_budget_def end_of_body_def exchange_def take_slot_def split: sum.splits option.splits prod.splits)

lemma read_identity_policy: "P (wb_policy st) \<Longrightarrow> P (wb_policy (snd (read_identity maximum ended consumed body chunks st)))"
  by (induction chunks arbitrary: consumed body st) (auto intro!: bind_policy [where P = P])

lemma gzip_chunk_policy: "P (wb_policy st) \<Longrightarrow> P (wb_policy (snd (gzip_chunk sv maximum chunk r st)))"
  by (auto simp: gzip_chunk_def Let_def intro!: bind_policy [where P = P] split: prod.splits option.splits)

lemma read_gzip_policy: "P (wb_policy st) \<Longrightarrow> P (wb_policy (snd (read_gzip sv maximum ended r chunks st)))"
  by (induction chunks arbitrary: r st) (auto simp: gzip_chunk_policy intro!: bind_policy [where P = P] split: prod.splits)

lemma follow_redirect_policy: "P (wb_policy st) \<Longrightarrow> P (wb_policy (snd (follow_redirect headers url bound last_hop st)))"
  by (auto simp: follow_redirect_def intro!: bind_policy [where P = P] split: option.splits)

lemma receive_policy: "P (wb_policy st) \<Longrightarrow> P (wb_policy (snd (receive sv url mb mr last_hop response st)))"
  by (auto simp: receive_def read_body_def intro!: bind_policy [where P = P] follow_redirect_policy [where P = P]
      read_gzip_policy [where P = P] read_identity_policy [where P = P])

lemma pinned_destination_public:
  "pins_public (wb_policy st) \<Longrightarrow> pins_public (wb_policy (snd (pinned_destination sv current previous st)))"
  using pinned_destination_ok(1) by (metis prod.collapse)

lemma approach_public: "pins_public (wb_policy st) \<Longrightarrow> pins_public (wb_policy (snd (approach sv host deadline started current previous st)))"
  by (auto simp: approach_def intro!: bind_policy [where P = pins_public] pinned_destination_public split: prod.splits)

lemma hop_public:
  "pins_public (wb_policy st) \<Longrightarrow> pins_public (wb_policy (snd (wayback_hop sv host mb mr deadline started last_hop current previous st)))"
  by (auto simp: wayback_hop_def intro!: bind_policy [where P = pins_public] approach_public receive_policy [where P = pins_public]
      split: prod.splits)

lemma get_loop_public:
  "pins_public (wb_policy st) \<Longrightarrow> pins_public (wb_policy (snd (get_loop sv host mb mr deadline started n current previous st)))"
proof (induction n arbitrary: current previous st)
  case (Suc n)
  note h = hop_public [OF Suc.prems, of sv host mb mr deadline started "n = 0" current previous]
  then show ?case using Suc.IH by (auto split: prod.splits sum.splits hop.splits)
qed simp

lemma approach_ok:
  assumes "approach sv host deadline started current previous st = (Inr (url, addresses, t), st')" "pins_public (wb_policy st)"
  shows "archive_request host url addresses"
proof -
  from assms(1) obtain target rem s1 s2 where x: "require_exact_https_host current host = Inr ()"
    and t: "take_slot sv target rem st = (Inr (), s1)" and p: "pinned_destination sv current previous s1 = (Inr (url, addresses), s2)"
    by (auto simp: approach_def bind_http_Inr)
  have "pins_public (wb_policy s1)" using step_policy(4) [of sv target rem st] assms(2) by (simp add: t)
  then show ?thesis using pinned_destination_ok(2) [OF p _ refl] x unfolding archive_request_def by blast
qed

lemma hop_same:
  assumes "same_exchanges hosts sv sv'" "host \<in> hosts" "pins_public (wb_policy st)"
  shows "wayback_hop sv' host mb mr deadline started last_hop current previous st = wayback_hop sv host mb mr deadline started last_hop current previous st"
proof -
  obtain g where g: "sv' = sv\<lparr>wy_stream := g\<rparr>"
    "\<And>agent url addresses t en. archive_request host url addresses \<Longrightarrow> g agent url addresses t en = wy_stream sv agent url addresses t en"
    using assms(1,2) unfolding same_exchanges_def by blast
  obtain x st1 where a: "approach sv host deadline started current previous st = (x, st1)" by (rule prod.exhaust)
  show ?thesis
  proof (cases x)
    case (Inr y)
    then obtain url addresses t where y: "x = Inr (url, addresses, t)" by (metis prod_cases3)
    have "exchange (sv\<lparr>wy_stream := g\<rparr>) url addresses t st1 = exchange sv url addresses t st1"
      using g(2) [OF approach_ok [OF a [unfolded y] assms(3)]] by (simp add: exchange_def)
    then show ?thesis by (simp add: wayback_hop_def g(1) receive_stream a y)
  qed (simp add: wayback_hop_def g(1) receive_stream a)
qed

lemma get_loop_same:
  assumes "same_exchanges hosts sv sv'" "host \<in> hosts" "pins_public (wb_policy st)"
  shows "get_loop sv' host mb mr deadline started n current previous st = get_loop sv host mb mr deadline started n current previous st"
  using assms(3)
proof (induction n arbitrary: current previous st)
  case (Suc n)
  obtain x st1 where h: "wayback_hop sv host mb mr deadline started (n = 0) current previous st = (x, st1)" by (rule prod.exhaust)
  have "pins_public (wb_policy st1)" using hop_public [OF Suc.prems] h by (metis snd_conv)
  then show ?case by (simp add: hop_same [OF assms(1,2) Suc.prems] h Suc.IH split: sum.splits hop.splits)
qed simp

lemma snd_within_deadline [simp]: "snd (within_deadline message m) = snd m"
  by (cases m; cases "fst m") (auto simp: within_deadline_def)

lemma wayback_get_same:
  assumes "same_exchanges hosts sv sv'" "normal_host host \<in> hosts" "pins_public (wb_policy st)"
  shows "wayback_get sv' url host mb mr deadline st = wayback_get sv url host mb mr deadline st"
    and "pins_public (wb_policy (snd (wayback_get sv url host mb mr deadline st)))"
proof -
  obtain g where g: "sv' = sv\<lparr>wy_stream := g\<rparr>" using assms(1) unfolding same_exchanges_def by blast
  have m: "wy_maximum_redirects sv' = wy_maximum_redirects sv" by (simp add: g)
  show "wayback_get sv' url host mb mr deadline st = wayback_get sv url host mb mr deadline st"
    unfolding wayback_get_def get_within_deadline_def m
    by (auto simp: Let_def bind_run_def get_loop_same [OF assms] split: sum.splits)
  show "pins_public (wb_policy (snd (wayback_get sv url host mb mr deadline st)))"
    by (auto simp: wayback_get_def get_within_deadline_def bind_run_def Let_def assms(3) get_loop_public [OF assms(3)] split: sum.splits)
qed

lemma archive_hosts: "normal_host AVAILABILITY_HOST = ''archive.org''" "normal_host SNAPSHOT_HOST = ''web.archive.org''"
  by code_simp+

lemma find_capture_same:
  assumes "same_exchanges {''archive.org'', ''web.archive.org''} sv sv'" "pins_public (wb_policy st)"
  shows "find_capture sv' (wayback_get sv') original mb mr deadline st = find_capture sv (wayback_get sv) original mb mr deadline st"
    and "pins_public (wb_policy (snd (find_capture sv (wayback_get sv) original mb mr deadline st)))"
proof -
  obtain g where g: "sv' = sv\<lparr>wy_stream := g\<rparr>" using assms(1) unfolding same_exchanges_def by blast
  note w = wayback_get_same [OF assms(1) _ assms(2), where host = AVAILABILITY_HOST, unfolded archive_hosts]
  show "find_capture sv' (wayback_get sv') original mb mr deadline st = find_capture sv (wayback_get sv) original mb mr deadline st"
    unfolding find_capture_def w(1) [OF insertI1] by (simp add: g document_stream)
  show "pins_public (wb_policy (snd (find_capture sv (wayback_get sv) original mb mr deadline st)))"
    using w(2) [OF insertI1, of "AVAILABILITY_ENDPOINT @ CHR ''?'' # urlencode [(''url'', original)]" "min MAX_AVAILABILITY_BYTES mb" "Some mr" deadline]
    by (auto simp: find_capture_def Let_def bind_run_def split: sum.splits prod.splits)
qed

text \<open>
  C22: the connector talks to the archive only, and only about public URLs. Its behaviour does not
  depend on the network except for requests to \<^verbatim>\<open>archive.org\<close> and \<^verbatim>\<open>web.archive.org\<close>: exact HTTPS
  origins, checked again on every redirect, on connections pinned to public addresses. For a URL
  that is not public (a sensitive query, user information, an overlong or invalid URL) it does not
  depend on the network at all.
\<close>

theorem wayback_stays_on_archive:
  assumes "pins_public (wb_policy st)" "sv' = sv\<lparr>wy_stream := g\<rparr>"
    "\<And>original. public_original sv url = Inr original \<Longrightarrow> same_exchanges {''archive.org'', ''web.archive.org''} sv sv'"
  shows "fetch_snapshot_with_usage sv' (wayback_get sv') url maximum_bytes maximum_redirects deadline st =
    fetch_snapshot_with_usage sv (wayback_get sv) url maximum_bytes maximum_redirects deadline st"
proof -
  have p: "public_original sv' = public_original sv" "archived_snapshot_of sv' = archived_snapshot_of sv"
    by (simp_all add: assms(2) document_stream)
  have "fetch_snapshot_within_deadline sv' (wayback_get sv') url maximum_bytes maximum_redirects deadline st =
    fetch_snapshot_within_deadline sv (wayback_get sv) url maximum_bytes maximum_redirects deadline st"
  proof (cases "public_original sv url")
    case (Inr original)
    note same = assms(3) [OF Inr]
    obtain x st1 where f: "find_capture sv (wayback_get sv) original maximum_bytes maximum_redirects deadline st = (x, st1)" by (rule prod.exhaust)
    have "pins_public (wb_policy st1)" using find_capture_same(2) [OF same assms(1)] f by (metis snd_conv)
    note w = wayback_get_same(1) [OF same _ this, where host = SNAPSHOT_HOST, unfolded archive_hosts, OF insertI2, OF insertI1]
    show ?thesis unfolding fetch_snapshot_within_deadline_def p Inr bind_run_simps find_capture_same(1) [OF same assms(1)] f
      by (cases x) (auto simp: bind_run_def Let_def w split: sum.splits)
  qed (simp add: fetch_snapshot_within_deadline_def p)
  then show ?thesis by (auto simp: fetch_snapshot_with_usage_def bind_run_def split: sum.splits)
qed

subsection \<open>A capture\<close>

definition availability_document :: pyval where
  "availability_document = VDict [(''archived_snapshots'', VDict [(''closest'', VDict
     [(''available'', VBool True), (''status'', VStr ''200''), (''timestamp'', VStr ''20240229120000''),
      (''url'', VStr ''http://web.archive.org/web/20240229120000/https://a.org/'')])])]"

definition archive_stream :: "string \<Rightarrow> string \<Rightarrow> string list \<Rightarrow> rat \<Rightarrow> env \<Rightarrow> (http_failure + raw_response) \<times> env" where
  "archive_stream agent url addresses t en =
     (Inr (if py_startswith url ''https://archive.org/'' then
        \<lparr>rw_status_code = 200, rw_url = url, rw_headers = [], rw_chunks = [''{}''], rw_end = None\<rparr>
      else \<lparr>rw_status_code = 200, rw_url = url, rw_headers = [(''Content-Type'', ''text/plain'')], rw_chunks = [''hi''], rw_end = None\<rparr>), en)"

definition sample_wayback :: wayback_services where
  "sample_wayback = \<lparr>wy_resolver = public_resolver, wy_unicode = \<lparr>uc_space = (\<lambda>n. n = 32), uc_word = (\<lambda>n. 97 \<le> n \<and> n \<le> 122),
     uc_digit = (\<lambda>n. 48 \<le> n \<and> n \<le> 57), uc_casefold = (\<lambda>x. x)\<rparr>, wy_user_agent = ''fetech'', wy_maximum_redirects = 4,
     wy_slot = (\<lambda>_ _ en. (Inr (), en)), wy_resolving = (\<lambda>_ en. en), wy_stream = archive_stream,
     wy_zlib = (\<lambda>_. \<lparr>zs_output = None, zs_eof = False, zs_unused_data = [], zs_unconsumed_tail = []\<rparr>),
     wy_json = (\<lambda>_. Inr availability_document), wy_int = (\<lambda>_. None), wy_strptime = (\<lambda>_. None), wy_year = nat_to_str\<rparr>"

definition wayback_start :: wayback_run where
  "wayback_start = \<lparr>wb_policy = fresh_policy, wb_usage = SnapshotConnectorUsage, wb_env = \<lparr>en_clock = 0, en_next_id = 0\<rparr>\<rparr>"

definition sample_capture :: archived_snapshot where
  "sample_capture = \<lparr>as_original_url = ''https://a.org/'', as_snapshot_url = ''https://web.archive.org/web/20240229120000id_/https://a.org/'',
     as_body = ''hi'', as_media_type = ''text/plain'', as_captured_at = utc 1709208000, as_etag = None, as_last_modified = None,
     as_auxiliary_bytes = 2\<rparr>"

definition sample_usage :: connector_usage where
  "sample_usage = \<lparr>us_wire_bytes = 4, us_decompressed_bytes = 4, us_redirects = 0\<rparr>"

lemma sample_fetches:
  "(case fetch_snapshot_with_usage sample_wayback (wayback_get sample_wayback) ''https://a.org'' 100 4 10 wayback_start of
     (x, st) \<Rightarrow> x = Inr sample_capture \<and> wb_usage st = sample_usage \<and> wb_env st = wb_env wayback_start)"
  by code_simp

theorem wayback_snapshot_faithful_witness:
  "\<exists>s st. fetch_snapshot_with_usage sample_wayback (wayback_get sample_wayback) ''https://a.org'' 100 4 10 wayback_start = (Inr s, st) \<and>
     as_body s \<noteq> [] \<and> int (length (as_body s)) \<le> 100 \<and> us_wire_bytes (wb_usage st) \<le> 100"
proof -
  obtain st where f: "fetch_snapshot_with_usage sample_wayback (wayback_get sample_wayback) ''https://a.org'' 100 4 10 wayback_start = (Inr sample_capture, st)"
    using sample_fetches by (auto split: prod.splits)
  show ?thesis using wayback_snapshot_faithful [OF f] f by blast
qed

theorem wayback_meets_contract_witness:
  "\<exists>fetch s u en. wayback_connector sample_wayback fresh_policy = UsageReportingConnector fetch \<and>
     fetch ''https://a.org'' 100 4 10 \<lparr>en_clock = 0, en_next_id = 0\<rparr> = (Inr (Some s), u, en) \<and> reconcile_usage (Some s) 100 u = (Inr (), u)"
proof -
  obtain fetch where c: "wayback_connector sample_wayback fresh_policy = UsageReportingConnector fetch" by (simp add: wayback_connector_def)
  have f: "fetch ''https://a.org'' 100 4 10 \<lparr>en_clock = 0, en_next_id = 0\<rparr> = (Inr (Some sample_capture), sample_usage, wb_env wayback_start)"
    using c sample_fetches by (auto simp: wayback_connector_def wayback_start_def split: prod.splits)
  show ?thesis using wayback_meets_contract [OF c f] c f by blast
qed

definition unpinned_fails :: "string \<Rightarrow> string \<Rightarrow> string list \<Rightarrow> rat \<Rightarrow> env \<Rightarrow> (http_failure + raw_response) \<times> env" where
  "unpinned_fails agent url addresses t en =
     (if addresses = [] then (Inl (HttpFailed (adapter_error ''no pin'')), en) else archive_stream agent url addresses t en)"

theorem wayback_stays_on_archive_witness:
  "fetch_snapshot_with_usage (sample_wayback\<lparr>wy_stream := unpinned_fails\<rparr>) (wayback_get (sample_wayback\<lparr>wy_stream := unpinned_fails\<rparr>)) ''https://a.org'' 100 4 10 wayback_start
   = fetch_snapshot_with_usage sample_wayback (wayback_get sample_wayback) ''https://a.org'' 100 4 10 wayback_start"
proof (rule wayback_stays_on_archive)
  show "pins_public (wb_policy wayback_start)" by (simp add: pins_public_def wayback_start_def fresh_policy_def)
  show "same_exchanges {''archive.org'', ''web.archive.org''} sample_wayback (sample_wayback\<lparr>wy_stream := unpinned_fails\<rparr>)"
    unfolding same_exchanges_def
    by (rule exI [of _ unpinned_fails]) (simp add: unpinned_fails_def archive_request_def sample_wayback_def)
qed (rule refl)

end
