(* ===== verification/Variants_Adapter.thy ===== *)
theory Variants_Adapter
  imports Variants Executor_Correct Storage Quality
begin

section \<open>The variant adapter: adapters/variants.py\<close>

text \<open>
  The adapter that records the URL variants of a target and tries them when the source is not
  usable. The HTTP adapter is a parameter: it runs on a context of its own and may leave anything in
  it. Parameters are also the content store, \<^verbatim>\<open>json.dumps\<close>, and the visible text that the reader
  extracts from HTML (\<^verbatim>\<open>adapters/reader.py\<close>).
\<close>

subsection \<open>State\<close>

record variant_services =
  va_http :: "plan_node \<Rightarrow> execution_context \<Rightarrow> env \<Rightarrow> (py_exc + unit) \<times> execution_context \<times> env"
  va_put :: "string \<Rightarrow> py_exc + string \<times> string \<times> nat"
  va_read :: "string \<Rightarrow> int option \<Rightarrow> py_exc + string"
  va_dumps :: "(string \<times> string option) list \<Rightarrow> string"
  va_visible_text :: "string \<Rightarrow> code_points"
  va_unicode :: unicode

record variant_run =
  vr_context :: execution_context
  vr_env :: env

definition in_variant_context :: "(execution_context \<Rightarrow> execution_context) \<Rightarrow> variant_run \<Rightarrow> variant_run" where
  "in_variant_context f run = run\<lparr>vr_context := f (vr_context run)\<rparr>"

subsection \<open>Candidates\<close>

definition observed_candidate :: "execution_context \<Rightarrow> string \<Rightarrow> string option" where
  "observed_candidate ctx capability_id =
     (case List.map_filter (\<lambda>x. if co_capability_id x = capability_id
          then (case py_get (co_details x) ''candidate'' VNone of VStr s \<Rightarrow> Some s | _ \<Rightarrow> None) else None)
        (rev (xc_capability_outcomes ctx)) of
        [] \<Rightarrow> None
      | s # _ \<Rightarrow> Some s)"

definition sanitize_candidate :: "fetch_request \<Rightarrow> string \<times> string option \<Rightarrow> (string \<times> string option) res" where
  "sanitize_candidate request c =
     (case truthy (snd c) of
        None \<Rightarrow> Inr (fst c, None)
      | Some url \<Rightarrow> bind_res (sanitize_url_for_request url request) (\<lambda>s. Inr (fst c, Some s)))"

text \<open>The outcome of one candidate, given with its sanitised form.\<close>

definition record_candidate :: "string \<times> string option \<Rightarrow> execution_context \<Rightarrow> execution_context" where
  "record_candidate c ctx =
     (if fst c = ''https_to_http''
      then record_outcome ctx (fst c) CO_BLOCKED ''variants'' [(''reason'', VStr ''HTTPS downgrade candidates are forbidden'')]
      else record_outcome ctx (fst c) (if snd c = None then CO_NOT_APPLICABLE else CO_OBSERVED) ''variants''
             [(''candidate'', case snd c of None \<Rightarrow> VNone | Some s \<Rightarrow> VStr s)])"

definition begin_variants :: "plan_node \<Rightarrow> variant_run \<Rightarrow> (py_exc + fetch_attempt) \<times> variant_run" where
  "begin_variants node run =
     (let ctx = vr_context run; en = vr_env run in
      if pn_capability_id node \<noteq> ''candidate_url_expansion''
      then (Inl (adapter_error (''variant adapter cannot execute '' @ pn_capability_id node)), run)
      else if xc_resources ctx = [] then (Inl (adapter_error ''URL alternatives require an acquired source resource''), run)
      else case sanitize_url_for_request (rq_target (xc_request ctx)) (xc_request ctx) of
          Inl e \<Rightarrow> (Inl (value_exc e), run)
        | Inr destination \<Rightarrow>
            let attempt = \<lparr>at_attempt_id = en_next_id en, at_capability_id = pn_capability_id node, at_adapter_version = ''0.3.0a0'',
                  at_started_at = en_clock en, at_finished_at = None, at_sanitized_destination = destination, at_status = AT_RUNNING,
                  at_http_status = None, at_bytes_received = 0, at_parser = None, at_artifact_ids = [], at_failure_code = None,
                  at_warnings = [], at_consumed_budget = []\<rparr> in
            (Inr attempt, in_variant_context (\<lambda>c. c\<lparr>xc_attempts := xc_attempts c @ [attempt]\<rparr>) (run\<lparr>vr_env := en\<lparr>en_next_id := en_next_id en + 1\<rparr>\<rparr>)))"

text \<open>What is recorded before any alternative is fetched.\<close>

definition record_variants ::
  "variant_services \<Rightarrow> fetch_attempt \<Rightarrow> variant_run \<Rightarrow> (py_exc + (string \<times> string option) list) \<times> variant_run" where
  "record_variants sv attempt run =
     (let ctx = vr_context run; request = xc_request ctx; en = vr_env run in
      case bind_res (lift_exc (generate_variant_map (rq_target request) (rq_language request) (rq_region request) (observed_candidate ctx ''canonical_redirect'')))
             (\<lambda>candidates.
           bind_res (lift_exc (map_res (sanitize_candidate request) candidates)) (\<lambda>sanitized.
           bind_res (va_put sv (va_dumps sv sanitized)) (\<lambda>stored. Inr (candidates, sanitized, stored)))) of
        Inl e \<Rightarrow> (Inl e, run)
      | Inr (candidates, sanitized, uri, digest, byte_size) \<Rightarrow>
          let a = build_artifact (en_next_id en) ''derived'' ''url_candidates'' ''application/json'' uri digest byte_size (hd (xc_resources ctx))
                    ''builtin-variants/0.2''
                    (default_quality\<lparr>qa_page_state := PS_OK, qa_score := 1, qa_completeness := 1\<rparr>)
                    (case latest_artifact ctx [''raw''] of None \<Rightarrow> [] | Some p \<Rightarrow> [p])
                    (List.map_filter (\<lambda>(c, url). if truthy url = None then None else Some (''capability:'' @ c)) candidates);
              ctx1 = fold record_candidate sanitized (ctx\<lparr>xc_artifacts := xc_artifacts ctx @ [a]\<rparr>);
              ctx2 = record_outcome ctx1 ''candidate_url_expansion'' CO_APPLIED ''variants''
                [(''candidates'', VInt (int (length (filter (\<lambda>(_, url). url \<noteq> None) candidates))))];
              ctx3 = ctx2\<lparr>xc_attempts := butlast (xc_attempts ctx2) @ [attempt\<lparr>at_status := AT_SUCCEEDED, at_finished_at := Some (en_clock en),
                at_parser := Some ''deterministic-variants'', at_artifact_ids := [ar_artifact_id a]\<rparr>]\<rparr> in
          (Inr candidates, \<lparr>vr_context = ctx3, vr_env = en\<lparr>en_next_id := en_next_id en + 1\<rparr>\<rparr>))"

subsection \<open>Alternatives\<close>

definition alternatives_allowed :: "fetch_request \<Rightarrow> bool res" where
  "alternatives_allowed request =
     (if rq_privacy_profile request \<noteq> ''public'' \<or> truthy (rq_authentication_ref request) \<noteq> None then Inr False
      else bind_res (sanitize_url False (rq_target request)) (\<lambda>s. Inr (s = rq_target request)))"

definition source_is_usable :: "variant_services \<Rightarrow> execution_context \<Rightarrow> py_exc + bool" where
  "source_is_usable sv ctx =
     (case latest_artifact ctx [''raw''] of
        None \<Rightarrow> Inr False
      | Some raw \<Rightarrow>
          if ar_media_type raw \<notin> {''text/html'', ''application/xhtml+xml''} then Inr (qa_accepted (ar_quality raw))
          else bind_res (va_read sv (ar_cas_uri raw) (Some (b_decompressed_bytes (rq_budget (xc_request ctx))))) (\<lambda>body.
            Inr (qa_accepted (assess_text (va_unicode sv) (rq_language (xc_request ctx)) (va_visible_text sv (utf8_replace body))))))"

definition remaining_transfer_budget :: "execution_context \<Rightarrow> resource_budget option" where
  "remaining_transfer_budget ctx =
     (let b = rq_budget (xc_request ctx);
          used = (\<lambda>name. sum_list (map (\<lambda>a. py_int (consumption name a)) (xc_attempts ctx)));
          remaining_bytes = b_bytes b - used ''bytes''; remaining_decompressed = b_decompressed_bytes b - used ''decompressed_bytes'' in
      if remaining_bytes \<le> 0 \<or> remaining_decompressed \<le> 0 then None
      else Some (b\<lparr>b_attempts := 1, b_bytes := remaining_bytes, b_decompressed_bytes := remaining_decompressed\<rparr>))"

definition alternative_request :: "fetch_request \<Rightarrow> string \<Rightarrow> resource_budget \<Rightarrow> fetch_request" where
  "alternative_request request candidate b =
     request\<lparr>rq_target := candidate, rq_intent := ''retrieve'', rq_output_requirements := [''raw_html''], rq_budget := b\<rparr>"

definition is_caught :: "py_exc \<Rightarrow> bool" where
  "is_caught e \<longleftrightarrow> is_adapter_execution_error (ex_class e) \<or> ex_class e \<in> {ExcPolicyBlocked, ExcValue}"

definition merge_failure :: "string \<Rightarrow> py_exc \<Rightarrow> execution_context \<Rightarrow> execution_context \<Rightarrow> execution_context" where
  "merge_failure capability_id e sub ctx =
     record_outcome (ctx\<lparr>xc_diagnostics := xc_diagnostics ctx @ xc_diagnostics sub, xc_attempts := xc_attempts ctx @ xc_attempts sub,
         xc_policy_decisions := xc_policy_decisions ctx @ xc_policy_decisions sub\<rparr>)
       capability_id CO_FAILED ''variants'' [(''reason'', VStr (ex_type_name e))]"

text \<open>The authority of what an alternative returned is the target of the run.\<close>

definition merge_success :: "execution_context \<Rightarrow> execution_context \<Rightarrow> py_exc + execution_context" where
  "merge_success sub ctx =
     bind_res (lift_exc (map_res (\<lambda>r. bind_res (sanitize_url_for_request (rq_target (xc_request ctx)) (xc_request ctx))
         (\<lambda>authority. Inr (r\<lparr>rs_authority_url := Some authority\<rparr>))) (xc_resources sub))) (\<lambda>resources.
       Inr (ctx\<lparr>xc_resources := xc_resources ctx @ resources, xc_artifacts := xc_artifacts ctx @ xc_artifacts sub,
         xc_attempts := xc_attempts ctx @ xc_attempts sub, xc_capability_outcomes := xc_capability_outcomes ctx @ xc_capability_outcomes sub,
         xc_policy_decisions := xc_policy_decisions ctx @ xc_policy_decisions sub, xc_diagnostics := xc_diagnostics ctx @ xc_diagnostics sub\<rparr>))"

text \<open>One alternative: whether the loop goes on.\<close>

definition try_candidate ::
  "variant_services \<Rightarrow> string \<Rightarrow> string \<Rightarrow> resource_budget \<Rightarrow> variant_run \<Rightarrow> (py_exc + bool) \<times> variant_run" where
  "try_candidate sv capability_id candidate b run =
     (let ctx = vr_context run in
      case va_http sv (PlanNode (''variant:'' @ capability_id) ''http_get'' ''http'' [])
             (ExecutionContext (xc_run_id ctx) (alternative_request (xc_request ctx) candidate b)) (vr_env run) of
        (Inl e, sub, en) \<Rightarrow>
          if is_caught e then (Inr True, \<lparr>vr_context = merge_failure capability_id e sub ctx, vr_env = en\<rparr>)
          else (Inl e, run\<lparr>vr_env := en\<rparr>)
      | (Inr _, sub, en) \<Rightarrow>
          (case merge_success sub ctx of
             Inl e \<Rightarrow> (Inl e, run\<lparr>vr_env := en\<rparr>)
           | Inr ctx1 \<Rightarrow>
               (case latest_artifact sub [''raw''] of
                  Some raw \<Rightarrow>
                    if qa_accepted (ar_quality raw)
                    then (Inr False, \<lparr>vr_context = record_outcome ctx1 capability_id CO_APPLIED ''variants'' [(''selected'', VBool True)], vr_env = en\<rparr>)
                    else (Inr True, \<lparr>vr_context = ctx1, vr_env = en\<rparr>)
                | None \<Rightarrow> (Inr True, \<lparr>vr_context = ctx1, vr_env = en\<rparr>))))"

fun try_candidates ::
  "variant_services \<Rightarrow> string set \<Rightarrow> (string \<times> string option) list \<Rightarrow> variant_run \<Rightarrow> (py_exc + unit) \<times> variant_run" where
  "try_candidates sv attempted [] run = (Inr (), run)"
| "try_candidates sv attempted ((capability_id, candidate) # candidates) run =
     (case truthy candidate of
        None \<Rightarrow> try_candidates sv attempted candidates run
      | Some url \<Rightarrow>
          if url \<in> attempted then try_candidates sv attempted candidates run
          else if b_attempts (rq_budget (xc_request (vr_context run))) \<le> int (length (xc_attempts (vr_context run))) then (Inr (), run)
          else (case remaining_transfer_budget (vr_context run) of
              None \<Rightarrow> (Inr (), run)
            | Some b \<Rightarrow>
                bind_run (try_candidate sv capability_id url b run) (\<lambda>go_on run1.
                  if go_on then try_candidates sv (insert url attempted) candidates run1 else (Inr (), run1))))"

definition variants_execute :: "variant_services \<Rightarrow> plan_node \<Rightarrow> variant_run \<Rightarrow> (py_exc + unit) \<times> variant_run" where
  "variants_execute sv node run0 =
     bind_run (begin_variants node run0) (\<lambda>attempt run.
     bind_run (record_variants sv attempt run) (\<lambda>candidates run1.
     bind_run (lift_exc (alternatives_allowed (xc_request (vr_context run1))), run1) (\<lambda>allowed run2.
     if \<not> allowed
     then (Inr (), in_variant_context (\<lambda>c. record_outcome c ''candidate_url_expansion'' CO_BLOCKED ''variants''
             [(''reason'', VStr ''alternative fetching is disabled for private, authenticated, or secret URLs'')]) run2)
     else bind_run (source_is_usable sv (vr_context run2), run2) (\<lambda>usable run3.
       if usable then (Inr (), run3)
       else try_candidates sv {rq_target (xc_request (vr_context run3))} candidates run3))))"

section \<open>Correctness of the variant adapter\<close>

subsection \<open>Requests\<close>

lemma merge_failure_request [simp]: "xc_request (merge_failure c e sub ctx) = xc_request ctx"
  by (simp add: merge_failure_def)

lemma merge_success_request: "merge_success sub ctx = Inr ctx1 \<Longrightarrow> xc_request ctx1 = xc_request ctx"
  by (auto simp: merge_success_def)

lemma try_candidate_request: "xc_request (vr_context (snd (try_candidate sv c url b run))) = xc_request (vr_context run)"
  by (auto simp: try_candidate_def Let_def dest: merge_success_request split: prod.splits sum.splits option.splits)

lemma fold_record_candidate [simp]: "xc_request (fold record_candidate cs ctx) = xc_request ctx" "xc_attempts (fold record_candidate cs ctx) = xc_attempts ctx"
  by (induction cs arbitrary: ctx) (simp_all add: record_candidate_def)

lemma record_outcome_run_id [simp]: "xc_run_id (record_outcome ctx c status adapter d) = xc_run_id ctx"
  by (simp add: record_outcome_def)

lemma fold_record_candidate_run_id [simp]: "xc_run_id (fold record_candidate cs ctx) = xc_run_id ctx"
  by (induction cs arbitrary: ctx) (simp_all add: record_candidate_def)

lemma begin_variants_Inr:
  assumes "begin_variants node run = (Inr attempt, run1)"
  shows "xc_request (vr_context run1) = xc_request (vr_context run)" "xc_attempts (vr_context run1) = xc_attempts (vr_context run) @ [attempt]"
    "at_consumed_budget attempt = []" "xc_run_id (vr_context run1) = xc_run_id (vr_context run)"
    "xc_capability_outcomes (vr_context run1) = xc_capability_outcomes (vr_context run)"
  using assms by (auto simp: begin_variants_def in_variant_context_def Let_def split: if_splits sum.splits)

lemma record_variants_Inr:
  assumes "record_variants sv attempt run = (Inr candidates, run1)"
  shows "xc_request (vr_context run1) = xc_request (vr_context run)"
    "\<exists>a. xc_attempts (vr_context run1) = butlast (xc_attempts (vr_context run)) @ [a] \<and> at_consumed_budget a = at_consumed_budget attempt"
    "generate_variant_map (rq_target (xc_request (vr_context run))) (rq_language (xc_request (vr_context run)))
       (rq_region (xc_request (vr_context run))) (observed_candidate (vr_context run) ''canonical_redirect'') = Inr candidates"
    "xc_run_id (vr_context run1) = xc_run_id (vr_context run)"
  using assms by (auto simp: record_variants_def Let_def split: sum.splits)

text \<open>The bytes that a list of attempts has used, as the adapter counts them.\<close>

definition spent_bytes :: "string \<Rightarrow> fetch_attempt list \<Rightarrow> int" where
  "spent_bytes name attempts = sum_list (map (\<lambda>a. py_int (consumption name a)) attempts)"

lemma spent_bytes_simps [simp]:
  "spent_bytes name [] = 0" "spent_bytes name (xs @ ys) = spent_bytes name xs + spent_bytes name ys"
  by (simp_all add: spent_bytes_def)

lemma spent_bytes_idle [simp]: "at_consumed_budget a = [] \<Longrightarrow> spent_bytes name [a] = 0"
  by (simp add: spent_bytes_def consumption_def py_int_def)

text \<open>
  A variant of the target of a run: one that is generated from the target, the language, the region
  and the canonical URL that the run has observed. The call for it: a plain retrieval in a context of
  its own, with the request of the run but for the target, what is asked of it, one attempt, and the
  budget less the \<^term>\<open>x\<close> bytes and \<^term>\<open>y\<close> decompressed bytes that are used.
\<close>

definition variant_of :: "execution_context \<Rightarrow> string \<Rightarrow> string \<Rightarrow> bool" where
  "variant_of ctx c url \<longleftrightarrow> (\<exists>candidates. generate_variant_map (rq_target (xc_request ctx)) (rq_language (xc_request ctx))
     (rq_region (xc_request ctx)) (observed_candidate ctx ''canonical_redirect'') = Inr candidates \<and> (c, Some url) \<in> set candidates)"

definition variant_call :: "execution_context \<Rightarrow> string \<Rightarrow> string \<Rightarrow> int \<Rightarrow> int \<Rightarrow> plan_node \<times> execution_context" where
  "variant_call ctx c url x y =
     (let request = xc_request ctx; b = rq_budget request in
      (PlanNode (''variant:'' @ c) ''http_get'' ''http'' [],
       ExecutionContext (xc_run_id ctx) (request\<lparr>rq_target := url, rq_intent := ''retrieve'', rq_output_requirements := [''raw_html''],
         rq_budget := b\<lparr>b_attempts := 1, b_bytes := b_bytes b - x, b_decompressed_bytes := b_decompressed_bytes b - y\<rparr>\<rparr>)))"

text \<open>
  What a run has tried and used when the next variant is due: at first the target, the attempts of
  the run and the one of the adapter itself, which uses nothing; then, for each call, its URL and the
  attempts that the HTTP adapter has left in the context of the call.
\<close>

inductive variants_tried :: "variant_services \<Rightarrow> execution_context \<Rightarrow> string set \<Rightarrow> nat \<Rightarrow> int \<Rightarrow> int \<Rightarrow> bool"
  for sv :: variant_services and ctx :: execution_context where
  start: "variants_tried sv ctx {rq_target (xc_request ctx)} (length (xc_attempts ctx) + 1)
    (spent_bytes ''bytes'' (xc_attempts ctx)) (spent_bytes ''decompressed_bytes'' (xc_attempts ctx))"
| call: "variants_tried sv ctx tried n x y \<Longrightarrow> variant_of ctx c url \<Longrightarrow> url \<notin> tried \<Longrightarrow>
    variant_call ctx c url x y = (node, sub) \<Longrightarrow> va_http sv node sub en = (r, sub', en') \<Longrightarrow>
    variants_tried sv ctx (insert url tried) (n + length (xc_attempts sub'))
      (x + spent_bytes ''bytes'' (xc_attempts sub')) (y + spent_bytes ''decompressed_bytes'' (xc_attempts sub'))"








lemma merge_success_Inr:
  assumes "merge_success sub ctx = Inr ctx1"
  shows "xc_attempts ctx1 = xc_attempts ctx @ xc_attempts sub" "xc_request ctx1 = xc_request ctx" "xc_run_id ctx1 = xc_run_id ctx"
  using assms by (auto simp: merge_success_def)






subsection \<open>Attempts\<close>

lemma merge_failure_attempts: "length (xc_attempts (merge_failure c e sub ctx)) = length (xc_attempts ctx) + length (xc_attempts sub)"
  by (simp add: merge_failure_def)

lemma merge_success_attempts:
  "merge_success sub ctx = Inr ctx1 \<Longrightarrow> length (xc_attempts ctx1) = length (xc_attempts ctx) + length (xc_attempts sub)"
  by (simp add: merge_success_Inr(1))

lemma try_candidate_attempts:
  assumes "\<And>n sub en. xc_attempts sub = [] \<Longrightarrow> length (xc_attempts (fst (snd (va_http sv n sub en)))) \<le> 1"
  shows "length (xc_attempts (vr_context (snd (try_candidate sv c url b run)))) \<le> length (xc_attempts (vr_context run)) + 1"
proof -
  let ?n = "PlanNode (''variant:'' @ c) ''http_get'' ''http'' []"
  let ?sub = "ExecutionContext (xc_run_id (vr_context run)) (alternative_request (xc_request (vr_context run)) url b)"
  obtain x sub en where h: "va_http sv ?n ?sub (vr_env run) = (x, sub, en)" by (metis prod_cases3)
  have l: "length (xc_attempts sub) \<le> 1" using assms [of ?sub ?n "vr_env run"] h by (simp add: ExecutionContext_def)
  show ?thesis
  proof (cases x)
    case (Inl e)
    show ?thesis unfolding try_candidate_def Let_def h Inl using l by (simp add: merge_failure_attempts)
  next
    case (Inr u)
    show ?thesis
    proof (cases "merge_success sub (vr_context run)")
      case (Inr ctx1)
      show ?thesis unfolding try_candidate_def Let_def h \<open>x = Inr u\<close> using l merge_success_attempts [OF Inr] by (simp add: Inr split: option.split)
    qed (simp add: try_candidate_def Let_def h [simplified] \<open>x = Inr u\<close>)
  qed
qed

lemma try_candidates_attempts:
  assumes "\<And>n sub en. xc_attempts sub = [] \<Longrightarrow> length (xc_attempts (fst (snd (va_http sv n sub en)))) \<le> 1"
  shows "int (length (xc_attempts (vr_context (snd (try_candidates sv attempted candidates run)))))
    \<le> max (int (length (xc_attempts (vr_context run)))) (b_attempts (rq_budget (xc_request (vr_context run))))"
proof (induction candidates arbitrary: attempted run)
  case (Cons c candidates)
  obtain capability_id candidate where c: "c = (capability_id, candidate)" by (rule prod.exhaust)
  have "int (length (xc_attempts (vr_context (snd (try_candidates sv a candidates r)))))
      \<le> max (int (length (xc_attempts (vr_context run)))) (b_attempts (rq_budget (xc_request (vr_context run))))"
    if t: "try_candidate sv capability_id url b run = (x, r)"
      and l: "\<not> b_attempts (rq_budget (xc_request (vr_context run))) \<le> int (length (xc_attempts (vr_context run)))" for a url b x r
    using Cons.IH [of a r] try_candidate_attempts [OF assms, of capability_id url b run]
      try_candidate_request [of sv capability_id url b run] t l by simp
  moreover have "int (length (xc_attempts (vr_context r))) \<le> max (int (length (xc_attempts (vr_context run)))) (b_attempts (rq_budget (xc_request (vr_context run))))"
    if t: "try_candidate sv capability_id url b run = (x, r)"
      and l: "\<not> b_attempts (rq_budget (xc_request (vr_context run))) \<le> int (length (xc_attempts (vr_context run)))" for url b x r
    using try_candidate_attempts [OF assms, of capability_id url b run] t l by simp
  ultimately show ?case
    using Cons.IH [of attempted run] by (auto simp: c bind_run_def split: option.splits sum.splits prod.splits)
qed simp

lemma begin_variants_Inl: "begin_variants node run = (Inl e, run1) \<Longrightarrow> run1 = run"
  by (auto simp: begin_variants_def Let_def split: if_splits sum.splits)

lemma record_variants_Inl: "record_variants sv attempt run = (Inl e, run1) \<Longrightarrow> run1 = run"
  by (auto simp: record_variants_def Let_def split: sum.splits)

text \<open>
  Trying alternatives stays within the attempts of the run, for an HTTP adapter that records at
  most one attempt for each call on a new context: a call of the adapter adds its own attempt and
  otherwise never exceeds the attempts of the budget.
\<close>

theorem alternatives_within_attempts:
  assumes "\<And>n sub en. xc_attempts sub = [] \<Longrightarrow> length (xc_attempts (fst (snd (va_http sv n sub en)))) \<le> 1"
  shows "int (length (xc_attempts (vr_context (snd (variants_execute sv node run)))))
    \<le> max (int (length (xc_attempts (vr_context run))) + 1) (b_attempts (rq_budget (xc_request (vr_context run))))"
proof -
  obtain x run1 where b: "begin_variants node run = (x, run1)" by (rule prod.exhaust)
  show ?thesis
  proof (cases x)
    case (Inl e)
    have "run1 = run" by (rule begin_variants_Inl [OF b [unfolded Inl]])
    then show ?thesis by (simp add: variants_execute_def b Inl)
  next
    case (Inr attempt)
    note b' = begin_variants_Inr [OF b [unfolded Inr]]
    obtain y run2 where r: "record_variants sv attempt run1 = (y, run2)" by (rule prod.exhaust)
    show ?thesis
    proof (cases y)
      case (Inl e)
      have "run2 = run1" by (rule record_variants_Inl [OF r [unfolded Inl]])
      then show ?thesis using b'(1,2) by (simp add: variants_execute_def b r Inl \<open>x = Inr attempt\<close>)
    next
      case (Inr candidates)
      note r' = record_variants_Inr [OF r [unfolded Inr]]
      have l: "length (xc_attempts (vr_context run2)) = length (xc_attempts (vr_context run)) + 1" "xc_request (vr_context run2) = xc_request (vr_context run)"
        using r'(1,2) b' by auto
      show ?thesis
        using try_candidates_attempts [OF assms, of "{rq_target (xc_request (vr_context run2))}" candidates run2] l
        by (auto simp: variants_execute_def b r Inr \<open>x = Inr attempt\<close> bind_run_def in_variant_context_def split: sum.splits)
    qed
  qed
qed

subsection \<open>A run\<close>

definition no_http :: "plan_node \<Rightarrow> execution_context \<Rightarrow> env \<Rightarrow> (py_exc + unit) \<times> execution_context \<times> env" where
  "no_http node ctx en = (Inl (adapter_error ''unreachable''), ctx, en)"


definition sample_variants :: variant_services where
  "sample_variants = \<lparr>va_http = no_http, va_put = (\<lambda>b. Inr (''cas://x'', ''x'', length b)), va_read = (\<lambda>_ _. Inr []), va_dumps = (\<lambda>_. ''{}''),
     va_visible_text = map ord_char, va_unicode = \<lparr>uc_space = (\<lambda>n. n = 32), uc_word = (\<lambda>n. 97 \<le> n \<and> n \<le> 122),
       uc_digit = (\<lambda>n. 48 \<le> n \<and> n \<le> 57), uc_casefold = (\<lambda>x. x)\<rparr>\<rparr>"

definition variant_start :: variant_run where
  "variant_start = \<lparr>vr_context = sample_context\<lparr>xc_resources := [\<lparr>rs_resource_id = 7, rs_canonical_url = ''http://h/'', rs_requested_url = ''http://h/'',
     rs_media_type = None, rs_status_code = Some 404, rs_retrieved_at = 0, rs_authority_url = None, rs_checked_only = False\<rparr>]\<rparr>, vr_env = \<lparr>en_clock = 0, en_next_id = 0\<rparr>\<rparr>"



theorem alternatives_within_attempts_witness:
  "int (length (xc_attempts (vr_context (snd (variants_execute sample_variants (PlanNode ''v'' ''candidate_url_expansion'' ''variants'' []) variant_start)))))
     \<le> max (int (length (xc_attempts sample_context)) + 1) (b_attempts (rq_budget (xc_request sample_context)))"
  using alternatives_within_attempts [of sample_variants "PlanNode ''v'' ''candidate_url_expansion'' ''variants'' []" variant_start]
  by (simp add: sample_variants_def no_http_def variant_start_def)

end
