(* ===== verification/Context_Broker.thy ===== *)
theory Context_Broker
  imports Registry Quality Context Py_Urls "HOL-Library.While_Combinator" "HOL-Library.Multiset" "HOL-Library.Product_Lexorder"
begin

section \<open>The context broker: context.py\<close>

text \<open>
  Bounded context from an architecture graph, notes and exact matches. The programs it calls, the
  file system and the JSON parser are parameters: a program is not installed, runs into the timeout,
  or ends with a return code after it wrote chunks of output; a second call with the same arguments
  (\<open>attempt\<close>) may behave differently. Lengths and slices of a text are those of its characters. How \<^verbatim>\<open>sorted\<close> arranges scores that are
  not all comparable is a parameter, too.
\<close>

subsection \<open>Constants and contracts\<close>

definition MAX_QUESTION_BYTES :: nat where "MAX_QUESTION_BYTES = 16384"
definition MAX_QMD_NOTES :: int where "MAX_QMD_NOTES = 100"
definition CONTEXT_PROCESS_OUTPUT_BYTES :: nat where "CONTEXT_PROCESS_OUTPUT_BYTES = 2000000"

text \<open>
  Scores are floating-point numbers, so they may be infinite or \<^verbatim>\<open>nan\<close>, for which every comparison is
  false. (Finite ones are rationals; \<^verbatim>\<open>-0.0\<close> is 0.)
\<close>

datatype py_score = Score rat | PlusInfinity | MinusInfinity | NotANumber

fun score_less :: "py_score \<Rightarrow> py_score \<Rightarrow> bool" where
  "score_less (Score x) (Score y) = (x < y)"
| "score_less NotANumber y = False"
| "score_less x NotANumber = False"
| "score_less MinusInfinity y = (y \<noteq> MinusInfinity)"
| "score_less x PlusInfinity = (x \<noteq> PlusInfinity)"
| "score_less x y = False"

record context_source =
  so_source_type :: string
  so_title :: string
  so_locator :: string
  so_excerpt :: string
  so_score :: py_score
  so_provenance :: "string list"

record context_bundle =
  cb_question :: string
  cb_sources :: "context_source list"
  cb_confidence :: rat
  cb_omitted_results :: int
  cb_token_budget :: int
  cb_estimated_tokens :: int
  cb_fallback_reason :: "string option"

text \<open>The constraint \<^verbatim>\<open>ge=0\<close> refuses a score that is less than 0.\<close>

definition ContextSource :: "context_source \<Rightarrow> context_source res" where
  "ContextSource s = bind_res (raise_if (score_less (so_score s) (Score 0)) (ValueError ''Input should be greater than or equal to 0'')) (\<lambda>_. Inr s)"

record context_budget =
  bu_graphify_tokens :: int
  bu_qmd_tokens :: int
  bu_source_tokens :: int
  bu_total_tokens :: int
  bu_hard_ceiling :: int
  bu_qmd_notes :: int

definition default_context_budget :: context_budget where
  "default_context_budget = \<lparr>bu_graphify_tokens = 1200, bu_qmd_tokens = 1200, bu_source_tokens = 2000,
     bu_total_tokens = 4000, bu_hard_ceiling = 8000, bu_qmd_notes = 3\<rparr>"

definition ContextBudget :: "context_budget \<Rightarrow> context_budget res" where
  "ContextBudget b =
     bind_res (raise_if (min (bu_graphify_tokens b) (min (bu_qmd_tokens b) (bu_source_tokens b)) < 0)
       (ValueError ''context source token budgets cannot be negative'')) (\<lambda>_.
     bind_res (raise_if (bu_total_tokens b \<le> 0 \<or> bu_hard_ceiling b \<le> 0) (ValueError ''context total token budgets must be positive'')) (\<lambda>_.
     bind_res (raise_if (bu_hard_ceiling b < bu_total_tokens b) (ValueError ''default context budget cannot exceed its hard ceiling'')) (\<lambda>_.
     bind_res (raise_if (bu_qmd_notes b < 1 \<or> MAX_QMD_NOTES < bu_qmd_notes b) (ValueError ''QMD note limit must be an integer from 1 to 100'')) (\<lambda>_.
       Inr b))))"

subsection \<open>Texts\<close>

definition strip_text :: "unicode \<Rightarrow> string \<Rightarrow> string" where
  "strip_text uc s =
     (let space = (\<lambda>c. uc_space uc (utf8_code c)) in concat (rev (dropWhile space (rev (dropWhile space (utf8_chars s))))))"

definition truncate_text :: "string \<Rightarrow> int \<Rightarrow> string" where
  "truncate_text s token_limit = concat (take (nat (token_limit * 4)) (utf8_chars s))"

definition estimate_tokens :: "string \<Rightarrow> int" where
  "estimate_tokens s = max 1 ((int (length (utf8_chars s)) + 3) div 4)"

definition IGNORED_TERMS :: "string list" where
  "IGNORED_TERMS = [''about'', ''from'', ''have'', ''into'', ''that'', ''the'', ''this'', ''what'', ''when'', ''where'', ''which'', ''with'']"

definition term_char :: "char \<Rightarrow> bool" where
  "term_char c \<longleftrightarrow> is_alpha c \<or> is_digit c \<or> c = CHR ''_'' \<or> c = CHR ''-''"

text \<open>\<^verbatim>\<open>re.findall\<close> of a letter or underscore followed by at least two word characters or hyphens.\<close>

function find_terms :: "string \<Rightarrow> string list" where
  "find_terms [] = []"
| "find_terms (c # cs) =
     (if (is_alpha c \<or> c = CHR ''_'') \<and> 2 \<le> length (takeWhile term_char cs)
      then (c # takeWhile term_char cs) # find_terms (dropWhile term_char cs)
      else find_terms cs)"
  by pat_completeness auto
termination
  by (relation "measure length") (auto simp: le_imp_less_Suc length_dropWhile_le)

definition question_terms :: "string \<Rightarrow> string list" where
  "question_terms question = filter (\<lambda>w. py_lower w \<notin> set IGNORED_TERMS) (find_terms question)"

text \<open>\<^verbatim>\<open>re.escape\<close> on the characters of a term.\<close>

definition escape_term :: "string \<Rightarrow> string" where
  "escape_term w = concat (map (\<lambda>c. if c = CHR ''-'' then [CHR 0x5C, c] else [c]) w)"

text \<open>\<^verbatim>\<open>str.splitlines\<close>.\<close>

definition is_line_end :: "string \<Rightarrow> bool" where
  "is_line_end c \<longleftrightarrow> utf8_code c \<in> {10, 11, 12, 13, 28, 29, 30, 133, 8232, 8233}"

fun split_lines :: "string list \<Rightarrow> string \<Rightarrow> string list" where
  "split_lines [] acc = (if acc = [] then [] else [acc])"
| "split_lines (c # cs) acc =
     (if c = [CHR 0x0D] \<and> cs \<noteq> [] \<and> hd cs = [CHR 0x0A] then acc # split_lines (tl cs) []
      else if is_line_end c then acc # split_lines cs []
      else split_lines cs (acc @ c))"

subsection \<open>Programs\<close>

datatype process_behaviour =
    NotInstalled
  | TimedOut
  | Finished "string list" "string list" "int option"

record context_process_result =
  cp_returncode :: int
  cp_stdout :: string
  cp_stderr :: string

text \<open>The output of a stream, or \<^term>\<open>None\<close> when it exceeds the limit.\<close>

fun read_stream_bounded :: "nat \<Rightarrow> nat \<Rightarrow> string \<Rightarrow> string list \<Rightarrow> string option" where
  "read_stream_bounded maximum consumed acc [] = Some acc"
| "read_stream_bounded maximum consumed acc (chunk # chunks) =
     (if chunk = [] then Some acc
      else if maximum < consumed + length chunk then None
      else read_stream_bounded maximum (consumed + length chunk) (acc @ chunk) chunks)"

definition run_program :: "(string list \<Rightarrow> process_behaviour) \<Rightarrow> string list \<Rightarrow> context_process_result" where
  "run_program programs arguments =
     (case programs arguments of
        NotInstalled \<Rightarrow> \<lparr>cp_returncode = 127, cp_stdout = [], cp_stderr = hd arguments @ '' is not installed''\<rparr>
      | TimedOut \<Rightarrow> \<lparr>cp_returncode = 124, cp_stdout = [], cp_stderr = ''context subprocess timed out''\<rparr>
      | Finished out err returncode \<Rightarrow>
          (case (read_stream_bounded CONTEXT_PROCESS_OUTPUT_BYTES 0 [] out, read_stream_bounded CONTEXT_PROCESS_OUTPUT_BYTES 0 [] err) of
             (Some stdout, Some stderr) \<Rightarrow>
               \<lparr>cp_returncode = (case returncode of Some n \<Rightarrow> n | None \<Rightarrow> 0), cp_stdout = utf8_replace stdout, cp_stderr = utf8_replace stderr\<rparr>
           | _ \<Rightarrow> \<lparr>cp_returncode = 125, cp_stdout = [], cp_stderr = ''context subprocess exceeded its output limit''\<rparr>))"

text \<open>What \<^verbatim>\<open>json.loads\<close> returns, which reads \<^verbatim>\<open>NaN\<close> and \<^verbatim>\<open>Infinity\<close> as numbers; only \<^verbatim>\<open>JSONDecodeError\<close> is caught.\<close>

datatype note_value =
    NNone
  | NBool bool
  | NInt int
  | NFloat py_score
  | NStr string
  | NList "note_value list"
  | NDict "(string \<times> note_value) list"

datatype json_failure = JSONDecodeError | JSONFailure py_exc

definition note_get :: "(string \<times> note_value) list \<Rightarrow> string \<Rightarrow> note_value \<Rightarrow> note_value" where
  "note_get d k v = (case map_of d k of Some x \<Rightarrow> x | None \<Rightarrow> v)"

definition note_str :: "(note_value \<Rightarrow> string) \<Rightarrow> note_value \<Rightarrow> string" where
  "note_str fmt v = (case v of NStr s \<Rightarrow> s | _ \<Rightarrow> fmt v)"

definition note_items :: "note_value \<Rightarrow> note_value list res" where
  "note_items v =
     (case v of
        NList vs \<Rightarrow> Inr vs
      | NStr s \<Rightarrow> Inr (map NStr (utf8_chars s))
      | NDict kvs \<Rightarrow> Inr (map (NStr \<circ> fst) kvs)
      | _ \<Rightarrow> Inl (PyTypeError ''object is not iterable''))"

text \<open>
  \<open>br_locate\<close> is the resolved path of a locator, relative ones under the vault; \<open>br_str\<close> is \<^verbatim>\<open>str\<close> of
  a JSON value that is no text, \<open>br_float\<close> is \<^verbatim>\<open>float\<close> of a text and \<open>br_float_int\<close> of an integer, none
  when it is out of range. \<open>br_sorted\<close> is what \<^verbatim>\<open>sorted\<close> makes of sources one of which has the score
  \<^verbatim>\<open>nan\<close>: with comparisons that are no order, Python promises the items but not how they are arranged.
\<close>

record context_broker =
  br_repository :: string
  br_vault :: "string option"
  br_qmd_index :: string
  br_budget :: context_budget
  br_graph_exists :: "nat \<Rightarrow> bool"
  br_vault_is_dir :: "nat \<Rightarrow> bool"
  br_programs :: "nat \<Rightarrow> string list \<Rightarrow> process_behaviour"
  br_json :: "string \<Rightarrow> json_failure + note_value"
  br_locate :: "string \<Rightarrow> py_exc + string"
  br_str :: "note_value \<Rightarrow> string"
  br_float :: "string \<Rightarrow> py_score option"
  br_float_int :: "int \<Rightarrow> rat option"
  br_sorted :: "context_source list \<Rightarrow> context_source list"
  br_unicode :: unicode

subsection \<open>Retrieval\<close>

definition graph_path :: "context_broker \<Rightarrow> string" where
  "graph_path br = br_repository br @ ''/graphify-out/graph.json''"

definition graphify :: "context_broker \<Rightarrow> nat \<Rightarrow> string \<Rightarrow> int \<Rightarrow> py_exc + context_source list" where
  "graphify br attempt question token_limit =
     (if token_limit \<le> 0 \<or> \<not> br_graph_exists br attempt then Inr []
      else let result = run_program (br_programs br attempt)
                 [''graphify'', ''query'', question, ''--budget'', int_to_str token_limit, ''--graph'', graph_path br];
               out = strip_text (br_unicode br) (cp_stdout result) in
        if cp_returncode result \<noteq> 0 \<or> out = [] then Inr []
        else lift_exc (map_res ContextSource [\<lparr>so_source_type = ''graphify'', so_title = ''Repository architecture graph'', so_locator = graph_path br,
               so_excerpt = truncate_text out token_limit, so_score = Score 1, so_provenance = [''graphify query'']\<rparr>]))"

definition inside :: "string \<Rightarrow> string \<Rightarrow> bool" where
  "inside path vault \<longleftrightarrow> path = vault \<or> py_startswith path (if py_endswith vault ''/'' then vault else vault @ ''/'')"

definition float_of :: "context_broker \<Rightarrow> note_value \<Rightarrow> py_exc + py_score" where
  "float_of br v =
     (case v of
        NFloat x \<Rightarrow> Inr x
      | NInt i \<Rightarrow>
          (case br_float_int br i of
             Some x \<Rightarrow> Inr (Score x)
           | None \<Rightarrow> Inl (simple_exc ExcOther ''OverflowError'' ''int too large to convert to float''))
      | NBool b \<Rightarrow> Inr (Score (if b then 1 else 0))
      | NStr s \<Rightarrow>
          (case br_float br s of
             Some x \<Rightarrow> Inr x
           | None \<Rightarrow> Inl (value_exc (ValueError ''could not convert string to float'')))
      | _ \<Rightarrow> Inl (value_exc (PyTypeError ''float() argument must be a string or a real number'')))"

text \<open>The source of one note, or none.\<close>

definition note_source :: "context_broker \<Rightarrow> string \<Rightarrow> int \<Rightarrow> note_value \<Rightarrow> py_exc + context_source option" where
  "note_source br vault token_limit document =
     (case document of
        NDict d \<Rightarrow>
          (case note_get d ''file'' NNone of
             NStr raw_locator \<Rightarrow>
               bind_res (br_locate br raw_locator) (\<lambda>locator.
               if \<not> inside locator vault then Inr None
               else bind_res (float_of br (note_get d ''score'' (NFloat (Score 0)))) (\<lambda>score.
                 bind_res (lift_exc (ContextSource \<lparr>so_source_type = ''obsidian'', so_title = note_str (br_str br) (note_get d ''title'' (NStr ''QMD result'')),
                   so_locator = locator,
                   so_excerpt = truncate_text (note_str (br_str br) (note_get d ''snippet'' (NStr []))) (token_limit div bu_qmd_notes (br_budget br)),
                   so_score = score, so_provenance = [''QMD search'']\<rparr>)) (\<lambda>s. Inr (Some s))))
           | _ \<Rightarrow> Inr None)
      | _ \<Rightarrow> Inr None)"

definition qmd :: "context_broker \<Rightarrow> nat \<Rightarrow> string \<Rightarrow> int \<Rightarrow> py_exc + context_source list" where
  "qmd br attempt question token_limit =
     (case br_vault br of
        None \<Rightarrow> Inr []
      | Some vault \<Rightarrow>
          if token_limit \<le> 0 \<or> \<not> br_vault_is_dir br attempt then Inr []
          else let result = run_program (br_programs br attempt)
                     [''qmd'', ''search'', question, ''--index'', br_qmd_index br, ''--format'', ''json'', ''--full-path'', ''-n'',
                      int_to_str (min MAX_QMD_NOTES (bu_qmd_notes (br_budget br) * 4))] in
            if cp_returncode result \<noteq> 0 then Inr []
            else (case br_json br (cp_stdout result) of
                Inl JSONDecodeError \<Rightarrow> Inr []
              | Inl (JSONFailure e) \<Rightarrow> Inl e
              | Inr documents \<Rightarrow>
                  bind_res (lift_exc (note_items documents)) (\<lambda>items.
                  bind_res (map_res (note_source br vault token_limit) items) (\<lambda>sources.
                    Inr (List.map_filter id sources)))))"

definition exact_source :: "context_broker \<Rightarrow> string \<Rightarrow> int \<Rightarrow> string set \<Rightarrow> py_exc + context_source list" where
  "exact_source br question token_limit exclude =
     (let terms = question_terms question in
      if token_limit \<le> 0 \<or> terms = [] then Inr []
      else let result = run_program (br_programs br 0)
                 [''rg'', ''-n'', ''-i'', ''--glob'', ''!graphify-out/**'', ''--glob'', ''!*.lock'',
                  py_join ''|'' (map escape_term (take 8 terms)), br_repository br];
               excerpt = truncate_text (py_join [CHR 0x0A] (take 12 (split_lines (utf8_chars (cp_stdout result)) []))) token_limit in
        if cp_returncode result \<notin> {0, 1} \<or> excerpt = [] \<or> br_repository br \<in> exclude then Inr []
        else lift_exc (map_res ContextSource [\<lparr>so_source_type = ''source'', so_title = ''Exact repository matches'', so_locator = br_repository br,
               so_excerpt = excerpt, so_score = Score (7 / 10), so_provenance = [''rg exact search'']\<rparr>]))"

fun keep_first :: "(string \<times> string) set \<Rightarrow> context_source list \<Rightarrow> context_source list" where
  "keep_first seen [] = []"
| "keep_first seen (s # ss) =
     (if (so_locator s, so_excerpt s) \<in> seen then keep_first seen ss
      else s # keep_first (insert (so_locator s, so_excerpt s) seen) ss)"

text \<open>\<^verbatim>\<open>sorted\<close> by score, reversed; equal scores keep their order.\<close>

fun score_rank :: "py_score \<Rightarrow> nat \<times> rat" where
  "score_rank PlusInfinity = (0, 0)"
| "score_rank (Score x) = (1, - x)"
| "score_rank _ = (2, 0)"

definition sort_sources :: "context_broker \<Rightarrow> context_source list \<Rightarrow> context_source list" where
  "sort_sources br sources =
     (if \<exists>s\<in>set sources. so_score s = NotANumber then br_sorted br sources else sort_key (score_rank \<circ> so_score) sources)"

definition deduplicate :: "context_broker \<Rightarrow> context_source list \<Rightarrow> context_source list" where
  "deduplicate br sources = keep_first {} (sort_sources br sources)"

definition estimated_tokens :: "context_source list \<Rightarrow> int" where
  "estimated_tokens sources = sum_list (map (estimate_tokens \<circ> so_excerpt) sources)"

text \<open>The loop that drops the last source as long as the estimate exceeds the limit.\<close>

definition trim_sources :: "int \<Rightarrow> context_source list \<Rightarrow> int \<Rightarrow> (context_source list \<times> int) option" where
  "trim_sources limit sources omitted =
     while_option (\<lambda>(ss, _). ss \<noteq> [] \<and> limit < estimated_tokens ss) (\<lambda>(ss, n). (butlast ss, n + 1)) (sources, omitted)"

subsection \<open>Search\<close>

definition check_question :: "context_broker \<Rightarrow> string \<Rightarrow> int option \<Rightarrow> unit res" where
  "check_question br question token_budget =
     bind_res (raise_if (MAX_QUESTION_BYTES < length (utf8_chars question) \<or> MAX_QUESTION_BYTES < length question)
       (ValueError ''context question exceeds the bounded byte limit'')) (\<lambda>_.
     bind_res (raise_if (strip_text (br_unicode br) question = []) (ValueError ''context question cannot be blank'')) (\<lambda>_.
       raise_if (case token_budget of None \<Rightarrow> False | Some n \<Rightarrow> n \<le> 0) (ValueError ''context token budget must be a positive integer'')))"

definition token_limit_of :: "context_budget \<Rightarrow> int option \<Rightarrow> int" where
  "token_limit_of b token_budget = min (case token_budget of None \<Rightarrow> bu_total_tokens b | Some n \<Rightarrow> n) (bu_hard_ceiling b)"

definition source_limits :: "context_budget \<Rightarrow> int \<Rightarrow> int \<times> int \<times> int" where
  "source_limits b limit =
     (let graph_limit = min (bu_graphify_tokens b) limit;
          qmd_limit = min (bu_qmd_tokens b) (max 0 (limit - graph_limit))
      in (graph_limit, qmd_limit, max 0 (limit - graph_limit - qmd_limit)))"

text \<open>One round of both retrievals: the sources kept, and how many were left out.\<close>

definition retrieve :: "context_broker \<Rightarrow> nat \<Rightarrow> string \<Rightarrow> int \<Rightarrow> int \<Rightarrow> py_exc + context_source list \<times> int" where
  "retrieve br attempt question graph_limit qmd_limit =
     bind_res (graphify br attempt question graph_limit) (\<lambda>graph_sources.
     bind_res (qmd br attempt question qmd_limit) (\<lambda>qmd_sources.
     let notes = bu_qmd_notes (br_budget br);
         candidates = graph_sources @ take (nat notes) qmd_sources;
         sources = deduplicate br candidates in
     Inr (sources, max 0 (int (length qmd_sources) - notes) + (int (length candidates) - int (length sources)))))"

text \<open>The second round with the terms of the question, when the first one found nothing.\<close>

definition retry :: "context_broker \<Rightarrow> string \<Rightarrow> int \<Rightarrow> int \<Rightarrow> context_source list \<times> int \<Rightarrow> py_exc + context_source list \<times> int \<times> string option" where
  "retry br question graph_limit qmd_limit found =
     (case found of (sources, omitted) \<Rightarrow>
      let simplified = py_join '' '' (take 6 (question_terms question)) in
      if sources \<noteq> [] \<or> simplified = [] \<or> simplified = question then Inr (sources, omitted, None)
      else bind_res (retrieve br 1 simplified graph_limit qmd_limit) (\<lambda>(sources1, omitted1).
        Inr (sources1, omitted + omitted1, Some ''simplified query after retrieval miss'')))"

definition search :: "context_broker \<Rightarrow> string \<Rightarrow> int option \<Rightarrow> (py_exc + context_bundle) option" where
  "search br question token_budget =
     (let limit = token_limit_of (br_budget br) token_budget;
          (graph_limit, qmd_limit, source_limit) = source_limits (br_budget br) limit in
      case bind_res (lift_exc (check_question br question token_budget)) (\<lambda>_.
             bind_res (retrieve br 0 question graph_limit qmd_limit) (\<lambda>found.
             bind_res (retry br question graph_limit qmd_limit found) (\<lambda>(sources, omitted, reason).
             bind_res (exact_source br question source_limit (set (map so_locator sources))) (\<lambda>exact.
             let candidates = sources @ exact; kept = deduplicate br candidates in
             Inr (kept, omitted + (int (length candidates) - int (length kept)), reason))))) of
        Inl e \<Rightarrow> Some (Inl e)
      | Inr (sources, omitted, reason) \<Rightarrow>
          map_option (\<lambda>(kept, omitted1).
            Inr \<lparr>cb_question = question, cb_sources = kept, cb_confidence = min 1 (35 / 100 * of_nat (length kept)),
              cb_omitted_results = omitted1, cb_token_budget = limit, cb_estimated_tokens = estimated_tokens kept,
              cb_fallback_reason = reason\<rparr>)
          (trim_sources limit sources omitted))"

section \<open>Correctness of the context broker\<close>

subsection \<open>The trimming loop\<close>

lemma estimate_tokens_pos: "1 \<le> estimate_tokens s"
  by (simp add: estimate_tokens_def)

lemma estimated_tokens_simps [simp]:
  "estimated_tokens [] = 0" "estimated_tokens (ss @ ts) = estimated_tokens ss + estimated_tokens ts"
  "estimated_tokens [s] = estimate_tokens (so_excerpt s)"
  by (simp_all add: estimated_tokens_def)

text \<open>
  The loop that trims a bundle ends. For every list of sources and every limit that is not
  negative it returns the longest prefix whose estimate fits into the limit, and counts the sources
  it dropped.
\<close>

lemma trim_sources_prefix:
  assumes "0 \<le> limit"
  shows "\<exists>k. trim_sources limit sources omitted = Some (take k sources, omitted + int (length sources) - int k) \<and> k \<le> length sources \<and>
    estimated_tokens (take k sources) \<le> limit \<and> (\<forall>j. k < j \<and> j \<le> length sources \<longrightarrow> limit < estimated_tokens (take j sources))"
proof (induction sources arbitrary: omitted rule: rev_induct)
  case Nil
  show ?case using assms by (intro exI [of _ 0]) (simp add: trim_sources_def while_option_unfold)
next
  case (snoc s ss)
  let ?xs = "ss @ [s]"
  show ?case
  proof (cases "limit < estimated_tokens ?xs")
    case False
    then show ?thesis by (intro exI [of _ "length ?xs"]) (simp add: trim_sources_def while_option_unfold)
  next
    case True
    have step: "trim_sources limit ?xs omitted = trim_sources limit ss (omitted + 1)"
      using True unfolding trim_sources_def by (subst while_option_unfold) simp
    from snoc.IH [of "omitted + 1"] obtain k where k: "trim_sources limit ss (omitted + 1) = Some (take k ss, omitted + 1 + int (length ss) - int k)"
      "k \<le> length ss" "estimated_tokens (take k ss) \<le> limit" "\<And>j. k < j \<and> j \<le> length ss \<Longrightarrow> limit < estimated_tokens (take j ss)" by blast
    have "limit < estimated_tokens (take j ?xs)" if "k < j" "j \<le> length ?xs" for j
      using that k(4) [of j] True by (cases "j = length ?xs") auto
    with k step show ?thesis by (intro exI [of _ k]) auto
  qed
qed

subsection \<open>Sources\<close>

definition source_key :: "context_source \<Rightarrow> string \<times> string" where
  "source_key s = (so_locator s, so_excerpt s)"

lemma keep_first_set: "x \<in> set (keep_first seen ss) \<Longrightarrow> x \<in> set ss \<and> source_key x \<notin> seen"
  by (induction seen ss rule: keep_first.induct) (auto simp: source_key_def split: if_splits)

lemma keep_first_length: "length (keep_first seen ss) \<le> length ss"
  by (induction seen ss rule: keep_first.induct) auto

lemma keep_first_distinct: "distinct (map source_key (keep_first seen ss))"
  by (induction seen ss rule: keep_first.induct) (auto simp: source_key_def dest!: keep_first_set)

lemma keep_first_sorted: "sorted_wrt P ss \<Longrightarrow> sorted_wrt P (keep_first seen ss)"
  by (induction seen ss rule: keep_first.induct) (auto dest!: keep_first_set)

text \<open>
  What Python documents of \<^verbatim>\<open>sorted\<close>: a list of the items; and when no score that the notes come with is
  \<^verbatim>\<open>nan\<close>.
\<close>

definition sorted_keeps_items :: "context_broker \<Rightarrow> bool" where
  "sorted_keeps_items br \<longleftrightarrow> (\<forall>ss. mset (br_sorted br ss) = mset ss)"

definition numeric_scores :: "context_source list \<Rightarrow> bool" where
  "numeric_scores ss \<longleftrightarrow> list_all (\<lambda>s. so_score s \<noteq> NotANumber) ss"

lemma score_rank_less: "y \<noteq> NotANumber \<Longrightarrow> score_rank x \<le> score_rank y \<Longrightarrow> \<not> score_less x y"
  by (cases x; cases y) (auto simp: less_eq_prod_def)

lemma mset_sort_sources: "sorted_keeps_items br \<Longrightarrow> mset (sort_sources br ss) = mset ss"
  by (simp add: sort_sources_def sorted_keeps_items_def)

lemma sort_sources_falling:
  assumes "numeric_scores ss"
  shows "sorted_wrt (\<lambda>a b. \<not> score_less (so_score a) (so_score b)) (sort_sources br ss)"
proof -
  have n: "sort_sources br ss = sort_key (score_rank \<circ> so_score) ss" using assms by (auto simp: sort_sources_def numeric_scores_def list_all_iff)
  have "sorted_wrt (\<lambda>a b. score_rank (so_score a) \<le> score_rank (so_score b)) (sort_key (score_rank \<circ> so_score) ss)"
    using sorted_sort_key [of "score_rank \<circ> so_score" ss] by (simp add: sorted_map)
  then show ?thesis unfolding n
    by (rule sorted_wrt_mono_rel [rotated]) (use assms score_rank_less in \<open>fastforce simp: numeric_scores_def list_all_iff\<close>)
qed

lemma deduplicate_props:
  assumes "sorted_keeps_items br"
  shows "set (deduplicate br ss) \<subseteq> set ss" "distinct (map source_key (deduplicate br ss))" "length (deduplicate br ss) \<le> length ss"
    "numeric_scores ss \<Longrightarrow> sorted_wrt (\<lambda>a b. \<not> score_less (so_score a) (so_score b)) (deduplicate br ss)"
proof -
  have m: "mset (sort_sources br ss) = mset ss" by (rule mset_sort_sources [OF assms])
  show "set (deduplicate br ss) \<subseteq> set ss" using keep_first_set mset_eq_setD [OF m] by (fastforce simp: deduplicate_def)
  show "distinct (map source_key (deduplicate br ss))" by (simp add: deduplicate_def keep_first_distinct)
  show "length (deduplicate br ss) \<le> length ss"
    using keep_first_length [of "{}" "sort_sources br ss"] mset_eq_length [OF m] by (simp add: deduplicate_def)
  show "sorted_wrt (\<lambda>a b. \<not> score_less (so_score a) (so_score b)) (deduplicate br ss)" if "numeric_scores ss"
    unfolding deduplicate_def by (rule keep_first_sorted [OF sort_sources_falling [OF that]])
qed

text \<open>A note comes from the vault.\<close>

definition note_in_vault :: "context_broker \<Rightarrow> context_source \<Rightarrow> bool" where
  "note_in_vault br s \<longleftrightarrow> so_source_type s \<noteq> ''obsidian'' \<or> (\<exists>vault. br_vault br = Some vault \<and> inside (so_locator s) vault)"

text \<open>No note that a search of the vault can find has the score \<^verbatim>\<open>nan\<close>.\<close>

definition numeric_notes :: "context_broker \<Rightarrow> bool" where
  "numeric_notes br \<longleftrightarrow> (\<forall>attempt question limit ss. qmd br attempt question limit = Inr ss \<longrightarrow> numeric_scores ss)"

lemma ContextSource_Inr [simp]: "ContextSource s = Inr t \<longleftrightarrow> t = s \<and> \<not> score_less (so_score s) (Score 0)"
  by (auto simp: ContextSource_def)

lemma graphify_sources: "graphify br attempt question limit = Inr ss \<Longrightarrow> s \<in> set ss \<Longrightarrow> note_in_vault br s"
  by (auto simp: graphify_def Let_def note_in_vault_def split: if_splits)

lemma exact_sources: "exact_source br question limit exclude = Inr ss \<Longrightarrow> s \<in> set ss \<Longrightarrow> note_in_vault br s"
  by (auto simp: exact_source_def Let_def note_in_vault_def split: if_splits)

lemma note_source_ok: "note_source br vault limit document = Inr (Some s) \<Longrightarrow> inside (so_locator s) vault"
  by (auto simp: note_source_def split: note_value.splits if_splits)

lemma qmd_sources:
  assumes "qmd br attempt question limit = Inr ss" "s \<in> set ss"
  shows "note_in_vault br s"
proof -
  from assms obtain vault items sources where v: "br_vault br = Some vault"
    and m: "map_res (note_source br vault limit) items = Inr sources" and s: "Some s \<in> set sources"
    by (auto simp: qmd_def Let_def map_filter_def split: option.splits if_splits sum.splits json_failure.splits)
  from map_res_in [OF m s] show ?thesis using note_source_ok v by (auto simp: note_in_vault_def)
qed

lemma numeric_scores_simps [simp]:
  "numeric_scores []" "numeric_scores (s # ss) \<longleftrightarrow> so_score s \<noteq> NotANumber \<and> numeric_scores ss"
  "numeric_scores (ss @ ts) \<longleftrightarrow> numeric_scores ss \<and> numeric_scores ts"
  by (simp_all add: numeric_scores_def)

lemma numeric_scores_subset: "set ss \<subseteq> set ts \<Longrightarrow> numeric_scores ts \<Longrightarrow> numeric_scores ss"
  by (auto simp: numeric_scores_def list_all_iff)

lemma graphify_numeric: "graphify br attempt question limit = Inr ss \<Longrightarrow> numeric_scores ss"
  by (auto simp: graphify_def Let_def split: if_splits)

lemma exact_numeric: "exact_source br question limit exclude = Inr ss \<Longrightarrow> numeric_scores ss"
  by (auto simp: exact_source_def Let_def split: if_splits)

lemma retrieve_ok:
  assumes "sorted_keeps_items br" "retrieve br attempt question g q = Inr (ss, omitted)"
  shows "0 \<le> omitted" "s \<in> set ss \<Longrightarrow> note_in_vault br s" "numeric_notes br \<Longrightarrow> numeric_scores ss"
proof -
  from assms(2) obtain gs qs where g: "graphify br attempt question g = Inr gs" "qmd br attempt question q = Inr qs"
    and ss: "ss = deduplicate br (gs @ take (nat (bu_qmd_notes (br_budget br))) qs)"
    and o: "omitted = max 0 (int (length qs) - bu_qmd_notes (br_budget br)) +
      (int (length (gs @ take (nat (bu_qmd_notes (br_budget br))) qs)) - int (length ss))"
    by (auto simp: retrieve_def Let_def)
  note d = deduplicate_props [OF assms(1), of "gs @ take (nat (bu_qmd_notes (br_budget br))) qs"]
  show "0 \<le> omitted" using d(3) unfolding o ss by linarith
  show "s \<in> set ss \<Longrightarrow> note_in_vault br s"
    using d(1) graphify_sources [OF g(1)] qmd_sources [OF g(2)] unfolding ss by (fastforce dest: in_set_takeD)
  show "numeric_scores ss" if "numeric_notes br"
  proof -
    have "numeric_scores (gs @ qs)" using that g graphify_numeric [OF g(1)] by (simp add: numeric_notes_def)
    moreover have "set ss \<subseteq> set (gs @ qs)" using d(1) unfolding ss by (auto dest: in_set_takeD)
    ultimately show ?thesis by (rule numeric_scores_subset [rotated])
  qed
qed

lemma retry_ok:
  assumes "sorted_keeps_items br" "retry br question g q (ss, omitted) = Inr (ss', omitted', reason)" "0 \<le> omitted"
    "\<And>s. s \<in> set ss \<Longrightarrow> note_in_vault br s" "numeric_notes br \<Longrightarrow> numeric_scores ss"
  shows "0 \<le> omitted'" "s \<in> set ss' \<Longrightarrow> note_in_vault br s" "numeric_notes br \<Longrightarrow> numeric_scores ss'"
  using assms(2-) retrieve_ok [OF assms(1), of 1] by (fastforce simp: retry_def Let_def split: if_splits)+

text \<open>
  C26: a search ends, and a bundle keeps what the budget promises. With a valid budget, whatever the
  programs answer, \<^verbatim>\<open>search\<close> returns or raises; a bundle's estimate is the sum over its sources and
  is at most its token budget, which is at most the hard ceiling; its sources have different
  locators or excerpts, notes among them lie inside the vault, and the counts and the confidence are
  in their ranges. The sources are ordered by falling score, infinite scores included, when no note
  comes with the score \<^verbatim>\<open>nan\<close> (which is not refused, see \<open>nan_score_breaks_order\<close>). Of Python's \<^verbatim>\<open>sorted\<close>
  on scores with \<^verbatim>\<open>nan\<close> it is used only that it keeps the items.
\<close>

theorem context_search_bounded:
  assumes "ContextBudget (br_budget br) = Inr (br_budget br)" "sorted_keeps_items br"
  shows "\<exists>r. search br question token_budget = Some r \<and>
    (\<forall>bundle. r = Inr bundle \<longrightarrow> cb_estimated_tokens bundle = estimated_tokens (cb_sources bundle) \<and>
      cb_estimated_tokens bundle \<le> cb_token_budget bundle \<and> cb_token_budget bundle \<le> bu_hard_ceiling (br_budget br) \<and>
      distinct (map source_key (cb_sources bundle)) \<and>
      (numeric_notes br \<longrightarrow> sorted_wrt (\<lambda>a b. \<not> score_less (so_score a) (so_score b)) (cb_sources bundle)) \<and>
      list_all (note_in_vault br) (cb_sources bundle) \<and> 0 \<le> cb_omitted_results bundle \<and> 0 \<le> cb_confidence bundle \<and> cb_confidence bundle \<le> 1)"
proof -
  define limit where "limit = token_limit_of (br_budget br) token_budget"
  obtain g q sl where l: "source_limits (br_budget br) limit = (g, q, sl)" by (metis prod_cases3)
  define m where "m = bind_res (lift_exc (check_question br question token_budget)) (\<lambda>_.
             bind_res (retrieve br 0 question g q) (\<lambda>found.
             bind_res (retry br question g q found) (\<lambda>(sources, omitted, reason).
             bind_res (exact_source br question sl (set (map so_locator sources))) (\<lambda>exact.
             let candidates = sources @ exact; kept = deduplicate br candidates in
             Inr (kept, omitted + (int (length candidates) - int (length kept)), reason)))))"
  have s: "search br question token_budget = (case m of Inl e \<Rightarrow> Some (Inl e) | Inr (sources, omitted, reason) \<Rightarrow>
      map_option (\<lambda>(kept, omitted1). Inr \<lparr>cb_question = question, cb_sources = kept, cb_confidence = min 1 (35 / 100 * of_nat (length kept)),
        cb_omitted_results = omitted1, cb_token_budget = limit, cb_estimated_tokens = estimated_tokens kept, cb_fallback_reason = reason\<rparr>)
      (trim_sources limit sources omitted))"
    unfolding search_def m_def limit_def [symmetric] Let_def l prod.case by (rule refl)
  show ?thesis
  proof (cases m)
    case (Inl e)
    then show ?thesis by (simp add: s)
  next
    case (Inr x)
    then obtain ss0 o0 ss1 o1 reason exact where c: "check_question br question token_budget = Inr ()"
      and r0: "retrieve br 0 question g q = Inr (ss0, o0)" and r1: "retry br question g q (ss0, o0) = Inr (ss1, o1, reason)"
      and ex: "exact_source br question sl (set (map so_locator ss1)) = Inr exact"
      and x: "x = (deduplicate br (ss1 @ exact), o1 + (int (length (ss1 @ exact)) - int (length (deduplicate br (ss1 @ exact)))), reason)"
      by (fastforce simp: m_def Let_def)
    have limit: "0 < limit" "limit \<le> bu_hard_ceiling (br_budget br)"
      using assms(1) c by (auto simp: limit_def token_limit_of_def ContextBudget_def check_question_def split: option.splits)
    note r0' = retrieve_ok [OF assms(2) r0]
    note r1' = retry_ok [OF assms(2) r1 r0']
    note d = deduplicate_props [OF assms(2), of "ss1 @ exact"]
    let ?ss = "deduplicate br (ss1 @ exact)"
    let ?om = "o1 + (int (length (ss1 @ exact)) - int (length ?ss))"
    from limit(1) obtain k where k: "trim_sources limit ?ss ?om = Some (take k ?ss, ?om + int (length ?ss) - int k)" "k \<le> length ?ss"
      "estimated_tokens (take k ?ss) \<le> limit" using trim_sources_prefix [of limit ?ss ?om] by auto
    have "0 \<le> ?om" using r1'(1) d(3) by simp
    moreover have "distinct (map source_key (take k ?ss))" using d(2) by (simp add: take_map [symmetric])
    moreover have "sorted_wrt (\<lambda>a b. \<not> score_less (so_score a) (so_score b)) (take k ?ss)" if "numeric_notes br"
      using d(4) r1'(3) that exact_numeric [OF ex] by (simp add: sorted_wrt_take)
    moreover have "list_all (note_in_vault br) (take k ?ss)"
      using d(1) r1'(2) exact_sources [OF ex] by (fastforce simp: list_all_iff dest: in_set_takeD)
    ultimately show ?thesis unfolding s Inr x sum.case prod.case k(1) option.map using k(2,3) limit(2) by auto
  qed
qed

text \<open>
  The token budget for exact sources is not used. Whatever \<^verbatim>\<open>source_tokens\<close> says, the result of
  a search is the same: the exact matches get what the other two sources leave of the total.
\<close>

theorem source_tokens_ignored:
  "search (br\<lparr>br_budget := (br_budget br)\<lparr>bu_source_tokens := n\<rparr>\<rparr>) question token_budget = search br question token_budget"
proof -
  let ?br = "br\<lparr>br_budget := (br_budget br)\<lparr>bu_source_tokens := n\<rparr>\<rparr>"
  have sel: "br_repository ?br = br_repository br" "br_vault ?br = br_vault br" "br_qmd_index ?br = br_qmd_index br"
    "br_graph_exists ?br = br_graph_exists br" "br_vault_is_dir ?br = br_vault_is_dir br" "br_programs ?br = br_programs br"
    "br_json ?br = br_json br" "br_locate ?br = br_locate br" "br_str ?br = br_str br" "br_float ?br = br_float br" "br_float_int ?br = br_float_int br" "br_sorted ?br = br_sorted br" "br_unicode ?br = br_unicode br"
    "bu_qmd_notes (br_budget ?br) = bu_qmd_notes (br_budget br)" by simp_all
  have n: "note_source ?br = note_source br" unfolding fun_eq_iff note_source_def float_of_def sel by (rule allI refl)+
  have p: "graphify ?br = graphify br" "qmd ?br = qmd br" "exact_source ?br = exact_source br" "check_question ?br = check_question br"
    unfolding fun_eq_iff graphify_def graph_path_def qmd_def exact_source_def check_question_def n sel by (rule allI refl)+
  have d: "deduplicate ?br = deduplicate br" unfolding fun_eq_iff deduplicate_def sort_sources_def sel by (rule allI refl)+
  have r: "retrieve ?br = retrieve br" unfolding fun_eq_iff retrieve_def p d sel by (rule allI refl)+
  have t: "retry ?br = retry br" unfolding fun_eq_iff retry_def r by (rule allI refl)+
  have "token_limit_of (br_budget ?br) = token_limit_of (br_budget br)" "source_limits (br_budget ?br) = source_limits (br_budget br)"
    unfolding fun_eq_iff token_limit_of_def source_limits_def by (simp_all split: option.splits)
  then show ?thesis unfolding search_def p d r t by simp
qed

subsection \<open>A search\<close>

definition sample_programs :: "nat \<Rightarrow> string list \<Rightarrow> process_behaviour" where
  "sample_programs attempt arguments =
     (if hd arguments = ''graphify'' then Finished [''planner''] [] (Some 0) else Finished [''a.py:1:plan'', [CHR 0x0A]] [] (Some 0))"

definition sample_note :: "string \<Rightarrow> py_score \<Rightarrow> note_value" where
  "sample_note name score = NDict [(''file'', NStr (''/vault/'' @ name)), (''snippet'', NStr name), (''score'', NFloat score)]"

definition sample_broker :: "note_value list \<Rightarrow> context_broker" where
  "sample_broker notes = \<lparr>br_repository = ''/repo'', br_vault = Some ''/vault'', br_qmd_index = ''notes'', br_budget = default_context_budget,
     br_graph_exists = (\<lambda>_. True), br_vault_is_dir = (\<lambda>_. True), br_programs = sample_programs,
     br_json = (\<lambda>_. Inr (NList notes)), br_locate = Inr, br_str = (\<lambda>_. []), br_float = (\<lambda>_. None), br_float_int = (\<lambda>i. Some (of_int i)),
     br_sorted = (\<lambda>ss. ss),
     br_unicode = \<lparr>uc_space = (\<lambda>n. n = 32), uc_word = (\<lambda>n. 97 \<le> n \<and> n \<le> 122), uc_digit = (\<lambda>n. 48 \<le> n \<and> n \<le> 57), uc_casefold = (\<lambda>x. x)\<rparr>\<rparr>"

definition finite_notes :: "note_value list" where
  "finite_notes = [sample_note ''a.md'' (Score (1 / 2)), sample_note ''b.md'' PlusInfinity]"

lemma sample_search:
  "map_option (case_sum (\<lambda>_. []) (map so_score \<circ> cb_sources)) (search (sample_broker finite_notes) ''plan'' None) =
     Some [PlusInfinity, Score 1, Score (7 / 10), Score (1 / 2)]"
  by code_simp

lemma sample_broker_ok:
  "ContextBudget (br_budget (sample_broker notes)) = Inr (br_budget (sample_broker notes))" "sorted_keeps_items (sample_broker notes)"
  "bu_hard_ceiling (br_budget (sample_broker notes)) = 8000"
  by (simp_all add: sample_broker_def sorted_keeps_items_def ContextBudget_def default_context_budget_def MAX_QMD_NOTES_def)

theorem context_search_bounded_witness:
  "\<exists>bundle. search (sample_broker finite_notes) ''plan'' None = Some (Inr bundle) \<and> length (cb_sources bundle) = 4 \<and>
     cb_estimated_tokens bundle \<le> cb_token_budget bundle \<and> cb_token_budget bundle \<le> 8000"
proof -
  obtain z where z: "search (sample_broker finite_notes) ''plan'' None = Some z"
      "case_sum (\<lambda>_. []) (map so_score \<circ> cb_sources) z = [PlusInfinity, Score 1, Score (7 / 10), Score (1 / 2)]"
    using sample_search by auto
  then obtain r where b: "search (sample_broker finite_notes) ''plan'' None = Some (Inr r)" "map so_score (cb_sources r) = [PlusInfinity, Score 1, Score (7 / 10), Score (1 / 2)]"
    by (cases z) simp_all
  have "length (cb_sources r) = 4" using arg_cong [OF b(2), of length] by simp
  then show ?thesis using context_search_bounded [OF sample_broker_ok(1,2), of finite_notes "''plan''" None] b(1) sample_broker_ok(3) by auto
qed

text \<open>
  A note with the score \<^verbatim>\<open>nan\<close> is accepted, and sources may then come in any order. (Where every
  comparison is false, Python leaves the items of a short list where they are.)
\<close>

theorem nan_score_breaks_order:
  "map_option (case_sum (\<lambda>_. []) (map so_score \<circ> cb_sources))
     (search (sample_broker [sample_note ''a.md'' (Score (1 / 2)), sample_note ''b.md'' NotANumber, sample_note ''c.md'' (Score (9 / 10))]) ''plan'' (Some 2000)) =
   Some [Score 1, Score (1 / 2), NotANumber, Score (9 / 10)]"
  by code_simp

end
