(* ===== verification/Structured_Api.thy ===== *)
theory Structured_Api
  imports Planning Storage Executor Variants
begin

section \<open>Structured APIs and feeds: adapters/api.py\<close>

text \<open>
  The adapter that normalises a body the HTTP adapter has acquired: JSON, OpenAPI in YAML, XML, RSS,
  Atom, sitemaps and the named public APIs. Parameters are the lexical parts of the JSON, YAML and XML
  parsers, which yield trees on which the hooks of the source work, the serialiser, the content store,
  and the Unicode operations on strings. Their errors are the exceptions of those libraries.
\<close>

subsection \<open>Parsed values\<close>

text \<open>
  A number is a finite one or one of the infinities and \<^verbatim>\<open>nan\<close>. A key is a string or another
  hashable value, up to \<^verbatim>\<open>==\<close>; \<open>SOther\<close> is a value of YAML that JSON does not have.
\<close>

datatype py_float = Finite rat | NonFinite string

datatype py_key = KStr string | KOther nat

datatype structured =
    SNull
  | SBool bool
  | SInt int
  | SFloat py_float
  | SStr string
  | SList "structured list"
  | SDict "(py_key \<times> structured) list"
  | SOther nat

text \<open>What the JSON scanner sees, before the hooks: members with repeated keys and the constants.\<close>

datatype json_tree =
    JScalar structured
  | JConstant string
  | JArray "json_tree list"
  | JObject "(string \<times> json_tree) list"

text \<open>
  A composed YAML document, merge keys flattened: a scalar (or a node of another tag, which PyYAML
  constructs) with the key it makes when it is hashable.
\<close>

datatype yaml_node =
    YScalar structured "py_key option"
  | YSequence "yaml_node list"
  | YMapping "(yaml_node \<times> yaml_node) list"

datatype yaml_token = YAlias | YAnchor | YToken

datatype element =
  Element (el_tag: string) (el_attrib: "(string \<times> string) list") (el_text: "string option")
    (el_children: "element list") (el_tail: "string option")

record api_services =
  ap_json :: "string \<Rightarrow> py_exc + json_tree"
  ap_yaml_scan :: "string \<Rightarrow> yaml_token list \<times> py_exc option"
  ap_yaml_compose :: "string \<Rightarrow> py_exc + yaml_node"
  ap_xml :: "string \<Rightarrow> py_exc + element"
  ap_dumps :: "structured \<Rightarrow> py_exc + string"
  ap_get :: "string \<Rightarrow> int option \<Rightarrow> py_exc + string"
  ap_put :: "string \<Rightarrow> py_exc + string \<times> string \<times> nat"
  ap_casefold :: "string \<Rightarrow> string"
  ap_upper :: "string \<Rightarrow> string"
  ap_strip :: "string \<Rightarrow> string"
  ap_str :: "pyval \<Rightarrow> string"

record normalized_api =
  nz_document :: structured
  nz_representation :: string
  nz_parser :: string
  nz_locators :: "string list"
  nz_observed_format :: string
  nz_omitted_records :: int

record api_adapter =
  sa_maximum_parse_bytes :: int
  sa_maximum_nodes :: int
  sa_maximum_depth :: int
  sa_maximum_records :: int

definition StructuredAPIAdapter :: "int \<Rightarrow> int \<Rightarrow> int \<Rightarrow> int \<Rightarrow> api_adapter res" where
  "StructuredAPIAdapter maximum_parse_bytes maximum_nodes maximum_depth maximum_records =
     bind_res (raise_if (min (min maximum_parse_bytes maximum_nodes) (min maximum_depth maximum_records) \<le> 0)
         (ValueError ''API parser limits must be positive'')) (\<lambda>_.
       Inr \<lparr>sa_maximum_parse_bytes = maximum_parse_bytes, sa_maximum_nodes = maximum_nodes,
            sa_maximum_depth = maximum_depth, sa_maximum_records = maximum_records\<rparr>)"

definition invalid :: "string \<Rightarrow> py_exc" where
  "invalid message = value_exc (ValueError message)"

text \<open>\<^verbatim>\<open>xs[:n]\<close>.\<close>

definition py_take :: "int \<Rightarrow> 'a list \<Rightarrow> 'a list" where
  "py_take n xs = (if n < 0 then take (length xs - nat (- n)) xs else take (nat n) xs)"

definition JSON_NAMED_CAPABILITIES :: "string list" where
  "JSON_NAMED_CAPABILITIES = [''github_api'', ''semantic_scholar_api'', ''openreview_api'', ''crossref_openalex_api'']"

definition SAFE_METHODS :: "string list" where "SAFE_METHODS = [''GET'', ''HEAD'', ''OPTIONS'']"

definition KNOWN_METHODS :: "string list" where
  "KNOWN_METHODS = SAFE_METHODS @ [''POST'', ''PUT'', ''PATCH'', ''DELETE'']"

subsection \<open>Bounded walks\<close>

text \<open>
  The loop of the two structure checks, the stack with its top first: the node limit, the nesting limit,
  then what the node itself allows.
\<close>

function bounded_walk ::
  "('a \<Rightarrow> py_exc + 'a list) \<Rightarrow> string \<Rightarrow> int \<Rightarrow> int \<Rightarrow> ('a \<times> int) list \<Rightarrow> int \<Rightarrow> py_exc + unit" where
  "bounded_walk children kind maximum_nodes maximum_depth [] nodes = Inr ()"
| "bounded_walk children kind maximum_nodes maximum_depth ((v, depth) # stack) nodes =
     (if maximum_nodes < nodes + 1 then Inl (invalid (kind @ '' payload exceeds the node limit''))
      else if maximum_depth < depth then Inl (invalid (kind @ '' payload exceeds the nesting limit''))
      else case children v of
          Inl e \<Rightarrow> Inl e
        | Inr cs \<Rightarrow> bounded_walk children kind maximum_nodes maximum_depth
            (rev (map (\<lambda>c. (c, depth + 1)) cs) @ stack) (nodes + 1))"
  by pat_completeness auto
termination
  by (relation "measure (\<lambda>(_, _, maximum_nodes, _, _, nodes). nat (maximum_nodes - nodes))") auto

fun is_str_key :: "py_key \<Rightarrow> bool" where
  "is_str_key (KStr _) = True"
| "is_str_key (KOther _) = False"

fun structured_children :: "structured \<Rightarrow> py_exc + structured list" where
  "structured_children (SFloat (NonFinite _)) = Inl (invalid ''non-finite numbers are forbidden'')"
| "structured_children (SList xs) = Inr xs"
| "structured_children (SDict kvs) =
     (if list_all (is_str_key \<circ> fst) kvs then Inr (map snd kvs)
      else Inl (invalid ''structured object keys must be strings''))"
| "structured_children (SOther _) = Inl (invalid ''structured payload contains a non-JSON value'')"
| "structured_children _ = Inr []"

definition validate_json_structure :: "int \<Rightarrow> int \<Rightarrow> structured \<Rightarrow> py_exc + unit" where
  "validate_json_structure maximum_nodes maximum_depth data =
     bounded_walk structured_children ''structured'' maximum_nodes maximum_depth [(data, 1)] 0"

subsection \<open>JSON\<close>

text \<open>The decoder \<^verbatim>\<open>utf-8-sig\<close>.\<close>

definition byte_order_mark :: string where
  "byte_order_mark = map char_of [239, 187, 191 :: nat]"

definition decode_utf8_sig :: "string \<Rightarrow> py_exc + string" where
  "decode_utf8_sig body =
     (let content = py_removeprefix body byte_order_mark in
      if utf8_replace content = content then Inr content
      else Inl (simple_exc ExcValue ''UnicodeDecodeError'' ''invalid UTF-8''))"

lemma map_res_cong [fundef_cong]:
  "xs = ys \<Longrightarrow> (\<And>x. x \<in> set ys \<Longrightarrow> f x = g x) \<Longrightarrow> map_res f xs = map_res g ys"
  by (induction ys arbitrary: xs) (auto simp: bind_res_def split: sum.splits)

fun unique_object :: "(py_key \<times> structured) list \<Rightarrow> (string \<times> structured) list \<Rightarrow> py_exc + structured" where
  "unique_object result [] = Inr (SDict result)"
| "unique_object result ((key, v) # pairs) =
     (if KStr key \<in> fst ` set result then Inl (invalid ''duplicate JSON object keys are forbidden'')
      else unique_object (result @ [(KStr key, v)]) pairs)"

fun json_hooks :: "json_tree \<Rightarrow> py_exc + structured" where
  "json_hooks (JScalar v) = Inr v"
| "json_hooks (JConstant _) = Inl (invalid ''non-finite JSON numbers are forbidden'')"
| "json_hooks (JArray ts) = bind_res (map_res json_hooks ts) (\<lambda>vs. Inr (SList vs))"
| "json_hooks (JObject kts) =
     bind_res (map_res (\<lambda>(k, t). bind_res (json_hooks t) (\<lambda>v. Inr (k, v))) kts) (unique_object [])"

definition parse_json :: "api_services \<Rightarrow> int \<Rightarrow> int \<Rightarrow> string \<Rightarrow> py_exc + structured" where
  "parse_json sv maximum_nodes maximum_depth body =
     bind_res (decode_utf8_sig body) (\<lambda>text.
     bind_res (ap_json sv text) (\<lambda>tree.
     bind_res (json_hooks tree) (\<lambda>data.
     bind_res (validate_json_structure maximum_nodes maximum_depth data) (\<lambda>_. Inr data))))"

subsection \<open>OpenAPI\<close>

definition constructor_error :: "string \<Rightarrow> py_exc" where
  "constructor_error message = simple_exc ExcOther ''ConstructorError'' message"

fun yaml_key :: "yaml_node \<Rightarrow> py_key option" where
  "yaml_key (YScalar _ k) = k"
| "yaml_key _ = None"

text \<open>The safe loader's construction of values, with the constructor of mappings of the source.\<close>

function construct_object :: "yaml_node \<Rightarrow> py_exc + structured"
  and construct_unique_mapping :: "(py_key \<times> structured) list \<Rightarrow> (yaml_node \<times> yaml_node) list \<Rightarrow> py_exc + structured" where
  "construct_object (YScalar v _) = Inr v"
| "construct_object (YSequence ns) = bind_res (map_res construct_object ns) (\<lambda>vs. Inr (SList vs))"
| "construct_object (YMapping kns) = construct_unique_mapping [] kns"
| "construct_unique_mapping result [] = Inr (SDict result)"
| "construct_unique_mapping result ((key_node, value_node) # rest) =
     bind_res (construct_object key_node) (\<lambda>_.
       case yaml_key key_node of
         None \<Rightarrow> Inl (constructor_error ''found an unhashable mapping key'')
       | Some k \<Rightarrow>
           if k \<in> fst ` set result then Inl (constructor_error ''found duplicate key'')
           else bind_res (construct_object value_node) (\<lambda>v. construct_unique_mapping (result @ [(k, v)]) rest))"
  by pat_completeness auto
termination
  by (relation "measure (case_sum size (\<lambda>(_, kns). size_list (size_prod size size) kns))")
    (auto simp: less_Suc_eq_le size_list_estimation' [OF _ order_refl])

definition sd_get :: "(py_key \<times> structured) list \<Rightarrow> string \<Rightarrow> structured" where
  "sd_get d k = (case map_of d (KStr k) of Some v \<Rightarrow> v | None \<Rightarrow> SNull)"

fun st_truthy :: "structured \<Rightarrow> bool" where
  "st_truthy SNull = False"
| "st_truthy (SBool b) = b"
| "st_truthy (SInt i) = (i \<noteq> 0)"
| "st_truthy (SFloat (Finite x)) = (x \<noteq> 0)"
| "st_truthy (SFloat (NonFinite _)) = True"
| "st_truthy (SStr s) = (s \<noteq> [])"
| "st_truthy (SList xs) = (xs \<noteq> [])"
| "st_truthy (SDict kvs) = (kvs \<noteq> [])"
| "st_truthy (SOther _) = True"

definition is_bytes_space :: "char \<Rightarrow> bool" where
  "is_bytes_space c \<longleftrightarrow> (9 \<le> ord_char c \<and> ord_char c \<le> 13) \<or> ord_char c = 32"

definition forbids_references :: "yaml_token list \<times> py_exc option \<Rightarrow> py_exc + unit" where
  "forbids_references scan =
     (case scan of (tokens, end) \<Rightarrow>
        if list_ex (\<lambda>t. t = YAlias \<or> t = YAnchor) tokens
        then Inl (invalid ''YAML aliases and anchors are forbidden in untrusted OpenAPI input'')
        else (case end of Some e \<Rightarrow> Inl e | None \<Rightarrow> Inr ()))"

definition openapi_candidate :: "api_services \<Rightarrow> int \<Rightarrow> int \<Rightarrow> string \<Rightarrow> py_exc + structured \<times> string" where
  "openapi_candidate sv maximum_nodes maximum_depth body =
     (let stripped = py_lstrip_by is_bytes_space body in
      if py_startswith stripped ''{'' \<or> py_startswith stripped ''[''
      then bind_res (parse_json sv maximum_nodes maximum_depth body) (\<lambda>candidate. Inr (candidate, ''openapi-json''))
      else bind_res (decode_utf8_sig body) (\<lambda>text.
        bind_res (forbids_references (ap_yaml_scan sv text)) (\<lambda>_.
        bind_res (ap_yaml_compose sv text) (\<lambda>node.
        bind_res (construct_object node) (\<lambda>candidate.
        bind_res (validate_json_structure maximum_nodes maximum_depth candidate) (\<lambda>_.
          Inr (candidate, ''openapi-yaml-safe'')))))))"

definition parse_openapi ::
  "api_services \<Rightarrow> int \<Rightarrow> int \<Rightarrow> string \<Rightarrow> py_exc + (py_key \<times> structured) list \<times> string" where
  "parse_openapi sv maximum_nodes maximum_depth body =
     bind_res (openapi_candidate sv maximum_nodes maximum_depth body) (\<lambda>(candidate, parser).
       case candidate of
         SDict d \<Rightarrow>
           let version = (if st_truthy (sd_get d ''openapi'') then sd_get d ''openapi'' else sd_get d ''swagger'') in
           (case version of
              SStr v \<Rightarrow>
                if ap_strip sv v = [] then Inl (adapter_error ''OpenAPI document is missing its version'')
                else (case sd_get d ''paths'' of
                    SDict _ \<Rightarrow> Inr (d, parser)
                  | _ \<Rightarrow> Inl (adapter_error ''OpenAPI document must contain a paths object''))
            | _ \<Rightarrow> Inl (adapter_error ''OpenAPI document is missing its version''))
       | _ \<Rightarrow> Inl (adapter_error ''OpenAPI document must be an object''))"

subsection \<open>XML\<close>

text \<open>The search for \<^verbatim>\<open><!\s*(?:DOCTYPE|ENTITY)\b\<close>, case ignored.\<close>

definition word_byte :: "char \<Rightarrow> bool" where
  "word_byte c \<longleftrightarrow> is_alpha c \<or> is_digit c \<or> c = CHR ''_''"

definition word_at :: "string \<Rightarrow> string \<Rightarrow> bool" where
  "word_at word s \<longleftrightarrow> py_lower (take (length word) s) = word \<and>
     (case drop (length word) s of [] \<Rightarrow> True | c # _ \<Rightarrow> \<not> word_byte c)"

definition declaration_at :: "string \<Rightarrow> bool" where
  "declaration_at s \<longleftrightarrow> py_startswith s ''<!'' \<and>
     (let rest = py_lstrip_by is_bytes_space (drop 2 s) in word_at ''doctype'' rest \<or> word_at ''entity'' rest)"

fun xml_declarations :: "string \<Rightarrow> bool" where
  "xml_declarations [] = False"
| "xml_declarations (c # cs) \<longleftrightarrow> declaration_at (c # cs) \<or> xml_declarations cs"

definition parse_xml :: "api_services \<Rightarrow> int \<Rightarrow> int \<Rightarrow> string \<Rightarrow> py_exc + element" where
  "parse_xml sv maximum_nodes maximum_depth body =
     (if xml_declarations body then Inl (invalid ''DTD and entity declarations are forbidden in untrusted XML'')
      else bind_res (ap_xml sv body) (\<lambda>tree.
        bind_res (bounded_walk (\<lambda>e. Inr (el_children e)) ''XML'' maximum_nodes maximum_depth [(tree, 1)] 0) (\<lambda>_. Inr tree)))"

definition local_name :: "string \<Rightarrow> string" where
  "local_name tag = snd (snd (py_rpartition (CHR '':'') (snd (snd (py_rpartition (CHR ''}'') tag)))))"

definition xml_namespace :: "string \<Rightarrow> string option" where
  "xml_namespace tag =
     (if py_startswith tag ''{'' \<and> CHR ''}'' \<in> set tag then Some (takeWhile (\<lambda>c. c \<noteq> CHR ''}'') (tl tag)) else None)"

definition el_get :: "element \<Rightarrow> string \<Rightarrow> string option" where
  "el_get e k = map_of (el_attrib e) k"

text \<open>\<^verbatim>\<open>iter\<close> and \<^verbatim>\<open>itertext\<close>.\<close>

fun el_iter :: "element \<Rightarrow> element list" where
  "el_iter (Element tag attrib t cs tl0) = Element tag attrib t cs tl0 # concat (map el_iter cs)"

fun el_itertext :: "element \<Rightarrow> string" where
  "el_itertext (Element tag attrib t cs tl0) =
     or_empty t @ concat (map (\<lambda>c. el_itertext c @ or_empty (el_tail c)) cs)"

definition document_of :: "(string \<times> structured) list \<Rightarrow> structured" where
  "document_of kvs = SDict (map (\<lambda>(k, v). (KStr k, v)) kvs)"

definition local_attributes :: "(string \<times> string) list \<Rightarrow> (py_key \<times> structured) list" where
  "local_attributes attrib =
     foldl (\<lambda>d (k, v). assoc_set (KStr (local_name k)) (SStr v) d) [] (sort_key fst attrib)"

fun element_document :: "(string \<Rightarrow> string) \<Rightarrow> element \<Rightarrow> structured" where
  "element_document strip (Element tag attrib t cs tl0) =
     document_of [(''tag'', SStr (local_name tag)), (''attributes'', SDict (local_attributes attrib)),
       (''text'', SStr (strip (or_empty t))), (''children'', SList (map (element_document strip) cs))]"

subsection \<open>Feeds and sitemaps\<close>

definition opt_str :: "string option \<Rightarrow> structured" where
  "opt_str v = (case v of Some s \<Rightarrow> SStr s | None \<Rightarrow> SNull)"

definition first_of :: "'a option \<Rightarrow> 'a option \<Rightarrow> 'a option" where
  "first_of a b = (case a of Some x \<Rightarrow> Some x | None \<Rightarrow> b)"

definition folded_name :: "api_services \<Rightarrow> element \<Rightarrow> string" where
  "folded_name sv e = ap_casefold sv (local_name (el_tag e))"

definition child_text :: "api_services \<Rightarrow> element \<Rightarrow> string \<Rightarrow> string option" where
  "child_text sv e name =
     (case List.find (\<lambda>c. folded_name sv c = ap_casefold sv name) (el_children e) of
        None \<Rightarrow> None
      | Some c \<Rightarrow> truthy (Some (ap_strip sv (el_itertext c))))"

definition atom_link :: "api_services \<Rightarrow> element \<Rightarrow> string option" where
  "atom_link sv e =
     (case List.find (\<lambda>c. folded_name sv c = ''link'' \<and>
          ap_casefold sv (case el_get c ''rel'' of Some r \<Rightarrow> r | None \<Rightarrow> ''alternate'') = ''alternate'' \<and>
          truthy (el_get c ''href'') \<noteq> None) (el_children e) of
        None \<Rightarrow> None
      | Some c \<Rightarrow> el_get c ''href'')"

definition feed_record :: "api_services \<Rightarrow> bool \<Rightarrow> element \<Rightarrow> structured" where
  "feed_record sv atom e = document_of
     [(''title'', opt_str (child_text sv e ''title'')),
      (''link'', opt_str (if atom then atom_link sv e else child_text sv e ''link'')),
      (''id'', opt_str (first_of (child_text sv e ''id'') (child_text sv e ''guid''))),
      (''summary'', opt_str (first_of (child_text sv e ''summary'')
         (first_of (child_text sv e ''description'') (child_text sv e ''content'')))),
      (''published'', opt_str (first_of (child_text sv e ''published'') (child_text sv e ''pubDate''))),
      (''updated'', opt_str (child_text sv e ''updated''))]"

text \<open>Numbered locators, or one name when there is no record.\<close>

definition numbered_locators :: "string \<Rightarrow> string \<Rightarrow> nat \<Rightarrow> string list" where
  "numbered_locators kind none n =
     (if n = 0 then [none] else map (\<lambda>i. kind @ '':'' @ nat_to_str i) [1..<n + 1])"

definition omitted_records :: "'a list \<Rightarrow> 'b list \<Rightarrow> int" where
  "omitted_records all kept = max 0 (int (length all) - int (length kept))"

type_synonym normalized_data = "structured \<times> string list \<times> int"

definition normalize_rss :: "api_services \<Rightarrow> int \<Rightarrow> element \<Rightarrow> py_exc + normalized_data" where
  "normalize_rss sv maximum_records tree =
     (let root_name = folded_name sv tree in
      if root_name \<noteq> ''rss'' \<and> root_name \<noteq> ''rdf''
      then Inl (adapter_error ''RSS document must have an rss or RDF root'')
      else if root_name = ''rss'' \<and> ap_strip sv (or_empty (el_get tree ''version'')) = []
      then Inl (adapter_error ''RSS document must declare its version'')
      else let channel = (case List.find (\<lambda>e. folded_name sv e = ''channel'') (el_iter tree) of Some e \<Rightarrow> e | None \<Rightarrow> tree);
               all_items = filter (\<lambda>e. folded_name sv e = ''item'') (el_iter tree);
               items = map (feed_record sv False) (py_take maximum_records all_items) in
        Inr (document_of [(''type'', SStr ''rss''), (''title'', opt_str (child_text sv channel ''title'')),
               (''link'', opt_str (child_text sv channel ''link'')), (''description'', opt_str (child_text sv channel ''description'')),
               (''items'', SList items)],
             numbered_locators ''item'' ''channel'' (length items), omitted_records all_items items))"

definition normalize_atom :: "api_services \<Rightarrow> int \<Rightarrow> element \<Rightarrow> py_exc + normalized_data" where
  "normalize_atom sv maximum_records tree =
     (if folded_name sv tree \<noteq> ''feed'' \<or> xml_namespace (el_tag tree) \<noteq> Some ''http://www.w3.org/2005/Atom''
      then Inl (adapter_error ''Atom document must have the Atom namespaced feed root'')
      else let all_entries = filter (\<lambda>e. folded_name sv e = ''entry'') (el_children tree);
               entries = map (feed_record sv True) (py_take maximum_records all_entries) in
        Inr (document_of [(''type'', SStr ''atom''), (''title'', opt_str (child_text sv tree ''title'')),
               (''link'', opt_str (atom_link sv tree)), (''id'', opt_str (child_text sv tree ''id'')),
               (''updated'', opt_str (child_text sv tree ''updated'')), (''entries'', SList entries)],
             numbered_locators ''entry'' ''feed'' (length entries), omitted_records all_entries entries))"

definition sitemap_record :: "api_services \<Rightarrow> element \<Rightarrow> structured" where
  "sitemap_record sv e = document_of (List.map_filter (\<lambda>key. map_option (\<lambda>t. (key, SStr t)) (child_text sv e key))
     [''loc'', ''lastmod'', ''changefreq'', ''priority''])"

definition normalize_sitemap :: "api_services \<Rightarrow> int \<Rightarrow> element \<Rightarrow> py_exc + normalized_data" where
  "normalize_sitemap sv maximum_records tree =
     (let root_name = folded_name sv tree in
      if root_name \<noteq> ''urlset'' \<and> root_name \<noteq> ''sitemapindex''
      then Inl (adapter_error ''sitemap XML must have a urlset or sitemapindex root'')
      else let record_name = (if root_name = ''urlset'' then ''url'' else ''sitemap'');
               all_records = filter (\<lambda>e. folded_name sv e = record_name) (el_children tree);
               records = map (sitemap_record sv) (py_take maximum_records all_records) in
        Inr (document_of [(''type'', SStr root_name), (''records'', SList records)],
             numbered_locators record_name root_name (length records), omitted_records all_records records))"

subsection \<open>Truncation and locators\<close>

lemma set_py_take: "x \<in> set (py_take n xs) \<Longrightarrow> x \<in> set xs"
  by (auto simp: py_take_def dest: in_set_takeD split: if_splits)

lemma size_py_take [termination_simp]: "x \<in> set (py_take n xs) \<Longrightarrow> size x < Suc (size_list size xs)"
  using size_list_estimation' [OF set_py_take, of x n xs "size x" size] by simp

fun truncate_json_lists :: "int \<Rightarrow> structured \<Rightarrow> structured \<times> int" where
  "truncate_json_lists maximum_records (SList xs) =
     (let kept = map (truncate_json_lists maximum_records) (py_take maximum_records xs) in
      (SList (map fst kept), max 0 (int (length xs) - maximum_records) + sum_list (map snd kept)))"
| "truncate_json_lists maximum_records (SDict kvs) =
     (let kept = map (\<lambda>(k, v). (k, truncate_json_lists maximum_records v)) kvs in
      (SDict (map (\<lambda>(k, r). (k, fst r)) kept), sum_list (map (snd \<circ> snd) kept)))"
| "truncate_json_lists maximum_records v = (v, 0)"

definition json_pointer :: "string \<Rightarrow> string" where
  "json_pointer v = concat (map (\<lambda>c. if c = CHR ''/'' then ''~1'' else [c])
     (concat (map (\<lambda>c. if c = CHR ''~'' then ''~0'' else [c]) v)))"

fun key_text :: "py_key \<Rightarrow> string" where
  "key_text (KStr s) = s"
| "key_text (KOther _) = []"

definition or_root :: "string list \<Rightarrow> string list" where
  "or_root ls = (if ls = [] then [''json:/''] else ls)"

definition json_locators :: "int \<Rightarrow> structured \<Rightarrow> string list" where
  "json_locators maximum_records data =
     (case data of
        SDict kvs \<Rightarrow> or_root (map (\<lambda>(k, _). ''json:/'' @ json_pointer (key_text k)) (py_take maximum_records kvs))
      | SList xs \<Rightarrow> or_root (map (\<lambda>i. ''json:/'' @ nat_to_str i) [0..<nat (min (int (length xs)) maximum_records)])
      | _ \<Rightarrow> [''json:/''])"

subsection \<open>Normalisation\<close>

definition has_any :: "string list \<Rightarrow> structured \<Rightarrow> bool" where
  "has_any names data = (case data of SDict d \<Rightarrow> list_ex (\<lambda>(k, _). list_ex (\<lambda>n. k = KStr n) names) d | _ \<Rightarrow> False)"

definition required_any :: "api_services \<Rightarrow> string \<Rightarrow> string \<Rightarrow> py_exc + string list" where
  "required_any sv capability_id source_url =
     (if capability_id = ''github_api''
      then Inr [''id'', ''login'', ''name'', ''full_name'', ''items'', ''message'', ''documentation_url'', ''current_user_url'']
      else if capability_id = ''semantic_scholar_api''
      then Inr [''paperId'', ''title'', ''authors'', ''data'', ''total'', ''offset'', ''externalIds'', ''message'']
      else if capability_id = ''openreview_api''
      then Inr [''id'', ''notes'', ''groups'', ''profiles'', ''invitations'', ''edges'', ''count'', ''content'', ''forum'']
      else bind_res (lift_exc (urlsplit source_url)) (\<lambda>parts.
        Inr (if py_rstrip_by (\<lambda>c. c = CHR ''.'') (ap_casefold sv (sr_hostname parts)) = ''api.crossref.org''
             then [''status'', ''message-type'', ''message'']
             else [''id'', ''results'', ''meta'', ''display_name'', ''count''])))"

definition validate_named_schema :: "api_services \<Rightarrow> string \<Rightarrow> structured \<Rightarrow> string \<Rightarrow> py_exc + unit" where
  "validate_named_schema sv capability_id data source_url =
     (if capability_id = ''github_api'' \<and> (case data of SList _ \<Rightarrow> True | _ \<Rightarrow> False) then Inr ()
      else bind_res (required_any sv capability_id source_url) (\<lambda>names.
        if has_any names data then Inr ()
        else Inl (adapter_error (capability_id @ '' response does not match its public API schema''))))"

definition looks_like_xml :: "api_services \<Rightarrow> string \<Rightarrow> string \<Rightarrow> bool" where
  "looks_like_xml sv body media_type =
     (let kind = ap_strip sv (fst (py_partition (CHR '';'') (ap_casefold sv media_type))) in
      kind = ''application/xml'' \<or> kind = ''text/xml'' \<or> py_endswith kind ''+xml'' \<or>
      py_startswith (py_lstrip_by is_bytes_space body) ''<'')"

definition normalized_document ::
  "string \<Rightarrow> string \<Rightarrow> string \<Rightarrow> string \<Rightarrow> structured \<Rightarrow> string \<Rightarrow> string list \<Rightarrow> string \<Rightarrow> int \<Rightarrow> normalized_api" where
  "normalized_document capability_id authority_url source_url repr data parser locators observed_format omitted =
     \<lparr>nz_document = document_of [(''schema_version'', SStr ''1.0''), (''capability'', SStr capability_id),
        (''authority_url'', SStr authority_url), (''source_url'', SStr source_url), (''format'', SStr observed_format),
        (''data'', data), (''omitted_records'', SInt omitted)],
      nz_representation = repr, nz_parser = parser, nz_locators = locators, nz_observed_format = observed_format,
      nz_omitted_records = omitted\<rparr>"

text \<open>The branches of \<^verbatim>\<open>normalize_api_payload\<close>, each with the sanitised authority and source.\<close>

definition normalize_openapi ::
  "api_services \<Rightarrow> api_adapter \<Rightarrow> string \<Rightarrow> string \<Rightarrow> string \<Rightarrow> string \<Rightarrow> py_exc + normalized_api" where
  "normalize_openapi sv aa capability_id authority source body =
     bind_res (parse_openapi sv (sa_maximum_nodes aa) (sa_maximum_depth aa) body) (\<lambda>(d, parser).
       let paths = (case sd_get d ''paths'' of SDict ps \<Rightarrow> ps | _ \<Rightarrow> []);
           selected_paths = py_take (sa_maximum_records aa) paths;
           locators = map (\<lambda>(path, _). ''path:'' @ key_text path) selected_paths in
       Inr (normalized_document capability_id authority source ''openapi'' (SDict (assoc_set (KStr ''paths'') (SDict selected_paths) d)) parser
         (if locators = [] then [''document''] else locators) ''openapi'' (omitted_records paths selected_paths)))"

definition normalize_feed ::
  "api_services \<Rightarrow> api_adapter \<Rightarrow> string \<Rightarrow> string \<Rightarrow> string \<Rightarrow> string \<Rightarrow> py_exc + normalized_api" where
  "normalize_feed sv aa capability_id authority source body =
     bind_res (parse_xml sv (sa_maximum_nodes aa) (sa_maximum_depth aa) body) (\<lambda>tree.
     bind_res (if capability_id = ''rss'' then normalize_rss sv (sa_maximum_records aa) tree
               else if capability_id \<in> {''atom'', ''arxiv_api''} then normalize_atom sv (sa_maximum_records aa) tree
               else normalize_sitemap sv (sa_maximum_records aa) tree) (\<lambda>(data, locators, omitted).
       Inr (normalized_document capability_id authority source
         (if capability_id = ''arxiv_api'' then ''api_response'' else if capability_id = ''sitemap_xml'' then ''sitemap'' else ''feed'')
         data ''elementtree-safe'' locators
         (if capability_id = ''rss'' then ''rss'' else if capability_id = ''sitemap_xml'' then ''sitemap_xml'' else ''atom'') omitted)))"

definition normalize_xml ::
  "api_services \<Rightarrow> api_adapter \<Rightarrow> string \<Rightarrow> string \<Rightarrow> string \<Rightarrow> string \<Rightarrow> string \<Rightarrow> py_exc + normalized_api" where
  "normalize_xml sv aa repr capability_id authority source body =
     bind_res (parse_xml sv (sa_maximum_nodes aa) (sa_maximum_depth aa) body) (\<lambda>tree.
       Inr (normalized_document capability_id authority source repr (element_document (ap_strip sv) tree) ''elementtree-safe''
         [''element:/'' @ local_name (el_tag tree)] ''xml'' 0))"

definition normalize_json ::
  "api_services \<Rightarrow> api_adapter \<Rightarrow> string \<Rightarrow> string \<Rightarrow> string \<Rightarrow> string \<Rightarrow> string \<Rightarrow> py_exc + normalized_api" where
  "normalize_json sv aa capability_id authority source source_url body =
     bind_res (parse_json sv (sa_maximum_nodes aa) (sa_maximum_depth aa) body) (\<lambda>data.
     bind_res (if capability_id = ''graphql'' \<and> \<not> has_any [''data'', ''errors''] data
               then Inl (adapter_error ''GraphQL response must contain data or errors'') else Inr ()) (\<lambda>_.
     bind_res (if capability_id \<in> set JSON_NAMED_CAPABILITIES then validate_named_schema sv capability_id data source_url else Inr ()) (\<lambda>_.
       case truncate_json_lists (sa_maximum_records aa) data of
         (bounded, omitted) \<Rightarrow>
           Inr (normalized_document capability_id authority source
             (if capability_id = ''graphql'' then ''graphql'' else if capability_id = ''json_endpoint'' then ''json'' else ''api_response'')
             bounded ''json-stdlib'' (json_locators (sa_maximum_records aa) bounded) ''json'' omitted))))"

definition normalize_api_payload ::
  "api_services \<Rightarrow> api_adapter \<Rightarrow> string \<Rightarrow> string \<Rightarrow> string \<Rightarrow> string \<Rightarrow> string \<Rightarrow> py_exc + normalized_api" where
  "normalize_api_payload sv aa capability_id body media_type source_url authority_url =
     (if capability_id \<notin> set API_CAPABILITIES then Inl (adapter_error (''unknown structured API capability '' @ capability_id))
      else if capability_id \<in> fst ` set NAMED_API_ROUTES \<and> \<not> matches_named_origin capability_id source_url
      then Inl (adapter_error (capability_id @ '' requires its canonical public API origin and path''))
      else bind_res (lift_exc (sanitize_url False authority_url)) (\<lambda>authority.
        bind_res (lift_exc (sanitize_url False source_url)) (\<lambda>source.
          if capability_id = ''openapi_discovery'' then normalize_openapi sv aa capability_id authority source body
          else if capability_id \<in> {''rss'', ''atom'', ''sitemap_xml'', ''arxiv_api''} then normalize_feed sv aa capability_id authority source body
          else if capability_id = ''xml_endpoint'' then normalize_xml sv aa ''xml'' capability_id authority source body
          else if capability_id = ''rest'' \<and> looks_like_xml sv body media_type
          then normalize_xml sv aa ''api_response'' capability_id authority source body
          else normalize_json sv aa capability_id authority source source_url body)))"

subsection \<open>The adapter\<close>

definition ACQUISITIONS :: "string list" where
  "ACQUISITIONS = [''http_get'', ''http_head'', ''http_post'', ''browser_header_http'', ''range_request'']"

definition acquired_source :: "execution_context \<Rightarrow> py_exc + artifact \<times> resource" where
  "acquired_source ctx =
     (case latest_artifact ctx [''raw''] of
        None \<Rightarrow> Inl (adapter_error ''structured API parsing requires an acquired raw artifact'')
      | Some raw \<Rightarrow>
          (case List.find (\<lambda>r. rs_resource_id r = ar_source_resource_id raw) (rev (xc_resources ctx)) of
             None \<Rightarrow> Inl (adapter_error ''raw artifact has no matching source resource'')
           | Some resource \<Rightarrow>
               if list_ex (\<lambda>a. at_status a = AT_SUCCEEDED \<and> ar_artifact_id raw \<in> set (at_artifact_ids a) \<and>
                    at_capability_id a \<in> set ACQUISITIONS) (xc_attempts ctx)
               then Inr (raw, resource)
               else Inl (adapter_error ''structured API parsing requires successful HTTP acquisition provenance'')))"

definition metadata_get :: "fetch_request \<Rightarrow> string \<Rightarrow> string \<Rightarrow> string" where
  "metadata_get request k d = (case map_of (rq_metadata request) k of Some v \<Rightarrow> v | None \<Rightarrow> d)"

definition api_method :: "api_services \<Rightarrow> plan_node \<Rightarrow> fetch_request \<Rightarrow> string" where
  "api_method sv node request =
     ap_upper sv (py_str (ap_str sv) (py_get (pn_parameters node) ''method'' (VStr (metadata_get request ''http_method'' ''GET''))))"

definition api_operation :: "api_services \<Rightarrow> plan_node \<Rightarrow> fetch_request \<Rightarrow> string" where
  "api_operation sv node request =
     ap_casefold sv (py_str (ap_str sv) (py_get (pn_parameters node) ''operation_type'' (VStr (metadata_get request ''api_operation'' ''query''))))"

definition is_mutating :: "api_services \<Rightarrow> plan_node \<Rightarrow> fetch_request \<Rightarrow> bool" where
  "is_mutating sv node request \<longleftrightarrow>
     api_method sv node request \<notin> set SAFE_METHODS \<or> api_operation sv node request = ''mutation''"

definition mutation_approved :: "api_services \<Rightarrow> plan_node \<Rightarrow> fetch_request \<Rightarrow> bool" where
  "mutation_approved sv node request \<longleftrightarrow>
     pn_capability_id node \<in> rq_approved_capabilities request \<or>
     ap_casefold sv (metadata_get request ''api_mutation_approved'' []) = ''true'' \<or>
     (api_method sv node request = ''POST'' \<and> ap_casefold sv (metadata_get request ''http_post_approved'' []) = ''true'' \<and>
      api_operation sv node request \<noteq> ''mutation'')"

definition MUTATION_REASON :: string where
  "MUTATION_REASON = ''mutating API operation requires explicit approval''"

definition enforce_non_mutating_request :: "api_services \<Rightarrow> plan_node \<Rightarrow> fetch_request \<Rightarrow> py_exc + unit" where
  "enforce_non_mutating_request sv node request =
     (if api_method sv node request \<notin> set KNOWN_METHODS then Inl (adapter_error ''structured API method is unsupported'')
      else if is_mutating sv node request \<and> \<not> mutation_approved sv node request
      then bind_res (lift_exc (sanitize_url False (rq_target request))) (\<lambda>destination.
        Inl (policy_exc_of MUTATION_REASON [\<lparr>pd_policy_id = ''api_mutation_approval'', pd_allowed = False,
          pd_reason = MUTATION_REASON, pd_destination = Some destination\<rparr>]))
      else Inr ())"

definition record_format_outcome :: "string \<Rightarrow> string \<Rightarrow> execution_context \<Rightarrow> execution_context" where
  "record_format_outcome requested_capability observed_format ctx =
     (let format_capability = (if observed_format = ''json'' then Some ''json_endpoint''
            else if observed_format \<in> {''xml'', ''rss'', ''atom'', ''sitemap_xml''} then Some ''xml_endpoint'' else None) in
      case format_capability of
        None \<Rightarrow> ctx
      | Some c \<Rightarrow> if c = requested_capability then ctx
          else record_outcome ctx c CO_OBSERVED ''api'' [(''discovered_by'', VStr requested_capability)])"

definition api_quality :: quality_assessment where
  "api_quality = \<lparr>qa_page_state = PS_OK, qa_score = 1, qa_accepted = True, qa_language = None, qa_completeness = 1,
     qa_duplicate_of = None, qa_reasons = [''schema-valid bounded structured response'']\<rparr>"

definition api_attempt :: "uuid \<Rightarrow> time \<Rightarrow> string \<Rightarrow> string \<Rightarrow> fetch_attempt" where
  "api_attempt new_id now capability_id destination =
     \<lparr>at_attempt_id = new_id, at_capability_id = capability_id, at_adapter_version = ''0.3.0a0'', at_started_at = now,
      at_finished_at = None, at_sanitized_destination = destination, at_status = AT_RUNNING, at_http_status = None,
      at_bytes_received = 0, at_parser = None, at_artifact_ids = [], at_failure_code = None, at_warnings = [],
      at_consumed_budget = []\<rparr>"

text \<open>The body of the \<^verbatim>\<open>try\<close> up to the stored document.\<close>

definition api_produce ::
  "api_services \<Rightarrow> api_adapter \<Rightarrow> plan_node \<Rightarrow> execution_context
     \<Rightarrow> py_exc + artifact \<times> resource \<times> string \<times> normalized_api \<times> string \<times> string \<times> nat" where
  "api_produce sv aa node ctx =
     (let request = xc_request ctx; capability_id = pn_capability_id node in
      if capability_id \<notin> set API_CAPABILITIES
      then Inl (adapter_error (''structured API adapter cannot execute '' @ capability_id))
      else bind_res (enforce_non_mutating_request sv node request) (\<lambda>_.
        bind_res (acquired_source ctx) (\<lambda>(raw, resource).
          let parse_limit = min (sa_maximum_parse_bytes aa) (min (b_bytes (rq_budget request)) (b_decompressed_bytes (rq_budget request))) in
          if parse_limit < int (ar_size raw) then Inl (adapter_error ''structured API body exceeds the parser byte limit'')
          else bind_res (ap_get sv (ar_cas_uri raw) (Some parse_limit)) (\<lambda>body.
            bind_res (lift_exc (sanitize_url_for_request (rs_canonical_url resource) request)) (\<lambda>source_url.
            bind_res (lift_exc (sanitize_url_for_request (case truthy (rs_authority_url resource) of Some u \<Rightarrow> u | None \<Rightarrow> rs_requested_url resource) request)) (\<lambda>authority_url.
            bind_res (normalize_api_payload sv aa capability_id body (ar_media_type raw) source_url authority_url) (\<lambda>normalized.
            bind_res (ap_dumps sv (nz_document normalized)) (\<lambda>encoded.
            bind_res (ap_put sv encoded) (\<lambda>(uri, digest, byte_size).
              Inr (raw, resource, body, normalized, uri, digest, byte_size))))))))))"

definition set_attempt :: "nat \<Rightarrow> fetch_attempt \<Rightarrow> execution_context \<Rightarrow> execution_context" where
  "set_attempt i a ctx = ctx\<lparr>xc_attempts := (xc_attempts ctx)[i := a]\<rparr>"

definition api_artifact ::
  "uuid \<Rightarrow> plan_node \<Rightarrow> artifact \<Rightarrow> resource \<Rightarrow> normalized_api \<Rightarrow> string \<Rightarrow> string \<Rightarrow> nat \<Rightarrow> artifact" where
  "api_artifact new_id node raw resource normalized uri digest byte_size =
     build_artifact new_id ''primary'' (nz_representation normalized)
       (''application/vnd.fetech.'' @ nz_representation normalized @ ''+json'') uri digest byte_size resource
       (''builtin-api/'' @ pn_capability_id node @ ''/0.3'') api_quality [raw] (nz_locators normalized)"

definition finish_api ::
  "plan_node \<Rightarrow> nat \<Rightarrow> fetch_attempt \<Rightarrow> artifact \<Rightarrow> string \<Rightarrow> normalized_api \<Rightarrow> time \<Rightarrow> execution_context \<Rightarrow> execution_context" where
  "finish_api node i attempt a body normalized now ctx =
     set_attempt i (attempt\<lparr>at_status := AT_SUCCEEDED, at_finished_at := Some now, at_bytes_received := int (length body),
         at_parser := Some (nz_parser normalized), at_artifact_ids := [ar_artifact_id a]\<rparr>)
       (record_format_outcome (pn_capability_id node) (nz_observed_format normalized)
         (record_outcome (ctx\<lparr>xc_artifacts := xc_artifacts ctx @ [a], xc_accepted := True\<rparr>) (pn_capability_id node) CO_APPLIED ''api''
           [(''format'', VStr (nz_observed_format normalized)), (''bounded'', VBool True),
            (''omitted_records'', VInt (nz_omitted_records normalized))]))"

definition PARSE_ERRORS :: "string list" where
  "PARSE_ERRORS = [''ParseError'', ''YAMLError'', ''MarkedYAMLError'', ''ScannerError'', ''ParserError'', ''ComposerError'',
     ''ConstructorError'', ''ReaderError'']"

definition MALFORMED_REASON :: string where
  "MALFORMED_REASON = ''structured API payload is invalid or exceeds parser limits''"

text \<open>The handlers: the updated context and the exception that leaves the adapter.\<close>

definition fail_api ::
  "plan_node \<Rightarrow> nat \<Rightarrow> fetch_attempt \<Rightarrow> py_exc \<Rightarrow> time \<Rightarrow> execution_context \<Rightarrow> execution_context \<times> py_exc" where
  "fail_api node i attempt e now ctx =
     (let failed = attempt\<lparr>at_status := AT_FAILED, at_finished_at := Some now\<rparr> in
      if ex_class e = ExcPolicyBlocked
      then (set_attempt i (failed\<lparr>at_failure_code := Some ''policy''\<rparr>)
              (record_outcome ctx (pn_capability_id node) CO_BLOCKED ''api'' [(''reason'', VStr MUTATION_REASON)]), e)
      else if is_adapter_execution_error (ex_class e)
      then (set_attempt i (failed\<lparr>at_failure_code := Some ''malformed_api_payload'', at_warnings := [ex_message e]\<rparr>)
              (record_outcome ctx (pn_capability_id node) CO_FAILED ''api'' [(''reason'', VStr (ex_message e))]), e)
      else if ex_class e = ExcValue \<or> ex_type_name e \<in> set PARSE_ERRORS
      then (set_attempt i (failed\<lparr>at_failure_code := Some ''malformed_api_payload'', at_warnings := [MALFORMED_REASON]\<rparr>)
              (record_outcome ctx (pn_capability_id node) CO_FAILED ''api'' [(''reason'', VStr MALFORMED_REASON)]),
            caused_by (adapter_error MALFORMED_REASON) e)
      else (ctx, e))"

definition api_execute :: "api_services \<Rightarrow> api_adapter \<Rightarrow> adapter" where
  "api_execute sv aa node ctx0 en0 =
     (case sanitize_url_for_request (rq_target (xc_request ctx0)) (xc_request ctx0) of
        Inl e \<Rightarrow> (ctx0, en0, Some (value_exc e))
      | Inr destination \<Rightarrow>
          let attempt = api_attempt (en_next_id en0) (en_clock en0) (pn_capability_id node) destination;
              i = length (xc_attempts ctx0);
              ctx = ctx0\<lparr>xc_attempts := xc_attempts ctx0 @ [attempt]\<rparr>;
              en = en0\<lparr>en_next_id := en_next_id en0 + 1\<rparr> in
          (case api_produce sv aa node ctx of
             Inl e \<Rightarrow> (case fail_api node i attempt e (en_clock en) ctx of (ctx1, e1) \<Rightarrow> (ctx1, en, Some e1))
           | Inr (raw, resource, body, normalized, uri, digest, byte_size) \<Rightarrow>
               let a = api_artifact (en_next_id en) node raw resource normalized uri digest byte_size in
               (finish_api node i attempt a body normalized (en_clock en) ctx, en\<lparr>en_next_id := en_next_id en + 1\<rparr>, None)))"

end
