(* ===== verification/Structured_Api_Correct.thy ===== *)
theory Structured_Api_Correct
  imports Structured_Api
begin

section \<open>Correctness of the API adapter\<close>

text \<open>
  The structure checks (both loops through the locale \<open>bounded_tree\<close>), what truncation keeps, and
  what a run of the adapter leaves behind.
\<close>

subsection \<open>Structure checks\<close>

locale bounded_tree =
  fixes children :: "'a \<Rightarrow> py_exc + 'a list" and nodes :: "'a \<Rightarrow> nat" and depth :: "'a \<Rightarrow> nat" and ok :: "'a \<Rightarrow> bool"
  assumes ok_iff: "ok v \<longleftrightarrow> (\<exists>cs. children v = Inr cs \<and> list_all ok cs)"
    and nodes_eq: "children v = Inr cs \<Longrightarrow> nodes v = Suc (sum_list (map nodes cs))"
    and depth_le: "children v = Inr cs \<Longrightarrow> depth v \<le> Suc m \<longleftrightarrow> list_all (\<lambda>c. depth c \<le> m) cs"
    and positive: "0 < nodes v" "0 < depth v"
begin

definition fits :: "int \<Rightarrow> 'a \<times> int \<Rightarrow> bool" where
  "fits m p \<longleftrightarrow> ok (fst p) \<and> snd p + int (depth (fst p)) \<le> m + 1"

lemma fits_Inr:
  assumes "children v = Inr cs" "d \<le> m"
  shows "fits m (v, d) \<longleftrightarrow> list_all (\<lambda>c. fits m (c, d + 1)) cs"
proof -
  have "d + int (depth v) \<le> m + 1 \<longleftrightarrow> depth v \<le> Suc (nat (m - d))" using assms(2) by linarith
  also have "\<dots> \<longleftrightarrow> list_all (\<lambda>c. depth c \<le> nat (m - d)) cs" by (rule depth_le [OF assms(1)])
  also have "\<dots> \<longleftrightarrow> list_all (\<lambda>c. d + 1 + int (depth c) \<le> m + 1) cs" using assms(2) by (auto simp: list_all_iff)
  finally show ?thesis using ok_iff [of v] assms(1) by (auto simp: fits_def list_all_iff)
qed

lemma fits_bound: "fits m (v, d) \<Longrightarrow> d \<le> m"
  using positive(2) [of v] by (simp add: fits_def)

lemma walk_iff:
  "bounded_walk children kind mn md stack n = Inr () \<longleftrightarrow>
     list_all (fits md) stack \<and> (stack = [] \<or> n + int (sum_list (map (nodes \<circ> fst) stack)) \<le> mn)"
proof (induction "nat (mn - n)" arbitrary: stack n rule: less_induct)
  case less
  show ?case
  proof (cases stack)
    case (Cons p rest)
    obtain v d where p: "p = (v, d)" by (rule prod.exhaust)
    show ?thesis
    proof (cases "mn < n + 1 \<or> md < d")
      case True
      then show ?thesis using fits_bound [of md v d] positive(1) [of v] by (auto simp: Cons p)
    next
      case False
      show ?thesis
      proof (cases "children v")
        case (Inl e)
        then have "\<not> fits md (v, d)" using ok_iff [of v] by (auto simp: fits_def)
        with False show ?thesis by (simp add: Cons p Inl)
      next
        case (Inr cs)
        have "bounded_walk children kind mn md stack n = bounded_walk children kind mn md (rev (map (\<lambda>c. (c, d + 1)) cs) @ rest) (n + 1)"
          using False by (simp add: Cons p Inr)
        also have "\<dots> = Inr () \<longleftrightarrow> list_all (fits md) (rev (map (\<lambda>c. (c, d + 1)) cs) @ rest) \<and>
            (rev (map (\<lambda>c. (c, d + 1)) cs) @ rest = [] \<or>
             n + 1 + int (sum_list (map (nodes \<circ> fst) (rev (map (\<lambda>c. (c, d + 1)) cs) @ rest))) \<le> mn)"
          by (rule less) (use False in simp)
        finally show ?thesis
          using False nodes_eq [OF Inr] fits_Inr [OF Inr, of d md]
          by (auto simp: Cons p list_all_iff comp_def rev_map [symmetric] sum_list_rev)
      qed
    qed
  qed simp
qed

end

fun st_nodes :: "structured \<Rightarrow> nat" where
  "st_nodes (SList xs) = Suc (sum_list (map st_nodes xs))"
| "st_nodes (SDict kvs) = Suc (sum_list (map (\<lambda>(_, v). st_nodes v) kvs))"
| "st_nodes _ = 1"

fun st_depth :: "structured \<Rightarrow> nat" where
  "st_depth (SList xs) = Suc (foldr max (map st_depth xs) 0)"
| "st_depth (SDict kvs) = Suc (foldr max (map (\<lambda>(_, v). st_depth v) kvs) 0)"
| "st_depth _ = 1"

fun json_value :: "structured \<Rightarrow> bool" where
  "json_value (SFloat (NonFinite _)) = False"
| "json_value (SList xs) = list_all json_value xs"
| "json_value (SDict kvs) = list_all (\<lambda>(k, v). is_str_key k \<and> json_value v) kvs"
| "json_value (SOther _) = False"
| "json_value _ = True"

lemma foldr_max_le: "foldr max xs 0 \<le> (m :: nat) \<longleftrightarrow> list_all (\<lambda>x. x \<le> m) xs"
  by (induction xs) auto

interpretation json_walk: bounded_tree structured_children st_nodes st_depth json_value
proof (unfold_locales, goal_cases)
  case (1 v)
  show ?case by (cases v rule: structured_children.cases) (auto simp: list_all_iff)
next
  case (2 v cs)
  then show ?case by (cases v rule: structured_children.cases) (auto simp: comp_def case_prod_unfold split: if_splits)
next
  case (3 v cs m)
  then show ?case
    by (cases v rule: structured_children.cases) (auto simp: foldr_max_le list.pred_map comp_def case_prod_unfold split: if_splits)
next
  case (4 v)
  show ?case by (cases v) auto
next
  case (5 v)
  show ?case by (cases v) auto
qed

fun el_nodes :: "element \<Rightarrow> nat" where
  "el_nodes (Element tag attrib t cs tl0) = Suc (sum_list (map el_nodes cs))"

fun el_depth :: "element \<Rightarrow> nat" where
  "el_depth (Element tag attrib t cs tl0) = Suc (foldr max (map el_depth cs) 0)"

interpretation xml_walk: bounded_tree "\<lambda>e. Inr (el_children e)" el_nodes el_depth "\<lambda>_. True"
proof (unfold_locales, goal_cases)
  case (2 v cs)
  then show ?case by (cases v) auto
next
  case (3 v cs m)
  then show ?case by (cases v) (auto simp: foldr_max_le list_all_iff)
next
  case (4 v)
  show ?case by (cases v) simp
next
  case (5 v)
  show ?case by (cases v) simp
qed (auto simp: list_all_iff)

lemma validate_json_structure_iff:
  "validate_json_structure mn md data = Inr () \<longleftrightarrow> json_value data \<and> int (st_nodes data) \<le> mn \<and> int (st_depth data) \<le> md"
  unfolding validate_json_structure_def json_walk.walk_iff by (auto simp: json_walk.fits_def)

lemma element_walk_iff:
  "bounded_walk (\<lambda>e. Inr (el_children e)) kind mn md [(tree, 1)] 0 = Inr () \<longleftrightarrow> int (el_nodes tree) \<le> mn \<and> int (el_depth tree) \<le> md"
  unfolding xml_walk.walk_iff by (auto simp: xml_walk.fits_def)

lemma parse_json_Inr:
  "parse_json sv mn md body = Inr data \<Longrightarrow> json_value data \<and> int (st_nodes data) \<le> mn \<and> int (st_depth data) \<le> md"
  by (auto simp: parse_json_def validate_json_structure_iff)

lemma parse_xml_Inr:
  "parse_xml sv mn md body = Inr tree \<Longrightarrow> \<not> xml_declarations body \<and> ap_xml sv body = Inr tree \<and>
     int (el_nodes tree) \<le> mn \<and> int (el_depth tree) \<le> md"
  by (auto simp: parse_xml_def element_walk_iff simp del: bounded_walk.simps split: if_splits)

subsection \<open>Truncation\<close>

fun bounded_lists :: "int \<Rightarrow> structured \<Rightarrow> bool" where
  "bounded_lists n (SList xs) \<longleftrightarrow> int (length xs) \<le> n \<and> list_all (bounded_lists n) xs"
| "bounded_lists n (SDict kvs) \<longleftrightarrow> list_all (\<lambda>(_, v). bounded_lists n v) kvs"
| "bounded_lists n _ \<longleftrightarrow> True"

lemma length_py_take: "0 \<le> n \<Longrightarrow> int (length (py_take n xs)) = min (int (length xs)) n"
  by (auto simp: py_take_def)

lemma py_take_all: "int (length xs) \<le> n \<Longrightarrow> py_take n xs = xs"
  by (simp add: py_take_def)

lemma truncate_bounded: "0 \<le> n \<Longrightarrow> bounded_lists n (fst (truncate_json_lists n v))"
  by (induction n v rule: truncate_json_lists.induct) (auto simp: Let_def list_all_iff length_py_take)

lemma truncate_omits: "0 \<le> n \<Longrightarrow> 0 \<le> snd (truncate_json_lists n v)"
  by (induction n v rule: truncate_json_lists.induct)
    (auto simp: Let_def comp_def case_prod_unfold intro!: add_nonneg_nonneg sum_list_nonneg)

lemma truncate_same: "bounded_lists n v \<Longrightarrow> truncate_json_lists n v = (v, 0)"
proof (induction n v rule: truncate_json_lists.induct)
  case (1 n xs)
  then have t: "py_take n xs = xs" and r: "\<And>x. x \<in> set xs \<Longrightarrow> truncate_json_lists n x = (x, 0)"
    by (auto simp: list_all_iff py_take_all)
  show ?case using "1.prems" by (simp add: t Let_def r comp_def cong: map_cong)
next
  case (2 n kvs)
  then have "\<And>k v. (k, v) \<in> set kvs \<Longrightarrow> truncate_json_lists n v = (v, 0)" by (auto simp: list_all_iff)
  then have m: "map (\<lambda>(k, v). (k, truncate_json_lists n v)) kvs = map (\<lambda>(k, v). (k, v, 0)) kvs" by auto
  show ?case unfolding truncate_json_lists.simps m by (simp add: comp_def case_prod_unfold)
qed auto

lemma sum_list_zero: "list_all (\<lambda>x. 0 \<le> x) xs \<Longrightarrow> sum_list xs = 0 \<longleftrightarrow> list_all (\<lambda>x. x = (0 :: int)) xs"
  by (simp add: list_all_iff sum_list_nonneg_eq_0_iff)

lemma truncate_none_bounded: "0 \<le> n \<Longrightarrow> snd (truncate_json_lists n v) = 0 \<Longrightarrow> bounded_lists n v"
proof (induction n v rule: truncate_json_lists.induct)
  case (1 n xs)
  let ?s = "sum_list (map (snd \<circ> truncate_json_lists n) (py_take n xs))"
  have "0 \<le> ?s" by (intro sum_list_nonneg) (auto simp: truncate_omits [OF "1.prems"(1)])
  moreover have "max 0 (int (length xs) - n) + ?s = 0" using "1.prems"(2) by (simp add: Let_def comp_def)
  ultimately have len: "int (length xs) \<le> n" and s: "?s = 0" by linarith+
  from s have "\<forall>x\<in>set xs. snd (truncate_json_lists n x) = 0"
    using truncate_omits [OF "1.prems"(1)] by (subst (asm) sum_list_nonneg_eq_0_iff) (auto simp: py_take_all [OF len])
  with len "1.IH" [OF _ "1.prems"(1)] show ?case by (auto simp: list_all_iff py_take_all [OF len])
next
  case (2 n kvs)
  have "sum_list (map (\<lambda>(_, v). snd (truncate_json_lists n v)) kvs) = 0" using "2.prems"(2) by (simp add: Let_def comp_def case_prod_unfold)
  then have "\<forall>(k, v)\<in>set kvs. snd (truncate_json_lists n v) = 0"
    using truncate_omits [OF "2.prems"(1)] by (subst (asm) sum_list_nonneg_eq_0_iff) (auto simp: case_prod_unfold)
  with "2.IH" "2.prems"(1) show ?case by (auto simp: list_all_iff)
qed auto

lemma truncate_nodes: "st_nodes (fst (truncate_json_lists n v)) \<le> st_nodes v"
proof (induction n v rule: truncate_json_lists.induct)
  case (1 n xs)
  have "sum_list (map (st_nodes \<circ> fst \<circ> truncate_json_lists n) (py_take n xs)) \<le> sum_list (map st_nodes (py_take n xs))"
    by (rule sum_list_mono) (use "1.IH" in simp)
  also have "\<dots> \<le> sum_list (map st_nodes xs)"
  proof -
    obtain k where k: "py_take n xs = take k xs" unfolding py_take_def by (cases "n < 0") auto
    have "sum_list (map st_nodes xs) = sum_list (map st_nodes (take k xs)) + sum_list (map st_nodes (drop k xs))"
      by (metis append_take_drop_id map_append sum_list_append)
    then show ?thesis by (simp add: k)
  qed
  finally show ?case by (simp add: Let_def comp_def)
next
  case (2 n kvs)
  have "sum_list (map (\<lambda>p. st_nodes (fst (truncate_json_lists n (snd p)))) kvs) \<le> sum_list (map (\<lambda>p. st_nodes (snd p)) kvs)"
    by (rule sum_list_mono) (use "2.IH" in auto)
  then show ?case by (simp add: Let_def comp_def case_prod_unfold)
qed auto

subsection \<open>Payloads\<close>

text \<open>Distinct keys have distinct locators: the escapes of a JSON pointer can be undone.\<close>

fun json_unpointer :: "string \<Rightarrow> string" where
  "json_unpointer [] = []"
| "json_unpointer [c] = [c]"
| "json_unpointer (c # d # cs) =
     (if c = CHR ''~'' then (if d = CHR ''1'' then CHR ''/'' else CHR ''~'') # json_unpointer cs
      else c # json_unpointer (d # cs))"

lemma json_unpointer_step: "c \<noteq> CHR ''~'' \<Longrightarrow> json_unpointer (c # cs) = c # json_unpointer cs"
  by (cases cs) auto

lemma json_pointer_Cons:
  "json_pointer (c # cs) = (if c = CHR ''~'' then ''~0'' else if c = CHR ''/'' then ''~1'' else [c]) @ json_pointer cs"
  by (simp add: json_pointer_def)

lemma json_pointer_round_trip: "json_unpointer (json_pointer s) = s"
proof (induction s)
  case Nil
  show ?case by (simp add: json_pointer_def)
next
  case (Cons c cs)
  then show ?case by (auto simp: json_pointer_Cons json_unpointer_step)
qed

lemma json_pointer_inject: "json_pointer a = json_pointer b \<longleftrightarrow> a = b"
  by (metis json_pointer_round_trip)

definition payload_data :: "normalized_api \<Rightarrow> structured" where
  "payload_data nz = (case nz_document nz of SDict d \<Rightarrow> sd_get d ''data'' | _ \<Rightarrow> SNull)"

lemma payload_data_normalized [simp]:
  "payload_data (normalized_document c au so rp data parser ls f om) = data"
  by (simp add: payload_data_def normalized_document_def document_of_def sd_get_def)

lemma normalized_document_sel [simp]:
  "nz_omitted_records (normalized_document c au so rp data parser ls f om) = om"
  "nz_observed_format (normalized_document c au so rp data parser ls f om) = f"
  by (simp_all add: normalized_document_def)

lemma normalize_json_Inr:
  assumes "normalize_json sv aa capability_id authority source source_url body = Inr nz"
  obtains data where "parse_json sv (sa_maximum_nodes aa) (sa_maximum_depth aa) body = Inr data"
    "truncate_json_lists (sa_maximum_records aa) data = (payload_data nz, nz_omitted_records nz)"
proof -
  from assms obtain data where p: "parse_json sv (sa_maximum_nodes aa) (sa_maximum_depth aa) body = Inr data"
    and r: "\<exists>u repr ls. (case truncate_json_lists (sa_maximum_records aa) data of (bounded, omitted) \<Rightarrow>
       Inr (normalized_document capability_id authority source repr bounded ''json-stdlib'' (ls bounded) ''json'' omitted)) = (Inr nz :: py_exc + normalized_api)"
    unfolding normalize_json_def bind_res_eq_Inr by blast
  from r have "truncate_json_lists (sa_maximum_records aa) data = (payload_data nz, nz_omitted_records nz)"
    by (cases "truncate_json_lists (sa_maximum_records aa) data") auto
  with p show thesis by (rule that)
qed

lemma normalize_other_formats:
  "normalize_openapi sv aa c au so body = Inr nz \<Longrightarrow> nz_observed_format nz = ''openapi''"
  "normalize_feed sv aa c au so body = Inr nz \<Longrightarrow> nz_observed_format nz \<in> {''rss'', ''atom'', ''sitemap_xml''}"
  "normalize_xml sv aa r c au so body = Inr nz \<Longrightarrow> nz_observed_format nz = ''xml''"
  by (auto simp: normalize_openapi_def normalize_feed_def normalize_xml_def Let_def split: prod.splits)

lemma if_Inl_eq_Inr: "(if b then Inl e else m) = Inr x \<longleftrightarrow> \<not> b \<and> m = Inr x"
  by simp

lemma if_chain:
  "(if p then a else if q then b else if r then c else if s then d else e) = y \<Longrightarrow> a = y \<or> b = y \<or> c = y \<or> d = y \<or> e = y"
  by (simp split: if_splits)

lemma normalize_api_payload_branch:
  assumes "normalize_api_payload sv aa c body media_type source_url authority_url = Inr nz"
  shows "\<exists>au so. normalize_openapi sv aa c au so body = Inr nz \<or> normalize_feed sv aa c au so body = Inr nz \<or>
    (\<exists>r. normalize_xml sv aa r c au so body = Inr nz) \<or> normalize_json sv aa c au so source_url body = Inr nz"
proof -
  from assms obtain au so where "(if c = ''openapi_discovery'' then normalize_openapi sv aa c au so body
      else if c \<in> {''rss'', ''atom'', ''sitemap_xml'', ''arxiv_api''} then normalize_feed sv aa c au so body
      else if c = ''xml_endpoint'' then normalize_xml sv aa ''xml'' c au so body
      else if c = ''rest'' \<and> looks_like_xml sv body media_type then normalize_xml sv aa ''api_response'' c au so body
      else normalize_json sv aa c au so source_url body) = Inr nz"
    unfolding normalize_api_payload_def if_Inl_eq_Inr bind_res_eq_Inr by blast
  from if_chain [OF this] show ?thesis by blast
qed

lemma normalize_api_payload_json:
  assumes "normalize_api_payload sv aa c body media_type source_url authority_url = Inr nz" "nz_observed_format nz = ''json''"
  obtains au so where "normalize_json sv aa c au so source_url body = Inr nz"
  using normalize_api_payload_branch [OF assms(1)] assms(2) by (auto dest: normalize_other_formats)

text \<open>
  C29: jSON payloads are bounded and what is cut is counted. A JSON payload that the adapter accepts has at most
  the configured number of nodes; no list of the normalised document is longer than the record limit, the
  document has no more nodes than the payload, and the number of omitted records is zero exactly when no
  list of the payload was too long, in which case the data is the payload itself.
\<close>

theorem api_payload_bounded:
  assumes "StructuredAPIAdapter maximum_bytes maximum_nodes maximum_depth maximum_records = Inr aa"
    and "normalize_api_payload sv aa capability_id body media_type source_url authority_url = Inr nz" "nz_observed_format nz = ''json''"
  shows "\<exists>data. parse_json sv maximum_nodes maximum_depth body = Inr data \<and> int (st_nodes data) \<le> maximum_nodes \<and>
    bounded_lists maximum_records (payload_data nz) \<and> st_nodes (payload_data nz) \<le> st_nodes data \<and>
    0 \<le> nz_omitted_records nz \<and> (nz_omitted_records nz = 0 \<longleftrightarrow> bounded_lists maximum_records data) \<and>
    (bounded_lists maximum_records data \<longrightarrow> payload_data nz = data)"
proof -
  have aa: "sa_maximum_nodes aa = maximum_nodes" "sa_maximum_depth aa = maximum_depth" "sa_maximum_records aa = maximum_records" "0 \<le> maximum_records"
    using assms(1) by (auto simp: StructuredAPIAdapter_def raise_if_def split: if_splits)
  obtain authority source where "normalize_json sv aa capability_id authority source source_url body = Inr nz"
    by (rule normalize_api_payload_json [OF assms(2,3)])
  then obtain data where d: "parse_json sv maximum_nodes maximum_depth body = Inr data"
    and t: "truncate_json_lists maximum_records data = (payload_data nz, nz_omitted_records nz)"
    by (rule normalize_json_Inr) (simp add: aa)
  have "nz_omitted_records nz = 0 \<Longrightarrow> bounded_lists maximum_records data"
    using truncate_none_bounded [OF aa(4), of data] by (simp add: t)
  then show ?thesis
    using d parse_json_Inr [OF d] truncate_bounded [OF aa(4), of data] truncate_omits [OF aa(4), of data]
      truncate_nodes [of maximum_records data] truncate_same [of maximum_records data]
    by (auto simp: t)
qed

subsection \<open>Declarations in UTF-16\<close>

text \<open>A text of code points below 256 in UTF-16, little endian with its byte order mark.\<close>

definition utf16_le :: "string \<Rightarrow> string" where
  "utf16_le s = map char_of [255, 254 :: nat] @ concat (map (\<lambda>c. [c, char_of (0 :: nat)]) s)"

lemma utf16_bytes: "char_of (0 :: nat) \<noteq> CHR ''!''" "char_of (0 :: nat) \<noteq> CHR ''<''" "char_of (255 :: nat) \<noteq> CHR ''<''" "char_of (254 :: nat) \<noteq> CHR ''<''"
  by code_simp+

lemma not_declaration_zero: "\<not> declaration_at (c # char_of (0 :: nat) # cs)" "\<not> declaration_at (char_of (0 :: nat) # cs)"
  by (auto simp: declaration_at_def py_startswith_def utf16_bytes)

lemma xml_declarations_utf16: "\<not> xml_declarations (concat (map (\<lambda>c. [c, char_of (0 :: nat)]) s))"
  by (induction s) (simp_all add: not_declaration_zero)

text \<open>
  The search for document type and entity declarations is on bytes, and finds none in a document encoded
  in UTF-16, whatever the document declares: it goes to the XML parser, which reads that encoding.
\<close>

theorem utf16_declarations_missed:
  "\<not> xml_declarations (utf16_le s) \<and>
   parse_xml sv mn md (utf16_le s) = bind_res (ap_xml sv (utf16_le s)) (\<lambda>tree.
     bind_res (bounded_walk (\<lambda>e. Inr (el_children e)) ''XML'' mn md [(tree, 1)] 0) (\<lambda>_. Inr tree))"
proof -
  have "\<not> xml_declarations (utf16_le s)"
    unfolding utf16_le_def
    by (simp add: xml_declarations_utf16 declaration_at_def py_startswith_def utf16_bytes)
  then show ?thesis by (simp add: parse_xml_def)
qed

subsection \<open>Runs\<close>

lemma enforce_Inr:
  "enforce_non_mutating_request sv node request = Inr u \<Longrightarrow> \<not> is_mutating sv node request \<or> mutation_approved sv node request"
  by (auto simp: enforce_non_mutating_request_def split: if_splits)

lemma find_in_list: "List.find P xs = Some x \<Longrightarrow> x \<in> set xs \<and> P x"
  by (auto simp: find_Some_iff)

lemma acquired_source_Inr:
  assumes "acquired_source ctx = Inr (raw, resource)"
  shows "latest_artifact ctx [''raw''] = Some raw" "resource \<in> set (xc_resources ctx)" "rs_resource_id resource = ar_source_resource_id raw"
    "\<exists>a\<in>set (xc_attempts ctx). at_status a = AT_SUCCEEDED \<and> ar_artifact_id raw \<in> set (at_artifact_ids a) \<and> at_capability_id a \<in> set ACQUISITIONS"
  using assms by (auto simp: acquired_source_def list_ex_iff dest: find_in_list split: option.splits if_splits)

lemma api_produce_Inr:
  assumes "api_produce sv aa node ctx = Inr (raw, resource, body, nz, uri, digest, n)"
  shows "\<not> is_mutating sv node (xc_request ctx) \<or> mutation_approved sv node (xc_request ctx)"
    "acquired_source ctx = Inr (raw, resource)"
    "int (ar_size raw) \<le> min (sa_maximum_parse_bytes aa) (min (b_bytes (rq_budget (xc_request ctx))) (b_decompressed_bytes (rq_budget (xc_request ctx))))"
    "\<exists>source_url authority_url. sanitize_url_for_request (rs_canonical_url resource) (xc_request ctx) = Inr source_url \<and>
       sanitize_url_for_request (case truthy (rs_authority_url resource) of Some u \<Rightarrow> u | None \<Rightarrow> rs_requested_url resource) (xc_request ctx) = Inr authority_url \<and>
       normalize_api_payload sv aa (pn_capability_id node) body (ar_media_type raw) source_url authority_url = Inr nz"
    "\<exists>encoded. ap_dumps sv (nz_document nz) = Inr encoded \<and> ap_put sv encoded = Inr (uri, digest, n)"
    "ap_get sv (ar_cas_uri raw) (Some (min (sa_maximum_parse_bytes aa)
       (min (b_bytes (rq_budget (xc_request ctx))) (b_decompressed_bytes (rq_budget (xc_request ctx)))))) = Inr body"
  using assms unfolding api_produce_def Let_def if_Inl_eq_Inr
  by (auto dest: enforce_Inr simp: if_Inl_eq_Inr)

lemma named_origin:
  "normalize_api_payload sv aa c body media_type source_url authority_url = Inr nz \<Longrightarrow> c \<in> fst ` set NAMED_API_ROUTES \<Longrightarrow>
   matches_named_origin c source_url"
  unfolding normalize_api_payload_def if_Inl_eq_Inr by blast

lemma finish_api_sel:
  "xc_artifacts (finish_api node i at0 a body nz now ctx) = xc_artifacts ctx @ [a]" "xc_accepted (finish_api node i at0 a body nz now ctx)"
  by (auto simp: finish_api_def set_attempt_def record_format_outcome_def record_outcome_def Let_def split: option.splits)

lemma record_format_outcome_attempts [simp]: "xc_attempts (record_format_outcome c f ctx) = xc_attempts ctx"
  by (simp add: record_format_outcome_def record_outcome_def Let_def split: option.splits)

lemma finish_api_attempts:
  "xc_attempts ctx = as @ [at0] \<Longrightarrow> xc_attempts (finish_api node (length as) at0 a body nz now ctx) =
     as @ [at0\<lparr>at_status := AT_SUCCEEDED, at_finished_at := Some now, at_bytes_received := int (length body),
       at_parser := Some (nz_parser nz), at_artifact_ids := [ar_artifact_id a]\<rparr>]"
  by (simp add: finish_api_def set_attempt_def record_outcome_def)

lemma latest_artifact_attempts [simp]: "latest_artifact (ctx\<lparr>xc_attempts := as\<rparr>) reps = latest_artifact ctx reps"
  by (simp add: latest_artifact_def)

text \<open>
  C27: what a run that succeeds is based on. An operation that changes data was approved; the body that was
  normalised is what the content store returned for the latest raw artifact, which belongs to a resource of
  the run and was acquired by a successful HTTP attempt, and both the recorded size of that artifact and the
  read are bounded by the parser and transfer limits; it was normalised for the sanitised addresses of that
  resource, which for a named API is on one of its routes; and exactly one artifact is added, derived from
  the raw one, whose stored bytes are the normalised document. The attempt that is recorded counts the bytes of that body.
\<close>

theorem api_success_sound:
  assumes "api_execute sv aa node ctx0 en0 = (ctx, en, None)"
  shows "(is_mutating sv node (xc_request ctx0) \<longrightarrow> mutation_approved sv node (xc_request ctx0)) \<and>
    (\<exists>raw resource a acquisition nz encoded source_url authority_url body limit.
       latest_artifact ctx0 [''raw''] = Some raw \<and> resource \<in> set (xc_resources ctx0) \<and> rs_resource_id resource = ar_source_resource_id raw \<and>
       acquisition \<in> set (xc_attempts ctx0) \<and> at_status acquisition = AT_SUCCEEDED \<and> ar_artifact_id raw \<in> set (at_artifact_ids acquisition) \<and>
       at_capability_id acquisition \<in> set ACQUISITIONS \<and>
       limit = min (sa_maximum_parse_bytes aa) (min (b_bytes (rq_budget (xc_request ctx0))) (b_decompressed_bytes (rq_budget (xc_request ctx0)))) \<and>
       int (ar_size raw) \<le> limit \<and> ap_get sv (ar_cas_uri raw) (Some limit) = Inr body \<and>
       sanitize_url_for_request (rs_canonical_url resource) (xc_request ctx0) = Inr source_url \<and>
       sanitize_url_for_request (case truthy (rs_authority_url resource) of Some u \<Rightarrow> u | None \<Rightarrow> rs_requested_url resource) (xc_request ctx0) = Inr authority_url \<and>
       (pn_capability_id node \<in> fst ` set NAMED_API_ROUTES \<longrightarrow> matches_named_origin (pn_capability_id node) source_url) \<and>
       normalize_api_payload sv aa (pn_capability_id node) body (ar_media_type raw) source_url authority_url = Inr nz \<and>
       ap_dumps sv (nz_document nz) = Inr encoded \<and> ap_put sv encoded = Inr (ar_cas_uri a, ar_sha256 a, ar_size a) \<and>
       xc_artifacts ctx = xc_artifacts ctx0 @ [a] \<and> ar_parent_artifact_ids a = [ar_artifact_id raw] \<and> ar_source_resource_id a = ar_source_resource_id raw \<and>
       (\<exists>t. xc_attempts ctx = xc_attempts ctx0 @ [t] \<and> at_status t = AT_SUCCEEDED \<and> at_artifact_ids t = [ar_artifact_id a] \<and>
          at_bytes_received t = int (length body)))"
proof -
  obtain destination where d: "sanitize_url_for_request (rq_target (xc_request ctx0)) (xc_request ctx0) = Inr destination"
    using assms by (auto simp: api_execute_def split: sum.splits)
  define at0 where "at0 = api_attempt (en_next_id en0) (en_clock en0) (pn_capability_id node) destination"
  define ctx1 where "ctx1 = ctx0\<lparr>xc_attempts := xc_attempts ctx0 @ [at0]\<rparr>"
  obtain raw resource body nz uri digest n where p: "api_produce sv aa node ctx1 = Inr (raw, resource, body, nz, uri, digest, n)"
    and c: "ctx = finish_api node (length (xc_attempts ctx0)) at0 (api_artifact (en_next_id en0 + 1) node raw resource nz uri digest n) body nz (en_clock en0) ctx1"
    using assms by (auto simp: api_execute_def d Let_def at0_def [symmetric] ctx1_def [symmetric] split: sum.splits prod.splits)
  note q = api_produce_Inr [OF p]
  note s = acquired_source_Inr [OF q(2)]
  have rq: "xc_request ctx1 = xc_request ctx0" "xc_resources ctx1 = xc_resources ctx0" "xc_artifacts ctx1 = xc_artifacts ctx0"
    "latest_artifact ctx1 [''raw''] = latest_artifact ctx0 [''raw'']" by (simp_all add: ctx1_def)
  from s(4) obtain a where a: "a \<in> set (xc_attempts ctx0)" "at_status a = AT_SUCCEEDED" "ar_artifact_id raw \<in> set (at_artifact_ids a)"
    "at_capability_id a \<in> set ACQUISITIONS"
    by (auto simp: ctx1_def at0_def api_attempt_def)
  from q(4) obtain source_url authority_url where u: "sanitize_url_for_request (rs_canonical_url resource) (xc_request ctx0) = Inr source_url"
    and au: "sanitize_url_for_request (case truthy (rs_authority_url resource) of Some u \<Rightarrow> u | None \<Rightarrow> rs_requested_url resource) (xc_request ctx0) = Inr authority_url"
    and nz: "normalize_api_payload sv aa (pn_capability_id node) body (ar_media_type raw) source_url authority_url = Inr nz" unfolding rq by blast
  from q(5) obtain encoded where e: "ap_dumps sv (nz_document nz) = Inr encoded" "ap_put sv encoded = Inr (uri, digest, n)" by blast
  define b where "b = api_artifact (en_next_id en0 + 1) node raw resource nz uri digest n"
  have b: "ap_put sv encoded = Inr (ar_cas_uri b, ar_sha256 b, ar_size b)" "ar_parent_artifact_ids b = [ar_artifact_id raw]"
    "ar_source_resource_id b = ar_source_resource_id raw" "xc_artifacts ctx = xc_artifacts ctx0 @ [b]"
    using e(2) s(3) by (simp_all add: b_def api_artifact_def build_artifact_def c finish_api_sel rq)
  have f: "\<exists>t. xc_attempts ctx = xc_attempts ctx0 @ [t] \<and> at_status t = AT_SUCCEEDED \<and> at_artifact_ids t = [ar_artifact_id b] \<and>
      at_bytes_received t = int (length body)"
    by (simp add: c finish_api_attempts ctx1_def b_def)
  show ?thesis
    using q(1,3,6) s(1-3) a u au nz e(1) b f named_origin [OF nz] unfolding rq by blast
qed

subsection \<open>Payloads nested too deeply for the parser\<close>

definition recursion_error :: py_exc where
  "recursion_error = simple_exc ExcOther ''RecursionError'' ''maximum recursion depth exceeded while decoding a JSON array''"

lemma acquired_source_running:
  "acquired_source (ctx\<lparr>xc_attempts := xc_attempts ctx @ [api_attempt i now c destination]\<rparr>) = acquired_source ctx"
  by (simp add: acquired_source_def api_attempt_def split: option.splits)

lemma json_endpoint_payload:
  assumes "decode_utf8_sig body = Inr content" "ap_json sv content = Inl e"
    "sanitize_url False authority_url = Inr authority" "sanitize_url False source_url = Inr source"
  shows "normalize_api_payload sv aa ''json_endpoint'' body media_type source_url authority_url = Inl e"
  using assms by (simp add: normalize_api_payload_def API_CAPABILITIES_def NAMED_API_ROUTES_def normalize_json_def parse_json_def lift_exc_def)

text \<open>
  C30: the nesting limit is checked after the parser has run, and the parser of Python gives up on its own:
  on a payload nested more deeply than its recursion limit it raises \<^verbatim>\<open>RecursionError\<close>. The adapter
  does not handle that error and the executor does not either: no outcome is recorded, the attempt is
  left running, and the error ends the run.
\<close>

theorem deep_payload_escapes:
  assumes node: "pn_capability_id node = ''json_endpoint''" "api_method sv node (xc_request ctx0) = ''GET''" "api_operation sv node (xc_request ctx0) = ''query''"
    and raw: "acquired_source ctx0 = Inr (raw, resource)"
    and limit: "limit = min (sa_maximum_parse_bytes aa) (min (b_bytes (rq_budget (xc_request ctx0))) (b_decompressed_bytes (rq_budget (xc_request ctx0))))"
    and body: "int (ar_size raw) \<le> limit" "ap_get sv (ar_cas_uri raw) (Some limit) = Inr body" "decode_utf8_sig body = Inr content"
    and deep: "ap_json sv content = Inl recursion_error"
    and urls: "sanitize_url_for_request (rq_target (xc_request ctx0)) (xc_request ctx0) = Inr destination"
      "sanitize_url_for_request (rs_canonical_url resource) (xc_request ctx0) = Inr source_url" "sanitize_url False source_url = Inr source"
      "rs_authority_url resource = None" "sanitize_url_for_request (rs_requested_url resource) (xc_request ctx0) = Inr authority_url"
      "sanitize_url False authority_url = Inr authority"
  shows "\<exists>ctx en a. api_execute sv aa node ctx0 en0 = (ctx, en, Some recursion_error) \<and> xc_attempts ctx = xc_attempts ctx0 @ [a] \<and>
    at_status a = AT_RUNNING \<and> xc_capability_outcomes ctx = xc_capability_outcomes ctx0 \<and>
    (\<forall>attempts outcomes en1. handle_exception node attempts outcomes recursion_error ctx en1 = (Inr None, en1))"
proof -
  define at0 where "at0 = api_attempt (en_next_id en0) (en_clock en0) (pn_capability_id node) destination"
  define ctx1 where "ctx1 = ctx0\<lparr>xc_attempts := xc_attempts ctx0 @ [at0]\<rparr>"
  have enforce: "enforce_non_mutating_request sv node (xc_request ctx0) = Inr ()"
    by (simp add: enforce_non_mutating_request_def is_mutating_def node KNOWN_METHODS_def SAFE_METHODS_def)
  have rq: "xc_request ctx1 = xc_request ctx0" "acquired_source ctx1 = Inr (raw, resource)"
    using raw by (simp_all add: ctx1_def at0_def acquired_source_running)
  have "normalize_api_payload sv aa ''json_endpoint'' body (ar_media_type raw) source_url authority_url = Inl recursion_error"
    by (rule json_endpoint_payload [OF body(3) deep urls(6) urls(3)])
  then have "api_produce sv aa node ctx1 = Inl recursion_error"
    using body(1,2) by (simp add: api_produce_def rq enforce node limit [symmetric] urls truthy_def lift_exc_def API_CAPABILITIES_def)
  then have "api_execute sv aa node ctx0 en0 = (ctx1, en0\<lparr>en_next_id := en_next_id en0 + 1\<rparr>, Some recursion_error)"
    by (simp add: api_execute_def urls(1) Let_def at0_def [symmetric] ctx1_def [symmetric] fail_api_def recursion_error_def simple_exc_def
        is_adapter_execution_error_def PARSE_ERRORS_def)
  then show ?thesis
    by (simp add: ctx1_def at0_def api_attempt_def handle_exception_def Let_def recursion_error_def simple_exc_def)
qed

subsection \<open>Witnesses\<close>

definition api_page :: "string \<Rightarrow> execution_context" where
  "api_page url = (ExecutionContext 1 (default_request url))\<lparr>
     xc_resources := [\<lparr>rs_resource_id = 2, rs_canonical_url = url, rs_requested_url = url,
       rs_media_type = None, rs_status_code = None, rs_retrieved_at = 0, rs_authority_url = None, rs_checked_only = False\<rparr>],
     xc_artifacts := [sample_artifact],
     xc_attempts := [sample_attempt\<lparr>at_status := AT_SUCCEEDED, at_artifact_ids := [3]\<rparr>]\<rparr>"

definition api_toy :: "(string \<Rightarrow> py_exc + json_tree) \<Rightarrow> api_services" where
  "api_toy json = \<lparr>ap_json = json, ap_yaml_scan = (\<lambda>_. ([], None)), ap_yaml_compose = (\<lambda>_. Inr (YSequence [])),
     ap_xml = (\<lambda>_. Inr (Element ''a'' [] None [] None)), ap_dumps = (\<lambda>_. Inr ''{}''), ap_get = (\<lambda>_ _. Inr ''[1,2]''),
     ap_put = (\<lambda>bytes. Inr (''cas://sha256/00'', ''00'', length bytes)), ap_casefold = py_lower, ap_upper = (\<lambda>s. s),
     ap_strip = py_strip, ap_str = (\<lambda>_. [])\<rparr>"

definition api_pair :: "string \<Rightarrow> py_exc + json_tree" where
  "api_pair s = Inr (JArray [JScalar (SInt 1), JScalar (SInt 2)])"

definition api_limits :: api_adapter where
  "api_limits = \<lparr>sa_maximum_parse_bytes = 16000000, sa_maximum_nodes = 100000, sa_maximum_depth = 64, sa_maximum_records = 1\<rparr>"

lemma api_limits_made: "StructuredAPIAdapter 16000000 100000 64 1 = Inr api_limits"
  by code_simp

definition github_node :: plan_node where
  "github_node = PlanNode ''github'' ''github_api'' ''api'' []"

lemma api_pair_payload:
  "\<exists>nz. normalize_api_payload (api_toy api_pair) api_limits ''github_api'' ''[1,2]'' ''text/html'' ''https://api.github.com/r'' ''https://api.github.com/r'' = Inr nz \<and>
     nz_observed_format nz = ''json''"
proof -
  have "(case normalize_api_payload (api_toy api_pair) api_limits ''github_api'' ''[1,2]'' ''text/html'' ''https://api.github.com/r'' ''https://api.github.com/r'' of
      Inl _ \<Rightarrow> False | Inr nz \<Rightarrow> nz_observed_format nz = ''json'')"
    by code_simp
  then show ?thesis by (auto split: sum.splits)
qed

theorem api_payload_bounded_witness:
  "\<exists>nz. normalize_api_payload (api_toy api_pair) api_limits ''github_api'' ''[1,2]'' ''text/html'' ''https://api.github.com/r'' ''https://api.github.com/r'' = Inr nz \<and>
     bounded_lists 1 (payload_data nz)"
proof -
  obtain nz where nz: "normalize_api_payload (api_toy api_pair) api_limits ''github_api'' ''[1,2]'' ''text/html'' ''https://api.github.com/r'' ''https://api.github.com/r'' = Inr nz"
    "nz_observed_format nz = ''json''"
    using api_pair_payload by blast
  then show ?thesis using api_payload_bounded [OF api_limits_made nz] by blast
qed

lemma github_executes:
  "\<exists>ctx en. api_execute (api_toy api_pair) api_limits github_node (api_page ''https://api.github.com/r'') \<lparr>en_clock = 5, en_next_id = 10\<rparr> = (ctx, en, None)"
proof -
  have "snd (snd (api_execute (api_toy api_pair) api_limits github_node (api_page ''https://api.github.com/r'') \<lparr>en_clock = 5, en_next_id = 10\<rparr>)) = None"
    by code_simp
  then show ?thesis by (metis prod.collapse)
qed

theorem api_success_sound_witness:
  "\<exists>ctx en. api_execute (api_toy api_pair) api_limits github_node (api_page ''https://api.github.com/r'') \<lparr>en_clock = 5, en_next_id = 10\<rparr> = (ctx, en, None) \<and>
     length (xc_artifacts ctx) = 2"
proof -
  obtain ctx en where e: "api_execute (api_toy api_pair) api_limits github_node (api_page ''https://api.github.com/r'') \<lparr>en_clock = 5, en_next_id = 10\<rparr> = (ctx, en, None)"
    using github_executes by blast
  have "length (xc_artifacts (api_page ''https://api.github.com/r'')) = 1" by (simp add: api_page_def)
  moreover obtain a where "xc_artifacts ctx = xc_artifacts (api_page ''https://api.github.com/r'') @ [a]" using api_success_sound [OF e] by blast
  ultimately show ?thesis using e by simp
qed

theorem deep_payload_escapes_witness:
  "\<exists>ctx en. api_execute (api_toy (\<lambda>_. Inl recursion_error)) api_limits (PlanNode ''j'' ''json_endpoint'' ''api'' [])
      (api_page ''https://api.github.com/r'') \<lparr>en_clock = 5, en_next_id = 10\<rparr> = (ctx, en, Some recursion_error) \<and> length (xc_attempts ctx) = 2"
proof -
  let ?sv = "api_toy (\<lambda>_. Inl recursion_error)" and ?ctx = "api_page ''https://api.github.com/r''" and ?node = "PlanNode ''j'' ''json_endpoint'' ''api'' []"
  have n: "pn_capability_id ?node = ''json_endpoint''" "api_method ?sv ?node (xc_request ?ctx) = ''GET''" "api_operation ?sv ?node (xc_request ?ctx) = ''query''"
    by code_simp+
  have r: "acquired_source ?ctx = Inr (sample_artifact, hd (xc_resources ?ctx))" by code_simp
  have b: "int (ar_size sample_artifact) \<le> 10000000" "ap_get ?sv (ar_cas_uri sample_artifact) (Some 10000000) = Inr ''[1,2]''"
    "decode_utf8_sig ''[1,2]'' = Inr ''[1,2]''" "ap_json ?sv ''[1,2]'' = Inl recursion_error" by code_simp+
  have l: "10000000 = min (sa_maximum_parse_bytes api_limits) (min (b_bytes (rq_budget (xc_request ?ctx))) (b_decompressed_bytes (rq_budget (xc_request ?ctx))))"
    by code_simp
  have u: "sanitize_url_for_request (rq_target (xc_request ?ctx)) (xc_request ?ctx) = Inr ''https://api.github.com/r''"
    "sanitize_url_for_request (rs_canonical_url (hd (xc_resources ?ctx))) (xc_request ?ctx) = Inr ''https://api.github.com/r''"
    "sanitize_url False ''https://api.github.com/r'' = Inr ''https://api.github.com/r''" "rs_authority_url (hd (xc_resources ?ctx)) = None"
    "sanitize_url_for_request (rs_requested_url (hd (xc_resources ?ctx))) (xc_request ?ctx) = Inr ''https://api.github.com/r''" by code_simp+
  show ?thesis
    using deep_payload_escapes [OF n r l b u(1,2,3,4,5) u(3), of "\<lparr>en_clock = 5, en_next_id = 10\<rparr>"] by (auto simp: api_page_def)
qed

subsection \<open>Keys\<close>

fun unique_keys :: "structured \<Rightarrow> bool" where
  "unique_keys (SList xs) \<longleftrightarrow> list_all unique_keys xs"
| "unique_keys (SDict kvs) \<longleftrightarrow> distinct (map fst kvs) \<and> list_all (\<lambda>(_, v). unique_keys v) kvs"
| "unique_keys _ \<longleftrightarrow> True"

text \<open>The trees of the parsers: what a scalar stands for has no members of its own.\<close>

fun is_scalar :: "structured \<Rightarrow> bool" where
  "is_scalar (SList _) = False"
| "is_scalar (SDict _) = False"
| "is_scalar _ = True"

fun json_scalars :: "json_tree \<Rightarrow> bool" where
  "json_scalars (JScalar v) = is_scalar v"
| "json_scalars (JConstant _) = True"
| "json_scalars (JArray ts) = list_all json_scalars ts"
| "json_scalars (JObject kts) = list_all (\<lambda>(_, t). json_scalars t) kts"

fun yaml_scalars :: "yaml_node \<Rightarrow> bool" where
  "yaml_scalars (YScalar v _) = is_scalar v"
| "yaml_scalars (YSequence ns) = list_all yaml_scalars ns"
| "yaml_scalars (YMapping kns) = list_all (\<lambda>(_, n). yaml_scalars n) kns"

lemma scalar_unique: "is_scalar v \<Longrightarrow> unique_keys v"
  by (cases v) auto

lemma unique_object_Inr:
  "unique_object result pairs = Inr v \<Longrightarrow> unique_keys (SDict result) \<Longrightarrow> list_all (\<lambda>(_, v). unique_keys v) pairs \<Longrightarrow> unique_keys v"
  by (induction result pairs rule: unique_object.induct) (auto simp: image_iff split: if_splits)

lemma map_res_all:
  "map_res f xs = Inr ys \<Longrightarrow> (\<And>x y. x \<in> set xs \<Longrightarrow> f x = Inr y \<Longrightarrow> P y) \<Longrightarrow> list_all P ys"
  unfolding list_all_iff by (blast dest: map_res_in)

lemma json_hooks_unique: "json_hooks t = Inr v \<Longrightarrow> json_scalars t \<Longrightarrow> unique_keys v"
proof (induction t arbitrary: v rule: json_hooks.induct)
  case (3 ts)
  from "3.prems"(1) obtain vs where vs: "map_res json_hooks ts = Inr vs" "v = SList vs" by auto
  have "list_all unique_keys vs"
    by (rule map_res_all [OF vs(1)]) (use 3 in \<open>auto simp: list_all_iff\<close>)
  then show ?case by (simp add: vs)
next
  case (4 kts)
  let ?f = "\<lambda>(k, t). bind_res (json_hooks t) (\<lambda>v. Inr (k, v))"
  from "4.prems"(1) obtain kvs where kvs: "map_res ?f kts = Inr kvs" "unique_object [] kvs = Inr v" by auto
  have "list_all (\<lambda>(_, v). unique_keys v) kvs"
    by (rule map_res_all [OF kvs(1)]) (use 4 in \<open>auto simp: list_all_iff\<close>)
  then show ?case using unique_object_Inr [OF kvs(2)] by simp
qed (auto intro: scalar_unique)

lemma construct_unique:
  "construct_object n = Inr v \<Longrightarrow> yaml_scalars n \<Longrightarrow> unique_keys v"
  "construct_unique_mapping result kns = Inr v \<Longrightarrow> list_all (\<lambda>(_, n). yaml_scalars n) kns \<Longrightarrow> unique_keys (SDict result) \<Longrightarrow> unique_keys v"
proof (induction n and result kns arbitrary: v and v rule: construct_object_construct_unique_mapping.induct)
  case (2 ns)
  from "2.prems"(1) obtain vs where vs: "map_res construct_object ns = Inr vs" "v = SList vs" by auto
  have "list_all unique_keys vs"
    by (rule map_res_all [OF vs(1)]) (use 2 in \<open>auto simp: list_all_iff\<close>)
  then show ?case by (simp add: vs)
next
  case (5 result key_node value_node rest)
  then show ?case by (auto simp: image_iff split: option.splits if_splits)
qed (auto intro: scalar_unique)

text \<open>
  C28: what the adapter reads as one value is unambiguous. The structure check accepts exactly the JSON values
  with at most the given number of nodes and levels (the loop ends on every payload), and a payload that is
  parsed, from JSON or from YAML, has no object with a repeated key at any level.
\<close>

theorem structure_check_exact:
  assumes "\<And>s tree. ap_json sv s = Inr tree \<Longrightarrow> json_scalars tree" "\<And>s node. ap_yaml_compose sv s = Inr node \<Longrightarrow> yaml_scalars node"
  shows "(validate_json_structure maximum_nodes maximum_depth data = Inr () \<longleftrightarrow>
      json_value data \<and> int (st_nodes data) \<le> maximum_nodes \<and> int (st_depth data) \<le> maximum_depth) \<and>
    (parse_json sv maximum_nodes maximum_depth body = Inr data \<longrightarrow> unique_keys data \<and> json_value data) \<and>
    (openapi_candidate sv maximum_nodes maximum_depth body = Inr (data, parser) \<longrightarrow> unique_keys data \<and> json_value data)"
proof -
  have json: "unique_keys data \<and> json_value data" if "parse_json sv maximum_nodes maximum_depth body = Inr data"
    using that assms(1) json_hooks_unique by (auto simp: parse_json_def validate_json_structure_iff)
  have "unique_keys data \<and> json_value data" if "openapi_candidate sv maximum_nodes maximum_depth body = Inr (data, parser)"
    using that json assms(2) construct_unique(1)
    by (auto simp: openapi_candidate_def Let_def validate_json_structure_iff split: if_splits)
  with json show ?thesis by (simp add: validate_json_structure_iff)
qed

theorem structure_check_exact_witness:
  "parse_json (api_toy api_pair) 3 2 ''[1,2]'' = Inr (SList [SInt 1, SInt 2]) \<and> unique_keys (SList [SInt 1, SInt 2]) \<and>
   validate_json_structure 3 2 (SList [SInt 1, SInt 2]) = Inr ()"
proof -
  have "parse_json (api_toy api_pair) 3 2 ''[1,2]'' = Inr (SList [SInt 1, SInt 2])" "json_value (SList [SInt 1, SInt 2])"
    "int (st_nodes (SList [SInt 1, SInt 2])) \<le> 3" "int (st_depth (SList [SInt 1, SInt 2])) \<le> 2"
    by code_simp+
  moreover have "json_scalars tree" if "ap_json (api_toy api_pair) s = Inr tree" for s tree
    using that by (auto simp: api_toy_def api_pair_def)
  moreover have "yaml_scalars node" if "ap_yaml_compose (api_toy api_pair) s = Inr node" for s node
    using that by (auto simp: api_toy_def)
  ultimately show ?thesis using structure_check_exact [of "api_toy api_pair" 3 2 "SList [SInt 1, SInt 2]" "''[1,2]''" "[]"] by blast
qed

end
