(* ===== verification/Search.thy ===== *)
theory Search
  imports Wayback_Correct Structured_Api_Correct Discovery
begin

section \<open>The search connector: search.py\<close>

text \<open>
  The provider that asks an HTTPS connector for addresses of a host. Parameters are the exchange (which
  yields the status and the decoded chunks of the body, and may end with an error), the resolver of the
  policy, and \<^verbatim>\<open>json.loads\<close> on bytes. The policy of the provider is state: its pins grow.
\<close>

record search_services =
  se_stream :: "string \<Rightarrow> string list option \<Rightarrow> http_failure + raw_response"
  se_resolver :: resolver
  se_json :: "string \<Rightarrow> py_exc + pyval"

record search_provider =
  sp_template :: string
  sp_provider_policy :: safe_url_policy
  sp_pinned :: bool \<comment> \<open>no transport was given, or a pinned one\<close>

definition HTTPSearchProvider :: "string \<Rightarrow> safe_url_policy \<Rightarrow> bool \<Rightarrow> search_provider res" where
  "HTTPSearchProvider template policy pinned =
     bind_res (raise_if (\<not> py_contains ''{query}'' template) (ValueError ''search provider template must contain {query}'')) (\<lambda>_.
       Inr \<lparr>sp_template = template, sp_provider_policy = policy, sp_pinned = pinned\<rparr>)"

text \<open>\<^verbatim>\<open>quote(s, safe="")\<close>, and \<^verbatim>\<open>s.replace(old, new)\<close> for a non-empty \<open>old\<close>.\<close>

definition quote_strict :: "string \<Rightarrow> string" where
  "quote_strict s = concat (map (\<lambda>c.
     if always_safe c then [c] else [CHR ''%'', upper_hex_digit (ord_char c div 16), upper_hex_digit (ord_char c mod 16)]) s)"

function py_replace :: "string \<Rightarrow> string \<Rightarrow> string \<Rightarrow> string" where
  "py_replace old new s =
     (case s of
        [] \<Rightarrow> []
      | c # cs \<Rightarrow> if old \<noteq> [] \<and> py_startswith s old then new @ py_replace old new (drop (length old) s)
          else c # py_replace old new cs)"
  by pat_completeness auto
termination
  by (relation "measure (\<lambda>(_, _, s). length s)") auto

declare py_replace.simps [simp del]

definition search_endpoint :: "search_provider \<Rightarrow> string \<Rightarrow> py_exc + string" where
  "search_endpoint sp host =
     (let endpoint = py_replace ''{query}'' (quote_strict (''site:'' @ host)) (sp_template sp) in
      if \<not> py_startswith endpoint ''https://'' then Inl (adapter_error ''search provider connectors require HTTPS'')
      else bind_res (lift_exc (sanitize_url False endpoint)) (\<lambda>s.
        if s \<noteq> endpoint then Inl (adapter_error ''search provider URLs cannot contain query secrets'') else Inr endpoint))"

definition policy_result :: "policy_exc + 'a \<Rightarrow> py_exc + 'a" where
  "policy_result m = (case m of
     Inl (PolicyBlocked reason decisions) \<Rightarrow> Inl (policy_exc_of reason decisions)
   | Inl (PolicyRaised e) \<Rightarrow> Inl (value_exc e)
   | Inr x \<Rightarrow> Inr x)"

definition search_limit :: "int \<Rightarrow> int" where
  "search_limit maximum_results = min 1000000 (max 4096 (maximum_results * 2048))"

fun search_chunks :: "int \<Rightarrow> int \<Rightarrow> string \<Rightarrow> string list \<Rightarrow> http_failure option \<Rightarrow> http_failure + string" where
  "search_chunks limit n body [] end = (case end of Some f \<Rightarrow> Inl f | None \<Rightarrow> Inr body)"
| "search_chunks limit n body (chunk # chunks) end =
     (if limit < n + int (length chunk) then Inl (HttpRaised (adapter_error ''search provider response exceeded its byte limit''))
      else search_chunks limit (n + int (length chunk)) (body @ chunk) chunks end)"

text \<open>One exchange: no redirect is followed and only a success is read.\<close>

definition search_response :: "int \<Rightarrow> raw_response \<Rightarrow> http_failure + string" where
  "search_response limit response =
     (if 300 \<le> rw_status_code response \<and> rw_status_code response \<le> 399
      then Inl (HttpRaised (adapter_error ''search provider redirects are forbidden''))
      else if \<not> (200 \<le> rw_status_code response \<and> rw_status_code response \<le> 299)
      then Inl (HttpFailed (simple_exc ExcOther ''HTTPStatusError'' ''status''))
      else search_chunks limit 0 [] (rw_chunks response) (rw_end response))"

fun search_exc :: "http_failure \<Rightarrow> py_exc" where
  "search_exc (HttpTimeout e) = caused_by (adapter_error ''search provider request failed'') e"
| "search_exc (HttpFailed e) = caused_by (adapter_error ''search provider request failed'') e"
| "search_exc (HttpRaised e) = e"

definition search_urls :: "search_services \<Rightarrow> string \<Rightarrow> py_exc + pyval" where
  "search_urls sv body =
     (case se_json sv body of
        Inl e \<Rightarrow> if ex_type_name e = ''JSONDecodeError'' then Inl (caused_by (adapter_error ''search provider returned malformed JSON'') e) else Inl e
      | Inr (VDict d) \<Rightarrow>
          (case map_of d ''urls'' of
             Some v \<Rightarrow> Inr v
           | None \<Rightarrow> Inl (caused_by (adapter_error ''search provider returned malformed JSON'') (value_exc (KeyError ''urls''))))
      | Inr _ \<Rightarrow> Inl (caused_by (adapter_error ''search provider returned malformed JSON'') (value_exc (PyTypeError ''not a mapping''))))"

definition normalized_value :: "pyval \<Rightarrow> string option" where
  "normalized_value v = (case v of
     VStr s \<Rightarrow> (case normalize_url s of Inr u \<Rightarrow> Some u | Inl _ \<Rightarrow> None)
   | _ \<Rightarrow> None)"

definition discovered_urls :: "int \<Rightarrow> pyval \<Rightarrow> py_exc + string list" where
  "discovered_urls maximum_results values =
     (case values of
        VList vs \<Rightarrow> Inr (dict_fromkeys (List.map_filter normalized_value (py_take maximum_results vs)))
      | _ \<Rightarrow> Inl (adapter_error ''search provider urls must be a list''))"

text \<open>The exchange with an allowed address, pinned when the transport is.\<close>

definition search_exchange :: "search_services \<Rightarrow> search_provider \<Rightarrow> string \<Rightarrow> safe_url_policy \<Rightarrow> int \<Rightarrow> py_exc + string list" where
  "search_exchange sv sp endpoint policy maximum_results =
     bind_res (lift_exc (urlsplit endpoint)) (\<lambda>parts.
     let addresses = validated_addresses policy (sr_hostname parts) in
     bind_res (if sp_pinned sp then bind_res (lift_exc (pin (sr_hostname parts) addresses \<lparr>nb_pins = [], nb_cursor = []\<rparr>)) (\<lambda>_. Inr (Some addresses))
               else Inr None) (\<lambda>pins.
     bind_res (case bind_res (se_stream sv endpoint pins) (search_response (search_limit maximum_results)) of
         Inl f \<Rightarrow> Inl (search_exc f) | Inr body \<Rightarrow> Inr body) (\<lambda>body.
     bind_res (search_urls sv body) (discovered_urls maximum_results))))"

definition discover :: "search_services \<Rightarrow> search_provider \<Rightarrow> string \<Rightarrow> int \<Rightarrow> (py_exc + string list) \<times> search_provider" where
  "discover sv sp host maximum_results =
     (case bind_res (search_endpoint sp host) (\<lambda>endpoint. policy_result (evaluate (se_resolver sv) (sp_provider_policy sp) endpoint None)) of
        Inl e \<Rightarrow> (Inl e, sp)
      | Inr (endpoint, _, policy) \<Rightarrow>
          (search_exchange sv sp endpoint policy maximum_results, sp\<lparr>sp_provider_policy := policy\<rparr>))"

section \<open>Correctness of the search connector\<close>

lemma search_chunks_Inr:
  "search_chunks limit n body chunks end = Inr content \<Longrightarrow> n = int (length body) \<Longrightarrow> n \<le> limit \<Longrightarrow> int (length content) \<le> limit"
  by (induction limit n body chunks "end" rule: search_chunks.induct) (auto split: option.splits if_splits)

lemma search_chunks_body: "search_chunks limit n body chunks end = Inr content \<Longrightarrow> content = body @ concat chunks"
  by (induction limit n body chunks "end" rule: search_chunks.induct) (auto split: option.splits if_splits)

lemma discovered_urls_Inr:
  assumes "discovered_urls n values = Inr urls"
  shows "0 \<le> n \<Longrightarrow> int (length urls) \<le> n" "distinct urls" "u \<in> set urls \<Longrightarrow> \<exists>s. normalize_url s = Inr u"
proof -
  from assms obtain vs where u: "urls = dict_fromkeys (List.map_filter normalized_value (py_take n vs))"
    by (auto simp: discovered_urls_def split: pyval.splits)
  have "length urls \<le> length (List.map_filter normalized_value (py_take n vs))"
    unfolding u length_dict_fromkeys by (rule card_length)
  also have "\<dots> \<le> length (py_take n vs)" by (simp add: map_filter_def)
  finally have "length urls \<le> length (py_take n vs)" .
  then show "int (length urls) \<le> n" if "0 \<le> n" using length_py_take [OF that, of vs] by simp
  show "distinct urls" by (simp add: u dict_fromkeys_distinct)
  show "\<exists>s. normalize_url s = Inr u" if mem: "u \<in> set urls"
  proof -
    obtain v where "normalized_value v = Some u" using mem by (auto simp: u dict_fromkeys_set map_filter_def)
    then show ?thesis by (auto simp: normalized_value_def split: pyval.splits sum.splits)
  qed
qed

lemma policy_result_Inr [simp]: "policy_result m = Inr x \<longleftrightarrow> m = Inr x"
  by (auto simp: policy_result_def split: sum.splits policy_exc.splits)

lemma search_response_Inr:
  assumes "search_response (search_limit n) response = Inr body"
  shows "200 \<le> rw_status_code response \<and> rw_status_code response \<le> 299 \<and> body = concat (rw_chunks response) \<and> int (length body) \<le> search_limit n"
proof -
  from assms have s: "200 \<le> rw_status_code response" "rw_status_code response \<le> 299"
    and c: "search_chunks (search_limit n) 0 [] (rw_chunks response) (rw_end response) = Inr body"
    by (auto simp: search_response_def split: if_splits)
  have "int (length body) \<le> search_limit n" by (rule search_chunks_Inr [OF c]) (simp_all add: search_limit_def)
  with s search_chunks_body [OF c] show ?thesis by simp
qed

text \<open>
  An exchange that the provider may have: with the address of its template for the host, which is an
  HTTPS one without secrets, as the policy lets it through; with the pinned transport it is bound to
  the addresses that the policy recorded for the host, all of them public. A transport that was
  handed in and is not the pinned one gets no pins.
\<close>

definition search_allowed :: "search_services \<Rightarrow> search_provider \<Rightarrow> string \<Rightarrow> string \<Rightarrow> string list option \<Rightarrow> bool" where
  "search_allowed sv sp host endpoint pins \<longleftrightarrow>
     (\<exists>requested decisions policy parts. requested = py_replace ''{query}'' (quote_strict (''site:'' @ host)) (sp_template sp) \<and>
        py_startswith requested ''https://'' \<and> sanitize_url False requested = Inr requested \<and>
        evaluate (se_resolver sv) (sp_provider_policy sp) requested None = Inr (endpoint, decisions, policy) \<and> urlsplit endpoint = Inr parts \<and>
        (if sp_pinned sp
         then \<exists>addresses. pins = Some addresses \<and> addresses = validated_addresses policy (sr_hostname parts) \<and> addresses \<noteq> [] \<and>
           (\<forall>a. a \<in> set addresses \<longrightarrow> is_public_address a = Inr True)
         else pins = None))"

definition same_exchanges :: "search_provider \<Rightarrow> string \<Rightarrow> search_services \<Rightarrow> search_services \<Rightarrow> bool" where
  "same_exchanges sp host sv sv' \<longleftrightarrow> (\<exists>g. sv' = sv\<lparr>se_stream := g\<rparr> \<and>
     (\<forall>endpoint pins. search_allowed sv sp host endpoint pins \<longrightarrow> g endpoint pins = se_stream sv endpoint pins))"

lemma search_endpoint_Inr:
  "search_endpoint sp host = Inr requested \<longleftrightarrow> requested = py_replace ''{query}'' (quote_strict (''site:'' @ host)) (sp_template sp) \<and>
     py_startswith requested ''https://'' \<and> sanitize_url False requested = Inr requested"
  unfolding search_endpoint_def Let_def by (auto simp: lift_exc_def split: if_splits sum.splits)

lemma allowed_exchange:
  assumes "search_endpoint sp host = Inr requested" "evaluate (se_resolver sv) (sp_provider_policy sp) requested None = Inr (endpoint, decisions, policy)"
    "urlsplit endpoint = Inr parts" "pins_public (sp_provider_policy sp)"
    "(if sp_pinned sp then bind_res (lift_exc (pin (sr_hostname parts) (validated_addresses policy (sr_hostname parts)) \<lparr>nb_pins = [], nb_cursor = []\<rparr>))
        (\<lambda>_. Inr (Some (validated_addresses policy (sr_hostname parts)))) else Inr None) = Inr pins"
  shows "search_allowed sv sp host endpoint pins"
proof -
  have "pins_public policy" by (rule pins_public_evaluate(1) [OF assms(2,4)])
  then have "\<forall>a. a \<in> set (validated_addresses policy (sr_hostname parts)) \<longrightarrow> is_public_address a = Inr True"
    by (cases "sp_validated_addresses policy (normal_host (sr_hostname parts))") (auto simp: pins_public_def validated_addresses_def)
  then show ?thesis
    using assms(1-3,5) unfolding search_allowed_def search_endpoint_Inr by (auto simp: pin_def raise_if_def split: if_splits)
qed

lemma search_exchange_Inr:
  assumes "search_exchange sv sp endpoint policy n = Inr urls"
  obtains parts pins response body vals where "urlsplit endpoint = Inr parts"
    "(if sp_pinned sp then bind_res (lift_exc (pin (sr_hostname parts) (validated_addresses policy (sr_hostname parts)) \<lparr>nb_pins = [], nb_cursor = []\<rparr>))
        (\<lambda>_. Inr (Some (validated_addresses policy (sr_hostname parts)))) else Inr None) = Inr pins"
    "se_stream sv endpoint pins = Inr response" "search_response (search_limit n) response = Inr body" "search_urls sv body = Inr vals"
    "discovered_urls n vals = Inr urls"
proof -
  from assms obtain parts pins body vals where p: "urlsplit endpoint = Inr parts"
    and pins: "(if sp_pinned sp then bind_res (lift_exc (pin (sr_hostname parts) (validated_addresses policy (sr_hostname parts)) \<lparr>nb_pins = [], nb_cursor = []\<rparr>))
        (\<lambda>_. Inr (Some (validated_addresses policy (sr_hostname parts)))) else Inr None) = Inr pins"
    and r: "(case bind_res (se_stream sv endpoint pins) (search_response (search_limit n)) of Inl f \<Rightarrow> Inl (search_exc f) | Inr body \<Rightarrow> Inr body) = Inr body"
    and u: "search_urls sv body = Inr vals" "discovered_urls n vals = Inr urls"
    unfolding search_exchange_def Let_def bind_res_eq_Inr lift_exc_Inr by blast
  obtain response where "se_stream sv endpoint pins = Inr response" "search_response (search_limit n) response = Inr body"
    using r by (cases "bind_res (se_stream sv endpoint pins) (search_response (search_limit n))") auto
  with p pins u show thesis using that by blast
qed

lemma discover_Inr:
  assumes "discover sv sp host n = (Inr urls, sp')"
  obtains requested endpoint decisions policy where "search_endpoint sp host = Inr requested"
    "evaluate (se_resolver sv) (sp_provider_policy sp) requested None = Inr (endpoint, decisions, policy)"
    "search_exchange sv sp endpoint policy n = Inr urls"
proof (cases "bind_res (search_endpoint sp host) (\<lambda>endpoint. policy_result (evaluate (se_resolver sv) (sp_provider_policy sp) endpoint None))")
  case (Inl x)
  with assms show thesis by (simp add: discover_def)
next
  case (Inr x)
  obtain endpoint decisions policy where x: "x = (endpoint, decisions, policy)" by (cases x)
  with assms Inr have "search_exchange sv sp endpoint policy n = Inr urls" by (simp add: discover_def)
  then show thesis using that Inr by (auto simp: x)
qed

text \<open>An exchange that is not allowed is never made: whatever it would answer, and also when the search fails.\<close>

lemma bind_res_same: "(\<And>x. m = Inr x \<Longrightarrow> f x = g x) \<Longrightarrow> bind_res m f = bind_res m g"
  by (cases m) simp_all

lemma search_exchange_same:
  assumes "same_exchanges sp host sv sv'" "pins_public (sp_provider_policy sp)" "search_endpoint sp host = Inr requested"
    "evaluate (se_resolver sv) (sp_provider_policy sp) requested None = Inr (endpoint, decisions, policy)"
  shows "search_exchange sv' sp endpoint policy n = search_exchange sv sp endpoint policy n"
proof -
  obtain g where g: "sv' = sv\<lparr>se_stream := g\<rparr>" "\<And>endpoint pins. search_allowed sv sp host endpoint pins \<Longrightarrow> g endpoint pins = se_stream sv endpoint pins"
    using assms(1) unfolding same_exchanges_def by blast
  have u: "search_urls sv' = search_urls sv" unfolding fun_eq_iff search_urls_def by (simp add: g(1))
  show ?thesis unfolding search_exchange_def Let_def u
  proof (rule bind_res_same, rule bind_res_same)
    fix parts pins
    assume p: "lift_exc (urlsplit endpoint) = Inr parts"
      "(if sp_pinned sp then bind_res (lift_exc (pin (sr_hostname parts) (validated_addresses policy (sr_hostname parts)) \<lparr>nb_pins = [], nb_cursor = []\<rparr>))
        (\<lambda>_. Inr (Some (validated_addresses policy (sr_hostname parts)))) else Inr None) = Inr pins"
    have "search_allowed sv sp host endpoint pins" using allowed_exchange [OF assms(3,4) _ assms(2) p(2)] p(1) by simp
    then have e: "se_stream sv' endpoint pins = se_stream sv endpoint pins" using g by simp
    show "bind_res (case bind_res (se_stream sv' endpoint pins) (search_response (search_limit n)) of Inl f \<Rightarrow> Inl (search_exc f) | Inr body \<Rightarrow> Inr body)
        (\<lambda>body. bind_res (search_urls sv body) (discovered_urls n)) =
      bind_res (case bind_res (se_stream sv endpoint pins) (search_response (search_limit n)) of Inl f \<Rightarrow> Inl (search_exc f) | Inr body \<Rightarrow> Inr body)
        (\<lambda>body. bind_res (search_urls sv body) (discovered_urls n))"
      unfolding e by (rule refl)
  qed
qed

lemma discover_same:
  assumes "same_exchanges sp host sv sv'" "pins_public (sp_provider_policy sp)"
  shows "discover sv' sp host n = discover sv sp host n"
proof -
  have r: "se_resolver sv' = se_resolver sv" using assms(1) unfolding same_exchanges_def by auto
  show ?thesis
  proof (cases "bind_res (search_endpoint sp host) (\<lambda>endpoint. policy_result (evaluate (se_resolver sv) (sp_provider_policy sp) endpoint None))")
    case (Inr x)
    obtain endpoint decisions policy where x: "x = (endpoint, decisions, policy)" by (cases x)
    with Inr obtain requested where q: "search_endpoint sp host = Inr requested"
        "evaluate (se_resolver sv) (sp_provider_policy sp) requested None = Inr (endpoint, decisions, policy)" by auto
    show ?thesis using search_exchange_same [OF assms q] by (simp add: discover_def r Inr x)
  qed (simp add: discover_def r)
qed

text \<open>
  C31: the search connector talks to its endpoint only, and returns what that answered. A search, also one that
  fails, does not depend on any other exchange than the one with the HTTPS address that its template
  has for the host, which names no secrets and which the policy let through; with the pinned
  transport (the default) that exchange is bound to the public addresses that the policy recorded.
  When addresses are returned, the exchange was a success that fits the byte limit, and they are the
  distinct normal forms of the first entries of the list in the body that was read, at most the given number.
\<close>

theorem search_results_sound:
  assumes "same_exchanges sp host sv sv'" "pins_public (sp_provider_policy sp)" "0 \<le> maximum_results"
  shows "discover sv' sp host maximum_results = discover sv sp host maximum_results \<and>
    (\<forall>urls sp'. discover sv sp host maximum_results = (Inr urls, sp') \<longrightarrow>
       int (length urls) \<le> maximum_results \<and> distinct urls \<and> (\<forall>u\<in>set urls. \<exists>s. normalize_url s = Inr u) \<and>
       (\<exists>endpoint pins response body vals. search_allowed sv sp host endpoint pins \<and> se_stream sv endpoint pins = Inr response \<and>
          200 \<le> rw_status_code response \<and> rw_status_code response \<le> 299 \<and> body = concat (rw_chunks response) \<and>
          int (length body) \<le> min 1000000 (max 4096 (maximum_results * 2048)) \<and> search_urls sv body = Inr (VList vals) \<and>
          urls = dict_fromkeys (List.map_filter normalized_value (py_take maximum_results vals))))"
proof (intro conjI allI impI)
  show "discover sv' sp host maximum_results = discover sv sp host maximum_results" by (rule discover_same [OF assms(1,2)])
next
  fix urls sp'
  assume "discover sv sp host maximum_results = (Inr urls, sp')"
  then obtain requested endpoint decisions policy where d: "search_endpoint sp host = Inr requested"
    "evaluate (se_resolver sv) (sp_provider_policy sp) requested None = Inr (endpoint, decisions, policy)"
    "search_exchange sv sp endpoint policy maximum_results = Inr urls"
    by (rule discover_Inr)
  obtain parts pins response body v where e: "urlsplit endpoint = Inr parts"
    "(if sp_pinned sp then bind_res (lift_exc (pin (sr_hostname parts) (validated_addresses policy (sr_hostname parts)) \<lparr>nb_pins = [], nb_cursor = []\<rparr>))
        (\<lambda>_. Inr (Some (validated_addresses policy (sr_hostname parts)))) else Inr None) = Inr pins"
    "se_stream sv endpoint pins = Inr response" "search_response (search_limit maximum_results) response = Inr body" "search_urls sv body = Inr v"
    "discovered_urls maximum_results v = Inr urls"
    by (rule search_exchange_Inr [OF d(3)])
  have al: "search_allowed sv sp host endpoint pins" by (rule allowed_exchange [OF d(1,2) e(1) assms(2) e(2)])
  obtain vals where v: "v = VList vals" "urls = dict_fromkeys (List.map_filter normalized_value (py_take maximum_results vals))"
    using e(6) by (auto simp: discovered_urls_def split: pyval.splits)
  show "int (length urls) \<le> maximum_results" "distinct urls" by (rule discovered_urls_Inr [OF e(6)] assms(3))+
  show "\<forall>u\<in>set urls. \<exists>s. normalize_url s = Inr u" using discovered_urls_Inr(3) [OF e(6)] by blast
  show "\<exists>endpoint pins response body vals. search_allowed sv sp host endpoint pins \<and> se_stream sv endpoint pins = Inr response \<and>
      200 \<le> rw_status_code response \<and> rw_status_code response \<le> 299 \<and> body = concat (rw_chunks response) \<and>
      int (length body) \<le> min 1000000 (max 4096 (maximum_results * 2048)) \<and> search_urls sv body = Inr (VList vals) \<and>
      urls = dict_fromkeys (List.map_filter normalized_value (py_take maximum_results vals))"
    using al e(3) search_response_Inr [OF e(4), unfolded search_limit_def] e(5) [unfolded v(1)] v(2) by blast
qed

text \<open>
  An answer of the connector that is not UTF-8 makes \<^verbatim>\<open>json.loads\<close> raise \<^verbatim>\<open>UnicodeDecodeError\<close>, which
  is a \<^verbatim>\<open>ValueError\<close> and not a \<^verbatim>\<open>JSONDecodeError\<close>: it is not reported as malformed JSON, and the
  crawl, which goes on without the search when the provider fails, ends with it instead.
\<close>

definition decode_error :: py_exc where
  "decode_error = simple_exc ExcValue ''UnicodeDecodeError'' ''invalid start byte''"

theorem undecodable_answer_ends_crawl:
  assumes "search_endpoint sp host = Inr requested" "evaluate (se_resolver sv) (sp_provider_policy sp) requested None = Inr (endpoint, decisions, policy)"
    and "urlsplit endpoint = Inr parts" "validated_addresses policy (sr_hostname parts) \<noteq> []" "sp_pinned sp"
    and "se_stream sv endpoint (Some (validated_addresses policy (sr_hostname parts))) = Inr response"
      "search_response (search_limit (min 20 pages)) response = Inr body" "se_json sv body = Inl decode_error"
    and "dv_search cv = Some (\<lambda>h n. fst (discover sv sp h n))" "may_search (xc_request (cw_context w))"
  shows "fst (search_frontier cv root_url host pages w) = Inl decode_error"
proof -
  have "fst (discover sv sp host (min 20 pages)) = Inl decode_error"
    using assms(1-8) by (simp add: discover_def search_exchange_def policy_result_def pin_def raise_if_def lift_exc_def search_urls_def decode_error_def simple_exc_def)
  then show ?thesis using assms(9,10) by (simp add: search_frontier_def Let_def is_adapter_execution_error_def decode_error_def simple_exc_def)
qed

subsection \<open>Witnesses\<close>

definition toy_search :: "(string \<Rightarrow> py_exc + pyval) \<Rightarrow> search_services" where
  "toy_search json = \<lparr>se_stream = (\<lambda>_ _. Inr \<lparr>rw_status_code = 200, rw_url = [], rw_headers = [], rw_chunks = [''ab'', ''c''], rw_end = None\<rparr>),
     se_resolver = public_resolver, se_json = json\<rparr>"

definition toy_answer :: "string \<Rightarrow> py_exc + pyval" where
  "toy_answer body = Inr (VDict [(''urls'', VList [VStr ''https://a.b/'', VInt 3, VStr ''https://a.b/'', VStr ''https://c.d/''])])"

definition toy_provider :: search_provider where
  "toy_provider = \<lparr>sp_template = ''https://find.example/s?q={query}'', sp_provider_policy = fresh_policy, sp_pinned = True\<rparr>"

lemma toy_discovers: "fst (discover (toy_search toy_answer) toy_provider ''a.b'' 3) = Inr [''https://a.b/'']"
  by code_simp

text \<open>A transport that answers in the same way when it is pinned, and refuses otherwise.\<close>

definition pinned_only :: "string \<Rightarrow> string list option \<Rightarrow> http_failure + raw_response" where
  "pinned_only endpoint pins = (if pins = None \<or> pins = Some [] then Inl (HttpRaised (adapter_error ''unpinned''))
     else se_stream (toy_search toy_answer) endpoint pins)"

theorem search_results_sound_witness:
  "discover ((toy_search toy_answer)\<lparr>se_stream := pinned_only\<rparr>) toy_provider ''a.b'' 3 = discover (toy_search toy_answer) toy_provider ''a.b'' 3 \<and>
   (\<exists>sp' endpoint pins. discover (toy_search toy_answer) toy_provider ''a.b'' 3 = (Inr [''https://a.b/''], sp') \<and>
      search_allowed (toy_search toy_answer) toy_provider ''a.b'' endpoint pins)"
proof -
  have s: "same_exchanges toy_provider ''a.b'' (toy_search toy_answer) ((toy_search toy_answer)\<lparr>se_stream := pinned_only\<rparr>)"
    unfolding same_exchanges_def by (rule exI [of _ pinned_only]) (auto simp: search_allowed_def pinned_only_def toy_provider_def)
  have p: "pins_public (sp_provider_policy toy_provider)" by (simp add: toy_provider_def fresh_policy_def pins_public_def)
  have m: "0 \<le> (3 :: int)" by simp
  obtain sp' where d: "discover (toy_search toy_answer) toy_provider ''a.b'' 3 = (Inr [''https://a.b/''], sp')"
    using toy_discovers by (metis prod.collapse)
  show ?thesis using search_results_sound [OF s p m] d by blast
qed

definition toy_crawl :: crawl where
  "toy_crawl = \<lparr>cw_context = ExecutionContext 1 ((default_request ''https://a.b/'')\<lparr>rq_policy_profile := ''allow_search_discovery''\<rparr>),
     cw_env = \<lparr>en_clock = 0, en_next_id = 1\<rparr>, cw_frontier = \<lparr>fo_items = [], fo_seen = [], fo_counters = no_counts\<rparr>, cw_targets = [],
     cw_pages_checked = 0, cw_pages_fetched = 0, cw_pages_failed = 0, cw_maximum_depth = 0\<rparr>"

definition toy_crawler :: "(string \<Rightarrow> int \<Rightarrow> py_exc + string list) \<Rightarrow> crawl_services" where
  "toy_crawler search = \<lparr>dv_http = (\<lambda>node ctx en. (ctx, en, None)), dv_batch_size = 1, dv_search = Some search, dv_tags = (\<lambda>_. []),
     dv_read = (\<lambda>_ _. Inr []), dv_put = (\<lambda>_. Inr ([], [], 0)), dv_dumps = (\<lambda>_. []),
     dv_unicode = \<lparr>uc_space = (\<lambda>_. False), uc_word = (\<lambda>_. True), uc_digit = (\<lambda>_. False), uc_casefold = (\<lambda>s. s)\<rparr>\<rparr>"

theorem undecodable_answer_ends_crawl_witness:
  "fst (search_frontier (toy_crawler (\<lambda>h n. fst (discover (toy_search (\<lambda>_. Inl decode_error)) toy_provider h n))) ''https://a.b/'' ''a.b'' 3 toy_crawl) = Inl decode_error"
proof -
  let ?q = "''https://find.example/s?q=site%3Aa.b''"
  have q: "search_endpoint toy_provider ''a.b'' = Inr ?q" by code_simp
  have "fst (the (case evaluate public_resolver fresh_policy ?q None of Inl _ \<Rightarrow> None | Inr x \<Rightarrow> Some x)) = ?q" "is_allowed (evaluate public_resolver fresh_policy ?q None)"
    by code_simp+
  then obtain decisions policy where e: "evaluate (se_resolver (toy_search (\<lambda>_. Inl decode_error))) (sp_provider_policy toy_provider) ?q None = Inr (?q, decisions, policy)"
    by (cases "evaluate public_resolver fresh_policy ?q None") (auto simp: toy_search_def toy_provider_def is_allowed_def)
  have v: "(case evaluate public_resolver fresh_policy ?q None of Inl _ \<Rightarrow> False | Inr (_, _, sp) \<Rightarrow> validated_addresses sp ''find.example'' \<noteq> [])"
    by code_simp
  obtain parts where p: "urlsplit ?q = Inr parts" and h: "sr_hostname parts = ''find.example''"
  proof -
    have "(case urlsplit ?q of Inl _ \<Rightarrow> False | Inr parts \<Rightarrow> sr_hostname parts = ''find.example'')" by code_simp
    then show thesis using that by (auto split: sum.splits)
  qed
  have n: "validated_addresses policy (sr_hostname parts) \<noteq> []" using v e by (simp add: h toy_search_def toy_provider_def)
  have r: "search_response (search_limit (min 20 3)) \<lparr>rw_status_code = 200, rw_url = [], rw_headers = [], rw_chunks = [''ab'', ''c''], rw_end = None\<rparr> = Inr ''abc''"
    by code_simp
  show ?thesis
    by (rule undecodable_answer_ends_crawl [OF q e p n _ _ r])
      (simp_all add: toy_provider_def toy_search_def toy_crawler_def toy_crawl_def may_search_def ExecutionContext_def default_request_def)
qed

end
