(* ===== verification/Spec2Isabelle.thy ===== *)
theory Spec2Isabelle
  imports Planning_Correct Executor_Correct Scheduling_Correct Logic_Correct Gateway_Live Cache_Correct Discovery Archive_Correct Auth_Correct Wayback_Correct Variants_Adapter Context_Broker Search
begin

text \<open>
  A verification development of Fetech, a policy-governed retrieval gateway (Python package
  \<^verbatim>\<open>src/src/fetech\<close>).

  \<^bold>\<open>The program.\<close> A client submits a fetch request. The gateway (\<^verbatim>\<open>gateway.py\<close>) records a run in
  the event ledger (\<^verbatim>\<open>ledger.py\<close>), asks the logic coordinator (\<^verbatim>\<open>logic/\<close>) for a plan, which the
  deterministic planner (\<^verbatim>\<open>planning.py\<close>) makes from the capability registry (\<^verbatim>\<open>registry.py\<close>), and
  starts a task. The task runs the executor (\<^verbatim>\<open>executor.py\<close>): it goes through the nodes of the plan,
  runs groups of them in parallel, enforces approvals, retries and budgets, calls adapters on a
  shared execution context (\<^verbatim>\<open>adapters/base.py\<close>), appends provenance events and stores the result.
  Destinations are checked by the URL policy (\<^verbatim>\<open>security.py\<close>), network operations wait for a slot of
  the scheduler (\<^verbatim>\<open>scheduling.py\<close>), credentials and sessions are bound to an origin (\<^verbatim>\<open>auth.py\<close>,
  \<^verbatim>\<open>auth_flows.py\<close>), bodies go
  to a content-addressed store (\<^verbatim>\<open>storage.py\<close>), are assessed (\<^verbatim>\<open>quality.py\<close>) and cached
  (\<^verbatim>\<open>adapters/cache.py\<close>).

  \<^bold>\<open>Theories.\<close>
  \<^item> \<^verbatim>\<open>Py_Prelude\<close>, \<^verbatim>\<open>Py_Ipaddress\<close>, \<^verbatim>\<open>Py_Urls\<close>: Python's strings, exceptions as values, and what
    the sources use of \<^verbatim>\<open>ipaddress\<close> and \<^verbatim>\<open>urllib.parse\<close>.
  \<^item> \<^verbatim>\<open>Models\<close> (\<^verbatim>\<open>models.py\<close>): the contract records, their constraints and validators.
  \<^item> \<^verbatim>\<open>Security\<close> (\<^verbatim>\<open>security.py\<close>): URL sanitising and normalisation, the destination policy. Shown:
    the policy fails closed, sanitised URLs do not depend on secrets, normalisation is idempotent
    where the host has no brackets, and two places where it is not what the callers assume.
  \<^item> \<^verbatim>\<open>Registry\<close> (\<^verbatim>\<open>registry.py\<close>, \<^verbatim>\<open>conformance.py\<close>): loading and validating the manifest; lookups
    resolve exactly the declared names.
  \<^item> \<^verbatim>\<open>Planning\<close>, \<^verbatim>\<open>Planning_Correct\<close> (\<^verbatim>\<open>planning.py\<close>): every section of the planner. Plans are
    topologically ordered, respect the capability policy by canonical identifiers (an alias in the
    deny list has no effect, which is shown too), mark mutations for approval and schedule what was
    requested.
  \<^item> \<^verbatim>\<open>Ledger\<close> (\<^verbatim>\<open>ledger.py\<close>): rows, redaction, subscriptions. The ledger is append-only, a
    stream yields each event once, and through whole histories the values under redacted keys do not
    influence it, as long as the presence of an authentication reference is the same.
  \<^item> \<^verbatim>\<open>Context\<close>, \<^verbatim>\<open>Executor\<close>, \<^verbatim>\<open>Executor_Frame\<close>, \<^verbatim>\<open>Executor_Correct\<close> (\<^verbatim>\<open>adapters/base.py\<close>,
    \<^verbatim>\<open>executor.py\<close>): contexts, retries, approvals, parallel batches, the run loop. \<open>Executor_Frame\<close>
    has the invariant rule of the main loop and the locale \<open>exec_frame\<close>, a relation between the
    states before and after that every part of the executor establishes as soon as emitting an
    event and the adapters do; it is interpreted for the log of a run, for fresh identifiers and,
    in \<open>Gateway_Correct\<close>, for what a task leaves alone.
  \<^item> \<^verbatim>\<open>Scheduling\<close>, \<^verbatim>\<open>Scheduling_Correct\<close> (\<^verbatim>\<open>scheduling.py\<close>): the admission of operations as a step
    relation over all interleavings; capacity, spacing and progress.
  \<^item> \<^verbatim>\<open>Logic\<close>, \<^verbatim>\<open>Logic_Correct\<close> (\<^verbatim>\<open>logic/\<close>): the solver backends and the coordinator; a solver can
    neither change a plan nor a verdict; an answer that is not UTF-8 gets past the fallback.
  \<^item> \<^verbatim>\<open>Gateway\<close>, \<^verbatim>\<open>Gateway_Correct\<close>, \<^verbatim>\<open>Gateway_Live\<close> (\<^verbatim>\<open>gateway.py\<close>, \<^verbatim>\<open>provenance.py\<close>, \<^verbatim>\<open>client.py\<close>):
    submission, tasks, recovery, closing; every task settles its run, the runtime graph has no
    dangling link. \<open>Gateway\<close> has the operations as functions; in \<open>Gateway_Live\<close> their parts between two
    awaits are the steps of a relation, so that submissions and recoveries interleave with each
    other and with tasks and can be cancelled or die in between: no run is lost but by such an abort,
    and then only until a recovery reads the ledger. The functions are shown to be sequences of
    these steps.
  \<^item> \<^verbatim>\<open>Auth\<close> (\<^verbatim>\<open>auth.py\<close>): canonical origins and credential material; credentials stay on their
    origin and the headers they contribute cannot be split or smuggled.
  \<^item> \<^verbatim>\<open>Auth_Flows\<close> (\<^verbatim>\<open>auth_flows.py\<close>), \<^verbatim>\<open>Auth_Adapter\<close> (\<^verbatim>\<open>adapters/auth.py\<close>), \<^verbatim>\<open>Auth_Correct\<close>: sessions, CSRF
    tokens, approvals and form proposals with their in-memory providers, and the adapter that uses
    them; the entries of the sensitive state it sets are fields of \<open>auth_state\<close>. A session
    contributes only a credential bound to its origin, a token never leaves the origin of its page,
    a form is sent only under a live approval of its exact target that the in-memory provider kept
    and has handed out; an approval that expired is reported as a missing dependency.
  \<^item> \<^verbatim>\<open>Storage\<close> (\<^verbatim>\<open>storage.py\<close>): the content-addressed store under interference by other processes,
    and cache keys; reads are verified, publishing is honest, what was put can be read back.
  \<^item> \<^verbatim>\<open>Quality\<close> (\<^verbatim>\<open>quality.py\<close>): page states, language detection and scores, and their contract.
  \<^item> \<^verbatim>\<open>Snapshots\<close>, \<^verbatim>\<open>Cache\<close>, \<^verbatim>\<open>Cache_Correct\<close> (\<^verbatim>\<open>adapters/cache.py\<close>): the snapshot store on top of the
    content store (its law of verified reads is the locale \<open>verified_store\<close>, interpreted by
    \<open>cas_get\<close>), and the cache adapter with its connectors. Lookups never cross partitions and return
    verified content only, metadata is immutable, what was stored is found, calls stay within their
    budgets and private requests never reach a connector.
  \<^item> \<^verbatim>\<open>Wayback\<close>, \<^verbatim>\<open>Wayback_Correct\<close> (\<^verbatim>\<open>wayback.py\<close>, the pins of \<^verbatim>\<open>transport.py\<close>): the HTTP client of the
    Internet Archive connector, its bounded readers, capture locators and the connector, as an
    instance of the connectors of \<open>Cache\<close>. It talks to the archive only and about public URLs only,
    what it returns is a capture of the URL asked for, and its accounting meets the contract of the
    cache adapter (locale \<open>metered_client\<close>, interpreted by \<open>wayback_get\<close>).
  \<^item> \<^verbatim>\<open>Variants\<close> (\<^verbatim>\<open>variants.py\<close>), \<^verbatim>\<open>Variants_Adapter\<close> (\<^verbatim>\<open>adapters/variants.py\<close>): the variants of a URL,
    none of which downgrades to HTTP, and the adapter that records and tries them: only for public
    targets without secrets, each once, with the bytes that are left, and within the attempts of the
    run.
  \<^item> \<^verbatim>\<open>Context_Broker\<close> (\<^verbatim>\<open>context.py\<close>): retrieval from the graph, the notes and exact matches, and the
    bundle. The trimming loop is a \<^term>\<open>while_option\<close> that is shown to end; a bundle stays within its
    token budget and notes lie in the vault; one of the configured budgets has no effect, and the
    score \<^verbatim>\<open>nan\<close> is accepted and upsets the order. Scores may be infinite or \<^verbatim>\<open>nan\<close> here.
  \<^item> \<^verbatim>\<open>Structured_Api\<close>, \<^verbatim>\<open>Structured_Api_Correct\<close> (\<^verbatim>\<open>adapters/api.py\<close>): the parsers of structured
    payloads with their hooks and limits, the normalisers of JSON, OpenAPI, XML, feeds and sitemaps,
    and the adapter. The two structure checks are one loop, whose locale \<open>bounded_tree\<close> is interpreted
    for JSON values and for XML elements: they accept exactly the trees within the limits. What is cut
    is counted, changes need approval, every artifact descends from an acquired body; declarations in
    UTF-16 and payloads nested too deeply get past the checks.
  \<^item> \<^verbatim>\<open>Search\<close> (\<^verbatim>\<open>search.py\<close>): the search connector of the crawl, over the policy and the pins. It
    talks to its allowed address only, and its results are bounded and come from there; an answer
    that is not UTF-8 ends the crawl.
  \<^item> \<^verbatim>\<open>Discovery\<close> (\<^verbatim>\<open>adapters/discovery.py\<close>): the crawl frontier and its loop, with the tokenizer of
    \<^verbatim>\<open>html.parser\<close> as a parameter. A crawl is bounded by its budgets and stays on its site; one
    malformed link ends it.
  \<^item> \<^verbatim>\<open>Archive\<close>, \<^verbatim>\<open>Archive_Correct\<close> (\<^verbatim>\<open>adapters/archive.py\<close>, \<^verbatim>\<open>archive_worker.py\<close>): member names, the
    extraction of ZIP and TAR members in the worker process, the validation of its answer and the
    adapter, over what \<^verbatim>\<open>zipfile\<close> and \<^verbatim>\<open>tarfile\<close> list. Whatever the worker says, accepted members
    are safe; the two processes agree; unpacking stays within the budgets.

  \<^bold>\<open>Conventions.\<close> An exception is a value: \<open>py_error\<close> in the pure parts, \<open>py_exc\<close> with the
  attributes the handlers look at in the executor. State is passed explicitly. A Python string is
  the list of its UTF-8 bytes; identifiers are natural numbers handed out in increasing order; times
  and the real-valued budgets are rationals, so rounding of floats is not part of the model. Code
  outside the package is a parameter: the resolver, the solvers, the hash, the serialisation of the
  contract models, and the adapters, which are arbitrary functions on the context; properties that
  need more of them say so (\<open>forward_ids\<close>: identifiers are handed out in increasing order;
  \<open>one_attempt\<close>: one attempt is recorded per call). There is no fuel: every loop is a recursive
  function with a termination proof, and the parallel batches take the order in which tasks end as
  an argument.

  \<^bold>\<open>Not modelled.\<close> What else happens while a task executes its run (in \<open>Gateway_Live\<close> that execution is one
  step) and while a crawl fetches a batch; how Python sorts keys that are not comparable; names outside ASCII in the idna codec; failures of the database other than a
  duplicate key; the interleaving of two branches of a batch inside an adapter (a branch is one step
  when it ends); the use of a scheduler from a second event loop, which the code refuses; the
  adapters for documents, media, browsers and the HTTP transport, which drive third-party programs
  and sockets; worker isolation; the command line, the MCP and FastAPI front ends.
\<close>

end
